(* ===== verification/Prelude.thy ===== *)
theory Prelude
  imports Main "HOL-Library.Word"
begin

text \<open>
  Shared vocabulary of the development: bytes and Go strings, the functions of Go's
  \<open>strings\<close>, \<open>bytes\<close>, \<open>strconv\<close> and \<open>encoding/hex\<close> packages that the modelled code calls,
  Go times and durations, and the generic lemmas that several components use.

  A Go \<open>string\<close> is a sequence of bytes, modelled by Isabelle's \<open>string\<close> (a list of
  8-bit \<open>char\<close>); a \<open>[]byte\<close> is a list of \<open>8 word\<close>. The two are converted by
  \<open>bytes_of\<close> and \<open>string_of\<close>.
\<close>

unbundle bit_operations_syntax

named_theorems codec_simps "equations of encoders and decoders"
named_theorems frame_simps "fields an operation leaves alone"

type_synonym byte = "8 word"
type_synonym bytes = "8 word list"
type_synonym u32 = "32 word"
type_synonym u64 = "64 word"
type_synonym error = string

section \<open>Bytes and strings\<close>

definition byte_of :: "char \<Rightarrow> byte" where
  "byte_of c = word_of_nat (of_char c)"

definition char_of_byte :: "byte \<Rightarrow> char" where
  "char_of_byte b = char_of (unat b)"

definition bytes_of :: "string \<Rightarrow> bytes" where
  "bytes_of s = map byte_of s"

definition string_of :: "bytes \<Rightarrow> string" where
  "string_of bs = map char_of_byte bs"

lemma unat_byte_less [simp]: "unat (b :: byte) < 256"
  using unsigned_less [of b, where ?'a = nat] by simp

lemma unat_word_of_nat_byte: "n < 256 \<Longrightarrow> unat (word_of_nat n :: byte) = n"
  by (simp add: unat_of_nat)

lemma of_char_less [simp]: "(of_char c :: nat) < 256"
  by (cases c) (simp add: of_char_def)

lemma char_of_byte_byte_of [simp]: "char_of_byte (byte_of c) = c"
  by (simp add: char_of_byte_def byte_of_def unat_of_nat)

lemma byte_of_char_of_byte [simp]: "byte_of (char_of_byte b) = b"
  by (simp add: char_of_byte_def byte_of_def)

lemma string_of_bytes_of [simp]: "string_of (bytes_of s) = s"
  by (simp add: string_of_def bytes_of_def comp_def)

lemma bytes_of_string_of [simp]: "bytes_of (string_of b) = b"
  by (simp add: string_of_def bytes_of_def comp_def)

lemma length_bytes_of [simp]: "length (bytes_of s) = length s"
  by (simp add: bytes_of_def)

lemma length_string_of [simp]: "length (string_of b) = length b"
  by (simp add: string_of_def)

lemma bytes_of_append [simp]: "bytes_of (s @ t) = bytes_of s @ bytes_of t"
  by (simp add: bytes_of_def)

lemma bytes_of_inject [simp]: "bytes_of s = bytes_of t \<longleftrightarrow> s = t"
  by (metis string_of_bytes_of)


section \<open>Lists: separators\<close>

text \<open>
  \<open>bytes.Split\<close> and \<open>strings.Split\<close> with a one-element separator, and \<open>strings.Join\<close>.
\<close>

fun split_on :: "'a \<Rightarrow> 'a list \<Rightarrow> 'a list list" where
  "split_on s [] = [[]]"
| "split_on s (x # xs) =
     (if x = s then [] # split_on s xs
      else (case split_on s xs of [] \<Rightarrow> [[x]] | p # ps \<Rightarrow> (x # p) # ps))"

fun join_with :: "'a list \<Rightarrow> 'a list list \<Rightarrow> 'a list" where
  "join_with sep [] = []"
| "join_with sep [p] = p"
| "join_with sep (p # q # ps) = p @ sep @ join_with sep (q # ps)"

lemma split_on_not_Nil [simp]: "split_on s xs \<noteq> []"
  by (induction xs) (auto split: list.splits)

lemma split_on_absent: "s \<notin> set xs \<Longrightarrow> split_on s xs = [xs]"
  by (induction xs) auto

lemma split_on_append: "s \<notin> set xs \<Longrightarrow> split_on s (xs @ s # ys) = xs # split_on s ys"
  by (induction xs) auto

lemma split_on_parts: "p \<in> set (split_on s xs) \<Longrightarrow> s \<notin> set p"
proof (induction xs arbitrary: p)
  case (Cons x xs)
  then show ?case
    by (cases "split_on s xs") (auto split: if_splits)
qed simp

lemma split_on_length_le: "p \<in> set (split_on s xs) \<Longrightarrow> length p \<le> length xs"
proof (induction xs arbitrary: p)
  case (Cons x xs)
  then show ?case
    by (cases "split_on s xs") (fastforce split: if_splits intro: le_SucI)+
qed simp

lemma split_on_length_less:
  "s \<in> set xs \<Longrightarrow> p \<in> set (split_on s xs) \<Longrightarrow> length p < length xs"
proof (induction xs arbitrary: p)
  case (Cons x xs)
  show ?case
  proof (cases "x = s")
    case True
    with Cons.prems(2) have "p = [] \<or> p \<in> set (split_on s xs)" by simp
    then show ?thesis by (auto dest: split_on_length_le intro: le_imp_less_Suc)
  next
    case False
    with Cons.prems(1) have s: "s \<in> set xs" by simp
    obtain q qs where q: "split_on s xs = q # qs" by (cases "split_on s xs") auto
    with False Cons.prems(2) have "p = x # q \<or> p \<in> set qs" by simp
    with Cons.IH [OF s] q show ?thesis by (auto intro: less_SucI)
  qed
qed simp

lemma split_on_join_with:
  "ps \<noteq> [] \<Longrightarrow> \<forall>p \<in> set ps. s \<notin> set p \<Longrightarrow> split_on s (join_with [s] ps) = ps"
proof (induction "[s]" ps rule: join_with.induct)
  case (3 p q ps)
  then show ?case by (simp add: split_on_append)
qed (auto simp: split_on_absent)

lemma join_with_split_on: "join_with [s] (split_on s xs) = xs"
proof (induction xs)
  case (Cons x xs)
  obtain q qs where q: "split_on s xs = q # qs" by (cases "split_on s xs") auto
  with Cons show ?case by (cases qs) auto
qed simp

lemma last_append_replicate: "0 < n \<Longrightarrow> last (xs @ replicate n x) = x"
  by simp

lemma map_nth_take: "n \<le> length xs \<Longrightarrow> map ((!) xs) [0..<n] = take n xs"
  by (rule nth_equalityI) simp_all

section \<open>Package strings\<close>

definition has_prefix :: "'a list \<Rightarrow> 'a list \<Rightarrow> bool" where
  "has_prefix s p \<longleftrightarrow> take (length p) s = p"

definition has_suffix :: "'a list \<Rightarrow> 'a list \<Rightarrow> bool" where
  "has_suffix s p \<longleftrightarrow> has_prefix (rev s) (rev p)"

fun contains_sub :: "'a list \<Rightarrow> 'a list \<Rightarrow> bool" where
  "contains_sub [] p \<longleftrightarrow> p = []"
| "contains_sub (c # s) p \<longleftrightarrow> has_prefix (c # s) p \<or> contains_sub s p"

definition trim_prefix :: "'a list \<Rightarrow> 'a list \<Rightarrow> 'a list" where
  "trim_prefix s p = (if has_prefix s p then drop (length p) s else s)"

definition trim_right :: "string \<Rightarrow> string \<Rightarrow> string" where
  "trim_right s cutset = rev (dropWhile (\<lambda>c. c \<in> set cutset) (rev s))"

lemma has_prefix_append [simp]: "has_prefix (p @ s) p"
  by (simp add: has_prefix_def)

lemma has_prefix_iff: "has_prefix s p \<longleftrightarrow> (\<exists>r. s = p @ r)"
  by (metis append_take_drop_id has_prefix_append has_prefix_def)

lemma trim_prefix_append [simp]: "trim_prefix (p @ s) p = s"
  by (simp add: trim_prefix_def)

lemma contains_sub_prefix: "has_prefix s p \<Longrightarrow> contains_sub s p"
  by (cases s) (auto simp: has_prefix_def)

lemma contains_sub_append_left: "contains_sub s p \<Longrightarrow> contains_sub (t @ s) p"
  by (induction t) auto

text \<open>
  \<open>strings.TrimSpace\<close> strips the UTF-8 encodings of the characters that \<open>unicode.IsSpace\<close>
  accepts: the ASCII white space, U+0085, U+00A0, U+1680, U+2000 to U+200A, U+2028, U+2029,
  U+202F, U+205F and U+3000.
\<close>

definition space_seqs :: "nat list list" where
  "space_seqs = [[9], [10], [11], [12], [13], [32], [194, 133], [194, 160], [225, 154, 128]] @
     map (\<lambda>k. [226, 128, k]) ([128..<139] @ [168, 169, 175]) @ [[226, 129, 159], [227, 128, 128]]"

definition space_strings :: "string list" where
  "space_strings = map (map char_of) space_seqs"

fun strip_seqs :: "'a list list \<Rightarrow> nat \<Rightarrow> 'a list \<Rightarrow> 'a list" where
  "strip_seqs seqs 0 s = s"
| "strip_seqs seqs (Suc n) s =
     (case find (has_prefix s) seqs of None \<Rightarrow> s | Some p \<Rightarrow> strip_seqs seqs n (drop (length p) s))"

definition trim_space :: "string \<Rightarrow> string" where
  "trim_space s =
     (let l = strip_seqs space_strings (length s) s
      in rev (strip_seqs (map rev space_strings) (length l) (rev l)))"

text \<open>White space is not printing ASCII, so trimming stops at a printing character.\<close>

definition printing :: "char \<Rightarrow> bool" where
  "printing c \<longleftrightarrow> 33 \<le> (of_char c :: nat) \<and> (of_char c :: nat) \<le> 126"

lemma space_strings_ends: "p \<in> set space_strings \<Longrightarrow> p \<noteq> [] \<and> \<not> printing (hd p) \<and> \<not> printing (last p)"
proof -
  have "\<forall>p\<in>set space_seqs. p \<noteq> [] \<and> (\<forall>k\<in>set p. k < 256) \<and> \<not> (33 \<le> hd p \<and> hd p \<le> 126) \<and> \<not> (33 \<le> last p \<and> last p \<le> 126)"
    by (simp add: space_seqs_def upt_rec)
  moreover assume "p \<in> set space_strings"
  then obtain q where "q \<in> set space_seqs" "p = map char_of q" by (auto simp: space_strings_def)
  ultimately show ?thesis
    by (auto simp: printing_def hd_map last_map)
qed

lemma strip_seqs_stop:
  assumes "\<forall>p\<in>set seqs. p \<noteq> [] \<and> (\<forall>x. hd p = x \<longrightarrow> x \<noteq> a)"
  shows "strip_seqs seqs n (a # s) = a # s"
proof -
  have "find (has_prefix (a # s)) seqs = None"
    using assms by (auto simp: find_None_iff has_prefix_iff) (metis append_eq_Cons_conv list.sel(1))
  then show ?thesis by (cases n) simp_all
qed

lemma trim_space_printing [simp]:
  assumes "s \<noteq> []" "printing (hd s)" "printing (last s)"
  shows "trim_space s = s"
proof -
  obtain a s' where s: "s = a # s'" using assms(1) by (cases s) auto
  have 1: "strip_seqs space_strings n s = s" for n
    unfolding s using assms(2) s space_strings_ends by (intro strip_seqs_stop) auto
  obtain b t where r: "rev s = b # t" using assms(1) by (cases "rev s") auto
  have "printing b" using r assms(3) by (metis last_rev list.sel(1) rev_rev_ident)
  then have 2: "strip_seqs (map rev space_strings) n (rev s) = rev s" for n
    unfolding r using space_strings_ends by (intro strip_seqs_stop) (auto simp: hd_rev)
  show ?thesis by (simp add: trim_space_def 1 2)
qed

lemma trim_space_line [simp]:
  assumes "s \<noteq> []" "printing (hd s)" "printing (last s)"
  shows "trim_space (s @ [CHR 0x0A]) = s"
proof -
  obtain a s' where s: "s = a # s'" using assms(1) by (cases s) auto
  have 1: "strip_seqs space_strings n (s @ [CHR 0x0A]) = s @ [CHR 0x0A]" for n
    unfolding s append_Cons using assms(2) s space_strings_ends by (intro strip_seqs_stop) auto
  obtain b t where r: "rev s = b # t" using assms(1) by (cases "rev s") auto
  have pb: "printing b" using r assms(3) by (metis last_rev list.sel(1) rev_rev_ident)
  have 2: "strip_seqs (map rev space_strings) n (b # t) = b # t" for n
    using pb space_strings_ends by (intro strip_seqs_stop) (auto simp: hd_rev)
  have f: "find (has_prefix (CHR 0x0A # rev s)) (map rev space_strings) = Some [CHR 0x0A]"
    by (simp add: space_strings_def space_seqs_def has_prefix_def char_of_def bit_0)
  have "strip_seqs (map rev space_strings) (Suc (length s)) (CHR 0x0A # rev s) =
      strip_seqs (map rev space_strings) (length s) (rev s)"
    by (simp only: strip_seqs.simps f option.case list.size drop_Suc_Cons drop_0 One_nat_def) simp
  also have "\<dots> = rev s" unfolding r by (rule 2)
  finally show ?thesis by (simp add: trim_space_def 1 Let_def del: strip_seqs.simps)
qed

text \<open>\<open>strings.Fields\<close>: the parts between runs of white space.\<close>

fun string_fields_go :: "nat \<Rightarrow> string \<Rightarrow> string \<Rightarrow> string list" where
  "string_fields_go 0 cur s = (if cur = [] then [] else [cur])"
| "string_fields_go (Suc n) cur s =
     (if s = [] then (if cur = [] then [] else [cur])
      else case find (has_prefix s) space_strings of
        Some p \<Rightarrow> (if cur = [] then [] else [cur]) @ string_fields_go n [] (drop (length p) s)
      | None \<Rightarrow> string_fields_go n (cur @ [hd s]) (tl s))"

definition string_fields :: "string \<Rightarrow> string list" where
  "string_fields s = string_fields_go (Suc (length s)) [] s"

text \<open>
  \<open>strings.ToLower\<close> on its ASCII range; the code lowers flag names, host names and
  environment keys, which are ASCII.
\<close>

definition to_lower_char :: "char \<Rightarrow> char" where
  "to_lower_char c =
     (let n = (of_char c :: nat) in if 65 \<le> n \<and> n \<le> 90 then char_of (n + 32) else c)"

definition to_lower :: "string \<Rightarrow> string" where
  "to_lower s = map to_lower_char s"

definition replace_char :: "char \<Rightarrow> char \<Rightarrow> string \<Rightarrow> string" where
  "replace_char a b s = map (\<lambda>c. if c = a then b else c) s"

section \<open>Package strconv\<close>

definition digit_char :: "nat \<Rightarrow> char" where
  "digit_char d = char_of (48 + d)"

fun show_nat :: "nat \<Rightarrow> string" where
  "show_nat n = (if n < 10 then [digit_char n] else show_nat (n div 10) @ [digit_char (n mod 10)])"

declare show_nat.simps [simp del]

definition itoa :: "int \<Rightarrow> string" where
  "itoa i = (if i < 0 then CHR ''-'' # show_nat (nat (- i)) else show_nat (nat i))"

definition digit_val :: "char \<Rightarrow> nat option" where
  "digit_val c = (let n = of_char c in if 48 \<le> n \<and> n \<le> 57 then Some (n - 48) else None)"

fun read_digits :: "nat \<Rightarrow> string \<Rightarrow> nat option" where
  "read_digits acc [] = Some acc"
| "read_digits acc (c # cs) =
     (case digit_val c of None \<Rightarrow> None | Some d \<Rightarrow> read_digits (10 * acc + d) cs)"

definition max_i64 :: int where "max_i64 = 2 ^ 63 - 1"
definition min_i64 :: int where "min_i64 = - (2 ^ 63)"

definition parseBool :: "string \<Rightarrow> bool option" where
  "parseBool s =
     (if s \<in> {''1'', ''t'', ''T'', ''TRUE'', ''true'', ''True''} then Some True
      else if s \<in> {''0'', ''f'', ''F'', ''FALSE'', ''false'', ''False''} then Some False
      else None)"

text \<open>Go's \<open>int\<close> and \<open>int64\<close> wrap around.\<close>

definition wrap64 :: "int \<Rightarrow> int" where
  "wrap64 i = sint (word_of_int i :: u64)"

lemma wrap64_id: "min_i64 \<le> i \<Longrightarrow> i \<le> max_i64 \<Longrightarrow> wrap64 i = i"
  by (simp add: wrap64_def min_i64_def max_i64_def sint_sbintrunc' signed_take_bit_int_eq_self)

text \<open>Go's \<open>/\<close> on integers truncates toward zero.\<close>

definition quot :: "int \<Rightarrow> int \<Rightarrow> int" where
  "quot a b = sgn a * sgn b * (\<bar>a\<bar> div \<bar>b\<bar>)"

text \<open>\<open>strconv.Atoi\<close> on a 64-bit platform: an optional sign, at least one digit, in range.\<close>

definition atoi :: "string \<Rightarrow> int option" where
  "atoi s =
     (let neg = (s \<noteq> [] \<and> hd s = CHR ''-'');
          ds = (if s \<noteq> [] \<and> (hd s = CHR ''-'' \<or> hd s = CHR ''+'') then tl s else s)
      in if ds = [] then None
         else case read_digits 0 ds of
           None \<Rightarrow> None
         | Some n \<Rightarrow> (let v = (if neg then - int n else int n)
                      in if min_i64 \<le> v \<and> v \<le> max_i64 then Some v else None))"

lemma show_nat_not_Nil [simp]: "show_nat n \<noteq> []"
  by (subst show_nat.simps) simp

lemma of_char_digit_char [simp]: "d < 10 \<Longrightarrow> of_char (digit_char d) = 48 + d"
  by (simp add: digit_char_def)

lemma digit_val_digit_char [simp]: "d < 10 \<Longrightarrow> digit_val (digit_char d) = Some d"
  by (simp add: digit_val_def)

lemma show_nat_digits: "c \<in> set (show_nat n) \<Longrightarrow> \<exists>d < 10. c = digit_char d"
proof (induction n rule: show_nat.induct)
  case (1 n)
  show ?case
  proof (cases "n < 10")
    case True
    with 1(2) show ?thesis by (subst (asm) show_nat.simps) auto
  next
    case False
    with 1(2) have "c \<in> set (show_nat (n div 10)) \<or> c = digit_char (n mod 10)"
      by (subst (asm) show_nat.simps) auto
    with 1(1) [OF False] show ?thesis by (auto intro: exI [of _ "n mod 10"])
  qed
qed

lemma read_digits_append:
  "read_digits acc (xs @ ys) = Option.bind (read_digits acc xs) (\<lambda>a. read_digits a ys)"
  by (induction xs arbitrary: acc) (auto split: option.splits)

lemma read_digits_show_nat [simp]: "read_digits 0 (show_nat n) = Some n"
proof (induction n rule: show_nat.induct)
  case (1 n)
  show ?case
  proof (cases "n < 10")
    case True
    then show ?thesis by (subst show_nat.simps) simp
  next
    case False
    with 1 show ?thesis by (subst show_nat.simps) (simp add: read_digits_append)
  qed
qed

lemma digit_char_neq_sign:
  "d < 10 \<Longrightarrow> digit_char d \<noteq> CHR ''-''" "d < 10 \<Longrightarrow> digit_char d \<noteq> CHR ''+''"
  using of_char_digit_char [of d] by (auto dest: arg_cong [where f = "of_char :: char \<Rightarrow> nat"])

lemma hd_show_nat: "hd (show_nat n) \<noteq> CHR ''-'' \<and> hd (show_nat n) \<noteq> CHR ''+''"
proof -
  have "hd (show_nat n) \<in> set (show_nat n)" by (rule hd_in_set) simp
  then obtain d where "d < 10" "hd (show_nat n) = digit_char d"
    using show_nat_digits by blast
  then show ?thesis by (simp add: digit_char_neq_sign)
qed

lemma atoi_itoa [simp]: "min_i64 \<le> i \<Longrightarrow> i \<le> max_i64 \<Longrightarrow> atoi (itoa i) = Some i"
  using hd_show_nat [of "nat i"] by (simp add: atoi_def itoa_def Let_def)

lemma itoa_not_Nil [simp]: "itoa i \<noteq> []"
  by (simp add: itoa_def)

lemma show_nat_inj: "show_nat m = show_nat n \<longleftrightarrow> m = n"
  using read_digits_show_nat by (metis option.inject)

lemma itoa_inj: "itoa i = itoa j \<longleftrightarrow> i = j"
proof
  assume eq: "itoa i = itoa j"
  have hd: "show_nat m \<noteq> CHR ''-'' # xs" for m xs using hd_show_nat[of m] by auto
  show "i = j"
    using eq hd[of "nat i"] hd[of "nat j", symmetric] by (cases "i < 0"; cases "j < 0") (simp_all add: itoa_def show_nat_inj)
qed simp

section \<open>Package time\<close>

text \<open>
  A \<open>time.Time\<close> is the number of nanoseconds since the zero time (year 1), so \<open>0\<close> is the
  zero \<open>Time\<close> that \<open>IsZero\<close> tests; a \<open>time.Duration\<close> is a number of nanoseconds.
  \<open>Sub\<close> saturates at the range of a 64-bit \<open>Duration\<close>.
\<close>

type_synonym time = int
type_synonym duration = int

definition seconds :: "int \<Rightarrow> duration" where "seconds n = n * 1000000000"
definition minutes :: "int \<Rightarrow> duration" where "minutes n = n * 60000000000"
definition hours :: "int \<Rightarrow> duration" where "hours n = n * 3600000000000"

definition time_sub :: "time \<Rightarrow> time \<Rightarrow> duration" where
  "time_sub a b = max min_i64 (min max_i64 (a - b))"

lemma time_sub_less_iff: "d \<le> max_i64 \<Longrightarrow> min_i64 < d \<Longrightarrow> time_sub a b < d \<longleftrightarrow> a - b < d"
  by (auto simp: time_sub_def min_def max_def)

lemma time_sub_greater_iff: "d < max_i64 \<Longrightarrow> min_i64 \<le> d \<Longrightarrow> d < time_sub a b \<longleftrightarrow> d < a - b"
  by (auto simp: time_sub_def min_def max_def)

text \<open>Undoing a loop: run the inverse steps backwards.\<close>

lemma fold_undo:
  assumes "\<And>r x. g r (f r x) = x"
  shows "fold g (rev rs) (fold f rs x) = x"
  by (induction rs arbitrary: x) (simp_all add: assms)

lemma drop_prefix: "length p = n \<Longrightarrow> drop n (p @ r) = r"
  by simp

lemma take_prefix: "length p = n \<Longrightarrow> take n (p @ r) = p"
  by simp

section \<open>Trimming\<close>

lemma strip_seqs_suffix: "\<exists>p. s = p @ strip_seqs seqs n s"
proof (induction n arbitrary: s)
  case (Suc n)
  show ?case
  proof (cases "find (has_prefix s) seqs")
    case (Some p)
    then have "has_prefix s p" by (auto simp: find_Some_iff)
    then obtain r where r: "s = p @ r" by (auto simp: has_prefix_iff)
    obtain q where "r = q @ strip_seqs seqs n r" using Suc by blast
    then have "s = (p @ q) @ strip_seqs seqs (Suc n) s" using Some r by simp
    then show ?thesis by blast
  qed simp
qed simp

lemma strip_seqs_done:
  assumes "[] \<notin> set seqs" "length s \<le> n" "p \<in> set seqs"
  shows "\<not> has_prefix (strip_seqs seqs n s) p"
  using assms(2)
proof (induction n arbitrary: s)
  case 0
  then show ?case using assms(1,3) by (auto simp: has_prefix_def)
next
  case (Suc n)
  show ?case
  proof (cases "find (has_prefix s) seqs")
    case None
    then have "\<not> has_prefix s p" using assms(3) by (auto simp: find_None_iff)
    then show ?thesis using None by simp
  next
    case (Some q)
    then have "q \<in> set seqs" by (auto simp: find_Some_iff)
    then have "q \<noteq> []" using assms(1) by auto
    then show ?thesis using Some Suc by (cases q) auto
  qed
qed

text \<open>A string that trimming leaves alone.\<close>

definition trimmed :: "string \<Rightarrow> bool" where
  "trimmed s \<longleftrightarrow> (\<forall>p\<in>set space_strings. \<not> has_prefix s p \<and> \<not> has_suffix s p)"

lemma strip_seqs_none: "(\<And>p. p \<in> set seqs \<Longrightarrow> \<not> has_prefix s p) \<Longrightarrow> strip_seqs seqs n s = s"
proof -
  assume "\<And>p. p \<in> set seqs \<Longrightarrow> \<not> has_prefix s p"
  then have "find (has_prefix s) seqs = None" by (auto simp: find_None_iff)
  then show ?thesis by (cases n) simp_all
qed

lemma trim_space_trimmed: "trimmed s \<Longrightarrow> trim_space s = s"
proof -
  assume t: "trimmed s"
  have 1: "strip_seqs space_strings n s = s" for n
    using t by (intro strip_seqs_none) (auto simp: trimmed_def)
  have 2: "strip_seqs (map rev space_strings) n (rev s) = rev s" for n
    using t by (intro strip_seqs_none) (auto simp: trimmed_def has_suffix_def)
  show ?thesis by (simp add: trim_space_def 1 2)
qed

lemma trimmed_trim_space: "trimmed (trim_space s)"
proof -
  let ?l = "strip_seqs space_strings (length s) s"
  let ?r = "strip_seqs (map rev space_strings) (length ?l) (rev ?l)"
  have ne: "[] \<notin> set space_strings" "[] \<notin> set (map rev space_strings)" using space_strings_ends by auto
  have l: "\<not> has_prefix ?l p" if "p \<in> set space_strings" for p
    by (rule strip_seqs_done[OF ne(1) _ that]) simp
  have r: "\<not> has_prefix ?r (rev p)" if "p \<in> set space_strings" for p
    by (rule strip_seqs_done[OF ne(2)]) (use that in auto)
  obtain q where q: "rev ?l = q @ ?r" using strip_seqs_suffix by blast
  then have "?l = rev ?r @ rev q" by (metis rev_append rev_rev_ident)
  then have "\<not> has_prefix (rev ?r) p" if "p \<in> set space_strings" for p
    using l[OF that] by (metis append.assoc has_prefix_iff)
  then show ?thesis using r by (simp add: trimmed_def trim_space_def Let_def has_suffix_def)
qed

lemma trim_space_idem [simp]: "trim_space (trim_space s) = trim_space s"
  by (rule trim_space_trimmed[OF trimmed_trim_space])

lemma space_no_comma: "p \<in> set space_strings \<Longrightarrow> CHR '','' \<notin> set p"
proof -
  have "\<forall>p\<in>set space_seqs. \<forall>k\<in>set p. k < 256 \<and> k \<noteq> 44" by (simp add: space_seqs_def upt_rec)
  moreover assume "p \<in> set space_strings"
  then obtain q where "q \<in> set space_seqs" "p = map char_of q" by (auto simp: space_strings_def)
  moreover have "CHR '','' = char_of (44::nat)" by (simp add: char_of_def bit_0)
  ultimately show ?thesis by (auto simp: char_of_eq_iff)
qed

lemma has_prefix_cut:
  "c \<notin> set p \<Longrightarrow> has_prefix (x @ c # y) p \<longleftrightarrow> has_prefix x p"
proof (induction x arbitrary: p)
  case Nil
  then show ?case by (cases p) (auto simp: has_prefix_def)
next
  case (Cons a x)
  show ?case
  proof (cases p)
    case (Cons b q)
    then show ?thesis using Cons.IH[of q] Cons.prems by (simp add: has_prefix_def)
  qed (simp add: has_prefix_def)
qed

lemma trimmed_join:
  assumes "es \<noteq> []" "\<And>e. e \<in> set es \<Longrightarrow> e \<noteq> [] \<and> trimmed e"
  shows "trimmed (join_with '','' es) \<and> join_with '','' es \<noteq> []"
proof -
  have pre: "join_with '','' es = hd es \<or> (\<exists>r. join_with '','' es = hd es @ CHR '','' # r)"
    using assms(1) by (cases es rule: list.exhaust[case_names Nil Cons]) (auto simp: neq_Nil_conv split: list.splits, metis join_with.simps(3) append_Cons append_Nil neq_Nil_conv join_with.simps(2))
  have suf: "join_with '','' es = last es \<or> (\<exists>r. join_with '','' es = r @ CHR '','' # last es)"
    using assms(1)
  proof (induction "'',''" es rule: join_with.induct)
    case (3 p q ps)
    have "join_with '','' (p # q # ps) = p @ CHR '','' # join_with '','' (q # ps)" by simp
    then show ?case using "3.hyps" by (metis append.assoc append_Cons last_ConsR list.distinct(1))
  qed auto
  have "trimmed (hd es)" "trimmed (last es)" "hd es \<noteq> []" using assms by auto
  moreover have "has_prefix (join_with '','' es) p \<longleftrightarrow> has_prefix (hd es) p" if "p \<in> set space_strings" for p
    using pre has_prefix_cut[OF space_no_comma[OF that]] by auto
  moreover have "has_suffix (join_with '','' es) p \<longleftrightarrow> has_suffix (last es) p" if "p \<in> set space_strings" for p
    using suf has_prefix_cut[of "CHR '',''" "rev p"] space_no_comma[OF that] by (auto simp: has_suffix_def)
  ultimately show ?thesis
    using pre by (auto simp: trimmed_def)
qed

lemma set_strip_seqs: "set (strip_seqs seqs n s) \<subseteq> set s"
  using strip_seqs_suffix[of s seqs n] by (metis Un_iff set_append subsetI)

lemma set_trim_space: "set (trim_space s) \<subseteq> set s"
  using set_strip_seqs[of space_strings "length s" s]
    set_strip_seqs[of "map rev space_strings" "length (strip_seqs space_strings (length s) s)" "rev (strip_seqs space_strings (length s) s)"]
  by (auto simp: trim_space_def Let_def)

lemma trim_space_Nil [simp]: "trim_space [] = []"
  by (simp add: trim_space_def Let_def)

section \<open>Package path\<close>

text \<open>\<open>path.Base\<close>: the last element of a path without its trailing slashes.\<close>

definition path_base :: "string \<Rightarrow> string" where
  "path_base p =
     (if p = [] then ''.''
      else
        (let t = rev (dropWhile (\<lambda>c. c = CHR ''/'') (rev p)); b = rev (takeWhile (\<lambda>c. c \<noteq> CHR ''/'') (rev t))
         in if b = [] then ''/'' else b))"

section \<open>Host and port\<close>

definition last_index :: "char \<Rightarrow> string \<Rightarrow> nat option" where
  "last_index c s = (if c \<in> set s then Some (length s - 1 - length (takeWhile (\<lambda>x. x \<noteq> c) (rev s))) else None)"

definition first_index :: "char \<Rightarrow> string \<Rightarrow> nat option" where
  "first_index c s = (if c \<in> set s then Some (length (takeWhile (\<lambda>x. x \<noteq> c) s)) else None)"

text \<open>\<open>net.SplitHostPort\<close>; the errors are its reasons.\<close>

definition splitHostPort :: "string \<Rightarrow> error + (string \<times> string)" where
  "splitHostPort hp =
     (let finish = (\<lambda>i host j k. if CHR ''['' \<in> set (drop j hp) then Inl ''unexpected [ in address''
            else if CHR '']'' \<in> set (drop k hp) then Inl ''unexpected ] in address'' else Inr (host, drop (Suc i) hp))
      in case last_index (CHR '':'') hp of
        None \<Rightarrow> Inl ''missing port in address''
      | Some i \<Rightarrow>
          if hd hp = CHR ''['' then
            (case first_index (CHR '']'') hp of
               None \<Rightarrow> Inl ''missing ] in address''
             | Some e \<Rightarrow>
                 if Suc e = length hp then Inl ''missing port in address''
                 else if Suc e = i then finish i (take (e - 1) (tl hp)) 1 (Suc e)
                 else if hp ! Suc e = CHR '':'' then Inl ''too many colons in address''
                 else Inl ''missing port in address'')
          else if CHR '':'' \<in> set (take i hp) then Inl ''too many colons in address''
          else finish i (take i hp) 0 0)"

end
