(* ===== verification/Engineio.thy ===== *)
theory Engineio
  imports Prelude
begin

text \<open>
  The Engine.IO polling transport of the IRC lounge bridge
  (\<open>src/fbprotocols/irclounge/engineio.go\<close>): the packet type, the text codec, and the
  session operations \<open>ReadPacket\<close>, \<open>WritePacket\<close> and \<open>Close\<close>.

  The HTTP server is the environment: \<open>polls\<close> lists its answers to the GETs still to be made
  and \<open>postErr n\<close> is the transport error (if any) of the \<open>n\<close>-th POST. \<open>sent\<close> logs the bodies of
  the POSTs that were put on the wire; a request made after the session's context was cancelled
  fails before anything is sent, as \<open>http.Client.Do\<close> does. \<open>ReadPacket\<close> returns \<open>None\<close> when the
  listed answers are used up, which is the state of waiting for the server.
\<close>

section \<open>Packets and their text encoding\<close>

record EioPacket =
  pkType :: byte
  pkData :: bytes

definition EioOpen :: byte where "EioOpen = 0"
definition EioClose :: byte where "EioClose = 1"
definition EioPing :: byte where "EioPing = 2"
definition EioPong :: byte where "EioPong = 3"
definition EioMessage :: byte where "EioMessage = 4"
definition EioUpgrade :: byte where "EioUpgrade = 5"
definition EioNoop :: byte where "EioNoop = 6"

lemmas eio_types = EioOpen_def EioClose_def EioPing_def EioPong_def EioMessage_def
  EioUpgrade_def EioNoop_def

definition recordSep :: byte where "recordSep = 0x1e"

definition encodeTextPacket :: "EioPacket \<Rightarrow> bytes" where
  "encodeTextPacket p = (48 + pkType p) # pkData p"

fun scanPackets :: "bytes \<Rightarrow> EioPacket list" where
  "scanPackets [] = []"
| "scanPackets (c # s) =
     (let typ = c - 48
      in if typ = 0 \<or> typ = 4 \<or> typ = 5 then [\<lparr>pkType = typ, pkData = s\<rparr>]
         else if typ = 1 \<or> typ = 2 \<or> typ = 3 \<or> typ = 6
              then \<lparr>pkType = typ, pkData = []\<rparr> # scanPackets s
         else scanPackets s)"

function decodeTextPackets :: "bytes \<Rightarrow> EioPacket list" where
  "decodeTextPackets data =
     (if recordSep \<in> set data
      then concat (map decodeTextPackets (filter (\<lambda>p. p \<noteq> []) (split_on recordSep data)))
      else scanPackets data)"
  by pat_completeness auto
termination
  by (relation "measure length") (auto intro: split_on_length_less)

declare decodeTextPackets.simps [simp del]

lemma decode_plain: "recordSep \<notin> set data \<Longrightarrow> decodeTextPackets data = scanPackets data"
  by (simp add: decodeTextPackets.simps)

lemma decode_split:
  "decodeTextPackets data = concat (map scanPackets (filter (\<lambda>p. p \<noteq> []) (split_on recordSep data)))"
proof (cases "recordSep \<in> set data")
  case True
  have "map decodeTextPackets (filter (\<lambda>p. p \<noteq> []) (split_on recordSep data)) =
        map scanPackets (filter (\<lambda>p. p \<noteq> []) (split_on recordSep data))"
    by (rule map_cong) (auto intro!: decode_plain dest: split_on_parts)
  with True show ?thesis by (subst decodeTextPackets.simps) (simp only: if_True)
next
  case False
  then show ?thesis by (cases "data = []") (simp_all add: decode_plain split_on_absent)
qed

text \<open>
  A packet is well formed for the text transport when its type is one of the seven and it
  carries a payload only where the decoder keeps one; the record separator may not occur in it.
\<close>

definition eio_wf :: "EioPacket \<Rightarrow> bool" where
  "eio_wf p \<longleftrightarrow> recordSep \<notin> set (pkData p) \<and>
     (pkType p = EioOpen \<or> pkType p = EioMessage \<or> pkType p = EioUpgrade \<or>
      (pkType p = EioClose \<or> pkType p = EioPing \<or> pkType p = EioPong \<or> pkType p = EioNoop)
        \<and> pkData p = [])"

lemma scan_encode: "eio_wf p \<Longrightarrow> scanPackets (encodeTextPacket p) = [p]"
  by (cases p) (auto simp: eio_wf_def encodeTextPacket_def eio_types Let_def)

lemma encode_no_sep: "eio_wf p \<Longrightarrow> recordSep \<notin> set (encodeTextPacket p)"
  by (auto simp: eio_wf_def encodeTextPacket_def eio_types recordSep_def)

lemma encode_not_Nil [simp]: "encodeTextPacket p \<noteq> []"
  by (simp add: encodeTextPacket_def)

lemma decode_encode_all:
  assumes "\<forall>p \<in> set ps. eio_wf p"
  shows "decodeTextPackets (join_with [recordSep] (map encodeTextPacket ps)) = ps"
proof (cases "ps = []")
  case True
  then show ?thesis by (simp add: decode_split)
next
  case False
  have sep: "\<forall>e \<in> set (map encodeTextPacket ps). recordSep \<notin> set e"
    using assms encode_no_sep by auto
  have "filter (\<lambda>p. p \<noteq> []) (map encodeTextPacket ps) = map encodeTextPacket ps"
    by (simp add: filter_id_conv)
  moreover have "concat (map (scanPackets \<circ> encodeTextPacket) ps) = ps"
    using assms by (induction ps) (auto simp: scan_encode)
  ultimately show ?thesis
    using False sep by (simp add: decode_split split_on_join_with)
qed

lemma scan_types: "p \<in> set (scanPackets s) \<Longrightarrow> pkType p \<le> 6"
  by (induction s rule: scanPackets.induct) (auto simp: Let_def split: if_splits)

lemma decode_types: "p \<in> set (decodeTextPackets s) \<Longrightarrow> pkType p \<le> 6"
  by (auto simp: decode_split dest: scan_types)

section \<open>The session\<close>

record EioSession =
  sid :: string
  closed :: bool
  buf :: "EioPacket list"
  polls :: "(error + bytes) list"
  postErr :: "nat \<Rightarrow> error option"
  sent :: "bytes list"

definition ctxCanceled :: error where
  "ctxCanceled = ''context canceled''"

definition poll :: "EioSession \<Rightarrow> ((error + bytes) \<times> EioSession) option" where
  "poll s =
     (if closed s then Some (Inl ctxCanceled, s)
      else case polls s of
             [] \<Rightarrow> None
           | r # rs \<Rightarrow> Some (r, s\<lparr>polls := rs\<rparr>))"

definition writeRaw :: "bytes \<Rightarrow> EioSession \<Rightarrow> error option \<times> EioSession" where
  "writeRaw data s =
     (if closed s then (Some ctxCanceled, s)
      else (postErr s (length (sent s)), s\<lparr>sent := sent s @ [data]\<rparr>))"

text \<open>
  The body of the loop over one payload: \<open>Inr\<close> of the session when the loop ran to its end,
  \<open>Inl\<close> of \<open>ReadPacket\<close>'s result when it returned from inside.
\<close>

fun handlePackets ::
  "EioPacket list \<Rightarrow> EioSession \<Rightarrow> ((error + EioPacket) \<times> EioSession) + EioSession" where
  "handlePackets [] s = Inr s"
| "handlePackets (p # ps) s =
     (if pkType p = EioPing then
        (case writeRaw [48 + EioPong] s of
           (Some e, s') \<Rightarrow> Inl (Inl e, s')
         | (None, s') \<Rightarrow> handlePackets ps s')
      else if pkType p = EioClose then Inl (Inr p, s\<lparr>buf := []\<rparr>)
      else if pkType p = EioMessage \<or> pkType p = EioUpgrade
           then handlePackets ps (s\<lparr>buf := buf s @ [p]\<rparr>)
      else handlePackets ps s)"

lemma writeRaw_frame [frame_simps]:
  "polls (snd (writeRaw d s)) = polls s" "buf (snd (writeRaw d s)) = buf s"
  "closed (snd (writeRaw d s)) = closed s" "postErr (snd (writeRaw d s)) = postErr s"
  by (auto simp: writeRaw_def)

lemma handlePackets_polls: "handlePackets ps s = Inr s' \<Longrightarrow> polls s' = polls s \<and> closed s' = closed s"
proof (induction ps s rule: handlePackets.induct)
  case (2 p ps s)
  then show ?case
    using writeRaw_frame [of "[48 + EioPong]" s]
    by (auto split: if_splits prod.splits option.splits)
qed simp

function readPacket :: "EioSession \<Rightarrow> ((error + EioPacket) \<times> EioSession) option" where
  "readPacket s =
     (case buf s of
        p # ps \<Rightarrow> Some (Inr p, s\<lparr>buf := ps\<rparr>)
      | [] \<Rightarrow>
        (case poll s of
           None \<Rightarrow> None
         | Some (Inl e, s1) \<Rightarrow> Some (Inl e, s1)
         | Some (Inr body, s1) \<Rightarrow>
           (case handlePackets (decodeTextPackets body) s1 of
              Inl r \<Rightarrow> Some r
            | Inr s2 \<Rightarrow> readPacket s2)))"
  by pat_completeness auto
termination
  by (relation "measure (\<lambda>s. length (polls s))")
     (auto simp: poll_def dest!: handlePackets_polls split: if_splits list.splits)

declare readPacket.simps [simp del]

definition writePacket :: "EioPacket \<Rightarrow> EioSession \<Rightarrow> error option \<times> EioSession" where
  "writePacket p s = writeRaw (encodeTextPacket p) s"

text \<open>
  \<open>Close\<close> sets \<open>closed\<close>, cancels the context and only then posts the close packet; its result is
  always nil. \<open>closed\<close> stands for both the flag and the cancelled context, which \<open>Close\<close> sets
  together.
\<close>

definition closeSession :: "EioSession \<Rightarrow> EioSession" where
  "closeSession s =
     (if closed s then s
      else snd (writeRaw [48 + EioClose] (s\<lparr>closed := True\<rparr>)))"

section \<open>Delivery\<close>

definition keepsPacket :: "EioPacket \<Rightarrow> bool" where
  "keepsPacket p \<longleftrightarrow> pkType p = EioMessage \<or> pkType p = EioUpgrade"

definition pings :: "EioPacket list \<Rightarrow> nat" where
  "pings ps = length (filter (\<lambda>p. pkType p = EioPing) ps)"

lemma handlePackets_ok:
  assumes "\<forall>p \<in> set ps. pkType p \<noteq> EioClose" and "\<forall>n. postErr s n = None" and "\<not> closed s"
  shows "handlePackets ps s =
    Inr (s\<lparr>buf := buf s @ filter keepsPacket ps,
           sent := sent s @ replicate (pings ps) [48 + EioPong]\<rparr>)"
  using assms
proof (induction ps arbitrary: s)
  case (Cons p ps)
  then show ?case
    by (auto simp: writeRaw_def pings_def keepsPacket_def eio_types replicate_app_Cons_same)
qed (simp add: pings_def)

lemma readPacket_buffered: "buf s = p # ps \<Longrightarrow> readPacket s = Some (Inr p, s\<lparr>buf := ps\<rparr>)"
  by (simp add: readPacket.simps)

lemma readPacket_payload:
  assumes "buf s = []" and "polls s = Inr body # rest" and "\<not> closed s"
    and "\<forall>n. postErr s n = None" and "\<forall>p \<in> set (decodeTextPackets body). pkType p \<noteq> EioClose"
  shows "readPacket s = readPacket
    (s\<lparr>polls := rest, buf := filter keepsPacket (decodeTextPackets body),
       sent := sent s @ replicate (pings (decodeTextPackets body)) [48 + EioPong]\<rparr>)"
  using assms by (subst readPacket.simps) (simp add: poll_def handlePackets_ok)

lemma handlePackets_close:
  assumes "\<forall>p \<in> set ps. pkType p \<noteq> EioClose" and "\<forall>n. postErr s n = None" and "\<not> closed s"
    and "pkType c = EioClose"
  shows "handlePackets (ps @ c # qs) s =
    Inl (Inr c, s\<lparr>buf := [], sent := sent s @ replicate (pings ps) [48 + EioPong]\<rparr>)"
  using assms
proof (induction ps arbitrary: s)
  case (Cons p ps)
  then show ?case
    by (auto simp: writeRaw_def pings_def eio_types replicate_app_Cons_same)
qed (simp add: pings_def eio_types)

section \<open>The session as a queue of packets\<close>

text \<open>
  The contract of the reading side: the packets still to come are those in \<open>buf\<close> and, behind
  them, the message packets of the payloads the server still sends.
\<close>

definition payloadPackets :: "error + bytes \<Rightarrow> EioPacket list" where
  "payloadPackets r = (case r of Inl _ \<Rightarrow> [] | Inr body \<Rightarrow> decodeTextPackets body)"

definition pendingPackets :: "EioSession \<Rightarrow> EioPacket list" where
  "pendingPackets s = buf s @ filter keepsPacket (concat (map payloadPackets (polls s)))"

definition pendingPongs :: "EioSession \<Rightarrow> nat" where
  "pendingPongs s = pings (concat (map payloadPackets (polls s)))"

definition steady :: "EioSession \<Rightarrow> bool" where
  "steady s \<longleftrightarrow> \<not> closed s \<and> postErr s = (\<lambda>_. None) \<and>
     list_all (\<lambda>r. \<not> isl r \<and> list_all (\<lambda>p. pkType p \<noteq> EioClose) (payloadPackets r)) (polls s)"

lemma pings_append [simp]: "pings (ps @ qs) = pings ps + pings qs"
  by (simp add: pings_def)

lemma steady_step:
  assumes "steady s" and "buf s = []" and "polls s = r # rest"
  obtains s' where "readPacket s = readPacket s'" and "steady s'" and "polls s' = rest"
    and "pendingPackets s' = pendingPackets s"
    and "sent s' @ replicate (pendingPongs s') [48 + EioPong] =
         sent s @ replicate (pendingPongs s) [48 + EioPong]"
proof -
  obtain body where r: "r = Inr body"
    using assms by (cases r) (auto simp: steady_def)
  let ?ds = "decodeTextPackets body"
  let ?s = "s\<lparr>polls := rest, buf := filter keepsPacket ?ds,
              sent := sent s @ replicate (pings ?ds) [48 + EioPong]\<rparr>"
  have "readPacket s = readPacket ?s"
    using assms r by (intro readPacket_payload)
      (auto simp: steady_def payloadPackets_def list_all_iff)
  moreover have "steady ?s" using assms by (simp add: steady_def)
  moreover have "pendingPackets ?s = pendingPackets s"
    using assms r by (simp add: pendingPackets_def payloadPackets_def)
  moreover have "sent ?s @ replicate (pendingPongs ?s) [48 + EioPong] =
         sent s @ replicate (pendingPongs s) [48 + EioPong]"
    using assms r by (simp add: pendingPongs_def payloadPackets_def replicate_add)
  ultimately show thesis using that [of ?s] by simp
qed

lemma readPacket_queue:
  assumes "steady s"
  shows "case pendingPackets s of
      [] \<Rightarrow> readPacket s = None
    | p # ps \<Rightarrow> (\<exists>s'. readPacket s = Some (Inr p, s') \<and> pendingPackets s' = ps \<and> steady s' \<and>
        sent s' @ replicate (pendingPongs s') [48 + EioPong] =
        sent s @ replicate (pendingPongs s) [48 + EioPong])"
  using assms
proof (induction "length (polls s)" arbitrary: s rule: less_induct)
  case less
  show ?case
  proof (cases "buf s")
    case (Cons p ps)
    then show ?thesis
      using less.prems
      by (simp add: readPacket_buffered pendingPackets_def pendingPongs_def steady_def)
  next
    case Nil
    show ?thesis
    proof (cases "polls s")
      case Nil
      with \<open>buf s = []\<close> less.prems show ?thesis
        by (simp add: pendingPackets_def readPacket.simps poll_def steady_def)
    next
      case (Cons r rest)
      obtain s1 where s1: "readPacket s = readPacket s1" "steady s1" "polls s1 = rest"
        "pendingPackets s1 = pendingPackets s"
        "sent s1 @ replicate (pendingPongs s1) [48 + EioPong] =
         sent s @ replicate (pendingPongs s) [48 + EioPong]"
        using steady_step [OF less.prems Nil Cons] by metis
      show ?thesis using less.hyps [of s1] s1(2,3) Cons unfolding s1(1,4,5) by simp
    qed
  qed
qed

text \<open>C1: ReadPacket refines a FIFO queue of packets. On a session whose server neither fails
  nor closes, a call returns the oldest pending message packet, whatever way the packets were
  split into payloads, loses and reorders none of the others, answers every ping it consumes
  with exactly one pong, and waits only when no packet is pending.\<close>

theorem readPacket_fifo:
  assumes "steady s"
  shows "case pendingPackets s of
      [] \<Rightarrow> readPacket s = None
    | p # ps \<Rightarrow> (\<exists>s'. readPacket s = Some (Inr p, s') \<and> pendingPackets s' = ps \<and> steady s' \<and>
        sent s' @ replicate (pendingPongs s') [48 + EioPong] =
        sent s @ replicate (pendingPongs s) [48 + EioPong])"
  using assms by (rule readPacket_queue)

definition demoSession :: "EioSession" where
  "demoSession = \<lparr>sid = ''x'', closed = False, buf = [],
     polls = [Inr (bytes_of ''2''), Inr (bytes_of ''4hi'')], postErr = (\<lambda>_. None), sent = []\<rparr>"

lemma demoSession_steady: "steady demoSession"
  by (simp add: steady_def demoSession_def payloadPackets_def decode_split bytes_of_def
      byte_of_def recordSep_def eio_types split_on_absent)

lemma demoSession_pending:
  "pendingPackets demoSession = [\<lparr>pkType = EioMessage, pkData = bytes_of ''hi''\<rparr>]"
  by (simp add: pendingPackets_def demoSession_def payloadPackets_def decode_split bytes_of_def
      byte_of_def recordSep_def keepsPacket_def eio_types split_on_absent)

lemma readPacket_fifo_witness:
  "\<exists>s'. readPacket demoSession = Some (Inr \<lparr>pkType = EioMessage, pkData = bytes_of ''hi''\<rparr>, s') \<and>
     pendingPackets s' = []"
  using readPacket_fifo [OF demoSession_steady] unfolding demoSession_pending by auto

text \<open>The text codec round-trips: decoding a payload of encoded packets joined by the
  record separator gives back exactly those packets, in order.\<close>

theorem decode_encode_payload:
  assumes "list_all eio_wf ps"
  shows "decodeTextPackets (join_with [recordSep] (map encodeTextPacket ps)) = ps"
  using assms by (intro decode_encode_all) (simp add: list_all_iff)

lemma decode_encode_payload_witness:
  "decodeTextPackets (join_with [recordSep] (map encodeTextPacket
     [\<lparr>pkType = EioPing, pkData = []\<rparr>, \<lparr>pkType = EioMessage, pkData = [50, 91, 93]\<rparr>])) =
   [\<lparr>pkType = EioPing, pkData = []\<rparr>, \<lparr>pkType = EioMessage, pkData = [50, 91, 93]\<rparr>]"
  by (rule decode_encode_payload) (simp add: eio_wf_def eio_types recordSep_def)

text \<open>Closing is idempotent and final: whatever the state, Close transmits nothing (the
  context is cancelled before the close packet is posted), later writes fail with the
  cancellation error and change nothing, and later reads drain the buffer and then fail.\<close>

theorem closeSession_final:
  "sent (closeSession s) = sent s \<and>
   closeSession (closeSession s) = closeSession s \<and>
   writePacket p (closeSession s) = (Some ctxCanceled, closeSession s) \<and>
   readPacket (closeSession s) =
     (case buf s of
        [] \<Rightarrow> Some (Inl ctxCanceled, closeSession s)
      | q # qs \<Rightarrow> Some (Inr q, closeSession s\<lparr>buf := qs\<rparr>))"
  by (simp add: closeSession_def writePacket_def writeRaw_def readPacket.simps poll_def
      split: list.split)

text \<open>A close packet in a payload ends the read at once and empties the buffer: the message
  packets that precede it in the same payload are never delivered.\<close>

theorem readPacket_close_drops:
  assumes "steady s" and "buf s = []" and "list_all (\<lambda>p. pkType p \<noteq> EioClose) ps"
    and "decodeTextPackets body = ps @ c # qs" and "pkType c = EioClose"
  shows "readPacket (s\<lparr>polls := Inr body # rest\<rparr>) =
    Some (Inr c, s\<lparr>polls := rest, buf := [], sent := sent s @ replicate (pings ps) [48 + EioPong]\<rparr>)"
  using assms handlePackets_close [of ps "s\<lparr>polls := rest\<rparr>" c qs]
  by (subst readPacket.simps) (simp add: steady_def poll_def list_all_iff)

lemma readPacket_close_drops_witness:
  "readPacket (demoSession\<lparr>polls := Inr [52, 97, 0x1e, 49] # []\<rparr>) =
     Some (Inr \<lparr>pkType = EioClose, pkData = []\<rparr>,
       demoSession\<lparr>polls := [], buf := [], sent := sent demoSession @ replicate 0 [48 + EioPong]\<rparr>)"
proof -
  have "decodeTextPackets [52, 97, 0x1e, 49] =
    [\<lparr>pkType = EioMessage, pkData = [97]\<rparr>] @ \<lparr>pkType = EioClose, pkData = []\<rparr> # []"
    using decode_encode_all [of "[\<lparr>pkType = EioMessage, pkData = [97]\<rparr>, \<lparr>pkType = EioClose, pkData = []\<rparr>]"]
    by (simp add: eio_wf_def eio_types recordSep_def encodeTextPacket_def)
  from readPacket_close_drops [OF demoSession_steady _ _ this]
  show ?thesis by (simp add: demoSession_def eio_types pings_def)
qed

end
