(* ===== verification/Json.thy ===== *)
theory Json
  imports Prelude
begin

text \<open>
  What the program uses of Go's \<open>unicode/utf8\<close> and of the string encoder of
  \<open>encoding/json\<close>: decoding a string rune by rune (a \<open>range\<close> loop), writing a rune, and the
  quoted form of a string with and without HTML escaping. Strings are lists of bytes.
\<close>

section \<open>Runes\<close>

definition cont :: "nat \<Rightarrow> nat \<Rightarrow> char \<Rightarrow> bool" where
  "cont lo hi c \<longleftrightarrow> lo \<le> (of_char c :: nat) \<and> (of_char c :: nat) \<le> hi"

definition runeError :: nat where "runeError = 0xFFFD"

text \<open>The first byte of a multi-byte sequence fixes its length and the range of the second byte.\<close>

definition lead :: "nat \<Rightarrow> (nat \<times> nat \<times> nat) option" where
  "lead b =
     (if 0xC2 \<le> b \<and> b \<le> 0xDF then Some (2, 0x80, 0xBF)
      else if b = 0xE0 then Some (3, 0xA0, 0xBF)
      else if b = 0xED then Some (3, 0x80, 0x9F)
      else if 0xE1 \<le> b \<and> b \<le> 0xEF then Some (3, 0x80, 0xBF)
      else if b = 0xF0 then Some (4, 0x90, 0xBF)
      else if 0xF1 \<le> b \<and> b \<le> 0xF3 then Some (4, 0x80, 0xBF)
      else if b = 0xF4 then Some (4, 0x80, 0x8F)
      else None)"

fun decode_rune :: "string \<Rightarrow> nat \<times> nat" where
  "decode_rune [] = (runeError, 0)"
| "decode_rune (c # s) =
     (let b = of_char c in
      if b < 0x80 then (b, 1)
      else case lead b of
        None \<Rightarrow> (runeError, 1)
      | Some (n, lo, hi) \<Rightarrow>
          (case s of
             d # s' \<Rightarrow>
               if \<not> cont lo hi d then (runeError, 1)
               else if n = 2 then ((b - 0xC0) * 64 + (of_char d - 0x80), 2)
               else (case s' of
                 e # s'' \<Rightarrow>
                   if \<not> cont 0x80 0xBF e then (runeError, 1)
                   else if n = 3
                   then ((b - 0xE0) * 4096 + (of_char d - 0x80) * 64 + (of_char e - 0x80), 3)
                   else (case s'' of
                     f # _ \<Rightarrow>
                       if \<not> cont 0x80 0xBF f then (runeError, 1)
                       else ((b - 0xF0) * 262144 + (of_char d - 0x80) * 4096
                             + (of_char e - 0x80) * 64 + (of_char f - 0x80), 4)
                   | [] \<Rightarrow> (runeError, 1))
               | [] \<Rightarrow> (runeError, 1))
           | [] \<Rightarrow> (runeError, 1)))"

lemma decode_rune_size: "s \<noteq> [] \<Longrightarrow> 0 < snd (decode_rune s)"
  by (cases s) (auto simp: Let_def split: option.splits list.splits)

lemma decode_rune_ascii: "(of_char c :: nat) < 0x80 \<Longrightarrow> decode_rune (c # s) = (of_char c, 1)"
  by (simp add: Let_def)

text \<open>The loop \<open>for _, r := range s\<close>: each rune with the bytes it was read from.\<close>

function runes :: "string \<Rightarrow> (nat \<times> string) list" where
  "runes s =
     (if s = [] then []
      else let (r, n) = decode_rune s in (r, take n s) # runes (drop n s))"
  by pat_completeness auto
termination
proof (relation "measure length", simp)
  fix s :: string and x r n
  assume "s \<noteq> []" and "x = decode_rune s" and "(r, n) = x"
  then show "(drop n s, s) \<in> measure length"
    using decode_rune_size [of s] by (cases s) (auto dest: sym simp del: decode_rune.simps)
qed

declare runes.simps [simp del]

lemma runes_Nil [simp]: "runes [] = []"
  by (simp add: runes.simps)

lemma runes_ascii [simp]: "(of_char c :: nat) < 0x80 \<Longrightarrow> runes (c # s) = (of_char c, [c]) # runes s"
  by (subst runes.simps) (simp add: decode_rune_ascii del: decode_rune.simps)

lemma runes_parts: "concat (map snd (runes s)) = s"
proof (induction s rule: runes.induct)
  case (1 s)
  show ?case
  proof (cases "s = []")
    case False
    obtain r n where rn: "decode_rune s = (r, n)" by fastforce
    with 1 False have "concat (map snd (runes (drop n s))) = drop n s" by simp
    then show ?thesis using False rn by (subst runes.simps) simp
  qed simp
qed

definition encode_rune :: "nat \<Rightarrow> string" where
  "encode_rune r =
     (if r < 0x80 then [char_of r]
      else if r < 0x800 then [char_of (0xC0 + r div 64), char_of (0x80 + r mod 64)]
      else if 0x10FFFF < r \<or> 0xD800 \<le> r \<and> r \<le> 0xDFFF
           then [char_of (0xEF :: nat), char_of (0xBF :: nat), char_of (0xBD :: nat)]
      else if r < 0x10000
           then [char_of (0xE0 + r div 4096), char_of (0x80 + r div 64 mod 64), char_of (0x80 + r mod 64)]
      else [char_of (0xF0 + r div 262144), char_of (0x80 + r div 4096 mod 64),
            char_of (0x80 + r div 64 mod 64), char_of (0x80 + r mod 64)])"

section \<open>Quoted strings\<close>

definition json_hex :: "nat \<Rightarrow> char" where
  "json_hex n = ''0123456789abcdef'' ! n"

definition backslash :: char where "backslash = CHR 0x5C"

definition json_escape_ascii :: "bool \<Rightarrow> char \<Rightarrow> string" where
  "json_escape_ascii escHTML c =
     (let b = of_char c :: nat in
      if c = CHR 0x22 \<or> c = backslash then [backslash, c]
      else if b = 8 then [backslash, CHR ''b'']
      else if b = 12 then [backslash, CHR ''f'']
      else if b = 10 then [backslash, CHR ''n'']
      else if b = 13 then [backslash, CHR ''r'']
      else if b = 9 then [backslash, CHR ''t'']
      else if b < 32 \<or> escHTML \<and> c \<in> set ''<>&''
           then backslash # ''u00'' @ [json_hex (b div 16), json_hex (b mod 16)]
      else [c])"

definition json_escape :: "bool \<Rightarrow> nat \<times> string \<Rightarrow> string" where
  "json_escape escHTML = (\<lambda>(r, raw).
     if r < 0x80 then json_escape_ascii escHTML (char_of r)
     else if r = runeError \<and> length raw = 1 then backslash # ''ufffd''
     else if r = 0x2028 then backslash # ''u2028''
     else if r = 0x2029 then backslash # ''u2029''
     else raw)"

definition json_quote :: "bool \<Rightarrow> string \<Rightarrow> string" where
  "json_quote escHTML s = [CHR 0x22] @ concat (map (json_escape escHTML) (runes s)) @ [CHR 0x22]"

text \<open>A struct of already encoded fields, in declaration order.\<close>

definition json_object :: "(string \<times> string) list \<Rightarrow> string" where
  "json_object fs =
     ''{'' @ join_with '','' (map (\<lambda>(k, v). json_quote True k @ '':'' @ v) fs) @ ''}''"

end
