(* ===== verification/Gojson.thy ===== *)
theory Gojson
  imports Json
begin

text \<open>
  \<open>encoding/json\<close> as the protocol back ends use it: JSON values, and \<open>Unmarshal\<close> of a value into
  strings, integers, slices, maps, pointers and structs. The text of a value is parsed by the
  library; the functions that take a text are given the parser as an argument.

  Unmarshal fills what it can and reports the first type error at the end, so a decoder takes the
  old contents of its target and gives the new contents with a flag: whether there was no error.
  \<open>null\<close> leaves strings, numbers, booleans and structs as they are and empties slices, maps and
  pointers. A struct field takes the entries whose key is its name or, when no field has exactly
  that name, equals it up to the case of letters; the last entry wins.
\<close>

datatype json = JNull | JBoolean bool | JNum string | JStr string | JArr "json list" | JObj "(string \<times> json) list"

type_synonym 'a decoder = "'a \<Rightarrow> json \<Rightarrow> 'a \<times> bool"

section \<open>Scalars\<close>

fun dec_string :: "string decoder" where
  "dec_string old JNull = (old, True)"
| "dec_string old (JStr s) = (s, True)"
| "dec_string old _ = (old, False)"

fun dec_bool :: "bool decoder" where
  "dec_bool old JNull = (old, True)"
| "dec_bool old (JBoolean b) = (b, True)"
| "dec_bool old _ = (old, False)"

text \<open>An \<open>int\<close> or \<open>int64\<close>: a literal with a fraction, an exponent or too many digits is an error. The
  literal is one of JSON, so it has no plus sign.\<close>

fun dec_int :: "int decoder" where
  "dec_int old JNull = (old, True)"
| "dec_int old (JNum n) = (case atoi n of Some v \<Rightarrow> (v, True) | None \<Rightarrow> (old, False))"
| "dec_int old _ = (old, False)"

definition max_u64 :: int where "max_u64 = 2 ^ 64 - 1"

fun dec_uint :: "int decoder" where
  "dec_uint old JNull = (old, True)"
| "dec_uint old (JNum n) = (case read_digits 0 n of
      Some v \<Rightarrow> if n \<noteq> [] \<and> int v \<le> max_u64 then (int v, True) else (old, False)
    | None \<Rightarrow> (old, False))"
| "dec_uint old _ = (old, False)"

text \<open>A \<open>json.RawMessage\<close> keeps the text of any value, of \<open>null\<close> too; \<open>None\<close> is the nil slice of a
  field that did not occur.\<close>

definition dec_raw :: "json option decoder" where
  "dec_raw old j = (Some j, True)"

section \<open>Pointers, slices, maps and structs\<close>

definition dec_ptr :: "'a \<Rightarrow> 'a decoder \<Rightarrow> 'a option decoder" where
  "dec_ptr zero d old j =
     (if j = JNull then (None, True)
      else map_prod Some id (d (case old of Some x \<Rightarrow> x | None \<Rightarrow> zero) j))"

fun dec_list :: "'a \<Rightarrow> 'a decoder \<Rightarrow> 'a list decoder" where
  "dec_list zero d old JNull = ([], True)"
| "dec_list zero d old (JArr js) = (map (\<lambda>j. fst (d zero j)) js, list_all (\<lambda>j. snd (d zero j)) js)"
| "dec_list zero d old _ = (old, False)"

fun dec_map :: "'a \<Rightarrow> 'a decoder \<Rightarrow> (string \<rightharpoonup> 'a) decoder" where
  "dec_map zero d old JNull = (Map.empty, True)"
| "dec_map zero d old (JObj es) =
     (foldl (\<lambda>m (k, j). m(k \<mapsto> fst (d zero j))) old es, list_all (\<lambda>(k, j). snd (d zero j)) es)"
| "dec_map zero d old _ = (old, False)"

type_synonym 'r fields = "(string \<times> 'r decoder) list"

definition fold_name :: "string \<Rightarrow> string" where
  "fold_name s = to_lower s"

definition find_field :: "'r fields \<Rightarrow> string \<Rightarrow> 'r decoder option" where
  "find_field fs k =
     (case map_of fs k of
        Some d \<Rightarrow> Some d
      | None \<Rightarrow> map_option snd (List.find (\<lambda>(n, d). fold_name n = fold_name k) fs))"

definition dec_entry :: "'r fields \<Rightarrow> 'r \<times> bool \<Rightarrow> string \<times> json \<Rightarrow> 'r \<times> bool" where
  "dec_entry fs = (\<lambda>(r, ok) (k, j).
     case find_field fs k of
       None \<Rightarrow> (r, ok)
     | Some d \<Rightarrow> (fst (d r j), ok \<and> snd (d r j)))"

fun dec_struct :: "'r fields \<Rightarrow> 'r decoder" where
  "dec_struct fs r JNull = (r, True)"
| "dec_struct fs r (JObj es) = foldl (dec_entry fs) (r, True) es"
| "dec_struct fs r _ = (r, False)"

text \<open>A field of a struct, by its selector and its update.\<close>

definition on :: "('r \<Rightarrow> 'a) \<Rightarrow> (('a \<Rightarrow> 'a) \<Rightarrow> 'r \<Rightarrow> 'r) \<Rightarrow> 'a decoder \<Rightarrow> 'r decoder" where
  "on getf updf d = (\<lambda>r j. (updf (\<lambda>_. fst (d (getf r) j)) r, snd (d (getf r) j)))"

text \<open>A field that is decoded and not used: only its type error counts.\<close>

definition checked :: "'a \<Rightarrow> 'a decoder \<Rightarrow> 'r decoder" where
  "checked zero d = (\<lambda>r j. (r, snd (d zero j)))"

text \<open>\<open>json.Unmarshal(data, &x)\<close> with its error checked, and with its error ignored. \<open>None\<close> stands for
  a text that is no JSON or is absent.\<close>

definition unmarshal :: "'a decoder \<Rightarrow> 'a \<Rightarrow> json option \<Rightarrow> 'a option" where
  "unmarshal d zero x =
     (case x of None \<Rightarrow> None | Some j \<Rightarrow> if snd (d zero j) then Some (fst (d zero j)) else None)"

definition unmarshal_lax :: "'a decoder \<Rightarrow> 'a \<Rightarrow> json option \<Rightarrow> 'a" where
  "unmarshal_lax d zero x = (case x of None \<Rightarrow> zero | Some j \<Rightarrow> fst (d zero j))"

lemma unmarshal_None [simp]: "unmarshal d zero None = None"
  by (simp add: unmarshal_def)

lemma unmarshal_lax_None [simp]: "unmarshal_lax d zero None = zero"
  by (simp add: unmarshal_lax_def)

lemma unmarshal_Some: "unmarshal d zero (Some j) = Some v \<longleftrightarrow> d zero j = (v, True)"
  by (cases "d zero j") (auto simp: unmarshal_def)

section \<open>Objects as the program writes them\<close>

text \<open>\<open>Marshal\<close> of a map: the keys in ascending order. Lists of entries are written in that order
  here, so a map is the list itself.\<close>

definition jget :: "json \<Rightarrow> string \<Rightarrow> json option" where
  "jget j k = (case j of JObj es \<Rightarrow> map_of es k | _ \<Rightarrow> None)"

lemma jget_JObj [simp]: "jget (JObj es) k = map_of es k"
  by (simp add: jget_def)

end
