(* ===== verification/Encodings.thy ===== *)
theory Encodings
  imports Prelude
begin

text \<open>
  The byte encodings of the Go standard library that the protocol back ends use:
  \<open>encoding/hex\<close>, \<open>encoding/base64\<close> (\<open>StdEncoding\<close>), and the fixed-width integers of
  \<open>encoding/binary\<close>, with their round trips. The interface \<open>byte_codec\<close> states what every
  textual byte encoding promises its clients.
\<close>

section \<open>The interface of a byte encoding\<close>

locale byte_codec =
  fixes encode :: "bytes \<Rightarrow> string"
    and decode :: "string \<Rightarrow> bytes option"
  assumes decode_encode [simp]: "decode (encode bs) = Some bs"
begin

lemma encode_inject [simp]: "encode a = encode b \<longleftrightarrow> a = b"
  by (metis decode_encode option.inject)

lemma decode_through [simp]:
  "map_option f (decode (encode (g bs))) = Some (f (g bs))"
  by simp

lemma encode_range_decodes: "s \<in> range encode \<Longrightarrow> decode s \<noteq> None"
  by auto

end

text \<open>
  An encoding whose text is passed through a byte-wise translation (a custom alphabet over
  standard base64) is again an encoding when the translation can be undone on the texts it
  produces.
\<close>

locale translated_codec = byte_codec +
  fixes trans :: "char \<Rightarrow> char"
    and untrans :: "char \<Rightarrow> char"
  assumes untrans_trans: "c \<in> set (encode bs) \<Longrightarrow> untrans (trans c) = c"
begin

lemma map_untrans_trans: "map untrans (map trans (encode bs)) = encode bs"
  by (simp add: untrans_trans map_idI)

end

sublocale translated_codec \<subseteq> tr: byte_codec "\<lambda>bs. map trans (encode bs)" "\<lambda>s. decode (map untrans s)"
  by unfold_locales (simp only: map_untrans_trans decode_encode)

section \<open>Positions in an alphabet\<close>

fun index_of :: "'a \<Rightarrow> 'a list \<Rightarrow> nat option" where
  "index_of x [] = None"
| "index_of x (y # ys) = (if x = y then Some 0 else map_option Suc (index_of x ys))"

lemma index_of_nth [simp]: "distinct xs \<Longrightarrow> i < length xs \<Longrightarrow> index_of (xs ! i) xs = Some i"
proof (induction xs arbitrary: i)
  case (Cons x xs)
  then show ?case by (cases i) (auto simp: nth_eq_iff_index_eq)
qed simp

lemma index_of_Some: "index_of x xs = Some i \<Longrightarrow> i < length xs \<and> xs ! i = x"
  by (induction xs arbitrary: i) (auto split: if_splits)

lemma index_of_None: "index_of x xs = None \<longleftrightarrow> x \<notin> set xs"
  by (induction xs) auto

section \<open>Package encoding/hex\<close>

definition hex_digits :: string where
  "hex_digits = ''0123456789abcdef''"

definition hex_val :: "char \<Rightarrow> nat option" where
  "hex_val c = (case index_of c hex_digits of Some n \<Rightarrow> Some n
                | None \<Rightarrow> index_of c ''0123456789ABCDEF'')"

definition hex_encode :: "bytes \<Rightarrow> string" where
  "hex_encode bs = concat (map (\<lambda>b. [hex_digits ! (unat b div 16), hex_digits ! (unat b mod 16)]) bs)"

fun hex_decode :: "string \<Rightarrow> bytes option" where
  "hex_decode [] = Some []"
| "hex_decode [c] = None"
| "hex_decode (c # d # s) =
     (case (hex_val c, hex_val d) of
        (Some h, Some l) \<Rightarrow> map_option ((#) (word_of_nat (16 * h + l))) (hex_decode s)
      | _ \<Rightarrow> None)"

lemma hex_digits_props: "distinct hex_digits" "length hex_digits = 16"
  by (simp_all add: hex_digits_def)

lemma hex_val_digit [simp]: "n < 16 \<Longrightarrow> hex_val (hex_digits ! n) = Some n"
  by (simp add: hex_val_def hex_digits_props)

lemma hex_decode_encode [simp]: "hex_decode (hex_encode bs) = Some bs"
proof (induction bs)
  case (Cons b bs)
  have "unat b div 16 < 16"
    using unat_byte_less [of b] by linarith
  with Cons show ?case
    by (simp add: hex_encode_def div_mult_mod_eq [of "unat b" 16, simplified mult.commute])
qed (simp add: hex_encode_def)

lemma length_hex_encode [simp]: "length (hex_encode bs) = 2 * length bs"
  by (induction bs) (simp_all add: hex_encode_def)

lemma hex_decode_length: "hex_decode s = Some bs \<Longrightarrow> length s = 2 * length bs"
  by (induction s arbitrary: bs rule: hex_decode.induct) (auto split: option.splits)

interpretation hex: byte_codec hex_encode hex_decode
  by unfold_locales simp

section \<open>Package encoding/base64, StdEncoding\<close>

definition std_alphabet :: string where
  "std_alphabet = ''ABCDEFGHIJKLMNOPQRSTUVWXYZabcdefghijklmnopqrstuvwxyz0123456789+/''"

definition sextet :: "nat \<Rightarrow> char" where
  "sextet i = std_alphabet ! i"

definition sextet_val :: "char \<Rightarrow> nat option" where
  "sextet_val c = index_of c std_alphabet"

fun b64_encode :: "bytes \<Rightarrow> string" where
  "b64_encode [] = []"
| "b64_encode [a] =
     (let v = unat a * 65536
      in [sextet (v div 262144), sextet (v div 4096 mod 64), CHR ''='', CHR ''=''])"
| "b64_encode [a, b] =
     (let v = unat a * 65536 + unat b * 256
      in [sextet (v div 262144), sextet (v div 4096 mod 64), sextet (v div 64 mod 64), CHR ''=''])"
| "b64_encode (a # b # c # r) =
     (let v = unat a * 65536 + unat b * 256 + unat c
      in sextet (v div 262144) # sextet (v div 4096 mod 64) # sextet (v div 64 mod 64)
           # sextet (v mod 64) # b64_encode r)"

text \<open>
  \<open>DecodeString\<close> skips carriage returns and newlines, then reads quanta of four characters;
  padding is only accepted in the last quantum, and unused low bits are ignored.
\<close>

fun b64_quanta :: "string \<Rightarrow> bytes option" where
  "b64_quanta [] = Some []"
| "b64_quanta (a # b # c # d # r) =
     (if r = [] \<and> d = CHR ''='' then
        (if c = CHR ''='' then
           (case (sextet_val a, sextet_val b) of
              (Some p, Some q) \<Rightarrow> Some [word_of_nat ((p * 64 + q) div 16)]
            | _ \<Rightarrow> None)
         else
           (case (sextet_val a, sextet_val b, sextet_val c) of
              (Some p, Some q, Some s) \<Rightarrow>
                (let v = (p * 4096 + q * 64 + s) div 4
                 in Some [word_of_nat (v div 256), word_of_nat (v mod 256)])
            | _ \<Rightarrow> None))
      else
        (case (sextet_val a, sextet_val b, sextet_val c, sextet_val d) of
           (Some p, Some q, Some s, Some t) \<Rightarrow>
             (let v = p * 262144 + q * 4096 + s * 64 + t
              in map_option (\<lambda>bs. word_of_nat (v div 65536) # word_of_nat (v div 256 mod 256)
                                  # word_of_nat (v mod 256) # bs) (b64_quanta r))
         | _ \<Rightarrow> None))"
| "b64_quanta _ = None"

definition b64_decode :: "string \<Rightarrow> bytes option" where
  "b64_decode s = b64_quanta (filter (\<lambda>c. c \<noteq> CHR 0x0A \<and> c \<noteq> CHR 0x0D) s)"

lemma std_alphabet_props: "distinct std_alphabet" "length std_alphabet = 64"
  by (simp_all add: std_alphabet_def)

lemma sextet_val_sextet [simp]: "i < 64 \<Longrightarrow> sextet_val (sextet i) = Some i"
  by (simp add: sextet_val_def sextet_def std_alphabet_props)

lemma sextet_in: "i < 64 \<Longrightarrow> sextet i \<in> set std_alphabet"
  by (simp add: sextet_def std_alphabet_props)

lemma alphabet_plain: "c \<in> set std_alphabet \<Longrightarrow>
    c \<noteq> CHR ''='' \<and> c \<noteq> CHR 0x0A \<and> c \<noteq> CHR 0x0D"
  by (auto simp: std_alphabet_def)

lemma sextet_plain [simp]:
  assumes "i < 64"
  shows "sextet i \<noteq> CHR ''=''" "sextet i \<noteq> CHR 0x0A" "sextet i \<noteq> CHR 0x0D"
  using alphabet_plain [OF sextet_in [OF assms]] by auto

lemma sextets_of_three:
  fixes x y z :: nat
  assumes "x < 256" "y < 256" "z < 256"
  shows "(x * 65536 + y * 256 + z) div 262144 < 64"
  using assms by linarith

lemma sextets_sum:
  fixes v :: nat
  shows "v div 262144 * 262144 + v div 4096 mod 64 * 4096 + v div 64 mod 64 * 64 + v mod 64 = v"
proof -
  have q: "v div 4096 = v div 64 div 64" "v div 262144 = v div 64 div 64 div 64"
    by (simp_all only: div_mult2_eq [symmetric]) simp_all
  have "64 * (v div 64) + v mod 64 = v"
    "64 * (v div 64 div 64) + v div 64 mod 64 = v div 64"
    "64 * (v div 64 div 64 div 64) + v div 64 div 64 mod 64 = v div 64 div 64"
    by (rule mult_div_mod_eq)+
  then show ?thesis unfolding q by linarith
qed

lemma octets_of_three:
  fixes x y z :: nat
  assumes "x < 256" "y < 256" "z < 256"
  shows "(x * 65536 + y * 256 + z) div 65536 = x"
    and "(x * 65536 + y * 256 + z) div 256 mod 256 = y"
    and "(x * 65536 + y * 256 + z) mod 256 = z"
proof -
  let ?v = "x * 65536 + y * 256 + z"
  have v: "?v = (x * 256 + y) * 256 + z" by simp
  then have d: "?v div 256 = x * 256 + y" using assms by simp
  have "?v div 65536 = ?v div 256 div 256" by (simp only: div_mult2_eq [symmetric]) simp
  with d assms show "?v div 65536 = x" by simp
  from d assms show "?v div 256 mod 256 = y" by simp
  from v assms show "?v mod 256 = z" by (metis mod_less mod_mult_self3)
qed

lemma b64_quanta_encode [simp]: "b64_quanta (b64_encode bs) = Some bs"
proof (induction bs rule: b64_encode.induct)
  case (2 a)
  let ?v = "unat a * 65536"
  have lt: "?v div 262144 < 64" using sextets_of_three [of "unat a" 0 0] by simp
  have "?v = 64 * (64 * (16 * unat a))" by simp
  then have z: "?v div 64 mod 64 = 0" "?v mod 64 = 0"
    by (simp_all only: nonzero_mult_div_cancel_left mod_mult_self1_is_0)
  have "(?v div 262144 * 64 + ?v div 4096 mod 64) * 4096 = ?v"
    using sextets_sum [of ?v] unfolding z by simp
  then have "(?v div 262144 * 64 + ?v div 4096 mod 64) div 16 = unat a" by simp
  with lt show ?case by (simp add: Let_def)
next
  case (3 a b)
  let ?v = "unat a * 65536 + unat b * 256"
  have lt: "?v div 262144 < 64" using sextets_of_three [of "unat a" "unat b" 0] by simp
  have "?v = 64 * (1024 * unat a + 4 * unat b)" by simp
  then have z: "?v mod 64 = 0" by (simp only: mod_mult_self1_is_0)
  have "(?v div 262144 * 4096 + ?v div 4096 mod 64 * 64 + ?v div 64 mod 64) * 64 = ?v"
    using sextets_sum [of ?v] unfolding z by simp
  then have "?v div 262144 * 4096 + ?v div 4096 mod 64 * 64 + ?v div 64 mod 64 =
      4 * (unat a * 256 + unat b)"
    by simp
  then have w: "(?v div 262144 * 4096 + ?v div 4096 mod 64 * 64 + ?v div 64 mod 64) div 4 =
      unat a * 256 + unat b"
    by simp
  with lt show ?case by (simp add: Let_def w)
next
  case (4 a b c r)
  let ?v = "unat a * 65536 + unat b * 256 + unat c"
  have lt: "?v div 262144 < 64" by (rule sextets_of_three) simp_all
  note o = octets_of_three [OF unat_byte_less unat_byte_less unat_byte_less, of a b c]
  show ?case using lt sextets_sum [of ?v] o 4 by (simp add: Let_def)
qed simp

lemma b64_encode_chars:
  "c \<in> set (b64_encode bs) \<Longrightarrow> c = CHR ''='' \<or> c \<in> set std_alphabet"
proof (induction bs rule: b64_encode.induct)
  case (2 a)
  have "unat a * 65536 div 262144 < 64" using unat_byte_less [of a] by linarith
  with 2 show ?case by (auto simp: Let_def sextet_in)
next
  case (3 a b)
  have "(unat a * 65536 + unat b * 256) div 262144 < 64"
    using unat_byte_less [of a] unat_byte_less [of b] by linarith
  with 3 show ?case by (auto simp: Let_def sextet_in)
next
  case (4 a b d r)
  have "(unat a * 65536 + unat b * 256 + unat d) div 262144 < 64"
    by (rule sextets_of_three) simp_all
  with 4 show ?case by (auto simp: Let_def sextet_in)
qed simp

lemma b64_decode_encode [simp]: "b64_decode (b64_encode bs) = Some bs"
proof -
  have "filter (\<lambda>c. c \<noteq> CHR 0x0A \<and> c \<noteq> CHR 0x0D) (b64_encode bs) = b64_encode bs"
    by (auto simp: filter_id_conv dest!: b64_encode_chars dest: alphabet_plain)
  then show ?thesis by (simp add: b64_decode_def)
qed

lemma length_b64_encode: "length (b64_encode bs) = 4 * ((length bs + 2) div 3)"
proof (induction bs rule: b64_encode.induct)
  case (4 a b c r)
  have "(length (a # b # c # r) + 2) div 3 = Suc ((length r + 2) div 3)" by simp
  with 4 show ?case by (simp add: Let_def)
qed (simp_all add: Let_def)

interpretation b64: byte_codec b64_encode b64_decode
  by unfold_locales simp


section \<open>Package encoding/binary and byte-wise shifts\<close>

definition u8_of :: "'a::len word \<Rightarrow> byte" where
  "u8_of v = ucast v"

definition be32_bytes :: "u32 \<Rightarrow> bytes" where
  "be32_bytes v = [u8_of (drop_bit 24 v), u8_of (drop_bit 16 v), u8_of (drop_bit 8 v), u8_of v]"

definition le32_bytes :: "u32 \<Rightarrow> bytes" where
  "le32_bytes v = [u8_of v, u8_of (drop_bit 8 v), u8_of (drop_bit 16 v), u8_of (drop_bit 24 v)]"

definition be64_bytes :: "u64 \<Rightarrow> bytes" where
  "be64_bytes v = map (\<lambda>i. u8_of (drop_bit (56 - 8 * i) v)) [0..<8]"

definition le64_bytes :: "u64 \<Rightarrow> bytes" where
  "le64_bytes v = map (\<lambda>i. u8_of (drop_bit (8 * i) v)) [0..<8]"

definition be16_bytes :: "16 word \<Rightarrow> bytes" where
  "be16_bytes v = [u8_of (drop_bit 8 v), u8_of v]"

definition u32_be :: "byte \<Rightarrow> byte \<Rightarrow> byte \<Rightarrow> byte \<Rightarrow> u32" where
  "u32_be a b c d = push_bit 24 (ucast a) OR push_bit 16 (ucast b) OR push_bit 8 (ucast c) OR ucast d"

definition u32_le :: "byte \<Rightarrow> byte \<Rightarrow> byte \<Rightarrow> byte \<Rightarrow> u32" where
  "u32_le a b c d = u32_be d c b a"

lemma length_word_bytes [simp]:
  "length (be32_bytes v) = 4" "length (le32_bytes v) = 4" "length (be64_bytes w) = 8"
  "length (le64_bytes w) = 8" "length (be16_bytes x) = 2"
  by (simp_all add: be32_bytes_def le32_bytes_def be64_bytes_def le64_bytes_def be16_bytes_def)

lemma byte_bit_beyond [simp]: "8 \<le> n \<Longrightarrow> \<not> bit (b :: byte) n"
  by (auto dest: bit_imp_le_length)

lemma bit_u32_be:
  "bit (u32_be a b c d) n \<longleftrightarrow> (if n < 8 then bit d n else if n < 16 then bit c (n - 8)
     else if n < 24 then bit b (n - 16) else n < 32 \<and> bit a (n - 24))"
proof -
  have *: "bit (u32_be a b c d) n \<longleftrightarrow> n < 32 \<and> (24 \<le> n \<and> bit a (n - 24) \<or> 16 \<le> n \<and> bit b (n - 16) \<or>
      8 \<le> n \<and> bit c (n - 8) \<or> bit d n)"
    by (simp add: u32_be_def bit_or_iff bit_push_bit_iff bit_unsigned_iff) linarith
  consider "n < 8" | "8 \<le> n" "n < 16" | "16 \<le> n" "n < 24" | "24 \<le> n" by linarith
  then show ?thesis unfolding * by cases simp_all
qed

lemma u32_be_parts [simp]:
  "u8_of (drop_bit 24 (u32_be a b c d)) = a" "u8_of (drop_bit 16 (u32_be a b c d)) = b"
  "u8_of (drop_bit 8 (u32_be a b c d)) = c" "u8_of (u32_be a b c d) = d"
  by (rule bit_word_eqI; simp add: u8_of_def bit_unsigned_iff bit_drop_bit_eq bit_u32_be)+

lemma u32_be_of_parts [simp]:
  "u32_be (u8_of (drop_bit 24 v)) (u8_of (drop_bit 16 v)) (u8_of (drop_bit 8 v)) (u8_of v) = v"
  by (rule bit_word_eqI)
     (auto simp: bit_u32_be u8_of_def bit_unsigned_iff bit_drop_bit_eq not_less)

lemma be32_bytes_inject [simp]: "be32_bytes v = be32_bytes w \<longleftrightarrow> v = w"
proof
  assume "be32_bytes v = be32_bytes w"
  then have "u32_be (u8_of (drop_bit 24 v)) (u8_of (drop_bit 16 v)) (u8_of (drop_bit 8 v)) (u8_of v) =
      u32_be (u8_of (drop_bit 24 w)) (u8_of (drop_bit 16 w)) (u8_of (drop_bit 8 w)) (u8_of w)"
    by (simp only: be32_bytes_def list.inject)
  then show "v = w" by (simp only: u32_be_of_parts)
qed simp

text \<open>
  A table of bytes has no repetition when splitting it by its bits leaves single entries; this
  is quick to evaluate.
\<close>

fun bit_distinct :: "nat \<Rightarrow> byte list \<Rightarrow> bool" where
  "bit_distinct 0 xs = (length xs \<le> 1)"
| "bit_distinct (Suc k) xs =
     (bit_distinct k (filter (\<lambda>b. bit b k) xs) \<and> bit_distinct k (filter (\<lambda>b. \<not> bit b k) xs))"

lemma distinct_filters: "distinct (filter P xs) \<Longrightarrow> distinct (filter (\<lambda>x. \<not> P x) xs) \<Longrightarrow> distinct xs"
  by (induction xs) (auto split: if_splits)

lemma bit_distinct: "bit_distinct k xs \<Longrightarrow> distinct xs"
proof (induction k arbitrary: xs)
  case 0
  then show ?case by (cases xs) auto
next
  case (Suc k)
  then show ?case by (auto intro: distinct_filters [of "\<lambda>b. bit b k"])
qed

section \<open>Package encoding/base64, RawURLEncoding\<close>

definition url_char :: "char \<Rightarrow> char" where
  "url_char c = (if c = CHR ''+'' then CHR ''-'' else if c = CHR ''/'' then CHR ''_'' else c)"

definition std_char :: "char \<Rightarrow> char" where
  "std_char c = (if c = CHR ''-'' then CHR ''+'' else if c = CHR ''_'' then CHR ''/'' else c)"

definition b64url_encode :: "bytes \<Rightarrow> string" where
  "b64url_encode bs = map url_char (filter (\<lambda>c. c \<noteq> CHR ''='') (b64_encode bs))"

definition b64url_decode :: "string \<Rightarrow> bytes option" where
  "b64url_decode s =
     (let t = filter (\<lambda>c. c \<noteq> CHR 0x0A \<and> c \<noteq> CHR 0x0D) s in
      if list_ex (\<lambda>c. c \<in> {CHR ''+'', CHR ''/'', CHR ''=''}) t then None
      else b64_quanta (map std_char t @ replicate ((4 - length t mod 4) mod 4) (CHR ''='')))"

lemma b64_encode_padding:
  "b64_encode bs = filter (\<lambda>c. c \<noteq> CHR ''='') (b64_encode bs) @
     replicate ((4 - length (filter (\<lambda>c. c \<noteq> CHR ''='') (b64_encode bs)) mod 4) mod 4) (CHR ''='')"
proof (induction bs rule: b64_encode.induct)
  case (2 a)
  have "unat a * 65536 div 262144 < 64" using unat_byte_less [of a] by linarith
  then show ?case by (simp add: Let_def numeral_2_eq_2)
next
  case (3 a b)
  have "(unat a * 65536 + unat b * 256) div 262144 < 64"
    using unat_byte_less [of a] unat_byte_less [of b] by linarith
  then show ?case by (simp add: Let_def)
next
  case (4 a b d r)
  have "(unat a * 65536 + unat b * 256 + unat d) div 262144 < 64"
    by (rule sextets_of_three) simp_all
  then show ?case using 4 by (simp add: Let_def)
qed simp

lemma std_char_url: "c \<in> set std_alphabet \<Longrightarrow> std_char (url_char c) = c \<and> url_char c \<notin> {CHR ''+'', CHR ''/'', CHR ''=''} \<and>
    url_char c \<noteq> CHR 0x0A \<and> url_char c \<noteq> CHR 0x0D"
proof -
  have "\<forall>c\<in>set std_alphabet. std_char (url_char c) = c \<and> url_char c \<notin> {CHR ''+'', CHR ''/'', CHR ''=''} \<and>
    url_char c \<noteq> CHR 0x0A \<and> url_char c \<noteq> CHR 0x0D" by code_simp
  then show "c \<in> set std_alphabet \<Longrightarrow> ?thesis" by blast
qed

lemma b64url_decode_encode [simp]: "b64url_decode (b64url_encode bs) = Some bs"
proof -
  let ?f = "filter (\<lambda>c. c \<noteq> CHR ''='') (b64_encode bs)"
  have in_alphabet: "c \<in> set std_alphabet" if "c \<in> set ?f" for c
    using that b64_encode_chars by auto
  have t: "filter (\<lambda>c. c \<noteq> CHR 0x0A \<and> c \<noteq> CHR 0x0D) (b64url_encode bs) = b64url_encode bs"
    unfolding b64url_encode_def using in_alphabet std_char_url by (intro filter_True) auto
  have x: "\<not> list_ex (\<lambda>c. c \<in> {CHR ''+'', CHR ''/'', CHR ''=''}) (b64url_encode bs)"
    unfolding b64url_encode_def list_ex_iff using in_alphabet std_char_url by fastforce
  have m: "map std_char (b64url_encode bs) = ?f"
    unfolding b64url_encode_def map_map by (rule map_idI) (use in_alphabet std_char_url in auto)
  have "b64url_decode (b64url_encode bs) = b64_quanta (?f @ replicate ((4 - length ?f mod 4) mod 4) (CHR ''=''))"
    unfolding b64url_decode_def Let_def t m using x by (simp add: b64url_encode_def)
  then show ?thesis unfolding b64_encode_padding[symmetric] by simp
qed

end
