(* ===== verification/Ciphers.thy ===== *)
theory Ciphers
  imports Encodings
begin

text \<open>
  The interfaces the signature and encryption back ends share: a 16-byte block cipher, its
  cipher-block chaining, and percent-encoding. Clients prove their lengths and round trips
  here once; the back ends interpret the locales on the code's own block functions.
\<close>

section \<open>Blocks\<close>

definition xor_bytes :: "bytes \<Rightarrow> bytes \<Rightarrow> bytes" where
  "xor_bytes a b = map2 (XOR) a b"

lemma length_xor_bytes [simp]: "length (xor_bytes a b) = min (length a) (length b)"
  by (simp add: xor_bytes_def)

lemma xor_bytes_cancel: "length a \<le> length b \<Longrightarrow> xor_bytes (xor_bytes a b) b = a"
  by (rule nth_equalityI) (simp_all add: xor_bytes_def xor.assoc)

fun blocks_of :: "bytes \<Rightarrow> bytes list" where
  "blocks_of data =
     (if length data < 16 then [] else take 16 data # blocks_of (drop 16 data))"

declare blocks_of.simps [simp del]

lemma blocks_of_short [simp]: "length data < 16 \<Longrightarrow> blocks_of data = []"
  by (simp add: blocks_of.simps)

lemma blocks_of_append [simp]: "length b = 16 \<Longrightarrow> blocks_of (b @ r) = b # blocks_of r"
  by (simp add: blocks_of.simps [of "b @ r"])

lemma blocks_of_lengths: "b \<in> set (blocks_of data) \<Longrightarrow> length b = 16"
proof (induction data rule: blocks_of.induct)
  case (1 data)
  then show ?case by (cases "length data < 16") (auto simp: blocks_of.simps [of data])
qed

lemma concat_blocks_of: "length data mod 16 = 0 \<Longrightarrow> concat (blocks_of data) = data"
proof (induction data rule: blocks_of.induct)
  case (1 data)
  show ?case
  proof (cases "length data < 16")
    case True
    with 1(2) show ?thesis by simp
  next
    case False
    then have "length (drop 16 data) mod 16 = 0"
      using 1(2) by (simp add: mod_if [of "length data" 16])
    with 1(1) [OF False] False show ?thesis by (simp add: blocks_of.simps [of data])
  qed
qed

lemma blocks_of_concat: "\<forall>b \<in> set bs. length b = 16 \<Longrightarrow> blocks_of (concat bs) = bs"
  by (induction bs) simp_all

lemma length_blocks_of: "length (blocks_of data) = length data div 16"
proof (induction data rule: blocks_of.induct)
  case (1 data)
  then show ?case
    by (cases "length data < 16") (simp_all add: blocks_of.simps [of data] le_div_geq not_less)
qed

lemma length_concat_blocks: "\<forall>b \<in> set bs. length b = 16 \<Longrightarrow> length (concat bs) = 16 * length bs"
  by (induction bs) simp_all

section \<open>Cipher-block chaining\<close>

fun cbc_chain :: "(bytes \<Rightarrow> bytes) \<Rightarrow> bytes \<Rightarrow> bytes list \<Rightarrow> bytes list" where
  "cbc_chain E iv [] = []"
| "cbc_chain E iv (b # bs) = (let c = E (xor_bytes b iv) in c # cbc_chain E c bs)"

fun cbc_unchain :: "(bytes \<Rightarrow> bytes) \<Rightarrow> bytes \<Rightarrow> bytes list \<Rightarrow> bytes list" where
  "cbc_unchain D iv [] = []"
| "cbc_unchain D iv (c # cs) = xor_bytes (D c) iv # cbc_unchain D c cs"

lemma length_cbc_chain [simp]: "length (cbc_chain E iv bs) = length bs"
  by (induction bs arbitrary: iv) (simp_all add: Let_def)

lemma cbc_chain_append:
  "cbc_chain E iv (bs @ cs) =
     cbc_chain E iv bs @ cbc_chain E (last (iv # cbc_chain E iv bs)) cs"
  by (induction bs arbitrary: iv) (simp_all add: Let_def)

locale block_cipher =
  fixes E :: "bytes \<Rightarrow> bytes"
  assumes length_E [simp]: "length b = 16 \<Longrightarrow> length (E b) = 16"
begin

lemma cbc_lengths:
  "length iv = 16 \<Longrightarrow> \<forall>b \<in> set bs. length b = 16 \<Longrightarrow> c \<in> set (cbc_chain E iv bs) \<Longrightarrow> length c = 16"
proof (induction bs arbitrary: iv)
  case (Cons b bs)
  then show ?case using Cons.IH [of "E (xor_bytes b iv)"] by (auto simp: Let_def)
qed simp

lemma length_concat_cbc:
  assumes "length iv = 16" and "\<forall>b \<in> set bs. length b = 16"
  shows "length (concat (cbc_chain E iv bs)) = 16 * length bs"
  using length_concat_blocks [of "cbc_chain E iv bs"] cbc_lengths [OF assms] by simp

lemma ecb_length: "\<forall>b \<in> set bs. length b = 16 \<Longrightarrow> length (concat (map E bs)) = 16 * length bs"
  by (induction bs) simp_all

end

locale invertible_cipher = block_cipher +
  fixes D :: "bytes \<Rightarrow> bytes"
  assumes D_E [simp]: "length b = 16 \<Longrightarrow> D (E b) = b"
begin

lemma E_inject: "length a = 16 \<Longrightarrow> length b = 16 \<Longrightarrow> E a = E b \<longleftrightarrow> a = b"
  by (metis D_E)

lemma cbc_decrypts:
  "length iv = 16 \<Longrightarrow> \<forall>b \<in> set bs. length b = 16 \<Longrightarrow> cbc_unchain D iv (cbc_chain E iv bs) = bs"
  by (induction bs arbitrary: iv) (simp_all add: Let_def xor_bytes_cancel)

end

section \<open>Percent-encoding\<close>

definition upper_digits :: string where
  "upper_digits = ''0123456789ABCDEF''"

definition upper_hex :: "nat \<Rightarrow> byte" where
  "upper_hex n = byte_of (upper_digits ! n)"

definition pct_byte :: "byte \<Rightarrow> bytes" where
  "pct_byte b = [37, upper_hex (unat b div 16), upper_hex (unat b mod 16)]"

definition pct_encode :: "(byte \<Rightarrow> bool) \<Rightarrow> bytes \<Rightarrow> bytes" where
  "pct_encode safe bs = concat (map (\<lambda>b. if safe b then [b] else pct_byte b) bs)"

definition upper_hex_val :: "byte \<Rightarrow> nat option" where
  "upper_hex_val b = index_of (char_of_byte b) upper_digits"

fun pct_decode :: "bytes \<Rightarrow> bytes option" where
  "pct_decode [] = Some []"
| "pct_decode (b # bs) =
     (if b = 37 then
        (case bs of
           h # l # r \<Rightarrow>
             (case (upper_hex_val h, upper_hex_val l) of
                (Some p, Some q) \<Rightarrow> map_option ((#) (word_of_nat (16 * p + q))) (pct_decode r)
              | _ \<Rightarrow> None)
         | _ \<Rightarrow> None)
      else map_option ((#) b) (pct_decode bs))"

lemma hi_nibble: "unat (drop_bit 4 b :: byte) = unat b div 16"
proof -
  have "unat (drop_bit 4 b) = drop_bit 4 (unat b)" by (rule unat_drop_bit_eq)
  then show ?thesis by (simp only: drop_bit_eq_div) simp
qed

lemma lo_nibble: "unat (b AND 15 :: byte) = unat b mod 16"
proof -
  have "b AND 15 = take_bit 4 b" by (simp add: take_bit_eq_mask mask_eq_exp_minus_1)
  then have "unat (b AND 15) = take_bit 4 (unat b)" by (simp add: unsigned_take_bit_eq)
  then show ?thesis by (simp only: take_bit_eq_mod) simp
qed

lemma pct_byte_nibbles:
  "pct_byte b = [37, upper_hex (unat (drop_bit 4 b)), upper_hex (unat (b AND 15))]"
  by (simp only: pct_byte_def hi_nibble lo_nibble)

lemma upper_digits_props: "distinct upper_digits" "length upper_digits = 16"
  by (simp_all add: upper_digits_def)

lemma upper_hex_val_upper_hex [simp]: "n < 16 \<Longrightarrow> upper_hex_val (upper_hex n) = Some n"
  by (simp add: upper_hex_val_def upper_hex_def upper_digits_props)

lemma pct_decode_pct_byte [simp]: "pct_decode (pct_byte b @ r) = map_option ((#) b) (pct_decode r)"
proof -
  have "unat b div 16 < 16" using unat_byte_less [of b] by linarith
  then show ?thesis by (simp add: pct_byte_def)
qed

locale percent_encoder =
  fixes safe :: "byte \<Rightarrow> bool"
  assumes percent_unsafe [simp]: "\<not> safe 37"
begin

lemma pct_decode_encode: "pct_decode (pct_encode safe bs) = Some bs"
proof (induction bs)
  case (Cons b bs)
  have "safe b \<Longrightarrow> b \<noteq> 37" by auto
  with Cons show ?case by (auto simp: pct_encode_def)
qed (simp add: pct_encode_def)

lemma pct_encode_inject: "pct_encode safe a = pct_encode safe b \<longleftrightarrow> a = b"
  by (metis option.inject pct_decode_encode)

lemma pct_encode_append: "pct_encode safe (a @ b) = pct_encode safe a @ pct_encode safe b"
  by (simp add: pct_encode_def)

end

end
