(* ===== verification/Feedlib.thy ===== *)
theory Feedlib
  imports Gojson Ciphers "HOL-Library.AList"
begin

text \<open>
  What the news back ends share: \<open>InsertFlatFields\<close> of \<open>src/fbprotocols/fbshared/listmsg.go\<close>, the maps of
  keys that were seen with the loop that publishes the unseen entries, \<open>strings.Cut\<close>, query escaping, and
  JSON decoded into \<open>map[string]any\<close> with its numbers as \<open>float64\<close>.
\<close>

section \<open>Strings and times\<close>

definition cut :: "char \<Rightarrow> string \<Rightarrow> (string \<times> string) option" where
  "cut c s = (if c \<in> set s then Some (takeWhile (\<lambda>d. d \<noteq> c) s, tl (dropWhile (\<lambda>d. d \<noteq> c) s)) else None)"

definition unix :: "time \<Rightarrow> int" where "unix t = t div 1000000000"

definition wbi_plain :: "nat \<Rightarrow> bool" where
  "wbi_plain r \<longleftrightarrow> 97 \<le> r \<and> r \<le> 122 \<or> 65 \<le> r \<and> r \<le> 90 \<or> 48 \<le> r \<and> r \<le> 57 \<or> r \<in> {45, 95, 46, 126}"

definition pct_char :: "char \<Rightarrow> string" where
  "pct_char c = [CHR ''%'', upper_digits ! (of_char c div 16), upper_digits ! (of_char c mod 16)]"

definition queryEscape :: "string \<Rightarrow> string" where
  "queryEscape s =
     concat (map (\<lambda>c. if wbi_plain (of_char c) then [c] else if c = CHR '' '' then ''+'' else pct_char c) s)"

section \<open>Fields of a generic value\<close>

text \<open>A field of a \<open>map[string]any\<close>: the last entry with exactly this key.\<close>

definition any_field :: "json \<Rightarrow> string \<Rightarrow> json option" where
  "any_field j k = (case j of JObj es \<Rightarrow> map_of (rev es) k | _ \<Rightarrow> None)"

definition any_string :: "json option \<Rightarrow> string" where
  "any_string j = (case j of Some (JStr t) \<Rightarrow> t | _ \<Rightarrow> [])"

text \<open>An entry that keeps its own text: decoded into a fresh value, replaced as a whole.\<close>

definition dec_keeping :: "'i decoder \<Rightarrow> 'i \<Rightarrow> (json \<Rightarrow> 'i \<Rightarrow> 'i) \<Rightarrow> 'i decoder" where
  "dec_keeping d zero keep = (\<lambda>old j. if snd (d zero j) then (keep j (fst (d zero j)), True) else (old, False))"

section \<open>Extra fields\<close>

datatype flatResult = FlatErr | FlatPanic | FlatOk "string \<rightharpoonup> json"

text \<open>A \<open>null\<close> decodes to the nil map, into which nothing can be assigned.\<close>

definition insertFlatFields :: "json \<Rightarrow> (string \<times> json) list \<Rightarrow> flatResult" where
  "insertFlatFields raw extra =
     (case raw of
        JObj es \<Rightarrow> FlatOk (map_of extra ++ map_of (rev es))
      | JNull \<Rightarrow> if extra = [] then FlatOk Map.empty else FlatPanic
      | _ \<Rightarrow> FlatErr)"

definition flatFields :: "string \<Rightarrow> nat \<Rightarrow> (string \<times> json) list" where
  "flatFields kind n = [(''proto_type'', JStr kind), (''cycle_count'', JNum (show_nat n))]"

section \<open>Keys that were seen\<close>

text \<open>A map from keys to seconds: an association list with distinct keys.\<close>

type_synonym seen = "(string \<times> int) list"

definition pruneMap :: "time \<Rightarrow> seen \<Rightarrow> seen" where
  "pruneMap now m = filter (\<lambda>(k, v). \<not> v < unix (now - hours 72)) m"

definition seed_items :: "('i \<Rightarrow> string) \<Rightarrow> int \<Rightarrow> 'i list \<Rightarrow> seen \<Rightarrow> seen" where
  "seed_items key now is m = foldl (\<lambda>m i. AList.update (key i) now m) m is"

text \<open>The first entry of each key that is not yet known.\<close>

fun fresh_items :: "('i \<Rightarrow> string) \<Rightarrow> string set \<Rightarrow> 'i list \<Rightarrow> 'i list" where
  "fresh_items key ks [] = []"
| "fresh_items key ks (i # is) = (if key i \<in> ks then fresh_items key ks is else i # fresh_items key (insert (key i) ks) is)"

definition flat_of :: "('i \<Rightarrow> json) \<Rightarrow> (string \<times> json) list \<Rightarrow> 'i \<Rightarrow> (string \<rightharpoonup> json) list" where
  "flat_of raw extra i = (case insertFlatFields (raw i) extra of FlatOk f \<Rightarrow> [f] | _ \<Rightarrow> [])"

lemma fresh_items_known: "i \<in> set (fresh_items key ks is) \<Longrightarrow> i \<in> set is \<and> key i \<notin> ks"
  by (induction key ks "is" rule: fresh_items.induct) (auto split: if_splits)

lemma fresh_items_distinct: "distinct (map key (fresh_items key ks is))"
  by (induction key ks "is" rule: fresh_items.induct) (auto dest: fresh_items_known)

lemma fresh_items_keys: "key ` set (fresh_items key ks is) = key ` set is - ks"
  by (induction key ks "is" rule: fresh_items.induct) auto

lemma fresh_items_none: "key ` set is \<subseteq> ks \<Longrightarrow> fresh_items key ks is = []"
  by (induction key ks "is" rule: fresh_items.induct) auto

lemma keys_update [simp]: "fst ` set (AList.update k v m) = insert k (fst ` set m)"
  using AList.dom_update[of k v m] by (simp add: dom_map_of_conv_image_fst)

lemma keys_fold_update: "fst ` set (fold (\<lambda>i. AList.update (key i) now) is m) = key ` set is \<union> fst ` set m"
  by (induction "is" arbitrary: m) auto

lemma flatFields_not_Nil [simp]: "flatFields kind n \<noteq> []"
  by (simp add: flatFields_def)

lemma keys_seed: "fst ` set (seed_items key now is m) = key ` set is \<union> fst ` set m"
  unfolding seed_items_def by (induction "is" arbitrary: m) auto

lemma keys_prune: "k \<in> fst ` set (pruneMap now m) \<Longrightarrow> \<exists>v. (k, v) \<in> set m \<and> unix (now - hours 72) \<le> v"
  by (auto simp: pruneMap_def)

lemma set_prune: "set (pruneMap now m) \<subseteq> set m"
  by (auto simp: pruneMap_def)

section \<open>Numbers of a generic value\<close>

text \<open>A number in a \<open>map[string]any\<close> is a \<open>float64\<close>. The literal denotes the rational number
  \<open>m * 10 ^ e\<close>; \<open>ParseFloat\<close> takes the nearest number with 53 binary digits, the even one of two, and
  fails when that is not finite. A pair \<open>(n, k)\<close> stands for \<open>n * 2 ^ k\<close>.\<close>

fun digit_run :: "string \<Rightarrow> string \<times> string" where
  "digit_run [] = ([], [])"
| "digit_run (c # s) = (if digit_val c = None then ([], c # s) else map_prod ((#) c) id (digit_run s))"

definition digits_int :: "string \<Rightarrow> int" where
  "digits_int ds = foldl (\<lambda>v c. 10 * v + (case digit_val c of Some d \<Rightarrow> int d | None \<Rightarrow> 0)) 0 ds"

definition read_exponent :: "string \<Rightarrow> int" where
  "read_exponent s =
     (case s of
        c # r \<Rightarrow> if c \<noteq> CHR ''e'' \<and> c \<noteq> CHR ''E'' then 0
                 else (case r of
                         CHR ''-'' # ds \<Rightarrow> - digits_int ds
                       | CHR ''+'' # ds \<Rightarrow> digits_int ds
                       | ds \<Rightarrow> digits_int ds)
      | [] \<Rightarrow> 0)"

text \<open>The sign, \<open>m\<close> and \<open>e\<close> of a literal.\<close>

definition read_literal :: "string \<Rightarrow> bool \<times> int \<times> int" where
  "read_literal s =
     (let (neg, s1) = (case s of CHR ''-'' # r \<Rightarrow> (True, r) | r \<Rightarrow> (False, r));
          (ip, s2) = digit_run s1;
          (fp, s3) = (case s2 of CHR ''.'' # r \<Rightarrow> digit_run r | r \<Rightarrow> ([], r))
      in (neg, digits_int (ip @ fp), read_exponent s3 - int (length fp)))"

function bit_len :: "int \<Rightarrow> int" where
  "bit_len n = (if n \<le> 0 then 0 else 1 + bit_len (n div 2))"
  by auto
termination by (relation "measure nat") auto

declare bit_len.simps [simp del]

definition round_even :: "int \<Rightarrow> int \<Rightarrow> int" where
  "round_even p q = (let n = p div q; r = p mod q in if 2 * r < q \<or> (2 * r = q \<and> even n) then n else n + 1)"

text \<open>\<open>round_even\<close> of \<open>p / q / 2 ^ k\<close>.\<close>

definition round_scaled :: "int \<Rightarrow> int \<Rightarrow> int \<Rightarrow> int" where
  "round_scaled p q k = (if 0 \<le> k then round_even p (q * 2 ^ nat k) else round_even (p * 2 ^ nat (- k)) q)"

definition scaled_below :: "int \<Rightarrow> int \<Rightarrow> int \<Rightarrow> int \<Rightarrow> bool" where
  "scaled_below p q k b \<longleftrightarrow> (if 0 \<le> k then p < b * q * 2 ^ nat k else p * 2 ^ nat (- k) < b * q)"

definition float64 :: "int \<Rightarrow> int \<Rightarrow> (int \<times> int) option" where
  "float64 p q =
     (if p = 0 then Some (0, 0)
      else
        (let k0 = bit_len p - bit_len q - 53;
             k = max (if scaled_below p q k0 (2 ^ 53) then k0 else k0 + 1) (- 1074);
             n = round_scaled p q k
         in if 971 < k \<or> (k = 971 \<and> n = 2 ^ 53) then None else Some (n, k)))"

text \<open>A literal so long or so small that the power of ten is not needed is decided by its exponent.\<close>

definition float_lit :: "string \<Rightarrow> (bool \<times> int \<times> int) option" where
  "float_lit s =
     (case read_literal s of (neg, m, e) \<Rightarrow>
        if m = 0 \<or> e + int (length s) < - 400 then Some (neg, 0, 0)
        else if 400 < e then None
        else map_option (\<lambda>(n, k). (neg, n, k)) (if 0 \<le> e then float64 (m * 10 ^ nat e) 1 else float64 m (10 ^ nat (- e))))"

text \<open>\<open>int64(v)\<close> drops the fraction; what it does out of range is up to the processor, and is what amd64 does here.\<close>

definition float_to_int :: "bool \<times> int \<times> int \<Rightarrow> int" where
  "float_to_int = (\<lambda>(neg, n, k).
     let a = (if 0 \<le> k then n * 2 ^ nat k else n div 2 ^ nat (- k)); v = (if neg then - a else a)
     in if min_i64 \<le> v \<and> v \<le> max_i64 then v else min_i64)"

text \<open>Decoding fails when a number is not finite, wherever it stands. \<open>any_map\<close> is \<open>Unmarshal\<close> into a
  \<open>map[string]any\<close> that reports no error; the nil map has no entries.\<close>

fun any_finite :: "json \<Rightarrow> bool" where
  "any_finite (JNum s) \<longleftrightarrow> float_lit s \<noteq> None"
| "any_finite (JArr js) \<longleftrightarrow> (\<forall>j \<in> set js. any_finite j)"
| "any_finite (JObj es) \<longleftrightarrow> (\<forall>e \<in> set es. any_finite (snd e))"
| "any_finite _ \<longleftrightarrow> True"

definition any_map :: "json option \<Rightarrow> json option" where
  "any_map x =
     (case x of
        Some (JObj es) \<Rightarrow> if any_finite (JObj es) then Some (JObj es) else None
      | Some JNull \<Rightarrow> Some (JObj [])
      | _ \<Rightarrow> None)"

definition any_object :: "json option \<Rightarrow> json option" where
  "any_object j = (case j of Some (JObj es) \<Rightarrow> Some (JObj es) | _ \<Rightarrow> None)"

definition any_int :: "json option \<Rightarrow> int" where
  "any_int j = (case j of Some (JNum s) \<Rightarrow> (case float_lit s of Some f \<Rightarrow> float_to_int f | None \<Rightarrow> 0) | _ \<Rightarrow> 0)"

section \<open>The loop of a round\<close>

text \<open>A round over \<open>is\<close>: an entry with a key that is not in the map is marked and handed to \<open>publish\<close> with
  the extra fields. An entry without a key is passed over; an entry whose text is no object stays marked
  and is not published; \<open>null\<close> ends the process. The result is the map, what is published, by key, and
  whether the loop went through.\<close>

fun feed_items :: "('i \<Rightarrow> string option) \<Rightarrow> ('i \<Rightarrow> json) \<Rightarrow> (string \<times> json) list \<Rightarrow> int \<Rightarrow> 'i list \<Rightarrow> seen
    \<Rightarrow> seen \<times> (string \<times> (string \<rightharpoonup> json)) list \<times> bool" where
  "feed_items key raw extra now [] m = (m, [], True)"
| "feed_items key raw extra now (i # is) m =
     (case key i of
        None \<Rightarrow> feed_items key raw extra now is m
      | Some k \<Rightarrow>
          if map_of m k \<noteq> None then feed_items key raw extra now is m
          else
            (let m1 = AList.update k now m
             in case insertFlatFields (raw i) extra of
                  FlatPanic \<Rightarrow> (m1, [], False)
                | FlatErr \<Rightarrow> feed_items key raw extra now is m1
                | FlatOk f \<Rightarrow> map_prod id (map_prod ((#) (k, f)) id) (feed_items key raw extra now is m1)))"

end
