(* ===== verification/Digest.thy ===== *)
theory Digest
  imports Encodings
begin

text \<open>
  The MD5 digest of Go's \<open>crypto/md5\<close> (RFC 1321), which the request signatures hash with.
  The definition is executable; the digests of the RFC's test suite are in the root theory's
  witnesses of the signature functions only through their length, which is all the
  proofs need.
\<close>

definition md5_shifts :: "nat list" where
  "md5_shifts =
     concat (replicate 4 [7, 12, 17, 22]) @ concat (replicate 4 [5, 9, 14, 20]) @
     concat (replicate 4 [4, 11, 16, 23]) @ concat (replicate 4 [6, 10, 15, 21])"

definition md5_table :: "u32 list" where
  "md5_table =
   [0xd76aa478, 0xe8c7b756, 0x242070db, 0xc1bdceee, 0xf57c0faf, 0x4787c62a, 0xa8304613, 0xfd469501,
    0x698098d8, 0x8b44f7af, 0xffff5bb1, 0x895cd7be, 0x6b901122, 0xfd987193, 0xa679438e, 0x49b40821,
    0xf61e2562, 0xc040b340, 0x265e5a51, 0xe9b6c7aa, 0xd62f105d, 0x02441453, 0xd8a1e681, 0xe7d3fbc8,
    0x21e1cde6, 0xc33707d6, 0xf4d50d87, 0x455a14ed, 0xa9e3e905, 0xfcefa3f8, 0x676f02d9, 0x8d2a4c8a,
    0xfffa3942, 0x8771f681, 0x6d9d6122, 0xfde5380c, 0xa4beea44, 0x4bdecfa9, 0xf6bb4b60, 0xbebfbc70,
    0x289b7ec6, 0xeaa127fa, 0xd4ef3085, 0x04881d05, 0xd9d4d039, 0xe6db99e5, 0x1fa27cf8, 0xc4ac5665,
    0xf4292244, 0x432aff97, 0xab9423a7, 0xfc93a039, 0x655b59c3, 0x8f0ccc92, 0xffeff47d, 0x85845dd1,
    0x6fa87e4f, 0xfe2ce6e0, 0xa3014314, 0x4e0811a1, 0xf7537e82, 0xbd3af235, 0x2ad7d2bb, 0xeb86d391]"

type_synonym md5_state = "u32 \<times> u32 \<times> u32 \<times> u32"

definition rotl32 :: "u32 \<Rightarrow> nat \<Rightarrow> u32" where
  "rotl32 x n = push_bit n x OR drop_bit (32 - n) x"

definition md5_step :: "u32 list \<Rightarrow> nat \<Rightarrow> md5_state \<Rightarrow> md5_state" where
  "md5_step m i = (\<lambda>(a, b, c, d).
     let (f, g) =
       (if i < 16 then ((b AND c) OR (NOT b AND d), i)
        else if i < 32 then ((d AND b) OR (NOT d AND c), (5 * i + 1) mod 16)
        else if i < 48 then (b XOR c XOR d, (3 * i + 5) mod 16)
        else (c XOR (b OR NOT d), (7 * i) mod 16))
     in (d, b + rotl32 (a + f + md5_table ! i + m ! g) (md5_shifts ! i), b, c))"

fun le_words :: "bytes \<Rightarrow> u32 list" where
  "le_words (a # b # c # d # r) = u32_le a b c d # le_words r"
| "le_words _ = []"

definition md5_block :: "md5_state \<Rightarrow> bytes \<Rightarrow> md5_state" where
  "md5_block st blk =
     (case st of (a, b, c, d) \<Rightarrow>
        case fold (md5_step (le_words blk)) [0..<64] st of (a', b', c', d') \<Rightarrow>
          (a + a', b + b', c + c', d + d'))"

fun chunks :: "nat \<Rightarrow> nat \<Rightarrow> 'a list \<Rightarrow> 'a list list" where
  "chunks k 0 xs = []"
| "chunks k (Suc n) xs = take k xs # chunks k n (drop k xs)"

definition md5_pad :: "bytes \<Rightarrow> bytes" where
  "md5_pad m = m @ [0x80] @ replicate ((119 - length m mod 64) mod 64) 0
     @ le64_bytes (word_of_nat (8 * length m))"

definition md5_sum :: "bytes \<Rightarrow> bytes" where
  "md5_sum m =
     (let p = md5_pad m
      in case fold (\<lambda>blk st. md5_block st blk) (chunks 64 (length p div 64) p)
             (0x67452301, 0xefcdab89, 0x98badcfe, 0x10325476) of
           (a, b, c, d) \<Rightarrow> le32_bytes a @ le32_bytes b @ le32_bytes c @ le32_bytes d)"

definition md5_hex :: "string \<Rightarrow> string" where
  "md5_hex s = hex_encode (md5_sum (bytes_of s))"

lemma length_md5_sum [simp]: "length (md5_sum m) = 16"
  by (auto simp: md5_sum_def Let_def split: prod.splits)

lemma length_md5_hex [simp]: "length (md5_hex s) = 32"
  by (simp add: md5_hex_def)

lemma md5_hex_decodes [simp]: "hex_decode (md5_hex s) = Some (md5_sum (bytes_of s))"
  by (simp add: md5_hex_def)

end
