(* ===== verification/Zhihu_Sign.thy ===== *)
theory Zhihu_Sign
  imports Ciphers Digest
begin

text \<open>
  The web request signature of the zhihu back end (\<open>src/fbprotocols/zhihu/sign.go\<close>): the
  sign-source string, the SM4-like block cipher \<open>rBlock\<close>, its chaining, the custom final
  encoding, and the header bundle. The arrays \<open>[16]byte\<close> are byte lists of length 16.

  The lemmas build a decoder for every stage (\<open>rUnblock\<close>, \<open>customDecode\<close>,
  \<open>decryptZseV4\<close>), so the signature value determines the digest that was signed.
\<close>

section \<open>Tables\<close>

definition zse93 :: string where
  "zse93 = ''101_3_3.0''"

definition zk :: "u32 list" where
  "zk = [
    1170614578, 1024848638, 1413669199, 3951632832, 3528873006, 2921909214, 4151847688, 3997739139,
    1933479194, 3323781115, 3888513386, 460404854, 3747539722, 2403641034, 2615871395, 2119585428,
    2265697227, 2035090028, 2773447226, 4289380121, 4217216195, 2200601443, 3051914490, 1579901135,
    1321810770, 456816404, 2903323407, 4065664991, 330002838, 3506006750, 363569021, 2347096187]"

definition zb :: "byte list" where
  "zb = [
    20, 223, 245, 7, 248, 2, 194, 209, 87, 6, 227, 253, 240, 128, 222, 91,
    237, 9, 125, 157, 230, 93, 252, 205, 90, 79, 144, 199, 159, 197, 186, 167,
    39, 37, 156, 198, 38, 42, 43, 168, 217, 153, 15, 103, 80, 189, 71, 191,
    97, 84, 247, 95, 36, 69, 14, 35, 12, 171, 28, 114, 178, 148, 86, 182,
    32, 83, 158, 109, 22, 255, 94, 238, 151, 85, 77, 124, 254, 18, 4, 26,
    123, 176, 232, 193, 131, 172, 143, 142, 150, 30, 10, 146, 162, 62, 224, 218,
    196, 229, 1, 192, 213, 27, 110, 56, 231, 180, 138, 107, 242, 187, 54, 120,
    19, 44, 117, 228, 215, 203, 53, 239, 251, 127, 81, 11, 133, 96, 204, 132,
    41, 115, 73, 55, 249, 147, 102, 48, 122, 145, 106, 118, 74, 190, 29, 16,
    174, 5, 177, 129, 63, 113, 99, 31, 161, 76, 246, 34, 211, 13, 60, 68,
    207, 160, 65, 111, 82, 165, 67, 169, 225, 57, 112, 244, 155, 51, 236, 200,
    233, 58, 61, 47, 100, 137, 185, 64, 17, 70, 234, 163, 219, 108, 170, 166,
    59, 149, 52, 105, 24, 212, 78, 173, 45, 0, 116, 226, 119, 136, 206, 135,
    175, 195, 25, 92, 121, 208, 126, 139, 3, 75, 141, 21, 130, 98, 241, 40,
    154, 66, 184, 49, 181, 46, 243, 88, 101, 183, 8, 23, 72, 188, 104, 179,
    210, 134, 250, 201, 164, 89, 216, 202, 220, 50, 221, 152, 140, 33, 235, 214]"

definition signAlphabet :: string where
  "signAlphabet = ''6fpLRqJO8M/c3jnYxFkUVC4ZIG12SiH=5v0mXDazWBTsuw7QetbKdoPyAl+hN9rgE''"

definition key16 :: bytes where
  "key16 = bytes_of ''059053f7d15e01d7''"

lemma table_lengths: "length zk = 32" "length zb = 256" "length signAlphabet = 65" "length key16 = 16"
  by (simp_all add: zk_def zb_def signAlphabet_def key16_def)

section \<open>The sign source\<close>

text \<open>
  \<open>strings.Index\<close> and \<open>strings.IndexByte\<close>: \<open>-1\<close> is \<open>None\<close>.
\<close>

fun str_index :: "string \<Rightarrow> string \<Rightarrow> nat option" where
  "str_index [] p = (if p = [] then Some 0 else None)"
| "str_index (c # s) p = (if has_prefix (c # s) p then Some 0 else map_option Suc (str_index s p))"

definition extractPathname :: "string \<Rightarrow> string" where
  "extractPathname u =
     (let rest = (case str_index u ''//'' of Some idx \<Rightarrow> drop (idx + 2) u | None \<Rightarrow> u)
      in case index_of (CHR ''/'') rest of
           Some idx \<Rightarrow> drop idx rest
         | None \<Rightarrow> CHR ''/'' # rest)"

definition buildSignSource :: "string \<Rightarrow> string \<Rightarrow> string \<Rightarrow> string" where
  "buildSignSource u dC0 body =
     zse93 @ ''+'' @ extractPathname u @ ''+'' @ dC0 @ (if body \<noteq> [] then ''+'' @ body else [])"

section \<open>The block cipher\<close>

definition zb_at :: "byte \<Rightarrow> u32" where
  "zb_at b = ucast (zb ! unat b)"

definition gTransform :: "u32 \<Rightarrow> u32" where
  "gTransform tt =
     (let ti = push_bit 24 (zb_at (u8_of (drop_bit 24 tt))) OR push_bit 16 (zb_at (u8_of (drop_bit 16 tt)))
               OR push_bit 8 (zb_at (u8_of (drop_bit 8 tt))) OR zb_at (u8_of tt)
      in ti XOR rotl32 ti 2 XOR rotl32 ti 10 XOR rotl32 ti 18 XOR rotl32 ti 24)"

definition be32_at :: "bytes \<Rightarrow> nat \<Rightarrow> u32" where
  "be32_at b i = u32_be (b ! i) (b ! (i + 1)) (b ! (i + 2)) (b ! (i + 3))"

definition rRound :: "nat \<Rightarrow> u32 list \<Rightarrow> u32 list" where
  "rRound i tr =
     tr @ [tr ! i XOR gTransform (tr ! (i + 1) XOR tr ! (i + 2) XOR tr ! (i + 3) XOR zk ! i)]"

definition rBlock :: "bytes \<Rightarrow> bytes" where
  "rBlock inp =
     (let tr = fold rRound [0..<32] [be32_at inp 0, be32_at inp 4, be32_at inp 8, be32_at inp 12]
      in be32_bytes (tr ! 35) @ be32_bytes (tr ! 34) @ be32_bytes (tr ! 33) @ be32_bytes (tr ! 32))"

text \<open>
  \<open>xBlocks\<close> consumes whole 16-byte blocks while there are any.
\<close>

function xBlocks :: "bytes \<Rightarrow> bytes \<Rightarrow> bytes" where
  "xBlocks data iv =
     (if 16 \<le> length data
      then let c = rBlock (xor_bytes (take 16 data) iv) in c @ xBlocks (drop 16 data) c
      else [])"
  by pat_completeness auto
termination
  by (relation "measure (\<lambda>(data, iv). length data)") auto

declare xBlocks.simps [simp del]

section \<open>Encodings around the cipher\<close>

definition uriUnreserved :: "byte \<Rightarrow> bool" where
  "uriUnreserved b \<longleftrightarrow> (65 \<le> b \<and> b \<le> 90) \<or> (97 \<le> b \<and> b \<le> 122) \<or> (48 \<le> b \<and> b \<le> 57) \<or>
     b \<in> set (bytes_of ''-_.!~*'' @ [39] @ bytes_of ''()'')"

definition encodeURIComponent :: "string \<Rightarrow> bytes" where
  "encodeURIComponent s =
     concat (map (\<lambda>b. if uriUnreserved b then [b]
                      else [37, upper_hex (unat (drop_bit 4 b)), upper_hex (unat (b AND 15))]) (bytes_of s))"

definition customMask :: "nat \<Rightarrow> byte" where
  "customMask i = (if i mod 4 = 0 then 58 else 0)"

definition low6 :: "u32 \<Rightarrow> u32" where
  "low6 v = v AND 63"

definition signChar :: "u32 \<Rightarrow> char" where
  "signChar v = signAlphabet ! unat (low6 v)"

text \<open>
  The loop of \<open>customEncode\<close> runs from the last byte to the first in steps of three, so its
  model walks the reversed list; \<open>58 >> (8 * (i % 4))\<close> is a byte shift, so it is 58 or 0.
\<close>

fun customGroups :: "nat \<Rightarrow> bytes \<Rightarrow> string" where
  "customGroups i (x # y # z # r) =
     (let v = ucast (x XOR customMask i) OR push_bit 8 (ucast (y XOR customMask (i + 1)))
              OR push_bit 16 (ucast (z XOR customMask (i + 2)))
      in [signChar v, signChar (drop_bit 6 v), signChar (drop_bit 12 v), signChar (drop_bit 18 v)]
           @ customGroups (i + 3) r)"
| "customGroups i _ = []"

definition customEncode :: "bytes \<Rightarrow> string" where
  "customEncode b =
     (let b' = b @ replicate ((3 - length b mod 3) mod 3) 0 in customGroups 0 (rev b'))"

definition zsePlain :: "string \<Rightarrow> bytes" where
  "zsePlain input =
     (let plain = [210, 0] @ encodeURIComponent input;
          pad = 16 - length plain mod 16
      in plain @ replicate pad (word_of_nat pad))"

definition encryptZseV4 :: "string \<Rightarrow> string" where
  "encryptZseV4 input =
     (let plain = zsePlain input;
          first = map (\<lambda>i. plain ! i XOR key16 ! i XOR 42) [0..<16];
          c0 = rBlock first;
          cipher = (if 16 < length plain then c0 @ xBlocks (drop 16 plain) c0 else c0)
      in customEncode cipher)"

definition signZhihuRequest :: "string \<Rightarrow> string \<Rightarrow> string \<Rightarrow> (string \<times> string) list" where
  "signZhihuRequest u dC0 body =
     (let src = buildSignSource u dC0 body;
          zse96 = ''2.0_'' @ encryptZseV4 (md5_hex src)
      in [(''x-zse-93'', zse93), (''x-zse-96'', zse96), (''x-requested-with'', ''fetch'')])"


section \<open>The inverse of the block cipher\<close>

definition rUnround :: "nat \<Rightarrow> u32 \<times> u32 \<times> u32 \<times> u32 \<Rightarrow> u32 \<times> u32 \<times> u32 \<times> u32" where
  "rUnround i = (\<lambda>(b, c, d, e). (e XOR gTransform (b XOR c XOR d XOR zk ! i), b, c, d))"

definition rUnblock :: "bytes \<Rightarrow> bytes" where
  "rUnblock out =
     (case fold rUnround (rev [0..<32]) (be32_at out 12, be32_at out 8, be32_at out 4, be32_at out 0) of
        (a, b, c, d) \<Rightarrow> be32_bytes a @ be32_bytes b @ be32_bytes c @ be32_bytes d)"

definition window :: "nat \<Rightarrow> u32 list \<Rightarrow> u32 \<times> u32 \<times> u32 \<times> u32" where
  "window n tr = (tr ! n, tr ! (n + 1), tr ! (n + 2), tr ! (n + 3))"

lemma length_rRounds: "length (fold rRound [0..<n] tr) = n + length tr"
  by (induction n) (simp_all add: rRound_def)

lemma rUnround_rRound:
  assumes "length tr = n + 4"
  shows "rUnround n (window (Suc n) (rRound n tr)) = window n tr"
proof -
  have "window (Suc n) (rRound n tr) = (tr ! (n + 1), tr ! (n + 2), tr ! (n + 3),
      tr ! n XOR gTransform (tr ! (n + 1) XOR tr ! (n + 2) XOR tr ! (n + 3) XOR zk ! n))"
    using assms by (simp add: window_def rRound_def nth_append numeral_3_eq_3)
  then show ?thesis by (simp add: rUnround_def window_def xor.assoc)
qed

lemma rUnrounds:
  assumes "length tr = 4"
  shows "fold rUnround (rev [0..<n]) (window n (fold rRound [0..<n] tr)) = window 0 tr"
proof (induction n)
  case (Suc n)
  have "length (fold rRound [0..<n] tr) = n + 4" using assms by (simp add: length_rRounds)
  with Suc show ?case by (simp add: rUnround_rRound)
qed simp

lemma be32_at_cat [simp]:
  "be32_at (be32_bytes a @ be32_bytes b @ be32_bytes c @ be32_bytes d) 0 = a"
  "be32_at (be32_bytes a @ be32_bytes b @ be32_bytes c @ be32_bytes d) 4 = b"
  "be32_at (be32_bytes a @ be32_bytes b @ be32_bytes c @ be32_bytes d) 8 = c"
  "be32_at (be32_bytes a @ be32_bytes b @ be32_bytes c @ be32_bytes d) 12 = d"
  by (simp_all add: be32_at_def be32_bytes_def)

lemma length_16E:
  assumes "length b = 16"
  obtains x0 x1 x2 x3 x4 x5 x6 x7 x8 x9 xa xb xc xd xe xf
  where "b = [x0, x1, x2, x3, x4, x5, x6, x7, x8, x9, xa, xb, xc, xd, xe, xf]"
proof -
  have "b = map ((!) b) [0..<16]" using assms map_nth [of b] by simp
  then show ?thesis using that by (simp add: upt_rec)
qed

lemma be32_at_all:
  "length b = 16 \<Longrightarrow>
   be32_bytes (be32_at b 0) @ be32_bytes (be32_at b 4) @ be32_bytes (be32_at b 8) @ be32_bytes (be32_at b 12) = b"
  by (erule length_16E) (simp add: be32_at_def be32_bytes_def)

lemma rUnblock_rBlock: "length b = 16 \<Longrightarrow> rUnblock (rBlock b) = b"
  using rUnrounds [of "[be32_at b 0, be32_at b 4, be32_at b 8, be32_at b 12]" 32]
  by (simp add: rUnblock_def rBlock_def Let_def window_def be32_at_all del: upt_conv_Cons)

lemma length_rBlock [simp]: "length (rBlock b) = 16"
  by (simp add: rBlock_def Let_def)

interpretation rblock: invertible_cipher rBlock rUnblock
  by unfold_locales (simp_all add: rUnblock_rBlock)

lemma xBlocks_cbc: "xBlocks data iv = concat (cbc_chain rBlock iv (blocks_of data))"
proof (induction data iv rule: xBlocks.induct)
  case (1 data iv)
  show ?case
  proof (cases "16 \<le> length data")
    case True
    with 1 show ?thesis
      by (subst xBlocks.simps, subst blocks_of.simps) (simp add: Let_def)
  next
    case False
    then show ?thesis by (simp add: xBlocks.simps)
  qed
qed


section \<open>The inverse of the final encoding\<close>

definition signIndex :: "char \<Rightarrow> u32 option" where
  "signIndex c = map_option word_of_nat (index_of c (take 64 signAlphabet))"

definition join6 :: "u32 \<Rightarrow> u32 \<Rightarrow> u32 \<Rightarrow> u32 \<Rightarrow> u32" where
  "join6 p q s t = p OR push_bit 6 q OR push_bit 12 s OR push_bit 18 t"

fun customUngroups :: "nat \<Rightarrow> string \<Rightarrow> bytes option" where
  "customUngroups i (a # b # c # d # r) =
     (case (signIndex a, signIndex b, signIndex c, signIndex d) of
        (Some p, Some q, Some s, Some t) \<Rightarrow>
          (let v = join6 p q s t
           in map_option (\<lambda>bs. (u8_of v XOR customMask i) # (u8_of (drop_bit 8 v) XOR customMask (i + 1))
                # (u8_of (drop_bit 16 v) XOR customMask (i + 2)) # bs) (customUngroups (i + 3) r))
      | _ \<Rightarrow> None)"
| "customUngroups i r = (if r = [] then Some [] else None)"

definition customDecode :: "string \<Rightarrow> bytes option" where
  "customDecode s = map_option rev (customUngroups 0 s)"

lemma signAlphabet_64: "distinct (take 64 signAlphabet)" "length (take 64 signAlphabet) = 64"
  by (simp_all add: signAlphabet_def)

lemma low6_bit: "bit (low6 v) n \<longleftrightarrow> n < 6 \<and> bit v n"
  using bit_take_bit_iff [of 6 v n] by (simp add: low6_def take_bit_eq_mask mask_eq_exp_minus_1)

lemma low6_less [simp]: "unat (low6 v) < 64"
  using word_and_le1 [of v 63] by (simp add: low6_def word_le_nat_alt)

lemma signIndex_signChar [simp]: "signIndex (signChar v) = Some (low6 v)"
proof -
  have c: "signChar v = take 64 signAlphabet ! unat (low6 v)"
    by (simp add: signChar_def)
  have "index_of (signChar v) (take 64 signAlphabet) = Some (unat (low6 v))"
    unfolding c using low6_less [of v]
    by (intro index_of_nth signAlphabet_64) (simp only: signAlphabet_64)
  then show ?thesis by (simp add: signIndex_def)
qed

lemma sextets_of_word:
  assumes "\<And>n. 24 \<le> n \<Longrightarrow> \<not> bit v n"
  shows "join6 (low6 v) (low6 (drop_bit 6 v)) (low6 (drop_bit 12 v)) (low6 (drop_bit 18 v)) = v"
proof (rule bit_word_eqI)
  fix n
  assume n: "n < LENGTH(32)"
  consider "n < 6" | "6 \<le> n" "n < 12" | "12 \<le> n" "n < 18" | "18 \<le> n" "n < 24" | "24 \<le> n" by linarith
  then show "bit (join6 (low6 v) (low6 (drop_bit 6 v)) (low6 (drop_bit 12 v)) (low6 (drop_bit 18 v))) n
      = bit v n"
    using n assms [of n]
    by cases (auto simp: join6_def bit_or_iff bit_push_bit_iff low6_bit bit_drop_bit_eq)
qed

lemma custom_word:
  "ucast (x :: byte) OR push_bit 8 (ucast (y :: byte)) OR push_bit 16 (ucast (z :: byte)) = u32_be 0 z y x"
  by (simp add: u32_be_def ac_simps)

lemma customUngroups_word:
  assumes "\<And>n. 24 \<le> n \<Longrightarrow> \<not> bit v n"
  shows "customUngroups i (signChar v # signChar (drop_bit 6 v) # signChar (drop_bit 12 v)
      # signChar (drop_bit 18 v) # r) =
    map_option (\<lambda>bs. (u8_of v XOR customMask i) # (u8_of (drop_bit 8 v) XOR customMask (i + 1))
      # (u8_of (drop_bit 16 v) XOR customMask (i + 2)) # bs) (customUngroups (i + 3) r)"
  using sextets_of_word [OF assms] by (simp add: Let_def)

lemma customUngroups_groups:
  "length b mod 3 = 0 \<Longrightarrow> customUngroups i (customGroups i b) = Some b"
proof (induction i b rule: customGroups.induct)
  case (1 i x y z r)
  let ?v = "u32_be 0 (z XOR customMask (i + 2)) (y XOR customMask (i + 1)) (x XOR customMask i)"
  have v: "\<And>n. 24 \<le> n \<Longrightarrow> \<not> bit ?v n" by (simp add: bit_u32_be)
  have g: "customGroups i (x # y # z # r) = signChar ?v # signChar (drop_bit 6 ?v) #
      signChar (drop_bit 12 ?v) # signChar (drop_bit 18 ?v) # customGroups (i + 3) r"
    by (simp add: Let_def custom_word)
  have "customUngroups (i + 3) (customGroups (i + 3) r) = Some r" using 1 by simp
  then show ?case
    unfolding g by (subst customUngroups_word [OF v]) (simp_all add: xor.assoc)
qed simp_all

lemma pad3: "((n :: nat) + (3 - n mod 3) mod 3) mod 3 = 0"
proof -
  have "n mod 3 < 3" by simp
  then consider "n mod 3 = 0" | "n mod 3 = 1" | "n mod 3 = 2" by linarith
  then show ?thesis by cases (simp_all add: mod_Suc)
qed

lemma customDecode_encode_pad:
  "customDecode (customEncode b) = Some (b @ replicate ((3 - length b mod 3) mod 3) 0)"
proof -
  have "length (rev (b @ replicate ((3 - length b mod 3) mod 3) 0)) mod 3 = 0"
    by (simp only: length_rev length_append length_replicate pad3)
  from customUngroups_groups [OF this, of 0]
  show ?thesis by (simp only: customDecode_def customEncode_def Let_def option.map rev_rev_ident)
qed

lemma length_customGroups: "length b mod 3 = 0 \<Longrightarrow> 3 * length (customGroups i b) = 4 * length b"
  by (induction i b rule: customGroups.induct) (simp_all add: Let_def)


section \<open>The inverse of the whole signature cipher\<close>

lemma uriUnreserved_percent: "\<not> uriUnreserved 37"
  by (simp add: uriUnreserved_def bytes_of_def byte_of_def)

interpretation uri: percent_encoder uriUnreserved
  by unfold_locales (rule uriUnreserved_percent)

lemma encodeURIComponent_pct: "encodeURIComponent s = pct_encode uriUnreserved (bytes_of s)"
  by (simp only: encodeURIComponent_def pct_encode_def pct_byte_nibbles)

definition decryptZseV4 :: "string \<Rightarrow> string option" where
  "decryptZseV4 sig =
     (case customDecode sig of
        None \<Rightarrow> None
      | Some padded \<Rightarrow>
        (let cipher = take (length padded - length padded mod 16) padded;
             c0 = take 16 cipher;
             first = map (\<lambda>i. rUnblock c0 ! i XOR key16 ! i XOR 42) [0..<16];
             plain = first @ concat (cbc_unchain rUnblock c0 (blocks_of (drop 16 cipher)));
             body = take (length plain - unat (last plain)) plain
         in map_option string_of (pct_decode (drop 2 body))))"

lemma length_zsePlain: "length (zsePlain s) mod 16 = 0" "16 \<le> length (zsePlain s)"
proof -
  let ?n = "length ([210, 0] @ encodeURIComponent s)"
  have len: "length (zsePlain s) = ?n + (16 - ?n mod 16)"
    unfolding zsePlain_def Let_def by (simp only: length_append length_replicate)
  have "?n mod 16 < 16" by simp
  then have "length (zsePlain s) = 16 * (?n div 16) + 16"
    using mult_div_mod_eq [of 16 ?n] len by linarith
  then show "length (zsePlain s) mod 16 = 0" "16 \<le> length (zsePlain s)"
    by simp_all
qed

lemma last_zsePlain:
  "take (length (zsePlain s) - unat (last (zsePlain s))) (zsePlain s) = [210, 0] @ encodeURIComponent s"
proof -
  let ?p = "[210, 0] @ encodeURIComponent s"
  let ?k = "16 - length ?p mod 16"
  have k: "0 < ?k" "?k < 256" by (simp, linarith)
  have z: "zsePlain s = ?p @ replicate ?k (word_of_nat ?k)"
    unfolding zsePlain_def Let_def by (rule refl)
  from k(1) have l: "last (zsePlain s) = word_of_nat ?k"
    unfolding z by (rule last_append_replicate)
  have "unat (last (zsePlain s)) = ?k"
    unfolding l using k(2) by (simp only: unat_word_of_nat_byte)
  then show ?thesis unfolding z by (simp only: length_append length_replicate) simp
qed

lemma zse_cipher:
  fixes s :: string
  defines "p \<equiv> zsePlain s"
  defines "c0 \<equiv> rBlock (map (\<lambda>i. p ! i XOR key16 ! i XOR 42) [0..<16])"
  defines "cipher \<equiv> c0 @ concat (cbc_chain rBlock c0 (blocks_of (drop 16 p)))"
  shows "encryptZseV4 s = customEncode cipher" and "length cipher mod 16 = 0"
proof -
  have "length p \<le> 16 \<Longrightarrow> blocks_of (drop 16 p) = []" by simp
  then show "encryptZseV4 s = customEncode cipher"
    by (auto simp: encryptZseV4_def Let_def p_def c0_def cipher_def xBlocks_cbc)
  have "length c0 = 16" by (simp add: c0_def)
  then show "length cipher mod 16 = 0"
    using rblock.length_concat_cbc [of c0 "blocks_of (drop 16 p)"] blocks_of_lengths
    by (auto simp: cipher_def)
qed

lemma xor_twice: "map (\<lambda>i. map (\<lambda>i. p ! i XOR k ! i XOR (42 :: byte)) [0..<16] ! i XOR k ! i XOR 42) [0..<16]
  = map ((!) p) [0..<16]"
  by (simp add: xor.assoc xor.left_commute [of _ 42])

lemma decrypt_encryptZseV4: "decryptZseV4 (encryptZseV4 s) = Some s"
proof -
  define p where "p = zsePlain s"
  define c0 where "c0 = rBlock (map (\<lambda>i. p ! i XOR key16 ! i XOR 42) [0..<16])"
  define bs where "bs = blocks_of (drop 16 p)"
  define cipher where "cipher = c0 @ concat (cbc_chain rBlock c0 bs)"
  have e: "encryptZseV4 s = customEncode cipher" and m: "length cipher mod 16 = 0"
    using zse_cipher [of s] by (simp_all add: p_def c0_def bs_def cipher_def)
  have c0: "length c0 = 16" by (simp add: c0_def)
  have bs: "\<forall>b \<in> set bs. length b = 16" using blocks_of_lengths by (simp add: bs_def)
  have chain: "\<forall>c \<in> set (cbc_chain rBlock c0 bs). length c = 16"
    using rblock.cbc_lengths [OF c0 bs] by blast
  have p16: "16 \<le> length p" "length p mod 16 = 0" using length_zsePlain by (simp_all add: p_def)
  have "length (drop 16 p) mod 16 = 0" using p16 by (simp add: mod_if [of "length p" 16])
  then have bs_concat: "concat bs = drop 16 p" unfolding bs_def by (rule concat_blocks_of)
  let ?z = "replicate ((3 - length cipher mod 3) mod 3) (0 :: byte)"
  have "(length (cipher @ ?z)) mod 16 = length ?z"
    using m by (simp add: mod_add_left_eq [of "length cipher" 16, symmetric])
  then have t: "take (length (cipher @ ?z) - length (cipher @ ?z) mod 16) (cipher @ ?z) = cipher"
    by simp
  have first: "map (\<lambda>i. rUnblock c0 ! i XOR key16 ! i XOR 42) [0..<16] = take 16 p"
    using p16(1) by (simp add: c0_def rUnblock_rBlock xor_twice map_nth_take)
  have "take 16 cipher = c0" "drop 16 cipher = concat (cbc_chain rBlock c0 bs)"
    using c0 by (simp_all add: cipher_def)
  moreover have "concat (cbc_unchain rUnblock c0 (blocks_of (concat (cbc_chain rBlock c0 bs)))) = drop 16 p"
    using p16 by (simp add: blocks_of_concat [OF chain] rblock.cbc_decrypts [OF c0 bs] bs_concat)
  moreover have "drop 2 (take (length p - unat (last p)) p) = encodeURIComponent s"
    unfolding p_def last_zsePlain by simp
  ultimately show ?thesis
    by (simp add: decryptZseV4_def e customDecode_encode_pad Let_def t first
        encodeURIComponent_pct uri.pct_decode_encode del: length_append take_append)
qed

section \<open>The headers\<close>

lemma hex_encode_chars: "set (hex_encode bs) \<subseteq> set hex_digits"
proof -
  have "unat (b :: byte) div 16 < 16" for b using unat_byte_less [of b] by linarith
  then show ?thesis
    by (fastforce simp: hex_encode_def hex_digits_props intro!: nth_mem)
qed

lemma hex_digits_unreserved: "c \<in> set hex_digits \<Longrightarrow> uriUnreserved (byte_of c)"
proof -
  have "list_all (\<lambda>c. uriUnreserved (byte_of c)) hex_digits" by code_simp
  then show "c \<in> set hex_digits \<Longrightarrow> uriUnreserved (byte_of c)" by (simp add: list_all_iff)
qed

lemma encodeURIComponent_hex [simp]: "encodeURIComponent (hex_encode bs) = bytes_of (hex_encode bs)"
proof -
  have "\<forall>b \<in> set (bytes_of (hex_encode bs)). uriUnreserved b"
    using hex_encode_chars hex_digits_unreserved by (fastforce simp: bytes_of_def)
  then have "map (\<lambda>b. if uriUnreserved b then [b]
      else [37, upper_hex (unat (drop_bit 4 b)), upper_hex (unat (b AND 15))]) (bytes_of (hex_encode bs))
    = map (\<lambda>b. [b]) (bytes_of (hex_encode bs))"
    by (intro map_cong) simp_all
  then show ?thesis by (simp only: encodeURIComponent_def concat_map_singleton) simp
qed

lemma length_encryptZseV4:
  "length (encryptZseV4 s) = 4 * ((length (zsePlain s) + 2) div 3)"
proof -
  define p where "p = zsePlain s"
  define c0 where "c0 = rBlock (map (\<lambda>i. p ! i XOR key16 ! i XOR 42) [0..<16])"
  define cipher where "cipher = c0 @ concat (cbc_chain rBlock c0 (blocks_of (drop 16 p)))"
  have e: "encryptZseV4 s = customEncode cipher"
    using zse_cipher(1) [of s] by (simp only: p_def c0_def cipher_def)
  have "length p mod 16 = 0" "16 \<le> length p" using length_zsePlain by (simp_all add: p_def)
  then obtain k where k: "length p = 16 + 16 * k"
    using mult_div_mod_eq [of 16 "length p - 16"] by (metis add_diff_inverse_nat dvd_minus_mod
      mod_0_imp_dvd dvd_diff_nat dvdE dvd_refl not_less)
  have "length (concat (cbc_chain rBlock c0 (blocks_of (drop 16 p)))) = 16 * k"
    using rblock.length_concat_cbc [of c0 "blocks_of (drop 16 p)"] blocks_of_lengths k
    by (auto simp: c0_def length_blocks_of)
  then have len: "length cipher = length p" using k by (simp add: cipher_def c0_def)
  let ?b = "rev (cipher @ replicate ((3 - length cipher mod 3) mod 3) 0)"
  have "length ?b mod 3 = 0" by (simp only: length_rev length_append length_replicate pad3)
  from length_customGroups [OF this, of 0]
  have "3 * length (customEncode cipher) = 4 * (length cipher + (3 - length cipher mod 3) mod 3)"
    by (simp only: customEncode_def Let_def length_rev length_append length_replicate)
  moreover have "n + (3 - n mod 3) mod 3 = 3 * ((n + 2) div 3)" for n :: nat
  proof -
    define q r where "q = n div 3" and "r = n mod 3"
    have n: "n = 3 * q + r" and r: "r < 3" by (simp_all add: q_def r_def)
    consider "r = 0" | "r = 1" | "r = 2" using r by linarith
    then show ?thesis unfolding n by cases (simp_all add: mod_Suc div_Suc)
  qed
  ultimately show ?thesis unfolding e len by (simp add: p_def [symmetric])
qed

text \<open>C2: The x-zse-96 header carries the MD5 of the sign source and nothing is lost on the
  way: whatever the URL, cookie and body, the three headers are the version tag, "2.0_" with a
  64-character signature, and the fetch marker, and the signature decrypts to exactly the
  32-digit digest of "101_3_3.0+path+d_c0[+body]".\<close>

theorem signZhihuRequest_shape:
  "\<exists>sig. signZhihuRequest u dC0 body =
      [(''x-zse-93'', ''101_3_3.0''), (''x-zse-96'', ''2.0_'' @ sig), (''x-requested-with'', ''fetch'')]
     \<and> length sig = 64 \<and> decryptZseV4 sig = Some (md5_hex (buildSignSource u dC0 body))"
proof (intro exI conjI)
  let ?m = "md5_hex (buildSignSource u dC0 body)"
  show "signZhihuRequest u dC0 body = [(''x-zse-93'', ''101_3_3.0''),
      (''x-zse-96'', ''2.0_'' @ encryptZseV4 ?m), (''x-requested-with'', ''fetch'')]"
    by (simp add: signZhihuRequest_def zse93_def Let_def)
  have "length (zsePlain ?m) = 48"
    by (simp add: zsePlain_def Let_def md5_hex_def)
  then show "length (encryptZseV4 ?m) = 64" by (simp add: length_encryptZseV4)
qed (rule decrypt_encryptZseV4)

text \<open>The block cipher under the signature is a permutation of the 16-byte blocks, and
  chaining it over any whole number of blocks can be undone with the inverse permutation: no two
  plaintexts with the same initial block share a ciphertext.\<close>

theorem xBlocks_inject:
  assumes "length iv = 16" and "length a mod 16 = 0" and "length b mod 16 = 0"
  shows "xBlocks a iv = xBlocks b iv \<longleftrightarrow> a = b"
proof
  have undo: "concat (cbc_unchain rUnblock iv (blocks_of (xBlocks d iv))) = d"
    if d: "length d mod 16 = 0" for d
  proof -
    have bs: "\<forall>x \<in> set (blocks_of d). length x = 16" using blocks_of_lengths by blast
    have "\<forall>c \<in> set (cbc_chain rBlock iv (blocks_of d)). length c = 16"
      using rblock.cbc_lengths [OF assms(1) bs] by blast
    then show ?thesis
      by (simp add: xBlocks_cbc blocks_of_concat rblock.cbc_decrypts [OF assms(1) bs]
          concat_blocks_of [OF d])
  qed
  assume "xBlocks a iv = xBlocks b iv"
  then show "a = b" using undo [OF assms(2)] undo [OF assms(3)] by metis
qed simp

lemma xBlocks_inject_witness:
  "xBlocks (replicate 16 0) (replicate 16 7) \<noteq> xBlocks (replicate 16 1) (replicate 16 7)"
  using xBlocks_inject [of "replicate 16 7" "replicate 16 0" "replicate 16 1"] by simp

text \<open>What is signed of a URL: everything from the first slash after the authority,
  the query string included, although the comment on extractPathname says the query is cut.\<close>

theorem extractPathname_keeps_query:
  assumes "CHR ''/'' \<notin> set scheme" and "CHR ''/'' \<notin> set host"
  shows "extractPathname (scheme @ ''//'' @ host @ ''/'' @ path @ ''?'' @ query) =
    ''/'' @ path @ ''?'' @ query"
proof -
  have idx: "str_index (s @ ''//'' @ r) ''//'' = Some (length s)" if "CHR ''/'' \<notin> set s" for s r
    using that by (induction s) (auto simp: has_prefix_def)
  have fst: "index_of (CHR ''/'') (s @ CHR ''/'' # r) = Some (length s)" if "CHR ''/'' \<notin> set s" for s r
    using that by (induction s) auto
  show ?thesis
    using idx [OF assms(1), of "host @ ''/'' @ path @ ''?'' @ query"]
      fst [OF assms(2), of "path @ ''?'' @ query"]
    by (simp add: extractPathname_def)
qed

lemma extractPathname_keeps_query_witness:
  "extractPathname (''https:'' @ ''//'' @ ''www.zhihu.com'' @ ''/'' @ ''api/v3/x'' @ ''?'' @ ''y=1'') =
    ''/'' @ ''api/v3/x'' @ ''?'' @ ''y=1''"
  by (rule extractPathname_keeps_query) simp_all

end
