(* ===== verification/Zhihu_Client.thy ===== *)
theory Zhihu_Client
  imports Feedlib Zhihu_Sign
begin

text \<open>
  The HTTP client of the zhihu back end, \<open>src/fbprotocols/zhihu/client.go\<close>, with the credential file of
  \<open>auth.go\<close> and the rate gate of \<open>zhihu.go\<close>, which it calls. Time is the field \<open>zh_now\<close>: a request lasts
  \<open>ze_took n\<close>, the rate gate and the pauses of the loops set it forward, and nothing else takes time. In the
  environment, \<open>ze_net n\<close> answers the \<open>n\<close>-th request: the redirects it went through and how it ended.
  \<open>ze_json\<close> parses a text, \<open>ze_writes\<close> tells whether a file can be written, \<open>ze_listen\<close> opens the socket of the
  login page and tells whether it answers, \<open>ze_stop\<close> whether the page was stopped meanwhile, \<open>ze_fmt\<close> is the text that
  \<open>fmt\<close> gives the \<open>float64\<close> of a literal that is no small integer, \<open>ze_rand\<close> gives random numbers and \<open>ze_perm\<close> the order in which Go visits a map. Addresses are
  those of the program, so \<open>NewRequest\<close> does not fail. Headers that are the same in every request are left
  out, as are the locks, and in the texts of errors the excerpt of the body.
\<close>

section \<open>Errors, requests and answers\<close>

datatype zhErr = ZNotLoggedIn | ZUnverifiable string | ZAlreadyLoggedIn | ZOther string

record zhReq =
  zq_method :: string
  zq_url :: string
  zq_body :: "string option"
  zq_referer :: string
  zq_cookie :: string
  zq_headers :: "(string \<times> string) list"

text \<open>A redirect: the status, the address it leads to and the cookies it sets. An answer: the status, the
  cookies, the header \<open>x-api-version\<close> and the body, which is \<open>Inl\<close> of an error when it could not be read.\<close>

type_synonym zhHop = "nat \<times> string \<times> string list"
type_synonym zhReply = "nat \<times> string list \<times> string \<times> (error + string)"

record zhEnv =
  ze_net :: "nat \<Rightarrow> zhReq \<Rightarrow> zhHop list \<times> (error + zhReply)"
  ze_took :: "nat \<Rightarrow> nat"
  ze_json :: "string \<Rightarrow> json option"
  ze_writes :: "nat \<Rightarrow> bool"
  ze_listen :: "nat \<Rightarrow> error + (string \<times> bool)"
  ze_rand :: "nat \<Rightarrow> nat \<Rightarrow> nat"
  ze_perm :: "nat \<Rightarrow> nat \<Rightarrow> nat list"
  ze_stop :: "nat \<Rightarrow> bool"
  ze_fmt :: "string \<Rightarrow> string"

section \<open>The state\<close>

record webSession =
  dC0 :: string
  zC0 :: string
  xsrf :: string
  zap :: string
  qC1 :: string
  capsion :: string
  capSession :: string
  bec :: string
  secTok :: string
  qC1Real :: bool
  dC0Real :: bool
  qrGate :: nat
  qrRiskURL :: string
  ws_user :: string
  ws_status :: string
  ws_loginMethod :: string

record zhAuthFile =
  zf_DC0 :: string
  zf_ZC0 :: string
  zf_XSRF :: string
  zf_User :: string
  zf_Status :: string
  zf_LoginMethod :: string

text \<open>What was handed to \<open>publish\<close>, with the feed, the key and the second of the round that did it.\<close>

record zhPub =
  zp_feed :: string
  zp_key :: string
  zp_at :: int
  zp_entry :: "string \<rightharpoonup> json"

text \<open>The login page: whether it runs and where, whether the browser was opened on it, whether there is a
  channel to stop it and whether that is closed; and what it shows.\<close>

record zhUI =
  ui_active :: bool
  ui_addr :: string
  ui_opened :: bool
  ui_hasStop :: bool
  ui_stopped :: bool

record zhPage =
  lp_stage :: string
  lp_qrURL :: string
  lp_errMsg :: string
  lp_riskURL :: string
  lp_user :: string

record zhihu =
  ws :: webSession
  zh_apiVersion :: string
  zh_warm :: bool
  zh_now :: time
  rateUntil :: "time option"
  rateBackoff :: duration
  zh_requests :: "zhReq list"
  zh_authErr :: "zhErr option"
  meHTMLSheds :: nat
  lastProbeOK :: "time option"
  reLoginNext :: "time option"
  zh_file :: "zhAuthFile option"
  zh_ui :: zhUI
  zh_page :: zhPage
  zh_logins :: "time list"
  zh_browsers :: "time list"
  zh_errs :: "zhErr list"
  zh_published :: "zhPub list"
  urlToken :: string
  zh_crashed :: bool

definition zh_ix :: "zhihu \<Rightarrow> nat" where "zh_ix s = length (zh_requests s)"

definition zh_sleep :: "duration \<Rightarrow> zhihu \<Rightarrow> zhihu" where
  "zh_sleep d s = s\<lparr>zh_now := zh_now s + max 0 d\<rparr>"

definition zh_session :: "(webSession \<Rightarrow> webSession) \<Rightarrow> zhihu \<Rightarrow> zhihu" where
  "zh_session f s = s\<lparr>ws := f (ws s)\<rparr>"

section \<open>Cookies\<close>

text \<open>\<open>captureCookies\<close>: an empty value changes nothing.\<close>

definition set_cookie :: "string \<Rightarrow> string \<Rightarrow> webSession \<Rightarrow> webSession" where
  "set_cookie name v w =
     (if v = [] then w
      else if name = ''z_c0'' then w\<lparr>zC0 := v\<rparr>
      else if name = ''_xsrf'' then w\<lparr>xsrf := v\<rparr>
      else if name = ''d_c0'' then w\<lparr>dC0 := v, dC0Real := True\<rparr>
      else if name = ''_zap'' then w\<lparr>zap := v\<rparr>
      else if name = ''q_c1'' then w\<lparr>qC1 := v, qC1Real := True\<rparr>
      else if name = ''capsion_ticket'' then w\<lparr>capsion := v\<rparr>
      else if name = ''captcha_session_v2'' then w\<lparr>capSession := v\<rparr>
      else if name = ''BEC'' then w\<lparr>bec := v\<rparr>
      else if name = ''sec_token'' then w\<lparr>secTok := v\<rparr>
      else w)"

text \<open>Name and value of a \<open>Set-Cookie\<close> header, as two calls of \<open>strings.Cut\<close> give them.\<close>

definition cookie_parts :: "string \<Rightarrow> string \<times> string" where
  "cookie_parts h =
     (let (name, rest) = (case cut CHR ''='' h of Some p \<Rightarrow> p | None \<Rightarrow> (h, []))
      in (name, (case cut CHR '';'' rest of Some (v, _) \<Rightarrow> v | None \<Rightarrow> rest)))"

definition zh_captureCookies :: "string list \<Rightarrow> zhihu \<Rightarrow> zhihu" where
  "zh_captureCookies hs s = zh_session (fold (\<lambda>h. set_cookie (fst (cookie_parts h)) (snd (cookie_parts h))) hs) s"

definition cookie_field :: "string \<Rightarrow> string \<Rightarrow> string" where
  "cookie_field name v = (if v = [] then [] else ''; '' @ name @ ''='' @ v)"

definition loginCookieHeader :: "webSession \<Rightarrow> string" where
  "loginCookieHeader w =
     (if dC0Real w then ''d_c0='' @ dC0 w else [])
     @ cookie_field ''_zap'' (zap w) @ (if qC1Real w then cookie_field ''q_c1'' (qC1 w) else [])
     @ cookie_field ''z_c0'' (zC0 w) @ cookie_field ''_xsrf'' (xsrf w) @ cookie_field ''capsion_ticket'' (capsion w)
     @ cookie_field ''captcha_session_v2'' (capSession w) @ cookie_field ''BEC'' (bec w)"

definition cookieHeader :: "webSession \<Rightarrow> string" where
  "cookieHeader w =
     ''d_c0='' @ dC0 w @ cookie_field ''_zap'' (zap w) @ cookie_field ''q_c1'' (qC1 w)
     @ cookie_field ''z_c0'' (zC0 w) @ cookie_field ''_xsrf'' (xsrf w) @ cookie_field ''capsion_ticket'' (capsion w)
     @ cookie_field ''captcha_session_v2'' (capSession w) @ cookie_field ''BEC'' (bec w) @ cookie_field ''sec_token'' (secTok w)"

definition dc0Alpha :: string where
  "dc0Alpha = ''ABCDEFGHIJKLMNOPQRSTUVWXYZabcdefghijklmnopqrstuvwxyz0123456789''"

definition randHex :: "(nat \<Rightarrow> nat) \<Rightarrow> nat \<Rightarrow> string" where
  "randHex r n = map (\<lambda>i. hex_digits ! (r i mod 16)) [0..<n]"

definition newDC0 :: "(nat \<Rightarrow> nat) \<Rightarrow> time \<Rightarrow> string" where
  "newDC0 r now =
     ''A'' @ map (\<lambda>i. dc0Alpha ! (r i mod 62)) [0..<26] @ ''|'' @ itoa (unix now) @ ''|'' @ randHex (\<lambda>i. r (26 + i)) 6"

definition newQC1 :: "(nat \<Rightarrow> nat) \<Rightarrow> string" where
  "newQC1 r = ''Q'' @ map (\<lambda>i. (dc0Alpha @ ''+/='') ! (r i mod 65)) [0..<32]"

definition idlePage :: zhPage where
  "idlePage = \<lparr>lp_stage = ''idle'', lp_qrURL = [], lp_errMsg = [], lp_riskURL = [], lp_user = []\<rparr>"

definition zh_init :: "zhEnv \<Rightarrow> time \<Rightarrow> zhAuthFile option \<Rightarrow> zhihu" where
  "zh_init env now stored =
     \<lparr>ws = \<lparr>dC0 = newDC0 (ze_rand env 0) now, zC0 = [], xsrf = [], zap = [], qC1 = [], capsion = [], capSession = [], bec = [],
             secTok = [], qC1Real = False, dC0Real = False, qrGate = 0, qrRiskURL = [], ws_user = [], ws_status = [],
             ws_loginMethod = []\<rparr>,
      zh_apiVersion = [], zh_warm = False, zh_now = now, rateUntil = None, rateBackoff = 0, zh_requests = [],
      zh_authErr = None, meHTMLSheds = 0, lastProbeOK = None, reLoginNext = None, zh_file = stored, 
      zh_ui = \<lparr>ui_active = False, ui_addr = [], ui_opened = False, ui_hasStop = False, ui_stopped = False\<rparr>,
      zh_page = idlePage, zh_logins = [], zh_browsers = [], zh_errs = [], zh_published = [], urlToken = [], zh_crashed = False\<rparr>"

section \<open>The credential file and the status\<close>

definition zh_saveAuth :: "zhEnv \<Rightarrow> zhihu \<Rightarrow> zhihu" where
  "zh_saveAuth env s =
     (if ze_writes env (zh_ix s)
      then s\<lparr>zh_file := Some \<lparr>zf_DC0 = dC0 (ws s), zf_ZC0 = zC0 (ws s), zf_XSRF = xsrf (ws s), zf_User = ws_user (ws s),
              zf_Status = ws_status (ws s), zf_LoginMethod = ws_loginMethod (ws s)\<rparr>\<rparr>
      else s)"

definition zh_setAuthStatus :: "zhEnv \<Rightarrow> string \<Rightarrow> zhihu \<Rightarrow> zhihu" where
  "zh_setAuthStatus env st s =
     (let s1 = zh_session (ws_status_update (\<lambda>_. st)) s in if st = ''invalid'' then zh_saveAuth env s1 else s1)"

definition zh_markSessionInvalid :: "zhEnv \<Rightarrow> zhErr \<Rightarrow> zhihu \<Rightarrow> zhihu" where
  "zh_markSessionInvalid env e s = zh_setAuthStatus env ''invalid'' (s\<lparr>zh_authErr := Some e\<rparr>)"

section \<open>The rate gate\<close>

definition rateBase :: duration where "rateBase = seconds 4"
definition rateMax :: duration where "rateMax = seconds 20"

definition waitRateGate :: "zhihu \<Rightarrow> zhihu" where
  "waitRateGate s = (case rateUntil s of Some t \<Rightarrow> if zh_now s < t then s\<lparr>zh_now := t\<rparr> else s | None \<Rightarrow> s)"

definition zh_noteRateLimit :: "zhihu \<Rightarrow> zhihu" where
  "zh_noteRateLimit s =
     (let b = (if rateBackoff s = 0 then rateBase else min rateMax (rateBackoff s * 2))
      in s\<lparr>rateBackoff := b, rateUntil := Some (zh_now s + b)\<rparr>)"

definition zh_clearRateLimit :: "zhihu \<Rightarrow> zhihu" where
  "zh_clearRateLimit s =
     (case rateUntil s of
        Some t \<Rightarrow> if zh_now s < t then s else s\<lparr>rateUntil := None, rateBackoff := rateBase\<rparr>
      | None \<Rightarrow> s\<lparr>rateBackoff := rateBase\<rparr>)"

section \<open>Sending\<close>

text \<open>\<open>CheckRedirect\<close>: a redirect leaves its cookies, and the first one to the page that asks for a human
  is noted. After ten the client gives up.\<close>

definition zh_hop :: "zhHop \<Rightarrow> zhihu \<Rightarrow> zhihu" where
  "zh_hop = (\<lambda>(status, location, cookies) s.
     let s1 = zh_captureCookies cookies s
     in if contains_sub location ''account/unhuman'' \<and> qrGate (ws s1) = 0
        then zh_session (\<lambda>w. w\<lparr>qrGate := status, qrRiskURL := location\<rparr>) s1 else s1)"

definition zh_do :: "zhEnv \<Rightarrow> zhReq \<Rightarrow> zhihu \<Rightarrow> zhihu \<times> (error + zhReply)" where
  "zh_do env rq s =
     (case ze_net env (zh_ix s) rq of (hops, outcome) \<Rightarrow>
        (fold zh_hop (take 10 hops) (s\<lparr>zh_requests := zh_requests s @ [rq], zh_now := zh_now s + int (ze_took env (zh_ix s))\<rparr>),
         if 10 \<le> length hops then Inl ''zhihu: too many redirects'' else outcome))"

section \<open>The anonymous warm-up\<close>

definition zhihuSigninURL :: string where "zhihuSigninURL = ''https://www.zhihu.com/signin?next=%2F''"
definition captchaV2URL :: string where
  "captchaV2URL = ''https://www.zhihu.com/api/v3/oauth/captcha/v2?type=captcha_sign_in''"

definition zh_space :: "char \<Rightarrow> bool" where
  "zh_space c \<longleftrightarrow> c = CHR '' '' \<or> of_char c \<in> {9, 10, 12, 13 :: nat}"

definition strip_tag :: "string \<Rightarrow> string \<Rightarrow> string option" where
  "strip_tag p s = (if has_prefix s p then Some (drop (length p) s) else None)"

text \<open>A text without the given marks, not empty, that a mark of \<open>closing\<close> follows.\<close>

definition quoted_until :: "char set \<Rightarrow> (string \<Rightarrow> bool) \<Rightarrow> string \<Rightarrow> string option" where
  "quoted_until marks closing s =
     (let v = takeWhile (\<lambda>c. c \<notin> marks) s; r = dropWhile (\<lambda>c. c \<notin> marks) s
      in if v \<noteq> [] \<and> closing r then Some v else None)"

text \<open>The three alternatives of \<open>apiVersionRE\<close> at one place, and the leftmost match.\<close>

definition api_assign :: "string \<Rightarrow> string option" where
  "api_assign s =
     (case strip_tag ''__API_VERSION__'' s of
        None \<Rightarrow> None
      | Some r \<Rightarrow> (case dropWhile zh_space r of CHR ''='' # r2 \<Rightarrow> Some (dropWhile zh_space r2) | _ \<Rightarrow> None))"

definition quot_mark :: char where "quot_mark = CHR 0x22"
definition quot_single :: char where "quot_single = CHR 0x27"

definition api_header :: "string \<Rightarrow> string option" where
  "api_header s =
     (case strip_tag ''x-api-version'' s of
        None \<Rightarrow> None
      | Some r \<Rightarrow>
          (let r1 = (case r of c # r' \<Rightarrow> if c \<in> {quot_mark, quot_single} then r' else r | [] \<Rightarrow> []);
               r2 = dropWhile zh_space r1;
               r3 = (case r2 of c # r' \<Rightarrow> if c \<in> {CHR '':'', CHR ''=''} then Some (dropWhile zh_space r') else None | [] \<Rightarrow> None)
           in case r3 of
                Some (c # r4) \<Rightarrow>
                  if c \<in> {quot_mark, quot_single}
                  then quoted_until {quot_mark, quot_single} (\<lambda>t. t \<noteq> []) r4 else None
              | _ \<Rightarrow> None))"

definition api_match :: "string \<Rightarrow> string option" where
  "api_match s =
     (case api_assign s of
        Some r \<Rightarrow>
          (case strip_tag (''file('' @ [quot_mark]) r of
             Some t \<Rightarrow> quoted_until {quot_mark} (\<lambda>u. has_prefix u [quot_mark, CHR '')'']) t
           | None \<Rightarrow> (case r of c # t \<Rightarrow> if c = quot_mark then quoted_until {quot_mark} (\<lambda>u. u \<noteq> []) t else None | [] \<Rightarrow> None))
      | None \<Rightarrow> api_header s)"

fun find_apiVersion :: "string \<Rightarrow> string option" where
  "find_apiVersion [] = None"
| "find_apiVersion (c # s) = (case api_match (c # s) of Some v \<Rightarrow> Some v | None \<Rightarrow> find_apiVersion s)"

definition login_req :: "string \<Rightarrow> string \<Rightarrow> string option \<Rightarrow> string \<Rightarrow> (string \<times> string) list \<Rightarrow> zhihu \<Rightarrow> zhReq" where
  "login_req meth u body ref hs s =
     \<lparr>zq_method = meth, zq_url = u, zq_body = body, zq_referer = ref, zq_cookie = loginCookieHeader (ws s), zq_headers = hs\<rparr>"

definition warmupRequest :: "zhEnv \<Rightarrow> string \<Rightarrow> string \<Rightarrow> string option \<Rightarrow> zhihu \<Rightarrow> zhihu \<times> bool" where
  "warmupRequest env meth u body s =
     (case zh_do env (login_req meth u body ''https://www.zhihu.com/signin'' [] s) s of
        (s1, Inl e) \<Rightarrow> (s1, False)
      | (s1, Inr (status, cookies, v, content)) \<Rightarrow> (zh_captureCookies cookies s1, True))"

text \<open>\<open>primeLoginContext\<close>: whether the context is there, and the status it reports.\<close>

definition primeLoginContext :: "zhEnv \<Rightarrow> zhihu \<Rightarrow> zhihu \<times> bool \<times> nat" where
  "primeLoginContext env s =
     (let s0 = zh_session (\<lambda>w. w\<lparr>qrGate := 0, qrRiskURL := [], secTok := []\<rparr>) s
      in case zh_do env (login_req ''GET'' zhihuSigninURL None ''https://www.zhihu.com/'' [] s0) s0 of
           (s1, Inl e) \<Rightarrow> (s1, False, 0)
         | (s1, Inr (status, cookies, ver, content)) \<Rightarrow>
             (let s2 = zh_captureCookies cookies s1; gate = qrGate (ws s2)
              in if status \<noteq> 200 \<or> gate \<noteq> 0
                 then (if gate = 0 then zh_session (qrGate_update (\<lambda>_. status)) s2 else s2, False, gate)
                 else
                   (let s3 = zh_session (\<lambda>w. w\<lparr>qrGate := 0, qrRiskURL := []\<rparr>) s2;
                        s4 = (if ver \<noteq> [] then s3\<lparr>zh_apiVersion := ver\<rparr> else s3);
                        body = (case content of Inr b \<Rightarrow> b | Inl e \<Rightarrow> []);
                        s5 = (case find_apiVersion body of Some v \<Rightarrow> s4\<lparr>zh_apiVersion := v\<rparr> | None \<Rightarrow> s4);
                        s6 = fst (warmupRequest env ''POST'' ''https://www.zhihu.com/udid'' (Some ''{}'') s5);
                        s7 = fst (warmupRequest env ''GET'' captchaV2URL None s6)
                    in (if qC1 (ws s7) = [] then zh_session (qC1_update (\<lambda>_. newQC1 (ze_rand env (zh_ix s7)))) s7 else s7,
                        True, 200))))"

definition zh_warmup :: "zhEnv \<Rightarrow> zhihu \<Rightarrow> zhihu" where
  "zh_warmup env s = (if zh_warm s then s else (fst (primeLoginContext env s))\<lparr>zh_warm := True\<rparr>)"

definition refreshLoginContext :: "zhEnv \<Rightarrow> zhihu \<Rightarrow> zhihu \<times> bool" where
  "refreshLoginContext env s = (case primeLoginContext env s of (s1, ok, status) \<Rightarrow> (s1, ok))"

section \<open>Requests of the login\<close>

definition xsrf_header :: "zhihu \<Rightarrow> (string \<times> string) list" where
  "xsrf_header s = (if xsrf (ws s) \<noteq> [] then [(''x-xsrftoken'', xsrf (ws s))] else [])"

definition loginRequest :: "zhEnv \<Rightarrow> string \<Rightarrow> string \<Rightarrow> string option \<Rightarrow> string \<Rightarrow> bool \<Rightarrow> zhihu \<Rightarrow> zhihu \<times> (zhErr + string \<times> nat)" where
  "loginRequest env meth u body ref polling s =
     (let s0 = zh_warmup env s;
          rq = login_req meth u body ref ((if polling then [(''x-zse-93'', zse93)] else []) @ xsrf_header s0) s0
      in case zh_do env rq s0 of
           (s1, Inl e) \<Rightarrow> (s1, Inl (ZOther e))
         | (s1, Inr (status, cookies, v, content)) \<Rightarrow>
             (zh_captureCookies cookies s1, (case content of Inl e \<Rightarrow> Inl (ZOther e) | Inr b \<Rightarrow> Inr (b, status))))"

section \<open>Requests of the feeds\<close>

definition apiReferer :: string where "apiReferer = ''https://www.zhihu.com/hot''"

definition zh_looksHTML :: "string \<Rightarrow> bool" where
  "zh_looksHTML b \<longleftrightarrow> has_prefix (trim_space b) ''<''"

text \<open>The word for a verification, in UTF-8.\<close>

definition verify_word :: string where
  "verify_word = map char_of [0xE9 :: nat, 0xAA, 0x8C, 0xE8, 0xAF, 0x81]"

definition isRiskControl :: "string \<Rightarrow> bool" where
  "isRiskControl b \<longleftrightarrow> contains_sub b ''10003'' \<or> contains_sub b ''security'' \<or> contains_sub b verify_word \<or> length b < 200"

definition data_req :: "string \<Rightarrow> string \<Rightarrow> string option \<Rightarrow> string \<Rightarrow> zhihu \<Rightarrow> zhReq" where
  "data_req meth u body ref s =
     \<lparr>zq_method = meth, zq_url = u, zq_body = body, zq_referer = ref, zq_cookie = cookieHeader (ws s),
      zq_headers = xsrf_header s @ (if zh_apiVersion s \<noteq> [] then [(''x-api-version'', zh_apiVersion s)] else [])
        @ (if body \<noteq> None then [(''Content-Type'', ''application/json''), (''Origin'', ''https://www.zhihu.com'')] else [])
        @ signZhihuRequest u (dC0 (ws s)) (case body of Some b \<Rightarrow> b | None \<Rightarrow> [])\<rparr>"

text \<open>A body with its status, or the classified error.\<close>

definition getRawRef :: "zhEnv \<Rightarrow> string \<Rightarrow> string \<Rightarrow> string option \<Rightarrow> bool \<Rightarrow> string \<Rightarrow> zhihu \<Rightarrow> zhihu \<times> (zhErr + string \<times> nat)" where
  "getRawRef env meth u body needAuth ref s =
     (let s0 = waitRateGate s
      in if needAuth \<and> zC0 (ws s0) = [] then (s0, Inl ZNotLoggedIn)
         else
           (let s1 = zh_warmup env s0
            in case zh_do env (data_req meth u body ref s1) s1 of
                 (s2, Inl e) \<Rightarrow> (s2, Inl (ZOther e))
               | (s2, Inr (status, cookies, v, content)) \<Rightarrow>
                   (let s3 = zh_captureCookies cookies s2
                    in case content of
                         Inl e \<Rightarrow> (s3, Inl (ZOther e))
                       | Inr b \<Rightarrow>
                           if status = 200 then
                             (if zh_looksHTML b then (zh_noteRateLimit s3, Inl (ZUnverifiable (''http 200 '' @ u)))
                              else (zh_clearRateLimit s3, Inr (b, status)))
                           else if status = 401 then
                             (if needAuth
                              then (zh_markSessionInvalid env (ZOther (''zhihu: session rejected (401) '' @ u)) s3, Inl ZNotLoggedIn)
                              else (s3, Inl (ZOther (''zhihu: http 401 '' @ u))))
                           else if status = 403 then
                             (if isRiskControl b then (zh_noteRateLimit s3, Inr (b, status))
                              else (s3, Inl (ZOther (''zhihu: http 403 '' @ u))))
                           else (s3, Inr (b, status)))))"

text \<open>\<open>getJSONRef\<close> into a fresh value.\<close>

definition getJSONRef :: "zhEnv \<Rightarrow> 'a decoder \<Rightarrow> 'a \<Rightarrow> string \<Rightarrow> bool \<Rightarrow> string \<Rightarrow> zhihu \<Rightarrow> zhihu \<times> (zhErr + 'a)" where
  "getJSONRef env d zero u needAuth ref s =
     (case getRawRef env ''GET'' u None needAuth ref s of
        (s1, Inl e) \<Rightarrow> (s1, Inl e)
      | (s1, Inr (b, status)) \<Rightarrow>
          (s1, if status \<noteq> 200 then Inl (ZOther (''zhihu: http '' @ show_nat status))
               else (case unmarshal d zero (ze_json env b) of
                       None \<Rightarrow> Inl (ZOther (''zhihu: parse '' @ u)) | Some x \<Rightarrow> Inr x)))"

end
