(* ===== verification/Zhihu_Session.thy ===== *)
theory Zhihu_Session
  imports Zhihu_Client
begin

text \<open>
  The session of the zhihu back end: \<open>src/fbprotocols/zhihu/auth.go\<close> (the probe, the credential file), the
  gateway of \<open>zhihu.go\<close> that alone may start the login page, and the start of that page in \<open>loginsrv.go\<close>.
  The page runs beside the loop; what it does is in \<open>Zhihu_Login\<close>.
\<close>

section \<open>The probe\<close>

definition meURL :: string where "meURL = ''https://www.zhihu.com/api/v4/me''"

record meResp =
  me_Name :: string
  me_UrlToken :: string

definition zeroMe :: meResp where "zeroMe = \<lparr>me_Name = [], me_UrlToken = []\<rparr>"

definition dec_me :: "meResp decoder" where
  "dec_me = dec_struct
     [(''id'', checked ([] :: string) dec_string), (''name'', on me_Name me_Name_update dec_string),
      (''url_token'', on me_UrlToken me_UrlToken_update dec_string)]"

definition zh_clearAuthErr :: "zhihu \<Rightarrow> zhihu" where
  "zh_clearAuthErr s = s\<lparr>zh_authErr := None, meHTMLSheds := 0\<rparr>"

definition verifySession :: "zhEnv \<Rightarrow> zhihu \<Rightarrow> zhihu \<times> zhErr option" where
  "verifySession env s =
     (if zC0 (ws s) = []
      then (zh_markSessionInvalid env (ZOther ''zhihu: no session (z_c0 missing)'') s, Some ZNotLoggedIn)
      else
        case getJSONRef env dec_me zeroMe meURL True apiReferer s of
          (s1, Inr me) \<Rightarrow>
            (zh_setAuthStatus env ''ready'' (zh_clearAuthErr (zh_session (ws_user_update (\<lambda>_. me_Name me)) s1)), None)
        | (s1, Inl ZNotLoggedIn) \<Rightarrow> (zh_markSessionInvalid env ZNotLoggedIn s1, Some ZNotLoggedIn)
        | (s1, Inl (ZUnverifiable t)) \<Rightarrow>
            (let s2 = s1\<lparr>meHTMLSheds := Suc (meHTMLSheds s1)\<rparr>
             in if meHTMLSheds s2 < 3 then (s2, Some (ZUnverifiable ''/api/v4/me html shed''))
                else (zh_markSessionInvalid env (ZUnverifiable t) s2, Some ZNotLoggedIn))
        | (s1, Inl e) \<Rightarrow> (s1, Some e))"

section \<open>The credential file\<close>

definition applyAuthFile :: "zhAuthFile \<Rightarrow> webSession \<Rightarrow> webSession" where
  "applyAuthFile f w =
     (let w1 = w\<lparr>dC0 := (if zf_DC0 f \<noteq> [] then zf_DC0 f else dC0 w), ws_user := zf_User f, ws_loginMethod := zf_LoginMethod f\<rparr>
      in if zf_Status f = ''invalid'' then w1\<lparr>zC0 := [], xsrf := [], ws_status := ''invalid''\<rparr>
         else w1\<lparr>zC0 := zf_ZC0 f, xsrf := zf_XSRF f,
                 ws_status := (if zf_ZC0 f \<noteq> [] then ''ready'' else zf_Status f)\<rparr>)"

definition zh_loadAuth :: "zhihu \<Rightarrow> zhihu" where
  "zh_loadAuth s = (case zh_file s of None \<Rightarrow> s | Some f \<Rightarrow> zh_session (applyAuthFile f) s)"

definition zt_phone_no_zc0 :: string where
  "zt_phone_no_zc0 = map char_of
    [0x7A :: nat, 0x68, 0x69, 0x68, 0x75, 0x3A, 0x20, 0xE6, 0x89, 0x8B, 0xE6, 0x9C, 0xBA, 0xE5, 0x8F, 0xB7, 0xE7, 0x99,
    0xBB, 0xE5, 0xBD, 0x95, 0xE6, 0x9C, 0xAA, 0xE8, 0x8E, 0xB7, 0xE5, 0xBE, 0x97, 0x20, 0x7A, 0x5F, 0x63, 0x30]"

definition applyPhoneWebSession :: "zhEnv \<Rightarrow> (string \<Rightarrow> string) option \<Rightarrow> zhihu \<Rightarrow> zhihu \<times> zhErr option" where
  "applyPhoneWebSession env token s =
     (case token of
        None \<Rightarrow> (s, Some (ZOther ''zhihu: phone sign-in returned no token''))
      | Some cookies \<Rightarrow>
          (let s1 = zh_session (\<lambda>w. w\<lparr>dC0 := (if cookies ''d_c0'' \<noteq> [] then cookies ''d_c0'' else dC0 w), zC0 := cookies ''z_c0''\<rparr>) s
           in if cookies ''z_c0'' = []
              then (zh_markSessionInvalid env (ZOther zt_phone_no_zc0) s1, Some ZNotLoggedIn)
              else (fst (warmupRequest env ''GET'' zhihuSigninURL None s1), None)))"

section \<open>The login page\<close>

definition uiAddrUsable :: "string \<Rightarrow> bool" where
  "uiAddrUsable addr \<longleftrightarrow>
     (case splitHostPort addr of
        Inl e \<Rightarrow> False
      | Inr (host, port) \<Rightarrow> host = ''127.0.0.1'' \<and> port \<noteq> [] \<and> (case atoi port of Some p \<Rightarrow> 0 < p | None \<Rightarrow> False))"

definition page_url :: "string \<Rightarrow> string" where "page_url addr = ''http://'' @ addr @ ''/''"

definition startLoginUI :: "zhEnv \<Rightarrow> zhihu \<Rightarrow> zhihu \<times> (zhErr + string)" where
  "startLoginUI env s =
     (let u = zh_ui s
      in if ui_active u \<and> uiAddrUsable (ui_addr u) then (s, Inr (page_url (ui_addr u)))
         else
           (let u1 = u\<lparr>ui_active := False, ui_opened := False, ui_addr := []\<rparr>;
                s1 = s\<lparr>zh_ui := u1, zh_logins := zh_logins s @ [zh_now s]\<rparr>
            in case ze_listen env (length (zh_logins s)) of
                 Inl e \<Rightarrow> (s1, Inl (ZOther (''zhihu: login listen: '' @ e)))
               | Inr (addr, serves) \<Rightarrow>
                   if \<not> uiAddrUsable addr then (s1, Inl (ZOther ''zhihu: login listener unusable addr''))
                   else
                     (let s2 = s1\<lparr>zh_ui := \<lparr>ui_active = serves, ui_addr = addr, ui_opened = False, ui_hasStop = True, ui_stopped = False\<rparr>,
                                  zh_page := idlePage\<rparr>
                      in (s2, if serves then Inr (page_url addr) else Inl (ZOther ''zhihu: login server did not start serving'')))))"

definition openLoginBrowserOnce :: "zhihu \<Rightarrow> zhihu" where
  "openLoginBrowserOnce s =
     (if ui_opened (zh_ui s) then s
      else s\<lparr>zh_ui := (zh_ui s)\<lparr>ui_opened := True\<rparr>, zh_browsers := zh_browsers s @ [zh_now s]\<rparr>)"

text \<open>The end of the page: it was told to stop, or ten minutes have passed.\<close>

definition uiShutdown :: "zhihu \<Rightarrow> zhihu" where
  "uiShutdown s = s\<lparr>zh_ui := (zh_ui s)\<lparr>ui_active := False, ui_opened := False, ui_addr := []\<rparr>\<rparr>"

section \<open>The gateway\<close>

definition zh_pushError :: "zhErr \<Rightarrow> zhihu \<Rightarrow> zhihu" where
  "zh_pushError e s = s\<lparr>zh_errs := take 3 (e # zh_errs s)\<rparr>"

definition reLoginCooldown :: duration where "reLoginCooldown = minutes 5"

definition reloginDue :: "time \<Rightarrow> zhihu \<Rightarrow> bool" where
  "reloginDue now s \<longleftrightarrow> (case reLoginNext s of None \<Rightarrow> True | Some t \<Rightarrow> \<not> now < t)"

definition scheduleLogin :: "zhEnv \<Rightarrow> time \<Rightarrow> bool \<Rightarrow> zhihu \<Rightarrow> zhihu" where
  "scheduleLogin env now force s =
     (if \<not> force \<and> \<not> reloginDue now s then s
      else
        case startLoginUI env (s\<lparr>reLoginNext := Some (now + reLoginCooldown)\<rparr>) of
          (s1, Inl e) \<Rightarrow> s1
        | (s1, Inr url) \<Rightarrow> openLoginBrowserOnce s1)"

definition zh_ensureSession :: "zhEnv \<Rightarrow> time \<Rightarrow> bool \<Rightarrow> zhihu \<Rightarrow> zhihu" where
  "zh_ensureSession env now force s =
     (if zC0 (ws s) = [] then scheduleLogin env now force s
      else
        case verifySession env s of
          (s1, None) \<Rightarrow> s1\<lparr>reLoginNext := None, lastProbeOK := Some (zh_now s1)\<rparr>
        | (s1, Some ZNotLoggedIn) \<Rightarrow>
            scheduleLogin env now force (zh_session (zC0_update (\<lambda>_. [])) (zh_markSessionInvalid env ZNotLoggedIn s1))
        | (s1, Some e) \<Rightarrow> zh_pushError e s1)"

definition recentlyProbed :: "zhihu \<Rightarrow> bool" where
  "recentlyProbed s \<longleftrightarrow> (case lastProbeOK s of None \<Rightarrow> False | Some t \<Rightarrow> time_sub (zh_now s) t < minutes 2)"

definition handleRoundErr :: "zhEnv \<Rightarrow> zhErr \<Rightarrow> zhihu \<Rightarrow> zhihu" where
  "handleRoundErr env e s =
     (case e of
        ZUnverifiable t \<Rightarrow>
          if recentlyProbed s \<and> ws_status (ws s) = ''ready'' then zh_pushError e s
          else zh_ensureSession env (zh_now s) False s
      | ZNotLoggedIn \<Rightarrow> zh_ensureSession env (zh_now s) False s
      | _ \<Rightarrow> zh_pushError e s)"

end
