(* ===== verification/Zhihu_Feeds.thy ===== *)
theory Zhihu_Feeds
  imports Zhihu_Session
begin

text \<open>
  The feeds of the zhihu back end: \<open>hotlist.go\<close>, \<open>notify.go\<close>, \<open>daily.go\<close>, \<open>collection.go\<close>, \<open>history.go\<close> (all in
  \<open>src/fbprotocols/zhihu/\<close>), and the state of the de-duplication, the rounds and the loop of \<open>zhihu.go\<close>. An
  entry is published as it came, with two more fields; the map \<open>payload\<close> that the code builds beside it is
  not published (only its kind is), so it is left out, and fields that nothing else reads are decoded for
  their type errors alone. A panic ends the process: it sets \<open>zh_crashed\<close>.
\<close>

section \<open>The state of the de-duplication\<close>

record zhihuState =
  zs_Hotlist :: seen
  zs_Notifications :: seen
  zs_Daily :: seen
  zs_Collections :: seen
  zs_History :: seen

definition zh_newState :: zhihuState where
  "zh_newState = \<lparr>zs_Hotlist = [], zs_Notifications = [], zs_Daily = [], zs_Collections = [], zs_History = []\<rparr>"

text \<open>The file is absent or no JSON of the right types, or holds the state saved last.\<close>

definition zh_loadState :: "zhihuState option \<Rightarrow> zhihuState" where
  "zh_loadState stored = (case stored of None \<Rightarrow> zh_newState | Some st \<Rightarrow> st)"

definition zh_pruneState :: "time \<Rightarrow> zhihuState \<Rightarrow> zhihuState" where
  "zh_pruneState now st =
     \<lparr>zs_Hotlist = pruneMap now (zs_Hotlist st), zs_Notifications = pruneMap now (zs_Notifications st),
      zs_Daily = pruneMap now (zs_Daily st), zs_Collections = pruneMap now (zs_Collections st),
      zs_History = pruneMap now (zs_History st)\<rparr>"

definition zh_saveState :: "zhEnv \<Rightarrow> zhihuState \<Rightarrow> zhihu \<Rightarrow> zhihuState option \<Rightarrow> zhihuState option" where
  "zh_saveState env st s stored = (if ze_writes env (zh_ix s) then Some st else stored)"

section \<open>Publishing\<close>

definition zh_pubs :: "string \<Rightarrow> int \<Rightarrow> (string \<times> (string \<rightharpoonup> json)) list \<Rightarrow> zhPub list" where
  "zh_pubs feed at ps = map (\<lambda>(k, f). \<lparr>zp_feed = feed, zp_key = k, zp_at = at, zp_entry = f\<rparr>) ps"

text \<open>The loop of a round, on the map of its feed.\<close>

definition publish_round :: "string \<Rightarrow> string \<Rightarrow> ('i \<Rightarrow> string option) \<Rightarrow> ('i \<Rightarrow> json) \<Rightarrow> 'i list \<Rightarrow> seen \<Rightarrow> zhihu \<Rightarrow> seen \<times> zhihu" where
  "publish_round feed kind key raw is m s =
     (let at = unix (zh_now s)
      in case feed_items key raw (flatFields kind (length is)) at is m of
           (m1, ps, ok) \<Rightarrow> (m1, s\<lparr>zh_published := zh_published s @ zh_pubs feed at ps, zh_crashed := \<not> ok\<rparr>))"

text \<open>The rounds that take an empty map for the first synchronisation.\<close>

definition seeding_or :: "('i \<Rightarrow> string) \<Rightarrow> 'i list \<Rightarrow> (seen \<Rightarrow> zhihu \<Rightarrow> seen \<times> zhihu) \<Rightarrow> seen \<Rightarrow> zhihu \<Rightarrow> seen \<times> zhihu" where
  "seeding_or key is go m s = (if m = [] then (seed_items key (unix (zh_now s)) is m, s) else go m s)"

section \<open>The hot list\<close>

definition hotlistURL :: string where
  "hotlistURL = ''https://www.zhihu.com/api/v3/feed/topstory/hot-lists/total?limit=50&mobile=true''"

abbreviation "a_string \<equiv> checked ([] :: string) dec_string"
abbreviation "an_int \<equiv> checked (0 :: int) dec_int"
abbreviation "a_bool \<equiv> checked False dec_bool"
abbreviation "a_raw \<equiv> checked (None :: json option) dec_raw"

record hotlistItem =
  hl_CardID :: string
  hl_Target :: "json option"
  hl_Raw :: json

definition zeroHotlist :: hotlistItem where "zeroHotlist = \<lparr>hl_CardID = [], hl_Target = None, hl_Raw = JNull\<rparr>"

definition dec_hotlistItem :: "hotlistItem decoder" where
  "dec_hotlistItem = dec_keeping (dec_struct
     [(''id'', a_string), (''card_id'', on hl_CardID hl_CardID_update dec_string), (''type'', a_string), (''style_type'', a_string),
      (''detail_text'', a_string), (''trend'', an_int), (''debut'', a_bool), (''target'', on hl_Target hl_Target_update dec_raw),
      (''children'', checked [] (dec_list () (dec_struct [(''type'', a_string), (''thumbnail'', a_string)])))])
     zeroHotlist (\<lambda>j. hl_Raw_update (\<lambda>_. j))"

definition dec_hotlist :: "hotlistItem list decoder" where
  "dec_hotlist = dec_struct [(''data'', dec_list zeroHotlist dec_hotlistItem), (''fresh_text'', a_string)]"

text \<open>\<open>target.id\<close> as it is written. A literal has no quotes at its ends; of a text the program keeps what it
  wrote, escapes and all, less the quotes at its ends.\<close>

definition target_text :: "json \<Rightarrow> string" where
  "target_text j =
     (case j of
        JNum t \<Rightarrow> t
      | JStr t \<Rightarrow> (let q = json_quote False t in rev (dropWhile ((=) (CHR 0x22)) (rev (dropWhile ((=) (CHR 0x22)) q))))
      | JBoolean b \<Rightarrow> (if b then ''true'' else ''false'')
      | _ \<Rightarrow> [])"

definition hotlistTargetID :: "json option \<Rightarrow> string" where
  "hotlistTargetID raw =
     (case unmarshal (dec_struct [(''id'', dec_raw)]) None raw of
        Some (Some j) \<Rightarrow> target_text j
      | _ \<Rightarrow> [])"

definition hotlistKey :: "hotlistItem \<Rightarrow> string option" where
  "hotlistKey it =
     (if hl_CardID it \<noteq> [] then Some (hl_CardID it)
      else if hotlistTargetID (hl_Target it) \<noteq> [] then Some (hotlistTargetID (hl_Target it)) else None)"

definition fetchHotlist :: "zhEnv \<Rightarrow> zhihu \<Rightarrow> zhihu \<times> (zhErr + hotlistItem list)" where
  "fetchHotlist env s = getJSONRef env dec_hotlist [] hotlistURL True apiReferer s"

definition zh_hotRound :: "zhEnv \<Rightarrow> zhihuState \<Rightarrow> zhihu \<Rightarrow> zhihuState \<times> zhihu" where
  "zh_hotRound env st s =
     (case fetchHotlist env s of
        (s1, Inl e) \<Rightarrow> (st, handleRoundErr env e s1)
      | (s1, Inr items) \<Rightarrow>
          (case publish_round ''hotlist'' ''hotlist'' hotlistKey hl_Raw items (zs_Hotlist st) s1 of
             (m, s2) \<Rightarrow> (st\<lparr>zs_Hotlist := m\<rparr>, s2)))"

section \<open>Notifications\<close>

definition notificationsPageURL :: string where "notificationsPageURL = ''https://www.zhihu.com/notifications''"

record zhNotify =
  zn_ID :: int
  zn_Type :: string
  zn_CreatedTime :: int
  zn_Raw :: json

definition zeroNotify :: zhNotify where "zeroNotify = \<lparr>zn_ID = 0, zn_Type = [], zn_CreatedTime = 0, zn_Raw = JNull\<rparr>"

text \<open>\<open>flexInt64\<close>: a number, a number in a text, or \<open>null\<close>, which is 0.\<close>

fun dec_flexInt64 :: "int decoder" where
  "dec_flexInt64 old JNull = (0, True)"
| "dec_flexInt64 old (JNum n) = (case atoi n of Some v \<Rightarrow> (v, True) | None \<Rightarrow> (old, False))"
| "dec_flexInt64 old (JStr t) = (case atoi t of Some v \<Rightarrow> (v, True) | None \<Rightarrow> (old, False))"
| "dec_flexInt64 old _ = (old, False)"

definition dec_notify :: "zhNotify decoder" where
  "dec_notify = dec_keeping (dec_struct
     [(''id'', on zn_ID zn_ID_update dec_flexInt64), (''type'', on zn_Type zn_Type_update dec_string),
      (''createTime'', on zn_CreatedTime zn_CreatedTime_update dec_int), (''isRead'', a_bool), (''mergeCount'', an_int),
      (''content'', dec_struct [(''verb'', a_string), (''actors'', a_raw)]), (''target'', a_raw)])
     zeroNotify (\<lambda>j. zn_Raw_update (\<lambda>_. j))"

text \<open>The entities are a map; its entries as a list, the last one of a key. A second object for the map
  adds to it.\<close>

fun dec_entities :: "(string \<times> zhNotify) list decoder" where
  "dec_entities old JNull = ([], True)"
| "dec_entities old (JObj es) =
     (foldl (\<lambda>m (k, j). AList.update k (fst (dec_notify zeroNotify j)) m) old es, list_all (\<lambda>(k, j). snd (dec_notify zeroNotify j)) es)"
| "dec_entities old _ = (old, False)"

definition dec_initialData :: "(string \<times> zhNotify) list decoder" where
  "dec_initialData = dec_struct [(''initialState'', dec_struct [(''entities'', dec_struct [(''notifications'', dec_entities)])])]"

text \<open>The first script element with the marked name, up to the next end of a script: \<open>initialDataRE\<close>. An
  element without an end, or whose opening tag has none, is passed over.\<close>

definition script_open :: string where
  "script_open = ''<script id='' @ [CHR 0x22] @ ''js-initialData'' @ [CHR 0x22]"

fun before_sub :: "string \<Rightarrow> string \<Rightarrow> string option" where
  "before_sub [] p = (if p = [] then Some [] else None)"
| "before_sub (c # s) p = (if has_prefix (c # s) p then Some [] else map_option ((#) c) (before_sub s p))"

fun initialData :: "string \<Rightarrow> string option" where
  "initialData [] = None"
| "initialData (c # s) =
     (case strip_tag script_open (c # s) of
        None \<Rightarrow> initialData s
      | Some r \<Rightarrow>
          (case dropWhile (\<lambda>d. d \<noteq> CHR ''>'') r of
             [] \<Rightarrow> initialData s
           | d # body \<Rightarrow> (case before_sub body ''</script>'' of Some t \<Rightarrow> Some t | None \<Rightarrow> initialData s)))"

text \<open>A list in an order of Go's choice.\<close>

definition shuffled :: "nat list \<Rightarrow> 'a list \<Rightarrow> 'a list" where
  "shuffled is xs = (if distinct is \<and> set is = {..<length xs} then map ((!) xs) is else xs)"

text \<open>The notifications of a page, newest first; those of one second in any order.\<close>

definition parseNotificationsPage :: "zhEnv \<Rightarrow> string \<Rightarrow> zhihu \<Rightarrow> zhihu \<times> (zhErr + zhNotify list)" where
  "parseNotificationsPage env body s =
     (case initialData body of
        None \<Rightarrow> (s, Inl (ZUnverifiable ''js-initialData missing''))
      | Some t \<Rightarrow>
          (case unmarshal dec_initialData [] (ze_json env t) of
             None \<Rightarrow> (s, Inl (ZUnverifiable ''js-initialData''))
           | Some es \<Rightarrow>
               (zh_clearRateLimit s,
                Inr (sort_key (\<lambda>it. - zn_CreatedTime it)
                  (filter (\<lambda>it. zn_Type it = ''notification'') (shuffled (ze_perm env (zh_ix s) (length es)) (map snd es)))))))"

definition page_req :: "zhihu \<Rightarrow> zhReq" where
  "page_req s =
     \<lparr>zq_method = ''GET'', zq_url = notificationsPageURL, zq_body = None, zq_referer = ''https://www.zhihu.com/'',
      zq_cookie = cookieHeader (ws s), zq_headers = []\<rparr>"

definition fetchNotificationsPage :: "zhEnv \<Rightarrow> zhihu \<Rightarrow> zhihu \<times> (zhErr + string \<times> nat)" where
  "fetchNotificationsPage env s =
     (let s0 = waitRateGate s
      in if zC0 (ws s0) = [] then (s0, Inl ZNotLoggedIn)
         else
           case zh_do env (page_req s0) s0 of
             (s1, Inl e) \<Rightarrow> (s1, Inl (ZOther e))
           | (s1, Inr (status, cookies, v, content)) \<Rightarrow>
               (let s2 = zh_captureCookies cookies s1
                in case content of
                     Inl e \<Rightarrow> (s2, Inl (ZOther e))
                   | Inr b \<Rightarrow>
                       if status = 401
                       then (zh_markSessionInvalid env (ZOther (''zhihu: session rejected (401) '' @ notificationsPageURL)) s2, Inl ZNotLoggedIn)
                       else (if status = 403 \<and> isRiskControl b then zh_noteRateLimit s2 else s2, Inr (b, status))))"

definition fetchNotifications :: "zhEnv \<Rightarrow> zhihu \<Rightarrow> zhihu \<times> (zhErr + zhNotify list)" where
  "fetchNotifications env s =
     (case fetchNotificationsPage env s of
        (s1, Inl e) \<Rightarrow> (s1, Inl e)
      | (s1, Inr (b, status)) \<Rightarrow>
          if status \<noteq> 200 then (s1, Inl (ZOther (''zhihu: notifications: http '' @ show_nat status)))
          else parseNotificationsPage env b s1)"

text \<open>\<open>itoa\<close> of \<open>zhihu.go\<close>, digit by digit. The negation of the least number is that number, so its loop does
  not run and only the sign is left.\<close>

fun digits_rev :: "nat \<Rightarrow> string" where
  "digits_rev n = (if n = 0 then [] else digit_char (n mod 10) # digits_rev (n div 10))"

declare digits_rev.simps [simp del]

definition zh_itoa :: "int \<Rightarrow> string" where
  "zh_itoa v =
     (if v = 0 then ''0''
      else
        (let neg = v < 0; w = (if neg then wrap64 (- v) else v)
         in rev (digits_rev (nat w) @ (if neg then ''-'' else []))))"

definition notify_key :: "zhNotify \<Rightarrow> string" where "notify_key it = zh_itoa (zn_ID it)"

definition zh_notifyRound :: "zhEnv \<Rightarrow> zhihuState \<Rightarrow> zhihu \<Rightarrow> zhihuState \<times> zhihu" where
  "zh_notifyRound env st s =
     (case fetchNotifications env s of
        (s1, Inl e) \<Rightarrow> (st, handleRoundErr env e s1)
      | (s1, Inr items) \<Rightarrow>
          (case seeding_or notify_key items (publish_round ''notifications'' ''notification'' (Some \<circ> notify_key) zn_Raw items)
                  (zs_Notifications st) s1 of
             (m, s2) \<Rightarrow> (st\<lparr>zs_Notifications := m\<rparr>, s2)))"

section \<open>The daily bulletin\<close>

definition dailyLatestURL :: string where "dailyLatestURL = ''https://daily.zhihu.com/api/4/news/latest''"

record dailyStory =
  dy_ID :: int
  dy_Raw :: json

definition zeroStory :: dailyStory where "zeroStory = \<lparr>dy_ID = 0, dy_Raw = JNull\<rparr>"

definition dec_story :: "dailyStory decoder" where
  "dec_story = dec_keeping (dec_struct
     [(''id'', on dy_ID dy_ID_update dec_int), (''title'', a_string), (''url'', a_string), (''hint'', a_string),
      (''images'', checked [] (dec_list [] dec_string)), (''image_hue'', a_string), (''type'', an_int), (''ga_prefix'', a_string)])
     zeroStory (\<lambda>j. dy_Raw_update (\<lambda>_. j))"

definition dec_daily :: "dailyStory list decoder" where
  "dec_daily = dec_struct
     [(''date'', a_string), (''stories'', dec_list zeroStory dec_story), (''top_stories'', checked [] (dec_list zeroStory dec_story))]"

definition dec_storyDetail :: "unit decoder" where
  "dec_storyDetail = dec_struct
     [(''id'', an_int), (''title'', a_string), (''body'', a_string), (''image'', a_string),
      (''images'', checked [] (dec_list [] dec_string)), (''share_url'', a_string), (''ga_prefix'', a_string)]"

definition getDailyJSON :: "zhEnv \<Rightarrow> 'a decoder \<Rightarrow> 'a \<Rightarrow> string \<Rightarrow> zhihu \<Rightarrow> zhihu \<times> (zhErr + 'a)" where
  "getDailyJSON env d zero u s =
     (case zh_do env \<lparr>zq_method = ''GET'', zq_url = u, zq_body = None, zq_referer = ''https://daily.zhihu.com/'',
                  zq_cookie = [], zq_headers = []\<rparr> s of
        (s1, Inl e) \<Rightarrow> (s1, Inl (ZOther (''zhihu: daily: '' @ e)))
      | (s1, Inr (status, cookies, v, content)) \<Rightarrow>
          (s1,
           if status \<noteq> 200 then Inl (ZOther (''zhihu: daily http '' @ show_nat status @ '' '' @ u))
           else (case content of
                   Inl e \<Rightarrow> Inl (ZOther (''zhihu: daily read '' @ u @ '': '' @ e))
                 | Inr b \<Rightarrow> (case unmarshal d zero (ze_json env b) of
                               None \<Rightarrow> Inl (ZOther (''zhihu: daily parse '' @ u)) | Some x \<Rightarrow> Inr x))))"

definition fetchDailyStory :: "zhEnv \<Rightarrow> int \<Rightarrow> zhihu \<Rightarrow> zhihu \<times> (zhErr + unit)" where
  "fetchDailyStory env i s = getDailyJSON env dec_storyDetail () (''https://daily.zhihu.com/api/4/story/'' @ itoa i) s"

definition daily_key :: "dailyStory \<Rightarrow> string" where "daily_key it = zh_itoa (dy_ID it)"

text \<open>The stories of the bulletin one by one: an unseen one is published when its article could be fetched,
  and marked only then.\<close>

fun daily_items :: "zhEnv \<Rightarrow> nat \<Rightarrow> int \<Rightarrow> dailyStory list \<Rightarrow> seen \<Rightarrow> zhihu \<Rightarrow> seen \<times> zhihu" where
  "daily_items env n at [] m s = (m, s)"
| "daily_items env n at (it # its) m s =
     (if map_of m (daily_key it) \<noteq> None then daily_items env n at its m s
      else
        case fetchDailyStory env (dy_ID it) s of
          (s1, Inl e) \<Rightarrow> daily_items env n at its m (zh_pushError e s1)
        | (s1, Inr _) \<Rightarrow>
            (case insertFlatFields (dy_Raw it) (flatFields ''daily'' n) of
               FlatPanic \<Rightarrow> (m, s1\<lparr>zh_crashed := True\<rparr>)
             | FlatErr \<Rightarrow> daily_items env n at its (AList.update (daily_key it) at m) s1
             | FlatOk f \<Rightarrow> daily_items env n at its (AList.update (daily_key it) at m)
                            (s1\<lparr>zh_published := zh_published s1 @ zh_pubs ''daily'' at [(daily_key it, f)]\<rparr>)))"

definition zh_dailyRound :: "zhEnv \<Rightarrow> zhihuState \<Rightarrow> zhihu \<Rightarrow> zhihuState \<times> zhihu" where
  "zh_dailyRound env st s =
     (case getDailyJSON env dec_daily [] dailyLatestURL s of
        (s1, Inl e) \<Rightarrow> (st, zh_pushError e s1)
      | (s1, Inr items) \<Rightarrow>
          (case seeding_or daily_key items (daily_items env (length items) (unix (zh_now s1)) items) (zs_Daily st) s1 of
             (m, s2) \<Rightarrow> (st\<lparr>zs_Daily := m\<rparr>, s2)))"

section \<open>Collections\<close>

definition currentUserURLToken :: "zhEnv \<Rightarrow> zhihu \<Rightarrow> zhihu \<times> (zhErr + string)" where
  "currentUserURLToken env s =
     (if urlToken s \<noteq> [] then (s, Inr (urlToken s))
      else
        case getJSONRef env dec_me zeroMe meURL True apiReferer s of
          (s1, Inl e) \<Rightarrow> (s1, Inl e)
        | (s1, Inr me) \<Rightarrow>
            if me_UrlToken me = [] then (s1, Inl (ZOther (''zhihu: /api/v4/me returned no url_token (user='' @ me_Name me @ '')'')))
            else (s1\<lparr>urlToken := me_UrlToken me\<rparr>, Inr (me_UrlToken me)))"

text \<open>The pages of a walk: entries of one kind and whether it is the last page.\<close>

record 'a zhPageOf =
  pg_Entries :: "'a list"
  pg_IsEnd :: bool

definition dec_page :: "'a \<Rightarrow> 'a decoder \<Rightarrow> 'a zhPageOf decoder" where
  "dec_page zero d = dec_struct
     [(''data'', on pg_Entries pg_Entries_update (dec_list zero d)),
      (''paging'', dec_struct [(''is_end'', on pg_IsEnd pg_IsEnd_update dec_bool)])]"

definition zeroPage :: "'a zhPageOf" where "zeroPage = \<lparr>pg_Entries = [], pg_IsEnd = False\<rparr>"

fun walk_pages :: "zhEnv \<Rightarrow> (nat \<Rightarrow> string) \<Rightarrow> string \<Rightarrow> 'a decoder \<Rightarrow> 'a \<Rightarrow> nat \<Rightarrow> nat \<Rightarrow> 'a list \<Rightarrow> zhihu \<Rightarrow> zhihu \<times> (zhErr + 'a list)" where
  "walk_pages env u ref d zero 0 offset out s = (s, Inr out)"
| "walk_pages env u ref d zero (Suc n) offset out s =
     (case getJSONRef env (dec_page zero d) zeroPage (u offset) True ref s of
        (s1, Inl e) \<Rightarrow> (s1, Inl e)
      | (s1, Inr p) \<Rightarrow>
          if pg_IsEnd p \<or> pg_Entries p = [] then (s1, Inr (out @ pg_Entries p))
          else walk_pages env u ref d zero n (offset + length (pg_Entries p)) (out @ pg_Entries p) s1)"

definition collectionPageCap :: nat where "collectionPageCap = 10"

definition favlistsURL :: "string \<Rightarrow> nat \<Rightarrow> string" where
  "favlistsURL tok offset = ''https://www.zhihu.com/api/v4/members/'' @ tok @ ''/favlists?offset='' @ show_nat offset @ ''&limit=20''"

definition collectionContentsURL :: "int \<Rightarrow> nat \<Rightarrow> string" where
  "collectionContentsURL cid offset =
     ''https://www.zhihu.com/api/v4/collections/'' @ itoa cid @ ''/contents?offset='' @ show_nat offset @ ''&limit=20''"

text \<open>Of a collection only its number is used.\<close>

definition dec_collection :: "int decoder" where
  "dec_collection = dec_struct
     [(''id'', dec_int), (''title'', a_string), (''description'', a_string), (''item_count'', an_int), (''is_public'', a_bool),
      (''updated_time'', an_int), (''created_time'', an_int)]"

definition fetchMyFavlists :: "zhEnv \<Rightarrow> zhihu \<Rightarrow> zhihu \<times> (zhErr + int list)" where
  "fetchMyFavlists env s =
     (case currentUserURLToken env s of
        (s1, Inl e) \<Rightarrow> (s1, Inl e)
      | (s1, Inr tok) \<Rightarrow>
          walk_pages env (favlistsURL tok) (''https://www.zhihu.com/people/'' @ tok @ ''/collections'') dec_collection 0
            collectionPageCap 0 [] s1)"

text \<open>\<open>parseCollectionItem\<close>: the number of the entry, read as \<open>float64\<close>, and its text. What is no object
  gives the zero entry, without a text.\<close>

record collectionItem =
  ci_ID :: int
  ci_Raw :: "json option"

definition parseCollectionItem :: "json \<Rightarrow> collectionItem" where
  "parseCollectionItem raw =
     (case any_map (Some raw) of
        None \<Rightarrow> \<lparr>ci_ID = 0, ci_Raw = None\<rparr>
      | Some m \<Rightarrow> \<lparr>ci_ID = any_int (any_field m ''id''), ci_Raw = Some raw\<rparr>)"

definition dec_any_raw :: "json decoder" where "dec_any_raw old j = (j, True)"

definition fetchCollectionContents :: "zhEnv \<Rightarrow> int \<Rightarrow> zhihu \<Rightarrow> zhihu \<times> (zhErr + collectionItem list)" where
  "fetchCollectionContents env cid s =
     (case walk_pages env (collectionContentsURL cid) (''https://www.zhihu.com/collection/'' @ itoa cid) dec_any_raw JNull
             collectionPageCap 0 [] s of
        (s1, Inl e) \<Rightarrow> (s1, Inl e)
      | (s1, Inr js) \<Rightarrow> (s1, Inr (map parseCollectionItem js)))"

record collectionEntry =
  ce_CollectionID :: int
  ce_Item :: collectionItem

fun collection_walk :: "zhEnv \<Rightarrow> int list \<Rightarrow> collectionEntry list \<Rightarrow> zhihu \<Rightarrow> zhihu \<times> (zhErr + collectionEntry list)" where
  "collection_walk env [] out s = (s, Inr out)"
| "collection_walk env (c # cs) out s =
     (case fetchCollectionContents env c s of
        (s1, Inl e) \<Rightarrow> (s1, Inl e)
      | (s1, Inr items) \<Rightarrow> collection_walk env cs (out @ map (\<lambda>it. \<lparr>ce_CollectionID = c, ce_Item = it\<rparr>) items) s1)"

definition fetchMyCollectionItems :: "zhEnv \<Rightarrow> zhihu \<Rightarrow> zhihu \<times> (zhErr + collectionEntry list)" where
  "fetchMyCollectionItems env s =
     (case fetchMyFavlists env s of
        (s1, Inl e) \<Rightarrow> (s1, Inl e)
      | (s1, Inr cs) \<Rightarrow> collection_walk env cs [] s1)"

definition collectionItemKey :: "collectionEntry \<Rightarrow> string" where
  "collectionItemKey e = itoa (ce_CollectionID e) @ '':'' @ itoa (ci_ID (ce_Item e))"

text \<open>No text is no object either.\<close>

definition collection_raw :: "collectionEntry \<Rightarrow> json" where
  "collection_raw e = (case ci_Raw (ce_Item e) of Some j \<Rightarrow> j | None \<Rightarrow> JStr [])"

definition zh_collectionRound :: "zhEnv \<Rightarrow> zhihuState \<Rightarrow> zhihu \<Rightarrow> zhihuState \<times> zhihu" where
  "zh_collectionRound env st s =
     (case fetchMyCollectionItems env s of
        (s1, Inl e) \<Rightarrow>
          (let s2 = handleRoundErr env e s1 in (st, if e = ZNotLoggedIn then s2\<lparr>urlToken := []\<rparr> else s2))
      | (s1, Inr items) \<Rightarrow>
          (case seeding_or collectionItemKey items
                  (publish_round ''collections'' ''zhihu_collection'' (Some \<circ> collectionItemKey) collection_raw items) (zs_Collections st) s1 of
             (m, s2) \<Rightarrow> (st\<lparr>zs_Collections := m\<rparr>, s2)))"

section \<open>The reading history\<close>

definition readHistoryURL :: "nat \<Rightarrow> string" where
  "readHistoryURL offset = ''https://www.zhihu.com/api/v4/unify-consumption/read_history?offset='' @ show_nat offset @ ''&limit=20''"

record historyEntry =
  he_ContentToken :: string
  he_ContentType :: string
  he_Raw :: "json option"

text \<open>\<open>parseHistoryEntry\<close>, as far as its key goes: the record is \<open>data\<close>, or \<open>data.data\<close> when that is an object.\<close>

definition parseHistoryEntry :: "json \<Rightarrow> historyEntry" where
  "parseHistoryEntry raw =
     (case any_map (Some raw) of
        None \<Rightarrow> \<lparr>he_ContentToken = [], he_ContentType = [], he_Raw = None\<rparr>
      | Some m \<Rightarrow>
          (let e = \<lparr>he_ContentToken = [], he_ContentType = [], he_Raw = Some raw\<rparr>
           in case any_object (any_field m ''data'') of
                None \<Rightarrow> e
              | Some rec0 \<Rightarrow>
                  (let r = (case any_object (any_field rec0 ''data'') of Some d \<Rightarrow> d | None \<Rightarrow> rec0)
                   in case any_object (any_field r ''extra'') of
                        None \<Rightarrow> e
                      | Some x \<Rightarrow> e\<lparr>he_ContentToken := any_string (any_field x ''content_token''),
                                     he_ContentType := any_string (any_field x ''content_type'')\<rparr>)))"

definition historyItemKey :: "historyEntry \<Rightarrow> string" where
  "historyItemKey e = he_ContentType e @ '':'' @ he_ContentToken e"

record historyPage =
  hy_Entries :: "json list"
  hy_IsEnd :: bool

definition dec_historyPage :: "historyPage decoder" where
  "dec_historyPage = dec_struct
     [(''data'', on hy_Entries hy_Entries_update (dec_list JNull dec_any_raw)),
      (''paging'', dec_struct [(''is_end'', on hy_IsEnd hy_IsEnd_update dec_bool), (''totals'', an_int)])]"

fun history_walk :: "zhEnv \<Rightarrow> nat \<Rightarrow> nat \<Rightarrow> historyEntry list \<Rightarrow> zhihu \<Rightarrow> zhihu \<times> (zhErr + historyEntry list)" where
  "history_walk env 0 offset out s = (s, Inr out)"
| "history_walk env (Suc n) offset out s =
     (case getJSONRef env dec_historyPage \<lparr>hy_Entries = [], hy_IsEnd = False\<rparr> (readHistoryURL offset) True ''https://www.zhihu.com/'' s of
        (s1, Inl e) \<Rightarrow> (s1, Inl e)
      | (s1, Inr p) \<Rightarrow>
          (let es = map parseHistoryEntry (hy_Entries p)
           in if hy_IsEnd p \<or> es = [] then (s1, Inr (out @ es))
              else history_walk env n (offset + length es) (out @ es) s1))"

definition fetchMyHistory :: "zhEnv \<Rightarrow> zhihu \<Rightarrow> zhihu \<times> (zhErr + historyEntry list)" where
  "fetchMyHistory env s = history_walk env 10 0 [] s"

definition history_key :: "historyEntry \<Rightarrow> string option" where
  "history_key e = (if historyItemKey e = '':'' then None else Some (historyItemKey e))"

definition history_raw :: "historyEntry \<Rightarrow> json" where
  "history_raw e = (case he_Raw e of Some j \<Rightarrow> j | None \<Rightarrow> JStr [])"

definition zh_historyRound :: "zhEnv \<Rightarrow> zhihuState \<Rightarrow> zhihu \<Rightarrow> zhihuState \<times> zhihu" where
  "zh_historyRound env st s =
     (case fetchMyHistory env s of
        (s1, Inl e) \<Rightarrow> (st, handleRoundErr env e s1)
      | (s1, Inr items) \<Rightarrow>
          (case seeding_or historyItemKey items (publish_round ''history'' ''zhihu_history'' history_key history_raw items)
                  (zs_History st) s1 of
             (m, s2) \<Rightarrow> (st\<lparr>zs_History := m\<rparr>, s2)))"

section \<open>The loop\<close>

record zhLoop =
  zl_hot :: bool
  zl_notify :: bool
  zl_daily :: bool
  zl_collection :: bool
  zl_history :: bool
  zl_hotInt :: duration
  zl_notifyInt :: duration
  zl_nextHot :: time
  zl_nextNotify :: time
  zl_nextDaily :: time
  zl_nextCollection :: time
  zl_nextHistory :: time
  zl_nextAuth :: time
  zl_state :: zhihuState
  zl_stored :: "zhihuState option"
  zl_zh :: zhihu

text \<open>\<open>setStartConfig\<close> and the part of \<open>pollLoop\<close> before its loop.\<close>

definition zh_start :: "zhEnv \<Rightarrow> bool \<Rightarrow> bool \<Rightarrow> duration \<Rightarrow> duration \<Rightarrow> zhihuState option \<Rightarrow> zhihu \<Rightarrow> zhLoop" where
  "zh_start env hot notify hotInterval notifyInterval stored s =
     (let hi = (if hotInterval \<le> 0 then seconds 600 else hotInterval);
          ni = (if notifyInterval \<le> 0 then seconds 60 else notifyInterval);
          s1 = zh_loadAuth s;
          s2 = (if hot \<or> notify then zh_ensureSession env (zh_now s1) True s1 else s1);
          now = zh_now s2
      in \<lparr>zl_hot = hot, zl_notify = notify, zl_daily = True, zl_collection = hot \<or> notify, zl_history = hot \<or> notify,
          zl_hotInt = hi, zl_notifyInt = ni, zl_nextHot = now + hi, zl_nextNotify = now + ni, zl_nextDaily = now + seconds 600,
          zl_nextCollection = now + seconds 1800, zl_nextHistory = now + seconds 600, zl_nextAuth = now + minutes 30,
          zl_state = zh_loadState stored, zl_stored = stored, zl_zh = s2\<rparr>)"

text \<open>A round on the state of the loop, when it is not crashed and the condition holds.\<close>

definition do_round :: "bool \<Rightarrow> (zhihuState \<Rightarrow> zhihu \<Rightarrow> zhihuState \<times> zhihu) \<Rightarrow> zhLoop \<Rightarrow> zhLoop" where
  "do_round c r w =
     (if c \<and> \<not> zh_crashed (zl_zh w)
      then (case r (zl_state w) (zl_zh w) of (st, s) \<Rightarrow> w\<lparr>zl_state := st, zl_zh := s\<rparr>) else w)"

definition zh_ready :: "zhLoop \<Rightarrow> bool" where
  "zh_ready w \<longleftrightarrow> ws_status (ws (zl_zh w)) = ''ready''"

definition zh_tickTime :: "zhLoop \<Rightarrow> duration" where
  "zh_tickTime w = min (minutes 1) (if zl_notify w then zl_notifyInt w else zl_hotInt w)"

definition loop_session :: "zhEnv \<Rightarrow> time \<Rightarrow> zhLoop \<Rightarrow> zhLoop" where
  "loop_session env now w =
     (if \<not> zh_ready w \<and> reloginDue now (zl_zh w) then w\<lparr>zl_zh := zh_ensureSession env now False (zl_zh w)\<rparr> else w)"

definition loop_hot :: "zhEnv \<Rightarrow> time \<Rightarrow> zhLoop \<Rightarrow> zhLoop" where
  "loop_hot env now w =
     (if zl_hot w \<and> zl_nextHot w < now then do_round (zh_ready w) (zh_hotRound env) (w\<lparr>zl_nextHot := now + zl_hotInt w\<rparr>) else w)"

definition loop_notify :: "zhEnv \<Rightarrow> time \<Rightarrow> zhLoop \<Rightarrow> zhLoop" where
  "loop_notify env now w =
     (if zl_notify w \<and> zl_nextNotify w < now
      then do_round (zh_ready w) (zh_notifyRound env) (w\<lparr>zl_nextNotify := now + zl_notifyInt w\<rparr>) else w)"

definition loop_daily :: "zhEnv \<Rightarrow> time \<Rightarrow> zhLoop \<Rightarrow> zhLoop" where
  "loop_daily env now w =
     (if zl_daily w \<and> zl_nextDaily w < now then do_round True (zh_dailyRound env) (w\<lparr>zl_nextDaily := now + seconds 600\<rparr>) else w)"

definition loop_collection :: "zhEnv \<Rightarrow> time \<Rightarrow> zhLoop \<Rightarrow> zhLoop" where
  "loop_collection env now w =
     (if zl_collection w \<and> zl_nextCollection w < now
      then do_round (zh_ready w) (zh_collectionRound env) (w\<lparr>zl_nextCollection := now + seconds 1800\<rparr>) else w)"

definition loop_history :: "zhEnv \<Rightarrow> time \<Rightarrow> zhLoop \<Rightarrow> zhLoop" where
  "loop_history env now w =
     (if zl_history w \<and> zl_nextHistory w < now
      then do_round (zh_ready w) (zh_historyRound env) (w\<lparr>zl_nextHistory := now + seconds 600\<rparr>) else w)"

definition loop_auth :: "zhEnv \<Rightarrow> time \<Rightarrow> zhLoop \<Rightarrow> zhLoop" where
  "loop_auth env now w =
     (if (zl_notify w \<or> zl_collection w \<or> zl_history w) \<and> zl_nextAuth w < now \<and> \<not> zh_crashed (zl_zh w)
      then w\<lparr>zl_zh := zh_ensureSession env (zh_now (zl_zh w)) False (zl_zh w), zl_nextAuth := now + minutes 30\<rparr> else w)"

definition loop_save :: "zhEnv \<Rightarrow> zhLoop \<Rightarrow> zhLoop" where
  "loop_save env w =
     (if zh_crashed (zl_zh w) then w
      else
        (let st = zh_pruneState (zh_now (zl_zh w)) (zl_state w)
         in w\<lparr>zl_state := st, zl_stored := zh_saveState env st (zl_zh w) (zl_stored w), zl_zh := zh_sleep (zh_tickTime w) (zl_zh w)\<rparr>))"

text \<open>One turn of the loop; after a panic there is none.\<close>

definition zh_tick :: "zhEnv \<Rightarrow> zhLoop \<Rightarrow> zhLoop" where
  "zh_tick env w =
     (if zh_crashed (zl_zh w) then w
      else
        (let now = zh_now (zl_zh w)
         in loop_save env (loop_auth env now (loop_history env now (loop_collection env now (loop_daily env now
              (loop_notify env now (loop_hot env now (loop_session env now w)))))))))"

text \<open>What happens while the loop runs: its turns, and the end of the login page.\<close>

datatype zhStep = ZTick | ZPageEnds

definition zh_step :: "zhEnv \<Rightarrow> zhStep \<Rightarrow> zhLoop \<Rightarrow> zhLoop" where
  "zh_step env e w = (case e of ZTick \<Rightarrow> zh_tick env w | ZPageEnds \<Rightarrow> w\<lparr>zl_zh := uiShutdown (zl_zh w)\<rparr>)"

definition zh_run :: "zhEnv \<Rightarrow> zhStep list \<Rightarrow> zhLoop \<Rightarrow> zhLoop" where
  "zh_run env es w = fold (zh_step env) es w"

end
