(* ===== verification/Zhihu_Invariants.thy ===== *)
theory Zhihu_Invariants
  imports Zhihu_Feeds
begin

text \<open>
  What the zhihu back end keeps. A property of the state that the primitive steps of the client keep is
  kept by every request (locale \<open>zh_client_inv\<close>); one that those of the session keep too is kept by the
  gateway and by the fetchers (locale \<open>zh_session_inv\<close>). The interpretations give: a cookie is never lost
  (\<open>hasz\<close>), a ready session has its cookie (\<open>okay\<close>), and nothing but the rounds publishes, while time
  does not go back (\<open>quiet\<close>).
\<close>

section \<open>Primitive steps\<close>

locale zh_client_inv =
  fixes I :: "zhihu \<Rightarrow> bool" and env :: zhEnv
  assumes sent: "I s \<Longrightarrow> I (s\<lparr>zh_requests := rs, zh_now := zh_now s + int n\<rparr>)"
    and cookie: "I s \<Longrightarrow> I (zh_session (set_cookie name v) s)"
    and anon: "I s \<Longrightarrow> (\<And>w. zC0 (f w) = zC0 w \<and> ws_status (f w) = ws_status w) \<Longrightarrow> I (zh_session f s)"
    and until: "I s \<Longrightarrow> I (s\<lparr>rateUntil := a\<rparr>)"
    and backoff: "I s \<Longrightarrow> I (s\<lparr>rateBackoff := b\<rparr>)"
    and slept: "I s \<Longrightarrow> zh_now s \<le> t \<Longrightarrow> I (s\<lparr>zh_now := t\<rparr>)"
    and version: "I s \<Longrightarrow> I (s\<lparr>zh_apiVersion := v\<rparr>)"
    and warmed: "I s \<Longrightarrow> I (s\<lparr>zh_warm := w\<rparr>)"
    and marked: "I s \<Longrightarrow> I (zh_markSessionInvalid env e s)"
begin

lemma zh_captureCookies_inv: "I s \<Longrightarrow> I (zh_captureCookies hs s)"
proof (induction hs arbitrary: s)
  case Nil
  then show ?case by (simp add: zh_captureCookies_def zh_session_def)
next
  case (Cons h hs)
  have "zh_captureCookies (h # hs) s = zh_captureCookies hs (zh_session (set_cookie (fst (cookie_parts h)) (snd (cookie_parts h))) s)"
    by (simp add: zh_captureCookies_def zh_session_def)
  then show ?case using Cons cookie by simp
qed

lemma zh_hop_inv: "I s \<Longrightarrow> I (zh_hop h s)"
  by (auto simp: zh_hop_def Let_def zh_captureCookies_inv intro!: anon split: prod.split)

lemma zh_hops_inv: "I s \<Longrightarrow> I (fold zh_hop hs s)"
  by (induction hs arbitrary: s) (simp_all add: zh_hop_inv)

lemma zh_do_inv: "zh_do env rq s = (s', r) \<Longrightarrow> I s \<Longrightarrow> I s'"
  by (auto simp: zh_do_def zh_hops_inv sent split: prod.splits)

lemma waitRateGate_inv: "I s \<Longrightarrow> I (waitRateGate s)"
  by (auto simp: waitRateGate_def slept split: option.split)

lemma rate_inv: "I s \<Longrightarrow> I (zh_noteRateLimit s)" "I s \<Longrightarrow> I (zh_clearRateLimit s)"
  by (auto simp: zh_noteRateLimit_def zh_clearRateLimit_def Let_def intro!: until backoff split: option.split)

lemma warmupRequest_inv: "warmupRequest env meth u b s = (s', ok) \<Longrightarrow> I s \<Longrightarrow> I s'"
  by (auto simp: warmupRequest_def zh_captureCookies_inv split: prod.splits sum.splits dest!: zh_do_inv)

lemma warmupRequest_fst_inv: "I s \<Longrightarrow> I (fst (warmupRequest env meth u b s))"
  using warmupRequest_inv[OF prod.collapse[symmetric]] .

lemma primeLoginContext_inv: "primeLoginContext env s = (s', r) \<Longrightarrow> I s \<Longrightarrow> I s'"
  unfolding primeLoginContext_def Let_def
  by (auto split: prod.splits sum.splits if_splits option.splits dest!: zh_do_inv
        intro!: anon version warmupRequest_fst_inv zh_captureCookies_inv)

lemma zh_warmup_inv: "I s \<Longrightarrow> I (zh_warmup env s)"
  unfolding zh_warmup_def using primeLoginContext_inv[OF prod.collapse[symmetric], of s]
  by (auto intro: warmed)

lemma getRawRef_inv: "getRawRef env meth u b needAuth ref s = (s', r) \<Longrightarrow> I s \<Longrightarrow> I s'"
  by (auto simp: getRawRef_def Let_def split: prod.splits sum.splits if_splits dest!: zh_do_inv
        intro!: marked rate_inv zh_captureCookies_inv zh_warmup_inv waitRateGate_inv)

lemma getJSONRef_inv: "getJSONRef env d zero u needAuth ref s = (s', r) \<Longrightarrow> I s \<Longrightarrow> I s'"
  by (auto simp: getJSONRef_def split: prod.splits sum.splits if_splits dest!: getRawRef_inv)

lemma getDailyJSON_inv: "getDailyJSON env d zero u s = (s', r) \<Longrightarrow> I s \<Longrightarrow> I s'"
  by (auto simp: getDailyJSON_def split: prod.splits sum.splits if_splits dest!: zh_do_inv)

lemma loginRequest_inv: "loginRequest env meth u b ref p s = (s', r) \<Longrightarrow> I s \<Longrightarrow> I s'"
  by (auto simp: loginRequest_def Let_def split: prod.splits sum.splits if_splits dest!: zh_do_inv
        intro!: zh_captureCookies_inv zh_warmup_inv)

end

section \<open>A cookie is never lost by a request\<close>

lemma mark_simps [simp]:
  "zC0 (ws (zh_markSessionInvalid env e s)) = zC0 (ws s)" "ws_status (ws (zh_markSessionInvalid env e s)) = ''invalid''"
  "zh_published (zh_markSessionInvalid env e s) = zh_published s" "zh_now (zh_markSessionInvalid env e s) = zh_now s"
  "zh_crashed (zh_markSessionInvalid env e s) = zh_crashed s" "reLoginNext (zh_markSessionInvalid env e s) = reLoginNext s"
  "zh_logins (zh_markSessionInvalid env e s) = zh_logins s" "zh_requests (zh_markSessionInvalid env e s) = zh_requests s"
  "zh_ui (zh_markSessionInvalid env e s) = zh_ui s" "zh_browsers (zh_markSessionInvalid env e s) = zh_browsers s"
  by (simp_all add: zh_markSessionInvalid_def zh_setAuthStatus_def zh_saveAuth_def zh_session_def Let_def)

lemma zh_ready_simps [simp]:
  "zh_setAuthStatus env ''ready'' s = zh_session (ws_status_update (\<lambda>_. ''ready'')) s"
  by (simp add: zh_setAuthStatus_def)

lemma session_simps [simp]:
  "ws (zh_session f s) = f (ws s)" "zh_published (zh_session f s) = zh_published s" "zh_now (zh_session f s) = zh_now s"
  "zh_crashed (zh_session f s) = zh_crashed s" "reLoginNext (zh_session f s) = reLoginNext s"
  "zh_logins (zh_session f s) = zh_logins s" "zh_requests (zh_session f s) = zh_requests s" "zh_file (zh_session f s) = zh_file s"
  "zh_ui (zh_session f s) = zh_ui s" "zh_browsers (zh_session f s) = zh_browsers s"
  by (simp_all add: zh_session_def)

lemma set_cookie_zC0: "zC0 (set_cookie name v w) = (if name = ''z_c0'' \<and> v \<noteq> [] then v else zC0 w)"
  by (simp add: set_cookie_def)

lemma set_cookie_status [simp]: "ws_status (set_cookie name v w) = ws_status w"
  by (simp add: set_cookie_def)

interpretation hasz: zh_client_inv "\<lambda>s. zC0 (ws s) \<noteq> []" env for env
  by unfold_locales (auto simp: set_cookie_zC0)

section \<open>The gateway and the fetchers\<close>

locale zh_session_inv = zh_client_inv +
  assumes nextAt: "I s \<Longrightarrow> I (s\<lparr>reLoginNext := x1\<rparr>)"
    and probed: "I s \<Longrightarrow> I (s\<lparr>lastProbeOK := x2\<rparr>)"
    and errs: "I s \<Longrightarrow> I (s\<lparr>zh_errs := x3\<rparr>)"
    and sheds: "I s \<Longrightarrow> I (s\<lparr>meHTMLSheds := x4\<rparr>)"
    and cleared: "I s \<Longrightarrow> I (s\<lparr>zh_authErr := x5\<rparr>)"
    and shown: "I s \<Longrightarrow> I (s\<lparr>zh_ui := x6\<rparr>)" "I s \<Longrightarrow> I (s\<lparr>zh_page := x7\<rparr>)" "I s \<Longrightarrow> I (s\<lparr>zh_logins := x8\<rparr>)"
      "I s \<Longrightarrow> I (s\<lparr>zh_browsers := x9\<rparr>)"
    and token: "I s \<Longrightarrow> I (s\<lparr>urlToken := t\<rparr>)"
    and ready: "I s \<Longrightarrow> zC0 (ws s) \<noteq> [] \<Longrightarrow> I (zh_setAuthStatus env ''ready'' s)"
    and dropped: "I s \<Longrightarrow> I (zh_session (zC0_update (\<lambda>_. [])) (zh_markSessionInvalid env e s))"
begin

lemma zh_pushError_inv: "I s \<Longrightarrow> I (zh_pushError e s)"
  by (simp add: zh_pushError_def errs)

lemma verifySession_inv: "verifySession env s = (s', r) \<Longrightarrow> I s \<Longrightarrow> I s'"
proof -
  assume v: "verifySession env s = (s', r)" and i: "I s"
  show "I s'"
  proof (cases "zC0 (ws s) = []")
    case True
    then show ?thesis using v i marked by (auto simp: verifySession_def)
  next
    case False
    obtain s1 o1 where g: "getJSONRef env dec_me zeroMe meURL True apiReferer s = (s1, o1)"
      by (cases "getJSONRef env dec_me zeroMe meURL True apiReferer s")
    have i1: "I s1" and z1: "zC0 (ws s1) \<noteq> []"
      using getJSONRef_inv[OF g i] hasz.getJSONRef_inv[OF g False] by blast+
    have "I (zh_setAuthStatus env ''ready'' (zh_clearAuthErr (zh_session (ws_user_update (\<lambda>_. n)) s1)))" for n
      unfolding zh_clearAuthErr_def using i1 z1 by (intro ready sheds cleared anon) auto
    then show ?thesis
      using v i1 marked sheds by (auto simp: verifySession_def False g Let_def split: sum.splits zhErr.splits if_splits)
  qed
qed

lemma startLoginUI_inv: "startLoginUI env s = (s', r) \<Longrightarrow> I s \<Longrightarrow> I s'"
  by (auto simp: startLoginUI_def Let_def shown split: sum.splits if_splits prod.splits)

lemma openLoginBrowserOnce_inv: "I s \<Longrightarrow> I (openLoginBrowserOnce s)"
  by (simp add: openLoginBrowserOnce_def shown)

lemma uiShutdown_inv: "I s \<Longrightarrow> I (uiShutdown s)"
  by (simp add: uiShutdown_def shown)

lemma scheduleLogin_inv: "I s \<Longrightarrow> I (scheduleLogin env now force s)"
  by (auto simp: scheduleLogin_def split: prod.split sum.split dest!: startLoginUI_inv intro: nextAt openLoginBrowserOnce_inv)

lemma ensureSession_inv: "I s \<Longrightarrow> I (zh_ensureSession env now force s)"
  unfolding zh_ensureSession_def
  by (auto split: prod.split option.split zhErr.split dest!: verifySession_inv
        intro!: scheduleLogin_inv probed nextAt dropped zh_pushError_inv)

lemma handleRoundErr_inv: "I s \<Longrightarrow> I (handleRoundErr env e s)"
  by (simp add: handleRoundErr_def zh_pushError_inv ensureSession_inv split: zhErr.split)

lemma fetchHotlist_inv: "fetchHotlist env s = (s', r) \<Longrightarrow> I s \<Longrightarrow> I s'"
  by (simp add: fetchHotlist_def getJSONRef_inv)

lemma fetchNotifications_inv: "fetchNotifications env s = (s', r) \<Longrightarrow> I s \<Longrightarrow> I s'"
proof -
  assume f: "fetchNotifications env s = (s', r)" and i: "I s"
  obtain s1 o1 where p: "fetchNotificationsPage env s = (s1, o1)" by (cases "fetchNotificationsPage env s")
  then have "I s1"
    using i by (auto simp: fetchNotificationsPage_def Let_def split: prod.splits sum.splits if_splits dest!: zh_do_inv
        intro!: marked rate_inv zh_captureCookies_inv waitRateGate_inv)
  then show "I s'"
    using f by (auto simp: fetchNotifications_def p parseNotificationsPage_def rate_inv split: sum.splits prod.splits option.splits if_splits)
qed

lemma fetchDailyStory_inv: "fetchDailyStory env n s = (s', r) \<Longrightarrow> I s \<Longrightarrow> I s'"
  by (simp add: fetchDailyStory_def getDailyJSON_inv)

lemma currentUserURLToken_inv: "currentUserURLToken env s = (s', r) \<Longrightarrow> I s \<Longrightarrow> I s'"
  by (auto simp: currentUserURLToken_def token split: prod.splits sum.splits if_splits dest!: getJSONRef_inv)

lemma walk_pages_inv: "walk_pages env u ref d zero n off out s = (s', r) \<Longrightarrow> I s \<Longrightarrow> I s'"
  by (induction n arbitrary: off out s) (auto split: prod.splits sum.splits if_splits dest!: getJSONRef_inv)

lemma fetchMyFavlists_inv: "fetchMyFavlists env s = (s', r) \<Longrightarrow> I s \<Longrightarrow> I s'"
  by (auto simp: fetchMyFavlists_def split: prod.splits sum.splits dest!: currentUserURLToken_inv walk_pages_inv)

lemma fetchCollectionContents_inv: "fetchCollectionContents env c s = (s', r) \<Longrightarrow> I s \<Longrightarrow> I s'"
  by (auto simp: fetchCollectionContents_def split: prod.splits sum.splits dest!: walk_pages_inv)

lemma collection_walk_inv: "collection_walk env cs out s = (s', r) \<Longrightarrow> I s \<Longrightarrow> I s'"
  by (induction cs arbitrary: out s) (auto split: prod.splits sum.splits dest!: fetchCollectionContents_inv)

lemma fetchMyCollectionItems_inv: "fetchMyCollectionItems env s = (s', r) \<Longrightarrow> I s \<Longrightarrow> I s'"
  by (auto simp: fetchMyCollectionItems_def split: prod.splits sum.splits dest!: fetchMyFavlists_inv collection_walk_inv)

lemma history_walk_inv: "history_walk env n off out s = (s', r) \<Longrightarrow> I s \<Longrightarrow> I s'"
  by (induction n arbitrary: off out s) (auto simp: Let_def split: prod.splits sum.splits if_splits dest!: getJSONRef_inv)

lemma fetchMyHistory_inv: "fetchMyHistory env s = (s', r) \<Longrightarrow> I s \<Longrightarrow> I s'"
  by (simp add: fetchMyHistory_def history_walk_inv)

end

section \<open>Nothing but the rounds publishes\<close>

definition quiet_from :: "zhihu \<Rightarrow> zhihu \<Rightarrow> bool" where
  "quiet_from s0 s \<longleftrightarrow> zh_published s = zh_published s0 \<and> zh_now s0 \<le> zh_now s \<and> zh_crashed s = zh_crashed s0"

lemma quiet_from_refl [simp]: "quiet_from s s"
  by (simp add: quiet_from_def)

interpretation calm: zh_session_inv "quiet_from s0" env for s0 env
  by unfold_locales (auto simp: quiet_from_def)

end
