(* ===== verification/Zhihu_Window.thy ===== *)
theory Zhihu_Window
  imports Zhihu_Invariants
begin

text \<open>
  The feeds of the zhihu back end over a whole run of its loop: what is published twice, and when.
\<close>

section \<open>Marked or expired\<close>

definition feed_names :: "string list" where
  "feed_names = [''hotlist'', ''notifications'', ''daily'', ''collections'', ''history'']"

definition seen_of :: "string \<Rightarrow> zhihuState \<Rightarrow> seen" where
  "seen_of feed st =
     (if feed = ''hotlist'' then zs_Hotlist st else if feed = ''notifications'' then zs_Notifications st
      else if feed = ''daily'' then zs_Daily st else if feed = ''collections'' then zs_Collections st else zs_History st)"

definition three_days :: int where "three_days = 259200"

definition spaced :: "zhPub \<Rightarrow> zhPub \<Rightarrow> bool" where
  "spaced p q \<longleftrightarrow> (zp_feed p = zp_feed q \<and> zp_key p = zp_key q \<longrightarrow> zp_at p + three_days < zp_at q)"

text \<open>Everything published in a feed is still marked, with its time or a later one, or older than three days
  at the last pruning.\<close>

definition feed_ok :: "string \<Rightarrow> int \<Rightarrow> seen \<Rightarrow> zhPub list \<Rightarrow> bool" where
  "feed_ok feed T m ps \<longleftrightarrow>
     (\<forall>p \<in> set ps. zp_feed p = feed \<longrightarrow> (\<exists>t. map_of m (zp_key p) = Some t \<and> zp_at p \<le> t) \<or> zp_at p + three_days < T)"

definition state_ok :: "int \<Rightarrow> zhihuState \<Rightarrow> zhPub list \<Rightarrow> bool" where
  "state_ok T st ps \<longleftrightarrow> sorted_wrt spaced ps \<and> (\<forall>p \<in> set ps. zp_feed p \<in> set feed_names) \<and>
     (\<forall>feed \<in> set feed_names. feed_ok feed T (seen_of feed st) ps)"

lemma feed_ok_Nil: "feed_ok feed T m [] = True" "feed_ok feed T [] ps \<Longrightarrow> feed_ok feed T m ps"
  by (auto simp: feed_ok_def)

lemma map_of_update: "map_of (AList.update k v m) = (map_of m)(k \<mapsto> v)"
  by (rule update_conv')

lemma feed_ok_mark:
  "feed_ok feed T m ps \<Longrightarrow> map_of m k = None \<Longrightarrow> feed_ok feed T (AList.update k at m) ps"
  by (fastforce simp: feed_ok_def map_of_update)

lemma feed_ok_publish:
  assumes "feed_ok feed T m ps" "map_of m k = None"
  shows "feed_ok feed T (AList.update k at m) (ps @ zh_pubs feed at [(k, f)])"
  using feed_ok_mark[OF assms, of at] by (auto simp: feed_ok_def zh_pubs_def map_of_update)

lemma spaced_publish:
  assumes "feed_ok feed T m ps" "map_of m k = None" "T \<le> at" "sorted_wrt spaced ps"
  shows "sorted_wrt spaced (ps @ zh_pubs feed at [(k, f)])"
  using assms by (fastforce simp: sorted_wrt_append zh_pubs_def spaced_def feed_ok_def)

lemma feed_ok_other: "feed \<noteq> feed' \<Longrightarrow> feed_ok feed' T m ps \<Longrightarrow> feed_ok feed' T m (ps @ zh_pubs feed at qs)"
  by (auto simp: feed_ok_def zh_pubs_def)

section \<open>Rounds\<close>

lemma zh_pubs_Cons: "zh_pubs feed at ((k, f) # ps) = zh_pubs feed at [(k, f)] @ zh_pubs feed at ps"
  by (simp add: zh_pubs_def)

lemma feed_items_ok:
  assumes "feed_items key raw extra at is m = (m1, qs, ok)" "feed_ok feed T m ps" "T \<le> at" "sorted_wrt spaced ps"
  shows "feed_ok feed T m1 (ps @ zh_pubs feed at qs) \<and> sorted_wrt spaced (ps @ zh_pubs feed at qs)"
  using assms
proof (induction "is" arbitrary: m ps m1 qs ok)
  case Nil
  then show ?case by (simp add: zh_pubs_def)
next
  case (Cons i "is")
  show ?case
  proof (cases "\<exists>k. key i = Some k \<and> map_of m k = None")
    case False
    then have "feed_items key raw extra at is m = (m1, qs, ok)"
      using Cons.prems(1) by (auto split: option.splits if_splits)
    then show ?thesis using Cons.IH Cons.prems(2-4) by blast
  next
    case True
    then obtain k where k: "key i = Some k" "map_of m k = None" by blast
    let ?m = "AList.update k at m"
    have mk: "feed_ok feed T ?m ps" using feed_ok_mark[OF Cons.prems(2) k(2)] .
    show ?thesis
    proof (cases "insertFlatFields (raw i) extra")
      case FlatErr
      then have "feed_items key raw extra at is ?m = (m1, qs, ok)" using Cons.prems(1) k by (simp add: Let_def)
      then show ?thesis using Cons.IH mk Cons.prems(3,4) by blast
    next
      case FlatPanic
      then show ?thesis using Cons.prems(1,4) k mk by (auto simp: Let_def zh_pubs_def)
    next
      case (FlatOk f)
      then obtain qs' where q: "feed_items key raw extra at is ?m = (m1, qs', ok)" "qs = (k, f) # qs'"
        using Cons.prems(1) k by (cases "feed_items key raw extra at is ?m") (auto simp: Let_def)
      show ?thesis
        using Cons.IH[OF q(1) feed_ok_publish[OF Cons.prems(2) k(2)] Cons.prems(3) spaced_publish[OF Cons.prems(2) k(2) Cons.prems(3,4)]]
        by (simp add: q(2) zh_pubs_Cons[of feed at k f qs'])
    qed
  qed
qed

text \<open>A round on the map of a feed keeps what the feed knows, and leaves the other feeds alone.\<close>

definition adds_to :: "string \<Rightarrow> (seen \<Rightarrow> zhihu \<Rightarrow> seen \<times> zhihu) \<Rightarrow> zhihu \<Rightarrow> bool" where
  "adds_to feed go s \<longleftrightarrow>
     (\<forall>m T. feed_ok feed T m (zh_published s) \<longrightarrow> T \<le> unix (zh_now s) \<longrightarrow> sorted_wrt spaced (zh_published s) \<longrightarrow>
        (let (m1, s1) = go m s
         in feed_ok feed T m1 (zh_published s1) \<and> sorted_wrt spaced (zh_published s1) \<and> zh_now s \<le> zh_now s1 \<and>
            (\<exists>qs. zh_published s1 = zh_published s @ qs \<and> (\<forall>q \<in> set qs. zp_feed q = feed))))"

lemma adds_to_publish: "adds_to feed (publish_round feed kind key raw is) s"
  unfolding adds_to_def publish_round_def Let_def
  by (auto simp: zh_pubs_def[symmetric] split: prod.splits dest!: feed_items_ok)
     (auto simp: zh_pubs_def)

lemma adds_to_seeding: "adds_to feed go s \<Longrightarrow> adds_to feed (seeding_or key is go) s"
  unfolding adds_to_def seeding_or_def by (auto simp: Let_def intro: feed_ok_Nil(2))

lemma daily_items_ok:
  assumes "daily_items env n at its m s = (m1, s1)" "feed_ok ''daily'' T m (zh_published s)" "T \<le> at"
    and "sorted_wrt spaced (zh_published s)"
  shows "feed_ok ''daily'' T m1 (zh_published s1) \<and> sorted_wrt spaced (zh_published s1) \<and> zh_now s \<le> zh_now s1 \<and>
    (\<exists>qs. zh_published s1 = zh_published s @ qs \<and> (\<forall>q \<in> set qs. zp_feed q = ''daily''))"
  using assms
proof (induction its arbitrary: m s)
  case (Cons it its)
  show ?case
  proof (cases "map_of m (daily_key it)")
    case Some
    then show ?thesis using Cons by simp
  next
    case None
    obtain s2 o2 where f: "fetchDailyStory env (dy_ID it) s = (s2, o2)" by (cases "fetchDailyStory env (dy_ID it) s")
    have q: "zh_published s2 = zh_published s" "zh_now s \<le> zh_now s2"
      using calm.fetchDailyStory_inv[OF f, of s] by (simp_all add: quiet_from_def)
    let ?k = "daily_key it"
    show ?thesis
    proof (cases o2)
      case (Inl e)
      then have "daily_items env n at its m (zh_pushError e s2) = (m1, s1)" using Cons.prems(1) None f by simp
      from Cons.IH[OF this] show ?thesis using Cons.prems(2-4) q by (auto simp: zh_pushError_def)
    next
      case (Inr u)
      have mk: "feed_ok ''daily'' T (AList.update ?k at m) (zh_published s2)"
        using feed_ok_mark[OF Cons.prems(2) None] by (simp add: q)
      show ?thesis
      proof (cases "insertFlatFields (dy_Raw it) (flatFields ''daily'' n)")
        case FlatErr
        then have "daily_items env n at its (AList.update ?k at m) s2 = (m1, s1)" using Cons.prems(1) None f Inr by simp
        from Cons.IH[OF this mk Cons.prems(3)] show ?thesis using Cons.prems(4) q by auto
      next
        case FlatPanic
        then show ?thesis using Cons.prems None f Inr q by auto
      next
        case (FlatOk g)
        let ?s = "s2\<lparr>zh_published := zh_published s2 @ zh_pubs ''daily'' at [(?k, g)]\<rparr>"
        have d: "daily_items env n at its (AList.update ?k at m) ?s = (m1, s1)" using Cons.prems(1) None f Inr FlatOk by simp
        have p: "feed_ok ''daily'' T (AList.update ?k at m) (zh_published ?s)" "sorted_wrt spaced (zh_published ?s)"
          using feed_ok_publish[OF Cons.prems(2) None] spaced_publish[OF Cons.prems(2) None Cons.prems(3,4)] by (simp_all add: q)
        from Cons.IH[OF d p(1) Cons.prems(3) p(2)] show ?thesis using q by (auto simp: zh_pubs_def)
      qed
    qed
  qed
qed auto

lemma adds_to_daily: "adds_to ''daily'' (daily_items env n (unix (zh_now s)) its) s"
  unfolding adds_to_def Let_def by (auto split: prod.splits dest: daily_items_ok)

text \<open>A round on the whole state.\<close>

definition keeps_window :: "(zhihuState \<Rightarrow> zhihu \<Rightarrow> zhihuState \<times> zhihu) \<Rightarrow> bool" where
  "keeps_window r \<longleftrightarrow>
     (\<forall>T st s st1 s1. r st s = (st1, s1) \<longrightarrow> state_ok T st (zh_published s) \<longrightarrow> T \<le> unix (zh_now s) \<longrightarrow>
        state_ok T st1 (zh_published s1) \<and> zh_now s \<le> zh_now s1)"

lemma unix_mono: "a \<le> b \<Longrightarrow> unix a \<le> unix b"
  by (simp add: unix_def zdiv_mono1)

lemma state_ok_quiet: "state_ok T st (zh_published s) \<Longrightarrow> quiet_from s s1 \<Longrightarrow> state_ok T st (zh_published s1) \<and> zh_now s \<le> zh_now s1"
  by (simp add: quiet_from_def)

lemma state_ok_feed:
  assumes "state_ok T st (zh_published s)" "T \<le> unix (zh_now s)" "quiet_from s s1" "adds_to feed go s1"
    and "go (seen_of feed st) s1 = (m, s2)" "feed \<in> set feed_names"
    and "seen_of feed st1 = m" "\<And>g. g \<in> set feed_names \<Longrightarrow> g \<noteq> feed \<Longrightarrow> seen_of g st1 = seen_of g st"
  shows "state_ok T st1 (zh_published s2) \<and> zh_now s \<le> zh_now s2"
proof -
  have p: "zh_published s1 = zh_published s" "zh_now s \<le> zh_now s1" using assms(3) by (simp_all add: quiet_from_def)
  have "T \<le> unix (zh_now s1)" using assms(2) unix_mono[OF p(2)] by simp
  moreover have "feed_ok feed T (seen_of feed st) (zh_published s1)" "sorted_wrt spaced (zh_published s1)"
    using assms(1,6) by (simp_all add: state_ok_def p)
  ultimately have "let (m1, s2') = go (seen_of feed st) s1 in feed_ok feed T m1 (zh_published s2') \<and>
      sorted_wrt spaced (zh_published s2') \<and> zh_now s1 \<le> zh_now s2' \<and>
      (\<exists>qs. zh_published s2' = zh_published s1 @ qs \<and> (\<forall>q \<in> set qs. zp_feed q = feed))"
    using assms(4) unfolding adds_to_def by blast
  then obtain qs where q: "feed_ok feed T m (zh_published s2)" "sorted_wrt spaced (zh_published s2)" "zh_now s1 \<le> zh_now s2"
      "zh_published s2 = zh_published s1 @ qs" "\<forall>q \<in> set qs. zp_feed q = feed"
    using assms(5) by auto
  have "feed_ok g T (seen_of g st1) (zh_published s2)" if "g \<in> set feed_names" for g
  proof (cases "g = feed")
    case False
    then have "feed_ok g T (seen_of g st1) (zh_published s)" using assms(1,8) that by (simp add: state_ok_def)
    then show ?thesis using q(4,5) False by (auto simp: feed_ok_def p)
  qed (use q assms(7) in simp)
  then show ?thesis using assms(1,6) q p by (auto simp: state_ok_def)
qed

text \<open>The five rounds have one shape: fetch, then either handle the error or go over the items.\<close>

definition feed_round :: "(zhihu \<Rightarrow> zhihu \<times> (zhErr + 'i list)) \<Rightarrow> (zhErr \<Rightarrow> zhihu \<Rightarrow> zhihu) \<Rightarrow> ('i list \<Rightarrow> zhihu \<Rightarrow> seen \<Rightarrow> zhihu \<Rightarrow> seen \<times> zhihu)
    \<Rightarrow> (zhihuState \<Rightarrow> seen) \<Rightarrow> (seen \<Rightarrow> zhihuState \<Rightarrow> zhihuState) \<Rightarrow> zhihuState \<Rightarrow> zhihu \<Rightarrow> zhihuState \<times> zhihu" where
  "feed_round fetch onerr go sel upd st s =
     (case fetch s of
        (s1, Inl e) \<Rightarrow> (st, onerr e s1)
      | (s1, Inr items) \<Rightarrow> (case go items s1 (sel st) s1 of (m, s2) \<Rightarrow> (upd m st, s2)))"

lemma feed_round_window:
  assumes "\<And>s s1 o1. fetch s = (s1, o1) \<Longrightarrow> quiet_from s s1" "\<And>s e s1. quiet_from s s1 \<Longrightarrow> quiet_from s (onerr e s1)"
    and "\<And>items s. adds_to feed (go items s) s" "feed \<in> set feed_names" "sel = seen_of feed"
    and "\<And>m st. seen_of feed (upd m st) = m"
    and "\<And>m st g. g \<in> set feed_names \<Longrightarrow> g \<noteq> feed \<Longrightarrow> seen_of g (upd m st) = seen_of g st"
  shows "keeps_window (feed_round fetch onerr go sel upd)"
  unfolding keeps_window_def
proof (intro allI impI)
  fix T st s st1 s1
  assume r: "feed_round fetch onerr go sel upd st s = (st1, s1)"
    and ok: "state_ok T st (zh_published s)" "T \<le> unix (zh_now s)"
  obtain s2 o2 where f: "fetch s = (s2, o2)" by (cases "fetch s")
  note q = assms(1)[OF f]
  show "state_ok T st1 (zh_published s1) \<and> zh_now s \<le> zh_now s1"
  proof (cases o2)
    case (Inl e)
    then have "st1 = st" "s1 = onerr e s2" using r by (simp_all add: feed_round_def f)
    then show ?thesis using state_ok_quiet[OF ok(1) assms(2)[OF q]] by simp
  next
    case (Inr items)
    obtain m s3 where p: "go items s2 (seen_of feed st) s2 = (m, s3)" by (cases "go items s2 (seen_of feed st) s2")
    then have "st1 = upd m st" "s1 = s3" using r by (simp_all add: feed_round_def f Inr assms(5))
    then show ?thesis
      using state_ok_feed[OF ok q assms(3) p assms(4), of "upd m st"] assms(6,7) by simp
  qed
qed

lemmas seen_of_simps = seen_of_def feed_names_def

lemma rounds_shape:
  "zh_hotRound env = feed_round (fetchHotlist env) (handleRoundErr env) (\<lambda>items _. publish_round ''hotlist'' ''hotlist'' hotlistKey hl_Raw items)
      zs_Hotlist (\<lambda>m. zs_Hotlist_update (\<lambda>_. m))"
  "zh_notifyRound env = feed_round (fetchNotifications env) (handleRoundErr env)
      (\<lambda>items _. seeding_or notify_key items (publish_round ''notifications'' ''notification'' (Some \<circ> notify_key) zn_Raw items))
      zs_Notifications (\<lambda>m. zs_Notifications_update (\<lambda>_. m))"
  "zh_dailyRound env = feed_round (getDailyJSON env dec_daily [] dailyLatestURL) zh_pushError
      (\<lambda>items s. seeding_or daily_key items (daily_items env (length items) (unix (zh_now s)) items))
      zs_Daily (\<lambda>m. zs_Daily_update (\<lambda>_. m))"
  "zh_collectionRound env = feed_round (fetchMyCollectionItems env)
      (\<lambda>e s. let s2 = handleRoundErr env e s in if e = ZNotLoggedIn then s2\<lparr>urlToken := []\<rparr> else s2)
      (\<lambda>items _. seeding_or collectionItemKey items
         (publish_round ''collections'' ''zhihu_collection'' (Some \<circ> collectionItemKey) collection_raw items))
      zs_Collections (\<lambda>m. zs_Collections_update (\<lambda>_. m))"
  "zh_historyRound env = feed_round (fetchMyHistory env) (handleRoundErr env)
      (\<lambda>items _. seeding_or historyItemKey items (publish_round ''history'' ''zhihu_history'' history_key history_raw items))
      zs_History (\<lambda>m. zs_History_update (\<lambda>_. m))"
  by (intro ext; auto simp: feed_round_def zh_hotRound_def zh_notifyRound_def zh_dailyRound_def zh_collectionRound_def
        zh_historyRound_def Let_def split: prod.split sum.split)+

lemma rounds_window:
  "keeps_window (zh_hotRound env)" "keeps_window (zh_notifyRound env)" "keeps_window (zh_dailyRound env)"
  "keeps_window (zh_collectionRound env)" "keeps_window (zh_historyRound env)"
proof -
  show "keeps_window (zh_hotRound env)" unfolding rounds_shape
    by (rule feed_round_window[where feed = "''hotlist''"])
       (auto simp: seen_of_simps fun_eq_iff adds_to_publish intro: calm.handleRoundErr_inv calm.fetchHotlist_inv)
  show "keeps_window (zh_notifyRound env)" unfolding rounds_shape
    by (rule feed_round_window[where feed = "''notifications''"])
       (auto simp: seen_of_simps fun_eq_iff adds_to_publish adds_to_seeding intro: calm.handleRoundErr_inv calm.fetchNotifications_inv)
  show "keeps_window (zh_dailyRound env)" unfolding rounds_shape
    by (rule feed_round_window[where feed = "''daily''"])
       (auto simp: seen_of_simps fun_eq_iff adds_to_daily adds_to_seeding intro: calm.zh_pushError_inv calm.getDailyJSON_inv)
  show "keeps_window (zh_collectionRound env)" unfolding rounds_shape
    by (rule feed_round_window[where feed = "''collections''"])
       (auto simp: seen_of_simps fun_eq_iff adds_to_publish adds_to_seeding Let_def
          intro: calm.token calm.handleRoundErr_inv calm.fetchMyCollectionItems_inv)
  show "keeps_window (zh_historyRound env)" unfolding rounds_shape
    by (rule feed_round_window[where feed = "''history''"])
       (auto simp: seen_of_simps fun_eq_iff adds_to_publish adds_to_seeding intro: calm.handleRoundErr_inv calm.fetchMyHistory_inv)
qed

section \<open>The loop\<close>

definition loop_ok :: "int \<Rightarrow> zhLoop \<Rightarrow> bool" where
  "loop_ok T w \<longleftrightarrow> state_ok T (zl_state w) (zh_published (zl_zh w)) \<and> T \<le> unix (zh_now (zl_zh w))"

lemma loop_ok_quiet: "loop_ok T w \<Longrightarrow> quiet_from (zl_zh w) s \<Longrightarrow> loop_ok T (w\<lparr>zl_zh := s\<rparr>)"
  using unix_mono[of "zh_now (zl_zh w)" "zh_now s"] by (auto simp: loop_ok_def quiet_from_def)

lemma loop_ok_round:
  assumes "keeps_window r" "loop_ok T w"
  shows "loop_ok T (do_round c r w)"
proof -
  obtain st1 s1 where r: "r (zl_state w) (zl_zh w) = (st1, s1)" by (cases "r (zl_state w) (zl_zh w)")
  then show ?thesis
    using assms unix_mono[of "zh_now (zl_zh w)" "zh_now s1"]
    by (fastforce simp: do_round_def loop_ok_def keeps_window_def)
qed

lemma loop_ok_fields:
  "loop_ok T (w\<lparr>zl_nextHot := t\<rparr>) = loop_ok T w" "loop_ok T (w\<lparr>zl_nextNotify := t\<rparr>) = loop_ok T w"
  "loop_ok T (w\<lparr>zl_nextDaily := t\<rparr>) = loop_ok T w" "loop_ok T (w\<lparr>zl_nextCollection := t\<rparr>) = loop_ok T w"
  "loop_ok T (w\<lparr>zl_nextHistory := t\<rparr>) = loop_ok T w" "loop_ok T (w\<lparr>zl_nextAuth := t\<rparr>) = loop_ok T w"
  by (simp_all add: loop_ok_def)

lemma loop_parts_ok:
  assumes "loop_ok T w"
  shows "loop_ok T (loop_session env now w)" "loop_ok T (loop_hot env now w)" "loop_ok T (loop_notify env now w)"
    "loop_ok T (loop_daily env now w)" "loop_ok T (loop_collection env now w)" "loop_ok T (loop_history env now w)"
    "loop_ok T (loop_auth env now w)"
  using assms
  by (auto simp: loop_session_def loop_hot_def loop_notify_def loop_daily_def loop_collection_def loop_history_def loop_auth_def
        loop_ok_fields rounds_window intro!: loop_ok_round loop_ok_quiet calm.ensureSession_inv)

lemma map_of_filter_Some: "map_of m k = Some t \<Longrightarrow> P (k, t) \<Longrightarrow> map_of (filter P m) k = Some t"
  by (induction m) (auto split: if_splits)

lemma feed_ok_prune:
  assumes "feed_ok feed T m ps" "T \<le> unix now"
  shows "feed_ok feed (unix now) (pruneMap now m) ps"
  unfolding feed_ok_def
proof (intro ballI impI)
  fix p assume p: "p \<in> set ps" "zp_feed p = feed"
  have c: "unix (now - hours 72) = unix now - three_days"
    by (simp add: unix_def hours_def three_days_def)
  from assms(1) p consider (marked) t where "map_of m (zp_key p) = Some t" "zp_at p \<le> t" | (old) "zp_at p + three_days < T"
    by (auto simp: feed_ok_def)
  then show "(\<exists>t. map_of (pruneMap now m) (zp_key p) = Some t \<and> zp_at p \<le> t) \<or> zp_at p + three_days < unix now"
  proof cases
    case marked
    show ?thesis
    proof (cases "t < unix now - three_days")
      case False
      then have "map_of (pruneMap now m) (zp_key p) = Some t"
        unfolding pruneMap_def by (intro map_of_filter_Some marked(1)) (simp add: c)
      then show ?thesis using marked(2) by blast
    qed (use marked(2) in simp)
  qed (use assms(2) in simp)
qed

lemma seen_of_prune: "seen_of feed (zh_pruneState now st) = pruneMap now (seen_of feed st)"
  by (simp add: seen_of_def zh_pruneState_def)

lemma loop_save_ok: "loop_ok T w \<Longrightarrow> \<exists>T'. loop_ok T' (loop_save env w)"
proof (cases "zh_crashed (zl_zh w)")
  case False
  assume ok: "loop_ok T w"
  have "unix (zh_now (zl_zh w)) \<le> unix (zh_now (zh_sleep d (zl_zh w)))" for d
    by (intro unix_mono) (simp add: zh_sleep_def)
  then have "loop_ok (unix (zh_now (zl_zh w))) (loop_save env w)"
    using ok False feed_ok_prune
    by (auto simp: loop_save_def Let_def loop_ok_def state_ok_def seen_of_prune zh_sleep_def)
  then show ?thesis by blast
qed (auto simp: loop_save_def)

lemma zh_step_ok:
  assumes "loop_ok T w"
  shows "\<exists>T'. loop_ok T' (zh_step env e w)"
proof (cases e)
  case ZTick
  have "\<exists>T'. loop_ok T' (zh_tick env w)"
    unfolding zh_tick_def Let_def using assms by (auto intro!: loop_save_ok loop_parts_ok)
  then show ?thesis by (simp add: zh_step_def ZTick)
next
  case ZPageEnds
  then show ?thesis
    using loop_ok_quiet[OF assms calm.uiShutdown_inv[OF quiet_from_refl]] by (auto simp: zh_step_def)
qed

lemma zh_run_ok: "loop_ok T w \<Longrightarrow> \<exists>T'. loop_ok T' (zh_run env es w)"
proof (induction es arbitrary: T w)
  case (Cons e es)
  then show ?case using zh_step_ok[OF Cons.prems, of env e] by (auto simp: zh_run_def)
qed (auto simp: zh_run_def)

lemma zh_start_quiet: "quiet_from s (zl_zh (zh_start env hot notify hi ni stored s))"
proof -
  have "quiet_from s (zh_loadAuth s)"
    by (auto simp: zh_loadAuth_def quiet_from_def split: option.split)
  then show ?thesis by (simp add: zh_start_def Let_def calm.ensureSession_inv)
qed

text \<open>C36: whatever the service answers, and however long the loop runs, an entry (a key of one of the five feeds) is not handed to \<open>publish\<close> again within 72 hours: between two publications of it lie more than 259200 seconds.\<close>

theorem zhihu_published_once:
  "sorted_wrt spaced (zh_published (zl_zh (zh_run env es (zh_start env hot notify hi ni stored (zh_init env now file)))))"
proof -
  let ?w = "zh_start env hot notify hi ni stored (zh_init env now file)"
  have "zh_published (zl_zh ?w) = []"
    using zh_start_quiet[of "zh_init env now file"] by (simp add: quiet_from_def zh_init_def)
  then have "loop_ok (unix (zh_now (zl_zh ?w))) ?w"
    by (simp add: loop_ok_def state_ok_def feed_ok_def)
  from zh_run_ok[OF this] show ?thesis by (auto simp: loop_ok_def state_ok_def)
qed

section \<open>The backlog comes back\<close>

lemma feed_items_fresh:
  assumes kf: "\<And>i. kf i = Some (key i)" and "\<forall>i \<in> set is. \<exists>es. raw i = JObj es"
  shows "\<exists>m1 ps. feed_items kf raw extra at is m = (m1, ps, True) \<and>
    map fst ps = map key (fresh_items key (fst ` set m) is) \<and> fst ` set m1 = key ` set is \<union> fst ` set m"
  using assms(2)
proof (induction "is" arbitrary: m)
  case (Cons i "is")
  obtain es where es: "raw i = JObj es" using Cons.prems by auto
  have all: "\<forall>i \<in> set is. \<exists>es. raw i = JObj es" using Cons.prems by simp
  note ki = kf[of i]
  show ?case
  proof (cases "key i \<in> fst ` set m")
    case True
    then have k: "\<exists>v. map_of m (key i) = Some v" "insert (key i) (fst ` set m) = fst ` set m"
      using True by (auto simp: insert_absorb) (metis domIff dom_map_of_conv_image_fst option.exhaust True)
    obtain m1 ps where "feed_items kf raw extra at is m = (m1, ps, True)"
        "map fst ps = map key (fresh_items key (fst ` set m) is)" "fst ` set m1 = key ` set is \<union> fst ` set m"
      using Cons.IH[OF all, of m] by blast
    then show ?thesis using k True by (auto simp: ki)
  next
    case False
    obtain m1 ps where "feed_items kf raw extra at is (AList.update (key i) at m) = (m1, ps, True)"
        "map fst ps = map key (fresh_items key (insert (key i) (fst ` set m)) is)" "fst ` set m1 = key ` set is \<union> insert (key i) (fst ` set m)"
      using Cons.IH[OF all, of "AList.update (key i) at m"] unfolding keys_update by blast
    then show ?thesis using False by (auto simp: ki es insertFlatFields_def map_of_eq_None_iff Let_def)
  qed
qed simp

lemma prune_seeded:
  assumes "k \<notin> key ` set is" "t0 < unix now - three_days"
  shows "fst ` set (pruneMap now (AList.update k t1 (seed_items key t0 is []))) \<subseteq> {k}"
proof
  fix x assume "x \<in> fst ` set (pruneMap now (AList.update k t1 (seed_items key t0 is [])))"
  from keys_prune[OF this] obtain v where v: "(x, v) \<in> set (AList.update k t1 (seed_items key t0 is []))" "unix now - three_days \<le> v"
    by (auto simp: unix_def hours_def three_days_def)
  have seeded: "(y, u) \<in> set (seed_items key t0 is m) \<Longrightarrow> u = t0 \<or> (y, u) \<in> set m" for y u m
    unfolding seed_items_def
  proof (induction "is" arbitrary: m)
    case (Cons i "is")
    have "(y, u) \<in> set (AList.update (key i) t0 m) \<Longrightarrow> u = t0 \<or> (y, u) \<in> set m"
      by (induction m) (auto split: if_splits)
    then show ?case using Cons by fastforce
  qed simp
  have "(y, u) \<in> set (AList.update k t1 m) \<Longrightarrow> y = k \<or> (y, u) \<in> set m" for y u m
    by (induction m) (auto split: if_splits)
  then have "x = k \<or> (x, v) \<in> set (seed_items key t0 is [])" using v(1) .
  moreover have "v \<noteq> t0" using v(2) assms(2) by simp
  ultimately show "x \<in> {k}" using seeded[of x v "[]"] by auto
qed


section \<open>A service with one answer\<close>

definition zh_service :: "json \<Rightarrow> zhEnv" where
  "zh_service j = \<lparr>ze_net = (\<lambda>_ _. ([], Inr (200, [], [], Inr ''{}''))), ze_took = (\<lambda>_. 0), ze_json = (\<lambda>_. Some j),
     ze_writes = (\<lambda>_. True), ze_listen = (\<lambda>_. Inr (''127.0.0.1:1'', True)), ze_rand = (\<lambda>_ _. 0), ze_perm = (\<lambda>_ n. [0..<n]),
     ze_stop = (\<lambda>_. False), ze_fmt = id\<rparr>"

definition usable :: "zhihu \<Rightarrow> bool" where
  "usable s \<longleftrightarrow> zh_warm s \<and> rateUntil s = None \<and> zC0 (ws s) \<noteq> []"

lemma zh_service_get:
  assumes "usable s" "d zero j = (v, True)"
  shows "\<exists>s1. getJSONRef (zh_service j) d zero u a ref s = (s1, Inr v) \<and> usable s1 \<and> urlToken s1 = urlToken s
    \<and> zh_published s1 = zh_published s \<and> zh_file s1 = zh_file s"
proof -
  have "\<not> zh_looksHTML ''{}''" by (simp add: zh_looksHTML_def has_prefix_def printing_def)
  then show ?thesis
    using assms
    by (simp add: getJSONRef_def getRawRef_def waitRateGate_def usable_def zh_warmup_def zh_do_def zh_service_def zh_captureCookies_def
          zh_session_def zh_clearRateLimit_def unmarshal_def Let_def)
qed

definition signed_in :: zhihu where
  "signed_in = (zh_init (zh_service JNull) 0 None)\<lparr>zh_warm := True, urlToken := ''t'',
     ws := (ws (zh_init (zh_service JNull) 0 None))\<lparr>zC0 := ''z'', ws_status := ''ready''\<rparr>\<rparr>"

lemma signed_in_usable: "usable signed_in" "urlToken signed_in = ''t''" "zh_published signed_in = []"
  by (simp_all add: usable_def signed_in_def zh_init_def)

definition one_collected :: json where
  "one_collected = JObj [(''data'', JArr [JObj [(''id'', JNum ''1'')]]), (''paging'', JObj [(''is_end'', JBoolean True)])]"

definition old_entry :: collectionEntry where
  "old_entry = \<lparr>ce_CollectionID = 1, ce_Item = \<lparr>ci_ID = 1, ci_Raw = Some (JObj [(''id'', JNum ''1'')])\<rparr>\<rparr>"

lemma one_collected_pages:
  "dec_page 0 dec_collection zeroPage one_collected = (\<lparr>pg_Entries = [1], pg_IsEnd = True\<rparr>, True)"
  "dec_page JNull dec_any_raw zeroPage one_collected = (\<lparr>pg_Entries = [JObj [(''id'', JNum ''1'')]], pg_IsEnd = True\<rparr>, True)"
  by code_simp+

lemma old_entry_parsed: "parseCollectionItem (JObj [(''id'', JNum ''1'')]) = ce_Item old_entry"
  by code_simp

lemma walk_pages_single:
  "getJSONRef env (dec_page zero d) zeroPage (u off) True ref s = (s1, Inr \<lparr>pg_Entries = es, pg_IsEnd = True\<rparr>) \<Longrightarrow>
   walk_pages env u ref d zero (Suc n) off out s = (s1, Inr (out @ es))"
  by simp

lemma one_collected_fetch: "\<exists>s1. fetchMyCollectionItems (zh_service one_collected) signed_in = (s1, Inr [old_entry]) \<and> zh_published s1 = []"
proof -
  let ?e = "zh_service one_collected"
  obtain s1 where s1: "getJSONRef ?e (dec_page 0 dec_collection) zeroPage (favlistsURL ''t'' 0) True
      (''https://www.zhihu.com/people/'' @ ''t'' @ ''/collections'') signed_in = (s1, Inr \<lparr>pg_Entries = [1], pg_IsEnd = True\<rparr>)"
      "usable s1" "zh_published s1 = []"
    using zh_service_get[where d = "dec_page 0 dec_collection", OF signed_in_usable(1) one_collected_pages(1)] signed_in_usable(3) by metis
  obtain s2 where s2: "getJSONRef ?e (dec_page JNull dec_any_raw) zeroPage (collectionContentsURL 1 0) True
      (''https://www.zhihu.com/collection/'' @ itoa 1) s1 = (s2, Inr \<lparr>pg_Entries = [JObj [(''id'', JNum ''1'')]], pg_IsEnd = True\<rparr>)"
      "zh_published s2 = []"
    using zh_service_get[where d = "dec_page JNull dec_any_raw", OF s1(2) one_collected_pages(2)] s1(3) by metis
  have cap: "collectionPageCap = Suc 9" by (simp add: collectionPageCap_def)
  have "fetchMyFavlists ?e signed_in = (s1, Inr [1])"
    using walk_pages_single[where u = "favlistsURL ''t''", OF s1(1), of 9 "[]"] signed_in_usable(2)
    by (simp add: fetchMyFavlists_def currentUserURLToken_def cap del: walk_pages.simps)
  moreover have "fetchCollectionContents ?e 1 s1 = (s2, Inr [ce_Item old_entry])"
    using walk_pages_single[where u = "collectionContentsURL 1", OF s2(1), of 9 "[]"]
    by (simp add: fetchCollectionContents_def cap old_entry_parsed del: walk_pages.simps)
  ultimately show ?thesis
    using s2(2) by (simp add: fetchMyCollectionItems_def old_entry_def)
qed


text \<open>Two entries of a collection have one key when their numbers are one as \<open>float64\<close>, so only one of
  them is ever published.\<close>

lemma collection_ids_collide:
  "collectionItemKey \<lparr>ce_CollectionID = c, ce_Item = parseCollectionItem (JObj [(''id'', JNum ''2052718434220073058'')])\<rparr> =
   collectionItemKey \<lparr>ce_CollectionID = c, ce_Item = parseCollectionItem (JObj [(''id'', JNum ''2052718434220073000'')])\<rparr>"
proof -
  have "ci_ID (parseCollectionItem (JObj [(''id'', JNum ''2052718434220073058'')])) = 2052718434220072960" by code_simp
  moreover have "ci_ID (parseCollectionItem (JObj [(''id'', JNum ''2052718434220073000'')])) = 2052718434220072960" by code_simp
  ultimately show ?thesis by (simp only: collectionItemKey_def collectionEntry.simps)
qed

end
