(* ===== verification/Zhihu_Gateway.thy ===== *)
theory Zhihu_Gateway
  imports Zhihu_Window
begin

text \<open>
  The login gateway of the zhihu back end: when a session survives, when the login page is started, and
  what a restart finds in the credential file.
\<close>

section \<open>A ready session has its cookie\<close>

definition zh_session_ok :: "zhihu \<Rightarrow> bool" where
  "zh_session_ok s \<longleftrightarrow> (ws_status (ws s) = ''ready'' \<longrightarrow> zC0 (ws s) \<noteq> []) \<and>
     (\<forall>f. zh_file s = Some f \<longrightarrow> zf_Status f = ''ready'' \<longrightarrow> zf_ZC0 f \<noteq> [])"

lemma zh_markSessionInvalid_file:
  "zh_file (zh_markSessionInvalid env e s) = Some f \<Longrightarrow> zh_file s = Some f \<or> zf_Status f = ''invalid''"
  by (auto simp: zh_markSessionInvalid_def zh_setAuthStatus_def zh_saveAuth_def zh_session_def Let_def split: if_splits)

interpretation okay: zh_session_inv zh_session_ok env for env
  by unfold_locales (auto simp: zh_session_ok_def set_cookie_zC0 dest!: zh_markSessionInvalid_file split: if_splits)

lemma zh_session_ok_published: "zh_session_ok (s\<lparr>zh_published := ps, zh_crashed := c\<rparr>) = zh_session_ok s"
    "zh_session_ok (s\<lparr>zh_published := ps\<rparr>) = zh_session_ok s" "zh_session_ok (s\<lparr>zh_crashed := c\<rparr>) = zh_session_ok s"
  by (simp_all add: zh_session_ok_def)

lemma publish_round_okay: "publish_round feed kind key raw is m s = (m1, s1) \<Longrightarrow> zh_session_ok s \<Longrightarrow> zh_session_ok s1"
  by (auto simp: publish_round_def Let_def zh_session_ok_published split: prod.splits)

lemma seeding_or_okay:
  "seeding_or key is go m s = (m1, s1) \<Longrightarrow> (go m s = (m1, s1) \<Longrightarrow> zh_session_ok s1) \<Longrightarrow> zh_session_ok s \<Longrightarrow> zh_session_ok s1"
  by (auto simp: seeding_or_def split: if_splits)

lemma daily_items_okay: "daily_items env n at its m s = (m1, s1) \<Longrightarrow> zh_session_ok s \<Longrightarrow> zh_session_ok s1"
proof (induction its arbitrary: m s)
  case (Cons it its)
  then show ?case
    by (auto simp: zh_session_ok_published okay.zh_pushError_inv split: if_splits prod.splits sum.splits flatResult.splits
          dest!: okay.fetchDailyStory_inv)
qed simp

lemma feed_round_okay:
  assumes "\<And>s s1 o1. fetch s = (s1, o1) \<Longrightarrow> zh_session_ok s \<Longrightarrow> zh_session_ok s1" "\<And>e s. zh_session_ok s \<Longrightarrow> zh_session_ok (onerr e s)"
    and "\<And>items s0 m s m1 s1. go items s0 m s = (m1, s1) \<Longrightarrow> zh_session_ok s \<Longrightarrow> zh_session_ok s1"
  shows "zh_session_ok s \<Longrightarrow> zh_session_ok (snd (feed_round fetch onerr go sel upd st s))"
  using assms by (auto simp: feed_round_def split: prod.splits sum.splits)

lemma rounds_okay:
  assumes "zh_session_ok s"
  shows "zh_session_ok (snd (zh_hotRound env st s))" "zh_session_ok (snd (zh_notifyRound env st s))"
    "zh_session_ok (snd (zh_dailyRound env st s))" "zh_session_ok (snd (zh_collectionRound env st s))"
    "zh_session_ok (snd (zh_historyRound env st s))"
  unfolding rounds_shape
  by (rule feed_round_okay[OF _ _ _ assms];
      auto simp: Let_def okay.handleRoundErr_inv okay.zh_pushError_inv okay.token
        dest: okay.fetchHotlist_inv okay.fetchNotifications_inv okay.getDailyJSON_inv okay.fetchMyCollectionItems_inv
          okay.fetchMyHistory_inv publish_round_okay daily_items_okay elim!: seeding_or_okay)+

lemma do_round_okay:
  "(\<And>st s. zh_session_ok s \<Longrightarrow> zh_session_ok (snd (r st s))) \<Longrightarrow> zh_session_ok (zl_zh w) \<Longrightarrow> zh_session_ok (zl_zh (do_round c r w))"
  by (auto simp: do_round_def case_prod_beta)

lemma zh_step_okay: "zh_session_ok (zl_zh w) \<Longrightarrow> zh_session_ok (zl_zh (zh_step env e w))"
proof -
  assume ok: "zh_session_ok (zl_zh w)"
  have parts: "zh_session_ok (zl_zh v) \<Longrightarrow> zh_session_ok (zl_zh (loop_session env now v))"
      "zh_session_ok (zl_zh v) \<Longrightarrow> zh_session_ok (zl_zh (loop_hot env now v))"
      "zh_session_ok (zl_zh v) \<Longrightarrow> zh_session_ok (zl_zh (loop_notify env now v))"
      "zh_session_ok (zl_zh v) \<Longrightarrow> zh_session_ok (zl_zh (loop_daily env now v))"
      "zh_session_ok (zl_zh v) \<Longrightarrow> zh_session_ok (zl_zh (loop_collection env now v))"
      "zh_session_ok (zl_zh v) \<Longrightarrow> zh_session_ok (zl_zh (loop_history env now v))"
      "zh_session_ok (zl_zh v) \<Longrightarrow> zh_session_ok (zl_zh (loop_auth env now v))"
      "zh_session_ok (zl_zh v) \<Longrightarrow> zh_session_ok (zl_zh (loop_save env v))" for v now
    by (auto simp: loop_session_def loop_hot_def loop_notify_def loop_daily_def loop_collection_def loop_history_def loop_auth_def
          loop_save_def Let_def okay.ensureSession_inv rounds_okay intro!: do_round_okay)
       (simp_all add: zh_sleep_def okay.slept)
  show ?thesis
    using ok by (auto simp: zh_step_def zh_tick_def Let_def okay.uiShutdown_inv intro!: parts split: zhStep.split)
qed



section \<open>What costs a session, and what does not\<close>

text \<open>when the probe of a held session meets anything but a refusal (a transport error, a status other than 401, an answer that does not parse, or a page of HTML that is not the third since the last success), the gateway keeps the cookie and the status, records the error, starts no login page, opens no browser and leaves the cooldown alone.\<close>

theorem zhihu_session_survives:
  assumes "zC0 (ws s) \<noteq> []" "getJSONRef env dec_me zeroMe meURL True apiReferer s = (s1, Inl e)" "e \<noteq> ZNotLoggedIn"
    and "\<forall>t. e = ZUnverifiable t \<longrightarrow> meHTMLSheds s1 < 2"
  shows "let s' = zh_ensureSession env now force s
    in zC0 (ws s') \<noteq> [] \<and> ws_status (ws s') = ws_status (ws s1) \<and> zh_errs s' \<noteq> [] \<and>
       zh_logins s' = zh_logins s1 \<and> zh_browsers s' = zh_browsers s1 \<and> reLoginNext s' = reLoginNext s1"
proof -
  have z: "zC0 (ws s1) \<noteq> []" using hasz.getJSONRef_inv[OF assms(2,1)] .
  obtain s2 e2 where v: "verifySession env s = (s2, Some e2)" "e2 \<noteq> ZNotLoggedIn" "s2 = s1 \<or> s2 = s1\<lparr>meHTMLSheds := Suc (meHTMLSheds s1)\<rparr>"
    using assms by (cases e) (auto simp: verifySession_def Let_def)
  have "zh_ensureSession env now force s = zh_pushError e2 s2"
    using assms(1) v(1,2) by (simp add: zh_ensureSession_def split: zhErr.split)
  then show ?thesis using v(3) z by (auto simp: Let_def zh_pushError_def)
qed

lemma zhihu_session_survives_witness:
  "zC0 (ws (zh_ensureSession ((zh_service JNull)\<lparr>ze_net := (\<lambda>_ _. ([], Inl ''reset''))\<rparr>) 0 False signed_in)) \<noteq> []"
proof -
  let ?e = "(zh_service JNull)\<lparr>ze_net := (\<lambda>_ _. ([], Inl ''reset''))\<rparr>"
  have "zC0 (ws signed_in) \<noteq> []" using signed_in_usable(1) by (simp add: usable_def)
  moreover obtain s1 where "getJSONRef ?e dec_me zeroMe meURL True apiReferer signed_in = (s1, Inl (ZOther ''reset''))"
    using signed_in_usable(1)
    by (auto simp: getJSONRef_def getRawRef_def waitRateGate_def usable_def zh_warmup_def zh_do_def zh_service_def Let_def)
  ultimately show ?thesis
    using zhihu_session_survives[of signed_in ?e s1 "ZOther ''reset''" 0 False] by (simp add: Let_def)
qed

text \<open>The counter of HTML pages is cleared by a success alone, so three pages end a session however many other
  failures lie between them.\<close>

lemma html_sheds_not_consecutive:
  assumes "zC0 (ws s) \<noteq> []" "getJSONRef env dec_me zeroMe meURL True apiReferer s = (s1, Inl (ZOther e))"
  shows "meHTMLSheds (fst (verifySession env s)) = meHTMLSheds s1"
  using assms by (simp add: verifySession_def)

section \<open>A recovered session is lost by a restart\<close>

lemma keeps_file:
  "zh_file (zh_hop h s) = zh_file s" "zh_file (zh_captureCookies hs s) = zh_file s" "zh_file (waitRateGate s) = zh_file s"
  "zh_file (zh_noteRateLimit s) = zh_file s" "zh_file (zh_clearRateLimit s) = zh_file s"
  by (auto simp: zh_hop_def zh_captureCookies_def zh_session_def waitRateGate_def zh_noteRateLimit_def zh_clearRateLimit_def Let_def
        split: prod.split option.split)

lemma hops_keep_file: "zh_file (fold zh_hop hs s) = zh_file s"
  by (induction hs arbitrary: s) (simp_all add: keeps_file)

lemma zh_do_file: "zh_do env rq s = (s1, r) \<Longrightarrow> zh_file s1 = zh_file s"
  by (auto simp: zh_do_def hops_keep_file split: prod.splits)

lemma warmupRequest_file: "zh_file (fst (warmupRequest env m u b s)) = zh_file s"
  by (auto simp: warmupRequest_def keeps_file split: prod.splits sum.splits dest!: zh_do_file)

lemma zh_warmup_file: "zh_file (zh_warmup env s) = zh_file s"
  unfolding zh_warmup_def primeLoginContext_def Let_def
  by (auto split: prod.splits sum.splits option.splits dest!: zh_do_file simp: keeps_file warmupRequest_file)

lemma getRawRef_file: "getRawRef env m u b a ref s = (s1, Inr v) \<Longrightarrow> zh_file s1 = zh_file s"
  by (auto simp: getRawRef_def Let_def keeps_file zh_warmup_file split: prod.splits sum.splits if_splits dest!: zh_do_file)

lemma getJSONRef_file: "getJSONRef env d z u a ref s = (s1, Inr v) \<Longrightarrow> zh_file s1 = zh_file s"
  by (auto simp: getJSONRef_def split: prod.splits sum.splits if_splits option.splits dest!: getRawRef_file)

lemma getRawRef_rejected:
  assumes "getRawRef env m u b True ref s = (s1, Inl ZNotLoggedIn)" "zC0 (ws s) \<noteq> []" "\<forall>n. ze_writes env n"
  shows "\<exists>f. zh_file s1 = Some f \<and> zf_Status f = ''invalid''"
  using assms
  by (auto simp: getRawRef_def waitRateGate_def Let_def zh_markSessionInvalid_def zh_setAuthStatus_def zh_saveAuth_def zh_session_def
        split: prod.splits sum.splits if_splits option.splits)

text \<open>C39: a feed that is refused once declares the session invalid and writes that into the credential file. When the probe that follows finds the session alive, the loop goes on with it, but the file is not written again: a process that starts from it throws the cookie away and, when it polls the hot list, opens the login page.\<close>

theorem recovered_session_lost:
  assumes "zC0 (ws s) \<noteq> []" "\<forall>n. ze_writes env n"
    and "fetchHotlist env s = (s1, Inl ZNotLoggedIn)" "verifySession env s1 = (s2, None)"
  shows "let s' = snd (zh_hotRound env st s)
    in ws_status (ws s') = ''ready'' \<and> zC0 (ws s') \<noteq> [] \<and>
       (\<forall>env2 now2 ni stored. let w = zh_start env2 True ni hi di stored (zh_init env2 now2 (zh_file s'))
          in zC0 (ws (zl_zh w)) = [] \<and> zh_logins (zl_zh w) = [now2])"
proof -
  have "getRawRef env ''GET'' hotlistURL None True apiReferer s = (s1, Inl ZNotLoggedIn)"
    using assms(3) by (auto simp: fetchHotlist_def getJSONRef_def split: prod.splits sum.splits if_splits option.splits)
  then obtain f where f: "zh_file s1 = Some f" "zf_Status f = ''invalid''"
    using getRawRef_rejected assms(1,2) by blast
  have z1: "zC0 (ws s1) \<noteq> []" using hasz.getJSONRef_inv[OF assms(3)[unfolded fetchHotlist_def] assms(1)] .
  obtain s3 o3 where g: "getJSONRef env dec_me zeroMe meURL True apiReferer s1 = (s3, o3)"
    by (cases "getJSONRef env dec_me zeroMe meURL True apiReferer s1")
  then obtain me where me: "o3 = Inr me"
      "s2 = zh_setAuthStatus env ''ready'' (zh_clearAuthErr (zh_session (ws_user_update (\<lambda>_. me_Name me)) s3))"
    using assms(4) z1 by (auto simp: verifySession_def Let_def split: sum.splits zhErr.splits if_splits)
  have s2: "zh_file s2 = Some f" "zC0 (ws s2) \<noteq> []" "ws_status (ws s2) = ''ready''"
    using getJSONRef_file[of env dec_me zeroMe meURL True apiReferer s1] hasz.getJSONRef_inv[OF g z1] g f me
    by (auto simp: zh_clearAuthErr_def)
  have r: "snd (zh_hotRound env st s) = s2\<lparr>reLoginNext := None, lastProbeOK := Some (zh_now s2)\<rparr>"
    using assms(3,4) z1 by (simp add: zh_hotRound_def handleRoundErr_def zh_ensureSession_def)
  have "zC0 (ws (zl_zh w)) = [] \<and> zh_logins (zl_zh w) = [now2]"
    if "w = zh_start env2 True ni hi di stored (zh_init env2 now2 (Some f))" for w env2 now2 ni stored
  proof -
    have "zC0 (ws (zh_loadAuth (zh_init env2 now2 (Some f)))) = []" "zh_logins (zh_loadAuth (zh_init env2 now2 (Some f))) = []"
        "zh_now (zh_loadAuth (zh_init env2 now2 (Some f))) = now2" "\<not> ui_active (zh_ui (zh_loadAuth (zh_init env2 now2 (Some f))))"
      by (simp_all add: zh_loadAuth_def zh_init_def applyAuthFile_def f(2) Let_def)
    then show ?thesis
      by (auto simp: that zh_start_def Let_def zh_ensureSession_def scheduleLogin_def startLoginUI_def openLoginBrowserOnce_def
            split: sum.split prod.split)
  qed
  then show ?thesis using s2 by (simp add: r Let_def)
qed

definition refused_once :: zhEnv where
  "refused_once = (zh_service (JObj [(''name'', JStr ''u'')]))\<lparr>ze_net :=
     (\<lambda>n _. ([], Inr (if n = 0 then 401 else 200, [], [], Inr ''{}'')))\<rparr>"

lemma refused_once_answers:
  "\<exists>s1 s2. fetchHotlist refused_once signed_in = (s1, Inl ZNotLoggedIn) \<and> verifySession refused_once s1 = (s2, None)"
proof -
  have html: "\<not> zh_looksHTML ''{}''" by (simp add: zh_looksHTML_def has_prefix_def printing_def)
  have u: "unmarshal dec_me zeroMe (Some (JObj [(''name'', JStr ''u'')])) = Some \<lparr>me_Name = ''u'', me_UrlToken = []\<rparr>" by code_simp
  have i: "zh_ix signed_in = 0" "zC0 (ws signed_in) = ''z''" by (simp_all add: zh_ix_def signed_in_def zh_init_def)
  obtain s1 where s1: "fetchHotlist refused_once signed_in = (s1, Inl ZNotLoggedIn)" "usable s1" "0 < zh_ix s1"
    using signed_in_usable(1) i
    by (auto simp: fetchHotlist_def getJSONRef_def getRawRef_def waitRateGate_def usable_def zh_warmup_def zh_do_def refused_once_def
          zh_service_def zh_captureCookies_def zh_session_def Let_def zh_ix_def zh_markSessionInvalid_def zh_setAuthStatus_def zh_saveAuth_def)
  obtain s2 where "verifySession refused_once s1 = (s2, None)"
    using s1(2,3) html u
    by (auto simp: verifySession_def getJSONRef_def getRawRef_def waitRateGate_def usable_def zh_warmup_def zh_do_def refused_once_def
          zh_service_def zh_captureCookies_def zh_session_def Let_def zh_clearRateLimit_def)
  with s1(1) show ?thesis by blast
qed

lemma recovered_session_lost_witness:
  "zh_logins (zl_zh (zh_start refused_once True True 0 0 None
     (zh_init refused_once 5 (zh_file (snd (zh_hotRound refused_once zh_newState signed_in)))))) = [5]"
proof -
  have "zC0 (ws signed_in) \<noteq> []" "\<forall>n. ze_writes refused_once n"
    using signed_in_usable(1) by (simp_all add: usable_def refused_once_def zh_service_def)
  with refused_once_answers recovered_session_lost[of signed_in refused_once] show ?thesis by (auto simp: Let_def)
qed

section \<open>A bulletin needs no login\<close>

text \<open>with both flags off and no stored credentials, when only the daily bulletin is polled, for which no session is needed, the first turn of the loop starts the login page, whatever the environment does.\<close>

theorem daily_only_opens_login:
  "zh_logins (zl_zh (zh_tick env (zh_start env False False hi ni stored (zh_init env now None)))) = [now]"
proof -
  let ?s = "zh_init env now None" and ?w = "zh_start env False False hi ni stored (zh_init env now None)"
  have w: "zl_zh ?w = ?s" "\<not> zl_hot ?w" "\<not> zl_notify ?w" "\<not> zl_collection ?w" "\<not> zl_history ?w" "\<not> zl_nextDaily ?w < now"
    by (simp_all add: zh_start_def zh_loadAuth_def zh_init_def Let_def seconds_def)
  have s: "zC0 (ws ?s) = []" "ws_status (ws ?s) = []" "reLoginNext ?s = None" "zh_logins ?s = []" "zh_now ?s = now" "\<not> zh_crashed ?s"
      "\<not> ui_active (zh_ui ?s)"
    by (simp_all add: zh_init_def)
  have l: "zh_logins (zh_ensureSession env now False ?s) = [now]"
    using s by (auto simp: zh_ensureSession_def scheduleLogin_def reloginDue_def startLoginUI_def openLoginBrowserOnce_def Let_def
        split: sum.split prod.split)
  have "loop_session env now ?w = ?w\<lparr>zl_zh := zh_ensureSession env now False ?s\<rparr>"
    using s by (simp add: loop_session_def zh_ready_def w(1) reloginDue_def)
  then have "zh_logins (zl_zh (loop_save env (loop_auth env now (loop_history env now (loop_collection env now (loop_daily env now
        (loop_notify env now (loop_hot env now (loop_session env now ?w))))))))) = [now]"
    using w l by (simp add: loop_hot_def loop_notify_def loop_daily_def loop_collection_def loop_history_def loop_auth_def
        loop_save_def Let_def zh_sleep_def)
  then show ?thesis using s by (simp add: zh_tick_def w(1) Let_def)
qed

text \<open>After a success the backoff stands at its base already, so the next pause is twice that.\<close>

lemma first_pause_is_doubled:
  "rateUntil s = None \<Longrightarrow> rateBackoff (zh_noteRateLimit (zh_clearRateLimit s)) = seconds 8"
  by (simp add: zh_clearRateLimit_def zh_noteRateLimit_def rateBase_def rateMax_def seconds_def Let_def)

lemma least_itoa: "zh_itoa min_i64 = ''-''"
  by (simp add: zh_itoa_def min_i64_def wrap64_def Let_def digits_rev.simps)

end
