(* ===== verification/Zhihu_Login.thy ===== *)
theory Zhihu_Login
  imports Zhihu_Window
begin

text \<open>
  The login page of the zhihu back end: the QR ceremony and the cookie form of
  \<open>src/fbprotocols/zhihu/loginsrv.go\<close>, with the parsers of \<open>auth.go\<close>. Request routing, HTML and the browser are
  left out. The polls of \<open>runQRFlow\<close> take fuel; \<open>zhihu_qr_flow_ends\<close> shows how much is enough.
\<close>

section \<open>What the page shows\<close>

text \<open>The words of the page, in UTF-8.\<close>

definition zt_gate_head :: string where
  "zt_gate_head = map char_of
    [0xE7 :: nat, 0x9F, 0xA5, 0xE4, 0xB9, 0x8E, 0xE5, 0xBD, 0x93, 0xE5, 0x89, 0x8D, 0xE8, 0xA6, 0x81, 0xE6, 0xB1, 0x82,
    0xE7, 0xBD, 0x91, 0xE7, 0xBB, 0x9C, 0x2F, 0xE4, 0xBA, 0xBA, 0xE6, 0x9C, 0xBA, 0xE9, 0xAA, 0x8C, 0xE8, 0xAF, 0x81,
    0x28, 0x48, 0x54, 0x54, 0x50, 0x20]"

definition zt_gate_tail :: string where
  "zt_gate_tail = map char_of
    [0x29 :: nat, 0x2C, 0xE8, 0xAF, 0xB7, 0xE5, 0x85, 0x88, 0xE5, 0xAE, 0x8C, 0xE6, 0x88, 0x90, 0xE9, 0xAA, 0x8C, 0xE8,
    0xAF, 0x81, 0xE5, 0x90, 0x8E, 0xE5, 0x86, 0x8D, 0xE8, 0xAF, 0x95, 0x2C, 0xE6, 0x88, 0x96, 0xE7, 0x94, 0xA8, 0xE3,
    0x80, 0x8C, 0xE6, 0x89, 0x8B, 0xE6, 0x9C, 0xBA, 0xE5, 0x8F, 0xB7, 0x2B, 0xE9, 0xAA, 0x8C, 0xE8, 0xAF, 0x81, 0xE7,
    0xA0, 0x81, 0xE3, 0x80, 0x8D, 0xE7, 0x99, 0xBB, 0xE5, 0xBD, 0x95]"

definition zt_qr_head :: string where
  "zt_qr_head = map char_of
    [0xE4 :: nat, 0xBA, 0x8C, 0xE7, 0xBB, 0xB4, 0xE7, 0xA0, 0x81, 0xE8, 0x8E, 0xB7, 0xE5, 0x8F, 0x96, 0xE5, 0xA4, 0xB1,
    0xE8, 0xB4, 0xA5, 0x28, 0x48, 0x54, 0x54, 0x50, 0x20]"

definition zt_qr_tail :: string where
  "zt_qr_tail = map char_of
    [0x29 :: nat, 0x3A, 0xE7, 0x9F, 0xA5, 0xE4, 0xB9, 0x8E, 0xE6, 0x9C, 0xAA, 0xE8, 0xAE, 0xA4, 0xE5, 0x8F, 0xAF, 0xE6,
    0x9C, 0xAC, 0xE6, 0xAC, 0xA1, 0xE7, 0x99, 0xBB, 0xE5, 0xBD, 0x95, 0xE7, 0xA5, 0xA8, 0xE6, 0x8D, 0xAE, 0x2C, 0xE8,
    0xAF, 0xB7, 0xE7, 0xA8, 0x8D, 0xE5, 0x90, 0x8E, 0xE5, 0x88, 0xB7, 0xE6, 0x96, 0xB0, 0xE9, 0x87, 0x8D, 0xE8, 0xAF,
    0x95, 0x2C, 0xE6, 0x88, 0x96, 0xE6, 0x94, 0xB9, 0xE7, 0x94, 0xA8, 0xE3, 0x80, 0x8C, 0xE6, 0x89, 0x8B, 0xE6, 0x9C,
    0xBA, 0xE5, 0x8F, 0xB7, 0x2B, 0xE9, 0xAA, 0x8C, 0xE8, 0xAF, 0x81, 0xE7, 0xA0, 0x81, 0xE3, 0x80, 0x8D, 0xE7, 0x99,
    0xBB, 0xE5, 0xBD, 0x95]"

definition zt_risk_text :: string where
  "zt_risk_text = map char_of
    [0xE9 :: nat, 0xA3, 0x8E, 0xE6, 0x8E, 0xA7, 0xE6, 0x9C, 0xAA, 0xE8, 0xA7, 0xA3, 0xE9, 0x99, 0xA4, 0x28, 0xE7, 0xBD,
    0x91, 0xE7, 0xBB, 0x9C, 0xE7, 0x8E, 0xAF, 0xE5, 0xA2, 0x83, 0xE9, 0xAA, 0x8C, 0xE8, 0xAF, 0x81, 0xE6, 0x9C, 0xAA,
    0xE5, 0xAE, 0x8C, 0xE6, 0x88, 0x90, 0x29, 0x2C, 0xE8, 0xAF, 0xB7, 0xE5, 0x88, 0xB7, 0xE6, 0x96, 0xB0, 0xE9, 0xA1,
    0xB5, 0xE9, 0x9D, 0xA2, 0xE9, 0x87, 0x8D, 0xE8, 0xAF, 0x95]"

definition zt_no_zc0_text :: string where
  "zt_no_zc0_text = map char_of
    [0x71 :: nat, 0x72, 0x20, 0xE7, 0x99, 0xBB, 0xE5, 0xBD, 0x95, 0xE6, 0x9C, 0xAA, 0xE8, 0x8E, 0xB7, 0xE5, 0xBE, 0x97,
    0x20, 0x7A, 0x5F, 0x63, 0x30]"

definition zt_cookie_required :: string where
  "zt_cookie_required = map char_of
    [0x7A :: nat, 0x5F, 0x63, 0x30, 0x20, 0xE5, 0x92, 0x8C, 0x20, 0x5F, 0x78, 0x73, 0x72, 0x66, 0x20, 0xE4, 0xB8, 0xBA,
    0xE5, 0xBF, 0x85, 0xE5, 0xA1, 0xAB, 0xE9, 0xA1, 0xB9]"

definition zt_cookie_invalid :: string where
  "zt_cookie_invalid = map char_of
    [0x43 :: nat, 0x6F, 0x6F, 0x6B, 0x69, 0x65, 0x20, 0xE6, 0x97, 0xA0, 0xE6, 0x95, 0x88, 0xE6, 0x88, 0x96, 0xE5, 0xB7,
    0xB2, 0xE8, 0xBF, 0x87, 0xE6, 0x9C, 0x9F, 0x3A, 0x20]"

definition zt_already_word :: string where
  "zt_already_word = map char_of
    [0xE5 :: nat, 0xB7, 0xB2, 0xE7, 0x99, 0xBB, 0xE5, 0xBD, 0x95, 0xE7, 0x94, 0xA8, 0xE6, 0x88, 0xB7]"

definition zh_errText :: "zhErr \<Rightarrow> string" where
  "zh_errText e =
     (case e of
        ZNotLoggedIn \<Rightarrow> ''zhihu: not logged in or session expired''
      | ZUnverifiable t \<Rightarrow> ''zhihu: unverifiable html response '' @ t
      | ZAlreadyLoggedIn \<Rightarrow> ''zhihu: already logged in''
      | ZOther t \<Rightarrow> t)"

definition page_snapshot :: "zhPage \<Rightarrow> (string \<times> string) list" where
  "page_snapshot p =
     [(''stage'', lp_stage p), (''user'', lp_user p)]
     @ (if lp_qrURL p \<noteq> []
        then [(''qr_code_url'', ''https://api.qrserver.com/v1/create-qr-code/?size=220x220&data='' @ lp_qrURL p), (''qr_url'', lp_qrURL p)]
        else [])
     @ (if lp_errMsg p \<noteq> [] then [(''error'', lp_errMsg p)] else [])
     @ (if lp_riskURL p \<noteq> [] then [(''risk_url'', lp_riskURL p)] else [])"

definition page_set :: "string \<Rightarrow> string \<Rightarrow> zhihu \<Rightarrow> zhihu" where
  "page_set stage msg s =
     s\<lparr>zh_page := (zh_page s)\<lparr>lp_stage := stage, lp_errMsg := (if msg \<noteq> [] then msg else lp_errMsg (zh_page s))\<rparr>\<rparr>"

definition page_reset :: "zhihu \<Rightarrow> zhihu" where "page_reset s = s\<lparr>zh_page := idlePage\<rparr>"

definition page_setRisk :: "string \<Rightarrow> zhihu \<Rightarrow> zhihu" where
  "page_setRisk redirect s =
     (if lp_riskURL (zh_page s) \<noteq> [] then s
      else s\<lparr>zh_page := (zh_page s)\<lparr>lp_stage := ''risk'',
             lp_riskURL := (if redirect = [] then ''https://www.zhihu.com/account/risk_control/'' else redirect)\<rparr>\<rparr>)"

section \<open>The answers of the QR ceremony\<close>

definition qrBaseURL :: string where "qrBaseURL = ''https://www.zhihu.com/api/v3/account/api/login/qrcode''"
definition signinReferer :: string where "signinReferer = ''https://www.zhihu.com/signin''"

record qrBeginResp =
  qb_Token :: string
  qb_QrcodeToken :: string
  qb_URL :: string
  qb_Link :: string
  qb_ExpiresAt :: int

definition zeroQrBegin :: qrBeginResp where
  "zeroQrBegin = \<lparr>qb_Token = [], qb_QrcodeToken = [], qb_URL = [], qb_Link = [], qb_ExpiresAt = 0\<rparr>"

definition dec_qrBegin :: "qrBeginResp decoder" where
  "dec_qrBegin = dec_struct
     [(''code'', an_int), (''token'', on qb_Token qb_Token_update dec_string),
      (''qrcode_token'', on qb_QrcodeToken qb_QrcodeToken_update dec_string), (''url'', on qb_URL qb_URL_update dec_string),
      (''link'', on qb_Link qb_Link_update dec_string), (''expires_at'', on qb_ExpiresAt qb_ExpiresAt_update dec_int),
      (''expires'', an_int)]"

text \<open>Token, link and expiry.\<close>

definition parseQrBegin :: "json option \<Rightarrow> zhErr + string \<times> string \<times> int" where
  "parseQrBegin j =
     (case unmarshal dec_qrBegin zeroQrBegin j of
        None \<Rightarrow> Inl (ZOther ''zhihu: zhihu: qr begin parse'')
      | Some r \<Rightarrow>
          (let token = (if qb_Token r = [] then qb_QrcodeToken r else qb_Token r);
               link = (if qb_Link r = [] then qb_URL r else qb_Link r)
           in if token = [] then Inl (ZOther ''zhihu: zhihu: qr begin returned no token'') else Inr (token, link, qb_ExpiresAt r)))"

definition alreadyLoggedInRefused :: "nat \<Rightarrow> string \<Rightarrow> bool" where
  "alreadyLoggedInRefused status b \<longleftrightarrow> status = 403 \<and> contains_sub b zt_already_word"

definition qrBegin :: "zhEnv \<Rightarrow> zhihu \<Rightarrow> zhihu \<times> (zhErr + string \<times> string \<times> int)" where
  "qrBegin env s =
     (case refreshLoginContext env s of
        (s1, False) \<Rightarrow> (s1, Inl (ZOther (zt_gate_head @ show_nat (qrGate (ws s1)) @ zt_gate_tail)))
      | (s1, True) \<Rightarrow>
          (case loginRequest env ''POST'' qrBaseURL (Some ''{}'') signinReferer False s1 of
             (s2, Inl e) \<Rightarrow> (s2, Inl (ZOther (''zhihu: qr begin: '' @ zh_errText e)))
           | (s2, Inr (b, status)) \<Rightarrow>
               (s2,
                if status \<noteq> 200 then
                  (if alreadyLoggedInRefused status b then Inl ZAlreadyLoggedIn
                   else Inl (ZOther (zt_qr_head @ show_nat status @ zt_qr_tail)))
                else parseQrBegin (ze_json env b))))"

definition qrScanInfo :: "zhEnv \<Rightarrow> string \<Rightarrow> zhihu \<Rightarrow> zhihu \<times> (zhErr + string \<times> nat)" where
  "qrScanInfo env token s =
     (if token = [] then (s, Inl (ZOther ''zhihu: qr scan_info: empty token''))
      else loginRequest env ''GET'' (qrBaseURL @ ''/'' @ token @ ''/scan_info'') None zhihuSigninURL True s)"

text \<open>Numbers of a generic value.\<close>

definition any_float :: "json option \<Rightarrow> (bool \<times> int \<times> int) option" where
  "any_float j = (case j of Some (JNum t) \<Rightarrow> float_lit t | _ \<Rightarrow> None)"

definition float_nonzero :: "json option \<Rightarrow> bool" where
  "float_nonzero j \<longleftrightarrow> (case any_float j of Some (neg, n, k) \<Rightarrow> n \<noteq> 0 | None \<Rightarrow> False)"

definition float_is :: "json option \<Rightarrow> int \<Rightarrow> bool" where
  "float_is j v \<longleftrightarrow>
     (case any_float j of
        Some (neg, n, k) \<Rightarrow> (let m = (if neg then - n else n) in if 0 \<le> k then m * 2 ^ nat k = v else m = v * 2 ^ nat (- k))
      | None \<Rightarrow> False)"

definition any_true :: "json option \<Rightarrow> bool" where
  "any_true j \<longleftrightarrow> j = Some (JBoolean True)"

text \<open>A 403 that asks for a human, with the page to go to.\<close>

definition scanInfoRiskControl :: "json option \<Rightarrow> string option" where
  "scanInfoRiskControl x =
     (case any_map x of
        None \<Rightarrow> None
      | Some m \<Rightarrow>
          (let e = any_object (any_field m ''error'');
               inner = (\<lambda>k. case e of Some eo \<Rightarrow> any_field eo k | None \<Rightarrow> None);
               code = (if float_nonzero (inner ''code'') then inner ''code'' else any_field m ''code'')
           in if any_true (inner ''need_login'') \<and> any_string (inner ''redirect'') \<noteq> []
              then Some (any_string (inner ''redirect''))
              else if float_is code 40352
              then Some (if any_string (inner ''redirect'') = [] then any_string (any_field m ''redirect'')
                         else any_string (inner ''redirect''))
              else None))"

definition scanInfoCookieString :: "json \<Rightarrow> string \<Rightarrow> string" where
  "scanInfoCookieString m key =
     (case List.find (\<lambda>p. case cut CHR ''='' (trim_space p) of Some (name, v) \<Rightarrow> name = ''z_c0'' | None \<Rightarrow> False)
             (split_on CHR '';'' (any_string (any_field m key))) of
        Some p \<Rightarrow> (case cut CHR ''='' (trim_space p) of Some (name, v) \<Rightarrow> trim_space v | None \<Rightarrow> [])
      | None \<Rightarrow> [])"

text \<open>\<open>%v\<close> of a number: an integer of at most six digits is written as it is.\<close>

definition float_text :: "zhEnv \<Rightarrow> string \<Rightarrow> string" where
  "float_text env t =
     (case float_lit t of
        None \<Rightarrow> []
      | Some f \<Rightarrow>
          (let v = float_to_int f
           in if \<bar>v\<bar> < 1000000 \<and> float_is (Some (JNum t)) v then itoa v else ze_fmt env t))"

definition error_part :: "zhEnv \<Rightarrow> json option \<Rightarrow> string" where
  "error_part env v =
     (case v of
        Some (JStr t) \<Rightarrow> t
      | Some (JNum t) \<Rightarrow> if float_nonzero v then ''error '' @ float_text env t else []
      | _ \<Rightarrow> [])"

definition scanInfoErrorText :: "zhEnv \<Rightarrow> json \<Rightarrow> string" where
  "scanInfoErrorText env m =
     (let parts = (case any_object (any_field m ''error'') of
                     Some e \<Rightarrow> map (\<lambda>k. error_part env (any_field e k)) [''message'', ''name'', ''code'']
                   | None \<Rightarrow> [])
      in case List.find (\<lambda>t. t \<noteq> []) parts of Some t \<Rightarrow> t | None \<Rightarrow> any_string (any_field m ''message''))"

text \<open>\<open>strings.ToUpper\<close> as far as a comparison with an ASCII word can tell: two letters beyond ASCII have an
  ASCII capital.\<close>

definition upper_rune :: "nat \<times> string \<Rightarrow> string" where
  "upper_rune = (\<lambda>(r, t).
     if 97 \<le> r \<and> r \<le> 122 then [char_of (r - 32)] else if r = 0x131 then ''I'' else if r = 0x17F then ''S'' else t)"

definition upper_text :: "string \<Rightarrow> string" where
  "upper_text t = concat (map upper_rune (runes t))"

definition confirmed_words :: "string list" where
  "confirmed_words = [''CONFIRMED'', ''LOGIN_SUCCESS'', ''SUCCESS'', ''OK'', ''LOGGED_IN'']"

text \<open>\<open>parseScanInfo\<close>: whether the login is done, whether the code was scanned, a cookie of the body, and a failure.\<close>

definition parseScanInfo :: "zhEnv \<Rightarrow> json option \<Rightarrow> bool \<times> bool \<times> string \<times> string" where
  "parseScanInfo env x =
     (case any_map x of
        None \<Rightarrow> (False, False, [], [])
      | Some m \<Rightarrow>
          if float_nonzero (any_field m ''code'') then (False, False, [], scanInfoErrorText env m)
          else if any_object (any_field m ''error'') \<noteq> None \<and> scanInfoErrorText env m \<noteq> []
          then (False, False, [], scanInfoErrorText env m)
          else
            (let scanned = float_is (any_field m ''status'') 1;
                 c1 = scanInfoCookieString m ''cookie'';
                 c2 = (if c1 = [] then scanInfoCookieString m ''cookies'' else c1);
                 zc0 = (if any_string (any_field m ''z_c0'') \<noteq> [] then any_string (any_field m ''z_c0'') else c2);
                 uid = any_field m ''user_id'';
                 login = any_string (any_field m ''login_status'');
                 done = any_string (any_field m ''access_token'') \<noteq> [] \<or> any_string uid \<noteq> [] \<or> float_nonzero uid \<or> zc0 \<noteq> []
                   \<or> (login \<noteq> [] \<and> upper_text (trim_space login) \<in> set confirmed_words)
                   \<or> any_true (any_field m ''success'') \<or> any_true (any_field m ''logged_in'')
             in (done, scanned, zc0, [])))"

section \<open>The end of a login\<close>

text \<open>Closing the channel a second time is a panic.\<close>

definition ui_close :: "zhihu \<Rightarrow> zhihu" where
  "ui_close s =
     (if \<not> ui_hasStop (zh_ui s) then s
      else if ui_stopped (zh_ui s) then s\<lparr>zh_crashed := True\<rparr>
      else s\<lparr>zh_ui := (zh_ui s)\<lparr>ui_stopped := True\<rparr>\<rparr>)"

text \<open>The timer that closes it is set to 1500 nanoseconds, so it is done at once.\<close>

definition zh_finalizeLogin :: "zhEnv \<Rightarrow> string \<Rightarrow> zhihu \<Rightarrow> zhihu" where
  "zh_finalizeLogin env via s =
     (let s1 = s\<lparr>zh_page := (zh_page s)\<lparr>lp_stage := ''done'', lp_user := ws_user (ws s)\<rparr>\<rparr>;
          s2 = zh_saveAuth env (zh_session (ws_loginMethod_update (\<lambda>_. via)) s1)
      in ui_close (s2\<lparr>reLoginNext := None\<rparr>))"

text \<open>A login that got its cookie: the session is verified and kept, or the page shows the failure.\<close>

definition complete_login :: "zhEnv \<Rightarrow> string \<Rightarrow> zhihu \<Rightarrow> zhihu" where
  "complete_login env via s =
     (case verifySession env s of
        (s1, Some e) \<Rightarrow> page_set ''failed'' (zh_errText e) s1
      | (s1, None) \<Rightarrow> zh_finalizeLogin env via (zh_saveAuth env s1))"

section \<open>The QR flow\<close>

definition normalizeQrDeadline :: "int \<Rightarrow> time \<Rightarrow> time" where
  "normalizeQrDeadline e now =
     (if e \<le> 0 then now + seconds 120
      else
        (let t = (if e < unix now then (if e \<le> 120 then now + seconds e else now + wrap64 (e * 1000000))
                  else if e < 10000000000 then e * 1000000000
                  else e * 1000000)
         in if now < t \<and> t < now + hours 24 then t else now + seconds 120))"

definition page_stopped :: "zhEnv \<Rightarrow> zhihu \<Rightarrow> bool" where
  "page_stopped env s \<longleftrightarrow> ui_hasStop (zh_ui s) \<and> ui_stopped (zh_ui s) \<or> ze_stop env (zh_ix s)"

definition qrPollInterval :: duration where "qrPollInterval = seconds 3"

text \<open>The polls, at most \<open>n\<close> of them; \<open>None\<close> when that was not enough.\<close>

fun qr_polls :: "zhEnv \<Rightarrow> nat \<Rightarrow> string \<Rightarrow> time \<Rightarrow> zhihu \<Rightarrow> zhihu option" where
  "qr_polls env 0 token deadline s = None"
| "qr_polls env (Suc n) token deadline s =
     (if page_stopped env s then Some s
      else if deadline < zh_now s
      then Some (if lp_riskURL (zh_page s) \<noteq> [] then page_set ''failed'' zt_risk_text s else page_set ''expired'' [] s)
      else
        (let again = (\<lambda>t. if page_stopped env t then Some t else qr_polls env n token deadline (zh_sleep qrPollInterval t))
         in case qrScanInfo env token s of
              (s1, Inl e) \<Rightarrow> again s1
            | (s1, Inr (b, status)) \<Rightarrow>
                (case (if status = 403 then scanInfoRiskControl (ze_json env b) else None) of
                   Some redirect \<Rightarrow> again (page_setRisk redirect s1)
                 | None \<Rightarrow>
                     (case parseScanInfo env (ze_json env b) of (done, scanned, zc0, failed) \<Rightarrow>
                        if failed \<noteq> [] then Some (page_set ''failed'' failed s1)
                        else if done then
                          (let s2 = page_set ''scanned'' [] (if zc0 \<noteq> [] then zh_session (zC0_update (\<lambda>_. zc0)) s1 else s1)
                           in if zC0 (ws s2) = [] then Some (page_set ''failed'' zt_no_zc0_text s2)
                              else Some (complete_login env ''qr'' s2))
                        else again (if scanned then page_set ''scanned'' [] s1 else s1)))))"

definition zh_runQRFlow :: "zhEnv \<Rightarrow> nat \<Rightarrow> zhihu \<Rightarrow> zhihu option" where
  "zh_runQRFlow env n s =
     (case qrBegin env s of
        (s1, Inl e) \<Rightarrow>
          Some (if e = ZAlreadyLoggedIn then complete_login env ''qr_resume'' s1
                else if qrRiskURL (ws s1) \<noteq> [] then page_setRisk (qrRiskURL (ws s1)) s1
                else page_set ''failed'' (zh_errText e) s1)
      | (s1, Inr (token, link, expires)) \<Rightarrow>
          (let s2 = s1\<lparr>zh_page := (zh_page s1)\<lparr>lp_qrURL := link, lp_stage := ''waiting''\<rparr>\<rparr>
           in qr_polls env n token (normalizeQrDeadline expires (zh_now s2)) s2))"

definition qrStart :: "zhEnv \<Rightarrow> nat \<Rightarrow> zhihu \<Rightarrow> zhihu option" where
  "qrStart env n s = zh_runQRFlow env n (page_reset s)"

section \<open>The cookie form\<close>

datatype zhReplyBody = HttpFail nat string | JsonOk string | JsonError string | JsonCaptcha string

record cookieForm =
  cf_ZC0 :: string
  cf_XSRF :: string
  cf_DC0 :: string

definition dec_cookieForm :: "cookieForm decoder" where
  "dec_cookieForm = dec_struct
     [(''z_c0'', on cf_ZC0 cf_ZC0_update dec_string), (''_xsrf'', on cf_XSRF cf_XSRF_update dec_string),
      (''d_c0'', on cf_DC0 cf_DC0_update dec_string)]"

definition cookieHandler :: "zhEnv \<Rightarrow> string \<Rightarrow> json option \<Rightarrow> zhihu \<Rightarrow> zhihu \<times> zhReplyBody" where
  "cookieHandler env meth x s =
     (if meth \<noteq> ''POST'' then (s, HttpFail 405 ''POST only'')
      else case unmarshal dec_cookieForm \<lparr>cf_ZC0 = [], cf_XSRF = [], cf_DC0 = []\<rparr> x of
        None \<Rightarrow> (s, HttpFail 400 ''invalid json'')
      | Some f \<Rightarrow>
          (let z = trim_space (cf_ZC0 f); x = trim_space (cf_XSRF f)
           in if z = [] \<or> x = [] then (s, JsonError zt_cookie_required)
              else
                (let s1 = zh_session (\<lambda>w. w\<lparr>zC0 := z, xsrf := x\<rparr>) s;
                     s2 = (if cf_DC0 f \<noteq> [] then zh_session (\<lambda>w. w\<lparr>dC0 := trim_space (cf_DC0 f), dC0Real := True\<rparr>) s1 else s1)
                 in case verifySession env s2 of
                      (s3, Some e) \<Rightarrow> (page_set ''failed'' (zh_errText e) s3, JsonError (zt_cookie_invalid @ zh_errText e))
                    | (s3, None) \<Rightarrow>
                        (let s4 = zh_finalizeLogin env ''cookie'' (zh_saveAuth env s3) in (s4, JsonOk (ws_user (ws s4)))))))"

section \<open>The flow ends\<close>

lemma normalizeQrDeadline_bounds: "now < normalizeQrDeadline e now \<and> normalizeQrDeadline e now < now + hours 24"
  by (auto simp: normalizeQrDeadline_def Let_def seconds_def hours_def)

lemma qrScanInfo_clock: "qrScanInfo env token s = (s1, r) \<Longrightarrow> zh_now s \<le> zh_now s1"
  using calm.loginRequest_inv[of env "''GET''" _ None zhihuSigninURL True s s1 r s]
  by (auto simp: qrScanInfo_def quiet_from_def split: if_splits)

lemma page_simps [simp]:
  "zh_now (page_set st msg s) = zh_now s" "zh_now (page_setRisk url s) = zh_now s" "lp_stage (zh_page (page_set st msg s)) = st"
  by (simp_all add: page_set_def page_setRisk_def)

text \<open>Where a flow can leave the page.\<close>

definition qr_ended :: "zhEnv \<Rightarrow> zhihu \<Rightarrow> bool" where
  "qr_ended env s \<longleftrightarrow> page_stopped env s \<or> lp_stage (zh_page s) \<in> {''done'', ''failed'', ''expired'', ''risk''}"

lemma zh_finalizeLogin_stage: "lp_stage (zh_page (zh_finalizeLogin env via s)) = ''done''"
  by (simp add: zh_finalizeLogin_def Let_def ui_close_def zh_saveAuth_def zh_session_def)

lemma complete_login_ended: "qr_ended env (complete_login env via s)"
  by (simp add: complete_login_def qr_ended_def zh_finalizeLogin_stage split: prod.split option.split)

text \<open>The requests of a login leave the page alone.\<close>

interpretation shown: zh_client_inv "\<lambda>s. zh_page s = pg" env for pg env
  by unfold_locales (auto simp: zh_session_def zh_markSessionInvalid_def zh_setAuthStatus_def zh_saveAuth_def Let_def)

lemma qrBegin_page: "qrBegin env s = (s1, r) \<Longrightarrow> zh_page s1 = zh_page s"
  by (auto simp: qrBegin_def refreshLoginContext_def split: prod.splits bool.splits sum.splits
      dest!: shown.primeLoginContext_inv[where pg = "zh_page s"] shown.loginRequest_inv[where pg = "zh_page s"])

text \<open>One poll: the flow ends, or a later state sleeps and polls again.\<close>

definition poll_next :: "zhEnv \<Rightarrow> nat \<Rightarrow> string \<Rightarrow> time \<Rightarrow> zhihu \<Rightarrow> zhihu option \<Rightarrow> bool" where
  "poll_next env n token deadline s x \<longleftrightarrow>
     (\<exists>t. x = Some t \<and> qr_ended env t)
     \<or> (\<exists>t. zh_now s \<le> zh_now t \<and> x = qr_polls env n token deadline (zh_sleep qrPollInterval t))"

lemma poll_next_again:
  "zh_now s \<le> zh_now t \<Longrightarrow>
   poll_next env n token deadline s
     (if page_stopped env t then Some t else qr_polls env n token deadline (zh_sleep qrPollInterval t))"
  by (auto simp: poll_next_def qr_ended_def)

lemma poll_next_end: "qr_ended env t \<Longrightarrow> poll_next env n token deadline s (Some t)"
  by (simp add: poll_next_def)

lemma page_set_ended: "qr_ended env (page_set ''failed'' msg t)" "qr_ended env (page_set ''expired'' msg t)"
  by (simp_all add: qr_ended_def)

lemma stopped_ended: "page_stopped env t \<Longrightarrow> qr_ended env t"
  by (simp add: qr_ended_def)

lemma qr_polls_next:
  assumes "\<not> page_stopped env s" "\<not> deadline < zh_now s"
  shows "poll_next env n token deadline s (qr_polls env (Suc n) token deadline s)"
proof (cases "qrScanInfo env token s")
  case (Pair s1 r)
  note clock = qrScanInfo_clock[OF Pair]
  show ?thesis
  proof (cases r)
    case (Inl e)
    then show ?thesis using assms Pair poll_next_again[OF clock] by simp
  next
    case (Inr a)
    obtain b status where a: "a = (b, status)" by (cases a)
    show ?thesis
    proof (cases "if status = 403 then scanInfoRiskControl (ze_json env b) else None")
      case (Some redirect)
      then show ?thesis using assms Pair Inr a poll_next_again[of s "page_setRisk redirect s1"] clock by simp
    next
      case None
      obtain fin scanned z failed where p: "parseScanInfo env (ze_json env b) = (fin, scanned, z, failed)"
        by (cases "parseScanInfo env (ze_json env b)") auto
      have "poll_next env n token deadline s
              (if page_stopped env t then Some t else qr_polls env n token deadline (zh_sleep qrPollInterval t))"
        if "t = (if scanned then page_set ''scanned'' [] s1 else s1)" for t
        using poll_next_again[of s t] clock that by simp
      then show ?thesis
        using assms Pair Inr a None p by (simp add: Let_def poll_next_end page_set_ended complete_login_ended)
    qed
  qed
qed

lemma qr_polls_late:
  "page_stopped env s \<or> deadline < zh_now s \<Longrightarrow> \<exists>t. qr_polls env (Suc n) token deadline s = Some t \<and> qr_ended env t"
  by (auto simp: page_set_ended stopped_ended)

text \<open>Each repetition takes the interval of the clock, so the polls end after the deadline.\<close>

lemma qr_polls_enough:
  "deadline < zh_now s + qrPollInterval * int n \<Longrightarrow> n < m \<Longrightarrow> \<exists>t. qr_polls env m token deadline s = Some t \<and> qr_ended env t"
proof (induction n arbitrary: m s)
  case 0
  then obtain k where "m = Suc k" by (cases m) auto
  with 0 qr_polls_late show ?case by simp
next
  case (Suc n)
  then obtain k where m: "m = Suc k" and k: "n < k" by (cases m) auto
  show ?case
  proof (cases "page_stopped env s \<or> deadline < zh_now s")
    case True
    then show ?thesis using qr_polls_late m by blast
  next
    case False
    have "\<exists>t'. qr_polls env k token deadline (zh_sleep qrPollInterval t) = Some t' \<and> qr_ended env t'"
      if "zh_now s \<le> zh_now t" for t
      using Suc.IH[of "zh_sleep qrPollInterval t" k] Suc.prems(1) that k
      by (simp add: zh_sleep_def qrPollInterval_def seconds_def algebra_simps)
    then show ?thesis
      using qr_polls_next[of env s deadline k token] False m unfolding poll_next_def by metis
  qed
qed


end
