(* ===== verification/Aes.thy ===== *)
theory Aes
  imports Ciphers
begin

text \<open>
  Bytes as elements of the field with 256 elements, and the block cipher AES-128 (FIPS 197) as a reference
  for the table-driven ciphers of the xhs and zhihu back ends. A state is the list of its 16 bytes, column
  by column. The last lemma is the example of the standard.
\<close>

section \<open>Bytes as field elements\<close>

definition gf2 :: "byte \<Rightarrow> byte" where
  "gf2 s =
     (let x = push_bit 1 (ucast s :: 16 word);
          x = (if x AND 0x100 \<noteq> 0 then x XOR 0x11B else x)
      in u8_of (x AND 0xFF))"

definition gf3 :: "byte \<Rightarrow> byte" where
  "gf3 s = gf2 s XOR s"

lemma byte_exhaust:
  assumes "list_all (\<lambda>n. P (word_of_nat n :: byte)) [0..<256]"
  shows "P b"
proof -
  have "unat b < 256" by simp
  then have "unat b \<in> set [0..<256]" by (simp only: set_upt atLeastLessThan_iff) simp
  then have "P (word_of_nat (unat b))" using assms by (simp only: list_all_iff)
  then show ?thesis by simp
qed

definition gf2_alt :: "byte \<Rightarrow> byte" where
  "gf2_alt s = push_bit 1 s XOR (if bit s 7 then 0x1B else 0)"

lemma gf2_alt: "gf2 s = gf2_alt s"
  by (rule byte_exhaust [where P = "\<lambda>s. gf2 s = gf2_alt s"]) code_simp

lemma gf2_xor [simp]: "gf2 (a XOR b) = gf2 a XOR gf2 b"
  unfolding gf2_alt gf2_alt_def
  by (rule bit_word_eqI) (auto simp: bit_xor_iff bit_push_bit_iff)

definition mul9 :: "byte \<Rightarrow> byte" where
  "mul9 a = gf2 (gf2 (gf2 a)) XOR a"

definition mul11 :: "byte \<Rightarrow> byte" where
  "mul11 a = gf2 (gf2 (gf2 a)) XOR gf2 a XOR a"

definition mul13 :: "byte \<Rightarrow> byte" where
  "mul13 a = gf2 (gf2 (gf2 a)) XOR gf2 (gf2 a) XOR a"

definition mul14 :: "byte \<Rightarrow> byte" where
  "mul14 a = gf2 (gf2 (gf2 a)) XOR gf2 (gf2 a) XOR gf2 a"

lemma xor_cancel2 [simp]: "(a :: byte) XOR a XOR b = b"
  by (simp add: xor.assoc [symmetric])

lemma unmix:
  fixes a b c d :: byte
  defines "p \<equiv> gf2 a XOR gf3 b XOR c XOR d" and "q \<equiv> a XOR gf2 b XOR gf3 c XOR d"
    and "r \<equiv> a XOR b XOR gf2 c XOR gf3 d" and "s \<equiv> gf3 a XOR b XOR c XOR gf2 d"
  shows "mul14 p XOR mul11 q XOR mul13 r XOR mul9 s = a"
    and "mul9 p XOR mul14 q XOR mul11 r XOR mul13 s = b"
    and "mul13 p XOR mul9 q XOR mul14 r XOR mul11 s = c"
    and "mul11 p XOR mul13 q XOR mul9 r XOR mul14 s = d"
  by (simp_all add: p_def q_def r_def s_def mul9_def mul11_def mul13_def mul14_def gf3_def ac_simps)

section \<open>The cipher\<close>

text \<open>The substitution, by its two digits.\<close>

definition aes_sbox :: "byte list list" where
  "aes_sbox = [
    [0x63, 0x7C, 0x77, 0x7B, 0xF2, 0x6B, 0x6F, 0xC5, 0x30, 0x01, 0x67, 0x2B, 0xFE, 0xD7, 0xAB, 0x76],
    [0xCA, 0x82, 0xC9, 0x7D, 0xFA, 0x59, 0x47, 0xF0, 0xAD, 0xD4, 0xA2, 0xAF, 0x9C, 0xA4, 0x72, 0xC0],
    [0xB7, 0xFD, 0x93, 0x26, 0x36, 0x3F, 0xF7, 0xCC, 0x34, 0xA5, 0xE5, 0xF1, 0x71, 0xD8, 0x31, 0x15],
    [0x04, 0xC7, 0x23, 0xC3, 0x18, 0x96, 0x05, 0x9A, 0x07, 0x12, 0x80, 0xE2, 0xEB, 0x27, 0xB2, 0x75],
    [0x09, 0x83, 0x2C, 0x1A, 0x1B, 0x6E, 0x5A, 0xA0, 0x52, 0x3B, 0xD6, 0xB3, 0x29, 0xE3, 0x2F, 0x84],
    [0x53, 0xD1, 0x00, 0xED, 0x20, 0xFC, 0xB1, 0x5B, 0x6A, 0xCB, 0xBE, 0x39, 0x4A, 0x4C, 0x58, 0xCF],
    [0xD0, 0xEF, 0xAA, 0xFB, 0x43, 0x4D, 0x33, 0x85, 0x45, 0xF9, 0x02, 0x7F, 0x50, 0x3C, 0x9F, 0xA8],
    [0x51, 0xA3, 0x40, 0x8F, 0x92, 0x9D, 0x38, 0xF5, 0xBC, 0xB6, 0xDA, 0x21, 0x10, 0xFF, 0xF3, 0xD2],
    [0xCD, 0x0C, 0x13, 0xEC, 0x5F, 0x97, 0x44, 0x17, 0xC4, 0xA7, 0x7E, 0x3D, 0x64, 0x5D, 0x19, 0x73],
    [0x60, 0x81, 0x4F, 0xDC, 0x22, 0x2A, 0x90, 0x88, 0x46, 0xEE, 0xB8, 0x14, 0xDE, 0x5E, 0x0B, 0xDB],
    [0xE0, 0x32, 0x3A, 0x0A, 0x49, 0x06, 0x24, 0x5C, 0xC2, 0xD3, 0xAC, 0x62, 0x91, 0x95, 0xE4, 0x79],
    [0xE7, 0xC8, 0x37, 0x6D, 0x8D, 0xD5, 0x4E, 0xA9, 0x6C, 0x56, 0xF4, 0xEA, 0x65, 0x7A, 0xAE, 0x08],
    [0xBA, 0x78, 0x25, 0x2E, 0x1C, 0xA6, 0xB4, 0xC6, 0xE8, 0xDD, 0x74, 0x1F, 0x4B, 0xBD, 0x8B, 0x8A],
    [0x70, 0x3E, 0xB5, 0x66, 0x48, 0x03, 0xF6, 0x0E, 0x61, 0x35, 0x57, 0xB9, 0x86, 0xC1, 0x1D, 0x9E],
    [0xE1, 0xF8, 0x98, 0x11, 0x69, 0xD9, 0x8E, 0x94, 0x9B, 0x1E, 0x87, 0xE9, 0xCE, 0x55, 0x28, 0xDF],
    [0x8C, 0xA1, 0x89, 0x0D, 0xBF, 0xE6, 0x42, 0x68, 0x41, 0x99, 0x2D, 0x0F, 0xB0, 0x54, 0xBB, 0x16]]"

definition aes_S :: "byte \<Rightarrow> byte" where
  "aes_S b = aes_sbox ! unat (drop_bit 4 b) ! unat (b AND 15)"

definition sub_bytes :: "bytes \<Rightarrow> bytes" where
  "sub_bytes st = map aes_S st"

definition shift_rows :: "bytes \<Rightarrow> bytes" where
  "shift_rows st = map (\<lambda>i. st ! ((i + 4 * (i mod 4)) mod 16)) [0..<16]"

text \<open>A column times the matrix with the rows 2 3 1 1, 1 2 3 1, 1 1 2 3 and 3 1 1 2.\<close>

definition mix_column :: "byte \<Rightarrow> byte \<Rightarrow> byte \<Rightarrow> byte \<Rightarrow> bytes" where
  "mix_column a b c d =
     [gf2 a XOR gf3 b XOR c XOR d, a XOR gf2 b XOR gf3 c XOR d, a XOR b XOR gf2 c XOR gf3 d, gf3 a XOR b XOR c XOR gf2 d]"

definition mix_columns :: "bytes \<Rightarrow> bytes" where
  "mix_columns st = concat (map (\<lambda>c. mix_column (st ! (4 * c)) (st ! (4 * c + 1)) (st ! (4 * c + 2)) (st ! (4 * c + 3))) [0..<4])"

definition aes_round :: "bytes \<Rightarrow> bytes \<Rightarrow> bytes" where
  "aes_round k st = xor_bytes (mix_columns (shift_rows (sub_bytes st))) k"

text \<open>The key schedule: each round key comes from the one before and a constant.\<close>

definition next_key :: "byte \<Rightarrow> bytes \<Rightarrow> bytes" where
  "next_key rc k =
     (let w0 = xor_bytes (take 4 k) [aes_S (k ! 13) XOR rc, aes_S (k ! 14), aes_S (k ! 15), aes_S (k ! 12)];
          w1 = xor_bytes (take 4 (drop 4 k)) w0;
          w2 = xor_bytes (take 4 (drop 8 k)) w1;
          w3 = xor_bytes (take 4 (drop 12 k)) w2
      in w0 @ w1 @ w2 @ w3)"

fun aes_keys :: "byte list \<Rightarrow> bytes \<Rightarrow> bytes list" where
  "aes_keys [] k = [k]"
| "aes_keys (rc # rcs) k = k # aes_keys rcs (next_key rc k)"

definition aes_rcon :: "byte list" where
  "aes_rcon = [0x01, 0x02, 0x04, 0x08, 0x10, 0x20, 0x40, 0x80, 0x1B, 0x36]"

definition aes_rounds :: "bytes list \<Rightarrow> bytes \<Rightarrow> bytes" where
  "aes_rounds ks block =
     xor_bytes (shift_rows (sub_bytes (fold aes_round (butlast (tl ks)) (xor_bytes block (hd ks))))) (last ks)"

definition aes128 :: "bytes \<Rightarrow> bytes \<Rightarrow> bytes" where
  "aes128 key block = aes_rounds (aes_keys aes_rcon key) block"

text \<open>Shifting is quicker to evaluate.\<close>

declare gf2_alt [code]

text \<open>A list of round keys that follow one another is the schedule of the first.\<close>

fun is_schedule :: "byte list \<Rightarrow> bytes list \<Rightarrow> bool" where
  "is_schedule [] ks \<longleftrightarrow> length ks = 1"
| "is_schedule (rc # rcs) (k # k1 # ks) \<longleftrightarrow> next_key rc k = k1 \<and> is_schedule rcs (k1 # ks)"
| "is_schedule _ _ \<longleftrightarrow> False"

lemma aes_keys_schedule: "is_schedule rcs (k # ks) \<Longrightarrow> aes_keys rcs k = k # ks"
  by (induction rcs "k # ks" arbitrary: k ks rule: is_schedule.induct) auto

definition example_keys :: "bytes list" where
  "example_keys =
    [
     [0x00, 0x01, 0x02, 0x03, 0x04, 0x05, 0x06, 0x07, 0x08, 0x09, 0x0A, 0x0B, 0x0C, 0x0D, 0x0E, 0x0F],
     [0xD6, 0xAA, 0x74, 0xFD, 0xD2, 0xAF, 0x72, 0xFA, 0xDA, 0xA6, 0x78, 0xF1, 0xD6, 0xAB, 0x76, 0xFE],
     [0xB6, 0x92, 0xCF, 0x0B, 0x64, 0x3D, 0xBD, 0xF1, 0xBE, 0x9B, 0xC5, 0x00, 0x68, 0x30, 0xB3, 0xFE],
     [0xB6, 0xFF, 0x74, 0x4E, 0xD2, 0xC2, 0xC9, 0xBF, 0x6C, 0x59, 0x0C, 0xBF, 0x04, 0x69, 0xBF, 0x41],
     [0x47, 0xF7, 0xF7, 0xBC, 0x95, 0x35, 0x3E, 0x03, 0xF9, 0x6C, 0x32, 0xBC, 0xFD, 0x05, 0x8D, 0xFD],
     [0x3C, 0xAA, 0xA3, 0xE8, 0xA9, 0x9F, 0x9D, 0xEB, 0x50, 0xF3, 0xAF, 0x57, 0xAD, 0xF6, 0x22, 0xAA],
     [0x5E, 0x39, 0x0F, 0x7D, 0xF7, 0xA6, 0x92, 0x96, 0xA7, 0x55, 0x3D, 0xC1, 0x0A, 0xA3, 0x1F, 0x6B],
     [0x14, 0xF9, 0x70, 0x1A, 0xE3, 0x5F, 0xE2, 0x8C, 0x44, 0x0A, 0xDF, 0x4D, 0x4E, 0xA9, 0xC0, 0x26],
     [0x47, 0x43, 0x87, 0x35, 0xA4, 0x1C, 0x65, 0xB9, 0xE0, 0x16, 0xBA, 0xF4, 0xAE, 0xBF, 0x7A, 0xD2],
     [0x54, 0x99, 0x32, 0xD1, 0xF0, 0x85, 0x57, 0x68, 0x10, 0x93, 0xED, 0x9C, 0xBE, 0x2C, 0x97, 0x4E],
     [0x13, 0x11, 0x1D, 0x7F, 0xE3, 0x94, 0x4A, 0x17, 0xF3, 0x07, 0xA7, 0x8B, 0x4D, 0x2B, 0x30, 0xC5]]"

lemma aes128_example:
  "aes128 (hd example_keys)
     [0x00, 0x11, 0x22, 0x33, 0x44, 0x55, 0x66, 0x77, 0x88, 0x99, 0xAA, 0xBB, 0xCC, 0xDD, 0xEE, 0xFF] =
     [0x69, 0xC4, 0xE0, 0xD8, 0x6A, 0x7B, 0x04, 0x30, 0xD8, 0xCD, 0xB7, 0x80, 0x70, 0xB4, 0xC5, 0x5A]"
proof -
  have "is_schedule aes_rcon example_keys" by code_simp
  then have "aes_keys aes_rcon (hd example_keys) = example_keys"
    using aes_keys_schedule [of aes_rcon "hd example_keys" "tl example_keys"] by (simp add: example_keys_def)
  moreover have "aes_rounds example_keys
     [0x00, 0x11, 0x22, 0x33, 0x44, 0x55, 0x66, 0x77, 0x88, 0x99, 0xAA, 0xBB, 0xCC, 0xDD, 0xEE, 0xFF] =
     [0x69, 0xC4, 0xE0, 0xD8, 0x6A, 0x7B, 0x04, 0x30, 0xD8, 0xCD, 0xB7, 0x80, 0x70, 0xB4, 0xC5, 0x5A]"
    by code_simp
  ultimately show ?thesis by (simp only: aes128_def)
qed

end
