(* ===== verification/Xhs_Xrap.thy ===== *)
theory Xhs_Xrap
  imports Aes Digest
begin

text \<open>
  The x-rap-param generator of the xhs back end (\<open>src/fbprotocols/xhs/xrap.go\<close>): the table-driven
  block cipher, the TLV body, the envelope, xxHash32 and the random draws. The gzip writer of the
  standard library is an argument, as are the results of the reads of \<open>crypto/rand\<close>.

  The cipher is related to its textbook form (byte substitution, row shift, column mix, round
  key) and inverted, so an envelope can be opened again.
\<close>

section \<open>Tables\<close>

definition xrapRoundKeys :: "u32 list list" where
  "xrapRoundKeys =
    [[0x6B714931, 0x44546377, 0x4B583930, 0x5A744179],
     [0x89314C98, 0xCD652FEF, 0x863D16DF, 0xDC4957A6],
     [0xC205330C, 0x0F601CE3, 0x895D0A3C, 0x55145D9A],
     [0xD205006E, 0xDD651C8D, 0x543816B1, 0x012C4B2B],
     [0x770C2B6F, 0xAA6937E2, 0xFE512153, 0xFF7D6A78],
     [0x7866FBF4, 0xD20FCC16, 0x2C5EED45, 0xD323873D],
     [0x90E9C67E, 0x42E60A68, 0x6EB8E72D, 0xBD9B6010],
     [0xE9C52BEE, 0xAB232186, 0xC59BC6AB, 0x7800A6BB],
     [0x13BA9A3E, 0xB899BBB8, 0x7D027D13, 0x0502DBA8],
     [0x50613270, 0xE8F889C8, 0x95FAF4DB, 0x90F82F73]]"

definition xrapLastRoundKey :: "u32 list" where
  "xrapLastRoundKey = [0xF396B44F, 0x1B6E3D87, 0x8E94C95C, 0x1E6CE62F]"

definition xrapSBox :: "byte list" where
  "xrapSBox = [
    0x7A, 0x01, 0x58, 0xE0, 0x50, 0x4E, 0x02, 0x79, 0x1D, 0x4B, 0x53, 0xDA, 0x6B, 0x48, 0xD4, 0x52,
    0xED, 0x77, 0x12, 0x21, 0x14, 0x15, 0xEC, 0x10, 0x18, 0xE5, 0xB9, 0xF1, 0x0C, 0x08, 0xFC, 0x7D,
    0xF9, 0xCD, 0xB5, 0xC8, 0xE6, 0x37, 0x26, 0x87, 0x56, 0xBA, 0xB8, 0x2B, 0xAD, 0xF0, 0x68, 0xF7,
    0x8B, 0x8D, 0xD3, 0x5E, 0x36, 0x4D, 0x2E, 0x92, 0x31, 0x82, 0xF2, 0x29, 0x70, 0x3D, 0x2D, 0xD7,
    0xB6, 0x40, 0xB2, 0x43, 0x44, 0x80, 0x78, 0xD2, 0x0D, 0x49, 0x4A, 0x09, 0x63, 0x6C, 0x07, 0x3A,
    0x9E, 0xD5, 0x06, 0xC6, 0xE1, 0x62, 0xF4, 0x34, 0x24, 0x59, 0xA9, 0x57, 0x2A, 0x00, 0x3E, 0x17,
    0x2C, 0x0A, 0x1A, 0x42, 0xFA, 0x93, 0xBE, 0xDC, 0xF5, 0xB3, 0x6A, 0x13, 0xE8, 0x03, 0xC7, 0x97,
    0xBB, 0x73, 0x76, 0x86, 0xE3, 0x46, 0x72, 0x47, 0xD0, 0x05, 0x4C, 0x38, 0x7C, 0x1F, 0x81, 0xAB,
    0x75, 0x51, 0xEB, 0xF3, 0x32, 0x74, 0x11, 0x8F, 0x84, 0x89, 0x9C, 0x71, 0x22, 0x7E, 0x9D, 0xCF,
    0x3F, 0x91, 0x69, 0x65, 0x3C, 0x6D, 0x96, 0xA2, 0x98, 0x99, 0x33, 0x39, 0x9A, 0xCA, 0xC3, 0x9F,
    0xA0, 0xBC, 0xE4, 0xA3, 0xA4, 0x54, 0x7F, 0xA7, 0xA8, 0x04, 0x6F, 0x5D, 0xAC, 0xB7, 0x27, 0xAF,
    0xB0, 0x28, 0x41, 0xAE, 0xB4, 0x6E, 0x0B, 0x1B, 0xDF, 0x8E, 0x30, 0xB1, 0xFE, 0x90, 0x61, 0x60,
    0xC0, 0xCB, 0x5C, 0x0E, 0xEF, 0x16, 0x83, 0xEA, 0x20, 0xE9, 0xC9, 0x55, 0xC4, 0x45, 0x85, 0xCC,
    0x1E, 0xAA, 0x67, 0x8A, 0x7B, 0x35, 0xD6, 0x19, 0xD8, 0xD9, 0xC2, 0xDB, 0x94, 0xDD, 0x1C, 0xDE,
    0xA6, 0xFF, 0xF8, 0xBF, 0x5B, 0x5A, 0x0F, 0xE7, 0xC1, 0xBD, 0xD1, 0x66, 0xC5, 0x25, 0xEE, 0x8C,
    0xE2, 0x5F, 0x88, 0xA1, 0x3B, 0xA5, 0xF6, 0xCE, 0x95, 0x2F, 0x64, 0x23, 0xFB, 0xFD, 0x4F, 0x9B]"

definition interactionTraceHex :: string where
  "interactionTraceHex = ''0002000200004700000000000001ffd9ffa8005c23fff1ffff001501ff90fff9000022fff2ffff001501ffb800770061a5ffe3ffff002a01fffcffe70000f0ffe4ffff002a01ffd30000003e01ffd40000003e01ffc8ffff005301ffbdfffa006901ffbefffb006901ffb1fff4007d01ffa6ffee009301ffa8ffef009301ff9effe900a801ff96ffe600be01ff97ffe600be01ff93ffe500d301ff92ffe500ea01ff92ffe4010501ff92ffe3011b01ff92ffe402d101ff93ffe502f201ff94ffe6040501''"

definition envSnapshotHex :: string where
  "envSnapshotHex = ''000000010000000000000000fffeffff00000000000000390001ffff00bc00000000006e00020001013400000000012f00000002011a00000000016100000000019f0000000002470000000002790000000002b1''"

text \<open>\<open>mustHexBytes\<close> panics on a bad constant (\<open>None\<close>); neither constant is one.\<close>

definition mustHexBytes :: "string \<Rightarrow> bytes option" where
  "mustHexBytes s = hex_decode s"

definition xrapDefaultInteractionTrace :: bytes where
  "xrapDefaultInteractionTrace = the (mustHexBytes interactionTraceHex)"

definition xrapDefaultEnvSnapshot :: bytes where
  "xrapDefaultEnvSnapshot = the (mustHexBytes envSnapshotHex)"

section \<open>The block cipher\<close>

definition buildXrapLUT :: "u32 list list" where
  "buildXrapLUT =
     [map (\<lambda>s. push_bit 24 (ucast (gf2 s)) OR push_bit 16 (ucast s) OR push_bit 8 (ucast s) OR ucast (gf3 s)) xrapSBox,
      map (\<lambda>s. push_bit 24 (ucast (gf3 s)) OR push_bit 16 (ucast (gf2 s)) OR push_bit 8 (ucast s) OR ucast s) xrapSBox,
      map (\<lambda>s. push_bit 24 (ucast s) OR push_bit 16 (ucast (gf3 s)) OR push_bit 8 (ucast (gf2 s)) OR ucast s) xrapSBox,
      map (\<lambda>s. push_bit 24 (ucast s) OR push_bit 16 (ucast s) OR push_bit 8 (ucast (gf3 s)) OR ucast (gf2 s)) xrapSBox]"

definition lut :: "nat \<Rightarrow> u32 \<Rightarrow> u32" where
  "lut t i = buildXrapLUT ! t ! unat (u8_of i)"

type_synonym words4 = "u32 \<times> u32 \<times> u32 \<times> u32"

definition xrapRound :: "u32 list \<Rightarrow> words4 \<Rightarrow> words4" where
  "xrapRound rk = (\<lambda>(s0, s1, s2, s3).
     (lut 0 (drop_bit 24 s0) XOR lut 1 (drop_bit 16 s1) XOR lut 2 (drop_bit 8 s2) XOR lut 3 s3 XOR rk ! 0,
      lut 0 (drop_bit 24 s1) XOR lut 1 (drop_bit 16 s2) XOR lut 2 (drop_bit 8 s3) XOR lut 3 s0 XOR rk ! 1,
      lut 0 (drop_bit 24 s2) XOR lut 1 (drop_bit 16 s3) XOR lut 2 (drop_bit 8 s0) XOR lut 3 s1 XOR rk ! 2,
      lut 0 (drop_bit 24 s3) XOR lut 1 (drop_bit 16 s0) XOR lut 2 (drop_bit 8 s1) XOR lut 3 s2 XOR rk ! 3))"

definition u32_at :: "bytes \<Rightarrow> nat \<Rightarrow> u32" where
  "u32_at b i = u32_be (b ! i) (b ! (i + 1)) (b ! (i + 2)) (b ! (i + 3))"

definition lastBytes :: bytes where
  "lastBytes = concat (map be32_bytes xrapLastRoundKey)"

definition xrapFinal :: "words4 \<Rightarrow> bytes" where
  "xrapFinal st =
     (case st of (s0, s1, s2, s3) \<Rightarrow>
        concat (map (\<lambda>row. map (\<lambda>col.
            xrapSBox ! unat (u8_of (drop_bit (24 - 8 * col) ([s0, s1, s2, s3] ! ((row + col) mod 4))))
              XOR lastBytes ! (4 * row + col)) [0..<4]) [0..<4]))"

definition xrapEncryptBlock16 :: "bytes \<Rightarrow> bytes" where
  "xrapEncryptBlock16 block =
     (let padded = take 16 block @ replicate (16 - length block) 0;
          k = xrapRoundKeys ! 0;
          st = (u32_at padded 0 XOR k ! 0, u32_at padded 4 XOR k ! 1,
                u32_at padded 8 XOR k ! 2, u32_at padded 12 XOR k ! 3)
      in xrapFinal (fold (\<lambda>r. xrapRound (xrapRoundKeys ! r)) [1..<10] st))"

fun xrapEncryptBlocks :: "bytes \<Rightarrow> bytes" where
  "xrapEncryptBlocks src =
     (if src = [] then [] else xrapEncryptBlock16 (take 16 src) @ xrapEncryptBlocks (drop 16 src))"

declare xrapEncryptBlocks.simps [simp del]

text \<open>\<open>key[:16]\<close> panics on a shorter key.\<close>

definition xrapEncryptSessionKey :: "bytes \<Rightarrow> bytes option" where
  "xrapEncryptSessionKey key =
     (if length key < 16 then None
      else Some (xrapEncryptBlock16 (take 16 key) @ be32_bytes 16))"

section \<open>The body\<close>

definition xrapFieldByte :: "16 word \<Rightarrow> byte \<Rightarrow> bytes" where
  "xrapFieldByte tag val = be16_bytes tag @ [val]"

definition xrapFieldU32 :: "16 word \<Rightarrow> u32 \<Rightarrow> bytes" where
  "xrapFieldU32 tag val = be16_bytes tag @ be32_bytes val"

definition xrapFieldU64 :: "16 word \<Rightarrow> u64 \<Rightarrow> bytes" where
  "xrapFieldU64 tag val = be16_bytes tag @ be64_bytes val"

definition xrapFieldBlob :: "16 word \<Rightarrow> bytes \<Rightarrow> bytes" where
  "xrapFieldBlob tag data = be16_bytes tag @ be32_bytes (word_of_nat (length data)) @ data"

record xrapBodyInput =
  xbApi :: string
  xbBody :: string
  sessionKey :: bytes
  xbTimestampMs :: int
  nonce :: u32
  obfuscationByte :: byte
  interactionTrace :: bytes
  environmentSnap :: bytes

definition max64 :: "int \<Rightarrow> int \<Rightarrow> int" where
  "max64 a b = (if b < a then a else b)"

text \<open>\<open>int64\<close> subtraction wraps.\<close>

definition sub64 :: "int \<Rightarrow> int \<Rightarrow> int" where
  "sub64 a b = sint (word_of_int (a - b) :: u64)"

definition zero_fields :: "nat \<Rightarrow> nat \<Rightarrow> bytes" where
  "zero_fields lo hi = concat (map (\<lambda>t. xrapFieldByte (word_of_nat t) 0) [lo..<Suc hi])"

section \<open>xxHash32\<close>

definition xxP1 :: u32 where "xxP1 = 0x9E3779B1"
definition xxP2 :: u32 where "xxP2 = 0x85EBCA77"
definition xxP3 :: u32 where "xxP3 = 0xC2B2AE3D"
definition xxP4 :: u32 where "xxP4 = 0x27D4EB2F"
definition xxP5 :: u32 where "xxP5 = 0x165667B1"

definition xxhRotl :: "u32 \<Rightarrow> nat \<Rightarrow> u32" where
  "xxhRotl v shift = push_bit shift v OR drop_bit (32 - shift) v"

definition xxLane :: "u32 \<Rightarrow> u32 \<Rightarrow> u32" where
  "xxLane acc word = xxhRotl (acc + word * xxP2) 13 * xxP1"

text \<open>
  The striped part runs on the length as an \<open>uint32\<close>; \<open>xxStripes n\<close> consumes \<open>n\<close> stripes of
  four words from the front of the data.
\<close>

definition xxStripe :: "words4 \<Rightarrow> u32 list \<Rightarrow> words4" where
  "xxStripe acc ws =
     (case acc of (a1, a2, a3, a4) \<Rightarrow>
        (xxLane a1 (ws ! 0), xxLane a2 (ws ! 1), xxLane a3 (ws ! 2), xxLane a4 (ws ! 3)))"

definition xxStripes :: "nat \<Rightarrow> bytes \<Rightarrow> words4 \<Rightarrow> words4 \<times> bytes" where
  "xxStripes n data acc =
     fold (\<lambda>_ (acc, d). (xxStripe acc (le_words (take 16 d)), drop 16 d)) [0..<n] (acc, data)"

fun xxWords :: "bytes \<Rightarrow> u32 \<Rightarrow> u32" where
  "xxWords (a # b # c # d # r) digest =
     xxWords r (xxhRotl (digest + u32_le a b c d * xxP3) 17 * xxP4)"
| "xxWords r digest = fold (\<lambda>b dg. xxhRotl (dg + ucast b * xxP5) 11 * xxP1) r digest"

definition xxAvalanche :: "u32 \<Rightarrow> u32" where
  "xxAvalanche d =
     (let d = d XOR drop_bit 15 d; d = d * xxP2; d = d XOR drop_bit 13 d; d = d * xxP3
      in d XOR drop_bit 16 d)"

definition xxh32 :: "bytes \<Rightarrow> u32 \<Rightarrow> u32" where
  "xxh32 data sd =
     (let len = word_of_nat (length data) :: u32;
          (digest, rest) =
            (if 16 \<le> len then
               (case xxStripes (unat (len - 16) div 16 + 1) data
                       (sd + xxP1 + xxP2, sd + xxP2, sd, sd - xxP1) of
                  ((a1, a2, a3, a4), rest) \<Rightarrow>
                    (xxhRotl a1 1 + xxhRotl a2 7 + xxhRotl a3 12 + xxhRotl a4 18, rest))
             else (sd + xxP5, data))
      in xxAvalanche (xxWords rest (digest + len)))"

section \<open>The TLV body and the envelope\<close>

definition xrapBodyFields :: "xrapBodyInput \<Rightarrow> bytes" where
  "xrapBodyFields inp =
     (let hashInput = bytes_of (xbApi inp) @ bytes_of (xbBody inp); ts = xbTimestampMs inp in
      xrapFieldU64 0x03E8 (word_of_int ts) @ xrapFieldU32 0x03E9 (nonce inp)
      @ xrapFieldBlob 0x03EA (sessionKey inp) @ xrapFieldU32 0x03EB (xxh32 hashInput 0)
      @ zero_fields 1051 1065 @ xrapFieldByte 1070 0 @ zero_fields 1066 1069 @ xrapFieldU32 1100 0
      @ zero_fields 1071 1073
      @ xrapFieldU32 1075 0x564 @ xrapFieldU32 1076 0x2C
      @ xrapFieldU64 1077 (word_of_int (max64 0 (sub64 ts 0x434)))
      @ xrapFieldBlob 1078 (interactionTrace inp)
      @ xrapFieldU32 1082 0 @ xrapFieldU32 1084 0 @ xrapFieldU32 1085 0 @ xrapFieldU32 1086 100
      @ xrapFieldU64 1087 (word_of_int (max64 0 (sub64 ts 0x2D7)))
      @ xrapFieldBlob 1088 (environmentSnap inp)
      @ xrapFieldU32 1090 0 @ xrapFieldU32 1097 0 @ xrapFieldU32 1092 0x566 @ xrapFieldU32 1094 0x519
      @ xrapFieldU64 1095 (word_of_int (max64 0 (sub64 ts 0x218C)))
      @ xrapFieldU32 1093 0 @ xrapFieldByte 1096 0 @ xrapFieldBlob 1091 [0x00, 0x00, 0xFF, 0xFF]
      @ zero_fields 1151 1156)"

definition xrapBuildBodyStructure :: "xrapBodyInput \<Rightarrow> bytes" where
  "xrapBuildBodyStructure inp =
     (let b = xrapBodyFields inp
      in take 16 b @ map (\<lambda>x. x XOR obfuscationByte inp) (drop 16 b))"

definition xrapCyclicXor :: "bytes \<Rightarrow> bytes \<Rightarrow> bytes option" where
  "xrapCyclicXor data key =
     (if key = [] \<and> data \<noteq> [] then None
      else Some (map (\<lambda>i. data ! i XOR key ! (i mod length key)) [0..<length data]))"

definition xrapSDKVersion :: u32 where "xrapSDKVersion = 10300"

definition u32beBytes :: "u32 \<Rightarrow> bytes" where
  "u32beBytes v = be32_bytes v"

definition xrapPackEnvelope :: "bytes \<Rightarrow> bytes \<Rightarrow> string \<Rightarrow> u32 \<Rightarrow> u32 \<Rightarrow> string option" where
  "xrapPackEnvelope compressed encKey salt encTime sdkVersion =
     (case (xrapCyclicXor compressed encKey, xrapEncryptSessionKey encKey) of
        (Some xored, Some key) \<Rightarrow>
          (let cipherBody = xrapEncryptBlocks xored @ u32beBytes (word_of_nat (length compressed));
               content = bytes_of salt @ key @ cipherBody;
               header = [0x07, 0x24, 0x01, word_of_nat (length salt)] @ u32beBytes 1 @ u32beBytes 20
                 @ u32beBytes (word_of_nat (length cipherBody)) @ u32beBytes (xxh32 content 0)
                 @ u32beBytes sdkVersion @ u32beBytes encTime @ replicate 8 0
           in Some (b64_encode (header @ content)))
      | _ \<Rightarrow> None)"

section \<open>Random draws and the parameter\<close>

text \<open>
  The reads of \<open>crypto/rand\<close> in order: an error, or the bytes read as a big-endian integer
  (of which a four-byte read uses 32 bits).
\<close>

record Rand =
  reads :: "nat \<Rightarrow> error + u64"
  readPos :: nat

definition readRand :: "Rand \<Rightarrow> (error + u64) \<times> Rand" where
  "readRand r = (reads r (readPos r), r\<lparr>readPos := Suc (readPos r)\<rparr>)"

definition randUint32 :: "Rand \<Rightarrow> (error + u32) \<times> Rand" where
  "randUint32 r = (case readRand r of (Inl e, r') \<Rightarrow> (Inl e, r') | (Inr v, r') \<Rightarrow> (Inr (ucast v), r'))"

definition xrapRandInt :: "int \<Rightarrow> int \<Rightarrow> Rand \<Rightarrow> (error + int) \<times> Rand" where
  "xrapRandInt lo hi r =
     (if hi \<le> lo then (Inr lo, r)
      else case readRand r of
        (Inl e, r') \<Rightarrow> (Inl e, r')
      | (Inr v, r') \<Rightarrow> (Inr (int (unat (ucast v mod (word_of_int (hi - lo) :: u32))) + lo), r'))"

definition randByteRange :: "int \<Rightarrow> int \<Rightarrow> Rand \<Rightarrow> (error + byte) \<times> Rand" where
  "randByteRange lo hi r =
     (case xrapRandInt lo hi r of (Inl e, r') \<Rightarrow> (Inl e, r') | (Inr n, r') \<Rightarrow> (Inr (word_of_int n), r'))"

definition xrapASCIIAlphabet :: string where
  "xrapASCIIAlphabet = ''abcdefghijklmnopqrstuvwxyzABCDEFGHIJKLMNOPQRSTUVWXYZ0123456789''"

fun randomAlnumBytes :: "nat \<Rightarrow> Rand \<Rightarrow> (error + bytes) \<times> Rand" where
  "randomAlnumBytes 0 r = (Inr [], r)"
| "randomAlnumBytes (Suc n) r =
     (case readRand r of
        (Inl e, r') \<Rightarrow> (Inl e, r')
      | (Inr v, r') \<Rightarrow>
          (case randomAlnumBytes n r' of
             (Inl e, r'') \<Rightarrow> (Inl e, r'')
           | (Inr bs, r'') \<Rightarrow>
               (Inr (byte_of (xrapASCIIAlphabet ! unat (v mod word_of_nat (length xrapASCIIAlphabet))) # bs), r'')))"

record xrapOptions =
  oApi :: string
  oBody :: string
  oEncKey :: bytes
  oSalt :: string
  oSessionKey :: bytes
  oTimestampMs :: int
  oNonce :: u32
  oMask :: byte
  oTracePayload :: bytes
  oEnvPayload :: bytes
  oGzipMtime :: int
  oEncTime :: u32
  oSdkVersion :: u32

text \<open>\<open>gz level mtime raw\<close> is the output of \<open>compress/gzip\<close>, or its error.\<close>

type_synonym gzipper = "int \<Rightarrow> int \<Rightarrow> bytes \<Rightarrow> error + bytes"

definition xrapCompressBody :: "gzipper \<Rightarrow> bytes \<Rightarrow> int \<Rightarrow> int \<Rightarrow> error + bytes" where
  "xrapCompressBody gz raw mtime level =
     (case gz level mtime raw of
        Inl e \<Rightarrow> Inl e
      | Inr out \<Rightarrow> Inr (if 10 \<le> length out then out[9 := 0x03] else out))"

text \<open>A draw that is only made when no value was given.\<close>

definition drawUnless :: "bool \<Rightarrow> 'a \<Rightarrow> (Rand \<Rightarrow> (error + 'a) \<times> Rand) \<Rightarrow> Rand \<Rightarrow> (error + 'a) \<times> Rand" where
  "drawUnless given v draw r = (if given then (Inr v, r) else draw r)"

definition xrapInput :: "int \<Rightarrow> xrapOptions \<Rightarrow> u32 \<Rightarrow> byte \<Rightarrow> bytes \<Rightarrow> xrapBodyInput" where
  "xrapInput nowMs opts n msk sk =
     \<lparr>xbApi = oApi opts, xbBody = oBody opts, sessionKey = sk,
      xbTimestampMs = (if oTimestampMs opts = 0 then nowMs else oTimestampMs opts),
      nonce = n, obfuscationByte = msk,
      interactionTrace = (if oTracePayload opts = [] then xrapDefaultInteractionTrace else oTracePayload opts),
      environmentSnap = (if oEnvPayload opts = [] then xrapDefaultEnvSnapshot else oEnvPayload opts)\<rparr>"

definition drawSalt :: "Rand \<Rightarrow> (error + string) \<times> Rand" where
  "drawSalt r =
     (case xrapRandInt 4 7 r of
        (Inl e, r') \<Rightarrow> (Inl e, r')
      | (Inr n, r') \<Rightarrow>
          (case randomAlnumBytes (nat n) r' of
             (Inl e, r'') \<Rightarrow> (Inl e, r'') | (Inr b, r'') \<Rightarrow> (Inr (string_of b), r'')))"

definition drawEncTime :: "Rand \<Rightarrow> (error + u32) \<times> Rand" where
  "drawEncTime r =
     (case xrapRandInt 60 241 r of
        (Inl e, r') \<Rightarrow> (Inl e, r') | (Inr n, r') \<Rightarrow> (Inr (word_of_int n), r'))"

text \<open>\<open>None\<close> is a panic (a key of the caller shorter than 16 bytes).\<close>

definition xrapParam :: "gzipper \<Rightarrow> int \<Rightarrow> int \<Rightarrow> xrapOptions \<Rightarrow> Rand \<Rightarrow> (error + string) option \<times> Rand"
where
  "xrapParam gz nowMs nowS opts r0 =
     (case drawUnless (oNonce opts \<noteq> 0) (oNonce opts) randUint32 r0 of
        (Inl e, r1) \<Rightarrow> (Some (Inl e), r1)
      | (Inr n, r1) \<Rightarrow>
     (case drawUnless (oMask opts \<noteq> 0) (oMask opts) (randByteRange 1 256) r1 of
        (Inl e, r2) \<Rightarrow> (Some (Inl e), r2)
      | (Inr msk, r2) \<Rightarrow>
     (case drawUnless (oSessionKey opts \<noteq> []) (oSessionKey opts) (randomAlnumBytes 16) r2 of
        (Inl e, r3) \<Rightarrow> (Some (Inl e), r3)
      | (Inr sk, r3) \<Rightarrow>
     (let raw = xrapBuildBodyStructure (xrapInput nowMs opts n msk sk);
          mtime = (if oGzipMtime opts = 0 then nowS else oGzipMtime opts)
      in case xrapCompressBody gz raw mtime 6 of
        Inl e \<Rightarrow> (Some (Inl e), r3)
      | Inr compressed \<Rightarrow>
     (case drawUnless (oEncKey opts \<noteq> []) (oEncKey opts) (randomAlnumBytes 16) r3 of
        (Inl e, r4) \<Rightarrow> (Some (Inl e), r4)
      | (Inr encKey, r4) \<Rightarrow>
     (case drawUnless (oSalt opts \<noteq> []) (oSalt opts) drawSalt r4 of
        (Inl e, r5) \<Rightarrow> (Some (Inl e), r5)
      | (Inr salt, r5) \<Rightarrow>
     (case drawUnless (oEncTime opts \<noteq> 0) (oEncTime opts) drawEncTime r5 of
        (Inl e, r6) \<Rightarrow> (Some (Inl e), r6)
      | (Inr encTime, r6) \<Rightarrow>
          (map_option Inr (xrapPackEnvelope compressed encKey salt encTime
             (if oSdkVersion opts = 0 then xrapSDKVersion else oSdkVersion opts)), r6))))))))"

section \<open>The cipher in textbook form, and its inverse\<close>

definition xS :: "byte \<Rightarrow> byte" where
  "xS b = xrapSBox ! unat b"

definition xS_inv :: "byte \<Rightarrow> byte" where
  "xS_inv b = (case index_of b xrapSBox of Some i \<Rightarrow> word_of_nat i | None \<Rightarrow> 0)"

lemma xrapSBox_props: "length xrapSBox = 256" "distinct xrapSBox"
proof -
  show "length xrapSBox = 256" by (simp add: xrapSBox_def)
  have "bit_distinct 8 xrapSBox" by code_simp
  then show "distinct xrapSBox" by (rule bit_distinct)
qed

lemma xS_inv_xS [simp]: "xS_inv (xS b) = b"
  by (simp add: xS_inv_def xS_def xrapSBox_props)

lemma u32_be_xor:
  "u32_be a b c d XOR u32_be e f g h = u32_be (a XOR e) (b XOR f) (c XOR g) (d XOR h)"
  by (rule bit_word_eqI) (simp add: bit_xor_iff bit_u32_be)

lemma lut_word:
  "lut 0 w = (let s = xS (u8_of w) in u32_be (gf2 s) s s (gf3 s))"
  "lut (Suc 0) w = (let s = xS (u8_of w) in u32_be (gf3 s) (gf2 s) s s)"
  "lut 2 w = (let s = xS (u8_of w) in u32_be s (gf3 s) (gf2 s) s)"
  "lut 3 w = (let s = xS (u8_of w) in u32_be s s (gf3 s) (gf2 s))"
  by (simp_all add: lut_def buildXrapLUT_def xrapSBox_props xS_def u32_be_def Let_def)

definition mixColumn :: "byte \<Rightarrow> byte \<Rightarrow> byte \<Rightarrow> byte \<Rightarrow> u32" where
  "mixColumn a b c d =
     u32_be (gf2 a XOR gf3 b XOR c XOR d) (a XOR gf2 b XOR gf3 c XOR d)
            (a XOR b XOR gf2 c XOR gf3 d) (gf3 a XOR b XOR c XOR gf2 d)"

definition byte_at :: "nat \<Rightarrow> u32 \<Rightarrow> byte" where
  "byte_at i w = u8_of (drop_bit (24 - 8 * i) w)"

definition refRound :: "u32 list \<Rightarrow> words4 \<Rightarrow> words4" where
  "refRound rk = (\<lambda>(s0, s1, s2, s3).
     let col = (\<lambda>a b c d. mixColumn (xS (byte_at 0 a)) (xS (byte_at 1 b)) (xS (byte_at 2 c)) (xS (byte_at 3 d)))
     in (col s0 s1 s2 s3 XOR rk ! 0, col s1 s2 s3 s0 XOR rk ! 1, col s2 s3 s0 s1 XOR rk ! 2,
         col s3 s0 s1 s2 XOR rk ! 3))"

lemma xrapRound_ref: "xrapRound rk st = refRound rk st"
  by (cases st) (simp add: xrapRound_def refRound_def lut_word mixColumn_def byte_at_def Let_def
      u32_be_xor xor.assoc [symmetric])

definition unColumn :: "u32 \<Rightarrow> nat \<Rightarrow> byte" where
  "unColumn w i =
     (let p = byte_at 0 w; q = byte_at 1 w; r = byte_at 2 w; s = byte_at 3 w
      in xS_inv ([mul14 p XOR mul11 q XOR mul13 r XOR mul9 s, mul9 p XOR mul14 q XOR mul11 r XOR mul13 s,
          mul13 p XOR mul9 q XOR mul14 r XOR mul11 s, mul11 p XOR mul13 q XOR mul9 r XOR mul14 s] ! i))"

definition unRound :: "u32 list \<Rightarrow> words4 \<Rightarrow> words4" where
  "unRound rk = (\<lambda>(n0, n1, n2, n3).
     let c0 = unColumn (n0 XOR rk ! 0); c1 = unColumn (n1 XOR rk ! 1);
         c2 = unColumn (n2 XOR rk ! 2); c3 = unColumn (n3 XOR rk ! 3)
     in (u32_be (c0 0) (c3 1) (c2 2) (c1 3), u32_be (c1 0) (c0 1) (c3 2) (c2 3),
         u32_be (c2 0) (c1 1) (c0 2) (c3 3), u32_be (c3 0) (c2 1) (c1 2) (c0 3)))"

lemma byte_at_u32_be [simp]:
  "byte_at 0 (u32_be a b c d) = a" "byte_at (Suc 0) (u32_be a b c d) = b"
  "byte_at 2 (u32_be a b c d) = c" "byte_at 3 (u32_be a b c d) = d"
  by (simp_all add: byte_at_def)

lemma u32_be_bytes [simp]: "u32_be (byte_at 0 w) (byte_at (Suc 0) w) (byte_at 2 w) (byte_at 3 w) = w"
  by (simp add: byte_at_def)

lemma unColumn_mixColumn [simp]:
  "unColumn (mixColumn (xS a) (xS b) (xS c) (xS d)) 0 = a"
  "unColumn (mixColumn (xS a) (xS b) (xS c) (xS d)) (Suc 0) = b"
  "unColumn (mixColumn (xS a) (xS b) (xS c) (xS d)) 2 = c"
  "unColumn (mixColumn (xS a) (xS b) (xS c) (xS d)) 3 = d"
  by (simp_all add: unColumn_def mixColumn_def unmix Let_def)

lemma unRound_xrapRound: "unRound rk (xrapRound rk st) = st"
  by (cases st) (simp add: xrapRound_ref refRound_def unRound_def Let_def xor.assoc)

definition unFinal :: "bytes \<Rightarrow> words4" where
  "unFinal out =
     (let q = (\<lambda>i. xS_inv (out ! i XOR lastBytes ! i))
      in (u32_be (q 0) (q 13) (q 10) (q 7), u32_be (q 4) (q 1) (q 14) (q 11),
          u32_be (q 8) (q 5) (q 2) (q 15), u32_be (q 12) (q 9) (q 6) (q 3)))"

lemma length_lastBytes [simp]: "length lastBytes = 16"
  by (simp add: lastBytes_def xrapLastRoundKey_def)

lemma upt_4_16:
  "[0..<4] = [0, 1, 2, 3 :: nat]"
  "[0..<16] = [0, 1, 2, 3, 4, 5, 6, 7, 8, 9, 10, 11, 12, 13, 14, 15 :: nat]"
  by (simp_all add: upt_rec)

lemma xrapFinal_bytes:
  "xrapFinal (s0, s1, s2, s3) =
     map (\<lambda>i. xS (byte_at (i mod 4) ([s0, s1, s2, s3] ! ((i div 4 + i mod 4) mod 4))) XOR lastBytes ! i) [0..<16]"
  by (simp add: xrapFinal_def xS_def byte_at_def upt_4_16 numeral_2_eq_2)

lemma length_xrapFinal [simp]: "length (xrapFinal st) = 16"
  by (cases st) (simp add: xrapFinal_bytes)

lemma unFinal_xrapFinal: "unFinal (xrapFinal st) = st"
  by (cases st) (simp add: unFinal_def xrapFinal_bytes upt_4_16 Let_def xor.assoc)

definition xrapDecryptBlock16 :: "bytes \<Rightarrow> bytes" where
  "xrapDecryptBlock16 out =
     (case fold (\<lambda>r. unRound (xrapRoundKeys ! r)) (rev [1..<10]) (unFinal out) of
        (s0, s1, s2, s3) \<Rightarrow>
          (let k = xrapRoundKeys ! 0
           in be32_bytes (s0 XOR k ! 0) @ be32_bytes (s1 XOR k ! 1) @ be32_bytes (s2 XOR k ! 2)
              @ be32_bytes (s3 XOR k ! 3)))"

lemma u32_at_bytes: "be32_bytes (u32_at b i) = [b ! i, b ! (i + 1), b ! (i + 2), b ! (i + 3)]"
  by (simp add: u32_at_def be32_bytes_def)

lemma bytes16:
  assumes "length b = 16"
  shows "be32_bytes (u32_at b 0) @ be32_bytes (u32_at b 4) @ be32_bytes (u32_at b 8) @ be32_bytes (u32_at b 12) = b"
proof -
  have "b = map ((!) b) [0..<16]" using assms map_nth [of b] by simp
  also have "\<dots> = be32_bytes (u32_at b 0) @ be32_bytes (u32_at b 4) @ be32_bytes (u32_at b 8)
      @ be32_bytes (u32_at b 12)"
    by (simp add: u32_at_bytes upt_4_16 numeral_2_eq_2)
  finally show ?thesis by (rule sym)
qed

lemma xrapDecrypt_encrypt_padded:
  assumes "length block \<le> 16"
  shows "xrapDecryptBlock16 (xrapEncryptBlock16 block) = block @ replicate (16 - length block) 0"
proof -
  let ?p = "block @ replicate (16 - length block) 0"
  have p: "take 16 block @ replicate (16 - length block) 0 = ?p" using assms by simp
  define k where "k = xrapRoundKeys ! 0"
  define st where "st = (u32_at ?p 0 XOR k ! 0, u32_at ?p 4 XOR k ! 1, u32_at ?p 8 XOR k ! 2, u32_at ?p 12 XOR k ! 3)"
  define rounds where "rounds = [1..<(10::nat)]"
  have e: "xrapEncryptBlock16 block = xrapFinal (fold (\<lambda>r. xrapRound (xrapRoundKeys ! r)) rounds st)"
    unfolding xrapEncryptBlock16_def Let_def p st_def k_def rounds_def by (rule refl)
  have "fold (\<lambda>r. unRound (xrapRoundKeys ! r)) (rev rounds)
      (fold (\<lambda>r. xrapRound (xrapRoundKeys ! r)) rounds st) = st"
    by (rule fold_undo) (rule unRound_xrapRound)
  then have "xrapDecryptBlock16 (xrapEncryptBlock16 block) =
      be32_bytes (u32_at ?p 0) @ be32_bytes (u32_at ?p 4) @ be32_bytes (u32_at ?p 8) @ be32_bytes (u32_at ?p 12)"
    unfolding e xrapDecryptBlock16_def unFinal_xrapFinal
    by (simp only: rounds_def [symmetric] k_def [symmetric] Let_def)
       (simp only: st_def prod.case xor.assoc xor_self_eq xor.right_neutral)
  then show ?thesis using assms by (simp only: bytes16 length_append length_replicate add_diff_inverse_nat not_less le_add_diff_inverse)
qed

lemma length_xrapEncryptBlock16 [simp]: "length (xrapEncryptBlock16 b) = 16"
  by (simp add: xrapEncryptBlock16_def Let_def)

interpretation xrap: invertible_cipher xrapEncryptBlock16 xrapDecryptBlock16
  by unfold_locales (simp_all add: xrapDecrypt_encrypt_padded)

section \<open>Opening an envelope\<close>

definition xrapDecryptBlocks :: "bytes \<Rightarrow> bytes" where
  "xrapDecryptBlocks b = concat (map xrapDecryptBlock16 (blocks_of b))"

lemma xrapDecryptBlocks_encrypt:
  "xrapDecryptBlocks (xrapEncryptBlocks src) = src @ replicate ((16 - length src mod 16) mod 16) 0"
proof (induction src rule: xrapEncryptBlocks.induct)
  case (1 src)
  show ?case
  proof (cases "16 \<le> length src")
    case True
    then have ne: "src \<noteq> []" by auto
    have m: "(length src - 16) mod 16 = length src mod 16"
      using True by (simp add: mod_if [of "length src" 16])
    have "xrapDecryptBlocks (xrapEncryptBlocks src) =
        take 16 src @ xrapDecryptBlocks (xrapEncryptBlocks (drop 16 src))"
      using True ne by (subst xrapEncryptBlocks.simps)
        (simp add: xrapDecryptBlocks_def xrapDecrypt_encrypt_padded min_absorb2)
    then show ?thesis using 1 [OF ne] m
      by (simp add: append_assoc [symmetric] del: append_assoc)
  next
    case False
    then show ?thesis
      by (cases "src = []")
         (simp_all add: xrapEncryptBlocks.simps [of src] xrapEncryptBlocks.simps [of "[]"]
           xrapDecryptBlocks_def xrapDecrypt_encrypt_padded
           blocks_of_append [of _ "[]", simplified append_Nil2])
  qed
qed

lemma xrapCyclicXor_twice:
  assumes "xrapCyclicXor data key = Some x"
  shows "length x = length data" "xrapCyclicXor x key = Some data"
proof -
  have c: "key = [] \<and> data \<noteq> [] \<longrightarrow> False"
    and x: "x = map (\<lambda>i. data ! i XOR key ! (i mod length key)) [0..<length data]"
    using assms by (auto simp: xrapCyclicXor_def split: if_splits)
  show "length x = length data" by (simp add: x)
  then show "xrapCyclicXor x key = Some data"
    using c unfolding xrapCyclicXor_def
    by (auto simp: x xor.assoc intro: nth_equalityI)
qed

definition u32_of_bytes :: "bytes \<Rightarrow> u32" where
  "u32_of_bytes b = u32_at b 0"

lemma u32_of_be32 [simp]: "u32_of_bytes (be32_bytes v) = v"
  by (simp add: u32_of_bytes_def u32_at_def be32_bytes_def)

definition openEnvelope :: "string \<Rightarrow> (string \<times> bytes \<times> bytes) option" where
  "openEnvelope env =
     (case b64_decode env of
        None \<Rightarrow> None
      | Some raw \<Rightarrow>
         (let content = drop 36 raw;
              n = unat (raw ! 3);
              key = xrapDecryptBlock16 (take 16 (drop n content));
              body = drop (n + 20) content;
              cipher = take (length body - 4) body;
              clen = unat (u32_of_bytes (drop (length body - 4) body))
          in map_option (\<lambda>data. (string_of (take n content), key, data))
               (xrapCyclicXor (take clen (xrapDecryptBlocks cipher)) key)))"

lemma unat_word_of_nat_u32: "n < 2 ^ 32 \<Longrightarrow> unat (word_of_nat n :: u32) = n"
  by (simp add: unat_of_nat take_bit_nat_eq_self)

text \<open>C4: An x-rap envelope can be opened: from the base64 text alone, the salt, the session
  key and the compressed body are recovered exactly, for a 16-byte key, a salt below 256 bytes
  and a body below 4 GiB.\<close>

theorem xrapPackEnvelope_opens:
  assumes "length encKey = 16" and "length salt < 256" and "length compressed < 2 ^ 32"
  shows "\<exists>env. xrapPackEnvelope compressed encKey salt encTime sdk = Some env \<and>
    openEnvelope env = Some (salt, encKey, compressed)"
proof -
  have ne: "encKey \<noteq> []" using assms(1) by auto
  then obtain x where x: "xrapCyclicXor compressed encKey = Some x"
    by (simp add: xrapCyclicXor_def)
  note lx = xrapCyclicXor_twice(1) [OF x] and ux = xrapCyclicXor_twice(2) [OF x]
  let ?k = "xrapEncryptBlock16 encKey"
  let ?c = "xrapEncryptBlocks x @ be32_bytes (word_of_nat (length compressed))"
  let ?content = "bytes_of salt @ (?k @ be32_bytes 16) @ ?c"
  let ?h = "[0x07, 0x24, 0x01, word_of_nat (length salt)] @ be32_bytes 1 @ be32_bytes 20
     @ be32_bytes (word_of_nat (length ?c)) @ be32_bytes (xxh32 ?content 0)
     @ be32_bytes sdk @ be32_bytes encTime @ replicate 8 0"
  have e: "xrapPackEnvelope compressed encKey salt encTime sdk = Some (b64_encode (?h @ ?content))"
    using assms(1) x by (simp add: xrapPackEnvelope_def xrapEncryptSessionKey_def u32beBytes_def Let_def)
  have len: "length ?h = 36" by simp
  have n: "unat ((?h @ ?content) ! 3) = length salt"
    using assms(2) by (simp add: unat_word_of_nat_byte nth_append)
  have body: "drop 36 (?h @ ?content) = ?content" by (rule drop_prefix) (rule len)
  have "take (unat (u32_of_bytes (be32_bytes (word_of_nat (length compressed)))))
      (xrapDecryptBlocks (xrapEncryptBlocks x)) = x"
    using assms(3) lx by (simp add: xrapDecryptBlocks_encrypt unat_word_of_nat_u32)
  then have "openEnvelope (b64_encode (?h @ ?content)) = Some (salt, encKey, compressed)"
    unfolding openEnvelope_def b64_decode_encode option.case Let_def body n
    using assms(1) ux by (simp add: xrapDecrypt_encrypt_padded)
  with e show ?thesis by blast
qed

lemma xrapPackEnvelope_opens_witness:
  "\<exists>env. xrapPackEnvelope [1, 2, 3] (replicate 16 65) ''salt'' 100 10300 = Some env \<and>
    openEnvelope env = Some (''salt'', replicate 16 65, [1, 2, 3])"
  by (rule xrapPackEnvelope_opens) simp_all

text \<open>The table-driven cipher is the textbook one: each of its nine table rounds equals
  substituting the bytes, shifting the rows, mixing the columns over GF(256) and adding the
  round key, and the whole block function is a permutation of the 16-byte blocks.\<close>

theorem xrapEncryptBlock16_textbook:
  "xrapRound rk st = refRound rk st \<and>
   (length block = 16 \<longrightarrow> length (xrapEncryptBlock16 block) = 16 \<and>
      xrapDecryptBlock16 (xrapEncryptBlock16 block) = block)"
  by (simp add: xrapRound_ref)

lemma xrapEncryptBlock16_textbook_witness:
  "xrapDecryptBlock16 (xrapEncryptBlock16 (replicate 16 7)) = replicate 16 7"
  using xrapEncryptBlock16_textbook [of "[]" "(0, 0, 0, 0)" "replicate 16 7"] by simp

text \<open>The body of the parameter: its clear 16-byte prefix is the timestamp and nonce
  fields, and unmasking the rest with the obfuscation byte restores the TLV fields.\<close>

theorem xrapBuildBodyStructure_unmask:
  "take 16 (xrapBuildBodyStructure inp) =
     xrapFieldU64 0x03E8 (word_of_int (xbTimestampMs inp)) @ xrapFieldU32 0x03E9 (nonce inp) \<and>
   take 16 (xrapBuildBodyStructure inp)
     @ map (\<lambda>b. b XOR obfuscationByte inp) (drop 16 (xrapBuildBodyStructure inp)) = xrapBodyFields inp"
proof -
  let ?p = "xrapFieldU64 0x03E8 (word_of_int (xbTimestampMs inp)) @ xrapFieldU32 0x03E9 (nonce inp)"
  have p: "length ?p = 16" by (simp add: xrapFieldU64_def xrapFieldU32_def)
  obtain r where r: "xrapBodyFields inp = ?p @ r"
    unfolding xrapBodyFields_def Let_def append_assoc [symmetric] by (metis append_assoc)
  have t: "take 16 (xrapBodyFields inp) = ?p" "drop 16 (xrapBodyFields inp) = r"
    unfolding r by (rule take_prefix [OF p], rule drop_prefix [OF p])
  have b: "xrapBuildBodyStructure inp = ?p @ map (\<lambda>x. x XOR obfuscationByte inp) r"
    unfolding xrapBuildBodyStructure_def Let_def t by (rule refl)
  have "take 16 (?p @ s) = ?p" "drop 16 (?p @ s) = s" for s
    by (rule take_prefix [OF p], rule drop_prefix [OF p])
  then show ?thesis unfolding b by (simp only: map_map comp_def xor.assoc xor_self_eq
      xor.right_neutral r) simp
qed

end
