(* ===== verification/Xhs_Sign.thy ===== *)
theory Xhs_Sign
  imports Ciphers Digest Json
begin

text \<open>
  The web signature of the xhs back end (\<open>src/fbprotocols/xhs/sign.go\<close> and the request
  builders of \<open>client.go\<close> it shares): the custom base64 alphabets, the JS-style CRC32, the
  128-bit hash \<open>customHashV2\<close>, the 144-byte payload and its masking, the content string that is
  hashed, the trace identifiers and the sharding key.

  Random draws are arguments. A function that can panic returns an option whose \<open>None\<close> is the
  panic; errors are the left values of a sum.
\<close>

section \<open>Constants\<close>

definition customBase64Alpha :: string where
  "customBase64Alpha = ''ZmserbBoHQtNP+wOcza/LpngG8yJq42KWYj0DSfdikx3VT16IlUAFM97hECvuRX5''"

definition x3Base64Alpha :: string where
  "x3Base64Alpha = ''MfgqrsbcyzPQRStuvC7mn501HIJBo2DEFTKdeNOwxWXYZap89+/A4UVLhijkl63G''"

definition hexKey :: string where
  "hexKey = ''71a302257793271ddd273bcee3e4b98d9d7935e1da33f5765e2ea8afb6dc77a51a499d23b67c20660025860cbf13d4540d92497f58686c574e508f46e1956344f39139bf4faf22a3eef120b79258145b2feb5193b6478669961298e79bedca646e1a693a926154a5a7a1bd1cf0dedb742f917a747a1e388b234f2277516db7116035439730fa61e9822a0eca7bff72d8''"

definition versionBytes :: bytes where "versionBytes = [0x79, 0x68, 0x60, 0x29]"
definition payloadLength :: nat where "payloadLength = 144"
definition a1Length :: nat where "a1Length = 52"
definition appIDLength :: nat where "appIDLength = 10"
definition md5XorLength :: nat where "md5XorLength = 8"
definition a3Prefix :: bytes where "a3Prefix = [0x02, 0x61, 0x33, 0x10]"
definition x3Prefix :: string where "x3Prefix = ''mns0301_''"
definition xysPrefix :: string where "xysPrefix = ''XYS_''"

definition hashIV :: "u32 list" where
  "hashIV = [1831565813, 461845907, 2246822507, 3266489909]"

definition envTable :: bytes where
  "envTable = [115, 248, 83, 102, 103, 201, 181, 131, 99, 94, 4, 68, 250, 132, 21]"

definition envChecks :: bytes where
  "envChecks = [0, 1, 18, 1, 0, 0, 0, 0, 0, 0, 3, 0, 0, 0, 0]"

text \<open>\<open>init\<close> decodes the key constant; it would panic on a bad one, which the lemma excludes.\<close>

definition hexKeyBytes :: bytes where
  "hexKeyBytes = the (hex_decode hexKey)"

lemma hexKey_decodes: "hex_decode hexKey = Some hexKeyBytes" "length hexKeyBytes = 144"
proof -
  have "(case hex_decode hexKey of Some b \<Rightarrow> length b = 144 | None \<Rightarrow> False)" by code_simp
  then show "hex_decode hexKey = Some hexKeyBytes" "length hexKeyBytes = 144"
    by (auto simp: hexKeyBytes_def split: option.splits)
qed

section \<open>The custom alphabets\<close>

text \<open>A Go map filled in a loop: a later entry for the same key replaces an earlier one.\<close>

definition alphabet_map :: "string \<Rightarrow> string \<Rightarrow> char \<Rightarrow> char option" where
  "alphabet_map a b = map_of (rev (zip a b))"

record basicEncoders =
  stdToCustom :: "char \<Rightarrow> char option"
  customToStd :: "char \<Rightarrow> char option"
  stdToX3 :: "char \<Rightarrow> char option"
  x3ToStd :: "char \<Rightarrow> char option"

definition newBasicEncoders :: basicEncoders where
  "newBasicEncoders =
     \<lparr>stdToCustom = alphabet_map std_alphabet customBase64Alpha,
      customToStd = alphabet_map customBase64Alpha std_alphabet,
      stdToX3 = alphabet_map std_alphabet x3Base64Alpha,
      x3ToStd = alphabet_map x3Base64Alpha std_alphabet\<rparr>"

definition subst_char :: "(char \<Rightarrow> char option) \<Rightarrow> char \<Rightarrow> char" where
  "subst_char m c = (case m c of Some d \<Rightarrow> d | None \<Rightarrow> c)"

definition translate :: "string \<Rightarrow> (char \<Rightarrow> char option) \<Rightarrow> string" where
  "translate data stdToAlt = map (subst_char stdToAlt) data"

definition untranslate :: "string \<Rightarrow> (char \<Rightarrow> char option) \<Rightarrow> bytes option" where
  "untranslate s altToStd = b64_decode (map (subst_char altToStd) s)"

definition encodeCustom :: "basicEncoders \<Rightarrow> bytes \<Rightarrow> string" where
  "encodeCustom e data = translate (b64_encode data) (stdToCustom e)"

definition encodeX3 :: "basicEncoders \<Rightarrow> bytes \<Rightarrow> string" where
  "encodeX3 e data = translate (b64_encode data) (stdToX3 e)"

definition decodeCustom :: "basicEncoders \<Rightarrow> string \<Rightarrow> bytes option" where
  "decodeCustom e s = untranslate s (customToStd e)"

definition enc_decodeX3 :: "basicEncoders \<Rightarrow> string \<Rightarrow> bytes option" where
  "enc_decodeX3 e s = untranslate s (x3ToStd e)"

definition undoes :: "string \<Rightarrow> string \<Rightarrow> bool" where
  "undoes a b \<longleftrightarrow>
     list_all (\<lambda>c. subst_char (alphabet_map b a) (subst_char (alphabet_map a b) c) = c) (CHR ''='' # a)"

lemma alphabets_undo: "undoes std_alphabet customBase64Alpha" "undoes std_alphabet x3Base64Alpha"
  by code_simp+

lemma undoes_b64:
  assumes "undoes std_alphabet b" and "c \<in> set (b64_encode bs)"
  shows "subst_char (alphabet_map b std_alphabet) (subst_char (alphabet_map std_alphabet b) c) = c"
  using assms b64_encode_chars [of c bs] by (auto simp: undoes_def list_all_iff)

interpretation custom: translated_codec b64_encode b64_decode
  "subst_char (alphabet_map std_alphabet customBase64Alpha)"
  "subst_char (alphabet_map customBase64Alpha std_alphabet)"
  by unfold_locales (rule undoes_b64 [OF alphabets_undo(1)])

interpretation x3: translated_codec b64_encode b64_decode
  "subst_char (alphabet_map std_alphabet x3Base64Alpha)"
  "subst_char (alphabet_map x3Base64Alpha std_alphabet)"
  by unfold_locales (rule undoes_b64 [OF alphabets_undo(2)])

lemma decodeCustom_encodeCustom [codec_simps]:
  "decodeCustom newBasicEncoders (encodeCustom newBasicEncoders bs) = Some bs"
  using custom.tr.decode_encode
  by (simp add: decodeCustom_def encodeCustom_def untranslate_def translate_def newBasicEncoders_def)

lemma decodeX3_encodeX3 [codec_simps]:
  "enc_decodeX3 newBasicEncoders (encodeX3 newBasicEncoders bs) = Some bs"
  using x3.tr.decode_encode
  by (simp add: enc_decodeX3_def encodeX3_def untranslate_def translate_def newBasicEncoders_def)

section \<open>JS-style CRC32\<close>

definition crcBit :: "u32 \<Rightarrow> u32" where
  "crcBit r = (if r AND 1 \<noteq> 0 then drop_bit 1 r XOR 0xEDB88320 else drop_bit 1 r)"

definition crc32JSTable :: "u32 list" where
  "crc32JSTable = map (\<lambda>d. (crcBit ^^ 8) (word_of_nat d)) [0..<256]"

definition crc_step :: "u32 \<Rightarrow> byte \<Rightarrow> u32" where
  "crc_step c b = crc32JSTable ! unat ((c AND 0xFF) XOR ucast b) XOR drop_bit 8 c"

text \<open>The Go function returns the word read as an \<open>int32\<close>, which is \<open>sint\<close> of this one.\<close>

definition crc32JSBytes :: "bytes \<Rightarrow> u32" where
  "crc32JSBytes data = 0xFFFFFFFF XOR fold (\<lambda>b c. crc_step c b) data 0xFFFFFFFF XOR 0xEDB88320"

definition crc32JSString :: "string \<Rightarrow> u32" where
  "crc32JSString s = crc32JSBytes (bytes_of s)"

lemma length_crc32JSTable [simp]: "length crc32JSTable = 256"
  by (simp add: crc32JSTable_def)

text \<open>
  The table step agrees with eight steps of the bitwise division, which is linear and injective.
\<close>

lemma crcBit_odd: "crcBit r = drop_bit 1 r XOR (if odd r then 0xEDB88320 else 0)"
  by (simp add: crcBit_def and_one_eq odd_iff_mod_2_eq_one)

lemma crcBit_xor: "crcBit (x XOR y) = crcBit x XOR crcBit y"
  by (simp add: crcBit_odd drop_bit_xor even_xor_iff ac_simps)

lemma crcBits_xor: "(crcBit ^^ n) (x XOR y) = (crcBit ^^ n) x XOR (crcBit ^^ n) y"
  by (induction n) (simp_all add: crcBit_xor)

lemma crcBits_shift:
  "\<forall>i < n. \<not> bit x i \<Longrightarrow> (crcBit ^^ n) x = drop_bit n x"
proof (induction n)
  case (Suc n)
  then have "even (drop_bit n x)" by (simp add: bit_iff_odd_drop_bit)
  with Suc show ?case by (simp add: crcBit_odd drop_bit_drop_bit)
qed simp

lemma crcBit_top: "bit (crcBit r) 31 \<longleftrightarrow> odd r"
proof -
  have "bit (0xEDB88320 :: u32) 31" by code_simp
  then show ?thesis by (auto simp: crcBit_odd bit_xor_iff bit_drop_bit_eq dest: bit_imp_le_length)
qed

lemma crcBit_undo: "crcBit r XOR (if odd r then 0xEDB88320 else 0) = drop_bit 1 r"
  by (simp add: crcBit_odd xor.assoc)

lemma crcBit_inj: "crcBit x = crcBit y \<Longrightarrow> x = y"
proof (rule bit_word_eqI)
  fix n
  assume e: "crcBit x = crcBit y" and n: "n < LENGTH(32)"
  have o: "odd x = odd y" using e crcBit_top by metis
  then have d: "drop_bit 1 x = drop_bit 1 y"
    by (simp only: e o crcBit_undo [symmetric])
  show "bit x n = bit y n"
  proof (cases n)
    case 0
    with o show ?thesis by (simp add: bit_0)
  next
    case (Suc m)
    with arg_cong [OF d, of "\<lambda>w. bit w m"] show ?thesis by (simp add: bit_drop_bit_eq)
  qed
qed

lemma crcBits_inj: "(crcBit ^^ n) x = (crcBit ^^ n) y \<Longrightarrow> x = y"
  by (induction n) (auto dest: crcBit_inj)

lemma crc_table_at: "unat d < 256 \<Longrightarrow> crc32JSTable ! unat d = (crcBit ^^ 8) d"
  by (simp add: crc32JSTable_def)

lemma crc_step_bits: "crc_step c b = (crcBit ^^ 8) (c XOR ucast b)"
proof -
  define l where "l = (c AND 0xFF) XOR ucast b"
  have m: "(0xFF :: u32) = mask 8" by (simp add: mask_eq_exp_minus_1)
  have bits: "bit (c AND 0xFF) n \<longleftrightarrow> n < 8 \<and> bit c n" for n
    unfolding m by (auto simp: bit_and_iff bit_mask_iff dest: bit_imp_le_length)
  have "\<not> bit l n" if "8 \<le> n" for n
    using that by (simp add: l_def bit_xor_iff bits bit_unsigned_iff)
  then have "take_bit 8 l = l"
    by (intro bit_word_eqI) (simp add: bit_take_bit_iff, meson not_le_imp_less)
  then have "unat l = take_bit 8 (unat l)"
    by (metis unsigned_take_bit_eq)
  also have "\<dots> < 256" using take_bit_nat_less_exp [of 8 "unat l"] by simp
  finally have t: "crc32JSTable ! unat l = (crcBit ^^ 8) l" by (rule crc_table_at)
  let ?h = "push_bit 8 (drop_bit 8 c)"
  have "(crcBit ^^ 8) ?h = drop_bit 8 ?h"
    by (rule crcBits_shift) (simp add: bit_push_bit_iff)
  also have "drop_bit 8 ?h = drop_bit 8 c"
    by (rule bit_word_eqI) (auto simp: bit_drop_bit_eq bit_push_bit_iff dest: bit_imp_le_length)
  finally have h: "(crcBit ^^ 8) ?h = drop_bit 8 c" .
  have "c XOR ucast b = l XOR ?h"
    by (rule bit_word_eqI) (auto simp: l_def bit_xor_iff bits bit_push_bit_iff bit_drop_bit_eq)
  then show ?thesis by (simp only: crc_step_def l_def [symmetric] t crcBits_xor h)
qed

section \<open>customHashV2\<close>

type_synonym hash_state = "u32 \<times> u32 \<times> u32 \<times> u32"

definition hash_round :: "u32 \<Rightarrow> u32 \<Rightarrow> hash_state \<Rightarrow> hash_state" where
  "hash_round v0 v1 = (\<lambda>(s0, s1, s2, s3).
     let s0 = rotl32 ((s0 + v0) XOR s2) 7;
         s1 = rotl32 ((v0 XOR s1) + s3) 11;
         s2 = rotl32 ((s2 + v1) XOR s0) 13;
         s3 = rotl32 ((s3 XOR v1) + s1) 17
     in (s0, s1, s2, s3))"

fun hash_rounds :: "u32 list \<Rightarrow> hash_state \<Rightarrow> hash_state" where
  "hash_rounds (v0 # v1 # vs) st = hash_rounds vs (hash_round v0 v1 st)"
| "hash_rounds _ st = st"

definition customHashV2 :: "bytes \<Rightarrow> bytes option" where
  "customHashV2 input =
     (if length input mod 8 \<noteq> 0 then None
      else
        (let len = word_of_nat (length input);
             st = (hashIV ! 0 XOR len, hashIV ! 1 XOR push_bit 8 len, hashIV ! 2 XOR push_bit 16 len,
                   hashIV ! 3 XOR push_bit 24 len)
         in case hash_rounds (le_words input) st of (s0, s1, s2, s3) \<Rightarrow>
              (let t0 = s0 XOR len; t1 = s1 XOR t0; t2 = s2 + t1; t3 = s3 XOR t2;
                   r0 = rotl32 t0 9 + rotl32 t2 17;
                   r1 = rotl32 t1 13 XOR rotl32 t3 19;
                   r2 = rotl32 t2 17 + r0;
                   r3 = rotl32 t3 19 XOR r1
               in Some (le32_bytes r0 @ le32_bytes r1 @ le32_bytes r2 @ le32_bytes r3))))"

lemma customHashV2_total:
  "length input mod 8 = 0 \<Longrightarrow> \<exists>h. customHashV2 input = Some h \<and> length h = 16"
  by (auto simp: customHashV2_def Let_def split: prod.splits)

section \<open>The payload\<close>

definition xorTransformArray :: "bytes \<Rightarrow> bytes" where
  "xorTransformArray src =
     map (\<lambda>i. if i < length hexKeyBytes then src ! i XOR hexKeyBytes ! i else src ! i) [0..<length src]"

lemma length_xorTransformArray [simp]: "length (xorTransformArray src) = length src"
  by (simp add: xorTransformArray_def)

lemma xorTransformArray_involution [codec_simps]:
  "xorTransformArray (xorTransformArray src) = src"
  by (rule nth_equalityI) (simp_all add: xorTransformArray_def xor.assoc)

text \<open>
  \<open>timestampMs off\<close> is \<open>int64((p.timestamp - off) * 1000)\<close>, the floating-point part of the
  code; the draws are the results of \<open>rand.Uint32\<close> and of the three calls of \<open>rand.Intn\<close>.
\<close>

record payloadParams =
  hexParameter :: string
  hexMD5Path :: string
  a1Value :: string
  appIdentifier :: string
  stringParam :: string
  timestampMs :: "nat \<Rightarrow> u64"

record payloadDraws =
  seedDraw :: u32
  offsetDraw :: nat
  seqDraw :: nat
  windowDraw :: nat

definition fixed_field :: "nat \<Rightarrow> string \<Rightarrow> bytes" where
  "fixed_field n v = (let b = take n (bytes_of v) in b @ replicate (n - length b) 0)"

lemma length_fixed_field [simp]: "length (fixed_field n v) = n"
  by (simp add: fixed_field_def Let_def)

definition buildPayloadArray :: "payloadDraws \<Rightarrow> payloadParams \<Rightarrow> (error + bytes) option" where
  "buildPayloadArray d p =
     (let seed = seedDraw d;
          seedByte = u8_of seed;
          tsBytes = le64_bytes (timestampMs p 0);
          envTS = le64_bytes (timestampMs p (offsetDraw d + 10));
          start = versionBytes @ le32_bytes seed @ tsBytes @ envTS
            @ le32_bytes (word_of_nat (seqDraw d + 15)) @ le32_bytes (word_of_nat (windowDraw d + 1000))
            @ le32_bytes (word_of_nat (length (stringParam p)))
      in case hex_decode (hexParameter p) of
           None \<Rightarrow> Some (Inl ''xhs: sign payload: bad d_value hex'')
         | Some md5Bytes \<Rightarrow>
             if length md5Bytes < md5XorLength then None
             else case hex_decode (hexMD5Path p) of
               None \<Rightarrow> Some (Inl ''xhs: sign payload: bad m_value hex'')
             | Some md5PathBytes \<Rightarrow>
                 (case customHashV2 (tsBytes @ md5PathBytes) of
                    None \<Rightarrow> None
                  | Some h \<Rightarrow>
                    (let payload = start @ map (\<lambda>b. b XOR seedByte) (take md5XorLength md5Bytes)
                       @ [word_of_nat a1Length] @ fixed_field a1Length (a1Value p)
                       @ [word_of_nat appIDLength] @ fixed_field appIDLength (appIdentifier p)
                       @ [1, seedByte XOR envTable ! 0]
                       @ map (\<lambda>i. envTable ! i XOR envChecks ! i) [1..<15]
                       @ a3Prefix @ map (\<lambda>b. b XOR seedByte) h
                     in if length payload \<noteq> payloadLength
                        then Some (Inl ''xhs: sign payload: built the wrong number of bytes'')
                        else Some (Inr payload))))"

lemmas payload_consts = payloadLength_def a1Length_def appIDLength_def md5XorLength_def
  versionBytes_def a3Prefix_def

lemma buildPayloadArray_ok:
  assumes "hex_decode (hexParameter p) = Some m" and "8 \<le> length m"
    and "hex_decode (hexMD5Path p) = Some q" and "length q mod 8 = 0"
  obtains b where "buildPayloadArray d p = Some (Inr b)" and "length b = 144"
proof -
  have l: "length (le64_bytes (timestampMs p 0) @ q) mod 8 = 0"
    using assms(4) by simp
  obtain h where h: "customHashV2 (le64_bytes (timestampMs p 0) @ q) = Some h" "length h = 16"
    using customHashV2_total [OF l] by blast
  have "\<exists>b. buildPayloadArray d p = Some (Inr b) \<and> length b = 144"
    using assms(1,3) h assms(2)
    by (simp add: buildPayloadArray_def payload_consts Let_def)
  then show thesis using that by blast
qed

section \<open>Content strings\<close>

record kvParam =
  kvKey :: string
  kvVal :: string
  kvList :: "string list"

definition pValue :: "kvParam \<Rightarrow> string" where
  "pValue p = (if kvList p \<noteq> [] then join_with '','' (kvList p) else kvVal p)"

definition quoteSafe :: "byte \<Rightarrow> bool" where
  "quoteSafe b \<longleftrightarrow> (97 \<le> b \<and> b \<le> 122) \<or> (65 \<le> b \<and> b \<le> 90) \<or> (48 \<le> b \<and> b \<le> 57) \<or>
     b \<in> set (bytes_of ''-_.~,'')"

definition percentEncodeValue :: "string \<Rightarrow> string" where
  "percentEncodeValue v =
     string_of (concat (map (\<lambda>b. if quoteSafe b then [b]
       else [37, upper_hex (unat (drop_bit 4 b)), upper_hex (unat (b AND 15))]) (bytes_of v)))"

definition buildQueryString :: "kvParam list \<Rightarrow> string" where
  "buildQueryString params =
     join_with ''&'' (map (\<lambda>p. kvKey p @ ''='' @ percentEncodeValue (pValue p)) params)"

definition buildContentString :: "string \<Rightarrow> string \<Rightarrow> kvParam list \<Rightarrow> string \<Rightarrow> string" where
  "buildContentString method uri params body =
     (if method = ''POST'' then uri @ body
      else if params = [] then uri
      else uri @ ''?'' @ buildQueryString params)"

definition buildURL :: "string \<Rightarrow> kvParam list \<Rightarrow> string" where
  "buildURL baseURL params =
     (if params = [] then baseURL
      else baseURL @ (if contains_sub baseURL ''?'' then ''&'' else ''?'') @ buildQueryString params)"

definition jsonEscape :: "string \<Rightarrow> string" where
  "jsonEscape s = concat (map (\<lambda>(r, _).
     if r = 0x22 then [backslash, CHR 0x22]
     else if r = 0x5C then [backslash, backslash]
     else if r = 10 then [backslash, CHR ''n'']
     else if r = 13 then [backslash, CHR ''r'']
     else if r = 9 then [backslash, CHR ''t'']
     else encode_rune r) (runes s))"

definition marshalJSONScalar :: "string \<Rightarrow> string" where
  "marshalJSONScalar s = json_quote False s"

definition buildJSONBody :: "kvParam list \<Rightarrow> string" where
  "buildJSONBody params =
     ''{'' @ join_with '','' (map (\<lambda>p. [CHR 0x22] @ jsonEscape (kvKey p) @ [CHR 0x22] @ '':''
        @ marshalJSONScalar (pValue p)) params) @ ''}''"

lemma quoteSafe_percent: "\<not> quoteSafe 37"
  by (simp add: quoteSafe_def bytes_of_def byte_of_def)

interpretation quote: percent_encoder quoteSafe
  by unfold_locales (rule quoteSafe_percent)

lemma percentEncodeValue_pct: "percentEncodeValue v = string_of (pct_encode quoteSafe (bytes_of v))"
  by (simp only: percentEncodeValue_def pct_encode_def pct_byte_nibbles)

section \<open>Signature entry points\<close>

text \<open>
  \<open>urlPath\<close> stands for the path that \<open>net/url.Parse\<close> finds, \<open>None\<close> on a parse error.
\<close>

definition extractURI :: "(string \<Rightarrow> string option) \<Rightarrow> string \<Rightarrow> string" where
  "extractURI urlPath urlIn =
     (case urlPath urlIn of
        None \<Rightarrow> urlIn
      | Some path \<Rightarrow> if path = [] \<or> path = ''/'' then urlIn else path)"

definition xs_params ::
  "string \<Rightarrow> string \<Rightarrow> string \<Rightarrow> string \<Rightarrow> string \<Rightarrow> kvParam list \<Rightarrow> (nat \<Rightarrow> u64) \<Rightarrow> payloadParams"
where
  "xs_params method uri a1 appID body params ts =
     (let content = buildContentString method uri params body;
          dVal = md5_hex content;
          mVal = (if method = ''POST'' then md5_hex uri else dVal)
      in \<lparr>hexParameter = dVal, hexMD5Path = mVal, a1Value = a1, appIdentifier = appID,
          stringParam = content, timestampMs = ts\<rparr>)"

definition xs_envelope :: "string \<Rightarrow> string \<Rightarrow> string" where
  "xs_envelope sdkVer x3v =
     json_object [(''x0'', json_quote True sdkVer), (''x1'', json_quote True ''xhs-pc-web''),
       (''x2'', json_quote True ''Windows''), (''x3'', json_quote True (x3Prefix @ x3v)),
       (''x4'', json_quote True ''object'')]"

definition signXS ::
  "(string \<Rightarrow> string option) \<Rightarrow> payloadDraws \<Rightarrow> string \<Rightarrow> string \<Rightarrow> string \<Rightarrow> string \<Rightarrow> string
     \<Rightarrow> kvParam list \<Rightarrow> (nat \<Rightarrow> u64) \<Rightarrow> string \<Rightarrow> (error + string) option"
where
  "signXS urlPath d method uri a1 appID body params ts sdkVer =
     (case buildPayloadArray d (xs_params method (extractURI urlPath uri) a1 appID body params ts) of
        None \<Rightarrow> None
      | Some (Inl e) \<Rightarrow> Some (Inl e)
      | Some (Inr payload) \<Rightarrow>
          (let x3v = encodeX3 newBasicEncoders (take payloadLength (xorTransformArray payload))
           in Some (Inr (xysPrefix @
                encodeCustom newBasicEncoders (bytes_of (xs_envelope sdkVer x3v))))))"

definition decodeX3 :: "string \<Rightarrow> error + bytes" where
  "decodeX3 x3v =
     (case enc_decodeX3 newBasicEncoders (trim_prefix x3v x3Prefix) of
        None \<Rightarrow> Inl ''xhs: decode x3''
      | Some raw \<Rightarrow> Inr (xorTransformArray raw))"

lemma decodeX3_of_encode [codec_simps]:
  "decodeX3 (x3Prefix @ encodeX3 newBasicEncoders (xorTransformArray p)) = Inr p"
  by (simp add: decodeX3_def codec_simps)

definition pkcs7Pad :: "bytes \<Rightarrow> int \<Rightarrow> error + bytes" where
  "pkcs7Pad inp blockSize =
     (if blockSize \<le> 0 \<or> 255 < blockSize then Inl ''xhs: pkcs7: bad block size''
      else (let padLen = nat blockSize - length inp mod nat blockSize
            in Inr (inp @ replicate padLen (word_of_nat padLen))))"

section \<open>Identifiers\<close>

definition radix_digits :: string where
  "radix_digits = ''0123456789abcdefghijklmnopqrstuvwxyz''"

fun show_radix :: "nat \<Rightarrow> nat \<Rightarrow> string" where
  "show_radix b n =
     (if b < 2 \<or> n < b then [radix_digits ! n]
      else show_radix b (n div b) @ [radix_digits ! (n mod b)])"

declare show_radix.simps [simp del]

definition zero_pad :: "nat \<Rightarrow> string \<Rightarrow> string" where
  "zero_pad n s = replicate (n - length s) (CHR ''0'') @ s"

definition hexChars :: string where
  "hexChars = ''abcdef0123456789''"

definition a1Charset :: string where
  "a1Charset = ''abcdefghijklmnopqrstuvwxyz1234567890''"

text \<open>\<open>crc32.ChecksumIEEE\<close> (package \<open>hash/crc32\<close>).\<close>

definition checksumIEEE :: "bytes \<Rightarrow> u32" where
  "checksumIEEE data = NOT (fold (\<lambda>b c. crc_step c b) data 0xFFFFFFFF)"

definition a1Part :: "nat \<Rightarrow> nat list \<Rightarrow> string" where
  "a1Part nowMs draws = show_radix 16 nowMs @ map ((!) a1Charset) draws @ ''5'' @ ''0'' @ ''000''"

definition generateA1 :: "nat \<Rightarrow> nat list \<Rightarrow> string option" where
  "generateA1 nowMs draws =
     (let aPart = a1Part nowMs draws;
          full = aPart @ show_nat (unat (checksumIEEE (bytes_of aPart)))
      in if length full < 52 then None else Some (take 52 full))"

definition webIDFromA1 :: "string \<Rightarrow> string" where
  "webIDFromA1 a1 = md5_hex a1"

definition xTimestamp :: "int \<Rightarrow> string" where
  "xTimestamp ms = itoa ms"

definition b3TraceID :: "nat list \<Rightarrow> string" where
  "b3TraceID draws = map ((!) hexChars) draws"

definition xrayTraceID :: "u64 \<Rightarrow> nat \<Rightarrow> nat list \<Rightarrow> string" where
  "xrayTraceID ms sq draws =
     zero_pad 16 (show_radix 16 (unat (push_bit 23 ms OR word_of_nat sq))) @ map ((!) hexChars) draws"

definition searchID :: "u64 \<Rightarrow> nat \<Rightarrow> string" where
  "searchID ms draw = show_radix 36 (unat ms * 2 ^ 64 + (draw + 1))"

section \<open>The sharding key\<close>

definition shardMix :: "u32 \<Rightarrow> u32" where
  "shardMix u = rotl32 (u * 0xCC9E2D51) 15 * 0x1B873593"

fun shardBlocks :: "bytes \<Rightarrow> u32 \<Rightarrow> u32" where
  "shardBlocks (a # b # c # d # rest) r =
     shardBlocks rest (rotl32 (r XOR shardMix (u32_le a b c d)) 13 * 5 + 0xE6546B64)"
| "shardBlocks _ r = r"

definition shardTail :: "bytes \<Rightarrow> u32 \<Rightarrow> u32" where
  "shardTail t r =
     (let c = (if 3 \<le> length t then push_bit 16 (ucast (t ! 2)) else 0);
          c = (if 2 \<le> length t then c XOR push_bit 8 (ucast (t ! 1)) else c)
      in if 1 \<le> length t then r XOR shardMix (c XOR ucast (t ! 0)) else r)"

definition shardFinal :: "nat \<Rightarrow> u32 \<Rightarrow> u32" where
  "shardFinal len r =
     (let ru = r XOR word_of_nat len;
          ru = ru XOR drop_bit 16 ru;
          ru = ru * 0x85EBCA6B;
          ru = ru XOR drop_bit 13 ru;
          ru = ru * 0xC2B2AE35
      in ru XOR drop_bit 16 ru)"

text \<open>\<open>draw\<close> is the result of \<open>rand.Intn(91)\<close>, used for an anonymous user only.\<close>

definition shardingKey :: "nat \<Rightarrow> string \<Rightarrow> int" where
  "shardingKey draw userID =
     (if userID = [] then int draw + 10
      else (let data = bytes_of userID;
                r = shardBlocks data 151488;
                r = shardTail (drop (4 * (length data div 4)) data) r
            in int (unat (shardFinal (length data) r mod 100)) + 1))"

section \<open>Properties\<close>

lemma xs_params_payload:
  obtains b where "buildPayloadArray d (xs_params method uri a1 appID body params ts) = Some (Inr b)"
    and "length b = 144"
proof -
  let ?p = "xs_params method uri a1 appID body params ts"
  obtain c where c: "hexParameter ?p = md5_hex c" by (simp add: xs_params_def Let_def)
  have "\<exists>m. hexMD5Path ?p = md5_hex m" by (auto simp: xs_params_def Let_def)
  then obtain m where m: "hexMD5Path ?p = md5_hex m" by blast
  show thesis
    by (rule buildPayloadArray_ok [of ?p "md5_sum (bytes_of c)" "md5_sum (bytes_of m)" d])
       (simp_all add: c m that)
qed

text \<open>C3: signXS never fails and never panics, and its signature can be read back: after the
  XYS_ prefix it decodes, with the custom alphabet, to the JSON envelope, whose x3 field decodes,
  with the X3 alphabet and the key, to the 144-byte payload that buildPayloadArray made of the
  content and path digests, the a1 cookie and the application id.\<close>

theorem signXS_decodes:
  "\<exists>xs x3v p.
     signXS urlPath d method uri a1 appID body params ts sdkVer = Some (Inr (''XYS_'' @ xs)) \<and>
     decodeCustom newBasicEncoders xs = Some (bytes_of (xs_envelope sdkVer x3v)) \<and>
     decodeX3 (x3Prefix @ x3v) = Inr p \<and> length p = payloadLength \<and>
     buildPayloadArray d (xs_params method (extractURI urlPath uri) a1 appID body params ts)
       = Some (Inr p)"
proof -
  obtain p where p: "buildPayloadArray d (xs_params method (extractURI urlPath uri) a1 appID body params ts)
      = Some (Inr p)" "length p = 144"
    by (rule xs_params_payload)
  let ?x3 = "encodeX3 newBasicEncoders (xorTransformArray p)"
  have "signXS urlPath d method uri a1 appID body params ts sdkVer =
      Some (Inr (''XYS_'' @ encodeCustom newBasicEncoders (bytes_of (xs_envelope sdkVer ?x3))))"
    using p by (simp add: signXS_def payloadLength_def xysPrefix_def Let_def)
  then show ?thesis
    using p by (intro exI [of _ "encodeCustom newBasicEncoders (bytes_of (xs_envelope sdkVer ?x3))"]
        exI [of _ ?x3] exI [of _ p]) (simp add: codec_simps payloadLength_def)
qed

lemma fold_crc_bits:
  "fold (\<lambda>b c. crc_step c b) data c = fold (\<lambda>b c. (crcBit ^^ 8) (c XOR ucast b)) data c"
  by (simp only: crc_step_bits)

lemma xor_cancel_right: "(a :: u32) XOR k = b XOR k \<longleftrightarrow> a = b"
  by (metis xor.assoc xor_self_eq xor.right_neutral)

lemma xor_cancel_left: "k XOR (a :: u32) = k XOR b \<longleftrightarrow> a = b"
  by (simp only: xor.commute [of k] xor_cancel_right)

lemma crc_step_inj_state: "crc_step c b = crc_step d b \<Longrightarrow> c = d"
  unfolding crc_step_bits by (drule crcBits_inj) (simp only: xor_cancel_right)

lemma ucast_byte_inj:
  assumes "(ucast (a :: byte) :: u32) = ucast b"
  shows "a = b"
proof (rule bit_word_eqI)
  fix n
  assume "n < LENGTH(8)"
  with arg_cong [OF assms, of "\<lambda>w. bit w n"] show "bit a n = bit b n"
    by (simp add: bit_unsigned_iff)
qed

lemma crc_step_inj_byte:
  assumes "crc_step c a = crc_step c b"
  shows "a = b"
proof -
  have "c XOR ucast a = c XOR ucast b"
    using assms unfolding crc_step_bits by (rule crcBits_inj)
  then show ?thesis by (simp only: xor_cancel_left ucast_byte_inj)
qed

lemma fold_crc_inj: "fold (\<lambda>b c. crc_step c b) data c = fold (\<lambda>b c. crc_step c b) data d \<Longrightarrow> c = d"
  by (induction data arbitrary: c d) (auto dest: crc_step_inj_state)

text \<open>The table-driven CRC of the x9 field equals the bit-by-bit division by the reflected
  polynomial, is the IEEE checksum masked with the polynomial, and detects every change of a
  single byte of the fingerprint.\<close>

theorem crc32JS_reference:
  "crc32JSBytes data =
     0xFFFFFFFF XOR fold (\<lambda>b c. (crcBit ^^ 8) (c XOR ucast b)) data 0xFFFFFFFF XOR 0xEDB88320 \<and>
   crc32JSBytes data = checksumIEEE data XOR 0xEDB88320 \<and>
   (crc32JSBytes (xs @ [a] @ ys) = crc32JSBytes (xs @ [b] @ ys) \<longleftrightarrow> a = b)"
proof (intro conjI)
  have "0xFFFFFFFF XOR w = NOT w" for w :: u32
  proof -
    have "(0xFFFFFFFF :: u32) = - 1" by simp
    then show ?thesis by (simp only: bit.xor_one_left)
  qed
  then show "crc32JSBytes data = checksumIEEE data XOR 0xEDB88320"
    by (simp only: crc32JSBytes_def checksumIEEE_def xor.assoc [symmetric])
  have "a = b" if "crc32JSBytes (xs @ [a] @ ys) = crc32JSBytes (xs @ [b] @ ys)"
  proof -
    let ?c = "fold (\<lambda>b c. crc_step c b) xs 0xFFFFFFFF"
    have "fold (\<lambda>b c. crc_step c b) ys (crc_step ?c a) = fold (\<lambda>b c. crc_step c b) ys (crc_step ?c b)"
      using that by (simp only: crc32JSBytes_def xor_cancel_right xor_cancel_left fold_append
          fold_Cons fold_Nil comp_apply id_apply)
    then show ?thesis by (blast dest: fold_crc_inj crc_step_inj_byte)
  qed
  then show "crc32JSBytes (xs @ [a] @ ys) = crc32JSBytes (xs @ [b] @ ys) \<longleftrightarrow> a = b" by blast
qed (simp only: crc32JSBytes_def fold_crc_bits)

text \<open>What is signed is what is sent: for a GET the signed content is exactly the part of
  the request URL after the host, query string included, whatever the parameters.\<close>

theorem buildURL_signed_content:
  assumes "\<not> contains_sub (host @ uri) ''?''" and "method \<noteq> ''POST''"
  shows "buildURL (host @ uri) params = host @ buildContentString method uri params body"
  using assms by (simp add: buildURL_def buildContentString_def)

lemma buildURL_signed_content_witness:
  "buildURL (''https://edith.xiaohongshu.com'' @ ''/api/x'')
      [\<lparr>kvKey = ''num'', kvVal = ''5 0'', kvList = []\<rparr>] =
   ''https://edith.xiaohongshu.com'' @ buildContentString ''GET'' ''/api/x''
      [\<lparr>kvKey = ''num'', kvVal = ''5 0'', kvList = []\<rparr>] []"
  by (rule buildURL_signed_content) (simp_all add: has_prefix_def)

definition querySpecial :: "char \<Rightarrow> bool" where
  "querySpecial c \<longleftrightarrow> c = CHR ''&'' \<or> c = CHR ''=''"

lemma percentEncodeValue_plain:
  assumes "c \<in> set (percentEncodeValue v)"
  shows "\<not> querySpecial c"
proof
  assume q: "querySpecial c"
  from assms obtain b where b: "b \<in> set (pct_encode quoteSafe (bytes_of v))" "c = char_of_byte b"
    by (auto simp: percentEncodeValue_pct string_of_def)
  from b obtain x where x: "x \<in> set (bytes_of v)"
    "byte_of c \<in> set (if quoteSafe x then [x] else pct_byte x)"
    by (auto simp: pct_encode_def)
  have v: "byte_of c = 38 \<or> byte_of c = 61"
    using q by (auto simp: querySpecial_def byte_of_def)
  have "list_all (\<lambda>n. upper_hex n \<noteq> 38 \<and> upper_hex n \<noteq> 61) [0..<16]" by code_simp
  then have digits: "upper_hex n \<noteq> 38 \<and> upper_hex n \<noteq> 61" if "n < 16" for n
    using that by (auto simp: list_all_iff)
  have "unat x div 16 < 16" "unat x mod 16 < 16" using unat_byte_less [of x] by (linarith, simp)
  with digits have "38 \<notin> set (pct_byte x)" "61 \<notin> set (pct_byte x)"
    unfolding pct_byte_def by fastforce+
  moreover have "\<not> quoteSafe 38" "\<not> quoteSafe 61"
    by (simp_all add: quoteSafe_def bytes_of_def byte_of_def)
  ultimately show False using x(2) v by (auto split: if_splits)
qed

definition parseQuery :: "string \<Rightarrow> (string \<times> bytes option) list" where
  "parseQuery q =
     map (\<lambda>seg. let kv = split_on (CHR ''='') seg in (kv ! 0, pct_decode (bytes_of (kv ! 1))))
       (split_on (CHR ''&'') q)"

text \<open>The query string loses nothing: cutting it at the ampersands and the equal signs and
  undoing the percent-encoding returns every key with its value, in order, when the keys are
  plain.\<close>

theorem buildQueryString_parses:
  assumes "params \<noteq> []" and "list_all (\<lambda>p. list_all (\<lambda>c. \<not> querySpecial c) (kvKey p)) params"
  shows "parseQuery (buildQueryString params) =
    map (\<lambda>p. (kvKey p, Some (bytes_of (pValue p)))) params"
proof -
  let ?seg = "\<lambda>p. kvKey p @ ''='' @ percentEncodeValue (pValue p)"
  have keys: "CHR ''&'' \<notin> set (kvKey p)" "CHR ''='' \<notin> set (kvKey p)" if "p \<in> set params" for p
    using assms(2) that by (auto simp: list_all_iff querySpecial_def)
  have vals: "CHR ''&'' \<notin> set (percentEncodeValue v)" "CHR ''='' \<notin> set (percentEncodeValue v)" for v
    using percentEncodeValue_plain [of _ v] by (auto simp: querySpecial_def)
  have "\<forall>e \<in> set (map ?seg params). CHR ''&'' \<notin> set e" using keys vals by auto
  then have "split_on (CHR ''&'') (buildQueryString params) = map ?seg params"
    using assms(1) by (simp add: buildQueryString_def split_on_join_with)
  moreover have "split_on (CHR ''='') (?seg p) = [kvKey p, percentEncodeValue (pValue p)]"
    if "p \<in> set params" for p
    using keys(2) [OF that] vals(2) by (simp add: split_on_append split_on_absent)
  moreover have "pct_decode (bytes_of (percentEncodeValue v)) = Some (bytes_of v)" for v
    by (simp add: percentEncodeValue_pct quote.pct_decode_encode)
  ultimately show ?thesis by (simp add: parseQuery_def)
qed

lemma buildQueryString_parses_witness:
  "parseQuery (buildQueryString [\<lparr>kvKey = ''a'', kvVal = ''x&y=z'', kvList = []\<rparr>,
      \<lparr>kvKey = ''b'', kvVal = [], kvList = [''1'', ''2'']\<rparr>]) =
   [(''a'', Some (bytes_of ''x&y=z'')), (''b'', Some (bytes_of ''1,2''))]"
  by (subst buildQueryString_parses) (simp_all add: querySpecial_def pValue_def)

lemma length_show_radix:
  "1 < b \<Longrightarrow> b ^ k \<le> n \<Longrightarrow> n < b ^ Suc k \<Longrightarrow> length (show_radix b n) = Suc k"
proof (induction k arbitrary: n)
  case (Suc k)
  have "b ^ k \<le> n div b" using Suc.prems by (simp add: less_eq_div_iff_mult_less_eq mult.commute)
  moreover have "n div b < b ^ Suc k" using Suc.prems by (simp add: div_less_iff_less_mult mult.commute)
  ultimately have "length (show_radix b (n div b)) = Suc k" using Suc by blast
  moreover have "b \<le> n"
  proof -
    have "b * 1 \<le> b * b ^ k" using Suc.prems(1) by (intro mult_le_mono2) simp
    then show ?thesis using Suc.prems(2) by (simp only: power_Suc mult_1_right)
  qed
  ultimately show ?case using Suc.prems(1) by (subst show_radix.simps) simp
qed (subst show_radix.simps, simp)

lemma length_show_nat_le: "length (show_nat n) \<le> Suc k \<longleftrightarrow> n < 10 ^ Suc k"
proof (induction k arbitrary: n)
  case 0
  then show ?case by (subst show_nat.simps) (auto simp: Suc_le_eq)
next
  case (Suc k)
  have "length (show_nat n) \<le> Suc (Suc k) \<longleftrightarrow> n < 10 \<or> n div 10 < 10 ^ Suc k"
    using Suc [of "n div 10"] by (subst show_nat.simps) simp
  also have "n div 10 < 10 ^ Suc k \<longleftrightarrow> n < 10 ^ Suc (Suc k)"
    by (simp add: div_less_iff_less_mult mult.commute)
  finally show ?case by (auto intro: less_le_trans)
qed

text \<open>generateA1 returns a 52-character cookie, the first 46 characters of which are the
  time, the random part and the fixed tail, except that it panics exactly when the checksum of
  that part has fewer than six decimal digits: the slice then runs past the end. The time is
  any millisecond clock between 2004 and 2527.\<close>

theorem generateA1_outcome:
  assumes "16 ^ 10 \<le> nowMs" and "nowMs < 16 ^ 11" and "length draws = 30"
  shows "generateA1 nowMs draws =
    (if unat (checksumIEEE (bytes_of (a1Part nowMs draws))) < 100000 then None
     else Some (a1Part nowMs draws @
       take 6 (show_nat (unat (checksumIEEE (bytes_of (a1Part nowMs draws)))))))"
proof -
  let ?p = "a1Part nowMs draws"
  let ?c = "unat (checksumIEEE (bytes_of ?p))"
  have "length (show_radix 16 nowMs) = 11"
    using length_show_radix [of 16 10 nowMs] assms by simp
  then have p: "length ?p = 46" using assms by (simp add: a1Part_def)
  have "length (show_nat ?c) \<le> 5 \<longleftrightarrow> ?c < 100000"
    using length_show_nat_le [of ?c 4] by simp
  then have "length (?p @ show_nat ?c) < 52 \<longleftrightarrow> ?c < 100000" using p by auto
  then show ?thesis using p by (simp add: generateA1_def Let_def)
qed

lemma generateA1_outcome_witness:
  "generateA1 1767225600000 (replicate 30 0) = None \<longleftrightarrow>
     unat (checksumIEEE (bytes_of (a1Part 1767225600000 (replicate 30 0)))) < 100000"
  by (subst generateA1_outcome) simp_all

text \<open>The sharding key is always one of 1 to 100: the murmur hash is reduced as an
  unsigned word, so no user id gives a key outside the range, and an anonymous draw stays in 10
  to 100.\<close>

theorem shardingKey_range:
  assumes "draw < 91"
  shows "1 \<le> shardingKey draw userID \<and> shardingKey draw userID \<le> 100"
proof -
  have "unat (w mod 100) < 100" for w :: u32
    by (simp add: unat_mod)
  then have k: "int (unat (w mod 100)) < 100" for w :: u32
    by (simp only: of_nat_less_numeral_iff)
  show ?thesis
  proof (cases "userID = []")
    case True
    then show ?thesis using assms by (simp add: shardingKey_def)
  next
    case False
    define w where "w = shardFinal (length (bytes_of userID))
      (shardTail (drop (4 * (length (bytes_of userID) div 4)) (bytes_of userID))
        (shardBlocks (bytes_of userID) 151488))"
    have "shardingKey draw userID = int (unat (w mod 100)) + 1"
      unfolding shardingKey_def Let_def w_def by (simp only: False if_False)
    moreover have "0 \<le> int (unat (w mod 100))" by (rule of_nat_0_le_iff)
    ultimately show ?thesis using k [of w] by linarith
  qed
qed

lemma shardingKey_range_witness: "1 \<le> shardingKey 7 ''u1'' \<and> shardingKey 7 ''u1'' \<le> 100"
  by (rule shardingKey_range) simp

end
