(* ===== verification/Xhs_Fingerprint.thy ===== *)
theory Xhs_Fingerprint
  imports Xhs_Sign
begin

text \<open>
  The browser fingerprint of the xhs back end (\<open>src/fbprotocols/xhs/fingerprint.go\<close>), the RC4
  cipher it is encrypted with, and the cached x-s-common header of \<open>sign.go\<close>.
\<close>

section \<open>RC4\<close>

type_synonym rc4_state = "byte list \<times> byte"

definition swap_at :: "byte \<Rightarrow> byte \<Rightarrow> byte list \<Rightarrow> byte list" where
  "swap_at i j s = s[unat i := s ! unat j, unat j := s ! unat i]"

definition rc4_ksa :: "bytes \<Rightarrow> byte list" where
  "rc4_ksa key =
     fst (fold (\<lambda>i (s, j). let j' = j + s ! i + key ! (i mod length key) in (swap_at (word_of_nat i) j' s, j'))
       [0..<256] (map word_of_nat [0..<256], 0))"

text \<open>One output byte of the generator; the state holds the table and both indices.\<close>

definition rc4_next :: "byte list \<times> byte \<times> byte \<Rightarrow> byte \<times> byte list \<times> byte \<times> byte" where
  "rc4_next = (\<lambda>(s, i, j).
     let i' = i + 1; j' = j + s ! unat i'; s' = swap_at i' j' s
     in (s' ! unat (s' ! unat i' + s' ! unat j'), s', i', j'))"

fun rc4_stream :: "nat \<Rightarrow> byte list \<times> byte \<times> byte \<Rightarrow> bytes" where
  "rc4_stream 0 st = []"
| "rc4_stream (Suc n) st = (case rc4_next st of (b, st') \<Rightarrow> b # rc4_stream n st')"

text \<open>\<open>rc4.NewCipher\<close> rejects an empty key and one above 256 bytes; the caller then panics.\<close>

definition rc4Encrypt :: "bytes \<Rightarrow> bytes \<Rightarrow> bytes option" where
  "rc4Encrypt key src =
     (if key = [] \<or> 256 < length key then None
      else Some (xor_bytes src (rc4_stream (length src) (rc4_ksa key, 0, 0))))"

lemma length_rc4_stream [simp]: "length (rc4_stream n st) = n"
  by (induction n arbitrary: st) (auto split: prod.splits)

lemma rc4_twice: "rc4Encrypt key src = Some c \<Longrightarrow> rc4Encrypt key c = Some src"
  by (auto simp: rc4Encrypt_def xor_bytes_cancel split: if_splits)

section \<open>The payload\<close>

record b1Payload =
  X33 :: string
  X34 :: string
  X35 :: string
  X36 :: string
  X37 :: string
  X38 :: string
  X39 :: int
  X42 :: string
  X43 :: string
  X44 :: string
  X45 :: string
  X46 :: string
  X48 :: string
  X49 :: string
  X50 :: string
  X51 :: string
  X52 :: string
  X82 :: string

definition canvasHash :: string where "canvasHash = ''742cc32c''"
definition b1FlagsX37 :: string where
  "b1FlagsX37 = ''0|0|0|0|0|0|0|0|0|1|0|0|0|0|0|0|0|0|1|0|0|0|0|0''"
definition b1FlagsX38 :: string where
  "b1FlagsX38 = ''0|0|1|0|1|0|0|0|0|0|1|0|1|0|1|0|0|0|0|0|0|0|0|0|0|0|0|0|0|0|0|0|0|0|0|0|0|0|0''"
definition b1SecCavity :: string where
  "b1SecCavity = ''__SEC_CAV__1-1-1-1-1|__SEC_WSA__|''"
definition b1X82Markers :: string where "b1X82Markers = ''_0x17a2|_0x1954''"
definition b1SecretKey :: string where "b1SecretKey = ''xhswebmplfbt''"

text \<open>\<open>draw\<close> is the result of \<open>rand.Intn(max - min)\<close>.\<close>

definition randInt :: "int \<Rightarrow> int \<Rightarrow> nat \<Rightarrow> int" where
  "randInt lo hi draw = int draw + lo"

definition buildB1Payload :: "int \<Rightarrow> nat \<Rightarrow> b1Payload" where
  "buildB1Payload nowMs draw =
     \<lparr>X33 = ''0'', X34 = ''0'', X35 = ''0'', X36 = itoa (randInt 1 20 draw),
      X37 = b1FlagsX37, X38 = b1FlagsX38, X39 = 0, X42 = ''3.4.4'', X43 = canvasHash,
      X44 = itoa nowMs, X45 = b1SecCavity, X46 = ''false'', X48 = [], X49 = ''{list:[],type:}'',
      X50 = [], X51 = [], X52 = [], X82 = b1X82Markers\<rparr>"

definition marshalCompact :: "b1Payload \<Rightarrow> string" where
  "marshalCompact p =
     json_object [(''x33'', json_quote False (X33 p)), (''x34'', json_quote False (X34 p)),
       (''x35'', json_quote False (X35 p)), (''x36'', json_quote False (X36 p)),
       (''x37'', json_quote False (X37 p)), (''x38'', json_quote False (X38 p)),
       (''x39'', itoa (X39 p)), (''x42'', json_quote False (X42 p)), (''x43'', json_quote False (X43 p)),
       (''x44'', json_quote False (X44 p)), (''x45'', json_quote False (X45 p)),
       (''x46'', json_quote False (X46 p)), (''x48'', json_quote False (X48 p)),
       (''x49'', json_quote False (X49 p)), (''x50'', json_quote False (X50 p)),
       (''x51'', json_quote False (X51 p)), (''x52'', json_quote False (X52 p)),
       (''x82'', json_quote False (X82 p))]"

definition urllibSafe :: "byte \<Rightarrow> bool" where
  "urllibSafe b \<longleftrightarrow> (97 \<le> b \<and> b \<le> 122) \<or> (65 \<le> b \<and> b \<le> 90) \<or> (48 \<le> b \<and> b \<le> 57) \<or>
     b \<in> set (bytes_of ''-_.~!*'' @ [39] @ bytes_of ''()'')"

definition urllibQuoteASCII :: "bytes \<Rightarrow> bytes" where
  "urllibQuoteASCII s =
     concat (map (\<lambda>b. if urllibSafe b then [b]
       else [37, upper_hex (unat (drop_bit 4 b)), upper_hex (unat (b AND 15))]) s)"

text \<open>The loop over the segments behind the first percent sign.\<close>

fun reconSegments :: "bytes list \<Rightarrow> error + bytes" where
  "reconSegments [] = Inr []"
| "reconSegments (seg # segs) =
     (if length seg < 2
      then (case reconSegments segs of Inl e \<Rightarrow> Inl e | Inr r \<Rightarrow> Inr (seg @ r))
      else case hex_decode (string_of (take 2 seg)) of
             None \<Rightarrow> Inl ''xhs: generate b1: bad %segment''
           | Some b \<Rightarrow>
               (case reconSegments segs of Inl e \<Rightarrow> Inl e | Inr r \<Rightarrow> Inr (b ! 0 # drop 2 seg @ r)))"

definition reconstruct :: "bytes \<Rightarrow> error + bytes" where
  "reconstruct ciphertext =
     (let segments = split_on 37 (urllibQuoteASCII ciphertext)
      in if length segments = 1 then Inl ''xhs: generate b1: no encoded segments in quote output''
         else reconSegments (tl segments))"

text \<open>\<open>None\<close> is the panic of an unusable RC4 key, which the constant key excludes.\<close>

definition generateB1 :: "int \<Rightarrow> nat \<Rightarrow> (error + string) option" where
  "generateB1 nowMs draw =
     (case rc4Encrypt (bytes_of b1SecretKey) (bytes_of (marshalCompact (buildB1Payload nowMs draw))) of
        None \<Rightarrow> None
      | Some ciphertext \<Rightarrow>
          Some (case reconstruct ciphertext of
             Inl e \<Rightarrow> Inl e
           | Inr recon \<Rightarrow> Inr (encodeCustom newBasicEncoders recon)))"

section \<open>What the quote-and-reconstruct loop keeps\<close>

definition quotedByte :: "byte \<Rightarrow> bytes" where
  "quotedByte b = [upper_hex (unat b div 16), upper_hex (unat b mod 16)]"

lemma urllibQuote_Cons:
  "urllibQuoteASCII (b # s) = (if urllibSafe b then [b] else 37 # quotedByte b) @ urllibQuoteASCII s"
  by (simp add: urllibQuoteASCII_def quotedByte_def hi_nibble lo_nibble)

lemma safe_not_percent: "urllibSafe b \<Longrightarrow> b \<noteq> 37"
  by (auto simp: urllibSafe_def bytes_of_def byte_of_def)

lemma upper_hex_facts:
  assumes "n < 16"
  shows "upper_hex n \<noteq> 37" "hex_val (char_of_byte (upper_hex n)) = Some n"
proof -
  have "list_all (\<lambda>n. upper_hex n \<noteq> 37 \<and> hex_val (char_of_byte (upper_hex n)) = Some n) [0..<16]"
    by code_simp
  then show "upper_hex n \<noteq> 37" "hex_val (char_of_byte (upper_hex n)) = Some n"
    using assms by (auto simp: list_all_iff)
qed

lemma nibbles_less: "unat (b :: byte) div 16 < 16" "unat b mod 16 < 16"
  using unat_byte_less [of b] by (linarith, simp)

lemma hex_decode_quotedByte: "hex_decode (string_of (quotedByte b)) = Some [b]"
proof -
  have "16 * (unat b div 16) + unat b mod 16 = unat b" by simp
  then show ?thesis
    using upper_hex_facts(2) nibbles_less by (simp add: quotedByte_def string_of_def del: mult_div_mod_eq)
qed

lemma quotedByte_no_percent: "37 \<notin> set (quotedByte b)"
  using upper_hex_facts(1) nibbles_less unfolding quotedByte_def by fastforce

lemma split_quote:
  "split_on 37 (urllibQuoteASCII s) =
     takeWhile urllibSafe s #
     (case dropWhile urllibSafe s of [] \<Rightarrow> [] | b # r \<Rightarrow>
        (case split_on 37 (urllibQuoteASCII r) of x # xs \<Rightarrow> (quotedByte b @ x) # xs | [] \<Rightarrow> []))"
proof (induction s)
  case Nil
  then show ?case by (simp add: urllibQuoteASCII_def)
next
  case (Cons b s)
  have app: "split_on 37 (p @ q) = (case split_on 37 q of x # xs \<Rightarrow> (p @ x) # xs | [] \<Rightarrow> [])"
    if "37 \<notin> set p" for p q :: bytes
    using that by (induction p) (auto split: list.splits)
  show ?case
  proof (cases "urllibSafe b")
    case True
    then show ?thesis using Cons safe_not_percent [of b] by (simp add: urllibQuote_Cons)
  next
    case False
    then show ?thesis
      using app [OF quotedByte_no_percent, of b "urllibQuoteASCII s"] by (simp add: urllibQuote_Cons)
  qed
qed

lemma reconSegments_quote:
  "reconSegments (tl (split_on 37 (urllibQuoteASCII s))) = Inr (dropWhile urllibSafe s)"
proof (induction "length s" arbitrary: s rule: less_induct)
  case less
  show ?case
  proof (cases "dropWhile urllibSafe s")
    case Nil
    show ?thesis by (subst split_quote) (simp only: Nil list.case list.sel reconSegments.simps)
  next
    case (Cons b r)
    then have "length r < length s"
      using length_dropWhile_le [of urllibSafe s] by simp
    from less [OF this] have ih: "reconSegments (tl (split_on 37 (urllibQuoteASCII r))) = Inr (dropWhile urllibSafe r)" .
    obtain xs where sp: "split_on 37 (urllibQuoteASCII r) = takeWhile urllibSafe r # xs"
      by (metis split_quote)
    have "reconSegments ((quotedByte b @ takeWhile urllibSafe r) # xs) = Inr (b # r)"
      using ih sp hex_decode_quotedByte [of b] by (simp add: quotedByte_def)
    then show ?thesis using Cons sp by (subst split_quote) simp
  qed
qed

lemma reconstruct_quote:
  "reconstruct c =
     (if dropWhile urllibSafe c = [] then Inl ''xhs: generate b1: no encoded segments in quote output''
      else Inr (dropWhile urllibSafe c))"
proof (cases "dropWhile urllibSafe c")
  case Nil
  have "split_on 37 (urllibQuoteASCII c) = [takeWhile urllibSafe c]"
    by (subst split_quote) (simp only: Nil list.case)
  then show ?thesis using Nil by (simp add: reconstruct_def)
next
  case (Cons b r)
  have "length (split_on 37 (urllibQuoteASCII c)) \<noteq> 1"
  proof
    assume "length (split_on 37 (urllibQuoteASCII c)) = 1"
    then have "tl (split_on 37 (urllibQuoteASCII c)) = []"
      by (cases "split_on 37 (urllibQuoteASCII c)") simp_all
    with reconSegments_quote [of c] Cons show False by simp
  qed
  then show ?thesis using reconSegments_quote [of c] Cons by (simp add: reconstruct_def Let_def)
qed

text \<open>What the fingerprint header carries: the quote-and-reconstruct loop of generateB1
  drops exactly the leading bytes of the ciphertext that need no escape and keeps all others
  unchanged, so the header is the whole RC4 ciphertext of the JSON whenever its first byte is
  not URL-safe; it fails only when no byte needs an escape, and never panics.\<close>

theorem generateB1_content:
  "\<exists>c. rc4Encrypt (bytes_of b1SecretKey) c = Some (bytes_of (marshalCompact (buildB1Payload nowMs draw))) \<and>
     generateB1 nowMs draw = Some
       (case dropWhile urllibSafe c of
          [] \<Rightarrow> Inl ''xhs: generate b1: no encoded segments in quote output''
        | b # r \<Rightarrow> Inr (encodeCustom newBasicEncoders (b # r)))"
proof -
  let ?json = "bytes_of (marshalCompact (buildB1Payload nowMs draw))"
  have "bytes_of b1SecretKey \<noteq> [] \<and> \<not> 256 < length (bytes_of b1SecretKey)"
    by (simp add: b1SecretKey_def bytes_of_def)
  then obtain c where c: "rc4Encrypt (bytes_of b1SecretKey) ?json = Some c"
    by (auto simp: rc4Encrypt_def)
  show ?thesis
  proof (intro exI conjI)
    show "rc4Encrypt (bytes_of b1SecretKey) c = Some ?json" by (rule rc4_twice [OF c])
    show "generateB1 nowMs draw = Some
       (case dropWhile urllibSafe c of
          [] \<Rightarrow> Inl ''xhs: generate b1: no encoded segments in quote output''
        | b # r \<Rightarrow> Inr (encodeCustom newBasicEncoders (b # r)))"
      unfolding generateB1_def c option.case reconstruct_quote
      by (cases "dropWhile urllibSafe c") (simp_all del: dropWhile_eq_Nil_conv)
  qed
qed

section \<open>The cached x-s-common header\<close>

record xscCache =
  xscKey :: string
  xscVal :: string

definition xsc_envelope :: "string \<Rightarrow> string \<Rightarrow> string \<Rightarrow> string \<Rightarrow> string" where
  "xsc_envelope a1 sdkVer webBuild b1 =
     json_object [(''s0'', ''5''), (''s1'', json_quote True []), (''x0'', json_quote True ''1''),
       (''x1'', json_quote True sdkVer), (''x2'', json_quote True ''Windows''),
       (''x3'', json_quote True ''xhs-pc-web''), (''x4'', json_quote True webBuild),
       (''x5'', json_quote True a1), (''x6'', json_quote True []), (''x7'', json_quote True []),
       (''x8'', json_quote True b1), (''x9'', itoa (sint (crc32JSString b1))),
       (''x10'', ''0''), (''x11'', json_quote True ''normal'')]"

definition signXSCommon ::
  "int \<Rightarrow> nat \<Rightarrow> (string \<Rightarrow> string option) \<Rightarrow> string \<Rightarrow> string \<Rightarrow> xscCache \<Rightarrow> (error + string) option \<times> xscCache"
where
  "signXSCommon nowMs draw cookies sdkVer webBuild st =
     (let a1 = (case cookies ''a1'' of Some v \<Rightarrow> v | None \<Rightarrow> []) in
      if a1 = [] then (Some (Inl ''xhs: sign x-s-common: missing a1 cookie''), st)
      else
        (let key = a1 @ ''|'' @ sdkVer @ ''|'' @ webBuild in
         if xscVal st \<noteq> [] \<and> xscKey st = key then (Some (Inr (xscVal st)), st)
         else case generateB1 nowMs draw of
             None \<Rightarrow> (None, st)
           | Some (Inl e) \<Rightarrow> (Some (Inl e), st)
           | Some (Inr b1) \<Rightarrow>
               (let v = encodeCustom newBasicEncoders (bytes_of (xsc_envelope a1 sdkVer webBuild b1))
                in (Some (Inr v), st\<lparr>xscVal := v, xscKey := key\<rparr>))))"

lemma encodeCustom_not_Nil: "bs \<noteq> [] \<Longrightarrow> encodeCustom e bs \<noteq> []"
proof -
  assume "bs \<noteq> []"
  then have "0 < length (b64_encode bs)"
    by (cases bs) (simp_all add: length_b64_encode)
  then show ?thesis by (simp add: encodeCustom_def translate_def)
qed

lemma xsc_envelope_not_Nil: "bytes_of (xsc_envelope a s w b) \<noteq> []"
  by (simp add: xsc_envelope_def json_object_def bytes_of_def)

text \<open>The fingerprint header is stable: after one call returned a header, every later call
  for the same a1 cookie, SDK version and web build returns the same header whatever the clock
  and the random draws then are, and leaves the cache as it is.\<close>

theorem signXSCommon_stable:
  assumes "signXSCommon nowMs draw cookies sdkVer webBuild st = (Some (Inr v), st')"
    and "cookies' ''a1'' = cookies ''a1''"
  shows "signXSCommon nowMs' draw' cookies' sdkVer webBuild st' = (Some (Inr v), st')"
  using assms encodeCustom_not_Nil [OF xsc_envelope_not_Nil]
  by (auto simp: signXSCommon_def Let_def split: if_splits option.splits sum.splits)

definition xscDemo :: xscCache where
  "xscDemo = \<lparr>xscKey = ''u|4.3.5|4.86.0'', xscVal = ''hdr''\<rparr>"

lemma signXSCommon_stable_witness:
  "signXSCommon 9 4 [''a1'' \<mapsto> ''u'', ''b'' \<mapsto> ''c''] ''4.3.5'' ''4.86.0'' xscDemo = (Some (Inr ''hdr''), xscDemo)"
  by (rule signXSCommon_stable [of 1 2 "[''a1'' \<mapsto> ''u'']" _ _ xscDemo])
     (simp_all add: signXSCommon_def xscDemo_def)

end
