(* ===== verification/Matrix_Profile.thy ===== *)
theory Matrix_Profile
  imports Prelude
begin

text \<open>
  Room and member attributes of the Matrix back end: the records of
  \<open>src/fbprotocols/matrixlite/roomprofile.go\<close> and \<open>memberprofile.go\<close>, the folding of state
  events, sliding-sync summaries and HTTP answers into them, the merge of two profiles, and the
  projections that are published.

  A Go pointer to a string is an option: \<open>None\<close> is the nil pointer ("not supplied"), \<open>Some []\<close> a
  pointer to the empty string ("cleared"). Values are copied, so \<open>clone\<close> is the identity.
\<close>

section \<open>Name quality\<close>

datatype nameQuality = NameQualityNil | NameQualityCanonicalAlias | NameQualityExplicit

fun quality_value :: "nameQuality \<Rightarrow> int" where
  "quality_value NameQualityNil = 0"
| "quality_value NameQualityCanonicalAlias = 2"
| "quality_value NameQualityExplicit = 3"

instantiation nameQuality :: linorder
begin

definition less_eq_nameQuality :: "nameQuality \<Rightarrow> nameQuality \<Rightarrow> bool" where
  "less_eq_nameQuality a b \<longleftrightarrow> quality_value a \<le> quality_value b"

definition less_nameQuality :: "nameQuality \<Rightarrow> nameQuality \<Rightarrow> bool" where
  "less_nameQuality a b \<longleftrightarrow> quality_value a < quality_value b"

lemma quality_value_inj: "quality_value a = quality_value b \<Longrightarrow> a = b"
  by (cases a; cases b) simp_all

instance
  by standard (auto simp: less_eq_nameQuality_def less_nameQuality_def quality_value_inj)

end

lemma nameQuality_le [simp]:
  "NameQualityNil \<le> q" "q \<le> NameQualityExplicit"
  "NameQualityCanonicalAlias \<le> q \<longleftrightarrow> q \<noteq> NameQualityNil"
  "q \<le> NameQualityCanonicalAlias \<longleftrightarrow> q \<noteq> NameQualityExplicit"
  "q < NameQualityExplicit \<longleftrightarrow> q \<noteq> NameQualityExplicit"
  by (cases q; simp add: less_eq_nameQuality_def less_nameQuality_def)+

section \<open>Room profiles\<close>

definition zeroTime :: time where
  "zeroTime = - 62135596800 * 1000000000"

record roomProfile =
  rpName :: "string option"
  rpNameQuality :: nameQuality
  rpAvatar :: "string option"
  rpExplicitAvatar :: bool
  rpTopic :: "string option"
  rpAlias :: "string option"
  rpRoomType :: string
  rpRoomVersion :: string
  rpFederated :: "bool option"
  rpMemberCount :: int
  rpLastSeen :: time
  rpFetchedAt :: time
  rpFetchFailed :: bool

definition emptyRoomProfile :: roomProfile where
  "emptyRoomProfile =
     \<lparr>rpName = None, rpNameQuality = NameQualityNil, rpAvatar = None, rpExplicitAvatar = False,
      rpTopic = None, rpAlias = None, rpRoomType = [], rpRoomVersion = [], rpFederated = None,
      rpMemberCount = 0, rpLastSeen = zeroTime, rpFetchedAt = zeroTime, rpFetchFailed = False\<rparr>"

definition supplied :: "string option \<Rightarrow> bool" where
  "supplied s \<longleftrightarrow> s \<noteq> None \<and> s \<noteq> Some []"

definition shouldReplaceString :: "string option \<Rightarrow> string option \<Rightarrow> bool" where
  "shouldReplaceString old nxt =
     (if \<not> supplied nxt then False else (case old of None \<Rightarrow> True | Some o' \<Rightarrow> Some o' \<noteq> nxt))"

definition mergeFrom :: "roomProfile \<Rightarrow> roomProfile \<Rightarrow> roomProfile \<times> bool" where
  "mergeFrom p src =
     (let (p, ch) = (if shouldReplaceString (rpName p) (rpName src) \<and> rpNameQuality p \<le> rpNameQuality src
                     then (p\<lparr>rpName := rpName src, rpNameQuality := rpNameQuality src\<rparr>, True) else (p, False));
          (p, ch) = (if shouldReplaceString (rpAvatar p) (rpAvatar src)
                     then (p\<lparr>rpAvatar := rpAvatar src, rpExplicitAvatar := rpExplicitAvatar src\<rparr>, True) else (p, ch));
          (p, ch) = (if shouldReplaceString (rpTopic p) (rpTopic src)
                     then (p\<lparr>rpTopic := rpTopic src\<rparr>, True) else (p, ch));
          (p, ch) = (if shouldReplaceString (rpAlias p) (rpAlias src)
                     then (p\<lparr>rpAlias := rpAlias src\<rparr>, True) else (p, ch));
          (p, ch) = (if rpRoomType src \<noteq> [] then (p\<lparr>rpRoomType := rpRoomType src\<rparr>, True) else (p, ch));
          (p, ch) = (if rpRoomVersion src \<noteq> [] then (p\<lparr>rpRoomVersion := rpRoomVersion src\<rparr>, True) else (p, ch));
          (p, ch) = (if rpFederated src \<noteq> None then (p\<lparr>rpFederated := rpFederated src\<rparr>, True) else (p, ch));
          (p, ch) = (if 0 < rpMemberCount src then (p\<lparr>rpMemberCount := rpMemberCount src\<rparr>, True) else (p, ch))
      in (p, ch))"

record RoomProfileWire =
  wName :: string
  wAvatarURL :: string
  wTopic :: string
  wAlias :: string
  wNumJoinedMembers :: int
  wRoomType :: string
  wRoomVersion :: string
  wFederated :: "bool option"

definition deref :: "string option \<Rightarrow> string" where
  "deref s = (case s of Some v \<Rightarrow> v | None \<Rightarrow> [])"

definition room_wire :: "roomProfile \<Rightarrow> RoomProfileWire" where
  "room_wire p =
     \<lparr>wName = deref (rpName p), wAvatarURL = deref (rpAvatar p), wTopic = deref (rpTopic p),
      wAlias = deref (rpAlias p), wNumJoinedMembers = rpMemberCount p, wRoomType = rpRoomType p,
      wRoomVersion = rpRoomVersion p, wFederated = rpFederated p\<rparr>"

definition room_hasVisibleData :: "roomProfile \<Rightarrow> bool" where
  "room_hasVisibleData p \<longleftrightarrow>
     supplied (rpName p) \<or> supplied (rpAvatar p) \<or> supplied (rpTopic p) \<or> supplied (rpAlias p) \<or>
     rpRoomType p \<noteq> [] \<or> rpRoomVersion p \<noteq> [] \<or> 0 < rpMemberCount p \<or> rpFederated p \<noteq> None"

subsection \<open>State events\<close>

text \<open>A decoded JSON value, as far as the type assertions of the code distinguish them.\<close>

datatype jval = JString string | JBool bool | JOther

type_synonym content = "string \<Rightarrow> jval option"

definition as_string :: "content \<Rightarrow> string \<Rightarrow> string" where
  "as_string c k = (case c k of Some (JString s) \<Rightarrow> s | _ \<Rightarrow> [])"

definition applyName :: "string \<Rightarrow> nameQuality \<Rightarrow> roomProfile \<Rightarrow> roomProfile" where
  "applyName name q p =
     (if name \<noteq> [] then p\<lparr>rpName := Some name, rpNameQuality := q\<rparr>
      else if supplied (rpAlias p) then p\<lparr>rpName := rpAlias p, rpNameQuality := NameQualityCanonicalAlias\<rparr>
      else p\<lparr>rpName := None, rpNameQuality := NameQualityNil\<rparr>)"

definition applyAlias :: "string \<Rightarrow> roomProfile \<Rightarrow> roomProfile" where
  "applyAlias alias p =
     (let p = p\<lparr>rpAlias := Some alias\<rparr>
      in if alias = [] then
           (if rpNameQuality p \<le> NameQualityCanonicalAlias
            then p\<lparr>rpName := None, rpNameQuality := NameQualityNil\<rparr> else p)
         else if rpNameQuality p \<le> NameQualityCanonicalAlias
           then p\<lparr>rpName := Some alias, rpNameQuality := NameQualityCanonicalAlias\<rparr>
         else p)"

definition applyCreate :: "content \<Rightarrow> roomProfile \<Rightarrow> roomProfile" where
  "applyCreate c p =
     (let p = (if as_string c ''type'' \<noteq> [] then p\<lparr>rpRoomType := as_string c ''type''\<rparr> else p);
          p = (if as_string c ''room_version'' \<noteq> [] then p\<lparr>rpRoomVersion := as_string c ''room_version''\<rparr> else p)
      in case c ''m.federate'' of Some (JBool b) \<Rightarrow> p\<lparr>rpFederated := Some b\<rparr> | _ \<Rightarrow> p)"

definition applyStateEvent :: "string \<Rightarrow> string \<Rightarrow> content \<Rightarrow> roomProfile \<Rightarrow> roomProfile \<times> bool" where
  "applyStateEvent evType stateKey c p =
     (if stateKey \<noteq> [] then (p, False)
      else if evType = ''m.room.create'' then (applyCreate c p, True)
      else if evType = ''m.room.name'' then (applyName (as_string c ''name'') NameQualityExplicit p, True)
      else if evType = ''m.room.canonical_alias'' then (applyAlias (as_string c ''alias'') p, True)
      else if evType = ''m.room.avatar''
        then (p\<lparr>rpAvatar := Some (as_string c ''url''), rpExplicitAvatar := True\<rparr>, True)
      else if evType = ''m.room.topic'' then (p\<lparr>rpTopic := Some (as_string c ''topic'')\<rparr>, True)
      else (p, False))"

record mxStateEvent =
  evType :: string
  evStateKey :: string
  evContent :: content

text \<open>\<open>dec\<close> is the JSON decoding of one raw event, \<open>None\<close> where \<open>json.Unmarshal\<close> fails.\<close>

definition applyRaw :: "('raw \<Rightarrow> mxStateEvent option) \<Rightarrow> 'raw \<Rightarrow> roomProfile \<times> bool \<Rightarrow> roomProfile \<times> bool" where
  "applyRaw dec raw = (\<lambda>(p, got).
     case dec raw of
       None \<Rightarrow> (p, got)
     | Some ev \<Rightarrow>
         if evType ev = [] then (p, got)
         else (case applyStateEvent (evType ev) (evStateKey ev) (evContent ev) p of
                 (p', g) \<Rightarrow> (p', got \<or> g)))"

definition profileFromStateEvents :: "('raw \<Rightarrow> mxStateEvent option) \<Rightarrow> 'raw list \<Rightarrow> roomProfile option" where
  "profileFromStateEvents dec raws =
     (if raws = [] then None
      else case fold (applyRaw dec) raws (emptyRoomProfile, False) of
             (p, got) \<Rightarrow> if got then Some p else None)"

definition applySlidingSummary ::
  "string option \<Rightarrow> string option \<Rightarrow> string option \<Rightarrow> int option \<Rightarrow> roomProfile \<Rightarrow> roomProfile"
where
  "applySlidingSummary name avatar topic joined p =
     (let p = (if rpNameQuality p < NameQualityExplicit \<and> supplied name
               then p\<lparr>rpName := name, rpNameQuality := NameQualityExplicit\<rparr> else p);
          p = (if rpAvatar p = None \<and> avatar \<noteq> None
               then p\<lparr>rpAvatar := avatar, rpExplicitAvatar := True\<rparr> else p);
          p = (if rpTopic p = None \<and> topic \<noteq> None then p\<lparr>rpTopic := topic\<rparr> else p)
      in case joined of Some n \<Rightarrow> (if 0 < n then p\<lparr>rpMemberCount := n\<rparr> else p) | None \<Rightarrow> p)"

record 'raw slidingRoom =
  slName :: "string option"
  slAvatar :: "string option"
  slTopic :: "string option"
  slJoinedCount :: "int option"
  slRequiredState :: "'raw list"

definition profileFromSlidingRoom ::
  "('raw \<Rightarrow> mxStateEvent option) \<Rightarrow> 'raw slidingRoom \<Rightarrow> roomProfile option"
where
  "profileFromSlidingRoom dec room =
     (let p = (case profileFromStateEvents dec (slRequiredState room) of
                 Some p \<Rightarrow> p | None \<Rightarrow> emptyRoomProfile)
      in if rpName p = None \<and> rpAvatar p = None \<and> rpTopic p = None \<and> rpAlias p = None \<and>
            rpRoomType p = [] \<and> rpRoomVersion p = [] \<and> rpFederated p = None \<and> rpMemberCount p = 0 \<and>
            slName room = None \<and> slAvatar room = None \<and> slTopic room = None \<and> slJoinedCount room = None
         then None
         else Some (applySlidingSummary (slName room) (slAvatar room) (slTopic room) (slJoinedCount room) p))"

record roomSummaryResp =
  srName :: string
  srTopic :: string
  srAvatarURL :: string
  srCanonicalAlias :: string
  srNumJoinedMembers :: int
  srRoomType :: string
  srRoomVersion :: string

definition toProfile :: "roomSummaryResp \<Rightarrow> roomProfile" where
  "toProfile sr =
     (let p = emptyRoomProfile\<lparr>rpRoomType := srRoomType sr, rpRoomVersion := srRoomVersion sr\<rparr>;
          p = (if srName sr \<noteq> [] then p\<lparr>rpName := Some (srName sr), rpNameQuality := NameQualityExplicit\<rparr> else p);
          p = (if srTopic sr \<noteq> [] then p\<lparr>rpTopic := Some (srTopic sr)\<rparr> else p);
          p = (if srAvatarURL sr \<noteq> [] then p\<lparr>rpAvatar := Some (srAvatarURL sr), rpExplicitAvatar := True\<rparr> else p);
          p = (if srCanonicalAlias sr \<noteq> [] then p\<lparr>rpAlias := Some (srCanonicalAlias sr)\<rparr> else p)
      in if 0 < srNumJoinedMembers sr then p\<lparr>rpMemberCount := srNumJoinedMembers sr\<rparr> else p)"

section \<open>Member profiles\<close>

record memberProfile =
  mpUserID :: string
  mpDisplayName :: "string option"
  mpAvatarURL :: "string option"
  mpPresence :: string
  mpStatusMsg :: string
  mpLastSeen :: time
  mpFetchedAt :: time

definition newMemberProfile :: "string \<Rightarrow> memberProfile" where
  "newMemberProfile uid =
     \<lparr>mpUserID = uid, mpDisplayName = None, mpAvatarURL = None, mpPresence = [], mpStatusMsg = [],
      mpLastSeen = zeroTime, mpFetchedAt = zeroTime\<rparr>"

definition member_hasVisibleData :: "memberProfile \<Rightarrow> bool" where
  "member_hasVisibleData p \<longleftrightarrow>
     supplied (mpDisplayName p) \<or> supplied (mpAvatarURL p) \<or> mpPresence p \<noteq> [] \<or> mpStatusMsg p \<noteq> []"

definition member_mergeFrom :: "memberProfile \<Rightarrow> memberProfile \<Rightarrow> memberProfile \<times> bool" where
  "member_mergeFrom p src =
     (let (p, ch) = (if shouldReplaceString (mpDisplayName p) (mpDisplayName src)
                     then (p\<lparr>mpDisplayName := mpDisplayName src\<rparr>, True) else (p, False));
          (p, ch) = (if shouldReplaceString (mpAvatarURL p) (mpAvatarURL src)
                     then (p\<lparr>mpAvatarURL := mpAvatarURL src\<rparr>, True) else (p, ch));
          (p, ch) = (if mpPresence src \<noteq> [] \<and> mpPresence src \<noteq> mpPresence p
                     then (p\<lparr>mpPresence := mpPresence src\<rparr>, True) else (p, ch));
          (p, ch) = (if mpStatusMsg src \<noteq> [] \<and> mpStatusMsg src \<noteq> mpStatusMsg p
                     then (p\<lparr>mpStatusMsg := mpStatusMsg src\<rparr>, True) else (p, ch))
      in (p, ch))"

record MemberProfileWire =
  mwUserID :: string
  mwDisplayName :: string
  mwAvatarURL :: string
  mwPresence :: string
  mwStatusMsg :: string

definition emptyMemberWire :: MemberProfileWire where
  "emptyMemberWire = \<lparr>mwUserID = [], mwDisplayName = [], mwAvatarURL = [], mwPresence = [], mwStatusMsg = []\<rparr>"

definition member_wire :: "memberProfile \<Rightarrow> MemberProfileWire" where
  "member_wire p =
     \<lparr>mwUserID = mpUserID p, mwDisplayName = deref (mpDisplayName p), mwAvatarURL = deref (mpAvatarURL p),
      mwPresence = mpPresence p, mwStatusMsg = mpStatusMsg p\<rparr>"

section \<open>The room title\<close>

text \<open>
  What the title should be: the last explicit name, else the last canonical alias, else nothing.
\<close>

definition lastField :: "string \<Rightarrow> string \<Rightarrow> mxStateEvent list \<Rightarrow> string" where
  "lastField typ key evs =
     (case filter (\<lambda>e. evType e = typ \<and> evStateKey e = []) (rev evs) of
        [] \<Rightarrow> [] | e # _ \<Rightarrow> as_string (evContent e) key)"

definition titleOf :: "string \<Rightarrow> string \<Rightarrow> string option \<times> nameQuality" where
  "titleOf name alias =
     (if name \<noteq> [] then (Some name, NameQualityExplicit)
      else if alias \<noteq> [] then (Some alias, NameQualityCanonicalAlias)
      else (None, NameQualityNil))"

definition decoded :: "('raw \<Rightarrow> mxStateEvent option) \<Rightarrow> 'raw list \<Rightarrow> mxStateEvent list" where
  "decoded dec raws = concat (map (\<lambda>r. case dec r of Some e \<Rightarrow> [e] | None \<Rightarrow> []) raws)"

definition titled :: "mxStateEvent list \<Rightarrow> roomProfile \<Rightarrow> bool" where
  "titled evs p \<longleftrightarrow>
     (rpName p, rpNameQuality p) =
       titleOf (lastField ''m.room.name'' ''name'' evs) (lastField ''m.room.canonical_alias'' ''alias'' evs) \<and>
     deref (rpAlias p) = lastField ''m.room.canonical_alias'' ''alias'' evs"

lemma lastField_snoc:
  "lastField typ key (evs @ [e]) =
     (if evType e = typ \<and> evStateKey e = [] then as_string (evContent e) key else lastField typ key evs)"
  by (simp add: lastField_def)

lemma lastField_Nil [simp]: "lastField typ key [] = []"
  by (simp add: lastField_def)

lemma supplied_iff: "supplied s \<longleftrightarrow> deref s \<noteq> []"
  by (cases s) (auto simp: supplied_def deref_def)

lemma supplied_deref: "supplied s \<Longrightarrow> s = Some (deref s)"
  by (cases s) (auto simp: supplied_def deref_def)

lemma titled_applyName:
  assumes "titled evs p" and "evType e = ''m.room.name''" and "evStateKey e = []"
  shows "titled (evs @ [e]) (applyName (as_string (evContent e) ''name'') NameQualityExplicit p)"
  using assms supplied_deref [of "rpAlias p"]
  by (auto simp: titled_def applyName_def lastField_snoc titleOf_def supplied_iff)

lemma titled_applyAlias:
  assumes "titled evs p" and "evType e = ''m.room.canonical_alias''" and "evStateKey e = []"
  shows "titled (evs @ [e]) (applyAlias (as_string (evContent e) ''alias'') p)"
  using assms
  by (auto simp: titled_def applyAlias_def lastField_snoc titleOf_def deref_def Let_def split: if_splits)

lemma applyCreate_title [simp]:
  "rpName (applyCreate c p) = rpName p" "rpNameQuality (applyCreate c p) = rpNameQuality p"
  "rpAlias (applyCreate c p) = rpAlias p"
  by (simp_all add: applyCreate_def Let_def split: option.splits jval.splits)

lemma titled_event:
  assumes "titled evs p"
  shows "titled (evs @ [e]) (fst (applyStateEvent (evType e) (evStateKey e) (evContent e) p))"
proof -
  consider "evStateKey e \<noteq> []" | "evStateKey e = []" "evType e = ''m.room.name''"
    | "evStateKey e = []" "evType e = ''m.room.canonical_alias''"
    | "evType e \<noteq> ''m.room.name''" "evType e \<noteq> ''m.room.canonical_alias''"
    by blast
  then show ?thesis
  proof cases
    case 2
    then show ?thesis using titled_applyName [OF assms, of e] by (simp add: applyStateEvent_def)
  next
    case 3
    then show ?thesis using titled_applyAlias [OF assms, of e] by (simp add: applyStateEvent_def)
  qed (use assms in \<open>simp_all add: applyStateEvent_def titled_def lastField_snoc\<close>)
qed

lemma titled_fold:
  "titled (decoded dec raws) (fst (fold (applyRaw dec) raws (emptyRoomProfile, False)))"
proof (induction raws rule: rev_induct)
  case Nil
  then show ?case by (simp add: decoded_def titled_def titleOf_def emptyRoomProfile_def deref_def)
next
  case (snoc raw raws)
  obtain p got where f: "fold (applyRaw dec) raws (emptyRoomProfile, False) = (p, got)" by fastforce
  with snoc have t: "titled (decoded dec raws) p" by simp
  have g: "fold (applyRaw dec) (raws @ [raw]) (emptyRoomProfile, False) = applyRaw dec raw (p, got)"
    by (simp add: f)
  show ?case
  proof (cases "dec raw")
    case None
    then have "decoded dec (raws @ [raw]) = decoded dec raws" by (simp add: decoded_def)
    then show ?thesis unfolding g using t None by (simp add: applyRaw_def)
  next
    case (Some e)
    then have d: "decoded dec (raws @ [raw]) = decoded dec raws @ [e]" by (simp add: decoded_def)
    show ?thesis
    proof (cases "evType e = []")
      case True
      then show ?thesis unfolding g d using t Some by (simp add: applyRaw_def titled_def lastField_snoc)
    next
      case False
      then show ?thesis unfolding g d using titled_event [OF t, of e] Some
        by (cases "applyStateEvent (evType e) (evStateKey e) (evContent e) p") (simp add: applyRaw_def)
    qed
  qed
qed

text \<open>The room title does not depend on how name and alias events are interleaved: folding
  any batch of state events gives the last explicit name, or else the last canonical alias, or
  else no name, with the matching quality.\<close>

theorem profileFromStateEvents_title:
  assumes "profileFromStateEvents dec raws = Some p"
  shows "(rpName p, rpNameQuality p) =
    titleOf (lastField ''m.room.name'' ''name'' (decoded dec raws))
            (lastField ''m.room.canonical_alias'' ''alias'' (decoded dec raws))"
proof -
  have "p = fst (fold (applyRaw dec) raws (emptyRoomProfile, False))"
    using assms by (auto simp: profileFromStateEvents_def split: if_splits prod.splits)
  then show ?thesis using titled_fold [of dec raws] by (simp add: titled_def)
qed

definition demoEvent :: "string \<Rightarrow> string \<Rightarrow> string \<Rightarrow> mxStateEvent" where
  "demoEvent typ key v = \<lparr>evType = typ, evStateKey = [], evContent = [key \<mapsto> JString v]\<rparr>"

definition demoEvents :: "mxStateEvent list" where
  "demoEvents = [demoEvent ''m.room.name'' ''name'' ''Lobby'', demoEvent ''m.room.canonical_alias'' ''alias'' ''#a:x'',
     demoEvent ''m.room.name'' ''name'' []]"

definition demoTitled :: roomProfile where
  "demoTitled = emptyRoomProfile\<lparr>rpName := Some ''#a:x'', rpNameQuality := NameQualityCanonicalAlias,
     rpAlias := Some ''#a:x''\<rparr>"

lemma profileFromStateEvents_title_witness:
  "(rpName demoTitled, rpNameQuality demoTitled) =
    titleOf (lastField ''m.room.name'' ''name'' (decoded Some demoEvents))
            (lastField ''m.room.canonical_alias'' ''alias'' (decoded Some demoEvents))"
  by (rule profileFromStateEvents_title)
     (simp add: profileFromStateEvents_def demoEvents_def demoEvent_def demoTitled_def applyRaw_def
       applyStateEvent_def applyName_def applyAlias_def as_string_def supplied_def Let_def emptyRoomProfile_def)

section \<open>Merging\<close>

lemma shouldReplace_refl [simp]: "\<not> shouldReplaceString s s"
  by (auto simp: shouldReplaceString_def supplied_def split: option.splits)

lemma shouldReplace_supplied: "shouldReplaceString a b \<Longrightarrow> supplied b"
  by (auto simp: shouldReplaceString_def split: if_splits)

lemma mergeFrom_fields:
  defines "q p src \<equiv> fst (mergeFrom p src)"
  shows "rpName (q p src) = (if shouldReplaceString (rpName p) (rpName src) \<and> rpNameQuality p \<le> rpNameQuality src
           then rpName src else rpName p)"
    and "rpNameQuality (q p src) = (if shouldReplaceString (rpName p) (rpName src) \<and> rpNameQuality p \<le> rpNameQuality src
           then rpNameQuality src else rpNameQuality p)"
    and "rpAvatar (q p src) = (if shouldReplaceString (rpAvatar p) (rpAvatar src) then rpAvatar src else rpAvatar p)"
    and "rpExplicitAvatar (q p src) =
           (if shouldReplaceString (rpAvatar p) (rpAvatar src) then rpExplicitAvatar src else rpExplicitAvatar p)"
    and "rpTopic (q p src) = (if shouldReplaceString (rpTopic p) (rpTopic src) then rpTopic src else rpTopic p)"
    and "rpAlias (q p src) = (if shouldReplaceString (rpAlias p) (rpAlias src) then rpAlias src else rpAlias p)"
    and "rpRoomType (q p src) = (if rpRoomType src \<noteq> [] then rpRoomType src else rpRoomType p)"
    and "rpRoomVersion (q p src) = (if rpRoomVersion src \<noteq> [] then rpRoomVersion src else rpRoomVersion p)"
    and "rpFederated (q p src) = (if rpFederated src \<noteq> None then rpFederated src else rpFederated p)"
    and "rpMemberCount (q p src) = (if 0 < rpMemberCount src then rpMemberCount src else rpMemberCount p)"
    and "rpLastSeen (q p src) = rpLastSeen p" and "rpFetchedAt (q p src) = rpFetchedAt p"
    and "rpFetchFailed (q p src) = rpFetchFailed p"
  by (simp_all add: q_def mergeFrom_def Let_def)

lemma mergeFrom_visible:
  "room_hasVisibleData p \<Longrightarrow> room_hasVisibleData (fst (mergeFrom p src))"
  unfolding room_hasVisibleData_def mergeFrom_fields
  by (auto dest: shouldReplace_supplied simp: shouldReplaceString_def split: option.splits)

lemma member_mergeFrom_fields:
  defines "q p src \<equiv> fst (member_mergeFrom p src)"
  shows "mpUserID (q p src) = mpUserID p"
    and "mpDisplayName (q p src) =
           (if shouldReplaceString (mpDisplayName p) (mpDisplayName src) then mpDisplayName src else mpDisplayName p)"
    and "mpAvatarURL (q p src) =
           (if shouldReplaceString (mpAvatarURL p) (mpAvatarURL src) then mpAvatarURL src else mpAvatarURL p)"
    and "mpPresence (q p src) = (if mpPresence src \<noteq> [] then mpPresence src else mpPresence p)"
    and "mpStatusMsg (q p src) = (if mpStatusMsg src \<noteq> [] then mpStatusMsg src else mpStatusMsg p)"
    and "mpLastSeen (q p src) = mpLastSeen p" and "mpFetchedAt (q p src) = mpFetchedAt p"
  by (simp_all add: q_def member_mergeFrom_def Let_def)

lemma member_mergeFrom_visible:
  "member_hasVisibleData p \<Longrightarrow> member_hasVisibleData (fst (member_mergeFrom p src))"
  unfolding member_hasVisibleData_def member_mergeFrom_fields
  by (auto dest: shouldReplace_supplied simp: shouldReplaceString_def split: option.splits)

lemma shouldReplace_iff: "shouldReplaceString a b \<longleftrightarrow> supplied b \<and> a \<noteq> b"
  by (auto simp: shouldReplaceString_def supplied_def split: option.splits)

text \<open>C5: Merging a freshly synced batch into a cached room never degrades it: the name's
  quality never drops, a supplied attribute never becomes empty, a visible profile stays
  visible, an attribute the batch does not supply is kept, and merging the same batch again
  changes nothing.\<close>

theorem mergeFrom_never_degrades:
  "rpNameQuality p \<le> rpNameQuality (fst (mergeFrom p src)) \<and>
   (\<forall>f \<in> {rpName, rpAvatar, rpTopic, rpAlias}.
      (supplied (f p) \<longrightarrow> supplied (f (fst (mergeFrom p src)))) \<and>
      (\<not> supplied (f src) \<longrightarrow> f (fst (mergeFrom p src)) = f p)) \<and>
   (room_hasVisibleData p \<longrightarrow> room_hasVisibleData (fst (mergeFrom p src))) \<and>
   fst (mergeFrom (fst (mergeFrom p src)) src) = fst (mergeFrom p src)"
proof (intro conjI)
  show "fst (mergeFrom (fst (mergeFrom p src)) src) = fst (mergeFrom p src)"
    by (rule roomProfile.equality) (auto simp: mergeFrom_fields shouldReplace_iff)
qed (auto simp: mergeFrom_fields shouldReplace_iff mergeFrom_visible)

definition demoRoom :: roomProfile where
  "demoRoom = emptyRoomProfile\<lparr>rpName := Some ''Lobby'', rpNameQuality := NameQualityExplicit\<rparr>"

lemma mergeFrom_never_degrades_witness:
  "rpName (fst (mergeFrom demoRoom (emptyRoomProfile\<lparr>rpName := Some [], rpTopic := Some ''t''\<rparr>))) = Some ''Lobby''"
  using mergeFrom_never_degrades [of demoRoom "emptyRoomProfile\<lparr>rpName := Some [], rpTopic := Some ''t''\<rparr>"]
  by (simp add: demoRoom_def emptyRoomProfile_def supplied_def)

end
