(* ===== verification/Matrix_Store.thy ===== *)
theory Matrix_Store
  imports Matrix_Profile Ciphers
begin

text \<open>
  The profile caches of the Matrix back end and the worker that fills them
  (\<open>src/fbprotocols/matrixlite/roomprofile.go\<close>, \<open>memberprofile.go\<close>, with
  \<open>authErrorFromResponse\<close> of \<open>client.go\<close>): the package-level maps as one state record, the
  operations of the sync and publish paths on it, the HTTP fetches, and the tasks of the
  backfill worker.

  A client is what the server answers (\<open>cGet\<close>) and how \<open>encoding/json\<close> decodes the answers.
  \<open>clk k\<close> is the \<open>k\<close>-th reading of the clock during one call.
\<close>

section \<open>The state\<close>

definition roomProfileCooldown :: duration where "roomProfileCooldown = minutes 10"
definition roomProfileTTL :: duration where "roomProfileTTL = hours (7 * 24)"
definition memberCooldown :: duration where "memberCooldown = minutes 10"
definition memberTTL :: duration where "memberTTL = hours (7 * 24)"
definition backfillQueueSize :: nat where "backfillQueueSize = 64"
definition seedMemberLimit :: int where "seedMemberLimit = 512"
definition roomStateBodyCap :: nat where "roomStateBodyCap = 8388608"
definition memberBodyCap :: nat where "memberBodyCap = 16777216"
definition memberProfileBodyCap :: nat where "memberProfileBodyCap = 65536"

datatype backfillTask = TaskRoomSummary string | TaskMember string string

record MxState =
  profiles :: "string \<Rightarrow> roomProfile option"
  profileHost :: string
  roomAttempts :: "string \<Rightarrow> time option"
  pendingRooms :: "string set"
  members :: "string \<Rightarrow> memberProfile option"
  memberHost :: string
  memberAttempts :: "string \<Rightarrow> time option"
  seededRooms :: "string \<Rightarrow> time option"
  pendingMembers :: "string set"
  summarySupportBy :: "string \<Rightarrow> bool option"
  queue :: "backfillTask list"

definition initState :: MxState where
  "initState =
     \<lparr>profiles = Map.empty, profileHost = [], roomAttempts = Map.empty, pendingRooms = {},
      members = Map.empty, memberHost = [], memberAttempts = Map.empty, seededRooms = Map.empty,
      pendingMembers = {}, summarySupportBy = Map.empty, queue = []\<rparr>"

section \<open>The contract of a profile cache\<close>

text \<open>
  Both caches are maps whose entries are published when they are visible. What a cache relies on
  of its profiles: merging into a visible one leaves it visible. What it promises: every entry
  stays visible.
\<close>

locale profile_cache =
  fixes visible :: "'p \<Rightarrow> bool"
    and merge :: "'p \<Rightarrow> 'p \<Rightarrow> 'p"
    and seen :: "time \<Rightarrow> 'p \<Rightarrow> 'p"
  assumes visible_merge: "visible p \<Longrightarrow> visible (merge p q)"
    and visible_seen [simp]: "visible (seen t p) = visible p"
begin

definition all_visible :: "(string \<Rightarrow> 'p option) \<Rightarrow> bool" where
  "all_visible m \<longleftrightarrow> (\<forall>rid p. m rid = Some p \<longrightarrow> visible p)"

lemma all_visible_empty [simp]: "all_visible Map.empty"
  by (simp add: all_visible_def)

lemma all_visible_upd: "all_visible m \<Longrightarrow> visible p \<Longrightarrow> all_visible (m(rid \<mapsto> p))"
  by (simp add: all_visible_def)

lemma all_visible_merge: "all_visible m \<Longrightarrow> m rid = Some p \<Longrightarrow> all_visible (m(rid \<mapsto> seen t (merge p q)))"
  by (simp add: all_visible_def visible_merge)

lemma all_visible_sub:
  "all_visible m \<Longrightarrow> (\<And>rid p. m' rid = Some p \<Longrightarrow> m rid = Some p) \<Longrightarrow> all_visible m'"
  by (auto simp: all_visible_def)

end

section \<open>The room cache\<close>

definition bindProfiles :: "string \<Rightarrow> MxState \<Rightarrow> MxState" where
  "bindProfiles baseURL s =
     (if profileHost s \<noteq> baseURL
      then s\<lparr>profileHost := baseURL, profiles := Map.empty, roomAttempts := Map.empty\<rparr> else s)"

definition setSummarySupport :: "string \<Rightarrow> bool \<Rightarrow> MxState \<Rightarrow> MxState" where
  "setSummarySupport baseURL ok s = s\<lparr>summarySupportBy := (summarySupportBy s)(baseURL \<mapsto> ok)\<rparr>"

definition summarySupported :: "string \<Rightarrow> MxState \<Rightarrow> bool" where
  "summarySupported baseURL s = (case summarySupportBy s baseURL of None \<Rightarrow> True | Some b \<Rightarrow> b)"

definition RoomProfile :: "string \<Rightarrow> MxState \<Rightarrow> roomProfile option" where
  "RoomProfile roomID s = (if roomID = [] then None else profiles s roomID)"

definition emptyRoomWire :: RoomProfileWire where
  "emptyRoomWire = \<lparr>wName = [], wAvatarURL = [], wTopic = [], wAlias = [], wNumJoinedMembers = 0,
     wRoomType = [], wRoomVersion = [], wFederated = None\<rparr>"

definition RoomProfileForPublish :: "string \<Rightarrow> MxState \<Rightarrow> RoomProfileWire \<times> bool" where
  "RoomProfileForPublish roomID s =
     (case RoomProfile roomID s of
        None \<Rightarrow> (emptyRoomWire, False)
      | Some p \<Rightarrow> if room_hasVisibleData p then (room_wire p, True) else (emptyRoomWire, False))"

definition profileSnapshot :: "MxState \<Rightarrow> string \<Rightarrow> roomProfile option" where
  "profileSnapshot s = profiles s"

text \<open>
  A Go map that is ranged over is the list of its entries in the order of the loop; a nil
  profile pointer is \<open>None\<close>.
\<close>

definition restoreProfiles :: "(string \<times> roomProfile option) list \<Rightarrow> MxState \<Rightarrow> MxState" where
  "restoreProfiles inp s =
     fold (\<lambda>(rid, p) s. case p of
         Some p \<Rightarrow> if room_hasVisibleData p then s\<lparr>profiles := (profiles s)(rid \<mapsto> p)\<rparr> else s
       | None \<Rightarrow> s) inp s"

definition noteProfile :: "time \<Rightarrow> string \<times> roomProfile option \<Rightarrow> MxState \<Rightarrow> MxState" where
  "noteProfile now e s =
     (case e of
        (rid, None) \<Rightarrow> s
      | (rid, Some sp) \<Rightarrow>
          if \<not> room_hasVisibleData sp then s
          else (case profiles s rid of
                  Some dp \<Rightarrow>
                    (let (dp', changed) = mergeFrom dp sp;
                         dp' = (if changed then dp'\<lparr>rpFetchFailed := False\<rparr> else dp')
                     in s\<lparr>profiles := (profiles s)(rid \<mapsto> dp'\<lparr>rpLastSeen := now\<rparr>)\<rparr>)
                | None \<Rightarrow> s\<lparr>profiles := (profiles s)(rid \<mapsto> sp\<lparr>rpLastSeen := now\<rparr>)\<rparr>))"

definition dropOld :: "time \<Rightarrow> duration \<Rightarrow> ('p \<Rightarrow> time) \<Rightarrow> (string \<Rightarrow> 'p option) \<Rightarrow> string \<Rightarrow> 'p option" where
  "dropOld now ttl at m =
     (\<lambda>rid. case m rid of Some p \<Rightarrow> (if ttl < time_sub now (at p) then None else Some p) | None \<Rightarrow> None)"

definition noteProfiles :: "time \<Rightarrow> (string \<times> roomProfile option) list \<Rightarrow> MxState \<Rightarrow> MxState" where
  "noteProfiles now src s =
     (if src = [] then s
      else let s = fold (noteProfile now) src s
           in s\<lparr>profiles := dropOld now roomProfileTTL rpLastSeen (profiles s),
                roomAttempts := dropOld now roomProfileTTL id (roomAttempts s)\<rparr>)"

definition noteRoomAttempt :: "string \<Rightarrow> time \<Rightarrow> MxState \<Rightarrow> MxState" where
  "noteRoomAttempt roomID at s = s\<lparr>roomAttempts := (roomAttempts s)(roomID \<mapsto> at)\<rparr>"

definition clearRoomPending :: "string \<Rightarrow> MxState \<Rightarrow> MxState" where
  "clearRoomPending roomID s = s\<lparr>pendingRooms := pendingRooms s - {roomID}\<rparr>"

definition roomMemberCount :: "string \<Rightarrow> MxState \<Rightarrow> int" where
  "roomMemberCount roomID s = (case profiles s roomID of Some p \<Rightarrow> rpMemberCount p | None \<Rightarrow> 0)"

section \<open>The member cache\<close>

definition bindMembers :: "string \<Rightarrow> MxState \<Rightarrow> MxState" where
  "bindMembers baseURL s =
     (if memberHost s \<noteq> baseURL
      then s\<lparr>memberHost := baseURL, members := Map.empty, memberAttempts := Map.empty,
             seededRooms := Map.empty\<rparr> else s)"

definition noteMember :: "time \<Rightarrow> memberProfile \<Rightarrow> MxState \<Rightarrow> MxState" where
  "noteMember now src s =
     (if mpUserID src = [] \<or> \<not> member_hasVisibleData src then s
      else let src = src\<lparr>mpLastSeen := now\<rparr>
           in case members s (mpUserID src) of
                Some dp \<Rightarrow> s\<lparr>members := (members s)(mpUserID src \<mapsto>
                               (fst (member_mergeFrom dp src))\<lparr>mpLastSeen := mpLastSeen src\<rparr>)\<rparr>
              | None \<Rightarrow> s\<lparr>members := (members s)(mpUserID src \<mapsto> src)\<rparr>)"

definition pruneMembers :: "time \<Rightarrow> MxState \<Rightarrow> MxState" where
  "pruneMembers now s =
     s\<lparr>members := dropOld now memberTTL mpLastSeen (members s),
       memberAttempts := dropOld now memberTTL id (memberAttempts s),
       seededRooms := dropOld now memberTTL id (seededRooms s)\<rparr>"

definition MemberProfileForPublish :: "string \<Rightarrow> MxState \<Rightarrow> MemberProfileWire \<times> bool" where
  "MemberProfileForPublish userID s =
     (if userID = [] then (emptyMemberWire, False)
      else case members s userID of
             None \<Rightarrow> (emptyMemberWire, False)
           | Some p \<Rightarrow> if member_hasVisibleData p then (member_wire p, True) else (emptyMemberWire, False))"

definition memberSnapshot :: "MxState \<Rightarrow> string \<Rightarrow> memberProfile option" where
  "memberSnapshot s = members s"

definition restoreMembers :: "(string \<times> memberProfile option) list \<Rightarrow> MxState \<Rightarrow> MxState" where
  "restoreMembers inp s =
     fold (\<lambda>(rid, p) s. case p of
         Some p \<Rightarrow> if member_hasVisibleData p then s\<lparr>members := (members s)(rid \<mapsto> p)\<rparr> else s
       | None \<Rightarrow> s) inp s"

definition memberHasIdentity :: "string \<Rightarrow> MxState \<Rightarrow> bool" where
  "memberHasIdentity userID s =
     (case members s userID of
        None \<Rightarrow> False
      | Some p \<Rightarrow> supplied (mpDisplayName p) \<or> supplied (mpAvatarURL p))"

definition memberAttemptAllowed :: "time \<Rightarrow> time \<Rightarrow> string \<Rightarrow> MxState \<Rightarrow> bool \<times> MxState" where
  "memberAttemptAllowed sinceNow now userID s =
     (if (case memberAttempts s userID of Some at \<Rightarrow> time_sub sinceNow at < memberCooldown | None \<Rightarrow> False)
      then (False, s)
      else (True, s\<lparr>memberAttempts := (memberAttempts s)(userID \<mapsto> now)\<rparr>))"

definition roomSeeded :: "string \<Rightarrow> MxState \<Rightarrow> bool" where
  "roomSeeded roomID s \<longleftrightarrow> seededRooms s roomID \<noteq> None"

definition markRoomSeeded :: "string \<Rightarrow> time \<Rightarrow> MxState \<Rightarrow> MxState" where
  "markRoomSeeded roomID now s = s\<lparr>seededRooms := (seededRooms s)(roomID \<mapsto> now)\<rparr>"

definition clearMemberPending :: "string \<Rightarrow> MxState \<Rightarrow> MxState" where
  "clearMemberPending userID s = s\<lparr>pendingMembers := pendingMembers s - {userID}\<rparr>"

record mxMemberEvent =
  meType :: string
  meSender :: string
  meStateKey :: string
  meContent :: content

definition opt_string :: "string \<Rightarrow> string option" where
  "opt_string s = (if s = [] then None else Some s)"

definition harvestMemberEvent ::
  "('raw \<Rightarrow> mxMemberEvent option) \<Rightarrow> time \<Rightarrow> 'raw \<Rightarrow> MxState \<Rightarrow> MxState" where
  "harvestMemberEvent dec now raw s =
     (case dec raw of
        None \<Rightarrow> s
      | Some ev \<Rightarrow>
          if meType ev \<noteq> ''m.room.member'' \<or> meStateKey ev = [] then s
          else noteMember now ((newMemberProfile (meStateKey ev))
                 \<lparr>mpDisplayName := opt_string (as_string (meContent ev) ''displayname''),
                  mpAvatarURL := opt_string (as_string (meContent ev) ''avatar_url'')\<rparr>) s)"

definition harvestMemberEvents ::
  "('raw \<Rightarrow> mxMemberEvent option) \<Rightarrow> (nat \<Rightarrow> time) \<Rightarrow> 'raw list \<Rightarrow> MxState \<Rightarrow> MxState" where
  "harvestMemberEvents dec clk raws s =
     fold (\<lambda>(k, raw). harvestMemberEvent dec (clk k) raw) (List.enumerate 0 raws) s"

definition harvestPresenceEvent ::
  "('raw \<Rightarrow> mxMemberEvent option) \<Rightarrow> time \<Rightarrow> 'raw \<Rightarrow> MxState \<Rightarrow> MxState" where
  "harvestPresenceEvent dec now raw s =
     (case dec raw of
        None \<Rightarrow> s
      | Some ev \<Rightarrow>
          if meType ev \<noteq> ''m.presence'' \<or> meSender ev = [] then s
          else noteMember now ((newMemberProfile (meSender ev))
                 \<lparr>mpPresence := as_string (meContent ev) ''presence'',
                  mpStatusMsg := as_string (meContent ev) ''status_msg''\<rparr>) s)"

definition harvestPresenceEvents ::
  "('raw \<Rightarrow> mxMemberEvent option) \<Rightarrow> (nat \<Rightarrow> time) \<Rightarrow> 'raw list \<Rightarrow> MxState \<Rightarrow> MxState" where
  "harvestPresenceEvents dec clk raws s =
     fold (\<lambda>(k, raw). harvestPresenceEvent dec (clk k) raw) (List.enumerate 0 raws) s"

section \<open>HTTP\<close>

datatype mxError = ErrTokenExpired | ErrSessionInvalidated | ErrUserDeactivated | ErrOther string

record httpReply =
  hStatus :: int
  hBody :: string

record joinedMember =
  jmDisplayName :: string
  jmAvatarURL :: string

text \<open>
  \<open>cGet\<close> is the answer of the server to a GET, or the transport error; the other fields are the
  decodings of an answer into the structs of the code. A decoded map is the list of its entries.
\<close>

record Client =
  cBaseURL :: string
  cGet :: "string \<Rightarrow> error + httpReply"
  decErrCode :: "string \<Rightarrow> string \<times> bool option"
  decSummary :: "string \<Rightarrow> error + roomSummaryResp"
  decEvents :: "string \<Rightarrow> error + mxStateEvent list"
  decJoined :: "string \<Rightarrow> error + (string \<times> joinedMember) list"
  decJoinedRooms :: "string \<Rightarrow> error + string list"
  decProfile :: "string \<Rightarrow> error + joinedMember"

definition authErrorFromResponse :: "Client \<Rightarrow> int \<Rightarrow> string \<Rightarrow> mxError option" where
  "authErrorFromResponse c st body =
     (if st \<noteq> 401 \<and> st \<noteq> 403 then None
      else (case decErrCode c body of (code, soft) \<Rightarrow>
        if code = ''M_USER_DEACTIVATED'' then Some ErrUserDeactivated
        else if code = ''M_UNKNOWN_TOKEN''
          then (if soft = Some True then Some ErrTokenExpired else Some ErrSessionInvalidated)
        else if code = ''M_MISSING_TOKEN'' \<or> code = ''M_FORBIDDEN'' then Some ErrSessionInvalidated
        else Some ErrTokenExpired))"

definition isAuthErr :: "mxError \<Rightarrow> bool" where
  "isAuthErr e \<longleftrightarrow> e = ErrTokenExpired \<or> e = ErrSessionInvalidated \<or> e = ErrUserDeactivated"

text \<open>\<open>url.PathEscape\<close>: the bytes a path segment keeps.\<close>

definition segmentSafe :: "byte \<Rightarrow> bool" where
  "segmentSafe b \<longleftrightarrow> (97 \<le> b \<and> b \<le> 122) \<or> (65 \<le> b \<and> b \<le> 90) \<or> (48 \<le> b \<and> b \<le> 57) \<or>
     b \<in> set (bytes_of ''-_.~$&+=:@'')"

definition pathEscape :: "string \<Rightarrow> string" where
  "pathEscape s = string_of (pct_encode segmentSafe (bytes_of s))"

text \<open>One request: the body, cut at \<open>cap\<close>, of a 200 answer, or the error.\<close>

definition fetchBody :: "Client \<Rightarrow> string \<Rightarrow> string \<Rightarrow> nat option \<Rightarrow> mxError + string" where
  "fetchBody c what u cap =
     (case cGet c u of
        Inl e \<Rightarrow> Inl (ErrOther e)
      | Inr r \<Rightarrow>
          (let raw = (case cap of Some n \<Rightarrow> take n (hBody r) | None \<Rightarrow> hBody r)
           in case authErrorFromResponse c (hStatus r) raw of
                Some e \<Rightarrow> Inl e
              | None \<Rightarrow> if hStatus r \<noteq> 200 then Inl (ErrOther what) else Inr raw))"

definition decodeWith :: "(string \<Rightarrow> error + 'a) \<Rightarrow> mxError + string \<Rightarrow> mxError + 'a" where
  "decodeWith dec r =
     (case r of Inl e \<Rightarrow> Inl e
      | Inr raw \<Rightarrow> (case dec raw of Inl e \<Rightarrow> Inl (ErrOther e) | Inr v \<Rightarrow> Inr v))"

definition summaryOf :: "Client \<Rightarrow> string \<Rightarrow> mxError + roomProfile" where
  "summaryOf c roomID =
     (case decodeWith (decSummary c)
             (fetchBody c ''summary'' (cBaseURL c @ ''/_matrix/client/v1/room_summary/'' @ pathEscape roomID) None) of
        Inl e \<Rightarrow> Inl e | Inr sr \<Rightarrow> Inr (toProfile sr))"

definition joinedCountOf :: "Client \<Rightarrow> string \<Rightarrow> mxError + int" where
  "joinedCountOf c roomID =
     (case decodeWith (decJoined c)
             (fetchBody c ''joined_members''
               (cBaseURL c @ ''/_matrix/client/v3/rooms/'' @ pathEscape roomID @ ''/joined_members'') (Some memberBodyCap)) of
        Inl e \<Rightarrow> Inl e | Inr js \<Rightarrow> Inr (int (length js)))"

definition roomStateOf :: "Client \<Rightarrow> string \<Rightarrow> mxError + roomProfile" where
  "roomStateOf c roomID =
     (case decodeWith (decEvents c)
             (fetchBody c ''state''
               (cBaseURL c @ ''/_matrix/client/v3/rooms/'' @ pathEscape roomID @ ''/state'') (Some roomStateBodyCap)) of
        Inl e \<Rightarrow> Inl e
      | Inr evs \<Rightarrow>
          (let p = fold (\<lambda>ev p. fst (applyStateEvent (evType ev) (evStateKey ev) (evContent ev) p)) evs emptyRoomProfile
           in case joinedCountOf c roomID of
                Inr n \<Rightarrow> Inr (if 0 < n then p\<lparr>rpMemberCount := n\<rparr> else p)
              | Inl _ \<Rightarrow> Inr p))"

definition fetchRoomSummary :: "Client \<Rightarrow> string \<Rightarrow> MxState \<Rightarrow> mxError + roomProfile" where
  "fetchRoomSummary c roomID s =
     (if summarySupported (cBaseURL c) s
      then (case summaryOf c roomID of
              Inr p \<Rightarrow> Inr p
            | Inl e \<Rightarrow> if isAuthErr e then Inl e else roomStateOf c roomID)
      else roomStateOf c roomID)"

definition joinedRooms :: "Client \<Rightarrow> mxError + string list" where
  "joinedRooms c =
     decodeWith (decJoinedRooms c)
       (fetchBody c ''joined_rooms'' (cBaseURL c @ ''/_matrix/client/v3/joined_rooms'') None)"

text \<open>\<open>Inr None\<close> is the nil map of an empty roster.\<close>

definition fetchJoinedMembers :: "Client \<Rightarrow> string \<Rightarrow> mxError + (string \<times> joinedMember) list option" where
  "fetchJoinedMembers c roomID =
     (case decodeWith (decJoined c)
             (fetchBody c ''joined_members''
               (cBaseURL c @ ''/_matrix/client/v3/rooms/'' @ pathEscape roomID @ ''/joined_members'') (Some memberBodyCap)) of
        Inl e \<Rightarrow> Inl e | Inr js \<Rightarrow> Inr (if js = [] then None else Some js))"

definition profileOfJoined :: "string \<Rightarrow> joinedMember \<Rightarrow> memberProfile" where
  "profileOfJoined uid m =
     (newMemberProfile uid)\<lparr>mpDisplayName := opt_string (jmDisplayName m), mpAvatarURL := opt_string (jmAvatarURL m)\<rparr>"

definition fetchMemberProfile :: "Client \<Rightarrow> string \<Rightarrow> mxError + memberProfile" where
  "fetchMemberProfile c userID =
     (case decodeWith (decProfile c)
             (fetchBody c ''profile'' (cBaseURL c @ ''/_matrix/client/v3/profile/'' @ pathEscape userID)
               (Some memberProfileBodyCap)) of
        Inl e \<Rightarrow> Inl e | Inr pr \<Rightarrow> Inr (profileOfJoined userID pr))"

section \<open>Enqueueing\<close>

text \<open>
  A send that does not block: it succeeds while the channel has room. \<open>pend\<close> and \<open>sendTask\<close> are
  the two critical sections of an enqueue; between them other goroutines may run.
\<close>

definition EnqueueBackfill :: "string \<Rightarrow> MxState \<Rightarrow> MxState" where
  "EnqueueBackfill roomID s =
     (if roomID = [] \<or> roomID \<in> pendingRooms s then s
      else let s = s\<lparr>pendingRooms := insert roomID (pendingRooms s)\<rparr>
           in if length (queue s) < backfillQueueSize
              then s\<lparr>queue := queue s @ [TaskRoomSummary roomID]\<rparr>
              else s\<lparr>pendingRooms := pendingRooms s - {roomID}\<rparr>)"

definition EnqueueMember :: "string \<Rightarrow> string \<Rightarrow> MxState \<Rightarrow> MxState" where
  "EnqueueMember userID roomID s =
     (if userID = [] \<or> userID \<in> pendingMembers s then s
      else let s = s\<lparr>pendingMembers := insert userID (pendingMembers s)\<rparr>
           in if length (queue s) < backfillQueueSize
              then s\<lparr>queue := queue s @ [TaskMember userID roomID]\<rparr>
              else s\<lparr>pendingMembers := pendingMembers s - {userID}\<rparr>)"

definition sweepJoinedRooms :: "Client \<Rightarrow> MxState \<Rightarrow> MxState" where
  "sweepJoinedRooms c s =
     (case joinedRooms c of
        Inl _ \<Rightarrow> s
      | Inr ids \<Rightarrow>
          fold (\<lambda>rid s. if (case RoomProfile rid s of Some p \<Rightarrow> room_hasVisibleData p | None \<Rightarrow> False) then s
                        else EnqueueBackfill rid s) ids s)"

section \<open>The worker's tasks\<close>

definition backfillBody :: "(nat \<Rightarrow> time) \<Rightarrow> Client option \<Rightarrow> string \<Rightarrow> MxState \<Rightarrow> MxState" where
  "backfillBody clk cl roomID s =
     (let at = (case roomAttempts s roomID of Some t \<Rightarrow> t | None \<Rightarrow> zeroTime)
      in if at \<noteq> zeroTime \<and> time_sub (clk 0) at < roomProfileCooldown then s
         else if (case profiles s roomID of Some p \<Rightarrow> room_hasVisibleData p | None \<Rightarrow> False) then s
         else case cl of
           None \<Rightarrow> s
         | Some c \<Rightarrow>
             (case fetchRoomSummary c roomID s of
                Inl e \<Rightarrow> noteRoomAttempt roomID (clk 1) s
              | Inr src \<Rightarrow>
                  (let src = src\<lparr>rpFetchedAt := clk 1, rpLastSeen := clk 1\<rparr>
                   in if \<not> room_hasVisibleData src then noteRoomAttempt roomID (clk 1) s
                      else noteProfiles (clk 2) [(roomID, Some src)] s)))"

definition backfillOne :: "(nat \<Rightarrow> time) \<Rightarrow> Client option \<Rightarrow> string \<Rightarrow> MxState \<Rightarrow> MxState" where
  "backfillOne clk cl roomID s = clearRoomPending roomID (backfillBody clk cl roomID s)"

definition fetchProfileFor :: "(nat \<Rightarrow> time) \<Rightarrow> Client \<Rightarrow> string \<Rightarrow> MxState \<Rightarrow> MxState" where
  "fetchProfileFor clk c userID s =
     (case fetchMemberProfile c userID of
        Inl _ \<Rightarrow> s
      | Inr p \<Rightarrow> if \<not> member_hasVisibleData p then s
                  else noteMember (clk 3) (p\<lparr>mpFetchedAt := clk 2\<rparr>) s)"

definition seedMembers :: "(nat \<Rightarrow> time) \<Rightarrow> (string \<times> joinedMember) list \<Rightarrow> MxState \<Rightarrow> MxState" where
  "seedMembers clk joined s =
     fold (\<lambda>(k, uid, m). noteMember (clk k) ((profileOfJoined uid m)\<lparr>mpFetchedAt := clk 2\<rparr>))
       (List.enumerate 3 joined) s"

definition resolveBody :: "(nat \<Rightarrow> time) \<Rightarrow> Client option \<Rightarrow> string \<Rightarrow> string \<Rightarrow> MxState \<Rightarrow> MxState" where
  "resolveBody clk cl userID roomID s =
     (case memberAttemptAllowed (clk 0) (clk 1) userID s of
        (False, s) \<Rightarrow> s
      | (True, s) \<Rightarrow>
          (case cl of
             None \<Rightarrow> s
           | Some c \<Rightarrow>
               if roomID \<noteq> [] \<and> \<not> roomSeeded roomID s then
                 (if seedMemberLimit < roomMemberCount roomID s then fetchProfileFor clk c userID s
                  else case fetchJoinedMembers c roomID of
                         Inr (Some joined) \<Rightarrow>
                           pruneMembers (clk 2) (markRoomSeeded roomID (clk 2) (seedMembers clk joined s))
                       | _ \<Rightarrow> fetchProfileFor clk c userID s)
               else fetchProfileFor clk c userID s))"

text \<open>The deferred \<open>clearMemberPending\<close> is registered only behind the first return.\<close>

definition resolveMember :: "(nat \<Rightarrow> time) \<Rightarrow> Client option \<Rightarrow> string \<Rightarrow> string \<Rightarrow> MxState \<Rightarrow> MxState" where
  "resolveMember clk cl userID roomID s =
     (if userID = [] \<or> memberHasIdentity userID s then s
      else clearMemberPending userID (resolveBody clk cl userID roomID s))"

definition runTask :: "(nat \<Rightarrow> time) \<Rightarrow> Client option \<Rightarrow> backfillTask \<Rightarrow> MxState \<Rightarrow> MxState" where
  "runTask clk cl t s =
     (case t of
        TaskRoomSummary rid \<Rightarrow> backfillOne clk cl rid s
      | TaskMember uid rid \<Rightarrow> resolveMember clk cl uid rid s)"

section \<open>Every cached profile is publishable\<close>

lemma fetchFailed_visible [simp]:
  "room_hasVisibleData (p\<lparr>rpFetchFailed := b\<rparr>) = room_hasVisibleData p"
  "room_hasVisibleData (p\<lparr>rpLastSeen := t\<rparr>) = room_hasVisibleData p"
  by (simp_all add: room_hasVisibleData_def)

lemma lastSeen_member_visible [simp]:
  "member_hasVisibleData (p\<lparr>mpLastSeen := t\<rparr>) = member_hasVisibleData p"
  by (simp add: member_hasVisibleData_def)

interpretation rooms: profile_cache room_hasVisibleData "\<lambda>p q. fst (mergeFrom p q)" "\<lambda>t p. p\<lparr>rpLastSeen := t\<rparr>"
  by unfold_locales (rule mergeFrom_visible, simp_all)

interpretation mems: profile_cache member_hasVisibleData "\<lambda>p q. fst (member_mergeFrom p q)" "\<lambda>t p. p\<lparr>mpLastSeen := t\<rparr>"
  by unfold_locales (rule member_mergeFrom_visible, simp_all)

definition caches_visible :: "MxState \<Rightarrow> bool" where
  "caches_visible s \<longleftrightarrow>
     (\<forall>i p. profiles s i = Some p \<longrightarrow> room_hasVisibleData p) \<and>
     (\<forall>i p. members s i = Some p \<longrightarrow> member_hasVisibleData p)"

lemma caches_visible_alt:
  "caches_visible s \<longleftrightarrow> rooms.all_visible (profiles s) \<and> mems.all_visible (members s)"
  by (simp add: caches_visible_def rooms.all_visible_def mems.all_visible_def)

lemma fold_keeps:
  assumes "\<And>x s. x \<in> set xs \<Longrightarrow> P s \<Longrightarrow> P (f x s)" and "P s"
  shows "P (fold f xs s)"
  using assms by (induction xs arbitrary: s) auto

lemma dropOld_sub: "dropOld now ttl at m i = Some p \<Longrightarrow> m i = Some p"
  by (auto simp: dropOld_def split: option.splits if_splits)

lemma noteProfile_visible:
  assumes "caches_visible s"
  shows "caches_visible (noteProfile now e s)"
proof -
  obtain i sp where e: "e = (i, sp)" by fastforce
  have r: "rooms.all_visible (profiles s)" and m: "mems.all_visible (members s)"
    using assms by (simp_all add: caches_visible_alt)
  show ?thesis
  proof (cases sp)
    case None
    then show ?thesis using assms e by (simp add: noteProfile_def)
  next
    case (Some q)
    show ?thesis
    proof (cases "room_hasVisibleData q")
      case False
      then show ?thesis using assms e Some by (simp add: noteProfile_def)
    next
      case vis: True
      show ?thesis
      proof (cases "profiles s i")
        case None
        then show ?thesis using vis m rooms.all_visible_upd [OF r, of "q\<lparr>rpLastSeen := now\<rparr>" i] e Some
          by (simp add: noteProfile_def caches_visible_alt)
      next
        case dp: (Some dp)
        obtain p' ch where mg: "mergeFrom dp q = (p', ch)" by fastforce
        then have "room_hasVisibleData p'"
          using rooms.visible_merge [of dp q] r dp by (simp add: rooms.all_visible_def)
        then show ?thesis
          using vis m rooms.all_visible_upd [OF r] dp e Some mg
          by (simp add: noteProfile_def caches_visible_alt)
      qed
    qed
  qed
qed

lemma noteProfiles_visible: "caches_visible s \<Longrightarrow> caches_visible (noteProfiles now src s)"
proof -
  assume "caches_visible s"
  then have "caches_visible (fold (noteProfile now) src s)"
    by (rule fold_keeps [of src caches_visible, rotated]) (rule noteProfile_visible)
  then show ?thesis
    using \<open>caches_visible s\<close>
    by (auto simp: noteProfiles_def Let_def caches_visible_def dest!: dropOld_sub)
qed

lemma noteMember_visible: "caches_visible s \<Longrightarrow> caches_visible (noteMember now src s)"
  by (auto simp: noteMember_def caches_visible_alt Let_def split: option.splits
      intro: mems.all_visible_merge [of _ _ _ _ _, simplified] mems.all_visible_upd)

lemma restoreProfiles_visible: "caches_visible s \<Longrightarrow> caches_visible (restoreProfiles inp s)"
  unfolding restoreProfiles_def
  by (rule fold_keeps [of inp caches_visible]) (auto simp: caches_visible_def split: option.splits if_splits)

lemma restoreMembers_visible: "caches_visible s \<Longrightarrow> caches_visible (restoreMembers inp s)"
  unfolding restoreMembers_def
  by (rule fold_keeps [of inp caches_visible]) (auto simp: caches_visible_def split: option.splits if_splits)

lemma visible_frame [simp]:
  "caches_visible (noteRoomAttempt r t s) = caches_visible s"
  "caches_visible (clearRoomPending r s) = caches_visible s"
  "caches_visible (clearMemberPending u s) = caches_visible s"
  "caches_visible (markRoomSeeded r t s) = caches_visible s"
  by (simp_all add: caches_visible_def noteRoomAttempt_def clearRoomPending_def clearMemberPending_def markRoomSeeded_def)

lemma bind_visible: "caches_visible s \<Longrightarrow> caches_visible (bindProfiles u s)"
  "caches_visible s \<Longrightarrow> caches_visible (bindMembers u s)"
  by (simp_all add: caches_visible_def bindProfiles_def bindMembers_def)

lemma pruneMembers_visible: "caches_visible s \<Longrightarrow> caches_visible (pruneMembers now s)"
  by (auto simp: pruneMembers_def caches_visible_alt intro: mems.all_visible_sub dropOld_sub)

lemma backfillOne_visible: "caches_visible s \<Longrightarrow> caches_visible (backfillOne clk cl r s)"
  by (auto simp: backfillOne_def backfillBody_def Let_def noteProfiles_visible split: option.splits sum.splits)

lemma fetchProfileFor_visible: "caches_visible s \<Longrightarrow> caches_visible (fetchProfileFor clk c u s)"
  by (auto simp: fetchProfileFor_def noteMember_visible split: sum.splits)

lemma seedMembers_visible: "caches_visible s \<Longrightarrow> caches_visible (seedMembers clk js s)"
  unfolding seedMembers_def
  by (rule fold_keeps [of _ caches_visible]) (auto simp: noteMember_visible)

lemma memberAttemptAllowed_visible:
  "memberAttemptAllowed t0 t1 u s = (b, s') \<Longrightarrow> caches_visible s \<Longrightarrow> caches_visible s'"
  by (auto simp: memberAttemptAllowed_def caches_visible_def split: if_splits)

lemma resolveMember_visible:
  assumes "caches_visible s"
  shows "caches_visible (resolveMember clk cl u r s)"
proof -
  obtain b s' where a: "memberAttemptAllowed (clk 0) (clk 1) u s = (b, s')" by fastforce
  then have v: "caches_visible s'" using assms memberAttemptAllowed_visible by blast
  have "caches_visible (resolveBody clk cl u r s)"
    using v a by (cases b) (auto simp: resolveBody_def fetchProfileFor_visible seedMembers_visible
        pruneMembers_visible split: option.splits sum.splits)
  then show ?thesis using assms by (simp add: resolveMember_def)
qed

section \<open>The interleaved system\<close>

text \<open>
  The goroutines around the state: publishers that have marked a task pending and have not yet
  sent it (\<open>sending\<close>), and the single worker with its current task (\<open>running\<close>). Each step is one
  critical section or one handler.
\<close>

record mxSys =
  store :: MxState
  sending :: "backfillTask list"
  running :: "backfillTask option"

fun markPending :: "backfillTask \<Rightarrow> MxState \<Rightarrow> MxState" where
  "markPending (TaskRoomSummary r) s = s\<lparr>pendingRooms := insert r (pendingRooms s)\<rparr>"
| "markPending (TaskMember u r) s = s\<lparr>pendingMembers := insert u (pendingMembers s)\<rparr>"

fun clearPending :: "backfillTask \<Rightarrow> MxState \<Rightarrow> MxState" where
  "clearPending (TaskRoomSummary r) s = clearRoomPending r s"
| "clearPending (TaskMember u r) s = clearMemberPending u s"

fun isPending :: "backfillTask \<Rightarrow> MxState \<Rightarrow> bool" where
  "isPending (TaskRoomSummary r) s \<longleftrightarrow> r \<in> pendingRooms s"
| "isPending (TaskMember u r) s \<longleftrightarrow> u \<in> pendingMembers s"

fun taskId :: "backfillTask \<Rightarrow> string" where
  "taskId (TaskRoomSummary r) = r"
| "taskId (TaskMember u r) = u"

definition pendTask :: "backfillTask \<Rightarrow> mxSys \<Rightarrow> mxSys option" where
  "pendTask t y =
     (if taskId t = [] \<or> isPending t (store y) then None
      else Some (y\<lparr>store := markPending t (store y), sending := t # sending y\<rparr>))"

definition sendTask :: "backfillTask \<Rightarrow> mxSys \<Rightarrow> mxSys" where
  "sendTask t y =
     (if length (queue (store y)) < backfillQueueSize
      then y\<lparr>store := (store y)\<lparr>queue := queue (store y) @ [t]\<rparr>, sending := remove1 t (sending y)\<rparr>
      else y\<lparr>store := clearPending t (store y), sending := remove1 t (sending y)\<rparr>)"

text \<open>The handlers of the sync path, which touch neither the queue nor the pending sets.\<close>

datatype syncOp =
    OpNoteProfiles time "(string \<times> roomProfile option) list"
  | OpNoteMember time memberProfile
  | OpRestore "(string \<times> roomProfile option) list" "(string \<times> memberProfile option) list"
  | OpBind string
  | OpSupport string bool

fun applyOp :: "syncOp \<Rightarrow> MxState \<Rightarrow> MxState" where
  "applyOp (OpNoteProfiles now src) s = noteProfiles now src s"
| "applyOp (OpNoteMember now p) s = noteMember now p s"
| "applyOp (OpRestore rs ms) s = restoreMembers ms (restoreProfiles rs s)"
| "applyOp (OpBind u) s = bindMembers u (bindProfiles u s)"
| "applyOp (OpSupport u b) s = setSummarySupport u b s"

inductive mx_step :: "mxSys \<Rightarrow> mxSys \<Rightarrow> bool" where
  step_pend: "pendTask t y = Some y' \<Longrightarrow> mx_step y y'"
| step_send: "t \<in> set (sending y) \<Longrightarrow> mx_step y (sendTask t y)"
| step_take: "running y = None \<Longrightarrow> queue (store y) = t # q \<Longrightarrow>
    mx_step y (y\<lparr>store := (store y)\<lparr>queue := q\<rparr>, running := Some t\<rparr>)"
| step_run: "running y = Some t \<Longrightarrow> mx_step y (y\<lparr>store := runTask clk cl t (store y), running := None\<rparr>)"
| step_sync: "mx_step y (y\<lparr>store := applyOp op (store y)\<rparr>)"

inductive_cases mx_stepE: "mx_step y y'"

definition initSys :: mxSys where
  "initSys = \<lparr>store = initState, sending = [], running = None\<rparr>"

definition reachable :: "mxSys \<Rightarrow> bool" where
  "reachable y \<longleftrightarrow> mx_step\<^sup>*\<^sup>* initSys y"

lemma reachable_induct [consumes 1, case_names init step]:
  assumes "reachable y" and "P initSys" and "\<And>y y'. P y \<Longrightarrow> mx_step y y' \<Longrightarrow> P y'"
  shows "P y"
  using assms(1) unfolding reachable_def by (induction rule: rtranclp_induct) (auto intro: assms)

definition inFlight :: "mxSys \<Rightarrow> backfillTask list" where
  "inFlight y = sending y @ queue (store y) @ (case running y of Some t \<Rightarrow> [t] | None \<Rightarrow> [])"

fun roomIds :: "backfillTask list \<Rightarrow> string list" where
  "roomIds [] = []"
| "roomIds (TaskRoomSummary r # ts) = r # roomIds ts"
| "roomIds (TaskMember u r # ts) = roomIds ts"

fun memberIds :: "backfillTask list \<Rightarrow> string list" where
  "memberIds [] = []"
| "memberIds (TaskRoomSummary r # ts) = memberIds ts"
| "memberIds (TaskMember u r # ts) = u # memberIds ts"

lemma roomIds_append [simp]: "roomIds (a @ b) = roomIds a @ roomIds b"
  by (induction a rule: roomIds.induct) simp_all

lemma memberIds_append [simp]: "memberIds (a @ b) = memberIds a @ memberIds b"
  by (induction a rule: memberIds.induct) simp_all

subsection \<open>What the handlers leave alone\<close>

definition queues :: "MxState \<Rightarrow> string set \<times> string set \<times> backfillTask list" where
  "queues s = (pendingRooms s, pendingMembers s, queue s)"

lemma noteProfile_queues [simp]: "queues (noteProfile now e s) = queues s"
  by (simp add: noteProfile_def queues_def Let_def split: prod.splits option.splits)

lemma noteProfiles_queues [simp]: "queues (noteProfiles now src s) = queues s"
proof -
  have "queues (fold (noteProfile now) src s) = queues s"
    by (rule fold_keeps [of src "\<lambda>s'. queues s' = queues s"]) simp_all
  then show ?thesis by (simp add: noteProfiles_def Let_def queues_def)
qed

lemma noteMember_queues [simp]: "queues (noteMember now p s) = queues s"
  by (simp add: noteMember_def queues_def Let_def split: option.splits)

lemma restore_queues [simp]:
  "queues (restoreProfiles rs s) = queues s" "queues (restoreMembers ms s) = queues s"
  unfolding restoreProfiles_def restoreMembers_def
  by (rule fold_keeps [of _ "\<lambda>s'. queues s' = queues s"]; simp add: queues_def split: prod.splits option.splits)+

lemma applyOp_queues [simp]: "queues (applyOp op s) = queues s"
  by (cases op) (simp_all, simp_all add: queues_def bindMembers_def bindProfiles_def setSummarySupport_def)

lemma backfillBody_queues [simp]: "queues (backfillBody clk cl r s) = queues s"
  by (simp add: backfillBody_def Let_def split: option.splits sum.splits)
     (simp add: queues_def noteRoomAttempt_def)

lemma fetchProfileFor_queues [simp]: "queues (fetchProfileFor clk c u s) = queues s"
  by (simp add: fetchProfileFor_def split: sum.splits)

lemma seedMembers_queues [simp]: "queues (seedMembers clk js s) = queues s"
  unfolding seedMembers_def
  by (rule fold_keeps [of _ "\<lambda>s'. queues s' = queues s"]) (auto split: prod.splits)

lemma small_queues [simp]:
  "queues (pruneMembers now s) = queues s" "queues (markRoomSeeded r t s) = queues s"
  by (simp_all add: queues_def pruneMembers_def markRoomSeeded_def)

lemma memberAttemptAllowed_queues: "memberAttemptAllowed t0 t1 u s = (b, s') \<Longrightarrow> queues s' = queues s"
  by (auto simp: memberAttemptAllowed_def queues_def split: if_splits)

lemma resolveBody_queues [simp]: "queues (resolveBody clk cl u r s) = queues s"
proof -
  obtain b s' where a: "memberAttemptAllowed (clk 0) (clk 1) u s = (b, s')" by fastforce
  note q = memberAttemptAllowed_queues [OF a]
  show ?thesis using a q by (cases b) (simp_all add: resolveBody_def split: option.splits sum.splits)
qed

subsection \<open>Invariants\<close>

definition rooms_inv :: "mxSys \<Rightarrow> bool" where
  "rooms_inv y \<longleftrightarrow> distinct (roomIds (inFlight y)) \<and> set (roomIds (inFlight y)) = pendingRooms (store y)"

definition members_inv :: "mxSys \<Rightarrow> bool" where
  "members_inv y \<longleftrightarrow> distinct (memberIds (inFlight y)) \<and> set (memberIds (inFlight y)) \<subseteq> pendingMembers (store y)"

definition queue_inv :: "mxSys \<Rightarrow> bool" where
  "queue_inv y \<longleftrightarrow> length (queue (store y)) \<le> backfillQueueSize \<and> rooms_inv y \<and> members_inv y
     \<and> caches_visible (store y)"

lemma remove1_split:
  assumes "t \<in> set xs"
  obtains a b where "xs = a @ t # b" and "remove1 t xs = a @ b"
  using assms by (metis in_set_remove1 remove1_append remove1.simps(2) split_list_first)

lemma runTask_queues:
  "queue (runTask clk cl t s) = queue s"
  "pendingRooms (runTask clk cl t s) = pendingRooms s - set (roomIds [t])"
  "pendingMembers (runTask clk cl t s) =
     pendingMembers s - (case t of TaskMember u r \<Rightarrow> (if u = [] \<or> memberHasIdentity u s then {} else {u}) | _ \<Rightarrow> {})"
proof -
  have "queues (runTask clk cl t s) =
    (pendingRooms s - set (roomIds [t]),
     pendingMembers s - (case t of TaskMember u r \<Rightarrow> (if u = [] \<or> memberHasIdentity u s then {} else {u}) | _ \<Rightarrow> {}),
     queue s)"
  proof (cases t)
    case (TaskRoomSummary r)
    have "queues (backfillBody clk cl r s) = queues s" by simp
    then show ?thesis
      using TaskRoomSummary by (simp add: runTask_def backfillOne_def queues_def clearRoomPending_def)
  next
    case (TaskMember u r)
    have "queues (resolveBody clk cl u r s) = queues s" by simp
    then show ?thesis
      using TaskMember by (simp add: runTask_def resolveMember_def queues_def clearMemberPending_def)
  qed
  then show "queue (runTask clk cl t s) = queue s"
    "pendingRooms (runTask clk cl t s) = pendingRooms s - set (roomIds [t])"
    "pendingMembers (runTask clk cl t s) =
     pendingMembers s - (case t of TaskMember u r \<Rightarrow> (if u = [] \<or> memberHasIdentity u s then {} else {u}) | _ \<Rightarrow> {})"
    by (simp_all add: queues_def)
qed

lemma runTask_visible: "caches_visible s \<Longrightarrow> caches_visible (runTask clk cl t s)"
  by (simp add: runTask_def backfillOne_visible resolveMember_visible split: backfillTask.split)

lemma applyOp_visible: "caches_visible s \<Longrightarrow> caches_visible (applyOp op s)"
  by (cases op) (simp_all add: noteProfiles_visible noteMember_visible restoreProfiles_visible
      restoreMembers_visible bind_visible, simp add: caches_visible_def setSummarySupport_def)

lemma queue_inv_pend: "queue_inv y \<Longrightarrow> pendTask t y = Some y' \<Longrightarrow> queue_inv y'"
  by (cases t) (auto simp: queue_inv_def rooms_inv_def members_inv_def pendTask_def inFlight_def
      caches_visible_def split: if_splits)

lemma queue_inv_send:
  assumes "queue_inv y" and "t \<in> set (sending y)"
  shows "queue_inv (sendTask t y)"
proof -
  obtain a b where "sending y = a @ t # b" "remove1 t (sending y) = a @ b"
    using remove1_split [OF assms(2)] .
  with assms(1) show ?thesis
    by (cases t) (auto simp: queue_inv_def rooms_inv_def members_inv_def sendTask_def inFlight_def
        caches_visible_def clearRoomPending_def clearMemberPending_def)
qed

lemma queue_inv_take:
  "queue_inv y \<Longrightarrow> running y = None \<Longrightarrow> queue (store y) = t # q \<Longrightarrow>
   queue_inv (y\<lparr>store := (store y)\<lparr>queue := q\<rparr>, running := Some t\<rparr>)"
  by (cases t) (auto simp: queue_inv_def rooms_inv_def members_inv_def inFlight_def caches_visible_def)

lemma queue_inv_run:
  assumes "queue_inv y" and "running y = Some t"
  shows "queue_inv (y\<lparr>store := runTask clk cl t (store y), running := None\<rparr>)"
  using assms runTask_visible [of "store y" clk cl t]
  by (cases t) (auto simp: queue_inv_def rooms_inv_def members_inv_def inFlight_def runTask_queues)

lemma queue_inv_sync:
  assumes "queue_inv y"
  shows "queue_inv (y\<lparr>store := applyOp op (store y)\<rparr>)"
proof -
  have "queues (applyOp op (store y)) = queues (store y)" by simp
  then show ?thesis using assms applyOp_visible [of "store y" op]
    by (auto simp: queue_inv_def rooms_inv_def members_inv_def inFlight_def queues_def)
qed

lemma queue_inv_init: "queue_inv initSys"
  by (simp add: queue_inv_def rooms_inv_def members_inv_def initSys_def initState_def inFlight_def caches_visible_def)

lemma reachable_queue_inv: "reachable y \<Longrightarrow> queue_inv y"
proof (induction rule: reachable_induct)
  case init
  show ?case by (rule queue_inv_init)
next
  case (step y y')
  show ?case
    using step(2) step(1)
    by (cases rule: mx_step.cases)
       (auto intro: queue_inv_pend queue_inv_send queue_inv_take queue_inv_run queue_inv_sync)
qed

subsection \<open>The enqueue operations are runs of the step relation\<close>

lemma enqueue_steps:
  assumes "taskId t \<noteq> []" and "\<not> isPending t (store y)"
  shows "\<exists>y'. mx_step\<^sup>*\<^sup>* y y' \<and> sending y' = sending y \<and> running y' = running y \<and>
    store y' = (if length (queue (store y)) < backfillQueueSize
      then (markPending t (store y))\<lparr>queue := queue (store y) @ [t]\<rparr>
      else clearPending t (markPending t (store y)))"
proof -
  define y1 where "y1 = y\<lparr>store := markPending t (store y), sending := t # sending y\<rparr>"
  have "mx_step y y1" by (rule step_pend [of t]) (simp add: pendTask_def y1_def assms)
  moreover have "mx_step y1 (sendTask t y1)" by (rule step_send) (simp add: y1_def)
  ultimately have "mx_step\<^sup>*\<^sup>* y (sendTask t y1)"
    by (rule converse_rtranclp_into_rtranclp [OF _ r_into_rtranclp])
  then show ?thesis
    by (intro exI [of _ "sendTask t y1"]) (cases t; simp add: sendTask_def y1_def)
qed

lemma EnqueueBackfill_steps:
  "\<exists>y'. mx_step\<^sup>*\<^sup>* y y' \<and> store y' = EnqueueBackfill r (store y) \<and> sending y' = sending y
    \<and> running y' = running y"
proof (cases "r = [] \<or> r \<in> pendingRooms (store y)")
  case True
  then show ?thesis by (intro exI [of _ y]) (simp add: EnqueueBackfill_def)
next
  case False
  then show ?thesis using enqueue_steps [of "TaskRoomSummary r" y]
    by (auto simp: EnqueueBackfill_def Let_def clearRoomPending_def)
qed

lemma EnqueueMember_steps:
  "\<exists>y'. mx_step\<^sup>*\<^sup>* y y' \<and> store y' = EnqueueMember u r (store y) \<and> sending y' = sending y
    \<and> running y' = running y"
proof (cases "u = [] \<or> u \<in> pendingMembers (store y)")
  case True
  then show ?thesis by (intro exI [of _ y]) (simp add: EnqueueMember_def)
next
  case False
  then show ?thesis using enqueue_steps [of "TaskMember u r" y]
    by (auto simp: EnqueueMember_def Let_def clearMemberPending_def)
qed

section \<open>Properties\<close>



text \<open>C7: What is published is never an empty record: in every reachable state each cached room
  and member has publishable data, so the publish functions report a profile exactly when one is
  cached.\<close>

theorem reachable_publishable:
  assumes "reachable y" and "r \<noteq> []" and "u \<noteq> []"
  shows "(snd (RoomProfileForPublish r (store y)) \<longleftrightarrow> profiles (store y) r \<noteq> None) \<and>
    (snd (MemberProfileForPublish u (store y)) \<longleftrightarrow> members (store y) u \<noteq> None) \<and>
    (\<forall>p. profileSnapshot (store y) r = Some p \<longrightarrow> room_hasVisibleData p) \<and>
    (\<forall>p. memberSnapshot (store y) u = Some p \<longrightarrow> member_hasVisibleData p)"
  using reachable_queue_inv [OF assms(1)] assms(2,3)
  by (auto simp: queue_inv_def caches_visible_def RoomProfileForPublish_def RoomProfile_def
      MemberProfileForPublish_def profileSnapshot_def memberSnapshot_def split: option.splits)

lemma initSys_reachable: "reachable initSys"
  by (simp add: reachable_def)

lemma reachable_publishable_witness:
  "\<not> snd (RoomProfileForPublish ''!r:x'' (store initSys)) \<and> \<not> snd (MemberProfileForPublish ''@u:x'' (store initSys))"
  using reachable_publishable [OF initSys_reachable, of "''!r:x''" "''@u:x''"] by (simp add: initSys_def initState_def)

text \<open>A pending mark without a task behind it stays for ever.\<close>

definition leaked :: "string \<Rightarrow> mxSys \<Rightarrow> bool" where
  "leaked u y \<longleftrightarrow> u \<in> pendingMembers (store y) \<and> u \<notin> set (memberIds (inFlight y))"

lemma leaked_step:
  assumes "leaked u y" and "mx_step y y'"
  shows "leaked u y'"
  using assms(2)
proof (cases rule: mx_step.cases)
  case (step_pend t)
  then show ?thesis using assms(1)
    by (cases t) (auto simp: leaked_def pendTask_def inFlight_def split: if_splits)
next
  case (step_send t)
  obtain a b where "sending y = a @ t # b" "remove1 t (sending y) = a @ b"
    using remove1_split [OF step_send(2)] .
  then show ?thesis using assms(1) step_send
    by (cases t) (auto simp: leaked_def sendTask_def inFlight_def clearRoomPending_def clearMemberPending_def)
next
  case (step_take t q)
  then show ?thesis using assms(1) by (cases t) (auto simp: leaked_def inFlight_def)
next
  case (step_run t clk cl)
  then show ?thesis using assms(1)
    by (cases t) (auto simp: leaked_def inFlight_def runTask_queues)
next
  case (step_sync op)
  have "queues (applyOp op (store y)) = queues (store y)" by simp
  then show ?thesis using assms(1) step_sync by (auto simp: leaked_def inFlight_def queues_def)
qed

lemma leaked_steps: "mx_step\<^sup>*\<^sup>* y y' \<Longrightarrow> leaked u y \<Longrightarrow> leaked u y'"
  by (induction rule: rtranclp_induct) (auto intro: leaked_step)

definition namedMember :: "string \<Rightarrow> memberProfile" where
  "namedMember u = (newMemberProfile u)\<lparr>mpDisplayName := Some ''N''\<rparr>"

lemma leak_trace:
  assumes "u \<noteq> []"
  obtains y where "reachable y" and "inFlight y = []" and "\<not> memberHasIdentity u (store y)" and "leaked u y"
proof -
  let ?t = "TaskMember u []"
  define y0 where "y0 = initSys\<lparr>store := initState\<lparr>pendingMembers := {u}\<rparr>, sending := [?t]\<rparr>"
  define y1 where "y1 = initSys\<lparr>store := initState\<lparr>pendingMembers := {u}, queue := [?t]\<rparr>\<rparr>"
  define s2 where "s2 = applyOp (OpNoteMember 0 (namedMember u)) (store y1)"
  have s2: "queues s2 = ({}, {u}, [?t])" "memberHasIdentity u s2" "memberHost s2 = []" "profileHost s2 = []"
    using assms by (simp_all add: s2_def y1_def initSys_def initState_def noteMember_def namedMember_def
        newMemberProfile_def member_hasVisibleData_def supplied_def memberHasIdentity_def queues_def Let_def)
  define y4 where "y4 = y1\<lparr>store := s2\<lparr>queue := []\<rparr>, running := Some ?t\<rparr>"
  define y5 where "y5 = y1\<lparr>store := s2\<lparr>queue := []\<rparr>\<rparr>"
  define y6 where "y6 = y5\<lparr>store := applyOp (OpBind ''h'') (store y5)\<rparr>"
  have "mx_step initSys y0"
    by (rule step_pend [of ?t]) (simp add: pendTask_def assms y0_def initSys_def initState_def)
  moreover have "mx_step y0 y1"
    using step_send [of ?t y0] by (simp add: y0_def y1_def sendTask_def initSys_def initState_def backfillQueueSize_def)
  moreover have "mx_step y1 (y1\<lparr>store := s2\<rparr>)"
    unfolding s2_def by (rule step_sync)
  moreover have "mx_step (y1\<lparr>store := s2\<rparr>) y4"
    using step_take [of "y1\<lparr>store := s2\<rparr>" ?t "[]"] s2(1) by (simp add: y1_def y4_def initSys_def queues_def)
  moreover have "runTask (\<lambda>_. 0) None ?t (s2\<lparr>queue := []\<rparr>) = s2\<lparr>queue := []\<rparr>"
    using s2(2) by (simp add: runTask_def resolveMember_def memberHasIdentity_def)
  then have "mx_step y4 y5"
    using step_run [of y4 ?t "\<lambda>_. 0" None] by (simp add: y4_def y5_def y1_def initSys_def)
  moreover have "mx_step y5 y6" unfolding y6_def by (rule step_sync)
  ultimately have "reachable y6"
    unfolding reachable_def by (meson rtranclp.rtrancl_into_rtrancl rtranclp.rtrancl_refl)
  moreover have "inFlight y6 = []" "\<not> memberHasIdentity u (store y6)" "leaked u y6"
    using s2 by (auto simp: y6_def y5_def y1_def inFlight_def initSys_def memberHasIdentity_def leaked_def
        bindMembers_def bindProfiles_def queues_def)
  ultimately show thesis using that by blast
qed

text \<open>The member path does not have that guarantee: resolveMember returns before it registers
  the deferred clean-up when the sender's name arrived by sync in the meantime. The system can
  reach a state with nothing in flight in which a nameless user is marked pending for ever, so
  that no later message ever gets that user resolved.\<close>

theorem resolveMember_leaks_pending:
  assumes "u \<noteq> []"
  shows "\<exists>y. reachable y \<and> inFlight y = [] \<and> \<not> memberHasIdentity u (store y) \<and>
    (\<forall>y'. mx_step\<^sup>*\<^sup>* y y' \<longrightarrow> u \<in> pendingMembers (store y') \<and> EnqueueMember u r (store y') = store y')"
proof -
  obtain y where y: "reachable y" "inFlight y = []" "\<not> memberHasIdentity u (store y)" "leaked u y"
    using leak_trace [OF assms] .
  have "u \<in> pendingMembers (store y')" if "mx_step\<^sup>*\<^sup>* y y'" for y'
    using leaked_steps [OF that y(4)] by (simp add: leaked_def)
  then show ?thesis using y by (auto simp: EnqueueMember_def)
qed

lemma resolveMember_leaks_pending_witness:
  "\<exists>y. reachable y \<and> inFlight y = [] \<and> EnqueueMember ''@u:x'' ''!r:x'' (store y) = store y"
  using resolveMember_leaks_pending [of "''@u:x''" "''!r:x''"] by auto

text \<open>A failed or empty room fetch is throttled and never cached: it leaves every cached
  profile as it was and records the attempt, and until the cooldown has passed any further
  backfill of that room, by whatever client, changes nothing but the pending mark.\<close>

theorem backfillOne_negative:
  assumes "profiles s r = None" and "roomAttempts s r = None"
    and "case fetchRoomSummary c r s of Inl _ \<Rightarrow> True | Inr p \<Rightarrow> \<not> room_hasVisibleData p"
    and "clk 1 \<noteq> zeroTime" and "time_sub (clk' 0) (clk 1) < roomProfileCooldown"
  shows "profiles (backfillOne clk (Some c) r s) = profiles s \<and>
    roomAttempts (backfillOne clk (Some c) r s) r = Some (clk 1) \<and>
    backfillOne clk' cl' r (backfillOne clk (Some c) r s) = backfillOne clk (Some c) r s"
proof -
  have v: "room_hasVisibleData (p\<lparr>rpFetchedAt := t\<rparr>) = room_hasVisibleData p" for p t
    by (simp add: room_hasVisibleData_def)
  have "backfillOne clk (Some c) r s = clearRoomPending r (noteRoomAttempt r (clk 1) s)"
    using assms(1-3) by (auto simp: backfillOne_def backfillBody_def v Let_def split: sum.splits)
  then show ?thesis
    using assms(1,4,5) by (simp add: clearRoomPending_def noteRoomAttempt_def backfillOne_def backfillBody_def)
qed

definition demoClient :: Client where
  "demoClient = \<lparr>cBaseURL = ''h'', cGet = (\<lambda>_. Inl ''down''), decErrCode = (\<lambda>_. ([], None)),
     decSummary = (\<lambda>_. Inl ''x''), decEvents = (\<lambda>_. Inl ''x''), decJoined = (\<lambda>_. Inl ''x''),
     decJoinedRooms = (\<lambda>_. Inl ''x''), decProfile = (\<lambda>_. Inl ''x'')\<rparr>"

lemma backfillOne_negative_witness:
  "backfillOne (\<lambda>_. 7) None ''!r:x'' (backfillOne (\<lambda>_. 5) (Some demoClient) ''!r:x'' initState) =
     backfillOne (\<lambda>_. 5) (Some demoClient) ''!r:x'' initState"
  using backfillOne_negative [of initState "''!r:x''" demoClient "\<lambda>_. 5" "\<lambda>_. 7" None]
  by (simp add: initState_def fetchRoomSummary_def summarySupported_def summaryOf_def roomStateOf_def
      fetchBody_def decodeWith_def demoClient_def isAuthErr_def zeroTime_def roomProfileCooldown_def
      time_sub_def minutes_def max_i64_def min_i64_def)

end
