(* ===== verification/Chargectl.thy ===== *)
theory Chargectl
  imports Prelude "HOL-Library.AList"
begin

text \<open>
  The battery charge limiter: \<open>src/fbprotocols/chargectl/\<close> (\<open>chargectl.go\<close>,
  \<open>ctrl_linux.go\<close>, \<open>nodes_acc.go\<close>, \<open>nodes_abi.go\<close>) and its settings in
  \<open>src/fedbridge/chargectl.go\<close>.

  The operating system is an argument: a record of the file operations the code calls over a
  device state of any type, so that a driver may react to a write as it likes. The process
  state is the record \<open>chg\<close> (the package variables), the state of the loop goroutine is
  \<open>loopVars\<close>, and \<open>chg_step\<close> is the interleaving of the loop's ticks with the calls of
  the other goroutines, one call or tick being one step.
\<close>

section \<open>The file system\<close>

record 'd sysfs =
  readFile :: "'d \<Rightarrow> string \<Rightarrow> string option"
  writeFile :: "'d \<Rightarrow> string \<Rightarrow> string \<Rightarrow> 'd \<times> error option"
  readDir :: "'d \<Rightarrow> string \<Rightarrow> string list option"
  statIsDir :: "'d \<Rightarrow> string \<Rightarrow> bool option"
  globMatches :: "'d \<Rightarrow> string \<Rightarrow> string list"
  accessW :: "'d \<Rightarrow> string \<Rightarrow> bool"

definition path_join :: "string \<Rightarrow> string \<Rightarrow> string" where
  "path_join dir name = dir @ ''/'' @ name"

definition path_dir :: "string \<Rightarrow> string" where
  "path_dir p = rev (drop 1 (dropWhile (\<lambda>c. c \<noteq> CHR ''/'') (rev p)))"

definition newline :: string where "newline = [CHR 0x0A]"

definition sysRoot :: string where "sysRoot = ''/sys''"
definition powerSupplyDir :: string where "powerSupplyDir = ''/sys/class/power_supply''"
definition writeRetries :: nat where "writeRetries = 6"
definition idleCurrentUA :: int where "idleCurrentUA = 40000"

definition resolve_path :: "string \<Rightarrow> string" where
  "resolve_path p =
     (if sysRoot = ''/sys'' then p
      else if p = ''/sys'' then sysRoot
      else if has_prefix p ''/sys/'' then path_join sysRoot (trim_prefix p ''/sys/'')
      else p)"

definition readSysfsString :: "'d sysfs \<Rightarrow> 'd \<Rightarrow> string \<Rightarrow> string \<Rightarrow> string option" where
  "readSysfsString os d dir name = map_option trim_space (readFile os d (path_join dir name))"

definition readSysfsInt :: "'d sysfs \<Rightarrow> 'd \<Rightarrow> string \<Rightarrow> string \<Rightarrow> int option" where
  "readSysfsInt os d dir name =
     (case readSysfsString os d dir name of None \<Rightarrow> None | Some raw \<Rightarrow> atoi (trim_space raw))"

text \<open>\<open>writeValue\<close>: an attribute that already holds the value is left alone; a failing write
  is repeated without the newline, then again, six rounds in all.\<close>

fun write_rounds :: "'d sysfs \<Rightarrow> nat \<Rightarrow> string \<Rightarrow> string \<Rightarrow> error option \<Rightarrow> 'd \<Rightarrow> 'd \<times> error option" where
  "write_rounds os 0 path val err d = (d, err)"
| "write_rounds os (Suc n) path val err d =
     (case writeFile os d path (val @ newline) of
        (d1, None) \<Rightarrow> (d1, None)
      | (d1, Some e1) \<Rightarrow>
          (case writeFile os d1 path val of
             (d2, None) \<Rightarrow> (d2, None)
           | (d2, Some e2) \<Rightarrow> write_rounds os n path val (Some e2) d2))"

definition holds_value :: "'d sysfs \<Rightarrow> 'd \<Rightarrow> string \<Rightarrow> string \<Rightarrow> bool" where
  "holds_value os d path val \<longleftrightarrow> map_option trim_space (readFile os d path) = Some val"

definition writeValue :: "'d sysfs \<Rightarrow> string \<Rightarrow> string \<Rightarrow> 'd \<Rightarrow> 'd \<times> error option" where
  "writeValue os path val d =
     (if holds_value os d path val then (d, None)
      else write_rounds os writeRetries path val None d)"

section \<open>The battery\<close>

definition readBattery_entry :: "'d sysfs \<Rightarrow> 'd \<Rightarrow> string \<Rightarrow> (string \<times> int) option" where
  "readBattery_entry os d e =
     (let dir = path_join (resolve_path powerSupplyDir) e in
      if readSysfsString os d dir ''type'' \<noteq> Some ''Battery'' then None
      else if readSysfsInt os d dir ''present'' = Some 0 then None
      else Some (e, case readSysfsInt os d dir ''capacity'' of Some v \<Rightarrow> v | None \<Rightarrow> - 1))"

definition readBattery :: "'d sysfs \<Rightarrow> 'd \<Rightarrow> (string \<times> int) option" where
  "readBattery os d =
     (case readDir os d (resolve_path powerSupplyDir) of
        None \<Rightarrow> None
      | Some entries \<Rightarrow>
          (case List.map_filter (readBattery_entry os d) entries of [] \<Rightarrow> None | b # _ \<Rightarrow> Some b))"

definition externalSupplies :: "string list" where
  "externalSupplies =
     [''Mains'', ''USB'', ''USB_C'', ''USB_DCP'', ''USB_CDP'', ''USB_ACA'', ''USB_PD'', ''USB_PD_DRP'',
      ''USB_PD_VBUS'', ''USB_HVDCP'', ''USB_HVDCP_2'', ''USB_HVDCP_3'', ''USB_HVDCP_3P5'', ''USB_PPS'',
      ''USB_FLOAT'', ''Wireless'', ''WPC'']"

definition plugNames :: "string list" where
  "plugNames =
     [''dc'', ''pc_port'', ''ac'', ''mains'', ''main'', ''usb'', ''usb_c'', ''wireless'', ''wpc'', ''ac_adapter'']"

definition batteryPlugged :: "'d sysfs \<Rightarrow> 'd \<Rightarrow> string \<Rightarrow> bool" where
  "batteryPlugged os d name =
     (let dir = path_join (resolve_path powerSupplyDir) name in
      readSysfsString os d dir ''status'' \<in> {Some ''Charging'', Some ''Full''} \<or>
      (case readSysfsInt os d dir ''current_now'' of Some v \<Rightarrow> v > idleCurrentUA | None \<Rightarrow> False))"

definition supplyPlugged :: "'d sysfs \<Rightarrow> 'd \<Rightarrow> string \<Rightarrow> bool" where
  "supplyPlugged os d e =
     (let dir = path_join (resolve_path powerSupplyDir) e;
          typ = readSysfsString os d dir ''type'';
          name = to_lower e;
          positive = (\<lambda>a. case readSysfsInt os d dir a of Some v \<Rightarrow> v > 0 | None \<Rightarrow> False)
      in if typ = Some ''Battery'' then False
         else if (case typ of Some t \<Rightarrow> t | None \<Rightarrow> []) \<notin> set externalSupplies \<and> name \<notin> set plugNames \<and>
                 \<not> has_prefix name ''usb'' \<and> \<not> has_prefix name ''ac'' \<and>
                 \<not> has_prefix name ''mtk-'' \<and> \<not> has_prefix name ''smb'' then False
         else positive ''online'' \<or> positive ''present'')"

definition readPlugged :: "'d sysfs \<Rightarrow> 'd \<Rightarrow> string \<Rightarrow> bool" where
  "readPlugged os d battName =
     ((case readDir os d (resolve_path powerSupplyDir) of
         None \<Rightarrow> False | Some entries \<Rightarrow> list_ex (supplyPlugged os d) entries) \<or>
      batteryPlugged os d battName)"

text \<open>\<open>abs64\<close> on \<open>int64\<close>: the least value is its own negation.\<close>

definition abs64 :: "int \<Rightarrow> int" where
  "abs64 v = (if v < 0 then (if v = min_i64 then v else - v) else v)"

definition chargingNow :: "'d sysfs \<Rightarrow> 'd \<Rightarrow> string \<Rightarrow> bool" where
  "chargingNow os d name =
     (let dir = path_join (resolve_path powerSupplyDir) name in
      if readSysfsString os d dir ''status'' \<notin> {Some ''Charging'', Some ''Full''} then False
      else case readSysfsInt os d dir ''current_now'' of
        None \<Rightarrow> False | Some cur \<Rightarrow> abs64 cur > idleCurrentUA)"

section \<open>Package state\<close>

definition DefaultPauseAt :: int where "DefaultPauseAt = 75"
definition DefaultResumeAt :: int where "DefaultResumeAt = 30"
definition reprobeAfter :: nat where "reprobeAfter = 3"
definition effectiveStrikes :: nat where "effectiveStrikes = 3"
definition authStatusLocal :: string where "authStatusLocal = ''local''"

datatype mode = modeThreshold | modeLevel | modeSwitch

fun mode_String :: "mode \<Rightarrow> string" where
  "mode_String modeThreshold = ''threshold''"
| "mode_String modeLevel = ''level''"
| "mode_String modeSwitch = ''switch''"

record controller =
  ctl_mode :: mode
  ctl_label :: string
  startPath :: string
  endPath :: string
  switchPath :: string
  ctl_enableVal :: string
  ctl_disableVal :: string
  chargeTypePath :: string
  chargeTypeDone :: bool
  chargeTypeWarned :: bool
  degraded :: bool

record loopState =
  lastState :: int
  lastPlug :: bool
  havePlug :: bool
  lastCap :: int
  haveCap :: bool
  warned :: bool
  writeFails :: nat
  ineffective :: nat

record loopVars =
  lv_bad :: "string list"
  lv_ctl :: "controller option"
  lv_st :: loopState

text \<open>The loop goroutine: not running, started but before its first probe, or in its ticker loop.\<close>

datatype loopPhase = NoLoop | Spawned | Ticking loopVars

record 'd chg =
  dev :: 'd
  thresholds :: "(int \<times> int) option"
  authStatusOverride :: "string option"
  statusRunning :: bool
  statusConnectedSince :: "time option"
  statusLastErrs :: "error option list"
  loopPh :: loopPhase

definition initial_chg :: "'d \<Rightarrow> 'd chg" where
  "initial_chg d = \<lparr>dev = d, thresholds = None, authStatusOverride = None, statusRunning = False,
     statusConnectedSince = None, statusLastErrs = [None, None, None], loopPh = NoLoop\<rparr>"

definition ValidateWindow :: "int \<Rightarrow> int \<Rightarrow> error option" where
  "ValidateWindow pause resume =
     (if pause < 1 \<or> pause > 100 then Some (''pause threshold not in 1..100: '' @ itoa pause)
      else if resume < 0 \<or> resume > 100 then Some (''resume threshold not in 0..100: '' @ itoa resume)
      else if resume \<ge> pause then
        Some (''resume threshold not below pause threshold: '' @ itoa resume @ '' '' @ itoa pause)
      else None)"

definition SetThresholds :: "int \<Rightarrow> int \<Rightarrow> 'd chg \<Rightarrow> 'd chg \<times> error option" where
  "SetThresholds pause resume s =
     (case ValidateWindow pause resume of
        Some e \<Rightarrow> (s, Some e)
      | None \<Rightarrow> (s\<lparr>thresholds := Some (pause, resume)\<rparr>, None))"

definition Thresholds :: "'d chg \<Rightarrow> int \<times> int" where
  "Thresholds s = (case thresholds s of Some v \<Rightarrow> v | None \<Rightarrow> (DefaultPauseAt, DefaultResumeAt))"

definition pauseAt :: "'d chg \<Rightarrow> int" where "pauseAt s = fst (Thresholds s)"
definition resumeAt :: "'d chg \<Rightarrow> int" where "resumeAt s = snd (Thresholds s)"

definition setAuthStatus :: "string \<Rightarrow> 'd chg \<Rightarrow> 'd chg" where
  "setAuthStatus v s = s\<lparr>authStatusOverride := Some v\<rparr>"

definition AuthStatus :: "'d chg \<Rightarrow> string" where
  "AuthStatus s = (case authStatusOverride s of Some v \<Rightarrow> v | None \<Rightarrow> authStatusLocal)"

definition setRunning :: "time \<Rightarrow> bool \<Rightarrow> 'd chg \<Rightarrow> 'd chg" where
  "setRunning now v s =
     s\<lparr>statusRunning := v, statusConnectedSince := (if v then Some now else None)\<rparr>"

definition pushError :: "error \<Rightarrow> 'd chg \<Rightarrow> 'd chg" where
  "pushError e s = s\<lparr>statusLastErrs := [Some e, statusLastErrs s ! 0, statusLastErrs s ! 1]\<rparr>"

definition LastErrs :: "'d chg \<Rightarrow> error list" where
  "LastErrs s = List.map_filter (\<lambda>e. e) (statusLastErrs s)"

definition ConnectedSince :: "'d chg \<Rightarrow> time option" where
  "ConnectedSince s = statusConnectedSince s"

section \<open>Controllers\<close>

definition ensureChargeType :: "'d sysfs \<Rightarrow> controller \<Rightarrow> 'd \<Rightarrow> controller \<times> 'd" where
  "ensureChargeType os c d =
     (if chargeTypePath c = [] \<or> chargeTypeDone c then (c, d)
      else case writeValue os (chargeTypePath c) ''Custom'' d of
        (d', Some e) \<Rightarrow> (c\<lparr>chargeTypeWarned := True\<rparr>, d')
      | (d', None) \<Rightarrow> (c\<lparr>chargeTypeDone := True\<rparr>, d'))"

definition ensureThreshold ::
  "'d sysfs \<Rightarrow> int \<times> int \<Rightarrow> controller \<Rightarrow> 'd \<Rightarrow> controller \<times> 'd \<times> error option" where
  "ensureThreshold os w c d =
     (case ensureChargeType os c d of (c, d) \<Rightarrow>
      case writeValue os (endPath c) (itoa (fst w)) d of
        (d, Some e) \<Rightarrow> (c, d, Some e)
      | (d, None) \<Rightarrow>
          if degraded c \<or> startPath c = [] then (c, d, None)
          else case writeValue os (startPath c) (itoa (snd w)) d of
            (d, Some e) \<Rightarrow> (c\<lparr>degraded := True, ctl_mode := modeLevel\<rparr>, d, None)
          | (d, None) \<Rightarrow> (c, d, None))"

definition ensureLevel ::
  "'d sysfs \<Rightarrow> int \<times> int \<Rightarrow> controller \<Rightarrow> 'd \<Rightarrow> controller \<times> 'd \<times> error option" where
  "ensureLevel os w c d =
     (case ensureChargeType os c d of (c, d) \<Rightarrow>
      case writeValue os (endPath c) (itoa (fst w)) d of (d, e) \<Rightarrow> (c, d, e))"

definition stopCharging :: "'d sysfs \<Rightarrow> controller \<Rightarrow> 'd \<Rightarrow> 'd \<times> error option" where
  "stopCharging os c d = writeValue os (switchPath c) (ctl_disableVal c) d"

definition startCharging :: "'d sysfs \<Rightarrow> controller \<Rightarrow> 'd \<Rightarrow> 'd \<times> error option" where
  "startCharging os c d = writeValue os (switchPath c) (ctl_enableVal c) d"

record candidate =
  cand_label :: string
  cand_mode :: mode
  startPat :: string
  endPat :: string
  pat :: string
  cand_enableVal :: string
  cand_disableVal :: string

definition switchCand :: "string \<Rightarrow> string \<Rightarrow> string \<Rightarrow> string \<Rightarrow> candidate" where
  "switchCand l p e d = \<lparr>cand_label = l, cand_mode = modeSwitch, startPat = [], endPat = [], pat = p,
     cand_enableVal = e, cand_disableVal = d\<rparr>"

abbreviation switchNode :: "string \<Rightarrow> string \<Rightarrow> string \<Rightarrow> candidate" where
  "switchNode p \<equiv> switchCand p p"

definition levelCand :: "string \<Rightarrow> string \<Rightarrow> candidate" where
  "levelCand l p = \<lparr>cand_label = l, cand_mode = modeLevel, startPat = [], endPat = p, pat = [],
     cand_enableVal = [], cand_disableVal = []\<rparr>"

definition accCandidates :: "candidate list" where
  "accCandidates =
    [switchNode ''*/*charging_enable*'' ''1'' ''0'',
     switchNode ''*/enable_charg*'' ''1'' ''0'',
     switchNode ''*/charge_enabled'' ''1'' ''0'',
     switchNode ''*/charge_disable'' ''0'' ''1'',
     switchCand ''*/disable_charg*'' ''*/*disable_charg*'' ''0'' ''1'',
     switchNode ''*/charger_control'' ''1'' ''0'',
     switchNode ''*/charging_state'' ''enabled'' ''disabled'',
     switchNode ''*/input_suspend'' ''0'' ''1'',
     switchNode ''battery/charging_enabled'' ''1'' ''0'',
     switchNode ''battery/ChargerEnable'' ''1'' ''0'',
     switchNode ''battery/op_disable_charge'' ''0'' ''1'',
     switchNode ''battery/batt_slate_mode'' ''0'' ''1'',
     switchNode ''battery/battery_input_suspend'' ''0'' ''1'',
     switchNode ''battery/store_mode'' ''0'' ''1'',
     switchNode ''battery/restricted_charging'' ''0'' ''1'',
     switchNode ''battery/siop_level'' ''100'' ''0'',
     switchNode ''battery/device/*stop_charging'' ''0'' ''1'',
     switchNode ''battery/device/Charging_Enable'' ''1'' ''0'',
     switchNode ''battery_ext/smart_charging_interruption'' ''0'' ''1'',
     switchNode ''/sys/class/hw_power/charger/charge_data/enable_charger'' ''1'' ''0'',
     switchNode ''/sys/class/qcom-battery/input_suspend'' ''0'' ''1'',
     switchNode ''/sys/class/qcom-battery/charging_enabled'' ''1'' ''0'',
     switchNode ''/sys/devices/platform/huawei_charger/enable_charger'' ''1'' ''0'',
     switchNode ''/sys/devices/platform/lge-unified-nodes/charging_enable'' ''1'' ''0'',
     switchNode ''/sys/devices/platform/lge-unified-nodes/charging_completed'' ''0'' ''1'',
     switchNode ''/sys/devices/platform/mt-battery/disable_charger'' ''0'' ''1'',
     switchNode ''/sys/devices/platform/battery/ChargerEnable'' ''1'' ''0'',
     switchNode ''/sys/devices/platform/soc/soc:google,charger/charge_disable'' ''0'' ''1'',
     switchNode ''/sys/devices/platform/soc/soc:oplus,chg_intf/oplus_chg/battery/*charging_enable'' ''1'' ''0'',
     switchCand ''/sys/devices/platform/soc/soc:qcom,pmic_glink/.../force_charger_suspend'' ''/sys/devices/platform/soc/soc:qcom,pmic_glink/soc:qcom,pmic_glink:qcom,battery_charger/force_charger_suspend'' ''0'' ''1'',
     switchNode ''/sys/devices/soc/soc:lge,*/lge_power/lge_*/charging_enabled'' ''1'' ''0'',
     switchNode ''/sys/devices/virtual/oplus_chg/battery/*charging_enable'' ''1'' ''0'',
     switchNode ''/sys/kernel/debug/google_charger/chg_suspend'' ''0'' ''1'',
     switchNode ''/sys/kernel/debug/google_charger/input_suspend'' ''0'' ''1'',
     switchNode ''/sys/module/pm*_charger/parameters/disabled'' ''0'' ''1'',
     levelCand ''/sys/devices/platform/google,charger/charge_stop_level'' ''/sys/devices/platform/google,charger/charge_stop_level'',
     levelCand ''/sys/module/lge_battery/parameters/charge_stop_level'' ''/sys/module/lge_battery/parameters/charge_stop_level'']"

definition kernelCandidates :: "candidate list" where
  "kernelCandidates =
    [\<lparr>cand_label = ''charge_control threshold (kernel ABI)'', cand_mode = modeThreshold,
      startPat = ''*/charge_control_start_threshold'', endPat = ''*/charge_control_end_threshold'',
      pat = [], cand_enableVal = [], cand_disableVal = []\<rparr>,
     levelCand ''charge_control_end_threshold only (kernel ABI)'' ''*/charge_control_end_threshold'']"

definition abiExtras :: "candidate list" where
  "abiExtras =
    [levelCand ''charge_stop_level (kernel ABI)'' ''*/charge_stop_level'',
     switchCand ''charge_behaviour (kernel ABI)'' ''*/charge_behaviour'' ''auto'' ''inhibit-charge'']"

definition laptopExtras :: "candidate list" where
  "laptopExtras =
    [switchCand ''ideapad conservation_mode'' ''/sys/bus/platform/devices/VPC2004:*/conservation_mode'' ''0'' ''1'']"

text \<open>\<open>preferACC\<close> is an argument; it is true outside the tests.\<close>

definition orderedCandidates :: "bool \<Rightarrow> candidate list" where
  "orderedCandidates prefer =
     kernelCandidates @ (if prefer then accCandidates @ abiExtras else abiExtras @ accCandidates) @ laptopExtras"

definition firstMatch :: "'d sysfs \<Rightarrow> 'd \<Rightarrow> string \<Rightarrow> string" where
  "firstMatch os d p =
     (if p = [] then []
      else case find (\<lambda>m. statIsDir os d m = Some False)
             (globMatches os d
               (if has_prefix p ''/'' then resolve_path p else path_join (resolve_path powerSupplyDir) p)) of
        None \<Rightarrow> [] | Some m \<Rightarrow> m)"

definition findChargeType :: "'d sysfs \<Rightarrow> 'd \<Rightarrow> string \<Rightarrow> string" where
  "findChargeType os d epath =
     (case find (\<lambda>p. statIsDir os d p = Some False \<and> accessW os d p)
             (map (path_join (path_dir epath)) [''charge_type'', ''charge_types'']) of
        None \<Rightarrow> [] | Some p \<Rightarrow> p)"

definition mkController :: "mode \<Rightarrow> string \<Rightarrow> controller" where
  "mkController m l = \<lparr>ctl_mode = m, ctl_label = l, startPath = [], endPath = [], switchPath = [],
     ctl_enableVal = [], ctl_disableVal = [], chargeTypePath = [], chargeTypeDone = False,
     chargeTypeWarned = False, degraded = False\<rparr>"

definition cand_resolve :: "'d sysfs \<Rightarrow> 'd \<Rightarrow> candidate \<Rightarrow> controller option" where
  "cand_resolve os d c =
     (case cand_mode c of
        modeThreshold \<Rightarrow>
          (let e = firstMatch os d (endPat c);
               st = path_join (path_dir e) ''charge_control_start_threshold''
           in if e = [] then None
              else if statIsDir os d st \<noteq> Some False then None
              else if \<not> accessW os d e \<or> \<not> accessW os d st then None
              else Some ((mkController modeThreshold (cand_label c))
                     \<lparr>startPath := st, endPath := e, chargeTypePath := findChargeType os d e\<rparr>))
      | modeLevel \<Rightarrow>
          (let e = firstMatch os d (endPat c)
           in if e = [] then None
              else if \<not> accessW os d e then None
              else Some ((mkController modeLevel (cand_label c))
                     \<lparr>endPath := e, chargeTypePath := findChargeType os d e\<rparr>))
      | modeSwitch \<Rightarrow>
          (let p = firstMatch os d (pat c)
           in if p = [] then None
              else if \<not> accessW os d p then None
              else Some ((mkController modeSwitch (cand_label c))
                     \<lparr>switchPath := p, ctl_enableVal := cand_enableVal c, ctl_disableVal := cand_disableVal c\<rparr>)))"

definition probeFrom :: "'d sysfs \<Rightarrow> 'd \<Rightarrow> string list \<Rightarrow> candidate list \<Rightarrow> controller option" where
  "probeFrom os d skip cs =
     (case List.map_filter (cand_resolve os d) (filter (\<lambda>c. cand_label c \<notin> set skip) cs) of
        [] \<Rightarrow> None | c # _ \<Rightarrow> Some c)"

definition probeControllerSkip :: "'d sysfs \<Rightarrow> 'd \<Rightarrow> string list \<Rightarrow> controller option" where
  "probeControllerSkip os d skip = probeFrom os d skip (orderedCandidates True)"

definition probeController :: "'d sysfs \<Rightarrow> 'd \<Rightarrow> controller option" where
  "probeController os d = probeControllerSkip os d []"

section \<open>One control decision\<close>

definition checkEffective ::
  "'d sysfs \<Rightarrow> 'd \<Rightarrow> int \<Rightarrow> string \<Rightarrow> int \<Rightarrow> bool \<Rightarrow> loopState \<Rightarrow> loopState" where
  "checkEffective os d pause name capacity plugged st =
     (let rising = (haveCap st \<and> capacity > lastCap st);
          st = st\<lparr>lastCap := capacity, haveCap := True\<rparr>
      in if capacity < pause \<or> \<not> plugged \<or> (\<not> rising \<and> \<not> chargingNow os d name)
         then st\<lparr>warned := False, ineffective := 0\<rparr>
         else st\<lparr>ineffective := Suc (ineffective st), warned := True\<rparr>)"

text \<open>The bookkeeping after a write: a failure is counted and recorded, a success clears the count.\<close>

definition noteWrite ::
  "string \<Rightarrow> error option \<Rightarrow> 'l loopState_scheme \<Rightarrow> 'd chg \<Rightarrow> 'l loopState_scheme \<times> 'd chg" where
  "noteWrite what err st s =
     (case err of
        Some e \<Rightarrow> (st\<lparr>writeFails := Suc (writeFails st)\<rparr>, pushError (what @ e) s)
      | None \<Rightarrow> (st\<lparr>writeFails := 0\<rparr>, s))"

definition notePlug :: "bool \<Rightarrow> 'l loopState_scheme \<Rightarrow> 'l loopState_scheme" where
  "notePlug plugged st =
     (if \<not> havePlug st \<or> plugged \<noteq> lastPlug st then st\<lparr>lastPlug := plugged, havePlug := True\<rparr> else st)"

definition desiredState :: "int \<times> int \<Rightarrow> int \<Rightarrow> int" where
  "desiredState w capacity = (if capacity \<ge> fst w then 1 else if capacity \<le> snd w then 0 else - 1)"

definition checkOnce ::
  "'d sysfs \<Rightarrow> controller \<Rightarrow> loopState \<Rightarrow> 'd chg \<Rightarrow> controller \<times> loopState \<times> 'd chg" where
  "checkOnce os c st s =
     (case readBattery os (dev s) of
        None \<Rightarrow> (c, st, pushError ''no battery present'' s)
      | Some (name, capacity) \<Rightarrow>
        let plugged = readPlugged os (dev s) name;
            st = notePlug plugged st
        in if capacity < 0 then (c, st, pushError ''battery capacity unreadable'' s)
        else case ctl_mode c of
          modeThreshold \<Rightarrow>
            (case ensureThreshold os (Thresholds s) c (dev s) of (c, d, err) \<Rightarrow>
             case noteWrite ''threshold write: '' err st (s\<lparr>dev := d\<rparr>) of (st, s) \<Rightarrow>
               (c, checkEffective os (dev s) (pauseAt s) name capacity plugged st, s))
        | modeLevel \<Rightarrow>
            (case ensureLevel os (Thresholds s) c (dev s) of (c, d, err) \<Rightarrow>
             case noteWrite ''level write: '' err st (s\<lparr>dev := d\<rparr>) of (st, s) \<Rightarrow>
               (c, checkEffective os (dev s) (pauseAt s) name capacity plugged st, s))
        | modeSwitch \<Rightarrow>
            (let desired = desiredState (Thresholds s) capacity in
             if desired < 0 then (c, st\<lparr>lastState := - 1\<rparr>, s)
             else case (if desired = 1 then stopCharging os c (dev s) else startCharging os c (dev s)) of
               (d, err) \<Rightarrow>
               case noteWrite ''apply: '' err st (s\<lparr>dev := d\<rparr>) of (st, s) \<Rightarrow>
                 if err \<noteq> None then (c, st, s)
                 else (c, checkEffective os (dev s) (pauseAt s) name capacity plugged
                            (st\<lparr>lastState := desired\<rparr>), s)))"

section \<open>The loop and its callers\<close>

definition newLoopState :: loopState where
  "newLoopState = \<lparr>lastState = 0, lastPlug = False, havePlug = False, lastCap = 0, haveCap = False,
     warned = False, writeFails = 0, ineffective = 0\<rparr>"

definition runCheck :: "'d sysfs \<Rightarrow> loopVars \<Rightarrow> 'd chg \<Rightarrow> loopVars \<times> 'd chg" where
  "runCheck os lv s =
     (case lv_ctl lv of
        None \<Rightarrow> (lv, s)
      | Some c \<Rightarrow> (case checkOnce os c (lv_st lv) s of (c, st, s) \<Rightarrow>
                     (lv\<lparr>lv_ctl := Some c, lv_st := st\<rparr>, s)))"

definition runLoop_init :: "'d sysfs \<Rightarrow> 'd chg \<Rightarrow> loopVars \<times> 'd chg" where
  "runLoop_init os s =
     (let ctl = probeControllerSkip os (dev s) [];
          s = (if ctl = None
               then pushError ''no controllable charge node found yet; retrying'' (setAuthStatus ''no-backend'' s)
               else s)
      in runCheck os \<lparr>lv_bad = [], lv_ctl = ctl, lv_st = newLoopState\<rparr> s)"

definition chooseBackend :: "'d sysfs \<Rightarrow> loopVars \<Rightarrow> 'd chg \<Rightarrow> loopVars \<times> 'd chg" where
  "chooseBackend os lv s =
     (case lv_ctl lv of
        None \<Rightarrow>
          (case probeControllerSkip os (dev s) (lv_bad lv) of
             None \<Rightarrow> (lv, s)
           | Some nc \<Rightarrow> (lv\<lparr>lv_ctl := Some nc\<rparr>, setAuthStatus authStatusLocal s))
      | Some c \<Rightarrow>
          if writeFails (lv_st lv) \<ge> reprobeAfter \<or> ineffective (lv_st lv) \<ge> effectiveStrikes
          then let bad = ctl_label c # lv_bad lv
               in (lv\<lparr>lv_bad := bad,
                     lv_ctl := (case probeControllerSkip os (dev s) bad of Some nc \<Rightarrow> Some nc | None \<Rightarrow> Some c),
                     lv_st := (lv_st lv)\<lparr>writeFails := 0, ineffective := 0\<rparr>\<rparr>, s)
          else (lv, s))"

definition runLoop_tick :: "'d sysfs \<Rightarrow> loopVars \<Rightarrow> 'd chg \<Rightarrow> loopVars \<times> 'd chg" where
  "runLoop_tick os lv s = (case chooseBackend os lv s of (lv, s) \<Rightarrow> runCheck os lv s)"

definition Start :: "time \<Rightarrow> 'd chg \<Rightarrow> 'd chg" where
  "Start now s = (if loopPh s \<noteq> NoLoop then s else setRunning now True (s\<lparr>loopPh := Spawned\<rparr>))"

definition Stop :: "'d chg \<Rightarrow> 'd chg" where
  "Stop s = (if loopPh s = NoLoop then s else setRunning 0 False (s\<lparr>loopPh := NoLoop\<rparr>))"

text \<open>\<open>Release\<close> works on the device alone; its errors are only logged.\<close>

definition Release :: "'d sysfs \<Rightarrow> 'd \<Rightarrow> 'd" where
  "Release os d =
     (case probeController os d of
        None \<Rightarrow> d
      | Some c \<Rightarrow>
          (case ctl_mode c of
             modeThreshold \<Rightarrow>
               (case writeValue os (endPath c) ''100'' d of
                  (d, Some e) \<Rightarrow> d
                | (d, None) \<Rightarrow>
                    if \<not> degraded c \<and> startPath c \<noteq> [] then fst (writeValue os (startPath c) ''0'' d) else d)
           | modeLevel \<Rightarrow> fst (writeValue os (endPath c) ''100'' d)
           | modeSwitch \<Rightarrow> fst (startCharging os c d)))"

text \<open>
  The interleaving. The loop goroutine takes \<open>step_init\<close> and \<open>step_tick\<close>; the settings page
  takes \<open>step_window\<close>, \<open>step_on\<close>, and \<open>step_release\<close> then \<open>step_stop\<close>; \<open>step_env\<close> is the
  hardware changing by itself (the pack charges, the cable is pulled, a driver loads).
\<close>

inductive chg_step :: "'d sysfs \<Rightarrow> 'd chg \<Rightarrow> 'd chg \<Rightarrow> bool" for os where
  step_on: "chg_step os s (Start now s)"
| step_init: "loopPh s = Spawned \<Longrightarrow> runLoop_init os s = (lv, s') \<Longrightarrow> chg_step os s (s'\<lparr>loopPh := Ticking lv\<rparr>)"
| step_tick: "loopPh s = Ticking lv \<Longrightarrow> runLoop_tick os lv s = (lv', s') \<Longrightarrow>
    chg_step os s (s'\<lparr>loopPh := Ticking lv'\<rparr>)"
| step_window: "chg_step os s (fst (SetThresholds pause resume s))"
| step_release: "chg_step os s (s\<lparr>dev := Release os (dev s)\<rparr>)"
| step_stop: "chg_step os s (Stop s)"
| step_env: "chg_step os s (s\<lparr>dev := d\<rparr>)"

inductive_cases chg_stepE: "chg_step os s s'"

section \<open>The settings\<close>

type_synonym settings = "string \<Rightarrow> string"

text \<open>\<open>applyBatctl\<close> as the calls it makes, in order.\<close>

datatype batCall = CallStart | CallRelease | CallStop

definition batctl_on :: "settings \<Rightarrow> bool" where
  "batctl_on vals =
     (if vals ''batctl'' = [] then True
      else case parseBool (vals ''batctl'') of Some v \<Rightarrow> v | None \<Rightarrow> True)"

definition applyBatctl :: "settings \<Rightarrow> batCall list" where
  "applyBatctl vals = (if batctl_on vals then [CallStart] else [CallRelease, CallStop])"

fun runBatCall :: "'d sysfs \<Rightarrow> time \<Rightarrow> batCall \<Rightarrow> 'd chg \<Rightarrow> 'd chg" where
  "runBatCall os now CallStart s = Start now s"
| "runBatCall os now CallRelease s = s\<lparr>dev := Release os (dev s)\<rparr>"
| "runBatCall os now CallStop s = Stop s"

definition parsePct :: "string \<Rightarrow> settings \<Rightarrow> int \<Rightarrow> error + int" where
  "parsePct name vals dft =
     (if vals name = [] then Inr dft
      else case atoi (vals name) of
        None \<Rightarrow> Inl (name @ '' needs an integer: '' @ vals name) | Some v \<Rightarrow> Inr v)"

definition checkChargectlWindow :: "settings \<Rightarrow> error option" where
  "checkChargectlWindow vals =
     (case parsePct ''chargectl-pause-at'' vals DefaultPauseAt of
        Inl e \<Rightarrow> Some e
      | Inr pause \<Rightarrow>
          (case parsePct ''chargectl-resume-at'' vals DefaultResumeAt of
             Inl e \<Rightarrow> Some e
           | Inr resume \<Rightarrow> ValidateWindow pause resume))"

definition applyChargectlWindow :: "settings \<Rightarrow> 'd chg \<Rightarrow> 'd chg \<times> error option" where
  "applyChargectlWindow vals s =
     (let pause = (case atoi (vals ''chargectl-pause-at'') of Some v \<Rightarrow> v | None \<Rightarrow> DefaultPauseAt);
          resume = (case atoi (vals ''chargectl-resume-at'') of Some v \<Rightarrow> v | None \<Rightarrow> DefaultResumeAt)
      in SetThresholds pause resume s)"

section \<open>Frames\<close>

lemma pushError_frame [frame_simps, simp]:
  "dev (pushError e s) = dev s" "thresholds (pushError e s) = thresholds s"
  "authStatusOverride (pushError e s) = authStatusOverride s"
  "statusRunning (pushError e s) = statusRunning s"
  "statusConnectedSince (pushError e s) = statusConnectedSince s"
  "loopPh (pushError e s) = loopPh s"
  by (simp_all add: pushError_def)

lemma pushError_length [simp]: "length (statusLastErrs (pushError e s)) = 3"
  by (simp add: pushError_def)

lemma Thresholds_cong: "thresholds s' = thresholds s \<Longrightarrow> Thresholds s' = Thresholds s"
  by (simp add: Thresholds_def)

lemma Thresholds_frame [simp]:
  "Thresholds (pushError e s) = Thresholds s" "Thresholds (s\<lparr>dev := d\<rparr>) = Thresholds s"
  "Thresholds (s\<lparr>loopPh := l\<rparr>) = Thresholds s" "Thresholds (setAuthStatus v s) = Thresholds s"
  "Thresholds (setRunning now b s) = Thresholds s"
  by (simp_all add: Thresholds_def setAuthStatus_def setRunning_def)

definition same_settings :: "'d chg \<Rightarrow> 'd chg \<Rightarrow> bool" where
  "same_settings s s' \<longleftrightarrow> thresholds s' = thresholds s \<and> statusRunning s' = statusRunning s \<and>
     statusConnectedSince s' = statusConnectedSince s \<and> loopPh s' = loopPh s \<and>
     (length (statusLastErrs s) = 3 \<longrightarrow> length (statusLastErrs s') = 3)"

lemma same_settings_basic [intro, simp]:
  "same_settings s s" "same_settings s (s\<lparr>dev := d\<rparr>)" "same_settings s (pushError e s)"
  "same_settings s (setAuthStatus v s)"
  by (simp_all add: same_settings_def setAuthStatus_def)

lemma same_settings_trans: "same_settings a b \<Longrightarrow> same_settings b c \<Longrightarrow> same_settings a c"
  by (simp add: same_settings_def)

lemma noteWrite_same: "noteWrite w err st s = (st', s') \<Longrightarrow>
    same_settings s s' \<and> dev s' = dev s \<and> authStatusOverride s' = authStatusOverride s"
  by (cases err) (auto simp: noteWrite_def)

lemma checkEffective_counts [simp]:
  "writeFails (checkEffective os d p n cap pl st) = writeFails st"
  "ineffective (checkEffective os d p n cap pl st) \<le> Suc (ineffective st)"
  by (simp_all add: checkEffective_def Let_def)

lemma notePlug_counts [simp]:
  "writeFails (notePlug b st) = writeFails st" "ineffective (notePlug b st) = ineffective st"
  by (simp_all add: notePlug_def)

lemma noteWrite_counts:
  "noteWrite w err st s = (st', s') \<Longrightarrow> writeFails st' \<le> Suc (writeFails st) \<and> ineffective st' = ineffective st"
  by (cases err) (auto simp: noteWrite_def)

lemma checkOnce_cases:
  assumes "checkOnce os c st s = (c', st', s')"
  obtains (idle) "s' = s \<or> (\<exists>e. s' = pushError e s)" "c' = c"
      "writeFails st' = writeFails st" "ineffective st' = ineffective st"
  | (wrote) w err d pl st0 where "noteWrite w err (notePlug pl st) (s\<lparr>dev := d\<rparr>) = (st0, s')"
      "writeFails st' = writeFails st0" "ineffective st' \<le> Suc (ineffective st0)"
proof (cases "readBattery os (dev s)")
  case None
  then show ?thesis using assms by (intro idle) (auto simp: checkOnce_def)
next
  case (Some b)
  obtain name cap where b: "b = (name, cap)" by (cases b)
  let ?st = "notePlug (readPlugged os (dev s) name) st"
  show ?thesis
  proof (cases "cap < 0")
    case True
    then show ?thesis using assms Some b by (intro idle) (auto simp: checkOnce_def Let_def)
  next
    case cap: False
    show ?thesis
    proof (cases "ctl_mode c")
      case modeThreshold
      obtain c1 d err where e: "ensureThreshold os (Thresholds s) c (dev s) = (c1, d, err)"
        by (metis prod_cases3)
      obtain st0 s0 where n: "noteWrite ''threshold write: '' err ?st (s\<lparr>dev := d\<rparr>) = (st0, s0)"
        by (metis prod.exhaust)
      have r: "s' = s0" "st' = checkEffective os (dev s0) (pauseAt s0) name cap (readPlugged os (dev s) name) st0"
        using assms Some b cap modeThreshold e n by (auto simp: checkOnce_def Let_def)
      show ?thesis by (rule wrote[OF n[folded r(1)]]) (simp_all add: r(2))
    next
      case modeLevel
      obtain c1 d err where e: "ensureLevel os (Thresholds s) c (dev s) = (c1, d, err)"
        by (metis prod_cases3)
      obtain st0 s0 where n: "noteWrite ''level write: '' err ?st (s\<lparr>dev := d\<rparr>) = (st0, s0)"
        by (metis prod.exhaust)
      have r: "s' = s0" "st' = checkEffective os (dev s0) (pauseAt s0) name cap (readPlugged os (dev s) name) st0"
        using assms Some b cap modeLevel e n by (auto simp: checkOnce_def Let_def)
      show ?thesis by (rule wrote[OF n[folded r(1)]]) (simp_all add: r(2))
    next
      case modeSwitch
      let ?w = "if desiredState (Thresholds s) cap = 1 then stopCharging os c (dev s)
                else startCharging os c (dev s)"
      show ?thesis
      proof (cases "desiredState (Thresholds s) cap < 0")
        case True
        then show ?thesis
          using assms Some b cap modeSwitch by (intro idle) (auto simp: checkOnce_def Let_def)
      next
        case False
        obtain d err where e: "?w = (d, err)" by (metis prod.exhaust)
        obtain st0 s0 where n: "noteWrite ''apply: '' err ?st (s\<lparr>dev := d\<rparr>) = (st0, s0)"
          by (metis prod.exhaust)
        have r: "(c', st', s') = (if err \<noteq> None then (c, st0, s0)
            else (c, checkEffective os (dev s0) (pauseAt s0) name cap (readPlugged os (dev s) name)
                       (st0\<lparr>lastState := desiredState (Thresholds s) cap\<rparr>), s0))"
          using assms Some b cap modeSwitch False e n
          by (simp add: checkOnce_def Let_def split del: if_split)
        have "ineffective (st0\<lparr>lastState := desiredState (Thresholds s) cap\<rparr>) = ineffective st0"
          by simp
        then have "ineffective st' \<le> Suc (ineffective st0)"
          using r checkEffective_counts(2)[of os "dev s0" "pauseAt s0" name cap
              "readPlugged os (dev s) name" "st0\<lparr>lastState := desiredState (Thresholds s) cap\<rparr>"]
          by (auto split: if_splits)
        moreover have "writeFails st' = writeFails st0" "s' = s0"
          using r by (auto split: if_splits)
        ultimately show ?thesis using wrote[of "''apply: ''" err "readPlugged os (dev s) name" d st0] n by simp
      qed
    qed
  qed
qed

lemma checkOnce_same:
  assumes "checkOnce os c st s = (c', st', s')"
  shows "same_settings s s' \<and> authStatusOverride s' = authStatusOverride s"
  using assms
proof (cases rule: checkOnce_cases)
  case (wrote w err d pl st0)
  then show ?thesis
    using noteWrite_same[OF wrote(1)] same_settings_trans[OF same_settings_basic(2)] by auto
qed auto

lemma checkOnce_counts:
  assumes "checkOnce os c st s = (c', st', s')"
  shows "writeFails st' \<le> Suc (writeFails st) \<and> ineffective st' \<le> Suc (ineffective st)"
  using assms
proof (cases rule: checkOnce_cases)
  case (wrote w err d pl st0)
  then show ?thesis using noteWrite_counts[OF wrote(1)] by auto
qed auto

section \<open>Writes\<close>

lemma writeValue_idempotent:
  "holds_value os d path val \<Longrightarrow> writeValue os path val d = (d, None)"
  by (simp add: writeValue_def)

text \<open>The device invariant \<open>good\<close> describes the states in which the attribute \<open>path\<close> works: a
  first write of one of \<open>vals\<close> is accepted, is read back, and keeps the invariant.\<close>

definition node_works :: "'d sysfs \<Rightarrow> ('d \<Rightarrow> bool) \<Rightarrow> string \<Rightarrow> string set \<Rightarrow> bool" where
  "node_works os good path vals \<longleftrightarrow>
     (\<forall>d v. good d \<longrightarrow> v \<in> vals \<longrightarrow>
        (\<exists>d'. writeFile os d path (v @ newline) = (d', None) \<and> good d' \<and> holds_value os d' path v))"

lemma writeValue_works:
  assumes "node_works os good path vals" "good d" "v \<in> vals"
  shows "\<exists>d'. writeValue os path v d = (d', None) \<and> good d' \<and> holds_value os d' path v"
proof (cases "holds_value os d path v")
  case True
  then show ?thesis using assms(2) by (simp add: writeValue_def)
next
  case False
  obtain d' where "writeFile os d path (v @ newline) = (d', None)" "good d'" "holds_value os d' path v"
    using assms unfolding node_works_def by blast
  then show ?thesis using False by (simp add: writeValue_def writeRetries_def eval_nat_numeral)
qed

text \<open>The attempts of a write, in order: \<open>write_first\<close> stops at the first that is accepted.\<close>

fun write_first :: "'d sysfs \<Rightarrow> string \<Rightarrow> string list \<Rightarrow> error option \<Rightarrow> 'd \<Rightarrow> 'd \<times> error option" where
  "write_first os path [] err d = (d, err)"
| "write_first os path (v # vs) err d =
     (case writeFile os d path v of
        (d', None) \<Rightarrow> (d', None) | (d', Some e) \<Rightarrow> write_first os path vs (Some e) d')"

lemma write_rounds_first:
  "write_rounds os n path val err d =
     write_first os path (concat (replicate n [val @ newline, val])) err d"
  by (induction os n path val err d rule: write_rounds.induct)
     (auto split: prod.splits option.splits)

section \<open>The reachable states\<close>

definition window_ok :: "'d chg \<Rightarrow> bool" where
  "window_ok s \<longleftrightarrow> 0 \<le> resumeAt s \<and> resumeAt s < pauseAt s \<and> pauseAt s \<le> 100"

definition counts_ok :: "loopVars \<Rightarrow> bool" where
  "counts_ok lv \<longleftrightarrow> writeFails (lv_st lv) \<le> reprobeAfter \<and> ineffective (lv_st lv) \<le> effectiveStrikes \<and>
     (lv_ctl lv = None \<longrightarrow> writeFails (lv_st lv) = 0 \<and> ineffective (lv_st lv) = 0)"

definition chg_inv :: "'d chg \<Rightarrow> bool" where
  "chg_inv s \<longleftrightarrow> window_ok s \<and> length (statusLastErrs s) = 3 \<and>
     (statusRunning s \<longleftrightarrow> loopPh s \<noteq> NoLoop) \<and> (ConnectedSince s = None \<longleftrightarrow> loopPh s = NoLoop) \<and>
     (\<forall>lv. loopPh s = Ticking lv \<longrightarrow> counts_ok lv)"

lemma chooseBackend_same: "chooseBackend os lv s = (lv', s') \<Longrightarrow> same_settings s s' \<and> dev s' = dev s"
  by (auto simp: chooseBackend_def Let_def setAuthStatus_def same_settings_def split: option.splits if_splits)

lemma chooseBackend_counts:
  "chooseBackend os lv s = (lv', s') \<Longrightarrow> counts_ok lv \<Longrightarrow>
   writeFails (lv_st lv') < reprobeAfter \<and> ineffective (lv_st lv') < effectiveStrikes \<and>
   (lv_ctl lv' = None \<longrightarrow> lv' = lv)"
  by (auto simp: chooseBackend_def counts_ok_def Let_def reprobeAfter_def effectiveStrikes_def
      split: option.splits if_splits)

lemma runCheck_same: "runCheck os lv s = (lv', s') \<Longrightarrow>
    same_settings s s' \<and> authStatusOverride s' = authStatusOverride s"
  by (auto simp: runCheck_def split: option.splits prod.splits dest: checkOnce_same)

lemma runCheck_counts:
  assumes "runCheck os lv s = (lv', s')" "counts_ok lv"
    "writeFails (lv_st lv) < reprobeAfter" "ineffective (lv_st lv) < effectiveStrikes"
  shows "counts_ok lv'"
proof (cases "lv_ctl lv")
  case None
  then show ?thesis using assms by (simp add: runCheck_def)
next
  case (Some c)
  obtain c' st' s1 where e: "checkOnce os c (lv_st lv) s = (c', st', s1)" by (metis prod_cases3)
  then have "lv' = lv\<lparr>lv_ctl := Some c', lv_st := st'\<rparr>" using assms(1) Some by (simp add: runCheck_def)
  then show ?thesis using checkOnce_counts[OF e] assms(3,4) by (simp add: counts_ok_def)
qed

lemma runLoop_tick_inv:
  assumes "runLoop_tick os lv s = (lv', s')"
  shows "same_settings s s'" "counts_ok lv \<Longrightarrow> counts_ok lv'"
proof -
  obtain l0 s0 where c: "chooseBackend os lv s = (l0, s0)" by (metis prod.exhaust)
  then have r: "runCheck os l0 s0 = (lv', s')" using assms by (simp add: runLoop_tick_def)
  show "same_settings s s'"
    using chooseBackend_same[OF c] runCheck_same[OF r] same_settings_trans by blast
  assume k: "counts_ok lv"
  have "counts_ok l0" using chooseBackend_counts[OF c k] k by (auto simp: counts_ok_def)
  then show "counts_ok lv'" using chooseBackend_counts[OF c k] runCheck_counts[OF r] by blast
qed

lemma runLoop_init_inv:
  assumes "runLoop_init os s = (lv', s')"
  shows "same_settings s s'" "counts_ok lv'"
proof -
  let ?l = "\<lparr>lv_bad = [], lv_ctl = probeControllerSkip os (dev s) [], lv_st = newLoopState\<rparr>"
  obtain s0 where r: "runCheck os ?l s0 = (lv', s')" "same_settings s s0"
    using assms same_settings_trans[OF same_settings_basic(4) same_settings_basic(3)]
    by (fastforce simp: runLoop_init_def Let_def split: if_splits)
  then show "same_settings s s'" using runCheck_same same_settings_trans by blast
  show "counts_ok lv'"
    by (rule runCheck_counts[OF r(1)])
       (simp_all add: counts_ok_def newLoopState_def reprobeAfter_def effectiveStrikes_def)
qed

lemma SetThresholds_window: "window_ok s \<Longrightarrow> window_ok (fst (SetThresholds p r s))"
  by (auto simp: SetThresholds_def ValidateWindow_def window_ok_def pauseAt_def resumeAt_def Thresholds_def)

lemma window_ok_cong: "thresholds s' = thresholds s \<Longrightarrow> window_ok s' = window_ok s"
  by (simp add: window_ok_def pauseAt_def resumeAt_def Thresholds_def)

lemma SetThresholds_frame [simp]:
  "statusLastErrs (fst (SetThresholds p r s)) = statusLastErrs s"
  "statusRunning (fst (SetThresholds p r s)) = statusRunning s"
  "statusConnectedSince (fst (SetThresholds p r s)) = statusConnectedSince s"
  "loopPh (fst (SetThresholds p r s)) = loopPh s"
  by (simp_all add: SetThresholds_def split: option.splits)

lemma chg_inv_same:
  assumes "chg_inv s" "loopPh s \<noteq> NoLoop" "same_settings s s'" "counts_ok lv"
  shows "chg_inv (s'\<lparr>loopPh := Ticking lv\<rparr>)"
  using assms window_ok_cong[of "s'\<lparr>loopPh := Ticking lv\<rparr>" s]
  by (auto simp: chg_inv_def same_settings_def ConnectedSince_def)

lemma chg_step_inv: "chg_step os s s' \<Longrightarrow> chg_inv s \<Longrightarrow> chg_inv s'"
proof (induction rule: chg_step.induct)
  case (step_init s lv s')
  then show ?case using chg_inv_same[of s s' lv] runLoop_init_inv[OF step_init.hyps(2)] by simp
next
  case (step_tick s lv lv' s')
  then show ?case
    using chg_inv_same[of s s' lv'] runLoop_tick_inv[OF step_tick.hyps(2)] by (simp add: chg_inv_def)
next
  case (step_window s pause resume)
  then show ?case using SetThresholds_window by (auto simp: chg_inv_def ConnectedSince_def)
qed (auto simp: chg_inv_def Start_def Stop_def setRunning_def window_ok_def pauseAt_def resumeAt_def
      Thresholds_def ConnectedSince_def split: if_splits)

lemma initial_chg_inv: "chg_inv (initial_chg d)"
  by (simp add: chg_inv_def initial_chg_def window_ok_def pauseAt_def resumeAt_def Thresholds_def
      DefaultPauseAt_def DefaultResumeAt_def ConnectedSince_def)

lemma chg_reachable_inv: "(chg_step os)\<^sup>*\<^sup>* (initial_chg d) s \<Longrightarrow> chg_inv s"
  by (induction rule: rtranclp_induct) (auto intro: initial_chg_inv chg_step_inv)

end
