(* ===== verification/Chargectl_Loop.thy ===== *)
theory Chargectl_Loop
  imports Chargectl
begin

text \<open>
  What the battery limiter does over time: the control law of a switch node as a refinement of
  an abstract hysteresis, the replacement of a failing backend, what turning the limiter off
  leaves behind, and the status it reports. The model is in \<open>Chargectl\<close>.
\<close>

section \<open>The control law\<close>

text \<open>
  The abstract controller of a switch node: the state it commands after a reading, given the
  state it commanded before. \<open>run_ticks\<close> runs the loop against an environment that changes
  the device before each tick, and records what each tick read.
\<close>

definition hyst :: "int \<times> int \<Rightarrow> 'v \<Rightarrow> 'v \<Rightarrow> (string \<times> int) option \<Rightarrow> 'v \<Rightarrow> 'v" where
  "hyst w stop allow obs v =
     (case obs of
        None \<Rightarrow> v
      | Some (name, cap) \<Rightarrow>
          if cap < 0 then v
          else if cap \<ge> fst w then stop
          else if cap \<le> snd w then allow
          else v)"

fun run_ticks ::
  "'d sysfs \<Rightarrow> ('d \<Rightarrow> 'd) list \<Rightarrow> loopVars \<Rightarrow> 'd chg \<Rightarrow> loopVars \<times> 'd chg \<times> (string \<times> int) option list" where
  "run_ticks os [] lv s = (lv, s, [])"
| "run_ticks os (e # es) lv s =
     (let s1 = s\<lparr>dev := e (dev s)\<rparr>; obs = readBattery os (dev s1)
      in case runLoop_tick os lv s1 of (lv2, s2) \<Rightarrow>
         case run_ticks os es lv2 s2 of (lv3, s3, os3) \<Rightarrow> (lv3, s3, obs # os3))"

definition commanded :: "'d sysfs \<Rightarrow> controller \<Rightarrow> string \<Rightarrow> 'd \<Rightarrow> bool" where
  "commanded os c v d \<longleftrightarrow> holds_value os d (switchPath c) v"

lemma hyst_band:
  assumes "snd w < fst w" "\<forall>obs\<in>set os. \<forall>name cap. obs = Some (name, cap) \<longrightarrow> cap > snd w"
  shows "fold (hyst w stop allow) os stop = stop"
  using assms(2)
proof (induction os)
  case (Cons obs os)
  have "hyst w stop allow obs stop = stop"
    using Cons.prems by (cases obs) (auto simp: hyst_def)
  then show ?case using Cons by simp
qed simp

text \<open>What a tick of a switch node does to the device.\<close>

lemma checkOnce_switch:
  assumes works: "node_works os good (switchPath c) {ctl_enableVal c, ctl_disableVal c}"
    and mode: "ctl_mode c = modeSwitch" and good: "good (dev s)" and w: "resumeAt s < pauseAt s"
    and v: "v \<in> {ctl_enableVal c, ctl_disableVal c}" "commanded os c v (dev s)"
  shows "\<exists>st' s'. checkOnce os c st s = (c, st', s') \<and> good (dev s') \<and> thresholds s' = thresholds s \<and>
     commanded os c (hyst (Thresholds s) (ctl_disableVal c) (ctl_enableVal c) (readBattery os (dev s)) v) (dev s')"
proof (cases "readBattery os (dev s)")
  case None
  then show ?thesis using assms by (simp add: checkOnce_def hyst_def)
next
  case (Some b)
  obtain name cap where b: "b = (name, cap)" by (cases b)
  have pr: "fst (Thresholds s) = pauseAt s" "snd (Thresholds s) = resumeAt s"
    by (simp_all add: pauseAt_def resumeAt_def)
  show ?thesis
  proof (cases "cap < 0 \<or> desiredState (Thresholds s) cap < 0")
    case True
    then show ?thesis
      using assms Some b
      by (auto simp: checkOnce_def hyst_def desiredState_def Let_def split: if_splits)
  next
    case False
    let ?x = "if cap \<ge> pauseAt s then ctl_disableVal c else ctl_enableVal c"
    have x: "?x \<in> {ctl_enableVal c, ctl_disableVal c}" by simp
    obtain d' where d: "writeValue os (switchPath c) ?x (dev s) = (d', None)" "good d'"
        "holds_value os d' (switchPath c) ?x"
      using writeValue_works[OF works good x] by blast
    have e: "(if desiredState (Thresholds s) cap = 1 then stopCharging os c (dev s)
              else startCharging os c (dev s)) = (d', None)"
      using d(1) False pr by (auto simp: stopCharging_def startCharging_def desiredState_def split: if_splits)
    have h: "hyst (Thresholds s) (ctl_disableVal c) (ctl_enableVal c) (Some b) v = ?x"
      using False pr b by (auto simp: hyst_def desiredState_def split: if_splits)
    show ?thesis
      using d False Some b mode e h
      by (simp add: checkOnce_def Let_def noteWrite_def commanded_def split del: if_split)
  qed
qed

text \<open>No other backend is available to take over from \<open>c\<close>.\<close>

definition only_backend :: "'d sysfs \<Rightarrow> ('d \<Rightarrow> bool) \<Rightarrow> controller \<Rightarrow> bool" where
  "only_backend os good c \<longleftrightarrow>
     (\<forall>d skip. good d \<longrightarrow> ctl_label c \<in> set skip \<longrightarrow> probeControllerSkip os d skip = None)"

lemma chooseBackend_only:
  assumes "only_backend os good c" "good (dev s)" "lv_ctl lv = Some c"
  shows "\<exists>lv'. chooseBackend os lv s = (lv', s) \<and> lv_ctl lv' = Some c"
  using assms by (auto simp: chooseBackend_def only_backend_def Let_def)

lemma tick_switch:
  assumes "node_works os good (switchPath c) {ctl_enableVal c, ctl_disableVal c}" "only_backend os good c"
    "ctl_mode c = modeSwitch" "good (dev s)" "resumeAt s < pauseAt s" "lv_ctl lv = Some c"
    "v \<in> {ctl_enableVal c, ctl_disableVal c}" "commanded os c v (dev s)"
  shows "\<exists>lv' s'. runLoop_tick os lv s = (lv', s') \<and> lv_ctl lv' = Some c \<and> good (dev s') \<and>
     thresholds s' = thresholds s \<and>
     commanded os c (hyst (Thresholds s) (ctl_disableVal c) (ctl_enableVal c) (readBattery os (dev s)) v) (dev s')"
proof -
  obtain lv0 where l: "chooseBackend os lv s = (lv0, s)" "lv_ctl lv0 = Some c"
    using chooseBackend_only assms by blast
  obtain st' s' where "checkOnce os c (lv_st lv0) s = (c, st', s')" "good (dev s')" "thresholds s' = thresholds s"
     "commanded os c (hyst (Thresholds s) (ctl_disableVal c) (ctl_enableVal c) (readBattery os (dev s)) v) (dev s')"
    using checkOnce_switch[OF assms(1,3,4,5,7,8)] by blast
  then show ?thesis using l by (simp add: runLoop_tick_def runCheck_def)
qed

lemma hyst_values: "v \<in> {a, b} \<Longrightarrow> hyst w b a obs v \<in> {a, b}"
  by (auto simp: hyst_def split: option.splits)

lemma run_ticks_hyst:
  assumes "node_works os good (switchPath c) {ctl_enableVal c, ctl_disableVal c}" "only_backend os good c"
    "ctl_mode c = modeSwitch"
    and env: "\<forall>e\<in>set es. \<forall>d. good d \<longrightarrow> good (e d) \<and> readFile os (e d) (switchPath c) = readFile os d (switchPath c)"
    and "good (dev s)" "resumeAt s < pauseAt s" "lv_ctl lv = Some c"
    "v \<in> {ctl_enableVal c, ctl_disableVal c}" "commanded os c v (dev s)"
  shows "case run_ticks os es lv s of (lv', s', obs) \<Rightarrow>
     length obs = length es \<and> lv_ctl lv' = Some c \<and>
     commanded os c (fold (hyst (Thresholds s) (ctl_disableVal c) (ctl_enableVal c)) obs v) (dev s')"
  using assms
proof (induction es arbitrary: lv s v)
  case (Cons e es)
  let ?s = "s\<lparr>dev := e (dev s)\<rparr>"
  let ?v = "hyst (Thresholds s) (ctl_disableVal c) (ctl_enableVal c) (readBattery os (dev ?s)) v"
  have th: "Thresholds ?s = Thresholds s" "resumeAt ?s < pauseAt ?s"
    using Cons.prems(6) by (simp_all add: resumeAt_def pauseAt_def)
  have e: "good (dev ?s)" "commanded os c v (dev ?s)"
    using Cons.prems by (auto simp: commanded_def holds_value_def)
  obtain lv2 s2 where r: "runLoop_tick os lv ?s = (lv2, s2)" "lv_ctl lv2 = Some c" "good (dev s2)"
     "thresholds s2 = thresholds ?s" "commanded os c ?v (dev s2)"
    using tick_switch[OF Cons.prems(1,2,3) e(1) th(2) Cons.prems(7,8) e(2)] th(1) by auto
  have t2: "Thresholds s2 = Thresholds s" "resumeAt s2 < pauseAt s2"
    using r(4) th Cons.prems(6) by (simp_all add: Thresholds_def resumeAt_def pauseAt_def)
  have "case run_ticks os es lv2 s2 of (lv', s', obs) \<Rightarrow>
     length obs = length es \<and> lv_ctl lv' = Some c \<and>
     commanded os c (fold (hyst (Thresholds s2) (ctl_disableVal c) (ctl_enableVal c)) obs ?v) (dev s')"
    using Cons.IH[OF Cons.prems(1,2,3) _ r(3) t2(2) r(2) hyst_values[OF Cons.prems(8)] r(5)] Cons.prems(4)
    by simp
  then show ?case using r(1) t2(1) by (auto simp: Let_def split: prod.splits)
qed simp

section \<open>Backend choice\<close>

lemma cand_resolve_label: "cand_resolve os d c = Some k \<Longrightarrow> ctl_label k = cand_label c"
  by (auto simp: cand_resolve_def mkController_def Let_def split: mode.splits if_splits)

lemma map_filter_first:
  "List.map_filter f xs = y # ys \<Longrightarrow> \<exists>us x vs. xs = us @ x # vs \<and> f x = Some y \<and> (\<forall>u\<in>set us. f u = None)"
proof (induction xs)
  case (Cons a xs)
  show ?case
  proof (cases "f a")
    case None
    then obtain us x vs where "xs = us @ x # vs" "f x = Some y" "\<forall>u\<in>set us. f u = None"
      using Cons by (auto simp: List.map_filter_simps)
    then show ?thesis using None by (intro exI[of _ "a # us"] exI[of _ x] exI[of _ vs]) auto
  next
    case (Some b)
    then show ?thesis using Cons.prems
      by (intro exI[of _ "[]"] exI[of _ a] exI[of _ xs]) (auto simp: List.map_filter_simps)
  qed
qed (simp add: List.map_filter_simps)

lemma probe_label: "probeControllerSkip os d skip = Some k \<Longrightarrow> ctl_label k \<notin> set skip"
  by (auto simp: probeControllerSkip_def probeFrom_def split: list.splits
      dest!: map_filter_first cand_resolve_label)
     (metis (no_types, lifting) in_set_conv_decomp mem_Collect_eq set_filter)

text \<open>A node that rejects every write.\<close>

definition node_fails :: "'d sysfs \<Rightarrow> ('d \<Rightarrow> bool) \<Rightarrow> string \<Rightarrow> string set \<Rightarrow> bool" where
  "node_fails os good path vals \<longleftrightarrow>
     (\<forall>d v. good d \<longrightarrow> v \<in> vals \<longrightarrow> \<not> holds_value os d path v \<and>
        (\<forall>x\<in>{v, v @ newline}. \<exists>d' e. writeFile os d path x = (d', Some e) \<and> good d'))"

lemma write_rounds_fails:
  assumes "node_fails os good path vals" "v \<in> vals"
  shows "good d \<Longrightarrow> 0 < n \<or> err \<noteq> None \<Longrightarrow> \<exists>d' e. write_rounds os n path v err d = (d', Some e) \<and> good d'"
proof (induction n arbitrary: d err)
  case (Suc n)
  obtain d1 e1 where 1: "writeFile os d path (v @ newline) = (d1, Some e1)" "good d1"
    using assms Suc.prems unfolding node_fails_def by blast
  obtain d2 e2 where 2: "writeFile os d1 path v = (d2, Some e2)" "good d2"
    using assms 1(2) unfolding node_fails_def by blast
  show ?case using 1 2 Suc.IH[of d2 "Some e2"] by simp
qed auto

lemma writeValue_fails:
  assumes "node_fails os good path vals" "v \<in> vals" "good d"
  shows "\<exists>d' e. writeValue os path v d = (d', Some e) \<and> good d'"
proof -
  have "\<not> holds_value os d path v" using assms unfolding node_fails_def by blast
  then show ?thesis using write_rounds_fails[OF assms(1,2,3)] by (simp add: writeValue_def writeRetries_def)
qed

definition out_of_band :: "int \<times> int \<Rightarrow> (string \<times> int) option \<Rightarrow> bool" where
  "out_of_band w obs \<longleftrightarrow> (\<exists>name cap. obs = Some (name, cap) \<and> 0 \<le> cap \<and> (fst w \<le> cap \<or> cap \<le> snd w))"

definition apply_error :: "error \<Rightarrow> bool" where
  "apply_error e \<longleftrightarrow> has_prefix e ''apply: ''"

lemma checkOnce_fails:
  assumes "node_fails os good (switchPath c) {ctl_enableVal c, ctl_disableVal c}"
    "ctl_mode c = modeSwitch" "good (dev s)" "out_of_band (Thresholds s) (readBattery os (dev s))"
  shows "\<exists>st' d' e. checkOnce os c st s = (c, st', pushError e (s\<lparr>dev := d'\<rparr>)) \<and> good d' \<and> apply_error e \<and>
     writeFails st' = Suc (writeFails st) \<and> ineffective st' = ineffective st"
proof -
  obtain name cap where b: "readBattery os (dev s) = Some (name, cap)" "0 \<le> cap"
      "fst (Thresholds s) \<le> cap \<or> cap \<le> snd (Thresholds s)"
    using assms(4) by (auto simp: out_of_band_def)
  obtain d1 e1 where 1: "stopCharging os c (dev s) = (d1, Some e1)" "good d1"
    using writeValue_fails[OF assms(1) _ assms(3)] by (force simp: stopCharging_def)
  obtain d2 e2 where 2: "startCharging os c (dev s) = (d2, Some e2)" "good d2"
    using writeValue_fails[OF assms(1) _ assms(3)] by (force simp: startCharging_def)
  let ?st = "notePlug (readPlugged os (dev s) name) st"
  obtain d e where de: "(if desiredState (Thresholds s) cap = 1 then stopCharging os c (dev s)
        else startCharging os c (dev s)) = (d, Some e)" "good d"
    using 1 2 by (cases "desiredState (Thresholds s) cap = 1") auto
  have "checkOnce os c st s =
      (c, ?st\<lparr>writeFails := Suc (writeFails ?st)\<rparr>, pushError (''apply: '' @ e) (s\<lparr>dev := d\<rparr>))"
    using de(1) b assms(2)
    by (auto simp: checkOnce_def Let_def desiredState_def noteWrite_def simp del: notePlug_counts)
  then show ?thesis
    using de(2) by (intro exI[of _ "?st\<lparr>writeFails := Suc (writeFails ?st)\<rparr>"] exI[of _ d] exI[of _ "''apply: '' @ e"])
      (simp add: apply_error_def has_prefix_def)
qed

lemma tick_fails:
  assumes "node_fails os good (switchPath c) {ctl_enableVal c, ctl_disableVal c}"
    "ctl_mode c = modeSwitch" "good (dev s)" "out_of_band (Thresholds s) (readBattery os (dev s))"
    "lv_ctl lv = Some c" "writeFails (lv_st lv) < reprobeAfter" "ineffective (lv_st lv) < effectiveStrikes"
  shows "\<exists>st' d' e. runLoop_tick os lv s = (lv\<lparr>lv_st := st'\<rparr>, pushError e (s\<lparr>dev := d'\<rparr>)) \<and> good d' \<and>
     apply_error e \<and> writeFails st' = Suc (writeFails (lv_st lv)) \<and> ineffective st' = ineffective (lv_st lv)"
proof -
  have c: "chooseBackend os lv s = (lv, s)" using assms(5,6,7) by (simp add: chooseBackend_def)
  obtain st' d' e where r: "checkOnce os c (lv_st lv) s = (c, st', pushError e (s\<lparr>dev := d'\<rparr>))" "good d'"
     "apply_error e" "writeFails st' = Suc (writeFails (lv_st lv))" "ineffective st' = ineffective (lv_st lv)"
    using checkOnce_fails[OF assms(1,2,3,4)] by blast
  have "lv\<lparr>lv_ctl := Some c, lv_st := st'\<rparr> = lv\<lparr>lv_st := st'\<rparr>" using assms(5) by (cases lv) simp
  then have "runLoop_tick os lv s = (lv\<lparr>lv_st := st'\<rparr>, pushError e (s\<lparr>dev := d'\<rparr>))"
    using r(1) c assms(5) by (simp add: runLoop_tick_def runCheck_def)
  then show ?thesis using r by blast
qed

lemma pushError_dev: "pushError e (s\<lparr>dev := d\<rparr>) = (pushError e s)\<lparr>dev := d\<rparr>"
  by (simp add: pushError_def)

lemma fold_pushError_dev: "fold pushError errs (s\<lparr>dev := d\<rparr>) = (fold pushError errs s)\<lparr>dev := d\<rparr>"
  by (induction errs arbitrary: s) (simp_all add: pushError_dev)

lemma run_ticks_fails:
  assumes "node_fails os good (switchPath c) {ctl_enableVal c, ctl_disableVal c}" "ctl_mode c = modeSwitch"
    and env: "\<forall>e\<in>set es. \<forall>d. good d \<longrightarrow> good (e d) \<and> out_of_band (Thresholds s) (readBattery os (e d))"
    and "good (dev s)" "lv_ctl lv = Some c"
    "writeFails (lv_st lv) + length es \<le> reprobeAfter" "ineffective (lv_st lv) < effectiveStrikes"
  shows "case run_ticks os es lv s of (lv', s', obs) \<Rightarrow>
     lv_ctl lv' = Some c \<and> lv_bad lv' = lv_bad lv \<and> good (dev s') \<and>
     writeFails (lv_st lv') = writeFails (lv_st lv) + length es \<and>
     (\<exists>errs. length errs = length es \<and> (\<forall>e\<in>set errs. apply_error e) \<and>
        s' = (fold pushError errs s)\<lparr>dev := dev s'\<rparr>)"
  using assms
proof (induction es arbitrary: lv s)
  case Nil
  then show ?case by (auto intro: exI[of _ "[]"])
next
  case (Cons e es)
  let ?s = "s\<lparr>dev := e (dev s)\<rparr>"
  have g: "good (dev ?s)" "out_of_band (Thresholds ?s) (readBattery os (dev ?s))"
    using Cons.prems(3,4) by auto
  obtain st' d' er where r: "runLoop_tick os lv ?s = (lv\<lparr>lv_st := st'\<rparr>, pushError er (?s\<lparr>dev := d'\<rparr>))"
     "good d'" "apply_error er" "writeFails st' = Suc (writeFails (lv_st lv))" "ineffective st' = ineffective (lv_st lv)"
    using tick_fails[OF Cons.prems(1,2) g Cons.prems(5) _ Cons.prems(7)] Cons.prems(6) by auto
  let ?s2 = "pushError er (?s\<lparr>dev := d'\<rparr>)"
  have ih: "case run_ticks os es (lv\<lparr>lv_st := st'\<rparr>) ?s2 of (lv', s', obs) \<Rightarrow>
     lv_ctl lv' = Some c \<and> lv_bad lv' = lv_bad lv \<and> good (dev s') \<and>
     writeFails (lv_st lv') = Suc (writeFails (lv_st lv)) + length es \<and>
     (\<exists>errs. length errs = length es \<and> (\<forall>e\<in>set errs. apply_error e) \<and>
        s' = (fold pushError errs ?s2)\<lparr>dev := dev s'\<rparr>)"
    using Cons.IH[of ?s2 "lv\<lparr>lv_st := st'\<rparr>"] Cons.prems r by simp
  obtain lv3 s3 obs where q: "run_ticks os es (lv\<lparr>lv_st := st'\<rparr>) ?s2 = (lv3, s3, obs)" by (metis prod_cases3)
  obtain errs where errs: "length errs = length es" "\<forall>e\<in>set errs. apply_error e"
      "s3 = (fold pushError errs ?s2)\<lparr>dev := dev s3\<rparr>"
    using ih q by auto
  have "s3 = (fold pushError (er # errs) s)\<lparr>dev := dev s3\<rparr>"
    using errs(3) by (simp add: pushError_dev fold_pushError_dev)
  then show ?case
    using ih q r(1,3) errs
    by (auto simp: Let_def intro!: exI[of _ "er # errs"])
qed

lemma fold_pushError_errs:
  "statusLastErrs s = take 3 (map Some xs @ [None, None, None]) \<Longrightarrow>
   statusLastErrs (fold pushError errs s) = take 3 (map Some (rev errs @ xs) @ [None, None, None])"
proof (induction errs arbitrary: s xs)
  case (Cons e errs)
  have "statusLastErrs (pushError e s) = take 3 (map Some (e # xs) @ [None, None, None])"
    using Cons.prems by (cases xs; cases "tl xs"; simp add: pushError_def numeral_3_eq_3)
  then show ?case using Cons.IH[of "pushError e s" "e # xs"] by simp
qed simp

lemma LastErrs_take: "statusLastErrs s = take 3 (map Some xs @ [None, None, None]) \<Longrightarrow> LastErrs s = take 3 xs"
  by (cases xs; cases "tl xs"; cases "tl (tl xs)";
      auto simp: LastErrs_def List.map_filter_simps numeral_3_eq_3)

section \<open>Release\<close>

definition only_writes :: "'d sysfs \<Rightarrow> string \<Rightarrow> string \<Rightarrow> bool" where
  "only_writes os p q \<longleftrightarrow> (\<forall>d v. readFile os (fst (writeFile os d p v)) q = readFile os d q)"

lemma write_rounds_other:
  assumes "only_writes os p q"
  shows "readFile os (fst (write_rounds os n p v err d)) q = readFile os d q"
proof (induction n arbitrary: err d)
  case (Suc n)
  obtain d1 r1 where 1: "writeFile os d p (v @ newline) = (d1, r1)" by (metis prod.exhaust)
  obtain d2 r2 where 2: "writeFile os d1 p v = (d2, r2)" by (metis prod.exhaust)
  have "readFile os d1 q = readFile os d q" "readFile os d2 q = readFile os d1 q"
    using assms 1 2 unfolding only_writes_def by (metis fst_conv)+
  then show ?case using 1 2 Suc.IH by (simp split: option.splits)
qed simp

lemma writeValue_other:
  "only_writes os p q \<Longrightarrow> readFile os (fst (writeValue os p v d)) q = readFile os d q"
  by (simp add: writeValue_def write_rounds_other)

lemma Release_other:
  assumes "probeController os d = Some a" "ctl_mode a = modeSwitch" "only_writes os (switchPath a) q"
  shows "readFile os (Release os d) q = readFile os d q"
  using assms by (simp add: Release_def startCharging_def writeValue_other)

lemma Release_switch:
  assumes "probeController os d = Some c" "ctl_mode c = modeSwitch" "good d"
    "node_works os good (switchPath c) {ctl_enableVal c, ctl_disableVal c}"
  shows "good (Release os d) \<and> commanded os c (ctl_enableVal c) (Release os d)"
  using writeValue_works[OF assms(4,3), of "ctl_enableVal c"] assms(1,2)
  by (auto simp: Release_def startCharging_def commanded_def)

section \<open>Reported status\<close>

lemma tick_status:
  assumes "runLoop_tick os lv s = (lv', s')" "lv_ctl lv \<noteq> None"
  shows "AuthStatus s' = AuthStatus s \<and> lv_ctl lv' \<noteq> None"
proof -
  obtain c where c: "lv_ctl lv = Some c" using assms(2) by auto
  obtain l0 s0 where b: "chooseBackend os lv s = (l0, s0)" by (metis prod.exhaust)
  have "s0 = s" "lv_ctl l0 \<noteq> None"
    using b c by (auto simp: chooseBackend_def Let_def split: if_splits option.splits)
  moreover have r: "runCheck os l0 s0 = (lv', s')" using assms(1) b by (simp add: runLoop_tick_def)
  ultimately show ?thesis
    using runCheck_same[OF r] by (auto simp: runCheck_def AuthStatus_def split: option.splits prod.splits)
qed

lemma run_ticks_status:
  "run_ticks os es lv s = (lv', s', obs) \<Longrightarrow> lv_ctl lv \<noteq> None \<Longrightarrow>
   AuthStatus s' = AuthStatus s \<and> lv_ctl lv' \<noteq> None"
proof (induction es arbitrary: lv s lv' s' obs)
  case (Cons e es)
  obtain l2 s2 where r: "runLoop_tick os lv (s\<lparr>dev := e (dev s)\<rparr>) = (l2, s2)" by (metis prod.exhaust)
  have "AuthStatus s2 = AuthStatus s \<and> lv_ctl l2 \<noteq> None"
    using tick_status[OF r] Cons.prems(2) by (simp add: AuthStatus_def)
  then show ?case using Cons r by (auto simp: Let_def split: prod.splits)
qed simp

lemma init_status:
  assumes "runLoop_init os s = (lv, s')" "probeController os (dev s) = Some c"
  shows "AuthStatus s' = AuthStatus s \<and> lv_ctl lv \<noteq> None"
proof -
  have r: "runCheck os \<lparr>lv_bad = [], lv_ctl = Some c, lv_st = newLoopState\<rparr> s = (lv, s')"
    using assms by (simp add: runLoop_init_def probeController_def)
  then show ?thesis
    using runCheck_same[OF r] by (auto simp: runCheck_def AuthStatus_def split: prod.splits)
qed

section \<open>File trees\<close>

text \<open>
  Devices for the examples. \<open>memfs\<close> is a directory of plain files; in \<open>lockedfs\<close> the first
  switch node refuses writes; \<open>cellfs\<close> has one switch node and a battery, with the node's
  content and the capacity as its state.
\<close>

definition nodeA :: string where "nodeA = ''/sys/class/power_supply/battery/charging_enabled''"
definition nodeB :: string where "nodeB = ''/sys/class/power_supply/battery/ChargerEnable''"

definition memfs :: "(string \<times> string) list sysfs" where
  "memfs = \<lparr>readFile = map_of,
     writeFile = (\<lambda>d p v. if map_of d p = None then (d, Some ''ENOENT'') else (AList.update p v d, None)),
     readDir = (\<lambda>d p. if p = powerSupplyDir then Some [''battery''] else None),
     statIsDir = (\<lambda>d p. if map_of d p = None then None else Some False),
     globMatches = (\<lambda>d p. if map_of d p = None then [] else [p]),
     accessW = (\<lambda>d p. map_of d p \<noteq> None)\<rparr>"

definition lockedfs :: "(string \<times> string) list sysfs" where
  "lockedfs = memfs\<lparr>writeFile := (\<lambda>d p v. if p = nodeA then (d, Some ''EACCES'') else writeFile memfs d p v)\<rparr>"

definition tree :: "string \<Rightarrow> string \<Rightarrow> string \<Rightarrow> (string \<times> string) list" where
  "tree cap a b =
     [(''/sys/class/power_supply/battery/type'', ''Battery''),
      (''/sys/class/power_supply/battery/capacity'', cap),
      (''/sys/class/power_supply/battery/status'', ''Charging''),
      (''/sys/class/power_supply/battery/current_now'', ''900000''),
      (nodeA, a), (nodeB, b)]"

definition cellfs :: "(string \<times> string) sysfs" where
  "cellfs = \<lparr>readFile = (\<lambda>(v, cap) p. if p = nodeA then Some v
        else if p = ''/sys/class/power_supply/battery/type'' then Some ''Battery''
        else if p = ''/sys/class/power_supply/battery/capacity'' then Some cap else None),
     writeFile = (\<lambda>(v, cap) p x. if p = nodeA then ((x, cap), None) else ((v, cap), Some ''ENOENT'')),
     readDir = (\<lambda>d p. if p = powerSupplyDir then Some [''battery''] else None),
     statIsDir = (\<lambda>d p. if p = nodeA then Some False else None),
     globMatches = (\<lambda>d p. if p = nodeA then [p] else []),
     accessW = (\<lambda>d p. p = nodeA)\<rparr>"

definition switchCtl :: "string \<Rightarrow> string \<Rightarrow> controller" where
  "switchCtl l p = (mkController modeSwitch l)\<lparr>switchPath := p, ctl_enableVal := ''1'', ctl_disableVal := ''0''\<rparr>"

section \<open>Properties\<close>

text \<open>C8: In every interleaving of the loop with the settings page and the hardware, the window
  satisfies 0 \<le> resume < pause \<le> 100, the reported running flag and start time agree with
  the loop, and neither failure counter passes three.\<close>

theorem reachable_window:
  assumes "(chg_step os)\<^sup>*\<^sup>* (initial_chg d) s"
  shows "0 \<le> resumeAt s \<and> resumeAt s < pauseAt s \<and> pauseAt s \<le> 100 \<and>
    (statusRunning s \<longleftrightarrow> loopPh s \<noteq> NoLoop) \<and> (ConnectedSince s = None \<longleftrightarrow> loopPh s = NoLoop) \<and>
    (case loopPh s of Ticking lv \<Rightarrow> writeFails (lv_st lv) \<le> 3 \<and> ineffective (lv_st lv) \<le> 3 | _ \<Rightarrow> True)"
  using chg_reachable_inv[OF assms]
  by (auto simp: chg_inv_def window_ok_def counts_ok_def reprobeAfter_def effectiveStrikes_def split: loopPhase.splits)

theorem reachable_window_witness:
  "pauseAt (fst (SetThresholds 60 40 (Start 5 (initial_chg (tree ''80'' ''1'' ''1''))))) = 60 \<and>
   ConnectedSince (fst (SetThresholds 60 40 (Start 5 (initial_chg (tree ''80'' ''1'' ''1''))))) \<noteq> None"
proof -
  have "(chg_step memfs)\<^sup>*\<^sup>* (initial_chg (tree ''80'' ''1'' ''1''))
          (fst (SetThresholds 60 40 (Start 5 (initial_chg (tree ''80'' ''1'' ''1'')))))"
    by (rule converse_rtranclp_into_rtranclp[OF step_on r_into_rtranclp[of "chg_step memfs", OF step_window]])
  from reachable_window[OF this] show ?thesis
    by (simp add: Start_def initial_chg_def setRunning_def SetThresholds_def ValidateWindow_def pauseAt_def Thresholds_def)
qed

text \<open>C9: Against any environment and any device on which the switch node works, the loop implements
  the abstract hysteresis: the node always holds what \<open>hyst\<close> commands after the readings
  seen so far. So once a reading reached the pause threshold, charging stays stopped for as
  long as every reading is above the resume threshold.\<close>

theorem switch_refines_hysteresis:
  assumes "node_works os good (switchPath c) {ctl_enableVal c, ctl_disableVal c}" "only_backend os good c"
    "ctl_mode c = modeSwitch" "good (dev s)" "resumeAt s < pauseAt s" "lv_ctl lv = Some c"
    "v \<in> {ctl_enableVal c, ctl_disableVal c}" "commanded os c v (dev s)"
    "\<forall>e\<in>set es. \<forall>d. good d \<longrightarrow> good (e d) \<and> readFile os (e d) (switchPath c) = readFile os d (switchPath c)"
  shows "case run_ticks os es lv s of (lv', s', obs) \<Rightarrow>
     length obs = length es \<and> lv_ctl lv' = Some c \<and>
     commanded os c (fold (hyst (Thresholds s) (ctl_disableVal c) (ctl_enableVal c)) obs v) (dev s') \<and>
     (\<forall>pre name cap post. obs = pre @ Some (name, cap) # post \<longrightarrow> pauseAt s \<le> cap \<longrightarrow> 0 \<le> cap \<longrightarrow>
        (\<forall>n k. Some (n, k) \<in> set post \<longrightarrow> resumeAt s < k) \<longrightarrow> commanded os c (ctl_disableVal c) (dev s'))"
proof -
  obtain lv' s' obs where r: "run_ticks os es lv s = (lv', s', obs)" by (metis prod_cases3)
  have h: "length obs = length es" "lv_ctl lv' = Some c"
    "commanded os c (fold (hyst (Thresholds s) (ctl_disableVal c) (ctl_enableVal c)) obs v) (dev s')"
    using run_ticks_hyst[OF assms(1-3) assms(9) assms(4-8)] r by auto
  have band: "fold (hyst (Thresholds s) (ctl_disableVal c) (ctl_enableVal c)) (pre @ Some (name, cap) # post) v =
      ctl_disableVal c"
    if "pauseAt s \<le> cap" "0 \<le> cap" "\<forall>n k. Some (n, k) \<in> set post \<longrightarrow> resumeAt s < k" for pre name cap post
    using that hyst_band[of "Thresholds s" post "ctl_disableVal c" "ctl_enableVal c"] assms(5)
    by (auto simp: hyst_def pauseAt_def resumeAt_def)
  show ?thesis using r h band by auto
qed

definition full_pat :: "string \<Rightarrow> string" where
  "full_pat p = (if has_prefix p ''/'' then p else powerSupplyDir @ ''/'' @ p)"

lemma cellfs_firstMatch: "full_pat p \<noteq> nodeA \<Longrightarrow> firstMatch cellfs d p = []"
  by (simp add: firstMatch_def cellfs_def resolve_path_def sysRoot_def path_join_def full_pat_def
      split: if_splits)

lemma full_pat_nodeA: "full_pat p = nodeA \<Longrightarrow> p = ''battery/charging_enabled'' \<or> p = nodeA"
  by (auto simp: full_pat_def nodeA_def powerSupplyDir_def split: if_splits)

lemma cand_resolve_None:
  "firstMatch os d (if cand_mode c = modeSwitch then pat c else endPat c) = [] \<Longrightarrow> cand_resolve os d c = None"
  by (cases "cand_mode c") (simp_all add: cand_resolve_def)

lemma probe_None:
  assumes "\<forall>c\<in>set (orderedCandidates True). cand_label c \<in> set skip \<or> cand_resolve os d c = None"
  shows "probeControllerSkip os d skip = None"
proof (cases "probeControllerSkip os d skip")
  case (Some k)
  then obtain us x vs where "filter (\<lambda>c. cand_label c \<notin> set skip) (orderedCandidates True) = us @ x # vs"
      "cand_resolve os d x = Some k"
    by (auto simp: probeControllerSkip_def probeFrom_def split: list.splits dest!: map_filter_first)
  then have "x \<in> set (filter (\<lambda>c. cand_label c \<notin> set skip) (orderedCandidates True))" "cand_resolve os d x \<noteq> None"
    by simp_all
  then show ?thesis using assms by auto
qed

lemma only_backendI:
  assumes "\<And>c d. c \<in> set (orderedCandidates True) \<Longrightarrow> cand_label c = ctl_label k \<or> cand_resolve os d c = None"
  shows "only_backend os good k"
  unfolding only_backend_def
proof (intro allI impI)
  fix d skip
  assume "ctl_label k \<in> set skip"
  then show "probeControllerSkip os d skip = None"
    using assms by (intro probe_None ballI) metis
qed

definition labelA :: string where "labelA = ''battery/charging_enabled''"

definition off_node :: "candidate \<Rightarrow> bool" where
  "off_node c \<longleftrightarrow> pat c \<noteq> labelA \<and> pat c \<noteq> nodeA \<and> endPat c \<noteq> labelA \<and> endPat c \<noteq> nodeA"

lemma cellfs_no_match:
  assumes "off_node c"
  shows "cand_resolve cellfs d c = None"
proof (rule cand_resolve_None, rule cellfs_firstMatch)
  show "full_pat (if cand_mode c = modeSwitch then pat c else endPat c) \<noteq> nodeA"
    using assms full_pat_nodeA[of "pat c"] full_pat_nodeA[of "endPat c"]
    unfolding off_node_def labelA_def[symmetric] by presburger
qed

lemma candidates_off_node: "\<forall>c\<in>set (orderedCandidates True). cand_label c = labelA \<or> off_node c"
  by (simp add: orderedCandidates_def kernelCandidates_def accCandidates_def abiExtras_def laptopExtras_def
      switchCand_def levelCand_def nodeA_def off_node_def labelA_def)

lemma cellfs_only: "only_backend cellfs (\<lambda>_. True) (switchCtl labelA nodeA)"
proof -
  have "ctl_label (switchCtl labelA nodeA) = labelA"
    by (simp add: switchCtl_def mkController_def)
  then show ?thesis
    using candidates_off_node cellfs_no_match by (intro only_backendI) metis
qed

lemma cellfs_works: "node_works cellfs (\<lambda>_. True) nodeA {''1'', ''0''}"
proof -
  have "trim_space (''1'' @ newline) = ''1''"
    unfolding newline_def by (rule trim_space_line) (simp_all add: printing_def)
  moreover have "trim_space (''0'' @ newline) = ''0''"
    unfolding newline_def by (rule trim_space_line) (simp_all add: printing_def)
  ultimately show ?thesis by (auto simp: node_works_def cellfs_def holds_value_def)
qed

theorem switch_refines_hysteresis_witness:
  "let c = switchCtl labelA nodeA;
       es = [\<lambda>(v, cap). (v, ''80''), \<lambda>(v, cap). (v, ''50''), \<lambda>(v, cap). (v, ''31'')]
   in case run_ticks cellfs es \<lparr>lv_bad = [], lv_ctl = Some c, lv_st = newLoopState\<rparr> (initial_chg (''1'', ''60'')) of
        (lv', s', obs) \<Rightarrow> length obs = 3 \<and> lv_ctl lv' = Some c"
proof -
  let ?c = "switchCtl labelA nodeA"
  let ?es = "[\<lambda>(v, cap). (v, ''80''), \<lambda>(v, cap). (v, ''50''), \<lambda>(v, cap). (v, ''31'')] :: (string \<times> string \<Rightarrow> string \<times> string) list"
  have w: "node_works cellfs (\<lambda>_. True) (switchPath ?c) {ctl_enableVal ?c, ctl_disableVal ?c}"
    using cellfs_works by (simp add: switchCtl_def)
  have p: "resumeAt (initial_chg (''1'', ''60'')) < pauseAt (initial_chg (''1'', ''60''))"
    by (simp add: resumeAt_def pauseAt_def Thresholds_def initial_chg_def DefaultPauseAt_def DefaultResumeAt_def)
  have "trim_space ''1'' = ''1''" by (simp add: printing_def)
  then have v: "commanded cellfs ?c ''1'' (dev (initial_chg (''1'', ''60'')))"
    by (simp add: commanded_def holds_value_def cellfs_def switchCtl_def initial_chg_def)
  have env: "\<forall>e\<in>set ?es. \<forall>d. True \<longrightarrow> True \<and> readFile cellfs (e d) (switchPath ?c) = readFile cellfs d (switchPath ?c)"
    by (simp add: cellfs_def switchCtl_def split: prod.splits)
  have m: "ctl_mode ?c = modeSwitch" "''1'' \<in> {ctl_enableVal ?c, ctl_disableVal ?c}"
    by (simp_all add: switchCtl_def mkController_def)
  show ?thesis
    using switch_refines_hysteresis[OF w cellfs_only m(1) TrueI p _ m(2) v env,
        of "\<lparr>lv_bad = [], lv_ctl = Some ?c, lv_st = newLoopState\<rparr>"]
    by (auto simp: Let_def split: prod.splits)
qed

text \<open>C10: A backend whose writes keep failing is dropped: after three failing ticks outside the band
  the next tick blacklists it, moves to the first other usable backend and starts its counters
  at zero; the three failures are what LastErrs then reports.\<close>

theorem failing_backend_replaced:
  assumes "node_fails os good (switchPath c) {ctl_enableVal c, ctl_disableVal c}" "ctl_mode c = modeSwitch"
    "\<forall>e\<in>set es. \<forall>d. good d \<longrightarrow> good (e d) \<and> out_of_band (Thresholds s) (readBattery os (e d))"
    "good (dev s)" "lv_ctl lv = Some c" "writeFails (lv_st lv) = 0" "ineffective (lv_st lv) < effectiveStrikes"
    "length es = 3" "\<forall>d. good d \<longrightarrow> probeControllerSkip os d (ctl_label c # lv_bad lv) = Some c2"
  shows "case run_ticks os es lv s of (lv', s', obs) \<Rightarrow>
     length (LastErrs s') = 3 \<and> (\<forall>e\<in>set (LastErrs s'). apply_error e) \<and>
     (case chooseBackend os lv' s' of (lv'', s'') \<Rightarrow>
        lv_ctl lv'' = Some c2 \<and> ctl_label c2 \<noteq> ctl_label c \<and> lv_bad lv'' = ctl_label c # lv_bad lv \<and>
        writeFails (lv_st lv'') = 0 \<and> ineffective (lv_st lv'') = 0)"
proof -
  obtain lv' s' obs where r: "run_ticks os es lv s = (lv', s', obs)" by (metis prod_cases3)
  obtain errs where h: "lv_ctl lv' = Some c" "lv_bad lv' = lv_bad lv" "good (dev s')"
     "writeFails (lv_st lv') = 3" "length errs = 3" "\<forall>e\<in>set errs. apply_error e"
     "s' = (fold pushError errs s)\<lparr>dev := dev s'\<rparr>"
    using run_ticks_fails[OF assms(1-5) _ assms(7)] assms(6,8) r by (auto simp: reprobeAfter_def)
  obtain a b e where e: "errs = [a, b, e]" using h(5) by (auto simp: numeral_3_eq_3 length_Suc_conv)
  have "statusLastErrs s' = statusLastErrs (fold pushError errs s)"
    using arg_cong[OF h(7), of statusLastErrs] by simp
  then have l: "LastErrs s' = [e, b, a]" using e by (simp add: LastErrs_def pushError_def List.map_filter_simps)
  have p: "probeControllerSkip os (dev s') (ctl_label c # lv_bad lv') = Some c2"
    using assms(9) h(2,3) by simp
  then have "ctl_label c2 \<noteq> ctl_label c" using probe_label by fastforce
  then show ?thesis using r h l e p by (simp add: chooseBackend_def Let_def reprobeAfter_def)
qed

lemma tree_lookup:
  "dir = ''/sys/class/power_supply/battery'' \<Longrightarrow> map_of (tree cap a b) (path_join dir ''type'') = Some ''Battery''"
  "dir = ''/sys/class/power_supply/battery'' \<Longrightarrow> map_of (tree cap a b) (path_join dir ''capacity'') = Some cap"
  "dir = ''/sys/class/power_supply/battery'' \<Longrightarrow> map_of (tree cap a b) (path_join dir ''present'') = None"
  "map_of (tree cap a b) nodeA = Some a" "map_of (tree cap a b) nodeB = Some b"
  by (simp_all add: tree_def path_join_def nodeA_def nodeB_def)

lemma memfs_simps [simp]:
  "readFile memfs = map_of"
  "writeFile memfs d p v = (if map_of d p = None then (d, Some ''ENOENT'') else (AList.update p v d, None))"
  "readDir memfs d p = (if p = powerSupplyDir then Some [''battery''] else None)"
  by (simp_all add: memfs_def)

lemma lockedfs_simps [simp]:
  "readFile lockedfs = map_of" "readDir lockedfs = readDir memfs"
  "writeFile lockedfs d p v = (if p = nodeA then (d, Some ''EACCES'') else writeFile memfs d p v)"
  by (simp_all add: lockedfs_def)

lemma trim_Battery: "trim_space ''Battery'' = ''Battery''" by (simp add: printing_def)
lemma trim_x: "trim_space ''x'' = ''x''" by (simp add: printing_def)
lemma trim_0: "trim_space ''0'' = ''0''" by (simp add: printing_def)
lemma trim_1: "trim_space ''1'' = ''1''" by (simp add: printing_def)
lemma trim_80: "trim_space ''80'' = ''80''" by (simp add: printing_def)

lemmas trim_examples = trim_Battery trim_x trim_0 trim_1 trim_80

lemma memfs_readBattery:
  assumes "atoi (trim_space (trim_space cap)) = Some k"
  shows "readBattery memfs (tree cap a b) = Some (''battery'', k)"
proof -
  have d: "path_join (resolve_path powerSupplyDir) ''battery'' = ''/sys/class/power_supply/battery''"
    by (simp add: path_join_def resolve_path_def sysRoot_def powerSupplyDir_def)
  have "readBattery_entry memfs (tree cap a b) ''battery'' = Some (''battery'', k)"
    using assms
    by (simp add: readBattery_entry_def readSysfsString_def readSysfsInt_def d tree_lookup(1-3)[OF refl] trim_examples)
  then show ?thesis
    by (simp add: readBattery_def resolve_path_def sysRoot_def List.map_filter_simps)
qed

lemma eighty: "atoi (trim_space (trim_space ''80'')) = Some 80"
  unfolding trim_examples by code_simp

lemma probe_after_A:
  "probeControllerSkip lockedfs (tree ''80'' ''x'' ''1'') [labelA] = Some (switchCtl ''battery/ChargerEnable'' nodeB)"
  by code_simp

lemma lockedfs_fails:
  "node_fails lockedfs (\<lambda>d. d = tree ''80'' ''x'' ''1'') nodeA {''1'', ''0''}"
  by (auto simp: node_fails_def holds_value_def tree_lookup trim_examples)

lemma lockedfs_readBattery: "readBattery lockedfs d = readBattery memfs d"
proof -
  have "readSysfsInt lockedfs = readSysfsInt memfs" "readSysfsString lockedfs = readSysfsString memfs"
    by (intro ext; simp add: readSysfsInt_def readSysfsString_def)+
  then have "readBattery_entry lockedfs = readBattery_entry memfs"
    by (intro ext) (simp only: readBattery_entry_def)
  then show ?thesis by (simp add: readBattery_def)
qed

lemma initial_window [simp]:
  "Thresholds (initial_chg d) = (75, 30)" "pauseAt (initial_chg d) = 75" "resumeAt (initial_chg d) = 30"
  "dev (initial_chg d) = d" "AuthStatus (initial_chg d) = ''local''"
  by (simp_all add: Thresholds_def initial_chg_def DefaultPauseAt_def DefaultResumeAt_def pauseAt_def resumeAt_def
      AuthStatus_def authStatusLocal_def)

lemma switchCtl_fields [simp]:
  "ctl_mode (switchCtl l p) = modeSwitch" "ctl_label (switchCtl l p) = l" "switchPath (switchCtl l p) = p"
  "ctl_enableVal (switchCtl l p) = ''1''" "ctl_disableVal (switchCtl l p) = ''0''"
  by (simp_all add: switchCtl_def mkController_def)

theorem failing_backend_replaced_witness:
  "case run_ticks lockedfs [\<lambda>d. d, \<lambda>d. d, \<lambda>d. d]
      \<lparr>lv_bad = [], lv_ctl = Some (switchCtl labelA nodeA), lv_st = newLoopState\<rparr>
      (initial_chg (tree ''80'' ''x'' ''1'')) of (lv', s', obs) \<Rightarrow>
     length (LastErrs s') = 3 \<and>
     lv_ctl (fst (chooseBackend lockedfs lv' s')) = Some (switchCtl ''battery/ChargerEnable'' nodeB)"
proof -
  let ?d = "tree ''80'' ''x'' ''1''" and ?c = "switchCtl labelA nodeA"
  have env: "\<forall>e\<in>set [\<lambda>d. d, \<lambda>d. d, \<lambda>d. d]. \<forall>d. d = ?d \<longrightarrow>
      e d = ?d \<and> out_of_band (Thresholds (initial_chg ?d)) (readBattery lockedfs (e d))"
    by (auto simp: lockedfs_readBattery memfs_readBattery[OF eighty] out_of_band_def)
  have f: "node_fails lockedfs (\<lambda>d. d = ?d) (switchPath ?c) {ctl_enableVal ?c, ctl_disableVal ?c}"
    using lockedfs_fails by simp
  show ?thesis
    using failing_backend_replaced[OF f _ env, of "\<lparr>lv_bad = [], lv_ctl = Some ?c, lv_st = newLoopState\<rparr>"
        "switchCtl ''battery/ChargerEnable'' nodeB"] probe_after_A
    by (auto simp: newLoopState_def effectiveStrikes_def split: prod.splits)
qed

text \<open>Turning the limiter off misses the backend in use after a fallback: the release re-probes
  without the blacklist, so it re-enables the first usable node and leaves the active one
  holding its stop value, with the loop stopped.\<close>

theorem release_misses_active_backend:
  assumes "loopPh s = Ticking lv" "lv_ctl lv = Some b" "commanded os b (ctl_disableVal b) (dev s)"
    "probeController os (dev s) = Some a" "ctl_mode a = modeSwitch" "only_writes os (switchPath a) (switchPath b)"
    "vals ''batctl'' = ''false''"
  shows "let s' = fold (runBatCall os now) (applyBatctl vals) s
         in loopPh s' = NoLoop \<and> commanded os b (ctl_disableVal b) (dev s')"
proof -
  have "batctl_on vals = False" using assms(7) by (simp add: batctl_on_def parseBool_def)
  then show ?thesis
    using assms Release_other[OF assms(4,5,6)]
    by (simp add: applyBatctl_def Stop_def setRunning_def commanded_def holds_value_def Let_def)
qed

theorem release_misses_active_backend_witness:
  "let b = switchCtl ''battery/ChargerEnable'' nodeB;
       s = (initial_chg (tree ''80'' ''1'' ''0''))
             \<lparr>loopPh := Ticking \<lparr>lv_bad = [labelA], lv_ctl = Some b, lv_st = newLoopState\<rparr>\<rparr>;
       s' = fold (runBatCall memfs 0) (applyBatctl (\<lambda>k. ''false'')) s
   in loopPh s' = NoLoop \<and> commanded memfs b ''0'' (dev s')"
proof -
  have probe: "probeController memfs (tree ''80'' ''1'' ''0'') = Some (switchCtl labelA nodeA)"
    by code_simp
  have "only_writes memfs nodeA nodeB"
    by (auto simp: only_writes_def update_conv' nodeA_def nodeB_def)
  moreover have "commanded memfs (switchCtl ''battery/ChargerEnable'' nodeB) ''0'' (tree ''80'' ''1'' ''0'')"
    by (simp add: commanded_def holds_value_def tree_lookup trim_examples)
  ultimately show ?thesis
    using release_misses_active_backend[of "(initial_chg (tree ''80'' ''1'' ''0''))
             \<lparr>loopPh := Ticking \<lparr>lv_bad = [labelA], lv_ctl = Some (switchCtl ''battery/ChargerEnable'' nodeB), lv_st = newLoopState\<rparr>\<rparr>"
        _ "switchCtl ''battery/ChargerEnable'' nodeB" memfs "switchCtl labelA nodeA" "\<lambda>k. ''false''" 0] probe
    by (simp add: Let_def)
qed

text \<open>Turning the limiter off releases the hardware before it stops the loop, so a tick that
  falls between the two puts the limit back: with the pack at or above the pause threshold the
  node ends at its stop value and nothing is left running to lift it.\<close>

theorem release_before_stop_race:
  assumes "node_works os good (switchPath c) {ctl_enableVal c, ctl_disableVal c}" "only_backend os good c"
    "ctl_mode c = modeSwitch" "good (dev s)" "resumeAt s < pauseAt s"
    "loopPh s = Ticking lv" "lv_ctl lv = Some c" "probeController os (dev s) = Some c"
    "\<forall>d. good d \<longrightarrow> (\<exists>name cap. readBattery os d = Some (name, cap) \<and> 0 \<le> cap \<and> pauseAt s \<le> cap)"
  shows "\<exists>s1 s2 s3. chg_step os s s1 \<and> chg_step os s1 s2 \<and> chg_step os s2 s3 \<and>
     s1 = runBatCall os now CallRelease s \<and> commanded os c (ctl_enableVal c) (dev s1) \<and>
     s3 = runBatCall os now CallStop s2 \<and> loopPh s3 = NoLoop \<and> commanded os c (ctl_disableVal c) (dev s3)"
proof -
  let ?s1 = "s\<lparr>dev := Release os (dev s)\<rparr>"
  have r: "good (dev ?s1)" "commanded os c (ctl_enableVal c) (dev ?s1)"
    using Release_switch[OF assms(8,3,4,1)] by simp_all
  have w: "resumeAt ?s1 < pauseAt ?s1" "Thresholds ?s1 = Thresholds s"
    using assms(5) by (simp_all add: resumeAt_def pauseAt_def)
  obtain name cap where b: "readBattery os (dev ?s1) = Some (name, cap)" "0 \<le> cap" "pauseAt s \<le> cap"
    using assms(9) r(1) by blast
  obtain lv' s' where t: "runLoop_tick os lv ?s1 = (lv', s')"
     "commanded os c (hyst (Thresholds ?s1) (ctl_disableVal c) (ctl_enableVal c)
        (readBattery os (dev ?s1)) (ctl_enableVal c)) (dev s')"
    using tick_switch[OF assms(1,2,3) r(1) w(1) assms(7) _ r(2)] by blast
  have c: "commanded os c (ctl_disableVal c) (dev s')"
    using t(2) b w(2) by (simp add: hyst_def pauseAt_def)
  let ?s2 = "s'\<lparr>loopPh := Ticking lv'\<rparr>"
  have "chg_step os s ?s1" by (rule step_release)
  moreover have "chg_step os ?s1 ?s2" using step_tick[of ?s1 lv os lv' s'] assms(6) t(1) by simp
  moreover have "chg_step os ?s2 (Stop ?s2)" by (rule step_stop)
  ultimately show ?thesis
    using r(2) c by (intro exI[of _ ?s1] exI[of _ ?s2] exI[of _ "Stop ?s2"]) (simp add: Stop_def setRunning_def)
qed

lemma cellfs_simps [simp]:
  "readFile cellfs (v, cap) nodeA = Some v"
  "writeFile cellfs (v, cap) nodeA x = ((x, cap), None)"
  by (simp_all add: cellfs_def)

lemma cellfs_readBattery: "readBattery cellfs (v, ''80'') = Some (''battery'', 80)"
proof -
  let ?dir = "''/sys/class/power_supply/battery''"
  have d: "path_join (resolve_path powerSupplyDir) ''battery'' = ?dir"
    by (simp add: path_join_def resolve_path_def sysRoot_def powerSupplyDir_def)
  have f: "readFile cellfs (v, ''80'') (path_join ?dir ''type'') = Some ''Battery''"
    "readFile cellfs (v, ''80'') (path_join ?dir ''present'') = None"
    "readFile cellfs (v, ''80'') (path_join ?dir ''capacity'') = Some ''80''"
    by (simp_all add: cellfs_def path_join_def nodeA_def)
  have "readDir cellfs d p = (if p = powerSupplyDir then Some [''battery''] else None)" for d p
    by (simp add: cellfs_def)
  moreover have "readBattery_entry cellfs (v, ''80'') ''battery'' = Some (''battery'', 80)"
    using eighty by (simp add: readBattery_entry_def readSysfsString_def readSysfsInt_def d f trim_Battery)
  ultimately show ?thesis
    by (simp add: readBattery_def resolve_path_def sysRoot_def List.map_filter_simps)
qed

lemma cellfs_works80: "node_works cellfs (\<lambda>d. snd d = ''80'') nodeA {''1'', ''0''}"
  using cellfs_works by (auto simp: node_works_def)

lemma cellfs_only80: "only_backend cellfs (\<lambda>d. snd d = ''80'') (switchCtl labelA nodeA)"
  using cellfs_only by (auto simp: only_backend_def)

lemma cellfs_probe: "probeController cellfs (''0'', ''80'') = Some (switchCtl labelA nodeA)"
  by code_simp

theorem release_before_stop_race_witness:
  "let s = (initial_chg (''0'', ''80''))
        \<lparr>loopPh := Ticking \<lparr>lv_bad = [], lv_ctl = Some (switchCtl labelA nodeA), lv_st = newLoopState\<rparr>\<rparr>
   in \<exists>s3. (chg_step cellfs)\<^sup>*\<^sup>* s s3 \<and> loopPh s3 = NoLoop \<and> commanded cellfs (switchCtl labelA nodeA) ''0'' (dev s3)"
proof -
  let ?c = "switchCtl labelA nodeA"
  let ?lv = "\<lparr>lv_bad = [], lv_ctl = Some ?c, lv_st = newLoopState\<rparr>"
  let ?s = "(initial_chg (''0'', ''80''))\<lparr>loopPh := Ticking ?lv\<rparr>"
  have w: "node_works cellfs (\<lambda>d. snd d = ''80'') (switchPath ?c) {ctl_enableVal ?c, ctl_disableVal ?c}"
    using cellfs_works80 by simp
  have p: "pauseAt ?s = 75" "resumeAt ?s = 30"
    using initial_window by (simp_all add: pauseAt_def resumeAt_def)
  have b: "\<forall>d. snd d = ''80'' \<longrightarrow> (\<exists>name cap. readBattery cellfs d = Some (name, cap) \<and> 0 \<le> cap \<and> pauseAt ?s \<le> cap)"
    using cellfs_readBattery p by auto
  obtain s1 s2 s3 where r: "chg_step cellfs ?s s1" "chg_step cellfs s1 s2" "chg_step cellfs s2 s3"
     "loopPh s3 = NoLoop" "commanded cellfs ?c (ctl_disableVal ?c) (dev s3)"
    using release_before_stop_race[OF w cellfs_only80, of ?s ?lv 0] p b cellfs_probe by auto
  then have "(chg_step cellfs)\<^sup>*\<^sup>* ?s s3"
    using converse_rtranclp_into_rtranclp[OF r(1) converse_rtranclp_into_rtranclp[OF r(2) r_into_rtranclp[of "chg_step cellfs", OF r(3)]]]
    by simp
  then show ?thesis using r by (auto simp: Let_def)
qed

text \<open>The status text is wrong after a restart: once a run has reported no-backend, a later run
  that finds a backend at once keeps reporting no-backend through every tick.\<close>

theorem auth_status_stale:
  assumes "AuthStatus s = ''no-backend''" "loopPh s = NoLoop" "probeController os (dev s) = Some c"
  shows "case runLoop_init os (Start now s) of (lv, s1) \<Rightarrow>
     (case run_ticks os es lv s1 of (lv', s2, obs) \<Rightarrow> AuthStatus s2 = ''no-backend'' \<and> lv_ctl lv' \<noteq> None)"
proof -
  have s: "AuthStatus (Start now s) = ''no-backend''" "dev (Start now s) = dev s"
    using assms(1,2) by (simp_all add: Start_def setRunning_def AuthStatus_def)
  obtain lv s1 where i: "runLoop_init os (Start now s) = (lv, s1)" by (metis prod.exhaust)
  obtain lv' s2 obs where r: "run_ticks os es lv s1 = (lv', s2, obs)" by (metis prod_cases3)
  show ?thesis
    using init_status[OF i] run_ticks_status[OF r] s assms(3) i r by simp
qed

theorem auth_status_stale_witness:
  "case runLoop_init cellfs (Start 9 (setAuthStatus ''no-backend'' (initial_chg (''0'', ''80'')))) of (lv, s1) \<Rightarrow>
     (case run_ticks cellfs [\<lambda>d. d] lv s1 of (lv', s2, obs) \<Rightarrow> AuthStatus s2 = ''no-backend'' \<and> lv_ctl lv' \<noteq> None)"
  by (rule auth_status_stale[where c = "switchCtl labelA nodeA"])
     (simp_all add: setAuthStatus_def AuthStatus_def initial_chg_def cellfs_probe)

text \<open>The check and the application of the settings agree: values that pass the check are applied
  without an error and become the window; empty values stand for the defaults; values the
  check rejects for their range leave the window alone.\<close>

theorem settings_check_apply:
  "(checkChargectlWindow vals = None \<longrightarrow>
      (\<exists>p r. parsePct ''chargectl-pause-at'' vals DefaultPauseAt = Inr p \<and>
             parsePct ''chargectl-resume-at'' vals DefaultResumeAt = Inr r \<and>
             snd (applyChargectlWindow vals s) = None \<and> Thresholds (fst (applyChargectlWindow vals s)) = (p, r))) \<and>
   (\<forall>p r e. parsePct ''chargectl-pause-at'' vals DefaultPauseAt = Inr p \<longrightarrow>
        parsePct ''chargectl-resume-at'' vals DefaultResumeAt = Inr r \<longrightarrow>
        checkChargectlWindow vals = Some e \<longrightarrow> applyChargectlWindow vals s = (s, Some e))"
proof -
  have a: "atoi [] = None" by (simp add: atoi_def)
  have p: "parsePct n vals d = Inr v \<Longrightarrow> (case atoi (vals n) of Some v \<Rightarrow> v | None \<Rightarrow> d) = v" for n d v
    by (auto simp: parsePct_def a split: if_splits option.splits)
  show ?thesis
    using p by (auto simp: checkChargectlWindow_def applyChargectlWindow_def SetThresholds_def Thresholds_def
        split: sum.splits option.splits)
qed

theorem settings_check_apply_witness:
  "let vals = (\<lambda>k. if k = ''chargectl-pause-at'' then ''80'' else [])
   in checkChargectlWindow vals = None \<and> Thresholds (fst (applyChargectlWindow vals (initial_chg ()))) = (80, 30)"
proof -
  let ?v = "\<lambda>k. if k = ''chargectl-pause-at'' then ''80'' else []"
  have n: "atoi ''80'' = Some 80" by code_simp
  have p: "parsePct ''chargectl-pause-at'' ?v DefaultPauseAt = Inr 80"
    "parsePct ''chargectl-resume-at'' ?v DefaultResumeAt = Inr 30"
    by (simp_all add: parsePct_def n DefaultResumeAt_def)
  then have "checkChargectlWindow ?v = None"
    by (simp add: checkChargectlWindow_def ValidateWindow_def)
  then show ?thesis
    using settings_check_apply[of ?v "initial_chg ()"] p by auto
qed

end
