(* ===== verification/Chargectl_Mac.thy ===== *)
theory Chargectl_Mac
  imports Chargectl Encodings
begin

text \<open>
  The macOS side of the battery limiter: \<open>smc_codec.go\<close>, \<open>smc_darwin.go\<close>, \<open>mac_read.go\<close>,
  \<open>toolpath.go\<close> and \<open>ctrl_darwin.go\<close>. The environment (the AppleSMC struct call, the
  external tools, the search path and the environment variables) is an argument; the package
  state is the record \<open>chg\<close> of \<open>Chargectl\<close>. Log lines are left out.
\<close>

section \<open>The SMC wire format\<close>

definition smcCmdReadBytes :: byte where "smcCmdReadBytes = 5"
definition smcCmdWriteBytes :: byte where "smcCmdWriteBytes = 6"
definition smcCmdReadKeyInfo :: byte where "smcCmdReadKeyInfo = 9"
definition smcKeyDataSize :: nat where "smcKeyDataSize = 80"
definition offKey :: nat where "offKey = 0"
definition offKeyInfoSize :: nat where "offKeyInfoSize = 28"
definition offResult :: nat where "offResult = 40"
definition offData8 :: nat where "offData8 = 42"
definition offBytes :: nat where "offBytes = 48"

definition key_byte :: "string \<Rightarrow> nat \<Rightarrow> byte" where
  "key_byte s i = (if i < length s then byte_of (s ! i) else 0)"

definition fourCC :: "string \<Rightarrow> u32 option" where
  "fourCC s =
     (if s = [] \<or> length s > 4 then None
      else Some (fold (\<lambda>i v. push_bit 8 v OR ucast (key_byte s i)) [0..<4] 0))"

definition keyName :: "u32 \<Rightarrow> string" where
  "keyName k = trim_right (string_of (be32_bytes k)) [CHR 0x00]"

definition put_bytes :: "bytes \<Rightarrow> nat \<Rightarrow> bytes \<Rightarrow> bytes" where
  "put_bytes b off val = take off b @ take (length b - off) val @ drop (off + length val) b"

definition putU32 :: "bytes \<Rightarrow> nat \<Rightarrow> u32 \<Rightarrow> bytes" where
  "putU32 b off v =
     b[off := u8_of (drop_bit 24 v), off + 1 := u8_of (drop_bit 16 v), off + 2 := u8_of (drop_bit 8 v),
       off + 3 := u8_of v]"

definition getU32 :: "bytes \<Rightarrow> nat \<Rightarrow> u32" where
  "getU32 b off = u32_be (b ! off) (b ! (off + 1)) (b ! (off + 2)) (b ! (off + 3))"

definition hexBytes :: "bytes \<Rightarrow> string" where
  "hexBytes val = concat (map (\<lambda>c. [hex_digits ! unat (drop_bit 4 c), hex_digits ! unat (c AND 0x0F)]) val)"

definition smcStopAllow :: "string \<Rightarrow> bytes \<times> bytes" where
  "smcStopAllow key =
     (if key = ''CH0B'' then ([2], [0])
      else if key = ''CHTE'' then ([1, 0, 0, 0], [0, 0, 0, 0])
      else if key = ''CHWA'' then ([1], [0])
      else if key \<in> {''CH0I'', ''CH0J'', ''CH0K''} then ([1], [0])
      else if key = ''CHIE'' then ([8], [0])
      else ([], []))"

fun hex_nat :: "nat \<Rightarrow> string" where
  "hex_nat n = (if n < 16 then [hex_digits ! n] else hex_nat (n div 16) @ [hex_digits ! (n mod 16)])"

declare hex_nat.simps [simp del]

definition smcResultName :: "byte \<Rightarrow> string" where
  "smcResultName r =
     (if r = 0 then ''success'' else if r = 1 then ''SMC error'' else if r = 132 then ''key not found''
      else ''SMC result 0x'' @ hex_nat (unat r))"

definition bfclValue :: "int \<Rightarrow> byte" where
  "bfclValue level =
     (let v = level - 5; v = (if v < 1 then 1 else v); v = (if v > 100 then 100 else v) in word_of_int v)"

definition le32 :: "bytes \<Rightarrow> u32" where
  "le32 b = u32_le (b ! 0) (b ! 1) (b ! 2) (b ! 3)"

definition le32b :: "u32 \<Rightarrow> bytes" where
  "le32b v = le32_bytes v"

section \<open>The SMC connection\<close>

record 'd macos =
  getenv :: "string \<Rightarrow> string"
  smcOpenErr :: "error option"
  smcStruct :: "'d \<Rightarrow> bytes \<Rightarrow> 'd \<times> nat \<times> bytes"
  toolRun :: "'d \<Rightarrow> string list \<Rightarrow> 'd \<times> error option"
  toolOutput :: "'d \<Rightarrow> string list \<Rightarrow> string option"
  lookPath :: "string \<Rightarrow> string option"
  isExecutable :: "string \<Rightarrow> bool"

definition callStruct :: "'d macos \<Rightarrow> bytes \<Rightarrow> 'd \<Rightarrow> 'd \<times> (error + bytes)" where
  "callStruct m inp d =
     (case smcStruct m d inp of (d', r1, out) \<Rightarrow>
        if r1 \<noteq> 0 then (d', Inl (''IOConnectCallStructMethod: 0x'' @ hex_nat r1))
        else if out ! offResult \<noteq> 0 then (d', Inl (''SMC '' @ smcResultName (out ! offResult)))
        else (d', Inr out))"

definition blank_request :: "u32 \<Rightarrow> bytes" where
  "blank_request k = putU32 (replicate smcKeyDataSize 0) offKey k"

definition keySize :: "'d macos \<Rightarrow> string \<Rightarrow> 'd \<Rightarrow> 'd \<times> (error + nat)" where
  "keySize m key d =
     (case fourCC key of
        None \<Rightarrow> (d, Inl (''invalid SMC key '' @ key))
      | Some k \<Rightarrow>
          (case callStruct m ((blank_request k)[offData8 := smcCmdReadKeyInfo]) d of
             (d, Inl e) \<Rightarrow> (d, Inl (''SMC '' @ key @ '' keyinfo: '' @ e))
           | (d, Inr out) \<Rightarrow>
               (let sz = unat (getU32 out offKeyInfoSize) in
                if sz = 0 \<or> sz > 32 then (d, Inl (''SMC '' @ key @ '': implausible size '' @ show_nat sz))
                else (d, Inr sz))))"

definition readKey :: "'d macos \<Rightarrow> string \<Rightarrow> 'd \<Rightarrow> 'd \<times> (error + bytes)" where
  "readKey m key d =
     (case keySize m key d of
        (d, Inl e) \<Rightarrow> (d, Inl e)
      | (d, Inr sz) \<Rightarrow>
          (let k = (case fourCC key of Some k \<Rightarrow> k | None \<Rightarrow> 0);
               inp = (putU32 (blank_request k) offKeyInfoSize (word_of_nat sz))[offData8 := smcCmdReadBytes]
           in case callStruct m inp d of
                (d, Inl e) \<Rightarrow> (d, Inl (''SMC '' @ key @ '' read: '' @ e))
              | (d, Inr out) \<Rightarrow> (d, Inr (take sz (drop offBytes out)))))"

definition writeKeyRaw :: "'d macos \<Rightarrow> string \<Rightarrow> bytes \<Rightarrow> 'd \<Rightarrow> 'd \<times> error option" where
  "writeKeyRaw m key val d =
     (case fourCC key of
        None \<Rightarrow> (d, Some (''invalid SMC key '' @ key))
      | Some k \<Rightarrow>
          (let inp = (put_bytes (putU32 (blank_request k) offKeyInfoSize (word_of_nat (length val))) offBytes val)
                       [offData8 := smcCmdWriteBytes]
           in case callStruct m inp d of
                (d, Inl e) \<Rightarrow> (d, Some (''SMC '' @ key @ '' write: '' @ e))
              | (d, Inr out) \<Rightarrow> (d, None)))"

definition writeKey :: "'d macos \<Rightarrow> string \<Rightarrow> bytes \<Rightarrow> 'd \<Rightarrow> 'd \<times> error option" where
  "writeKey m key val d =
     (case keySize m key d of
        (d, Inl e) \<Rightarrow> (d, Some e)
      | (d, Inr sz) \<Rightarrow>
          if length val \<noteq> sz
          then (d, Some (''SMC '' @ key @ '': value is '' @ show_nat (length val) @ '' bytes, key expects '' @ show_nat sz))
          else writeKeyRaw m key val d)"

text \<open>The window already set: an active flag and the two limits as wanted.\<close>

definition firmware_active :: "'d macos \<Rightarrow> int \<Rightarrow> int \<Rightarrow> 'd \<Rightarrow> 'd \<times> bool" where
  "firmware_active m lower upper d =
     (case readKey m ''bfF0'' d of
        (d, Inl e) \<Rightarrow> (d, False)
      | (d, Inr cur) \<Rightarrow>
          if cur \<noteq> [2] then (d, False)
          else (case readKey m ''bfD0'' d of (d, u) \<Rightarrow> case readKey m ''bfE0'' d of (d, l) \<Rightarrow>
                  (d, case (u, l) of
                        (Inr u, Inr l) \<Rightarrow> length u = 4 \<and> length l = 4 \<and>
                           le32 u = word_of_int upper \<and> le32 l = word_of_int lower
                      | _ \<Rightarrow> False)))"

fun writeKeys :: "'d macos \<Rightarrow> (string \<times> bytes) list \<Rightarrow> 'd \<Rightarrow> 'd \<times> error option" where
  "writeKeys m [] d = (d, None)"
| "writeKeys m ((k, v) # kvs) d =
     (case writeKey m k v d of (d, Some e) \<Rightarrow> (d, Some e) | (d, None) \<Rightarrow> writeKeys m kvs d)"

definition smc_writeFirmware :: "'d macos \<Rightarrow> int \<Rightarrow> int \<Rightarrow> 'd \<Rightarrow> 'd \<times> error option" where
  "smc_writeFirmware m lower upper d =
     (case firmware_active m lower upper d of
        (d, True) \<Rightarrow> (d, None)
      | (d, False) \<Rightarrow>
          writeKeys m [(''bfF0'', [0]), (''bfD0'', le32b (word_of_int upper)), (''bfE0'', le32b (word_of_int lower)),
                       (''bfF0'', [2])] d)"

section \<open>Reading the battery\<close>

record macBattery =
  installed :: bool
  bat_capacity :: int
  externalPower :: bool
  bat_charging :: bool
  fullyCharged :: bool

definition batteryOnAC :: "macBattery \<Rightarrow> bool" where
  "batteryOnAC b \<longleftrightarrow> externalPower b \<or> bat_charging b \<or> fullyCharged b"

definition ioregPair :: "string \<Rightarrow> (string \<times> string) option" where
  "ioregPair ln =
     (let l = trim_space ln in
      if \<not> has_prefix l [CHR 0x22] then None
      else case index_of (CHR 0x22) (drop 1 l) of
        None \<Rightarrow> None
      | Some e \<Rightarrow>
          (let rest = trim_space (drop (e + 2) l) in
           if \<not> has_prefix rest ''='' then None
           else Some (take e (drop 1 l), trim_space (drop 1 rest))))"

text \<open>The value \<open>strconv.Atoi\<close> returns beside its error: the nearest integer when the number is out
  of range, else 0.\<close>

definition atoi_value :: "string \<Rightarrow> int" where
  "atoi_value s =
     (case atoi s of
        Some n \<Rightarrow> n
      | None \<Rightarrow>
          (let neg = has_prefix s ''-''; ds = (if neg \<or> has_prefix s ''+'' then tl s else s)
           in if ds = [] \<or> read_digits 0 ds = None then 0 else if neg then min_i64 else max_i64))"

record ioregScan =
  scan_bat :: macBattery
  scan_cur :: int
  scan_max :: int
  haveCur :: bool

definition zeroBattery :: macBattery where
  "zeroBattery = \<lparr>installed = False, bat_capacity = 0, externalPower = False, bat_charging = False, fullyCharged = False\<rparr>"

definition scanLine :: "string \<Rightarrow> ioregScan \<Rightarrow> ioregScan" where
  "scanLine ln x =
     (case ioregPair ln of
        None \<Rightarrow> x
      | Some (k, v) \<Rightarrow>
          (let yes = (v = ''Yes''); b = scan_bat x in
           if k = ''BatteryInstalled'' then x\<lparr>scan_bat := b\<lparr>installed := yes\<rparr>\<rparr>
           else if k = ''ExternalConnected'' then x\<lparr>scan_bat := b\<lparr>externalPower := yes\<rparr>\<rparr>
           else if k = ''IsCharging'' then x\<lparr>scan_bat := b\<lparr>bat_charging := yes\<rparr>\<rparr>
           else if k = ''FullyCharged'' then x\<lparr>scan_bat := b\<lparr>fullyCharged := yes\<rparr>\<rparr>
           else if k = ''CurrentCapacity'' then
             (case atoi v of Some n \<Rightarrow> x\<lparr>scan_cur := n, haveCur := True\<rparr> | None \<Rightarrow> x)
           else if k = ''MaxCapacity'' then x\<lparr>scan_max := atoi_value v\<rparr>
           else x))"

definition percentOf :: "int \<Rightarrow> int \<Rightarrow> int" where
  "percentOf cur mx =
     (if mx > 100 then quot (wrap64 (wrap64 (cur * 100) + quot mx 2)) mx else cur)"

definition parseIoregBattery :: "string \<Rightarrow> macBattery" where
  "parseIoregBattery out =
     (let x = fold scanLine (split_on (CHR 0x0A) out)
                \<lparr>scan_bat = zeroBattery, scan_cur = 0, scan_max = 0, haveCur = False\<rparr>
      in (scan_bat x)\<lparr>bat_capacity := (if haveCur x then percentOf (scan_cur x) (scan_max x) else - 1)\<rparr>)"

text \<open>The digits that end right before the first percent sign.\<close>

definition percentField :: "string \<Rightarrow> int option" where
  "percentField l =
     (case index_of (CHR ''%'') l of
        None \<Rightarrow> None
      | Some i \<Rightarrow>
          if i = 0 then None
          else atoi (rev (takeWhile (\<lambda>c. digit_val c \<noteq> None) (rev (take i l)))))"

definition pmsetLine :: "string \<Rightarrow> macBattery \<Rightarrow> macBattery" where
  "pmsetLine ln b =
     (let l = trim_space ln in
      if has_prefix l ''Now drawing from'' then b\<lparr>externalPower := contains_sub l ''AC Power''\<rparr>
      else if contains_sub l ''%'' then
        b\<lparr>bat_capacity := (case percentField l of Some n \<Rightarrow> n | None \<Rightarrow> bat_capacity b),
          bat_charging := contains_sub l ''charging'' \<and> \<not> contains_sub l ''discharging'',
          fullyCharged := contains_sub l ''charged'' \<and> \<not> contains_sub l ''discharging''\<rparr>
      else b)"

definition parsePmsetBatt :: "string \<Rightarrow> macBattery" where
  "parsePmsetBatt out =
     fold pmsetLine (split_on (CHR 0x0A) out) (zeroBattery\<lparr>bat_capacity := - 1, installed := True\<rparr>)"

definition macReadBattery :: "'d macos \<Rightarrow> 'd \<Rightarrow> (string \<times> int \<times> bool \<times> bool) option" where
  "macReadBattery m d =
     (let pmset = (case toolOutput m d [''pmset'', ''-g'', ''batt''] of
            None \<Rightarrow> None
          | Some out \<Rightarrow>
              (let b = parsePmsetBatt out in
               if bat_capacity b \<ge> 0 then Some (''InternalBattery'', bat_capacity b, batteryOnAC b, bat_charging b)
               else None))
      in case toolOutput m d [''ioreg'', ''-rn'', ''AppleSmartBattery''] of
           None \<Rightarrow> pmset
         | Some out \<Rightarrow>
             (let b = parseIoregBattery out in
              if installed b \<and> bat_capacity b \<ge> 0
              then Some (''AppleSmartBattery'', bat_capacity b, batteryOnAC b, bat_charging b)
              else pmset))"

section \<open>Backends\<close>

definition envOr :: "'d macos \<Rightarrow> string \<Rightarrow> string \<Rightarrow> string" where
  "envOr m k dft = (if getenv m k \<noteq> [] then getenv m k else dft)"

definition smcBin :: "'d macos \<Rightarrow> string" where "smcBin m = envOr m ''FEDLET_CHARGECTL_SMC'' ''smc''"
definition bclmBin :: "'d macos \<Rightarrow> string" where "bclmBin m = envOr m ''FEDLET_CHARGECTL_BCLM'' ''bclm''"

definition sudoArgs :: "'d macos \<Rightarrow> string list" where
  "sudoArgs m =
     (let v = getenv m ''FEDLET_CHARGECTL_SUDO'' in if v \<noteq> [] \<and> v \<noteq> ''none'' then string_fields v else [])"

definition toolSearchDirs :: "string list" where
  "toolSearchDirs = [''/usr/local/bin'', ''/opt/homebrew/bin'', ''/opt/local/bin'', ''/usr/local/sbin'', ''/usr/bin'']"

definition findTool :: "'d macos \<Rightarrow> string \<Rightarrow> string" where
  "findTool m name =
     (case lookPath m name of
        Some p \<Rightarrow> p
      | None \<Rightarrow>
          (case find (isExecutable m) (map (\<lambda>dir. path_join dir name) toolSearchDirs) of
             Some p \<Rightarrow> p | None \<Rightarrow> []))"

datatype macMode = macModeLevel | macModeSwitch | macModeFirmware

definition adapterMinBand :: int where "adapterMinBand = 5"

record macCtl =
  mac_label :: string
  mac_mode :: macMode
  mac_native :: bool
  mac_bin :: string
  mac_key :: string
  mac_stop :: bytes
  mac_allow :: bytes
  mac_adapter :: bool

definition nativeCtl :: "string \<Rightarrow> macMode \<Rightarrow> string \<Rightarrow> bool \<Rightarrow> macCtl" where
  "nativeCtl label md key adapter =
     \<lparr>mac_label = label, mac_mode = md, mac_native = True, mac_bin = [], mac_key = key,
      mac_stop = (if md = macModeSwitch then fst (smcStopAllow key) else []),
      mac_allow = (if md = macModeSwitch then snd (smcStopAllow key) else []), mac_adapter = adapter\<rparr>"

definition toolCtl :: "string \<Rightarrow> macMode \<Rightarrow> string \<Rightarrow> string \<Rightarrow> macCtl" where
  "toolCtl label md bin key =
     \<lparr>mac_label = label, mac_mode = md, mac_native = False, mac_bin = bin, mac_key = key,
      mac_stop = (if md = macModeSwitch then fst (smcStopAllow key) else []),
      mac_allow = (if md = macModeSwitch then snd (smcStopAllow key) else []), mac_adapter = False\<rparr>"

fun hasAllKeys :: "'d macos \<Rightarrow> string list \<Rightarrow> 'd \<Rightarrow> 'd \<times> bool" where
  "hasAllKeys m [] d = (d, True)"
| "hasAllKeys m (k # ks) d =
     (case keySize m k d of (d, Inl e) \<Rightarrow> (d, False) | (d, Inr n) \<Rightarrow> hasAllKeys m ks d)"

definition nativeKey :: "'d macos \<Rightarrow> string \<Rightarrow> string \<Rightarrow> macMode \<Rightarrow> 'd \<Rightarrow> 'd \<times> macCtl list" where
  "nativeKey m key label md d =
     (case keySize m key d of (d, Inl e) \<Rightarrow> (d, []) | (d, Inr n) \<Rightarrow> (d, [nativeCtl label md key False]))"

fun adapterKey :: "'d macos \<Rightarrow> string list \<Rightarrow> 'd \<Rightarrow> 'd \<times> macCtl list" where
  "adapterKey m [] d = (d, [])"
| "adapterKey m (k # ks) d =
     (case keySize m k d of
        (d, Inl e) \<Rightarrow> adapterKey m ks d
      | (d, Inr n) \<Rightarrow> (d, [nativeCtl (''SMC adapter '' @ k @ '' (native)'') macModeSwitch k True]))"

definition smcRead :: "'d macos \<Rightarrow> 'd \<Rightarrow> string \<Rightarrow> string \<Rightarrow> string option" where
  "smcRead m d path key =
     (case toolOutput m d [path, ''-k'', key, ''-r''] of
        None \<Rightarrow> None
      | Some out \<Rightarrow> (let f = string_fields out in if length f < 3 then None else Some (f ! 2)))"

definition nativeBackends :: "'d macos \<Rightarrow> 'd \<Rightarrow> 'd \<times> macCtl list" where
  "nativeBackends m d =
     (case hasAllKeys m [''bfF0'', ''bfD0'', ''bfE0''] d of (d, fw) \<Rightarrow>
      case nativeKey m ''BCLM'' ''SMC BCLM (native)'' macModeLevel d of (d, b1) \<Rightarrow>
      case nativeKey m ''CH0B'' ''SMC CH0B/CH0C (native)'' macModeSwitch d of (d, b2) \<Rightarrow>
      case nativeKey m ''CHTE'' ''SMC CHTE (native)'' macModeSwitch d of (d, b3) \<Rightarrow>
      case adapterKey m [''CHIE'', ''CH0J'', ''CH0I'', ''CH0K''] d of (d, b4) \<Rightarrow>
      case nativeKey m ''CHWA'' ''SMC CHWA (native, fixed 80%)'' macModeSwitch d of (d, b5) \<Rightarrow>
        (d, (if fw then [nativeCtl ''SMC firmware limit bfF0 (native)'' macModeFirmware [] False] else [])
            @ b1 @ b2 @ b3 @ b4 @ b5))"

definition macBackends :: "'d macos \<Rightarrow> 'd \<Rightarrow> 'd \<times> macCtl list" where
  "macBackends m d =
     (case (if smcOpenErr m = None then nativeBackends m d else (d, [])) of (d, native) \<Rightarrow>
        (let bclm = findTool m (bclmBin m); smc = findTool m (smcBin m)
         in (d, native @ (if bclm \<noteq> [] then [toolCtl (''bclm '' @ bclm) macModeLevel bclm []] else []) @
                (if smc \<noteq> []
                 then map (\<lambda>key. toolCtl (''smc '' @ key @ '' '' @ smc) macModeSwitch smc key)
                        (filter (\<lambda>key. smcRead m d smc key \<noteq> None) [''CH0B'', ''CHTE'', ''CHWA''])
                 else []))))"

section \<open>Operations of a backend\<close>

definition writeLevel :: "'d macos \<Rightarrow> macCtl \<Rightarrow> int \<Rightarrow> 'd \<Rightarrow> 'd \<times> error option" where
  "writeLevel m c level d =
     (if \<not> mac_native c then toolRun m d (sudoArgs m @ [mac_bin c, ''write'', itoa level])
      else case keySize m ''BCLM'' d of
        (d, Inl e) \<Rightarrow> (d, Some e)
      | (d, Inr n) \<Rightarrow>
          (let val = (replicate n 0)[n - 1 := word_of_int level];
               val = (if n \<ge> 2 then val[n - 2 := word_of_int (level div 256)] else val)
           in case writeKeyRaw m ''BCLM'' val d of
                (d, Some e) \<Rightarrow> (d, Some e)
              | (d, None) \<Rightarrow>
                  (case readKey m ''BCLM'' d of
                     (d, Inl e) \<Rightarrow> (d, Some (''BCLM readback: '' @ e))
                   | (d, Inr got) \<Rightarrow>
                       if got \<noteq> val
                       then (d, Some (''BCLM did not stick: wrote '' @ hexBytes val @ '', read '' @ hexBytes got))
                       else (case keySize m ''BFCL'' d of
                               (d, Inl e) \<Rightarrow> (d, None)
                             | (d, Inr k) \<Rightarrow> (fst (writeKey m ''BFCL'' [bfclValue level] d), None)))))"

definition setCharging :: "'d macos \<Rightarrow> macCtl \<Rightarrow> bool \<Rightarrow> 'd \<Rightarrow> 'd \<times> error option" where
  "setCharging m c on d =
     (let val = (if on then mac_allow c else mac_stop c) in
      if mac_native c
      then case (if mac_key c = ''CH0B'' then writeKey m ''CH0C'' val d else (d, None)) of
             (d, Some e) \<Rightarrow> (d, Some e)
           | (d, None) \<Rightarrow>
               (case writeKey m (mac_key c) val d of
                  (d, Some e) \<Rightarrow> (d, Some e)
                | (d, None) \<Rightarrow>
                    (case readKey m (mac_key c) d of
                       (d, Inl e) \<Rightarrow> (d, Some (mac_key c @ '' readback: '' @ e))
                     | (d, Inr got) \<Rightarrow>
                         if got \<noteq> val
                         then (d, Some (mac_key c @ '' did not stick: wrote '' @ hexBytes val @ '', read '' @ hexBytes got))
                         else (d, None)))
      else case (if mac_key c = ''CH0B''
                 then toolRun m d (sudoArgs m @ [mac_bin c, ''-k'', ''CH0C'', ''-w'', hexBytes val]) else (d, None)) of
             (d, Some e) \<Rightarrow> (d, Some e)
           | (d, None) \<Rightarrow> toolRun m d (sudoArgs m @ [mac_bin c, ''-k'', mac_key c, ''-w'', hexBytes val]))"

definition ctl_writeFirmware :: "'d macos \<Rightarrow> int \<Rightarrow> int \<Rightarrow> 'd \<Rightarrow> 'd \<times> error option" where
  "ctl_writeFirmware m lower upper d =
     (let lower = (if lower < 1 then 1 else lower); upper = (if upper > 100 then 100 else upper) in
      if lower \<ge> upper then (d, Some (''invalid firmware window '' @ itoa lower @ ''..'' @ itoa upper))
      else smc_writeFirmware m lower upper d)"

section \<open>The loop\<close>

record macLoopState = loopState + roWarned :: bool

definition macEffective :: "int \<Rightarrow> int \<Rightarrow> bool \<Rightarrow> bool \<Rightarrow> macLoopState \<Rightarrow> macLoopState" where
  "macEffective pause capacity plugged charging st =
     (let rising = (haveCap st \<and> capacity > lastCap st);
          st = st\<lparr>lastCap := capacity, haveCap := True\<rparr>
      in if plugged \<and> capacity \<ge> pause \<and> (rising \<or> charging)
         then st\<lparr>ineffective := Suc (ineffective st), warned := True\<rparr>
         else st\<lparr>warned := False, ineffective := 0\<rparr>)"

definition adapterResume :: "macCtl \<Rightarrow> int \<times> int \<Rightarrow> int" where
  "adapterResume c w =
     (if mac_adapter c \<and> snd w < fst w - adapterMinBand then fst w - adapterMinBand else snd w)"

definition macDesired :: "macCtl \<Rightarrow> int \<times> int \<Rightarrow> int \<Rightarrow> int" where
  "macDesired c w capacity =
     (if capacity \<ge> fst w then 1 else if capacity \<le> adapterResume c w then 0 else - 1)"

definition checkMacOnce :: "'d macos \<Rightarrow> macCtl \<Rightarrow> macLoopState \<Rightarrow> 'd chg \<Rightarrow> macLoopState \<times> 'd chg" where
  "checkMacOnce m c st s =
     (case macReadBattery m (dev s) of
        None \<Rightarrow> (st, pushError ''no battery present'' s)
      | Some (name, capacity, plugged, charging) \<Rightarrow>
        let st = notePlug plugged st;
            after = (\<lambda>what (d, err). case noteWrite what err st (s\<lparr>dev := d\<rparr>) of (st, s) \<Rightarrow>
               if err \<noteq> None then (st, s) else (macEffective (pauseAt s) capacity plugged charging st, s))
        in if capacity < 0 then (st, pushError ''battery capacity unreadable'' s)
        else case mac_mode c of
          macModeFirmware \<Rightarrow> after ''firmware limit write: '' (ctl_writeFirmware m (resumeAt s) (pauseAt s) (dev s))
        | macModeLevel \<Rightarrow> after ''level write: '' (writeLevel m c (pauseAt s) (dev s))
        | macModeSwitch \<Rightarrow>
            if mac_adapter c \<and> \<not> plugged
            then (st\<lparr>lastState := - 1, warned := False, ineffective := 0\<rparr>, s)
            else (let desired = macDesired c (Thresholds s) capacity in
              if desired < 0
              then (macEffective (pauseAt s) capacity plugged charging (st\<lparr>lastState := - 1\<rparr>), s)
              else case setCharging m c (desired \<noteq> 1) (dev s) of (d, err) \<Rightarrow>
                case noteWrite ''apply: '' err st (s\<lparr>dev := d\<rparr>) of (st, s) \<Rightarrow>
                  if err \<noteq> None then (st, s)
                  else (macEffective (pauseAt s) capacity plugged charging (st\<lparr>lastState := desired\<rparr>), s)))"

definition checkMacReadOnly :: "'d macos \<Rightarrow> macLoopState \<Rightarrow> 'd chg \<Rightarrow> macLoopState \<times> 'd chg" where
  "checkMacReadOnly m st s =
     (case macReadBattery m (dev s) of
        None \<Rightarrow> (st, pushError ''no battery present'' s)
      | Some r \<Rightarrow> (st\<lparr>roWarned := True\<rparr>, s))"

record macVars =
  mv_cands :: "macCtl list"
  mv_idx :: nat
  mv_ctl :: "macCtl option"
  mv_st :: macLoopState

definition macCheck :: "'d macos \<Rightarrow> macVars \<Rightarrow> 'd chg \<Rightarrow> macVars \<times> 'd chg" where
  "macCheck m v s =
     (case (case mv_ctl v of Some c \<Rightarrow> checkMacOnce m c (mv_st v) s | None \<Rightarrow> checkMacReadOnly m (mv_st v) s) of
        (st, s) \<Rightarrow> (v\<lparr>mv_st := st\<rparr>, s))"

definition newMacLoopState :: macLoopState where
  "newMacLoopState = \<lparr>lastState = 0, lastPlug = False, havePlug = False, lastCap = 0, haveCap = False,
     warned = False, writeFails = 0, ineffective = 0, roWarned = False\<rparr>"

definition runMacLoop_init :: "'d macos \<Rightarrow> 'd chg \<Rightarrow> macVars \<times> 'd chg" where
  "runMacLoop_init m s =
     (case macBackends m (dev s) of (d, cands) \<Rightarrow>
        let s = s\<lparr>dev := d\<rparr>; ctl = (case cands of [] \<Rightarrow> None | c # _ \<Rightarrow> Some c);
            s = setAuthStatus (if ctl = None then ''read-only'' else authStatusLocal) s
        in macCheck m \<lparr>mv_cands = cands, mv_idx = 0, mv_ctl = ctl, mv_st = newMacLoopState\<rparr> s)"

definition macChoose :: "'d macos \<Rightarrow> macVars \<Rightarrow> 'd chg \<Rightarrow> macVars \<times> 'd chg" where
  "macChoose m v s =
     (case mv_ctl v of
        None \<Rightarrow>
          (case macBackends m (dev s) of (d, cands) \<Rightarrow>
             (case cands of
                [] \<Rightarrow> (v, s\<lparr>dev := d\<rparr>)
              | c # _ \<Rightarrow> (v\<lparr>mv_cands := cands, mv_idx := 0, mv_ctl := Some c\<rparr>,
                          setAuthStatus authStatusLocal (s\<lparr>dev := d\<rparr>))))
      | Some c \<Rightarrow>
          if writeFails (mv_st v) \<ge> reprobeAfter \<or> ineffective (mv_st v) \<ge> effectiveStrikes
          then (let v = (if Suc (mv_idx v) < length (mv_cands v)
                         then v\<lparr>mv_idx := Suc (mv_idx v), mv_ctl := Some (mv_cands v ! Suc (mv_idx v))\<rparr> else v)
                in (v\<lparr>mv_st := (mv_st v)\<lparr>writeFails := 0, ineffective := 0\<rparr>\<rparr>, s))
          else (v, s))"

definition runMacLoop_tick :: "'d macos \<Rightarrow> macVars \<Rightarrow> 'd chg \<Rightarrow> macVars \<times> 'd chg" where
  "runMacLoop_tick m v s = (case macChoose m v s of (v, s) \<Rightarrow> macCheck m v s)"

fun releaseFirst :: "'d macos \<Rightarrow> macCtl list \<Rightarrow> 'd \<Rightarrow> 'd" where
  "releaseFirst m [] d = d"
| "releaseFirst m (c # cs) d =
     (case (case mac_mode c of
              macModeFirmware \<Rightarrow> ctl_writeFirmware m 1 100 d
            | macModeLevel \<Rightarrow> writeLevel m c 100 d
            | macModeSwitch \<Rightarrow> setCharging m c True d) of
        (d, Some e) \<Rightarrow> releaseFirst m cs d
      | (d, None) \<Rightarrow> d)"

definition mac_Release :: "'d macos \<Rightarrow> 'd \<Rightarrow> 'd" where
  "mac_Release m d = (case macBackends m d of (d, cands) \<Rightarrow> releaseFirst m cands d)"

section \<open>Keys and integers on the wire\<close>

lemma u32_be_shift: "push_bit 8 (u32_be 0 a b c) OR ucast d = u32_be a b c d"
  by (rule bit_word_eqI) (auto simp: bit_or_iff bit_push_bit_iff bit_unsigned_iff bit_u32_be)

lemma u32_be_zero: "u32_be 0 0 0 0 = 0" "u32_be 0 0 0 a = ucast a"
  by (simp_all add: u32_be_def)

lemma fourCC_bytes:
  "fourCC s = Some v \<Longrightarrow> v = u32_be (key_byte s 0) (key_byte s 1) (key_byte s 2) (key_byte s 3)"
proof -
  assume "fourCC s = Some v"
  then have v: "v = push_bit 8 (push_bit 8 (push_bit 8 (push_bit 8 (u32_be 0 0 0 0) OR ucast (key_byte s 0)) OR
      ucast (key_byte s 1)) OR ucast (key_byte s 2)) OR ucast (key_byte s 3)"
    by (simp add: fourCC_def u32_be_zero numeral_3_eq_3 numeral_2_eq_2 upt_rec split: if_splits)
  show ?thesis unfolding v by (simp only: u32_be_shift)
qed

lemma be32_u32_be: "be32_bytes (u32_be a b c d) = [a, b, c, d]"
  by (simp add: be32_bytes_def)

lemma trim_right_nul:
  "(s = [] \<or> last s \<noteq> CHR 0x00) \<Longrightarrow> trim_right (s @ replicate n (CHR 0x00)) [CHR 0x00] = s"
proof -
  assume "s = [] \<or> last s \<noteq> CHR 0x00"
  then have "dropWhile (\<lambda>c. c \<in> set [CHR 0x00]) (rev s) = rev s"
    by (simp add: dropWhile_eq_self_iff hd_rev)
  moreover have "dropWhile (\<lambda>c. c \<in> set [CHR 0x00]) (replicate n (CHR 0x00) @ rev s) =
      dropWhile (\<lambda>c. c \<in> set [CHR 0x00]) (rev s)"
    by (rule dropWhile_append2) simp
  ultimately show ?thesis by (simp add: trim_right_def)
qed

lemma key_bytes_pad:
  assumes "length s \<le> 4"
  shows "string_of [key_byte s 0, key_byte s 1, key_byte s 2, key_byte s 3] = s @ replicate (4 - length s) (CHR 0x00)"
proof -
  have z: "char_of_byte 0 = CHR 0x00" by code_simp
  have "s = [] \<or> (\<exists>a. s = [a]) \<or> (\<exists>a b. s = [a, b]) \<or> (\<exists>a b c. s = [a, b, c]) \<or> (\<exists>a b c d. s = [a, b, c, d])"
    using assms by (cases s rule: list.exhaust; cases "tl s"; cases "tl (tl s)"; cases "tl (tl (tl s))") (auto simp: tl_def split: list.splits)
  then show ?thesis
    by (auto simp: string_of_def key_byte_def z eval_nat_numeral)
qed

text \<open>An SMC key survives the wire: fourCC rejects exactly the empty and the over-long names, and
  keyName reads back every name that does not end in a NUL; so two such names share no code.\<close>

theorem fourCC_keyName:
  "(fourCC s = None \<longleftrightarrow> s = [] \<or> length s > 4) \<and>
   (\<forall>v. fourCC s = Some v \<longrightarrow> last s \<noteq> CHR 0x00 \<longrightarrow> keyName v = s)"
proof -
  have "keyName v = s" if f: "fourCC s = Some v" and l: "last s \<noteq> CHR 0x00" for v
  proof -
    have s: "s \<noteq> []" "length s \<le> 4" using f by (auto simp: fourCC_def split: if_splits)
    show ?thesis
      unfolding keyName_def fourCC_bytes[OF f] be32_u32_be key_bytes_pad[OF s(2)]
      using trim_right_nul l by blast
  qed
  then show ?thesis by (auto simp: fourCC_def)
qed

theorem fourCC_keyName_witness: "fourCC ''BCLM'' = Some 0x42434C4D \<and> keyName 0x42434C4D = ''BCLM''"
proof -
  have f: "fourCC ''BCLM'' = Some 0x42434C4D" by code_simp
  then show ?thesis using fourCC_keyName[of "''BCLM''"] by simp
qed

lemma getU32_putU32:
  assumes "off + 3 < length b"
  shows "getU32 (putU32 b off v) off = v"
  using assms by (simp add: getU32_def putU32_def nth_list_update)

lemma putU32_frame:
  assumes "i < off \<or> off + 3 < i"
  shows "putU32 b off v ! i = b ! i"
  using assms by (auto simp: putU32_def)

lemma getU32_cong: "(\<And>i. off \<le> i \<Longrightarrow> i \<le> off + 3 \<Longrightarrow> b ! i = c ! i) \<Longrightarrow> getU32 b off = getU32 c off"
  by (simp add: getU32_def)

lemma length_putU32 [simp]: "length (putU32 b off v) = length b"
  by (simp add: putU32_def)

lemma length_put_bytes [simp]: "off \<le> length b \<Longrightarrow> length (put_bytes b off v) = length b"
  by (simp add: put_bytes_def)

lemma put_bytes_frame: "i < off \<Longrightarrow> off \<le> length b \<Longrightarrow> put_bytes b off v ! i = b ! i"
  by (simp add: put_bytes_def nth_append)

lemma take_put_bytes: "off + length v \<le> length b \<Longrightarrow> take (length v) (drop off (put_bytes b off v)) = v"
  by (simp add: put_bytes_def)

lemma le32_le32b [simp]: "le32 (le32b v) = v"
  by (simp add: le32_def le32b_def le32_bytes_def u32_le_def)

section \<open>The SMC as a key store\<close>

text \<open>
  What the code relies on of AppleSMC: it answers an 80-byte request by the command byte, from
  a store of keys of 1 to 32 bytes, and a read leaves the store alone.
\<close>

definition smc_store :: "'d macos \<Rightarrow> ('d \<Rightarrow> u32 \<Rightarrow> bytes option) \<Rightarrow> bool" where
  "smc_store m store \<longleftrightarrow>
     (\<forall>d req v. length req = 80 \<longrightarrow> store d (getU32 req offKey) = Some v \<longrightarrow> 1 \<le> length v \<and> length v \<le> 32 \<and>
        (req ! offData8 = smcCmdReadKeyInfo \<longrightarrow>
           (\<exists>out. smcStruct m d req = (d, 0, out) \<and> out ! offResult = 0 \<and>
                  getU32 out offKeyInfoSize = word_of_nat (length v))) \<and>
        (req ! offData8 = smcCmdReadBytes \<longrightarrow>
           (\<exists>out. smcStruct m d req = (d, 0, out) \<and> out ! offResult = 0 \<and> take (length v) (drop offBytes out) = v)) \<and>
        (req ! offData8 = smcCmdWriteBytes \<longrightarrow> getU32 req offKeyInfoSize = word_of_nat (length v) \<longrightarrow>
           (\<exists>d' out. smcStruct m d req = (d', 0, out) \<and> out ! offResult = 0 \<and>
                  store d' = (store d)(getU32 req offKey \<mapsto> take (length v) (drop offBytes req)))))"

lemma blank_request_simps [simp]:
  "length (blank_request k) = 80" "getU32 (blank_request k) 0 = k"
  by (simp_all add: blank_request_def smcKeyDataSize_def offKey_def getU32_putU32)

lemmas smc_offsets = offKey_def offKeyInfoSize_def offResult_def offData8_def offBytes_def
  smcCmdReadBytes_def smcCmdWriteBytes_def smcCmdReadKeyInfo_def

lemma getU32_update: "i < off \<or> off + 3 < i \<Longrightarrow> getU32 (b[i := x]) off = getU32 b off"
  by (intro getU32_cong) auto

lemma getU32_putU32_other: "off' + 3 < off \<Longrightarrow> getU32 (putU32 b off v) off' = getU32 b off'"
  by (intro getU32_cong putU32_frame) auto

lemma getU32_put_bytes: "off' + 3 < off \<Longrightarrow> off \<le> length b \<Longrightarrow> getU32 (put_bytes b off v) off' = getU32 b off'"
  by (intro getU32_cong put_bytes_frame) auto

lemma unat_small: "n \<le> 32 \<Longrightarrow> unat (word_of_nat n :: u32) = n"
  by (simp add: unat_of_nat take_bit_nat_eq_self)

lemma keySize_store:
  assumes "smc_store m store" "fourCC key = Some k" "store d k = Some v"
  shows "keySize m key d = (d, Inr (length v))"
proof -
  let ?req = "(blank_request k)[offData8 := smcCmdReadKeyInfo]"
  have "length ?req = 80" "getU32 ?req offKey = k" "?req ! offData8 = smcCmdReadKeyInfo"
    by (simp_all add: smc_offsets getU32_update)
  then obtain out where "smcStruct m d ?req = (d, 0, out)" "out ! offResult = 0"
      "getU32 out offKeyInfoSize = word_of_nat (length v)" "1 \<le> length v" "length v \<le> 32"
    using assms(1,3) unfolding smc_store_def by metis
  then show ?thesis using assms(2) by (auto simp: keySize_def callStruct_def unat_small Let_def)
qed

lemma readKey_store:
  assumes "smc_store m store" "fourCC key = Some k" "store d k = Some v"
  shows "readKey m key d = (d, Inr v)"
proof -
  let ?req = "(putU32 (blank_request k) offKeyInfoSize (word_of_nat (length v)))[offData8 := smcCmdReadBytes]"
  have "length ?req = 80" "getU32 ?req offKey = k" "?req ! offData8 = smcCmdReadBytes"
    by (simp_all add: smc_offsets getU32_update getU32_putU32_other)
  then obtain out where "smcStruct m d ?req = (d, 0, out)" "out ! offResult = 0"
      "take (length v) (drop offBytes out) = v"
    using assms(1,3) unfolding smc_store_def by metis
  then show ?thesis
    using assms(2) keySize_store[OF assms] by (simp add: readKey_def callStruct_def)
qed

lemma writeKey_store:
  assumes "smc_store m store" "fourCC key = Some k" "store d k = Some v" "length x = length v"
  shows "\<exists>d'. writeKey m key x d = (d', None) \<and> store d' = (store d)(k \<mapsto> x)"
proof -
  let ?put = "put_bytes (putU32 (blank_request k) offKeyInfoSize (word_of_nat (length x))) offBytes x"
  let ?req = "?put[offData8 := smcCmdWriteBytes]"
  have l: "length x \<le> 32"
  proof -
    have "getU32 (blank_request k) offKey = k" by (simp add: smc_offsets)
    then have "length v \<le> 32"
      using assms(1,3) unfolding smc_store_def by (metis blank_request_simps(1))
    then show ?thesis using assms(4) by simp
  qed
  have "take (length x) (drop offBytes ?req) = x"
    using l take_put_bytes[of offBytes x "putU32 (blank_request k) offKeyInfoSize (word_of_nat (length x))"]
    by (simp add: smc_offsets drop_update_cancel)
  moreover have "length ?req = 80" "getU32 ?req offKey = k" "?req ! offData8 = smcCmdWriteBytes"
    "getU32 ?req offKeyInfoSize = word_of_nat (length x)"
    by (simp_all add: smc_offsets getU32_update getU32_putU32_other getU32_put_bytes getU32_putU32)
  ultimately obtain d' out where "smcStruct m d ?req = (d', 0, out)" "out ! offResult = 0"
      "store d' = (store d)(k \<mapsto> x)"
    using assms(1,3,4) unfolding smc_store_def by metis
  then show ?thesis
    using assms(2,4) keySize_store[OF assms(1,2,3)] by (simp add: writeKey_def writeKeyRaw_def callStruct_def)
qed

definition key_bfF0 :: u32 where "key_bfF0 = 0x62664630"
definition key_bfD0 :: u32 where "key_bfD0 = 0x62664430"
definition key_bfE0 :: u32 where "key_bfE0 = 0x62664530"

lemma fourCC_firmware:
  "fourCC ''bfF0'' = Some key_bfF0" "fourCC ''bfD0'' = Some key_bfD0" "fourCC ''bfE0'' = Some key_bfE0"
  "key_bfF0 \<noteq> key_bfD0" "key_bfF0 \<noteq> key_bfE0" "key_bfD0 \<noteq> key_bfE0"
proof -
  show "fourCC ''bfF0'' = Some key_bfF0" by code_simp
  show "fourCC ''bfD0'' = Some key_bfD0" by code_simp
  show "fourCC ''bfE0'' = Some key_bfE0" by code_simp
qed (simp_all add: key_bfF0_def key_bfD0_def key_bfE0_def)

lemma length_le32b [simp]: "length (le32b v) = 4"
  by (simp add: le32b_def)

definition firmware_set :: "(u32 \<Rightarrow> bytes option) \<Rightarrow> int \<Rightarrow> int \<Rightarrow> bool" where
  "firmware_set st lower upper \<longleftrightarrow>
     st key_bfF0 = Some [2] \<and> st key_bfD0 = Some (le32b (word_of_int upper)) \<and> st key_bfE0 = Some (le32b (word_of_int lower))"

lemma firmware_active_store:
  assumes "smc_store m store" "store d key_bfF0 = Some [f]" "store d key_bfD0 = Some u" "store d key_bfE0 = Some l"
    "length u = 4" "length l = 4"
  shows "firmware_active m lower upper d =
     (d, f = 2 \<and> le32 u = word_of_int upper \<and> le32 l = word_of_int lower)"
  using assms readKey_store[OF assms(1) fourCC_firmware(1) assms(2)]
    readKey_store[OF assms(1) fourCC_firmware(2) assms(3)] readKey_store[OF assms(1) fourCC_firmware(3) assms(4)]
  by (simp add: firmware_active_def)

lemma le32_inject: "length u = 4 \<Longrightarrow> le32 u = v \<Longrightarrow> u = le32b v"
proof -
  assume "length u = 4" "le32 u = v"
  then obtain a b c e where u: "u = [a, b, c, e]" by (auto simp: length_Suc_conv eval_nat_numeral)
  then have v: "v = u32_be e c b a" using \<open>le32 u = v\<close> by (simp add: le32_def u32_le_def eval_nat_numeral)
  show "u = le32b v" unfolding u v by (simp add: le32b_def le32_bytes_def)
qed

text \<open>Setting the firmware window works on every SMC that stores keys: for a window inside 1..100
  the three keys end at the active flag and the two limits, no other key changes, and a second
  call changes nothing. A pause threshold of 1, which the settings accept, is always refused.\<close>

theorem firmware_window_set:
  assumes "smc_store m store" "store d key_bfF0 = Some [f]" "store d key_bfD0 = Some u" "store d key_bfE0 = Some l"
    "length u = 4" "length l = 4" "ValidateWindow pause resume = None"
  shows "if pause = 1 then \<exists>e. ctl_writeFirmware m resume pause d = (d, Some e)
     else \<exists>d'. ctl_writeFirmware m resume pause d = (d', None) \<and>
        firmware_set (store d') (max 1 resume) pause \<and>
        (\<forall>k. k \<notin> {key_bfF0, key_bfD0, key_bfE0} \<longrightarrow> store d' k = store d k) \<and>
        ctl_writeFirmware m resume pause d' = (d', None)"
proof (cases "pause = 1")
  case True
  then show ?thesis using assms(7) by (auto simp: ctl_writeFirmware_def ValidateWindow_def Let_def split: if_splits)
next
  case False
  let ?lo = "max 1 resume"
  have w: "0 \<le> resume" "resume < pause" "pause \<le> 100" "1 < pause"
    using assms(7) False by (auto simp: ValidateWindow_def split: if_splits)
  have cw: "ctl_writeFirmware m resume pause x = smc_writeFirmware m ?lo pause x" for x
    using w by (auto simp: ctl_writeFirmware_def Let_def max_def)
  have again: "smc_writeFirmware m ?lo pause x = (x, None)" if "firmware_set (store x) ?lo pause" for x
  proof -
    have k: "store x key_bfF0 = Some [2]" "store x key_bfD0 = Some (le32b (word_of_int pause))"
      "store x key_bfE0 = Some (le32b (word_of_int ?lo))"
      using that by (simp_all add: firmware_set_def)
    show ?thesis
      using firmware_active_store[OF assms(1) k, of ?lo pause] by (simp add: smc_writeFirmware_def)
  qed
  show ?thesis
  proof (cases "f = 2 \<and> le32 u = word_of_int pause \<and> le32 l = word_of_int ?lo")
    case True
    then have "firmware_set (store d) ?lo pause"
      using assms(2-6) by (auto simp: firmware_set_def dest: le32_inject)
    then show ?thesis using again[of d] cw \<open>pause \<noteq> 1\<close> by auto
  next
    case act: False
    note ne = fourCC_firmware(4,5,6) fourCC_firmware(4,5,6)[symmetric]
    obtain d1 where 1: "writeKey m ''bfF0'' [0] d = (d1, None)" "store d1 = (store d)(key_bfF0 \<mapsto> [0])"
      using writeKey_store[OF assms(1) fourCC_firmware(1) assms(2), of "[0]"] by auto
    have "store d1 key_bfD0 = Some u" using 1(2) assms(3) ne by simp
    from writeKey_store[OF assms(1) fourCC_firmware(2) this, of "le32b (word_of_int pause)"]
    obtain d2 where 2: "writeKey m ''bfD0'' (le32b (word_of_int pause)) d1 = (d2, None)"
       "store d2 = (store d1)(key_bfD0 \<mapsto> le32b (word_of_int pause))" using assms(5) by auto
    have "store d2 key_bfE0 = Some l" using 1(2) 2(2) assms(4) ne by simp
    from writeKey_store[OF assms(1) fourCC_firmware(3) this, of "le32b (word_of_int ?lo)"]
    obtain d3 where 3: "writeKey m ''bfE0'' (le32b (word_of_int ?lo)) d2 = (d3, None)"
       "store d3 = (store d2)(key_bfE0 \<mapsto> le32b (word_of_int ?lo))" using assms(6) by auto
    have "store d3 key_bfF0 = Some [0]" using 1(2) 2(2) 3(2) ne by simp
    from writeKey_store[OF assms(1) fourCC_firmware(1) this, of "[2]"]
    obtain d4 where 4: "writeKey m ''bfF0'' [2] d3 = (d4, None)" "store d4 = (store d3)(key_bfF0 \<mapsto> [2])" by auto
    have "smc_writeFirmware m ?lo pause d = (d4, None)"
      using firmware_active_store[OF assms(1-6), of ?lo pause] act 1(1) 2(1) 3(1) 4(1)
      by (simp add: smc_writeFirmware_def)
    moreover have "firmware_set (store d4) ?lo pause"
      using 1(2) 2(2) 3(2) 4(2) ne by (simp add: firmware_set_def)
    moreover have "\<forall>k. k \<notin> {key_bfF0, key_bfD0, key_bfE0} \<longrightarrow> store d4 k = store d k"
      using 1(2) 2(2) 3(2) 4(2) by simp
    ultimately show ?thesis using again[of d4] cw \<open>pause \<noteq> 1\<close> by auto
  qed
qed


text \<open>An SMC in memory, for the example.\<close>

definition smc_answer :: "bytes \<Rightarrow> bytes" where
  "smc_answer v = put_bytes (putU32 (replicate 80 0) offKeyInfoSize (word_of_nat (length v))) offBytes v"

definition memSMC :: "(u32 \<rightharpoonup> bytes) macos" where
  "memSMC = \<lparr>getenv = (\<lambda>_. []), smcOpenErr = None,
     smcStruct = (\<lambda>d req. case d (getU32 req offKey) of
         None \<Rightarrow> (d, 0, (replicate 80 0)[offResult := 132])
       | Some v \<Rightarrow> if req ! offData8 = smcCmdWriteBytes
           then (d(getU32 req offKey \<mapsto> take (length v) (drop offBytes req)), 0, replicate 80 0)
           else (d, 0, smc_answer v)),
     toolRun = (\<lambda>d _. (d, None)), toolOutput = (\<lambda>_ _. None), lookPath = (\<lambda>_. None), isExecutable = (\<lambda>_. False)\<rparr>"

definition sized :: "(u32 \<rightharpoonup> bytes) \<Rightarrow> u32 \<Rightarrow> bytes option" where
  "sized d k = (case d k of Some v \<Rightarrow> if 1 \<le> length v \<and> length v \<le> 32 then Some v else None | None \<Rightarrow> None)"

lemma smc_answer_fields:
  assumes "length v \<le> 32"
  shows "smc_answer v ! offResult = 0 \<and> getU32 (smc_answer v) offKeyInfoSize = word_of_nat (length v) \<and>
    take (length v) (drop offBytes (smc_answer v)) = v"
  using assms take_put_bytes[of offBytes v]
  by (simp add: smc_answer_def smc_offsets put_bytes_frame putU32_frame getU32_put_bytes getU32_putU32)

lemma memSMC_store: "smc_store memSMC sized"
  unfolding smc_store_def
proof (intro allI impI)
  fix d :: "u32 \<rightharpoonup> bytes" and req v
  assume a: "length req = 80" "sized d (getU32 req offKey) = Some v"
  then have v: "d (getU32 req offKey) = Some v" "1 \<le> length v" "length v \<le> 32"
    by (auto simp: sized_def split: option.splits if_splits)
  have u: "sized (d(k \<mapsto> x)) = (sized d)(k \<mapsto> x)" if "1 \<le> length x \<and> length x \<le> 32" for k x
    using that by (auto simp: sized_def)
  have t: "length (take (length v) (drop offBytes req)) = length v"
    using a(1) v(3) by (simp add: smc_offsets)
  show "1 \<le> length v \<and> length v \<le> 32 \<and>
        (req ! offData8 = smcCmdReadKeyInfo \<longrightarrow>
           (\<exists>out. smcStruct memSMC d req = (d, 0, out) \<and> out ! offResult = 0 \<and>
                  getU32 out offKeyInfoSize = word_of_nat (length v))) \<and>
        (req ! offData8 = smcCmdReadBytes \<longrightarrow>
           (\<exists>out. smcStruct memSMC d req = (d, 0, out) \<and> out ! offResult = 0 \<and> take (length v) (drop offBytes out) = v)) \<and>
        (req ! offData8 = smcCmdWriteBytes \<longrightarrow> getU32 req offKeyInfoSize = word_of_nat (length v) \<longrightarrow>
           (\<exists>d' out. smcStruct memSMC d req = (d', 0, out) \<and> out ! offResult = 0 \<and>
                  sized d' = (sized d)(getU32 req offKey \<mapsto> take (length v) (drop offBytes req))))"
  proof (intro conjI impI)
    assume "req ! offData8 = smcCmdReadKeyInfo"
    then show "\<exists>out. smcStruct memSMC d req = (d, 0, out) \<and> out ! offResult = 0 \<and>
                  getU32 out offKeyInfoSize = word_of_nat (length v)"
      using v smc_answer_fields[of v] by (simp add: memSMC_def smcCmdReadKeyInfo_def smcCmdWriteBytes_def)
  next
    assume "req ! offData8 = smcCmdReadBytes"
    then show "\<exists>out. smcStruct memSMC d req = (d, 0, out) \<and> out ! offResult = 0 \<and> take (length v) (drop offBytes out) = v"
      using v smc_answer_fields[of v] by (simp add: memSMC_def smcCmdReadBytes_def smcCmdWriteBytes_def)
  next
    assume "req ! offData8 = smcCmdWriteBytes"
    then show "\<exists>d' out. smcStruct memSMC d req = (d', 0, out) \<and> out ! offResult = 0 \<and>
                  sized d' = (sized d)(getU32 req offKey \<mapsto> take (length v) (drop offBytes req))"
      using v t u by (simp add: memSMC_def smc_offsets)
  qed (use v in simp_all)
qed

theorem firmware_window_set_witness:
  "\<exists>d'. ctl_writeFirmware memSMC 30 75 [key_bfF0 \<mapsto> [0], key_bfD0 \<mapsto> [0, 0, 0, 0], key_bfE0 \<mapsto> [0, 0, 0, 0]] = (d', None) \<and>
     firmware_set (sized d') 30 75"
proof -
  let ?d = "[key_bfF0 \<mapsto> [0], key_bfD0 \<mapsto> [0, 0, 0, 0], key_bfE0 \<mapsto> [0, 0, 0, 0 :: byte]]"
  have s: "sized ?d key_bfF0 = Some [0]" "sized ?d key_bfD0 = Some [0, 0, 0, 0]" "sized ?d key_bfE0 = Some [0, 0, 0, 0]"
    using fourCC_firmware(4-6) by (simp_all add: sized_def)
  have w: "ValidateWindow 75 30 = None" by (simp add: ValidateWindow_def)
  show ?thesis
    using firmware_window_set[where m = memSMC and store = sized and d = ?d, OF memSMC_store s _ _ w] by auto
qed

text \<open>In adapter mode the hysteresis band is never wider than five points, whatever the window: a
  plugged-in pack anywhere at or below the pause threshold minus five gets the adapter
  back, although the configured resume threshold is far lower; a narrower band is left as it is.\<close>

theorem adapter_band_narrowed:
  assumes "mac_adapter c" "mac_mode c = macModeSwitch" "ValidateWindow (pauseAt s) (resumeAt s) = None"
    "macReadBattery m (dev s) = Some (name, cap, True, charging)" "0 \<le> cap"
    "resumeAt s < cap" "cap \<le> pauseAt s - 5"
  shows "adapterResume c (Thresholds s) = max (resumeAt s) (pauseAt s - 5) \<and>
     dev (snd (checkMacOnce m c st s)) = fst (setCharging m c True (dev s))"
proof -
  have w: "fst (Thresholds s) = pauseAt s" "snd (Thresholds s) = resumeAt s"
    by (simp_all add: pauseAt_def resumeAt_def)
  have r: "adapterResume c (Thresholds s) = max (resumeAt s) (pauseAt s - 5)"
    using assms(1) w by (auto simp: adapterResume_def adapterMinBand_def)
  have d: "macDesired c (Thresholds s) cap = 0"
    using assms(6,7) r w by (auto simp: macDesired_def)
  obtain x err where x: "setCharging m c True (dev s) = (x, err)" by (metis prod.exhaust)
  obtain st1 s1 where n: "noteWrite ''apply: '' err (notePlug True st) (s\<lparr>dev := x\<rparr>) = (st1, s1)"
    by (metis prod.exhaust)
  have "dev s1 = x" using noteWrite_same[OF n] by simp
  then show ?thesis using assms(1,2,4,5) r d x n by (auto simp: checkMacOnce_def Let_def)
qed


definition demoMac :: "(u32 \<rightharpoonup> bytes) macos" where
  "demoMac = memSMC\<lparr>toolOutput := (\<lambda>_ argv. if argv = [''pmset'', ''-g'', ''batt'']
      then Some (''Now drawing from AC Power'' @ CHR 0x0A # ''-InternalBattery-0  60%; charging'') else None)\<rparr>"

theorem adapter_band_narrowed_witness:
  "dev (snd (checkMacOnce demoMac (nativeCtl ''SMC adapter CHIE (native)'' macModeSwitch ''CHIE'' True)
      newMacLoopState (initial_chg Map.empty))) =
    fst (setCharging demoMac (nativeCtl ''SMC adapter CHIE (native)'' macModeSwitch ''CHIE'' True) True Map.empty)"
proof -
  let ?c = "nativeCtl ''SMC adapter CHIE (native)'' macModeSwitch ''CHIE'' True"
  let ?s = "initial_chg (Map.empty :: u32 \<rightharpoonup> bytes)"
  have t: "trim_space ''Now drawing from AC Power'' = ''Now drawing from AC Power''"
    "trim_space ''-InternalBattery-0  60%; charging'' = ''-InternalBattery-0  60%; charging''"
    by (simp_all add: printing_def)
  have l: "pmsetLine ''Now drawing from AC Power'' b = b\<lparr>externalPower := True\<rparr>" for b
    unfolding pmsetLine_def t by (simp add: has_prefix_def Let_def)
  have f: "percentField ''-InternalBattery-0  60%; charging'' = Some 60" by code_simp
  have q: "pmsetLine ''-InternalBattery-0  60%; charging'' b =
      b\<lparr>bat_capacity := 60, bat_charging := True, fullyCharged := False\<rparr>" for b
    unfolding pmsetLine_def t by (simp add: f has_prefix_def Let_def)
  have p: "parsePmsetBatt (''Now drawing from AC Power'' @ CHR 0x0A # ''-InternalBattery-0  60%; charging'') =
      \<lparr>installed = True, bat_capacity = 60, externalPower = True, bat_charging = True, fullyCharged = False\<rparr>"
  proof -
    have "split_on (CHR 0x0A) (''Now drawing from AC Power'' @ CHR 0x0A # ''-InternalBattery-0  60%; charging'') =
        [''Now drawing from AC Power'', ''-InternalBattery-0  60%; charging'']"
      by simp
    then show ?thesis unfolding parsePmsetBatt_def by (simp only: fold.simps comp_apply id_apply l q) (simp add: zeroBattery_def)
  qed
  have r: "macReadBattery demoMac (dev ?s) = Some (''InternalBattery'', 60, True, True)"
    unfolding macReadBattery_def demoMac_def memSMC_def by (simp add: p[simplified] batteryOnAC_def)
  have w: "pauseAt ?s = 75" "resumeAt ?s = 30"
    by (simp_all add: initial_chg_def pauseAt_def resumeAt_def Thresholds_def DefaultPauseAt_def DefaultResumeAt_def)
  have c: "mac_adapter ?c" "mac_mode ?c = macModeSwitch" by (simp_all add: nativeCtl_def)
  show ?thesis
    using adapter_band_narrowed[OF c _ r, of newMacLoopState] w
    by (simp add: ValidateWindow_def initial_chg_def)
qed

end
