(* ===== verification/Gotime.thy ===== *)
theory Gotime
  imports Prelude
begin

text \<open>
  \<open>time.ParseDuration\<close> and \<open>Duration.String\<close>, which the settings use for their duration
  flags. The standard library computes the fraction of a unit in floating point; here it is
  exact, which can differ by a nanosecond in fractions with many digits.
\<close>

definition duration_units :: "(string \<times> nat) list" where
  "duration_units =
     [(''ns'', 1), (''us'', 1000), ([char_of (0xC2 :: nat), char_of (0xB5 :: nat), CHR ''s''], 1000),
      ([char_of (0xCE :: nat), char_of (0xBC :: nat), CHR ''s''], 1000), (''ms'', 1000000), (''s'', 1000000000),
      (''m'', 60000000000), (''h'', 3600000000000)]"

definition digit_prefix :: "string \<Rightarrow> string" where
  "digit_prefix s = takeWhile (\<lambda>c. digit_val c \<noteq> None) s"

definition digits_value :: "string \<Rightarrow> nat" where
  "digits_value s = foldl (\<lambda>n c. 10 * n + (case digit_val c of Some d \<Rightarrow> d | None \<Rightarrow> 0)) 0 s"

text \<open>One number with its unit: its nanoseconds and the rest of the text.\<close>

definition duration_part :: "string \<Rightarrow> (nat \<times> string) option" where
  "duration_part s =
     (let ip = digit_prefix s; s1 = drop (length ip) s;
          dot = has_prefix s1 ''.'';
          fp = (if dot then digit_prefix (drop 1 s1) else []);
          s2 = (if dot then drop (1 + length fp) s1 else s1);
          u = takeWhile (\<lambda>c. c \<noteq> CHR ''.'' \<and> digit_val c = None) s2
      in if ip = [] \<and> fp = [] then None
         else if digits_value ip > 2 ^ 63 then None
         else if u = [] then None
         else case map_of duration_units u of
           None \<Rightarrow> None
         | Some unit \<Rightarrow>
             if digits_value ip > 2 ^ 63 div unit then None
             else (let v = digits_value ip * unit + digits_value fp * unit div 10 ^ length fp
                   in if v > 2 ^ 63 then None else Some (v, drop (length u) s2)))"

fun duration_parts :: "nat \<Rightarrow> nat \<Rightarrow> string \<Rightarrow> nat option" where
  "duration_parts 0 acc s = None"
| "duration_parts (Suc n) acc s =
     (if s = [] then Some acc
      else case duration_part s of
        None \<Rightarrow> None
      | Some (v, rest) \<Rightarrow> if acc + v > 2 ^ 63 then None else duration_parts n (acc + v) rest)"

definition parseDuration :: "string \<Rightarrow> duration option" where
  "parseDuration s =
     (let neg = has_prefix s ''-''; body = (if neg \<or> has_prefix s ''+'' then tl s else s)
      in if body = ''0'' then Some 0
         else if body = [] then None
         else case duration_parts (Suc (length body)) 0 body of
           None \<Rightarrow> None
         | Some n \<Rightarrow> if neg then Some (- int n)
                     else if int n > max_i64 then None else Some (int n))"

text \<open>A fraction of \<open>k\<close> decimals without its trailing zeros, then the integer part before it.\<close>

fun pad_digits :: "nat \<Rightarrow> nat \<Rightarrow> string" where
  "pad_digits 0 n = []"
| "pad_digits (Suc k) n = pad_digits k (n div 10) @ [digit_char (n mod 10)]"

definition decimal :: "nat \<Rightarrow> nat \<Rightarrow> string" where
  "decimal k n =
     (let f = rev (dropWhile (\<lambda>c. c = CHR ''0'') (rev (pad_digits k (n mod 10 ^ k))))
      in show_nat (n div 10 ^ k) @ (if f = [] then [] else CHR ''.'' # f))"

definition showDuration :: "duration \<Rightarrow> string" where
  "showDuration d =
     (let u = nat \<bar>d\<bar>;
          body = (if u = 0 then ''0s''
                  else if u < 1000 then show_nat u @ ''ns''
                  else if u < 1000000 then decimal 3 u @ [char_of (0xC2 :: nat), char_of (0xB5 :: nat), CHR ''s'']
                  else if u < 1000000000 then decimal 6 u @ ''ms''
                  else (let s = u div 1000000000; mins = s div 60; h = mins div 60
                        in (if h > 0 then show_nat h @ ''h'' else []) @
                           (if mins > 0 then show_nat (mins mod 60) @ ''m'' else []) @
                           decimal 9 (u mod 60000000000) @ ''s''))
      in if d < 0 then CHR ''-'' # body else body)"

end
