(* ===== verification/Config.thy ===== *)
theory Config
  imports Chargectl Gotime
begin

text \<open>
  The settings of the bridge: \<open>src/fedbridge/multi_source_config.go\<close>,
  \<open>multi_source_config_http.go\<close> and \<open>mscfg_extra.go\<close>. The record \<open>cfg\<close> holds the command-line
  flags, the registered extra settings and reload hooks, the label of where each value came
  from, the live snapshot, the settings file, and the state of the rest of the program that
  the hooks act on. A map that the code ranges over is a list in the order of that run. The
  text of the file and of a request is decoded by the JSON library; its result is an argument.
\<close>

section \<open>Flags\<close>

datatype flagval = StringV string | BoolV bool | DurationV duration

fun flag_String :: "flagval \<Rightarrow> string" where
  "flag_String (StringV s) = s"
| "flag_String (BoolV b) = (if b then ''true'' else ''false'')"
| "flag_String (DurationV d) = showDuration d"

text \<open>\<open>flag.Value.Set\<close> of the standard library stores the parser's result even when it also
  returns an error: a bool becomes false and a duration zero.\<close>

fun flag_Set :: "flagval \<Rightarrow> string \<Rightarrow> flagval \<times> error option" where
  "flag_Set (StringV _) s = (StringV s, None)"
| "flag_Set (BoolV _) s =
     (case parseBool s of Some b \<Rightarrow> (BoolV b, None) | None \<Rightarrow> (BoolV False, Some ''parse error''))"
| "flag_Set (DurationV _) s =
     (case parseDuration s of Some d \<Rightarrow> (DurationV d, None) | None \<Rightarrow> (DurationV 0, Some ''parse error''))"

record flagv =
  fv_val :: flagval
  fv_def :: string

section \<open>State\<close>

record 'e extraSpec =
  es_dft :: string
  es_typ :: string
  es_verify :: "(settings \<Rightarrow> error option) option"
  es_apply :: "(settings \<Rightarrow> 'e \<Rightarrow> 'e \<times> error option) option"

datatype rawval = RawString string | RawOther string

datatype cfgFile = NoFile | NotObject | NullFile | ObjFile "(string \<rightharpoonup> rawval)"

record 'e cfg =
  flags :: "string \<rightharpoonup> flagv"
  actual :: "string list"
  extras :: "(string \<times> 'e extraSpec) list"
  flagApply :: "(string \<times> (settings \<Rightarrow> 'e \<Rightarrow> 'e \<times> error option) option) list"
  sources :: "string \<rightharpoonup> string"
  liveCfg :: "(string \<rightharpoonup> string) option"
  cfgfile :: cfgFile
  world :: 'e

definition mscfgEnvPrefix :: string where "mscfgEnvPrefix = ''FEDLET_''"

definition registerFlagApply ::
  "string \<Rightarrow> (settings \<Rightarrow> 'e \<Rightarrow> 'e \<times> error option) option \<Rightarrow> 'e cfg \<Rightarrow> 'e cfg" where
  "registerFlagApply name fn s = s\<lparr>flagApply := AList.update name fn (flagApply s)\<rparr>"

definition mscfgFlagIsHot :: "string \<Rightarrow> 'e cfg \<Rightarrow> bool" where
  "mscfgFlagIsHot name s \<longleftrightarrow> map_of (flagApply s) name \<noteq> None"

definition mscfgExtraExists :: "string \<Rightarrow> 'e cfg \<Rightarrow> bool" where
  "mscfgExtraExists name s \<longleftrightarrow> map_of (extras s) name \<noteq> None"

definition mscfgKnown :: "string \<Rightarrow> 'e cfg \<Rightarrow> bool" where
  "mscfgKnown name s \<longleftrightarrow> flags s name \<noteq> None \<or> mscfgExtraExists name s"

definition registerMscfgExtra :: "string \<Rightarrow> 'e extraSpec \<Rightarrow> 'e cfg \<Rightarrow> 'e cfg" where
  "registerMscfgExtra name spec s =
     (if mscfgExtraExists name s then s
      else s\<lparr>extras := extras s @ [(name, if es_typ spec = [] then spec\<lparr>es_typ := ''string''\<rparr> else spec)]\<rparr>)"

definition liveGet :: "string \<Rightarrow> 'e cfg \<Rightarrow> string" where
  "liveGet name s = (case liveCfg s of None \<Rightarrow> [] | Some m \<Rightarrow> (case m name of Some v \<Rightarrow> v | None \<Rightarrow> []))"

definition liveDuration :: "string \<Rightarrow> duration \<Rightarrow> 'e cfg \<Rightarrow> duration" where
  "liveDuration name d s =
     (if liveGet name s = [] then d
      else case parseDuration (liveGet name s) of Some v \<Rightarrow> if v > 0 then v else d | None \<Rightarrow> d)"

text \<open>\<open>makeMscfgGetter\<close> at its string, duration, bool and int instances.\<close>

definition getString :: "string \<Rightarrow> string \<Rightarrow> 'e cfg \<Rightarrow> string" where
  "getString name dft s = (if liveGet name s = [] then dft else liveGet name s)"

definition getDuration :: "string \<Rightarrow> duration \<Rightarrow> 'e cfg \<Rightarrow> duration" where
  "getDuration name dft s = (if liveGet name s = [] then dft else liveDuration name dft s)"

definition getBool :: "string \<Rightarrow> bool \<Rightarrow> 'e cfg \<Rightarrow> bool" where
  "getBool name dft s =
     (if liveGet name s = [] then dft else case parseBool (liveGet name s) of Some v \<Rightarrow> v | None \<Rightarrow> dft)"

definition getInt :: "string \<Rightarrow> int \<Rightarrow> 'e cfg \<Rightarrow> int" where
  "getInt name dft s =
     (if liveGet name s = [] then dft else case atoi (liveGet name s) of Some v \<Rightarrow> v | None \<Rightarrow> dft)"

definition mscfgSetSource :: "string \<Rightarrow> string \<Rightarrow> 'e cfg \<Rightarrow> 'e cfg" where
  "mscfgSetSource name src s = s\<lparr>sources := (sources s)(name \<mapsto> src)\<rparr>"

definition mscfgGetSource :: "string \<Rightarrow> 'e cfg \<Rightarrow> string" where
  "mscfgGetSource name s = (case sources s name of Some x \<Rightarrow> x | None \<Rightarrow> ''default'')"

section \<open>Extra settings\<close>

definition mscfgExtraSnapshot :: "(string \<times> string) list \<Rightarrow> 'e cfg \<Rightarrow> settings" where
  "mscfgExtraSnapshot updates s =
     (\<lambda>name. case map_of (extras s) name of
        None \<Rightarrow> []
      | Some spec \<Rightarrow>
          (case map_of updates name of
             Some v \<Rightarrow> v
           | None \<Rightarrow> if liveGet name s = [] then es_dft spec else liveGet name s))"

fun mscfgExtraVerify :: "(string \<times> string) list \<Rightarrow> settings \<Rightarrow> 'e cfg \<Rightarrow> (string \<times> error) option" where
  "mscfgExtraVerify [] snap s = None"
| "mscfgExtraVerify ((name, v) # us) snap s =
     (case map_of (extras s) name of
        None \<Rightarrow> mscfgExtraVerify us snap s
      | Some spec \<Rightarrow>
          (case es_verify spec of
             None \<Rightarrow> mscfgExtraVerify us snap s
           | Some f \<Rightarrow> (case f snap of Some e \<Rightarrow> Some (name, e) | None \<Rightarrow> mscfgExtraVerify us snap s)))"

definition run_hook :: "settings \<Rightarrow> (settings \<Rightarrow> 'e \<Rightarrow> 'e \<times> error option) option \<Rightarrow> 'e \<Rightarrow> 'e" where
  "run_hook snap h w = (case h of None \<Rightarrow> w | Some fn \<Rightarrow> fst (fn snap w))"

definition mscfgExtraApply :: "settings \<Rightarrow> 'e cfg \<Rightarrow> 'e cfg" where
  "mscfgExtraApply snap s =
     s\<lparr>world := fold (\<lambda>(name, spec). run_hook snap (es_apply spec)) (extras s) (world s)\<rparr>"

section \<open>Applying changes\<close>

definition set_flag :: "string \<times> string \<Rightarrow> (string \<rightharpoonup> flagv) \<Rightarrow> (string \<rightharpoonup> flagv)" where
  "set_flag u fs =
     (case fs (fst u) of
        None \<Rightarrow> fs
      | Some f \<Rightarrow> fs(fst u \<mapsto> f\<lparr>fv_val := fst (flag_Set (fv_val f) (snd u))\<rparr>))"

definition applyLive :: "(string \<times> string) list \<Rightarrow> 'e cfg \<Rightarrow> 'e cfg" where
  "applyLive updates s =
     (let cur = fold (\<lambda>(k, v) m. m(k \<mapsto> v)) updates (case liveCfg s of Some m \<Rightarrow> m | None \<Rightarrow> Map.empty);
          snap = (\<lambda>k. case cur k of Some v \<Rightarrow> v | None \<Rightarrow> [])
      in s\<lparr>flags := fold set_flag updates (flags s), liveCfg := Some cur,
           world := fold (\<lambda>(name, v) w. case map_of (flagApply s) name of
                        Some h \<Rightarrow> run_hook snap h w | None \<Rightarrow> w) updates (world s)\<rparr>)"

definition seedFromFlags :: "'e cfg \<Rightarrow> 'e cfg" where
  "seedFromFlags s =
     s\<lparr>liveCfg := Some (\<lambda>n. if mscfgExtraExists n s then Some (mscfgExtraSnapshot [] s n)
         else map_option (\<lambda>f. flag_String (fv_val f)) (flags s n))\<rparr>"

definition mscfgEnvTransform :: "string \<Rightarrow> string \<Rightarrow> (string \<times> string) option" where
  "mscfgEnvTransform k v =
     (let name = replace_char (CHR ''_'') (CHR ''-'') (to_lower (trim_prefix k mscfgEnvPrefix))
      in if name = [] then None else Some (name, v))"

text \<open>\<open>fs.Set\<close> stores the value and, on success, marks the flag as set.\<close>

definition fs_Set :: "string \<Rightarrow> string \<Rightarrow> 'e cfg \<Rightarrow> 'e cfg \<times> error option" where
  "fs_Set name v s =
     (case flags s name of
        None \<Rightarrow> (s, Some ''no such flag'')
      | Some f \<Rightarrow>
          (case flag_Set (fv_val f) v of (x, err) \<Rightarrow>
             (s\<lparr>flags := (flags s)(name \<mapsto> f\<lparr>fv_val := x\<rparr>),
                actual := (if err = None then name # actual s else actual s)\<rparr>, err)))"

definition source_of :: "(string \<times> string) list \<Rightarrow> string \<Rightarrow> string" where
  "source_of envl key = (if map_of envl key \<noteq> None then ''env'' else ''file'')"

definition load_flag ::
  "string list \<Rightarrow> (string \<times> string) list \<Rightarrow> string \<times> string option \<Rightarrow> 'e cfg \<Rightarrow> 'e cfg" where
  "load_flag explicit envl kv s =
     (case kv of (key, val) \<Rightarrow>
        if flags s key = None then s
        else if key \<in> set explicit then mscfgSetSource key ''flag'' s
        else case val of
          None \<Rightarrow> s
        | Some v \<Rightarrow> (case fs_Set key v s of
              (s, Some e) \<Rightarrow> s
            | (s, None) \<Rightarrow> mscfgSetSource key (source_of envl key) s))"

definition load_extras :: "(string \<times> string) list \<Rightarrow> (string \<times> string option) list \<Rightarrow> 'e cfg \<Rightarrow> 'e cfg" where
  "load_extras envl kvs s =
     (let ex = List.map_filter (\<lambda>(key, val). if flags s key \<noteq> None \<or> \<not> mscfgExtraExists key s then None
                 else map_option (Pair key) val) kvs
      in if ex = [] then s
         else (let snap = mscfgExtraSnapshot ex s in
               case mscfgExtraVerify ex snap s of
                 Some (bad, e) \<Rightarrow> s
               | None \<Rightarrow>
                   mscfgExtraApply snap
                     (fold (\<lambda>(key, v). mscfgSetSource key (source_of envl key)) ex (applyLive ex s))))"

text \<open>The keys of the file and of the environment merged, the environment's values winning.\<close>

definition merge_sources :: "(string \<times> string option) list \<Rightarrow> (string \<times> string) list \<Rightarrow> (string \<times> string option) list" where
  "merge_sources filel envl =
     map (\<lambda>k. (k, case map_of envl k of Some v \<Rightarrow> Some v | None \<Rightarrow> (case map_of filel k of Some v \<Rightarrow> v | None \<Rightarrow> None)))
       (remdups (map fst filel @ map fst envl))"

definition applyMultiSourceConfig ::
  "((string \<Rightarrow> string \<Rightarrow> (string \<times> string) option) \<Rightarrow> (string \<times> string) list) \<Rightarrow>
   (string \<times> string option) list \<Rightarrow> 'e cfg \<Rightarrow> 'e cfg" where
  "applyMultiSourceConfig envProvider filel s =
     (let envl = envProvider mscfgEnvTransform; kvs = merge_sources filel envl
      in load_extras envl kvs (fold (load_flag (actual s) envl) kvs s))"

definition persistMultiSourceConfig :: "(string \<times> string) list \<Rightarrow> error option \<Rightarrow> 'e cfg \<Rightarrow> ('e cfg \<times> error option) option" where
  "persistMultiSourceConfig updates wr s =
     (case cfgfile s of
        NullFile \<Rightarrow> if updates = [] then Some (s, wr) else None
      | f \<Rightarrow>
          (let cur = (case f of ObjFile m \<Rightarrow> m | _ \<Rightarrow> Map.empty);
               new = fold (\<lambda>(k, v) m. m(k \<mapsto> RawString v)) updates cur
           in case wr of
                Some e \<Rightarrow> Some (s, Some e)
              | None \<Rightarrow> Some (s\<lparr>cfgfile := ObjFile new\<rparr>, None)))"

section \<open>The settings page\<close>

text \<open>\<open>toDisplaySecret\<close> of \<open>mobsub_command.go\<close>.\<close>

definition toDisplaySecret :: "string \<Rightarrow> string" where
  "toDisplaySecret s =
     (if length s \<le> 6 then ''***'' else take 3 s @ ''***'' @ drop (length s - 3) s)"

record mscfgEntry =
  en_Value :: string
  en_Default :: string
  en_Source :: string
  en_Applies :: string
  en_Type :: string

fun mscfgType :: "flagval \<Rightarrow> string" where
  "mscfgType (DurationV _) = ''duration''"
| "mscfgType (BoolV _) = ''bool''"
| "mscfgType (StringV _) = ''string''"

definition mscfgIsSecret :: "string \<Rightarrow> bool" where
  "mscfgIsSecret name =
     (let lower = to_lower name in
      if contains_sub lower ''password'' \<or> contains_sub lower ''secret'' then True
      else if has_suffix lower ''auth'' then True
      else list_ex (\<lambda>seg. seg \<in> {''auth'', ''token'', ''key'', ''passwd''}) (split_on (CHR ''-'') lower))"

fun mscfgStringify :: "rawval \<Rightarrow> string" where
  "mscfgStringify (RawString s) = s"
| "mscfgStringify (RawOther s) = s"

definition mscfgApplies :: "string \<Rightarrow> 'e cfg \<Rightarrow> string" where
  "mscfgApplies name s = (if mscfgExtraExists name s \<or> mscfgFlagIsHot name s then ''hot'' else ''restart'')"

definition mscfgValidateValue :: "string \<Rightarrow> string \<Rightarrow> 'e cfg \<Rightarrow> 'e cfg \<times> error option" where
  "mscfgValidateValue name val s =
     (case flags s name of
        None \<Rightarrow> (s, Some (''unknown flag '' @ name))
      | Some f \<Rightarrow>
          (let old = flag_String (fv_val f) in
           case flag_Set (fv_val f) val of
             (x, Some e) \<Rightarrow> (s\<lparr>flags := (flags s)(name \<mapsto> f\<lparr>fv_val := x\<rparr>)\<rparr>, Some e)
           | (x, None) \<Rightarrow> (s\<lparr>flags := (flags s)(name \<mapsto> f\<lparr>fv_val := fst (flag_Set x old)\<rparr>)\<rparr>, None)))"

definition mscfgHandleGet :: "'e cfg \<Rightarrow> string \<Rightarrow> mscfgEntry option" where
  "mscfgHandleGet s name =
     (case map_of (extras s) name of
        Some spec \<Rightarrow> Some \<lparr>en_Value = mscfgExtraSnapshot [] s name, en_Default = es_dft spec,
            en_Source = mscfgGetSource name s, en_Applies = ''hot'', en_Type = es_typ spec\<rparr>
      | None \<Rightarrow> map_option (\<lambda>f. \<lparr>en_Value = (let v = flag_String (fv_val f) in
                if mscfgIsSecret name then toDisplaySecret v else v),
              en_Default = fv_def f, en_Source = mscfgGetSource name s,
              en_Applies = mscfgApplies name s, en_Type = mscfgType (fv_val f)\<rparr>) (flags s name))"

record patchAcc =
  pa_updates :: "(string \<times> string) list"
  pa_extras :: "(string \<times> string) list"
  pa_invalid :: "(string \<times> error) list"
  pa_updated :: "string list"
  pa_restart :: "string list"
  pa_unknown :: "string list"
  pa_hot :: "string list"

definition no_patch :: patchAcc where
  "no_patch = \<lparr>pa_updates = [], pa_extras = [], pa_invalid = [], pa_updated = [], pa_restart = [],
     pa_unknown = [], pa_hot = []\<rparr>"

definition patch_field :: "string \<times> rawval \<Rightarrow> patchAcc \<times> 'e cfg \<Rightarrow> patchAcc \<times> 'e cfg" where
  "patch_field kv ps =
     (case (kv, ps) of ((name, raw), (p, s)) \<Rightarrow>
        let val = mscfgStringify raw in
        if flags s name \<noteq> None then
          (case mscfgValidateValue name val s of
             (s, Some e) \<Rightarrow> (p\<lparr>pa_invalid := pa_invalid p @ [(name, e)]\<rparr>, s)
           | (s, None) \<Rightarrow>
               (let p = p\<lparr>pa_updates := pa_updates p @ [(name, val)], pa_updated := pa_updated p @ [name]\<rparr>
                in (if mscfgApplies name s = ''hot'' then p\<lparr>pa_hot := pa_hot p @ [name]\<rparr>
                    else p\<lparr>pa_restart := pa_restart p @ [name]\<rparr>, s)))
        else if mscfgExtraExists name s then (p\<lparr>pa_extras := pa_extras p @ [(name, val)]\<rparr>, s)
        else (p\<lparr>pa_unknown := pa_unknown p @ [name]\<rparr>, s))"

definition patch_extras :: "patchAcc \<Rightarrow> 'e cfg \<Rightarrow> patchAcc" where
  "patch_extras p s =
     (if pa_extras p = [] \<or> pa_invalid p \<noteq> [] then p
      else case mscfgExtraVerify (pa_extras p) (mscfgExtraSnapshot (pa_extras p) s) s of
        Some bad \<Rightarrow> p\<lparr>pa_invalid := [bad]\<rparr>
      | None \<Rightarrow> p\<lparr>pa_updates := pa_updates p @ pa_extras p,
                 pa_updated := pa_updated p @ map fst (pa_extras p), pa_hot := pa_hot p @ map fst (pa_extras p)\<rparr>)"

datatype patchResp =
    BadRequest
  | Rejected "(string \<times> error) list" "string list"
  | PersistFailed error
  | HandlerPanic
  | Patched nat "string list" "string list" "string list" "string list"

definition mscfgHandlePatch :: "(string \<times> rawval) list option \<Rightarrow> error option \<Rightarrow> 'e cfg \<Rightarrow> 'e cfg \<times> patchResp" where
  "mscfgHandlePatch req wr s =
     (case req of
        None \<Rightarrow> (s, BadRequest)
      | Some body \<Rightarrow>
          (case fold patch_field body (no_patch, s) of (p, s) \<Rightarrow>
             let p = patch_extras p s;
                 ok = Patched (if pa_unknown p = [] then 200 else 207) (pa_updated p) (pa_hot p) (pa_restart p) (pa_unknown p)
             in if pa_invalid p \<noteq> [] then (s, Rejected (pa_invalid p) (pa_unknown p))
                else if pa_updates p = [] then (s, ok)
                else (let s = applyLive (pa_updates p) s;
                          s = mscfgExtraApply (mscfgExtraSnapshot (pa_updates p) s) s
                      in case persistMultiSourceConfig (pa_updates p) wr s of
                           None \<Rightarrow> (s, HandlerPanic)
                         | Some (s, Some e) \<Rightarrow> (s, PersistFailed e)
                         | Some (s, None) \<Rightarrow> (s, ok))))"

section \<open>Lemmas on maps of settings\<close>

lemma fold_upd_distinct:
  "distinct (map fst U) \<Longrightarrow>
   fold (\<lambda>(k, v) m. m(k \<mapsto> f v)) U m n = (case map_of U n of Some v \<Rightarrow> Some (f v) | None \<Rightarrow> m n)"
proof (induction U arbitrary: m)
  case (Cons kv U)
  obtain k v where kv: "kv = (k, v)" by (cases kv)
  have "map_of U k = None" using Cons.prems kv by (simp add: map_of_eq_None_iff)
  then show ?case using Cons kv by (auto split: option.splits)
qed simp

fun zero_of :: "flagval \<Rightarrow> flagval" where
  "zero_of (StringV s) = StringV s"
| "zero_of (BoolV b) = BoolV False"
| "zero_of (DurationV d) = DurationV 0"

lemma flag_Set_error: "flag_Set v x = (y, Some e) \<Longrightarrow> y = zero_of v"
  by (cases v) (auto split: option.splits)

text \<open>The duration flags hold values that print and parse back.\<close>

definition restorable :: "'e cfg \<Rightarrow> bool" where
  "restorable s \<longleftrightarrow> (\<forall>n f d. flags s n = Some f \<longrightarrow> fv_val f = DurationV d \<longrightarrow> parseDuration (showDuration d) = Some d)"

lemma flag_Set_restores:
  assumes "\<And>d. v = DurationV d \<Longrightarrow> parseDuration (showDuration d) = Some d" "flag_Set v x = (y, None)"
  shows "fst (flag_Set y (flag_String v)) = v"
proof (cases v)
  case (BoolV b)
  then show ?thesis using assms(2) by (auto simp: parseBool_def split: option.splits)
next
  case (DurationV d)
  then show ?thesis using assms by (auto split: option.splits)
qed (use assms(2) in auto)

lemma validate_ok:
  assumes "restorable s" "mscfgValidateValue n v s = (s', None)"
  shows "s' = s"
proof (cases "flags s n")
  case None
  then show ?thesis using assms(2) by (simp add: mscfgValidateValue_def)
next
  case (Some f)
  obtain x e where x: "flag_Set (fv_val f) v = (x, e)" by (metis prod.exhaust)
  have e: "e = None" using assms(2) Some x by (cases e) (auto simp: mscfgValidateValue_def)
  have "fst (flag_Set x (flag_String (fv_val f))) = fv_val f"
    by (rule flag_Set_restores[OF _ x[unfolded e]]) (use assms(1) Some in \<open>auto simp: restorable_def\<close>)
  then show ?thesis using assms(2) Some x e
    by (auto simp: mscfgValidateValue_def fun_upd_idem)
qed

lemma validate_error:
  assumes "mscfgValidateValue n v s = (s', Some e)" "flags s n = Some f"
  shows "s' = s\<lparr>flags := (flags s)(n \<mapsto> f\<lparr>fv_val := zero_of (fv_val f)\<rparr>)\<rparr>"
proof -
  obtain x r where x: "flag_Set (fv_val f) v = (x, r)" by (metis prod.exhaust)
  show ?thesis
    using assms x flag_Set_error[of "fv_val f" v x]
    by (cases r) (auto simp: mscfgValidateValue_def)
qed

definition reset_flags :: "string set \<Rightarrow> (string \<rightharpoonup> flagv) \<Rightarrow> (string \<rightharpoonup> flagv)" where
  "reset_flags N fs = (\<lambda>n. if n \<in> N then map_option (\<lambda>f. f\<lparr>fv_val := zero_of (fv_val f)\<rparr>) (fs n) else fs n)"

lemma zero_of_idem [simp]: "zero_of (zero_of v) = zero_of v"
  by (cases v) auto

definition flag_part :: "(string \<rightharpoonup> flagv) \<Rightarrow> (string \<times> rawval) list \<Rightarrow> (string \<times> string) list" where
  "flag_part fs body = map (\<lambda>(n, r). (n, mscfgStringify r)) (filter (\<lambda>(n, r). fs n \<noteq> None) body)"

definition extra_part :: "'e cfg \<Rightarrow> (string \<times> rawval) list \<Rightarrow> (string \<times> string) list" where
  "extra_part s body =
     map (\<lambda>(n, r). (n, mscfgStringify r)) (filter (\<lambda>(n, r). flags s n = None \<and> mscfgExtraExists n s) body)"

definition unknown_part :: "'e cfg \<Rightarrow> (string \<times> rawval) list \<Rightarrow> string list" where
  "unknown_part s body = map fst (filter (\<lambda>(n, r). \<not> mscfgKnown n s) body)"

lemma patch_field_invalid: "pa_invalid p \<noteq> [] \<Longrightarrow> pa_invalid (fst (patch_field kv (p, s))) \<noteq> []"
  by (cases kv) (auto simp: patch_field_def Let_def split: prod.splits option.splits)

lemma fold_patch_invalid: "pa_invalid p \<noteq> [] \<Longrightarrow> pa_invalid (fst (fold patch_field body (p, s))) \<noteq> []"
proof (induction body arbitrary: p s)
  case (Cons kv body)
  obtain p1 s1 where e: "patch_field kv (p, s) = (p1, s1)" by (metis prod.exhaust)
  show ?case using Cons.IH[of p1 s1] patch_field_invalid[OF Cons.prems, of kv s] e by simp
qed simp

text \<open>One field of a request, when it is accepted.\<close>

lemma patch_field_ok:
  assumes "restorable s" "patch_field (n, r) (p, s) = (p', s')" "pa_invalid p' = []"
  shows "s' = s \<and> pa_invalid p = [] \<and> pa_updates p' = pa_updates p @ flag_part (flags s) [(n, r)] \<and>
     pa_extras p' = pa_extras p @ extra_part s [(n, r)] \<and> pa_unknown p' = pa_unknown p @ unknown_part s [(n, r)]"
proof (cases "flags s n")
  case None
  then show ?thesis
    using assms(2,3) by (auto simp: patch_field_def flag_part_def extra_part_def unknown_part_def mscfgKnown_def split: if_splits)
next
  case (Some f)
  obtain s1 e where v: "mscfgValidateValue n (mscfgStringify r) s = (s1, e)" by (metis prod.exhaust)
  show ?thesis
  proof (cases e)
    case None
    then have "s1 = s" using validate_ok[OF assms(1)] v by simp
    then show ?thesis using assms(2,3) Some v None
      by (auto simp: patch_field_def flag_part_def extra_part_def unknown_part_def mscfgKnown_def Let_def split: if_splits)
  next
    case (Some err)
    then show ?thesis using assms(2,3) \<open>flags s n = _\<close> v by (auto simp: patch_field_def)
  qed
qed

lemma parts_Cons:
  "flag_part fs (kv # body) = flag_part fs [kv] @ flag_part fs body"
  "extra_part s (kv # body) = extra_part s [kv] @ extra_part s body"
  "unknown_part s (kv # body) = unknown_part s [kv] @ unknown_part s body"
  by (auto simp: flag_part_def extra_part_def unknown_part_def)

lemma fold_patch_ok:
  assumes "restorable s" "fold patch_field body (p, s) = (p', s')" "pa_invalid p' = []"
  shows "s' = s \<and> pa_updates p' = pa_updates p @ flag_part (flags s) body \<and>
     pa_extras p' = pa_extras p @ extra_part s body \<and> pa_unknown p' = pa_unknown p @ unknown_part s body"
  using assms
proof (induction body arbitrary: p)
  case (Cons kv body)
  obtain n r where kv: "kv = (n, r)" by (cases kv)
  obtain p1 s1 where e: "patch_field kv (p, s) = (p1, s1)" by (metis prod.exhaust)
  have rest: "fold patch_field body (p1, s1) = (p', s')" using Cons.prems(2) e by simp
  have i: "pa_invalid p1 = []" using fold_patch_invalid[of p1 body s1] rest Cons.prems(3) by auto
  have o: "s1 = s" "pa_updates p1 = pa_updates p @ flag_part (flags s) [kv]"
     "pa_extras p1 = pa_extras p @ extra_part s [kv]" "pa_unknown p1 = pa_unknown p @ unknown_part s [kv]"
    using patch_field_ok[OF Cons.prems(1) e[unfolded kv] i] kv by simp_all
  show ?case
    using Cons.IH[OF Cons.prems(1) rest[unfolded o(1)] Cons.prems(3)] o by (simp add: parts_Cons[of _ kv body])
qed (simp add: flag_part_def extra_part_def unknown_part_def)

text \<open>A request in general: the fields only reset flags.\<close>

lemma patch_field_frame:
  assumes "restorable s" "patch_field (n, r) (p, s) = (p', s')"
  shows "\<exists>b. s' = s\<lparr>flags := reset_flags (if b then {n} else {}) (flags s)\<rparr> \<and>
     map fst (pa_invalid p') = map fst (pa_invalid p) @ (if b then [n] else []) \<and> (b \<longrightarrow> flags s n \<noteq> None)"
proof (cases "flags s n")
  case None
  then have "s' = s \<and> pa_invalid p' = pa_invalid p" using assms(2)
    by (auto simp: patch_field_def split: if_splits)
  then show ?thesis by (intro exI[of _ False]) (simp add: reset_flags_def)
next
  case (Some f)
  obtain s1 e where v: "mscfgValidateValue n (mscfgStringify r) s = (s1, e)" by (metis prod.exhaust)
  show ?thesis
  proof (cases e)
    case None
    then have "s1 = s" using validate_ok[OF assms(1)] v by simp
    then have "s' = s \<and> pa_invalid p' = pa_invalid p" using assms(2) Some v None
      by (auto simp: patch_field_def Let_def split: if_splits)
    then show ?thesis by (intro exI[of _ False]) (simp add: reset_flags_def)
  next
    case err: (Some x)
    have "s1 = s\<lparr>flags := (flags s)(n \<mapsto> f\<lparr>fv_val := zero_of (fv_val f)\<rparr>)\<rparr>"
      by (rule validate_error[OF v[unfolded err] Some])
    moreover have "(flags s)(n \<mapsto> f\<lparr>fv_val := zero_of (fv_val f)\<rparr>) = reset_flags {n} (flags s)"
      using Some by (auto simp: reset_flags_def)
    ultimately have "s' = s\<lparr>flags := reset_flags {n} (flags s)\<rparr> \<and> pa_invalid p' = pa_invalid p @ [(n, x)]"
      using assms(2) Some v err by (auto simp: patch_field_def)
    then show ?thesis using Some by (intro exI[of _ True]) simp
  qed
qed


lemma zero_duration: "parseDuration (showDuration 0) = Some 0"
proof -
  have p: "duration_part ''0s'' = Some (0, [])"
    by (simp add: duration_part_def digit_prefix_def digit_val_def has_prefix_def digits_value_def duration_units_def Let_def)
  have "showDuration 0 = ''0s''" by (simp add: showDuration_def)
  moreover have "parseDuration ''0s'' = Some 0"
    by (simp add: parseDuration_def has_prefix_def p Let_def max_i64_def)
  ultimately show ?thesis by simp
qed

lemma restorable_reset: "restorable s \<Longrightarrow> restorable (s\<lparr>flags := reset_flags N (flags s)\<rparr>)"
proof -
  assume r: "restorable s"
  have "zero_of v = DurationV d \<Longrightarrow> d = 0" for v d by (cases v) auto
  then show ?thesis
    using r zero_duration by (fastforce simp: restorable_def reset_flags_def split: if_splits)
qed

lemma reset_flags_twice: "reset_flags M (reset_flags N fs) = reset_flags (M \<union> N) fs"
  by (auto simp: reset_flags_def map_option.compositionality comp_def intro!: ext option.map_cong)

lemma fold_patch_frame:
  assumes "restorable s" "fold patch_field body (p, s) = (p', s')"
  shows "\<exists>N. set N \<subseteq> dom (flags s) \<and> map fst (pa_invalid p') = map fst (pa_invalid p) @ N \<and>
     s' = s\<lparr>flags := reset_flags (set N) (flags s)\<rparr>"
  using assms
proof (induction body arbitrary: p s)
  case Nil
  then show ?case by (intro exI[of _ "[]"]) (simp add: reset_flags_def)
next
  case (Cons kv body)
  obtain n r where kv: "kv = (n, r)" by (cases kv)
  obtain p1 s1 where e: "patch_field (n, r) (p, s) = (p1, s1)" by (metis prod.exhaust)
  have rest: "fold patch_field body (p1, s1) = (p', s')" using Cons.prems(2) e kv by simp
  obtain b where b: "s1 = s\<lparr>flags := reset_flags (if b then {n} else {}) (flags s)\<rparr>"
     "map fst (pa_invalid p1) = map fst (pa_invalid p) @ (if b then [n] else [])" "b \<longrightarrow> flags s n \<noteq> None"
    using patch_field_frame[OF Cons.prems(1) e] by blast
  have "restorable s1" using restorable_reset[OF Cons.prems(1)] b(1) by simp
  from Cons.IH[OF this rest] obtain N where N: "set N \<subseteq> dom (flags s1)"
     "map fst (pa_invalid p') = map fst (pa_invalid p1) @ N" "s' = s1\<lparr>flags := reset_flags (set N) (flags s1)\<rparr>"
    by blast
  have d: "dom (flags s1) = dom (flags s)" using b(1) by (auto simp: reset_flags_def dom_def split: if_splits)
  show ?case
    using N b d by (intro exI[of _ "(if b then [n] else []) @ N"]) (auto simp: reset_flags_twice Un_commute)
qed

lemma liveGet_fold:
  assumes "distinct (map fst U)"
  shows "liveGet n (applyLive U s) = (case map_of U n of Some v \<Rightarrow> v | None \<Rightarrow> liveGet n s)"
proof -
  have "(fold (\<lambda>(k, v) m. m(k \<mapsto> v)) U b) n = (case map_of U n of Some v \<Rightarrow> Some v | None \<Rightarrow> b n)" for b :: "string \<rightharpoonup> string"
    using fold_upd_distinct[OF assms, of "\<lambda>x. x" b n] by simp
  then show ?thesis by (auto simp: liveGet_def applyLive_def Let_def split: option.splits)
qed

lemma fold_set_flag_other: "n \<notin> fst ` set U \<Longrightarrow> fold set_flag U fs n = fs n"
  by (induction U arbitrary: fs) (auto simp: set_flag_def split: option.splits)

lemma applyLive_frame [simp]:
  "extras (applyLive U s) = extras s" "sources (applyLive U s) = sources s" "cfgfile (applyLive U s) = cfgfile s"
  "flagApply (applyLive U s) = flagApply s"
  "flags (applyLive U s) = fold set_flag U (flags s)"
  by (simp_all add: applyLive_def Let_def)

lemma mscfgExtraApply_frame [simp]:
  "extras (mscfgExtraApply snap s) = extras s" "sources (mscfgExtraApply snap s) = sources s"
  "cfgfile (mscfgExtraApply snap s) = cfgfile s" "flags (mscfgExtraApply snap s) = flags s"
  "liveCfg (mscfgExtraApply snap s) = liveCfg s" "liveGet n (mscfgExtraApply snap s) = liveGet n s"
  by (simp_all add: mscfgExtraApply_def liveGet_def)

definition file_value :: "cfgFile \<Rightarrow> string \<Rightarrow> rawval option" where
  "file_value f n = (case f of ObjFile m \<Rightarrow> m n | _ \<Rightarrow> None)"

lemma persist_ok:
  assumes "persistMultiSourceConfig U wr s = Some (s', None)" "distinct (map fst U)" "U \<noteq> []"
  shows "s' = s\<lparr>cfgfile := cfgfile s'\<rparr> \<and>
     file_value (cfgfile s') n = (case map_of U n of Some v \<Rightarrow> Some (RawString v) | None \<Rightarrow> file_value (cfgfile s) n)"
  using assms fold_upd_distinct[OF assms(2), of RawString _ n]
  by (auto simp: persistMultiSourceConfig_def file_value_def Let_def split: cfgFile.splits option.splits)

lemma map_of_parts:
  assumes "distinct (map fst body)"
  shows "map_of (flag_part (flags s) body @ extra_part s body) n =
     (if mscfgKnown n s then map_option mscfgStringify (map_of body n) else None)"
    "distinct (map fst (flag_part (flags s) body @ extra_part s body))"
proof -
  have 1: "map_of (flag_part (flags s) body) n = (if flags s n \<noteq> None then map_option mscfgStringify (map_of body n) else None)"
    using assms by (induction body) (auto simp: flag_part_def)
  have 2: "map_of (extra_part s body) n =
      (if flags s n = None \<and> mscfgExtraExists n s then map_option mscfgStringify (map_of body n) else None)"
    using assms by (induction body) (auto simp: extra_part_def)
  show "map_of (flag_part (flags s) body @ extra_part s body) n =
     (if mscfgKnown n s then map_option mscfgStringify (map_of body n) else None)"
    using 1 2 by (auto simp: map_add_def mscfgKnown_def split: option.splits)
  have f: "map fst (flag_part (flags s) body) = filter (\<lambda>k. flags s k \<noteq> None) (map fst body)"
    by (induction body) (auto simp: flag_part_def)
  have x: "map fst (extra_part s body) = filter (\<lambda>k. flags s k = None \<and> mscfgExtraExists k s) (map fst body)"
    by (induction body) (auto simp: extra_part_def)
  show "distinct (map fst (flag_part (flags s) body @ extra_part s body))"
    unfolding map_append f x using assms by auto
qed

lemma patch_extras_ok:
  assumes "pa_invalid (patch_extras p s) = []"
  shows "pa_invalid p = [] \<and> pa_updates (patch_extras p s) = pa_updates p @ pa_extras p \<and>
     pa_unknown (patch_extras p s) = pa_unknown p \<and>
     (pa_extras p \<noteq> [] \<longrightarrow> mscfgExtraVerify (pa_extras p) (mscfgExtraSnapshot (pa_extras p) s) s = None)"
  using assms by (auto simp: patch_extras_def split: if_splits option.splits)

lemma patched_cases:
  assumes "mscfgHandlePatch (Some body) wr s = (s', Patched code upd hot rst unk)" "restorable s" "distinct (map fst body)"
  defines "U \<equiv> flag_part (flags s) body @ extra_part s body"
  shows "unk = unknown_part s body \<and> code = (if unk = [] then 200 else 207) \<and>
     (extra_part s body \<noteq> [] \<longrightarrow> mscfgExtraVerify (extra_part s body) (mscfgExtraSnapshot (extra_part s body) s) s = None) \<and>
     (if U = [] then s' = s
      else persistMultiSourceConfig U wr (mscfgExtraApply (mscfgExtraSnapshot U (applyLive U s)) (applyLive U s)) = Some (s', None))"
proof -
  obtain p s1 where f: "fold patch_field body (no_patch, s) = (p, s1)" by (metis prod.exhaust)
  let ?p = "patch_extras p s1"
  have i: "pa_invalid ?p = []"
    using assms(1) f by (auto simp: mscfgHandlePatch_def Let_def split: if_splits)
  note e = patch_extras_ok[OF i]
  have o: "s1 = s" "pa_updates p = flag_part (flags s) body" "pa_extras p = extra_part s body"
     "pa_unknown p = unknown_part s body"
    using fold_patch_ok[OF assms(2) f] e by (simp_all add: no_patch_def)
  have u: "pa_updates ?p = U" "pa_unknown ?p = unknown_part s body" using e o by (simp_all add: U_def)
  show ?thesis
  proof (cases "U = []")
    case True
    then show ?thesis using assms(1) f i u o e
      by (auto simp: mscfgHandlePatch_def Let_def split: if_splits)
  next
    case False
    then show ?thesis using assms(1) f i u o e
      by (auto simp: mscfgHandlePatch_def Let_def split: if_splits option.splits prod.splits)
  qed
qed

section \<open>Properties\<close>

text \<open>C11: A PATCH that is accepted takes effect as one: every known name of the request reads back its
  new value from the live snapshot and from the file, every other name keeps its live value, its
  flag and its file entry, and the reply lists exactly the unknown names.\<close>

theorem patch_accepted:
  assumes "mscfgHandlePatch (Some body) wr s = (s', Patched code upd hot rst unk)" "restorable s" "distinct (map fst body)"
  shows "unk = unknown_part s body \<and> (code = 200 \<longleftrightarrow> unk = []) \<and>
     (\<forall>n. if mscfgKnown n s \<and> n \<in> fst ` set body
          then (\<exists>r. (n, r) \<in> set body \<and> liveGet n s' = mscfgStringify r \<and> file_value (cfgfile s') n = Some (RawString (mscfgStringify r)))
          else liveGet n s' = liveGet n s \<and> flags s' n = flags s n \<and> file_value (cfgfile s') n = file_value (cfgfile s) n)"
proof -
  let ?U = "flag_part (flags s) body @ extra_part s body"
  note c = patched_cases[OF assms]
  note mp = map_of_parts[OF assms(3), of s]
  have eq: "liveGet n s' = (case map_of ?U n of Some v \<Rightarrow> v | None \<Rightarrow> liveGet n s) \<and>
      (map_of ?U n = None \<longrightarrow> flags s' n = flags s n) \<and>
      file_value (cfgfile s') n = (case map_of ?U n of Some v \<Rightarrow> Some (RawString v) | None \<Rightarrow> file_value (cfgfile s) n)" for n
  proof (cases "?U = []")
    case True
    then show ?thesis using c by simp
  next
    case False
    let ?s1 = "mscfgExtraApply (mscfgExtraSnapshot ?U (applyLive ?U s)) (applyLive ?U s)"
    have p: "persistMultiSourceConfig ?U wr ?s1 = Some (s', None)" using c False by presburger
    have q: "s' = ?s1\<lparr>cfgfile := cfgfile s'\<rparr>" for n using persist_ok[OF p mp(2) False] by blast
    have "liveGet n s' = liveGet n ?s1" "flags s' = flags ?s1" by (subst q, simp add: liveGet_def)+
    moreover have "map_of ?U n = None \<Longrightarrow> fold set_flag ?U (flags s) n = flags s n"
      by (rule fold_set_flag_other) (metis map_of_eq_None_iff)
    ultimately show ?thesis
      using persist_ok[OF p mp(2) False, of n] liveGet_fold[OF mp(2), of n s] by (simp cong: option.case_cong)
  qed
  have "if mscfgKnown n s \<and> n \<in> fst ` set body
          then (\<exists>r. (n, r) \<in> set body \<and> liveGet n s' = mscfgStringify r \<and> file_value (cfgfile s') n = Some (RawString (mscfgStringify r)))
          else liveGet n s' = liveGet n s \<and> flags s' n = flags s n \<and> file_value (cfgfile s') n = file_value (cfgfile s) n" for n
  proof (cases "mscfgKnown n s \<and> n \<in> fst ` set body")
    case True
    then obtain r where r: "map_of body n = Some r" by (metis map_of_eq_None_iff not_None_eq)
    have "map_of ?U n = Some (mscfgStringify r)" unfolding mp(1) using True r by simp
    note eq[of n, unfolded this option.case]
    moreover have "(n, r) \<in> set body" using r by (rule map_of_SomeD)
    ultimately show ?thesis using True by auto
  next
    case False
    then have "map_of ?U n = None" unfolding mp(1) by (auto simp: map_of_eq_None_iff)
    note eq[of n, unfolded this option.case]
    then show ?thesis using False by auto
  qed
  then show ?thesis using c by auto
qed

text \<open>C12: A rejected PATCH changes no live value, no source, no file entry and runs no hook, but it is
  not without effect: each flag whose value did not parse is left at the zero value of its
  type (false, zero duration), because the trial parse stores before it fails.\<close>

theorem patch_rejected:
  assumes "mscfgHandlePatch (Some body) wr s = (s', Rejected bad unk)" "restorable s" "distinct (map fst body)"
  shows "bad \<noteq> [] \<and> s' = s\<lparr>flags := reset_flags (fst ` set bad \<inter> dom (flags s)) (flags s)\<rparr>"
proof -
  obtain p s1 where f: "fold patch_field body (no_patch, s) = (p, s1)" by (metis prod.exhaust)
  let ?p = "patch_extras p s1"
  have i: "pa_invalid ?p = bad" "bad \<noteq> []" "s' = s1"
    using assms(1) f by (auto simp: mscfgHandlePatch_def Let_def split: if_splits option.splits prod.splits)
  have N: "fst ` set (pa_invalid p) \<subseteq> dom (flags s)" "s1 = s\<lparr>flags := reset_flags (fst ` set (pa_invalid p)) (flags s)\<rparr>"
    using fold_patch_frame[OF assms(2) f] by (auto simp: no_patch_def)
  show ?thesis
  proof (cases "pa_invalid p = []")
    case False
    then have "bad = pa_invalid p" using i by (simp add: patch_extras_def)
    then have "fst ` set bad \<inter> dom (flags s) = fst ` set (pa_invalid p)" using N(1) by auto
    then show ?thesis using i N(2) by simp
  next
    case True
    then have s1: "s1 = s" "pa_extras p = extra_part s body"
      using fold_patch_ok[OF assms(2) f] by (simp_all add: no_patch_def)
    have sub: "mscfgExtraVerify us snap t = Some (k, e) \<Longrightarrow> k \<in> fst ` set us" for us snap k e and t :: "'a cfg"
      by (induction us snap t rule: mscfgExtraVerify.induct) (auto split: option.splits)
    have "fst ` set bad \<inter> dom (flags s) = {}"
      using i True s1 by (auto simp: patch_extras_def extra_part_def split: if_splits option.splits dest!: sub)
    then show ?thesis using i s1 by (simp add: reset_flags_def)
  qed
qed



text \<open>Loading the file and the environment.\<close>

lemma merge_distinct: "distinct (map fst (merge_sources filel envl))"
  by (simp add: merge_sources_def comp_def)

lemma map_of_merge:
  "map_of (merge_sources filel envl) n =
     (if n \<in> fst ` set filel \<union> fst ` set envl
      then Some (case map_of envl n of Some v \<Rightarrow> Some v | None \<Rightarrow> (case map_of filel n of Some v \<Rightarrow> v | None \<Rightarrow> None))
      else None)"
  unfolding merge_sources_def map_of_map_restrict by (simp add: restrict_map_def)

lemma load_flag_other:
  "n \<noteq> k \<Longrightarrow> flags (load_flag ex envl (k, v) s) n = flags s n \<and> sources (load_flag ex envl (k, v) s) n = sources s n"
  by (auto simp: load_flag_def fs_Set_def mscfgSetSource_def split: option.splits prod.splits)

definition loaded_value :: "string list \<Rightarrow> string \<Rightarrow> flagv \<Rightarrow> string option \<Rightarrow> flagv" where
  "loaded_value ex n f v =
     (case v of Some x \<Rightarrow> if n \<in> set ex then f else f\<lparr>fv_val := fst (flag_Set (fv_val f) x)\<rparr> | None \<Rightarrow> f)"

definition loaded_source :: "string list \<Rightarrow> string \<Rightarrow> flagv \<Rightarrow> string option \<Rightarrow> string \<Rightarrow> string option \<Rightarrow> string option" where
  "loaded_source ex n f v label old =
     (if n \<in> set ex then Some ''flag''
      else case v of Some x \<Rightarrow> if snd (flag_Set (fv_val f) x) = None then Some label else old | None \<Rightarrow> old)"

lemma load_flag_same:
  "flags s n = Some f \<Longrightarrow>
   flags (load_flag ex envl (n, v) s) n = Some (loaded_value ex n f v) \<and>
   sources (load_flag ex envl (n, v) s) n = loaded_source ex n f v (source_of envl n) (sources s n)"
  by (auto simp: load_flag_def fs_Set_def mscfgSetSource_def loaded_value_def loaded_source_def
      split: option.splits prod.splits)

lemma load_flags:
  assumes "distinct (map fst kvs)" "flags s n = Some f"
  shows "flags (fold (load_flag ex envl) kvs s) n =
      Some (case map_of kvs n of None \<Rightarrow> f | Some v \<Rightarrow> loaded_value ex n f v) \<and>
    sources (fold (load_flag ex envl) kvs s) n =
      (case map_of kvs n of None \<Rightarrow> sources s n | Some v \<Rightarrow> loaded_source ex n f v (source_of envl n) (sources s n))"
  using assms
proof (induction kvs arbitrary: s f)
  case (Cons kv kvs)
  obtain k v where kv: "kv = (k, v)" by (cases kv)
  show ?case
  proof (cases "k = n")
    case True
    have m: "map_of kvs n = None" using Cons.prems(1) kv True by (simp add: map_of_eq_None_iff)
    note st = load_flag_same[OF Cons.prems(2), of ex envl v]
    show ?thesis using Cons.IH[OF _ st[THEN conjunct1]] Cons.prems(1) st m kv True by simp
  next
    case False
    note st = load_flag_other[OF False[symmetric], of ex envl v s]
    show ?thesis using Cons.IH[of "load_flag ex envl (k, v) s" f] Cons.prems st kv False by (simp cong: option.case_cong)
  qed
qed simp

lemma load_extras_frame:
  assumes "flags s n \<noteq> None"
  shows "flags (load_extras envl kvs s) n = flags s n \<and> sources (load_extras envl kvs s) n = sources s n"
proof -
  define X where "X = List.map_filter (\<lambda>(key, val). if flags s key \<noteq> None \<or> \<not> mscfgExtraExists key s then None
                 else map_option (Pair key) val) kvs"
  have n: "n \<notin> fst ` set X" using assms
    by (auto simp: X_def List.map_filter_def split: if_splits)
  have src: "n \<notin> fst ` set Y \<Longrightarrow>
     sources (fold (\<lambda>(key, v). mscfgSetSource key (source_of envl key)) Y t) n = sources t n \<and>
     flags (fold (\<lambda>(key, v). mscfgSetSource key (source_of envl key)) Y t) = flags t" for Y t
    by (induction Y arbitrary: t) (auto simp: mscfgSetSource_def)
  have "load_extras envl kvs s = (if X = [] then s
     else case mscfgExtraVerify X (mscfgExtraSnapshot X s) s of Some (bad, e) \<Rightarrow> s
       | None \<Rightarrow> mscfgExtraApply (mscfgExtraSnapshot X s)
                     (fold (\<lambda>(key, v). mscfgSetSource key (source_of envl key)) X (applyLive X s)))"
    by (simp only: load_extras_def X_def Let_def)
  then show ?thesis using src[OF n, of "applyLive X s"] fold_set_flag_other[OF n, of "flags s"] by (simp split: option.splits prod.splits)
qed

text \<open>Loading the settings file and the environment: a flag set on the command line keeps its
  value; otherwise the environment's value, else the file's, is stored through the flag's parser,
  which leaves the zero of its type when the value does not parse; a flag that neither names
  keeps its value. The source label follows the same order, except that a value that does not
  parse leaves it as it was, and a command-line flag is labelled only when the file or the
  environment also names it.\<close>

theorem load_precedence:
  fixes envProvider filel s n
  defines "envl \<equiv> envProvider mscfgEnvTransform"
  defines "v \<equiv> (case map_of envl n of Some x \<Rightarrow> Some x | None \<Rightarrow> (case map_of filel n of Some x \<Rightarrow> x | None \<Rightarrow> None))"
  assumes "flags s n = Some f"
  shows "flags (applyMultiSourceConfig envProvider filel s) n = Some (loaded_value (actual s) n f v) \<and>
     sources (applyMultiSourceConfig envProvider filel s) n =
       (if n \<in> fst ` set filel \<union> fst ` set envl then loaded_source (actual s) n f v (source_of envl n) (sources s n)
        else sources s n)"
proof -
  let ?kvs = "merge_sources filel envl"
  let ?t = "fold (load_flag (actual s) envl) ?kvs s"
  note l = load_flags[OF merge_distinct[of filel envl] assms(3), of "actual s" envl, unfolded map_of_merge]
  have none: "v = None \<and> loaded_value (actual s) n f v = f" if "n \<notin> fst ` set filel \<union> fst ` set envl"
  proof -
    have "map_of envl n = None" "map_of filel n = None" using that by (auto simp: map_of_eq_None_iff)
    then show ?thesis by (simp add: v_def loaded_value_def)
  qed
  have "applyMultiSourceConfig envProvider filel s = load_extras envl ?kvs ?t"
    by (simp add: applyMultiSourceConfig_def Let_def envl_def)
  moreover have "flags ?t n \<noteq> None" using l by simp
  ultimately show ?thesis using load_extras_frame[of ?t n envl ?kvs] l none by (auto simp: v_def)
qed


text \<open>A bridge with a boolean flag and a duration flag, for the witnesses.\<close>

definition cfg0 :: "unit cfg" where
  "cfg0 = \<lparr>flags = [''batctl'' \<mapsto> \<lparr>fv_val = BoolV True, fv_def = ''true''\<rparr>], actual = [], extras = [],
     flagApply = [], sources = Map.empty, liveCfg = None, cfgfile = NoFile, world = ()\<rparr>"

lemma restorable_cfg0: "restorable cfg0"
  by (simp add: restorable_def cfg0_def)

lemma parseBool_maybe: "parseBool ''maybe'' = None" and parseBool_false: "parseBool ''false'' = Some False"
  by (simp_all add: parseBool_def)

theorem load_precedence_witness:
  "flags cfg0 ''batctl'' = Some \<lparr>fv_val = BoolV True, fv_def = ''true''\<rparr> \<and>
   flags (applyMultiSourceConfig (\<lambda>_. []) [(''batctl'', Some ''maybe'')] cfg0) ''batctl'' =
     Some \<lparr>fv_val = BoolV False, fv_def = ''true''\<rparr>"
proof -
  have f: "flags cfg0 ''batctl'' = Some \<lparr>fv_val = BoolV True, fv_def = ''true''\<rparr>" by (simp add: cfg0_def)
  show ?thesis using f load_precedence[OF f, of "\<lambda>_. []" "[(''batctl'', Some ''maybe'')]"]
    by (simp add: loaded_value_def parseBool_maybe) (simp add: cfg0_def)
qed

theorem patch_accepted_witness:
  "liveGet ''batctl'' (fst (mscfgHandlePatch (Some [(''batctl'', RawOther ''false'')]) None cfg0)) = ''false''"
proof -
  let ?B = "[(''batctl'', RawOther ''false'')]"
  obtain s' where e: "mscfgHandlePatch (Some ?B) None cfg0 = (s', Patched 200 [''batctl''] [] [''batctl''] [])"
    by (simp add: mscfgHandlePatch_def patch_field_def mscfgValidateValue_def cfg0_def no_patch_def patch_extras_def
        parseBool_false mscfgApplies_def mscfgExtraExists_def mscfgFlagIsHot_def persistMultiSourceConfig_def Let_def)
  have "liveGet ''batctl'' s' = ''false''"
    using patch_accepted[OF e restorable_cfg0] by (auto simp: mscfgKnown_def cfg0_def dest!: spec[of _ "''batctl''"])
  then show ?thesis by (simp add: e)
qed

theorem patch_rejected_witness:
  "flags (fst (mscfgHandlePatch (Some [(''batctl'', RawString ''maybe'')]) None cfg0)) ''batctl'' =
     Some \<lparr>fv_val = BoolV False, fv_def = ''true''\<rparr>"
proof -
  let ?B = "[(''batctl'', RawString ''maybe'')]"
  obtain s' where e: "mscfgHandlePatch (Some ?B) None cfg0 = (s', Rejected [(''batctl'', ''parse error'')] [])"
    by (simp add: mscfgHandlePatch_def patch_field_def mscfgValidateValue_def cfg0_def no_patch_def patch_extras_def
        parseBool_maybe Let_def)
  have "s' = cfg0\<lparr>flags := reset_flags (fst ` set [(''batctl'', ''parse error'')] \<inter> dom (flags cfg0)) (flags cfg0)\<rparr>"
    using patch_rejected[OF e restorable_cfg0] by simp
  then show ?thesis by (simp only: e fst_conv) (simp add: reset_flags_def cfg0_def)
qed

end
