(* ===== verification/Config_Window.thy ===== *)
theory Config_Window
  imports Config
begin

text \<open>
  The limiter's charge window as two settings of the bridge (\<open>initChargectl\<close> of
  \<open>src/fedbridge/chargectl.go\<close>), composed with the settings page of \<open>Config\<close> and the limiter of
  \<open>Chargectl\<close>.
\<close>

section \<open>The limiter's window as settings\<close>

lemma check_apply_window:
  assumes "checkChargectlWindow vals = None"
  shows "\<exists>p r. parsePct ''chargectl-pause-at'' vals DefaultPauseAt = Inr p \<and>
     parsePct ''chargectl-resume-at'' vals DefaultResumeAt = Inr r \<and> ValidateWindow p r = None \<and>
     fst (applyChargectlWindow vals c) = c\<lparr>thresholds := Some (p, r)\<rparr>"
proof -
  have a: "atoi [] = None" by (simp add: atoi_def)
  have "parsePct n vals d = Inr v \<Longrightarrow> (case atoi (vals n) of Some v \<Rightarrow> v | None \<Rightarrow> d) = v" for n d v
    by (auto simp: parsePct_def a split: if_splits option.splits)
  then show ?thesis
    using assms by (auto simp: checkChargectlWindow_def applyChargectlWindow_def SetThresholds_def
        split: sum.splits option.splits)
qed

definition pause_key :: string where "pause_key = ''chargectl-pause-at''"
definition resume_key :: string where "resume_key = ''chargectl-resume-at''"

definition windowSpec :: "string \<Rightarrow> ('d chg) extraSpec" where
  "windowSpec dft = \<lparr>es_dft = dft, es_typ = ''number'', es_verify = Some checkChargectlWindow,
     es_apply = Some applyChargectlWindow\<rparr>"

definition chargectlExtras :: "(string \<times> ('d chg) extraSpec) list" where
  "chargectlExtras = [(pause_key, windowSpec (itoa DefaultPauseAt)), (resume_key, windowSpec (itoa DefaultResumeAt))]"

lemma keys_distinct: "pause_key \<noteq> resume_key"
  by (simp add: pause_key_def resume_key_def)

lemma chargectlExtras_of:
  "map_of chargectlExtras n = (if n = pause_key then Some (windowSpec (itoa DefaultPauseAt))
     else if n = resume_key then Some (windowSpec (itoa DefaultResumeAt)) else None)"
  using keys_distinct by (simp add: chargectlExtras_def)

lemma verify_window:
  assumes "extras s = chargectlExtras" "U \<noteq> []" "fst ` set U \<subseteq> {pause_key, resume_key}"
  shows "mscfgExtraVerify U snap s = None \<longleftrightarrow> checkChargectlWindow snap = None"
  using assms(2,3)
proof (induction U)
  case (Cons u U)
  obtain n v where u: "u = (n, v)" by (cases u)
  have n: "n \<in> {pause_key, resume_key}" using Cons.prems u by simp
  then have "mscfgExtraVerify (u # U) snap s =
      (case checkChargectlWindow snap of Some e \<Rightarrow> Some (n, e) | None \<Rightarrow> mscfgExtraVerify U snap s)"
    using u assms(1) by (auto simp: chargectlExtras_of windowSpec_def)
  then show ?case using Cons by (cases "U = []") (auto split: option.splits)
qed simp

lemma itoa_defaults [simp]: "itoa DefaultPauseAt \<noteq> []" "itoa DefaultResumeAt \<noteq> []"
  by simp_all



definition bridge0 :: "(unit chg) cfg" where
  "bridge0 = \<lparr>flags = Map.empty, actual = [], extras = chargectlExtras, flagApply = [], sources = Map.empty,
     liveCfg = None, cfgfile = NoFile, world = initial_chg ()\<rparr>"


end
