(* ===== verification/Dispatch.thy ===== *)
theory Dispatch
  imports Prelude "HOL-Library.AList"
begin

text \<open>
  Sending and redacting: the protocol registry (\<open>src/fedbridge/protocolreg.go\<close>), the dispatch to a
  local back end or to the peers of the cluster (\<open>senddispatch.go\<close>), and the HTTP handlers in front
  of them (\<open>toxrestsim.go\<close>). The functions of a back end and the POST to a peer act on a state
  \<open>'w\<close> of their own; the registry is a list in the order in which the code's map is ranged over.
\<close>

section \<open>Back ends\<close>

record MediaDataInfo =
  mi_MimeType :: string
  mi_Size :: nat
  mi_Width :: int
  mi_Height :: int
  mi_Filename :: string
  mi_MsgType :: string

record SendExtra =
  RelatesTo :: "string list"
  Mentions :: "string list"
  Visibility :: string

record ProtocolStatus =
  Running :: bool
  st_AuthStatus :: string
  st_LastErrs :: "error list"
  st_ConnectedSince :: "time option"
  ReconnTimes :: int

type_synonym sendResult = string

record 'w ProtocolInfo =
  pi_Name :: string
  pi_Ctypes :: "string list"
  pi_CanSend :: bool
  pi_CanReceive :: bool
  SendFn :: "(string \<Rightarrow> string \<Rightarrow> string \<Rightarrow> bytes \<Rightarrow> MediaDataInfo option \<Rightarrow> SendExtra option \<Rightarrow>
              'w \<Rightarrow> 'w \<times> sendResult \<times> error option) option"
  RedactFn :: "(string \<Rightarrow> string \<Rightarrow> string \<Rightarrow> 'w \<Rightarrow> 'w \<times> sendResult \<times> error option) option"
  DlMediaFn :: "(string \<Rightarrow> 'w \<Rightarrow> 'w \<times> (error + bytes \<times> string)) option"
  statusFn :: "('w \<Rightarrow> ProtocolStatus) option"

type_synonym 'w registry = "(string \<times> 'w ProtocolInfo) list"

definition info_Status :: "'w ProtocolInfo \<Rightarrow> 'w \<Rightarrow> ProtocolStatus" where
  "info_Status info w =
     (case statusFn info of
        None \<Rightarrow> \<lparr>Running = False, st_AuthStatus = [], st_LastErrs = [], st_ConnectedSince = None, ReconnTimes = 0\<rparr>
      | Some f \<Rightarrow> f w)"

definition RegisterProtocol :: "'w ProtocolInfo \<Rightarrow> 'w registry \<Rightarrow> 'w registry" where
  "RegisterProtocol info reg = fold (\<lambda>ctype. AList.update ctype info) (pi_Ctypes info) reg"

fun statuses_go :: "string set \<Rightarrow> 'w registry \<Rightarrow> 'w ProtocolInfo list" where
  "statuses_go seen [] = []"
| "statuses_go seen ((c, info) # reg) =
     (if pi_Name info \<in> seen then statuses_go seen reg
      else info # statuses_go (insert (pi_Name info) seen) reg)"

definition ProtocolStatuses :: "'w registry \<Rightarrow> 'w ProtocolInfo list" where
  "ProtocolStatuses reg = statuses_go {} reg"

definition ProtocolByName :: "string \<Rightarrow> 'w registry \<Rightarrow> 'w ProtocolInfo option" where
  "ProtocolByName name reg = map_option snd (List.find (\<lambda>(c, info). pi_Name info = name) reg)"

section \<open>Dispatch\<close>

text \<open>\<open>%q\<close> of the standard library: bytes from 0x80 on are taken as parts of printable runes.\<close>

definition hex_char :: "nat \<Rightarrow> char" where
  "hex_char n = (if n < 10 then char_of (48 + n) else char_of (87 + n))"

definition quote_char :: "char \<Rightarrow> string" where
  "quote_char c =
     (let n = of_char c :: nat in
      if c = CHR 0x22 then [CHR 0x5C, CHR 0x22] else if c = CHR 0x5C then [CHR 0x5C, CHR 0x5C]
      else if n = 7 then [CHR 0x5C, CHR ''a''] else if n = 8 then [CHR 0x5C, CHR ''b'']
      else if n = 9 then [CHR 0x5C, CHR ''t''] else if n = 10 then [CHR 0x5C, CHR ''n'']
      else if n = 11 then [CHR 0x5C, CHR ''v''] else if n = 12 then [CHR 0x5C, CHR ''f'']
      else if n = 13 then [CHR 0x5C, CHR ''r'']
      else if n < 32 \<or> n = 127 then [CHR 0x5C, CHR ''x'', hex_char (n div 16), hex_char (n mod 16)]
      else [c])"

definition go_quote :: "string \<Rightarrow> string" where
  "go_quote s = CHR 0x22 # concat (map quote_char s) @ [CHR 0x22]"

definition no_sender_err :: "string \<Rightarrow> error" where
  "no_sender_err ctype = ''senddispatch: no local sender for '' @ go_quote ctype"

definition not_ready_err :: "string \<Rightarrow> error" where
  "not_ready_err ctype = ''sendbr: backend '' @ go_quote ctype @ '' not ready!!!''"

definition backend_ready :: "'w ProtocolInfo \<Rightarrow> 'w \<Rightarrow> bool" where
  "backend_ready info w \<longleftrightarrow>
     (case statusFn info of
        None \<Rightarrow> True
      | Some f \<Rightarrow> \<not> (\<not> Running (f w) \<or> (Running (f w) \<and> st_ConnectedSince (f w) = None)))"

definition DispatchSend ::
  "'w registry \<Rightarrow> string \<Rightarrow> string \<Rightarrow> string \<Rightarrow> string \<Rightarrow> bytes \<Rightarrow> MediaDataInfo option \<Rightarrow> SendExtra option \<Rightarrow>
   'w \<Rightarrow> 'w \<times> sendResult \<times> error option" where
  "DispatchSend reg ctype to msg msgType filedata fileinfo extra w =
     (case map_of reg ctype of
        None \<Rightarrow> (w, [], Some (no_sender_err ctype))
      | Some info \<Rightarrow>
          (case SendFn info of
             None \<Rightarrow> (w, [], Some (no_sender_err ctype))
           | Some send \<Rightarrow>
               if \<not> backend_ready info w then (w, [], Some (not_ready_err ctype))
               else send to msg msgType filedata fileinfo extra w))"

definition DispatchRedact ::
  "'w registry \<Rightarrow> string \<Rightarrow> string \<Rightarrow> string \<Rightarrow> string \<Rightarrow> 'w \<Rightarrow> 'w \<times> sendResult \<times> error option" where
  "DispatchRedact reg ctype to msgID reason w =
     (case map_of reg ctype of
        None \<Rightarrow> (w, [], Some (no_sender_err ctype))
      | Some info \<Rightarrow>
          (case RedactFn info of
             None \<Rightarrow> (w, [], Some (''senddispatch: protocol '' @ go_quote (pi_Name info) @ '' does not support redact''))
           | Some redact \<Rightarrow>
               if \<not> backend_ready info w then (w, [], Some (not_ready_err ctype))
               else redact to msgID reason w))"

section \<open>Forwarding to the peers\<close>

text \<open>A form as it travels: the kind of body, the query of the URL, the fields of the body, the file.\<close>

datatype bodyKind = Urlencoded | Multipart | OtherBody

record httpForm =
  h_kind :: bodyKind
  h_query :: "string \<rightharpoonup> string"
  h_body :: "string \<rightharpoonup> string"
  h_file :: "(bytes \<times> string) option"

definition first_of :: "string option \<Rightarrow> string option \<Rightarrow> string" where
  "first_of x y = (case x of Some v \<Rightarrow> v | None \<Rightarrow> (case y of Some v \<Rightarrow> v | None \<Rightarrow> []))"

text \<open>\<open>FormValue\<close> of the standard library after \<open>ParseMultipartForm\<close> and after \<open>ParseForm\<close>. The latter
  reads an urlencoded body only, and once it has run \<open>FormValue\<close> does not parse a multipart body
  any more.\<close>

definition multipart_value :: "httpForm \<Rightarrow> string \<Rightarrow> string" where
  "multipart_value h k = first_of (h_query h k) (h_body h k)"

definition parsed_value :: "httpForm \<Rightarrow> string \<Rightarrow> string" where
  "parsed_value h k =
     (if h_kind h = Urlencoded then first_of (h_body h k) (h_query h k) else first_of (h_query h k) None)"

text \<open>The loop of \<open>ForeachSend\<close> and \<open>ForeachRedact\<close>: the first peer that answers 200 ends it. A POST
  gives a transport error or the status of the answer.\<close>

fun foreach_peer :: "string \<Rightarrow> (string \<Rightarrow> 'w \<Rightarrow> 'w \<times> (error + nat)) \<Rightarrow> string list \<Rightarrow> error option \<Rightarrow> 'w \<Rightarrow> 'w \<times> error option" where
  "foreach_peer what post [] err0 w = (w, err0)"
| "foreach_peer what post (p # ps) err0 w =
     (case post p w of
        (w', Inl e) \<Rightarrow> foreach_peer what post ps (Some e) w'
      | (w', Inr code) \<Rightarrow>
          if code \<noteq> 200
          then foreach_peer what post ps (Some (what @ '': peer '' @ p @ '' returned HTTP '' @ show_nat code)) w'
          else (w', None))"

definition field :: "string \<Rightarrow> string \<Rightarrow> (string \<rightharpoonup> string) \<Rightarrow> (string \<rightharpoonup> string)" where
  "field k v m = m(k \<mapsto> v)"

definition opt_field :: "string \<Rightarrow> string \<Rightarrow> (string \<rightharpoonup> string) \<Rightarrow> (string \<rightharpoonup> string)" where
  "opt_field k v m = (if v \<noteq> [] then m(k \<mapsto> v) else m)"

definition send_fields :: "string \<Rightarrow> string \<Rightarrow> string \<Rightarrow> SendExtra option \<Rightarrow> (string \<rightharpoonup> string)" where
  "send_fields to msg msgType extra =
     (let m = field ''ttl'' ''1'' (field ''message'' msg (field ''id'' to (field ''type'' msgType Map.empty)))
      in case extra of
           None \<Rightarrow> m
         | Some e \<Rightarrow>
             opt_field ''visibility'' (Visibility e)
               ((if Mentions e \<noteq> [] then field ''mentions'' (join_with '','' (Mentions e)) else (\<lambda>m. m))
                 ((if RelatesTo e \<noteq> [] then field ''relates_to'' (join_with '','' (RelatesTo e)) else (\<lambda>m. m)) m)))"

definition send_form ::
  "string \<Rightarrow> string \<Rightarrow> string \<Rightarrow> bytes \<Rightarrow> MediaDataInfo option \<Rightarrow> SendExtra option \<Rightarrow> httpForm" where
  "send_form to msg msgType filedata fileinfo extra =
     \<lparr>h_kind = Multipart, h_query = [''ttl'' \<mapsto> ''1''], h_body = send_fields to msg msgType extra,
      h_file = (if filedata = [] then None
                else Some (filedata, case fileinfo of
                       Some i \<Rightarrow> if mi_Filename i \<noteq> [] then mi_Filename i else ''file'' | None \<Rightarrow> ''file''))\<rparr>"

definition ForeachSend ::
  "(string \<Rightarrow> httpForm \<Rightarrow> 'w \<Rightarrow> 'w \<times> (error + nat)) \<Rightarrow> string list \<Rightarrow> string \<Rightarrow> string \<Rightarrow> string \<Rightarrow> string \<Rightarrow>
   bytes \<Rightarrow> MediaDataInfo option \<Rightarrow> SendExtra option \<Rightarrow> 'w \<Rightarrow> 'w \<times> error option" where
  "ForeachSend post peers ctype to msg msgType filedata fileinfo extra w =
     (if peers = [] then (w, Some ''foreachsend: no peers available'')
      else foreach_peer ''foreachsend'' (\<lambda>p. post p (send_form to msg msgType filedata fileinfo extra)) peers None w)"

definition redact_form :: "string \<Rightarrow> string \<Rightarrow> string \<Rightarrow> string \<Rightarrow> httpForm" where
  "redact_form ctype to msgID reason =
     \<lparr>h_kind = Multipart, h_query = [''ttl'' \<mapsto> ''1''],
      h_body = field ''ttl'' ''1'' (field ''reason'' reason (field ''message_id'' msgID
                 (field ''id'' to (field ''type'' ctype Map.empty)))),
      h_file = None\<rparr>"

definition ForeachRedact ::
  "(string \<Rightarrow> httpForm \<Rightarrow> 'w \<Rightarrow> 'w \<times> (error + nat)) \<Rightarrow> string list \<Rightarrow> string \<Rightarrow> string \<Rightarrow> string \<Rightarrow> string \<Rightarrow>
   'w \<Rightarrow> 'w \<times> error option" where
  "ForeachRedact post peers ctype to msgID reason w =
     (if peers = [] then (w, Some ''foreachredact: no peers available'')
      else foreach_peer ''foreachredact'' (\<lambda>p. post p (redact_form ctype to msgID reason)) peers None w)"

section \<open>The handlers\<close>

record simEvent =
  ev_ID :: u64
  ev_Type :: string
  ev_Peer :: string
  ev_Message :: string
  ev_Timestamp :: time

record 'w sim =
  sim_reg :: "'w registry"
  simEvents :: "simEvent list"
  simNextID :: u64
  sim_world :: 'w

datatype reply =
    ErrReply nat string
  | ErrCode nat string string
  | SentReply u64 sendResult
  | RedactedReply sendResult

text \<open>Sniffing the content type and reading the image size are functions of the standard library.\<close>

definition getMediaDataInfo ::
  "(bytes \<Rightarrow> string) \<Rightarrow> (bytes \<Rightarrow> (int \<times> int) option) \<Rightarrow> bytes \<Rightarrow> string \<Rightarrow> MediaDataInfo" where
  "getMediaDataInfo detect decodeConfig data filename =
     (let mime = detect data;
          info = \<lparr>mi_MimeType = mime, mi_Size = length data, mi_Width = 0, mi_Height = 0,
                  mi_Filename = filename, mi_MsgType = []\<rparr>
      in if has_prefix mime ''image/'' then
           (case decodeConfig data of
              Some (wd, ht) \<Rightarrow> info\<lparr>mi_MsgType := ''image'', mi_Width := wd, mi_Height := ht\<rparr>
            | None \<Rightarrow> info\<lparr>mi_MsgType := ''image''\<rparr>)
         else if has_prefix mime ''video/'' then info\<lparr>mi_MsgType := ''video''\<rparr>
         else if has_prefix mime ''audio/'' then info\<lparr>mi_MsgType := ''audio''\<rparr>
         else info\<lparr>mi_MsgType := ''file''\<rparr>)"

definition splitCommaCSV :: "string \<Rightarrow> string list" where
  "splitCommaCSV s = filter (\<lambda>p. p \<noteq> []) (map trim_space (split_on (CHR '','') s))"

text \<open>The values that \<open>handleMessageSend\<close> reads from a form.\<close>

record sendForm =
  f_type :: string
  f_id :: string
  f_message :: string
  f_ttl :: string
  f_visibility :: string
  f_relates_to :: string
  f_mentions :: string
  f_file :: "(bytes \<times> string) option"

definition read_form :: "httpForm \<Rightarrow> sendForm" where
  "read_form h =
     (let v = (if h_kind h = Multipart then multipart_value h else parsed_value h)
      in \<lparr>f_type = v ''type'', f_id = v ''id'', f_message = v ''message'', f_ttl = v ''ttl'',
          f_visibility = v ''visibility'', f_relates_to = v ''relates_to'', f_mentions = v ''mentions'',
          f_file = (if h_kind h = Multipart then h_file h else None)\<rparr>)"

definition form_extra :: "sendForm \<Rightarrow> SendExtra option" where
  "form_extra f =
     (let visibility = trim_space (f_visibility f) in
      if trim_space (f_relates_to f) \<noteq> [] \<or> trim_space (f_mentions f) \<noteq> [] \<or> visibility \<noteq> []
      then Some \<lparr>RelatesTo = splitCommaCSV (f_relates_to f), Mentions = splitCommaCSV (f_mentions f),
                 Visibility = visibility\<rparr>
      else None)"

definition push_event :: "time \<Rightarrow> string \<Rightarrow> string \<Rightarrow> string \<Rightarrow> 'w sim \<Rightarrow> 'w sim" where
  "push_event now chatType idStr message s =
     (let evs = (if length (simEvents s) \<ge> 512 then drop (length (simEvents s) - 511) (simEvents s) else simEvents s)
      in s\<lparr>simEvents := evs @ [\<lparr>ev_ID = simNextID s, ev_Type = chatType, ev_Peer = idStr,
                               ev_Message = message, ev_Timestamp = now\<rparr>],
           simNextID := simNextID s + 1\<rparr>)"

definition maxFileSize :: nat where "maxFileSize = 5 * 1024 * 1024"

definition may_forward :: "string \<Rightarrow> error \<Rightarrow> bool" where
  "may_forward ttl e \<longleftrightarrow>
     (ttl = [] \<or> ttl = ''0'') \<and> (contains_sub e ''not connected'' \<or> contains_sub e ''no local sender for'')"

datatype httpReq = NotPost | BadBody error | PostForm httpForm

record 'w env =
  env_detect :: "bytes \<Rightarrow> string"
  env_config :: "bytes \<Rightarrow> (int \<times> int) option"
  env_post :: "string \<Rightarrow> httpForm \<Rightarrow> 'w \<Rightarrow> 'w \<times> (error + nat)"
  env_redact :: "string \<Rightarrow> httpForm \<Rightarrow> 'w \<Rightarrow> 'w \<times> (error + nat)"
  env_peers :: "string list"
  env_now :: time

definition send_checked :: "'w env \<Rightarrow> sendForm \<Rightarrow> bytes \<Rightarrow> string \<Rightarrow> 'w sim \<Rightarrow> 'w sim \<times> reply" where
  "send_checked env f fileData message s =
     (let s' = push_event (env_now env) (f_type f) (f_id f) message s;
          fileName = (case f_file f of Some (_, n) \<Rightarrow> n | None \<Rightarrow> []);
          fileInfo = (if fileData \<noteq> [] then Some (getMediaDataInfo (env_detect env) (env_config env) fileData fileName) else None);
          extra = form_extra f
      in case DispatchSend (sim_reg s) (f_type f) (f_id f) message (f_type f) fileData fileInfo extra (sim_world s) of
           (w, res, None) \<Rightarrow> (s'\<lparr>sim_world := w\<rparr>, SentReply (simNextID s) res)
         | (w, res, Some e) \<Rightarrow>
             if may_forward (f_ttl f) e then
               (case ForeachSend (env_post env) (env_peers env) (f_type f) (f_id f) message (f_type f) fileData fileInfo extra w of
                  (w, None) \<Rightarrow> (s'\<lparr>sim_world := w\<rparr>, SentReply (simNextID s) res)
                | (w, Some e) \<Rightarrow> (s'\<lparr>sim_world := w\<rparr>, ErrReply 500 e))
             else (s'\<lparr>sim_world := w\<rparr>, ErrReply 500 e))"

definition handleMessageSend :: "'w env \<Rightarrow> httpReq \<Rightarrow> 'w sim \<Rightarrow> 'w sim \<times> reply" where
  "handleMessageSend env req s =
     (case req of
        NotPost \<Rightarrow> (s, ErrReply 405 ''method not allowed'')
      | BadBody e \<Rightarrow> (s, ErrReply 400 (''failed to parse multipart: '' @ e))
      | PostForm h \<Rightarrow>
          (let f = read_form h;
               fileData = (case f_file f of Some (d, _) \<Rightarrow> d | None \<Rightarrow> []);
               fileName = (case f_file f of Some (_, n) \<Rightarrow> n | None \<Rightarrow> []);
               message = (if f_message f = [] \<and> fileData \<noteq> [] then fileName else f_message f)
           in if length fileData > maxFileSize then (s, ErrReply 413 ''file too large (max 5MB)'')
              else if f_type f = [] \<or> f_id f = [] \<or> (message = [] \<and> fileData = [])
              then (s, ErrReply 400 ''missing required parameters: type, id, message'')
              else if map_of (sim_reg s) (f_type f) = None \<and> env_peers env = []
              then (s, ErrCode 400 (''unknown contact type '' @ go_quote (f_type f)) ''unknown_ctype'')
              else send_checked env f fileData message s))"

definition handleMessageRedact :: "'w env \<Rightarrow> httpReq \<Rightarrow> 'w sim \<Rightarrow> 'w sim \<times> reply" where
  "handleMessageRedact env req s =
     (case req of
        NotPost \<Rightarrow> (s, ErrReply 405 ''method not allowed'')
      | BadBody e \<Rightarrow> (s, ErrReply 400 (''failed to parse form: '' @ e))
      | PostForm h \<Rightarrow>
          (let v = parsed_value h; chatType = v ''type''; idStr = v ''id''; msgID = v ''message_id''; reason = v ''reason''
           in if chatType = [] \<or> idStr = [] \<or> msgID = []
              then (s, ErrReply 400 ''missing required parameters: type, id, message_id'')
              else
                (case DispatchRedact (sim_reg s) chatType idStr msgID reason (sim_world s) of
                   (w, res, None) \<Rightarrow> (s\<lparr>sim_world := w\<rparr>, RedactedReply res)
                 | (w, res, Some e) \<Rightarrow>
                     if may_forward (v ''ttl'') e then
                       (case ForeachRedact (env_redact env) (env_peers env) chatType idStr msgID reason w of
                          (w, None) \<Rightarrow> (s\<lparr>sim_world := w\<rparr>, RedactedReply res)
                        | (w, Some e) \<Rightarrow> (s\<lparr>sim_world := w\<rparr>, ErrReply 500 e))
                     else (s\<lparr>sim_world := w\<rparr>, ErrReply 500 e))))"

section \<open>The forwarded form\<close>

lemma splitCommaCSV_entries: "e \<in> set (splitCommaCSV s) \<Longrightarrow> e \<noteq> [] \<and> trimmed e \<and> CHR '','' \<notin> set e"
  using set_trim_space split_on_parts by (fastforce simp: splitCommaCSV_def trimmed_trim_space)

lemma splitCommaCSV_join:
  assumes "\<And>e. e \<in> set es \<Longrightarrow> e \<noteq> [] \<and> trimmed e \<and> CHR '','' \<notin> set e"
  shows "splitCommaCSV (join_with '','' es) = es"
proof (cases "es = []")
  case True
  then show ?thesis by (simp add: splitCommaCSV_def trim_space_def Let_def)
next
  case False
  have "split_on (CHR '','') (join_with '','' es) = es"
    by (rule split_on_join_with) (use False assms in auto)
  moreover have "filter (\<lambda>p. p \<noteq> []) (map trim_space es) = es"
    using assms by (induction es) (auto simp: trim_space_trimmed)
  ultimately show ?thesis by (simp add: splitCommaCSV_def)
qed

lemma read_send_form:
  "read_form (send_form to msg ty fd fi ex) =
     \<lparr>f_type = ty, f_id = to, f_message = msg, f_ttl = ''1'',
      f_visibility = (case ex of Some e \<Rightarrow> Visibility e | None \<Rightarrow> []),
      f_relates_to = (case ex of Some e \<Rightarrow> join_with '','' (RelatesTo e) | None \<Rightarrow> []),
      f_mentions = (case ex of Some e \<Rightarrow> join_with '','' (Mentions e) | None \<Rightarrow> []),
      f_file = h_file (send_form to msg ty fd fi ex)\<rparr>"
  by (cases ex) (simp_all add: read_form_def send_form_def multipart_value_def first_of_def send_fields_def
      field_def opt_field_def Let_def)

definition sent_extra :: "SendExtra option \<Rightarrow> SendExtra option" where
  "sent_extra ex =
     (case ex of
        Some e \<Rightarrow> if RelatesTo e = [] \<and> Mentions e = [] \<and> Visibility e = [] then None else Some e
      | None \<Rightarrow> None)"

lemma trim_space_join:
  assumes "\<And>e. e \<in> set es \<Longrightarrow> e \<noteq> [] \<and> trimmed e \<and> CHR '','' \<notin> set e"
  shows "trim_space (join_with '','' es) = [] \<longleftrightarrow> es = []"
proof (cases "es = []")
  case False
  then have "trimmed (join_with '','' es) \<and> join_with '','' es \<noteq> []"
    using assms by (intro trimmed_join) auto
  then show ?thesis using False by (simp add: trim_space_trimmed)
qed simp

lemma forwarded_extra:
  "form_extra (read_form (send_form to msg ty fd fi (form_extra f))) = sent_extra (form_extra f)"
proof (cases "form_extra f")
  case None
  then show ?thesis by (simp add: read_send_form sent_extra_def) (simp add: form_extra_def)
next
  case (Some e)
  then have e: "RelatesTo e = splitCommaCSV (f_relates_to f)" "Mentions e = splitCommaCSV (f_mentions f)"
      "Visibility e = trim_space (f_visibility f)"
    by (auto simp: form_extra_def Let_def split: if_splits)
  have es: "x \<in> set (RelatesTo e) \<Longrightarrow> x \<noteq> [] \<and> trimmed x \<and> CHR '','' \<notin> set x"
      "x \<in> set (Mentions e) \<Longrightarrow> x \<noteq> [] \<and> trimmed x \<and> CHR '','' \<notin> set x" for x
    using splitCommaCSV_entries unfolding e by blast+
  have v: "trim_space (Visibility e) = Visibility e" by (simp add: e)
  note s = splitCommaCSV_join[of "RelatesTo e", OF es(1)] splitCommaCSV_join[of "Mentions e", OF es(2)]
  note t = trim_space_join[of "RelatesTo e", OF es(1)] trim_space_join[of "Mentions e", OF es(2)]
  show ?thesis
    unfolding Some read_send_form sent_extra_def
    by (simp add: form_extra_def v s t Let_def)
qed

section \<open>Substrings of the errors\<close>

lemma contains_sub_iff: "contains_sub s p \<longleftrightarrow> (\<exists>a b. s = a @ p @ b)"
proof
  show "contains_sub s p \<Longrightarrow> \<exists>a b. s = a @ p @ b"
  proof (induction s)
    case (Cons c s)
    then show ?case by (auto simp: has_prefix_iff intro: exI[of _ "[]"] exI[of _ "c # _"]) (metis append_Cons)
  qed simp
  assume "\<exists>a b. s = a @ p @ b"
  then show "contains_sub s p" using contains_sub_append_left contains_sub_prefix has_prefix_append by metis
qed

text \<open>A pattern without a separator lies on one side of it.\<close>

lemma contains_sub_cut:
  assumes "c \<notin> set p"
  shows "contains_sub (x @ c # y) p \<longleftrightarrow> contains_sub x p \<or> contains_sub y p"
proof (induction x)
  case Nil
  show ?case using assms by (cases p) (auto simp: has_prefix_def)
next
  case (Cons a x)
  have "has_prefix (a # x @ c # y) p \<longleftrightarrow> has_prefix (a # x) p"
    using has_prefix_cut[OF assms, of "a # x" y] by simp
  then show ?case using Cons by simp
qed

lemma hex_char_blank: "n < 16 \<Longrightarrow> hex_char n \<noteq> CHR '' ''"
proof
  assume n: "n < 16" and e: "hex_char n = CHR '' ''"
  have "of_char (hex_char n) = (if n < 10 then 48 + n else 87 + n)" using n by (simp add: hex_char_def)
  moreover have "of_char (hex_char n) = (32::nat)" unfolding e by simp
  ultimately show False by (simp split: if_splits)
qed

lemma quote_char_blank: "c \<noteq> CHR '' '' \<Longrightarrow> CHR '' '' \<notin> set (quote_char c)"
proof -
  assume c: "c \<noteq> CHR '' ''"
  have "(of_char c :: nat) div 16 < 16" "(of_char c :: nat) mod 16 < 16"
    by (rule less_mult_imp_div_less, simp) simp
  note h = this[THEN hex_char_blank, symmetric]
  show ?thesis using c[symmetric] h by (simp add: quote_char_def Let_def del: One_nat_def)
qed

lemma quoted_no_pattern:
  assumes "CHR '' '' \<notin> set ctype" "CHR '' '' \<in> set p" "CHR 0x22 \<notin> set p" "\<not> contains_sub a p" "\<not> contains_sub b p"
  shows "\<not> contains_sub (a @ go_quote ctype @ b) p"
proof -
  let ?q = "concat (map quote_char ctype)"
  have "CHR '' '' \<notin> set (quote_char c)" if "c \<in> set ctype" for c
    using quote_char_blank[of c] that assms(1) by metis
  then have "CHR '' '' \<notin> set ?q" by auto
  then have "\<not> contains_sub ?q p"
    using assms(2) unfolding contains_sub_iff by fastforce
  moreover have "a @ go_quote ctype @ b = a @ CHR 0x22 # (?q @ CHR 0x22 # b)" by (simp add: go_quote_def)
  ultimately show ?thesis using assms(4,5) contains_sub_cut[OF assms(3)] by metis
qed

lemma not_ready_stays:
  assumes "CHR '' '' \<notin> set ctype"
  shows "\<not> may_forward ttl (not_ready_err ctype)"
proof -
  have "\<not> contains_sub (not_ready_err ctype) ''not connected''" "\<not> contains_sub (not_ready_err ctype) ''no local sender for''"
    unfolding not_ready_err_def
    by (rule quoted_no_pattern[OF assms]; simp add: has_prefix_def)+
  then show ?thesis by (simp add: may_forward_def)
qed

lemma no_sender_goes: "may_forward ttl (no_sender_err ctype) \<longleftrightarrow> ttl = [] \<or> ttl = ''0''"
proof -
  have "contains_sub (no_sender_err ctype) ''no local sender for''"
    unfolding no_sender_err_def contains_sub_iff
    by (intro exI[of _ "''senddispatch: ''"] exI[of _ "'' '' @ go_quote ctype"]) simp
  then show ?thesis by (simp add: may_forward_def)
qed


section \<open>The event log\<close>

text \<open>The log holds the last events, at most 512, with consecutive ids that end below the next one.\<close>

definition log_ok :: "'w sim \<Rightarrow> bool" where
  "log_ok s \<longleftrightarrow> length (simEvents s) \<le> 512 \<and>
     (\<forall>i < length (simEvents s). ev_ID (simEvents s ! i) = simNextID s - of_nat (length (simEvents s) - i))"

lemma push_event_ok: "log_ok s \<Longrightarrow> log_ok (push_event now ty i m s)"
proof -
  assume ok: "log_ok s"
  define k where "k = (if length (simEvents s) \<ge> 512 then length (simEvents s) - 511 else 0)"
  define evs where "evs = drop k (simEvents s)"
  let ?e = "\<lparr>ev_ID = simNextID s, ev_Type = ty, ev_Peer = i, ev_Message = m, ev_Timestamp = now\<rparr>"
  have p: "push_event now ty i m s = s\<lparr>simEvents := evs @ [?e], simNextID := simNextID s + 1\<rparr>"
    by (simp add: push_event_def evs_def k_def)
  have len: "length evs = length (simEvents s) - k" "k \<le> length (simEvents s)" "length evs < 512"
    using ok by (auto simp: evs_def k_def log_ok_def)
  have ids: "ev_ID ((evs @ [?e]) ! j) = simNextID s + 1 - of_nat (length evs + 1 - j)" if "j < length evs + 1" for j
  proof (cases "j < length evs")
    case True
    have "ev_ID (evs ! j) = simNextID s - of_nat (length (simEvents s) - (k + j))"
      using ok True len by (simp add: evs_def log_ok_def)
    also have "length (simEvents s) - (k + j) = length evs - j" using len by simp
    finally show ?thesis using True by (simp add: nth_append Suc_diff_le)
  next
    case False
    then have "j = length evs" using that by simp
    then show ?thesis by simp
  qed
  show ?thesis unfolding p log_ok_def using len(3) ids by simp
qed

lemma log_ok_world [simp]: "log_ok (s\<lparr>sim_world := w\<rparr>) = log_ok s"
  by (simp add: log_ok_def)

lemma push_event_frame [simp]:
  "sim_reg (push_event now ty i m s) = sim_reg s" "sim_world (push_event now ty i m s) = sim_world s"
  "simNextID (push_event now ty i m s) = simNextID s + 1"
  "last (simEvents (push_event now ty i m s)) =
     \<lparr>ev_ID = simNextID s, ev_Type = ty, ev_Peer = i, ev_Message = m, ev_Timestamp = now\<rparr>"
  by (simp_all add: push_event_def Let_def)

section \<open>Outcomes\<close>

lemma foreach_peer_ok:
  "foreach_peer what post ps e w = (w', None) \<Longrightarrow> ps \<noteq> [] \<or> e \<noteq> None \<Longrightarrow> \<exists>p\<in>set ps. \<exists>w0. post p w0 = (w', Inr 200)"
proof (induction ps arbitrary: e w)
  case (Cons p ps)
  then show ?case by (fastforce split: prod.splits sum.splits if_splits)
qed simp

lemma send_checked_cases:
  "\<exists>w r. send_checked env f fd m s = ((push_event (env_now env) (f_type f) (f_id f) m s)\<lparr>sim_world := w\<rparr>, r) \<and>
     ((\<exists>res. r = SentReply (simNextID s) res) \<or> (\<exists>e. r = ErrReply 500 e))"
proof -
  let ?fn = "case f_file f of Some (_, n) \<Rightarrow> n | None \<Rightarrow> []"
  let ?fi = "if fd \<noteq> [] then Some (getMediaDataInfo (env_detect env) (env_config env) fd ?fn) else None"
  obtain w r e where d: "DispatchSend (sim_reg s) (f_type f) (f_id f) m (f_type f) fd ?fi (form_extra f) (sim_world s) = (w, r, e)"
    by (metis prod_cases3)
  obtain w2 e2 where g: "ForeachSend (env_post env) (env_peers env) (f_type f) (f_id f) m (f_type f) fd ?fi (form_extra f) w = (w2, e2)"
    by (metis prod.exhaust)
  show ?thesis
    by (cases e; cases e2) (simp_all add: send_checked_def d g Let_def, blast+)
qed

lemma send_checked_ok:
  assumes "send_checked env f fd m s = (s', SentReply i res)"
  shows "(\<exists>info send fi. map_of (sim_reg s) (f_type f) = Some info \<and> SendFn info = Some send \<and> backend_ready info (sim_world s) \<and>
       send (f_id f) m (f_type f) fd fi (form_extra f) (sim_world s) = (sim_world s', res, None)) \<or>
     ((f_ttl f = [] \<or> f_ttl f = ''0'') \<and> (\<exists>p\<in>set (env_peers env). \<exists>h w. h_query h ''ttl'' = Some ''1'' \<and> env_post env p h w = (sim_world s', Inr 200)))"
proof -
  let ?fn = "case f_file f of Some (_, n) \<Rightarrow> n | None \<Rightarrow> []"
  let ?fi = "if fd \<noteq> [] then Some (getMediaDataInfo (env_detect env) (env_config env) fd ?fn) else None"
  obtain w r e where d: "DispatchSend (sim_reg s) (f_type f) (f_id f) m (f_type f) fd ?fi (form_extra f) (sim_world s) = (w, r, e)"
    by (metis prod_cases3)
  show ?thesis
  proof (cases e)
    case None
    then have "sim_world s' = w" "res = r" using assms d by (auto simp: send_checked_def Let_def)
    then show ?thesis using d None
      by (intro disjI1) (auto simp: DispatchSend_def split: option.splits if_splits)
  next
    case (Some x)
    let ?h = "send_form (f_id f) m (f_type f) fd ?fi (form_extra f)"
    obtain w2 e2 where g: "ForeachSend (env_post env) (env_peers env) (f_type f) (f_id f) m (f_type f) fd ?fi (form_extra f) w = (w2, e2)"
      by (metis prod.exhaust)
    have mf: "may_forward (f_ttl f) x" and e2: "e2 = None" "sim_world s' = w2"
      using assms d Some g by (auto simp: send_checked_def Let_def split: if_splits option.splits)
    then have "env_peers env \<noteq> []" "foreach_peer ''foreachsend'' (\<lambda>p. env_post env p ?h) (env_peers env) None w = (w2, None)"
      using g by (auto simp: ForeachSend_def split: if_splits)
    from foreach_peer_ok[OF this(2)] this(1) obtain p w0 where "p \<in> set (env_peers env)" "env_post env p ?h w0 = (w2, Inr 200)" by auto
    moreover have "h_query ?h ''ttl'' = Some ''1''" by (simp add: send_form_def)
    ultimately show ?thesis using mf e2 unfolding may_forward_def by blast
  qed
qed

section \<open>Properties\<close>

text \<open>C14: The reply of a send is truthful: with a 200 the event log ends in the message under the id of
  the reply, and either the local back end was ready and accepted it, or the request was not
  itself forwarded and a peer answered 200. A request refused before dispatch changes nothing,
  and the log keeps at most 512 events with consecutive ids.\<close>

theorem send_reply_truthful:
  assumes "log_ok s" "handleMessageSend env req s = (s', r)"
  shows "log_ok s' \<and> (case r of
      SentReply i res \<Rightarrow>
        (\<exists>h f. req = PostForm h \<and> f = read_form h \<and> i = simNextID s \<and> ev_ID (last (simEvents s')) = i \<and>
           ev_Type (last (simEvents s')) = f_type f \<and> ev_Peer (last (simEvents s')) = f_id f \<and>
           ((\<exists>info send fd fi. map_of (sim_reg s) (f_type f) = Some info \<and> SendFn info = Some send \<and>
               backend_ready info (sim_world s) \<and>
               send (f_id f) (ev_Message (last (simEvents s'))) (f_type f) fd fi (form_extra f) (sim_world s)
                 = (sim_world s', res, None)) \<or>
            (f_ttl f \<in> {[], ''0''} \<and>
              (\<exists>p\<in>set (env_peers env). \<exists>h w. h_query h ''ttl'' = Some ''1'' \<and> env_post env p h w = (sim_world s', Inr 200)))))
    | ErrReply code e \<Rightarrow> code \<noteq> 500 \<longrightarrow> s' = s
    | _ \<Rightarrow> s' = s)"
proof (cases req)
  case (PostForm h)
  define f where "f = read_form h"
  define fd where "fd = (case f_file f of Some (d, _) \<Rightarrow> d | None \<Rightarrow> [])"
  define m where "m = (if f_message f = [] \<and> fd \<noteq> [] then (case f_file f of Some (_, n) \<Rightarrow> n | None \<Rightarrow> []) else f_message f)"
  have cases: "(s' = s \<and> (\<exists>c e. r = ErrReply c e \<or> (\<exists>k. r = ErrCode c e k))) \<or> send_checked env f fd m s = (s', r)"
    using assms(2) PostForm by (auto simp: handleMessageSend_def Let_def f_def fd_def m_def split: if_splits)
  then show ?thesis
  proof
    assume "send_checked env f fd m s = (s', r)"
    note c = this
    obtain w where w: "s' = (push_event (env_now env) (f_type f) (f_id f) m s)\<lparr>sim_world := w\<rparr>"
        "(\<exists>res. r = SentReply (simNextID s) res) \<or> (\<exists>e. r = ErrReply 500 e)"
      using send_checked_cases[of env f fd m s] c by auto
    have ok: "log_ok s'" unfolding w(1) using push_event_ok[OF assms(1)] by simp
    have l: "last (simEvents s') = \<lparr>ev_ID = simNextID s, ev_Type = f_type f, ev_Peer = f_id f, ev_Message = m, ev_Timestamp = env_now env\<rparr>"
      unfolding w(1) by simp
    show ?thesis
    proof (cases "\<exists>res. r = SentReply (simNextID s) res")
      case True
      then obtain res where r: "r = SentReply (simNextID s) res" by blast
      note k = send_checked_ok[OF c[unfolded r]]
      show ?thesis unfolding r reply.case
        using k ok by (auto simp: l PostForm f_def)
    next
      case False
      then show ?thesis using w(2) ok by auto
    qed
  next
    assume "s' = s \<and> (\<exists>c e. r = ErrReply c e \<or> (\<exists>k. r = ErrCode c e k))"
    then show ?thesis using assms(1) by auto
  qed
qed (use assms in \<open>auto simp: handleMessageSend_def\<close>)

text \<open>A forwarded message is dispatched at the peer exactly as it would have been here: the same
  type, target, text, bytes and related ids, whatever the kind of file name; and it is never
  forwarded again, so the peer's own peers play no part.\<close>

theorem forwarded_send:
  fixes env :: "'w env" and fi :: "MediaDataInfo option"
  assumes "ty \<noteq> []" "to \<noteq> []" "msg \<noteq> []" "length fd \<le> maxFileSize" "map_of (sim_reg s) ty \<noteq> None"
  defines "fi' \<equiv> (if fd \<noteq> [] then Some (getMediaDataInfo (env_detect env) (env_config env) fd
      (case fi of Some i \<Rightarrow> if mi_Filename i \<noteq> [] then mi_Filename i else ''file'' | None \<Rightarrow> ''file'')) else None)"
  shows "handleMessageSend env (PostForm (send_form to msg ty fd fi (form_extra f))) s =
     (case DispatchSend (sim_reg s) ty to msg ty fd fi' (sent_extra (form_extra f)) (sim_world s) of
        (w, res, e) \<Rightarrow> ((push_event (env_now env) ty to msg s)\<lparr>sim_world := w\<rparr>,
           case e of None \<Rightarrow> SentReply (simNextID s) res | Some e \<Rightarrow> ErrReply 500 e))"
proof -
  let ?h = "send_form to msg ty fd fi (form_extra f)"
  let ?g = "read_form ?h"
  note v = read_send_form[of to msg ty fd fi "form_extra f"]
  have g: "f_type ?g = ty" "f_id ?g = to" "f_message ?g = msg" "f_ttl ?g = ''1''" by (simp_all add: v)
  have att: "f_file ?g = (if fd = [] then None else Some (fd, case fi of
       Some i \<Rightarrow> if mi_Filename i \<noteq> [] then mi_Filename i else ''file'' | None \<Rightarrow> ''file''))"
    unfolding v by (simp add: send_form_def)
  have fd: "(case f_file ?g of Some (d, _) \<Rightarrow> d | None \<Rightarrow> []) = fd" by (simp add: att)
  have nf: "\<not> may_forward ''1'' e" for e by (simp add: may_forward_def)
  have fi: "(if fd \<noteq> [] then Some (getMediaDataInfo (env_detect env) (env_config env) fd
      (case f_file ?g of Some (_, n) \<Rightarrow> n | None \<Rightarrow> [])) else None) = fi'"
    by (simp add: att fi'_def)
  have "handleMessageSend env (PostForm ?h) s = send_checked env ?g fd msg s"
  proof -
    obtain i where "map_of (sim_reg s) ty = Some i" using assms(5) by blast
    then show ?thesis using assms(1-4) by (simp add: handleMessageSend_def Let_def fd g)
  qed
  also have "send_checked env ?g fd msg s =
     (case DispatchSend (sim_reg s) ty to msg ty fd fi' (sent_extra (form_extra f)) (sim_world s) of
        (w, res, e) \<Rightarrow> ((push_event (env_now env) ty to msg s)\<lparr>sim_world := w\<rparr>,
           case e of None \<Rightarrow> SentReply (simNextID s) res | Some e \<Rightarrow> ErrReply 500 e))"
    unfolding send_checked_def Let_def fi g forwarded_extra by (simp add: nf split: prod.splits option.splits)
  finally show ?thesis .
qed

text \<open>A message for a back end that is registered but not connected fails here with status 500
  and no peer is asked, although the handler means to retry on a missing connection: the text
  of the error that dispatch gives contains neither of the phrases the handler looks for.\<close>

theorem disconnected_not_forwarded:
  assumes "req = PostForm h" "f = read_form h" "f_file f = None"
    "f_type f \<noteq> []" "f_id f \<noteq> []" "f_message f \<noteq> []" "CHR '' '' \<notin> set (f_type f)"
    "map_of (sim_reg s) (f_type f) = Some info" "SendFn info = Some send" "\<not> backend_ready info (sim_world s)"
  shows "handleMessageSend env req s =
     (push_event (env_now env) (f_type f) (f_id f) (f_message f) s, ErrReply 500 (not_ready_err (f_type f)))"
proof -
  have "handleMessageSend env req s = send_checked env f [] (f_message f) s"
    using assms by (simp add: handleMessageSend_def Let_def maxFileSize_def)
  also have "DispatchSend (sim_reg s) (f_type f) (f_id f) (f_message f) (f_type f) [] None (form_extra f) (sim_world s) =
      (sim_world s, [], Some (not_ready_err (f_type f)))"
    using assms(8-10) by (simp add: DispatchSend_def)
  note d = this
  have "send_checked env f [] (f_message f) s =
      ((push_event (env_now env) (f_type f) (f_id f) (f_message f) s)\<lparr>sim_world := sim_world s\<rparr>, ErrReply 500 (not_ready_err (f_type f)))"
    by (simp add: send_checked_def Let_def d not_ready_stays[OF assms(7)])
  finally show ?thesis by (simp add: push_event_def Let_def)
qed

section \<open>A cluster of nodes\<close>

fun reply_status :: "reply \<Rightarrow> nat" where
  "reply_status (ErrReply c e) = c"
| "reply_status (ErrCode c e k) = c"
| "reply_status (SentReply i r) = 200"
| "reply_status (RedactedReply r) = 200"

text \<open>A POST of a redaction to a peer is handled by the same program there; the nodes' states are the
  state the POST acts on.\<close>

definition cluster_redact ::
  "(string \<Rightarrow> 'v env) \<Rightarrow> string \<Rightarrow> httpForm \<Rightarrow> (string \<Rightarrow> 'v sim) \<Rightarrow> (string \<Rightarrow> 'v sim) \<times> (error + nat)" where
  "cluster_redact envs p h nodes =
     (case handleMessageRedact (envs p) (PostForm h) (nodes p) of (s, r) \<Rightarrow> (nodes(p := s), Inr (reply_status r)))"

lemma foreach_peer_refused:
  assumes "\<And>p w. p \<in> set ps \<Longrightarrow> post p w = (w, Inr 400)" "ps \<noteq> [] \<or> e \<noteq> None"
  shows "\<exists>x. foreach_peer what post ps e w = (w, Some x)"
  using assms by (induction ps arbitrary: e) auto

text \<open>Redacting across the cluster never works: the request is sent as a multipart form, whose
  fields the peer's handler does not read, so every peer refuses it with status 400, nothing is
  redacted anywhere, and the caller gets status 500.\<close>

theorem redact_never_forwarded:
  assumes "env_redact env = cluster_redact envs" "map_of (sim_reg s) (parsed_value h ''type'') = None"
    "parsed_value h ''type'' \<noteq> []" "parsed_value h ''id'' \<noteq> []" "parsed_value h ''message_id'' \<noteq> []"
  shows "\<exists>e. handleMessageRedact env (PostForm h) s = (s, ErrReply 500 e)"
proof -
  let ?v = "parsed_value h"
  let ?h = "redact_form (?v ''type'') (?v ''id'') (?v ''message_id'') (?v ''reason'')"
  have "parsed_value ?h ''type'' = []" by (simp add: parsed_value_def redact_form_def first_of_def)
  then have "handleMessageRedact en (PostForm ?h) t =
      (t, ErrReply 400 ''missing required parameters: type, id, message_id'')" for en :: "'a env" and t
    by (simp add: handleMessageRedact_def Let_def)
  then have p: "env_redact env p ?h w = (w, Inr 400)" for p w
    by (simp add: assms(1) cluster_redact_def)
  have d: "DispatchRedact (sim_reg s) (?v ''type'') (?v ''id'') (?v ''message_id'') (?v ''reason'') (sim_world s) =
      (sim_world s, [], Some (no_sender_err (?v ''type'')))"
    using assms(2) by (simp add: DispatchRedact_def)
  have "\<exists>x. ForeachRedact (env_redact env) (env_peers env) (?v ''type'') (?v ''id'') (?v ''message_id'') (?v ''reason'') (sim_world s)
      = (sim_world s, Some x)"
    using foreach_peer_refused[of "env_peers env" "\<lambda>p. env_redact env p ?h" None "''foreachredact''" "sim_world s"] p
    unfolding ForeachRedact_def by (cases "env_peers env = []") simp_all
  then obtain x where f: "ForeachRedact (env_redact env) (env_peers env) (?v ''type'') (?v ''id'') (?v ''message_id'') (?v ''reason'') (sim_world s)
      = (sim_world s, Some x)" by blast
  have "handleMessageRedact env (PostForm h) s = (s, ErrReply 500 x) \<or>
      handleMessageRedact env (PostForm h) s = (s, ErrReply 500 (no_sender_err (?v ''type'')))"
    using assms(3-5) by (simp add: handleMessageRedact_def Let_def d f)
  then show ?thesis by blast
qed


section \<open>Concrete requests\<close>

definition offline :: "string list \<Rightarrow> ProtocolStatus" where
  "offline w = \<lparr>Running = False, st_AuthStatus = [], st_LastErrs = [], st_ConnectedSince = None, ReconnTimes = 0\<rparr>"

definition backend0 :: "(string list \<Rightarrow> ProtocolStatus) option \<Rightarrow> (string list) ProtocolInfo" where
  "backend0 st = \<lparr>pi_Name = ''irc'', pi_Ctypes = [''irc''], pi_CanSend = True, pi_CanReceive = True,
     SendFn = Some (\<lambda>to msg ty fd fi ex w. (w @ [msg], ''m1'', None)), RedactFn = None, DlMediaFn = None, statusFn = st\<rparr>"

definition node0 :: "(string list \<Rightarrow> ProtocolStatus) option \<Rightarrow> (string list) sim" where
  "node0 st = \<lparr>sim_reg = RegisterProtocol (backend0 st) [], simEvents = [], simNextID = 1, sim_world = []\<rparr>"

definition env0 :: "(string list) env" where
  "env0 = \<lparr>env_detect = (\<lambda>_. ''text/plain''), env_config = (\<lambda>_. None), env_post = (\<lambda>p h w. (w, Inr 200)),
     env_redact = (\<lambda>p h w. (w, Inr 400)), env_peers = [''peer''], env_now = 0\<rparr>"

definition form0 :: httpForm where
  "form0 = \<lparr>h_kind = Urlencoded, h_query = Map.empty,
     h_body = [''type'' \<mapsto> ''irc'', ''id'' \<mapsto> ''a'', ''message'' \<mapsto> ''hi'', ''message_id'' \<mapsto> ''7''], h_file = None\<rparr>"

lemma read_form0:
  "read_form form0 = \<lparr>f_type = ''irc'', f_id = ''a'', f_message = ''hi'', f_ttl = [], f_visibility = [],
     f_relates_to = [], f_mentions = [], f_file = None\<rparr>"
  by (simp add: read_form_def form0_def parsed_value_def first_of_def)

lemma node0_reg: "map_of (sim_reg (node0 st)) ''irc'' = Some (backend0 st)"
  by (simp add: node0_def RegisterProtocol_def backend0_def)

lemma node0_dispatch:
  "DispatchSend (sim_reg (node0 None)) ''irc'' to msg ty fd fi ex [] = ([msg], ''m1'', None)"
  by (simp add: DispatchSend_def node0_reg backend_ready_def backend0_def)

lemma node0_frame: "sim_world (node0 st) = []" "simNextID (node0 st) = 1" "simEvents (node0 st) = []"
  by (simp_all add: node0_def)

theorem send_reply_truthful_witness:
  "log_ok (fst (handleMessageSend env0 (PostForm form0) (node0 None))) \<and>
   snd (handleMessageSend env0 (PostForm form0) (node0 None)) = SentReply 1 ''m1''"
proof -
  obtain s' r where e: "handleMessageSend env0 (PostForm form0) (node0 None) = (s', r)" by (metis prod.exhaust)
  have "r = SentReply 1 ''m1''" using e[symmetric]
    by (simp add: handleMessageSend_def read_form0 node0_reg send_checked_def node0_dispatch node0_frame maxFileSize_def Let_def)
  moreover have "log_ok s'"
    using send_reply_truthful[OF _ e] by (simp add: log_ok_def node0_def)
  ultimately show ?thesis using e by simp
qed

theorem forwarded_send_witness:
  "sim_world (fst (handleMessageSend env0 (PostForm (send_form ''a'' ''hi'' ''irc'' [] None (form_extra (read_form form0)))) (node0 None)))
     = [''hi'']"
  by (subst forwarded_send) (simp_all add: node0_reg node0_dispatch node0_frame)

theorem disconnected_not_forwarded_witness:
  "snd (handleMessageSend env0 (PostForm form0) (node0 (Some offline))) = ErrReply 500 (not_ready_err ''irc'') \<and>
   env_peers env0 \<noteq> []"
proof -
  have "SendFn (backend0 (Some offline)) = Some (\<lambda>to msg ty fd fi ex w. (w @ [msg], ''m1'', None))"
    "\<not> backend_ready (backend0 (Some offline)) (sim_world (node0 (Some offline)))"
    by (simp_all add: backend0_def backend_ready_def offline_def)
  then show ?thesis
    by (subst disconnected_not_forwarded[OF refl refl, where info = "backend0 (Some offline)"])
      (simp_all add: read_form0 node0_reg env0_def)
qed

theorem redact_never_forwarded_witness:
  "\<exists>e. handleMessageRedact
     \<lparr>env_detect = (\<lambda>_. []), env_config = (\<lambda>_. None), env_post = (\<lambda>p h w. (w, Inl [])),
       env_redact = cluster_redact (\<lambda>_. env0), env_peers = [''peer''], env_now = 0\<rparr>
     (PostForm form0) \<lparr>sim_reg = [], simEvents = [], simNextID = 1, sim_world = (\<lambda>_. node0 None)\<rparr>
     = (\<lparr>sim_reg = [], simEvents = [], simNextID = 1, sim_world = (\<lambda>_. node0 None)\<rparr>, ErrReply 500 e)"
  by (rule redact_never_forwarded) (simp_all add: parsed_value_def form0_def first_of_def)

end
