(* ===== verification/Webapi.thy ===== *)
theory Webapi
  imports Config_Window Dispatch Encodings
begin

text \<open>
  What a node tells the outside about itself: the identity it derives from its key file
  (\<open>src/fedbridge/main.go\<close>), \<open>/api/self\<close> and \<open>/api/switchpeer\<close> and the media proxy
  (\<open>toxrestsim.go\<close>), the list of peers and the page of protocols (\<open>fedletweb.go\<close>), and the
  advertisement that is broadcast to the cluster (\<open>service_discovery.go\<close>). The key ring and the
  numbering of hosts belong to other modules and are arguments.
\<close>

section \<open>Identity\<close>

record selfInfo =
  si_Address :: string
  si_PeerID :: string
  si_Name :: string
  si_StatusMessage :: string
  si_ConnectionStatus :: string

record node =
  simSelf :: selfInfo
  simPeer :: string
  currentPeerID :: string
  localPeerID :: string
  LocalPeerIP :: string

definition node_start :: node where
  "node_start = \<lparr>simSelf = \<lparr>si_Address = ''???.A1B2C3D4E5F6A1B2C3D4E5F6A1B2C3D4E5F6A1B2C3D4E5F6'',
       si_PeerID = ''123???'', si_Name = ''fbip.10.0.0.???'', si_StatusMessage = ''Online'',
       si_ConnectionStatus = ''offline''\<rparr>,
     simPeer = [], currentPeerID = [], localPeerID = [], LocalPeerIP = []\<rparr>"

definition vlanpfx :: string where "vlanpfx = ''10.0.0.''"

definition to_upper_char :: "char \<Rightarrow> char" where
  "to_upper_char c = (if 97 \<le> (of_char c :: nat) \<and> (of_char c :: nat) \<le> 122 then char_of ((of_char c :: nat) - 32) else c)"

definition getKeyRingSeedHex :: "(string \<times> bytes) option \<Rightarrow> string" where
  "getKeyRingSeedHex kr = (case kr of None \<Rightarrow> [] | Some (_, seed) \<Rightarrow> map to_upper_char (hex_encode seed))"

text \<open>A key ring is its peer id and the seed of its private key.\<close>

definition localPeerIDFromKeyFile :: "(string \<times> bytes) option \<Rightarrow> string \<times> string" where
  "localPeerIDFromKeyFile kr =
     (case kr of None \<Rightarrow> ([], []) | Some (pid, seed) \<Rightarrow> (pid, getKeyRingSeedHex kr))"

definition peerID7 :: "node \<Rightarrow> string" where
  "peerID7 n =
     (let pid = (if localPeerID n = [] then currentPeerID n else localPeerID n)
      in if length pid \<le> 7 then pid else drop (length pid - 7) pid)"

definition virtIP :: "(string \<Rightarrow> int) \<Rightarrow> node \<Rightarrow> string" where
  "virtIP hostPart n =
     (if LocalPeerIP n \<noteq> [] then LocalPeerIP n
      else if localPeerID n = [] then []
      else vlanpfx @ itoa (hostPart (localPeerID n)))"

text \<open>The start of \<open>main\<close>; a peer id of fewer than seven characters panics (None).\<close>

definition initSelf :: "(string \<Rightarrow> int) \<Rightarrow> (string \<times> bytes) option \<Rightarrow> node \<Rightarrow> node option" where
  "initSelf hostPart kr n =
     (let (mypeerid, seed) = localPeerIDFromKeyFile kr;
          selfAddr = (if mypeerid \<noteq> [] then vlanpfx @ itoa (hostPart mypeerid) else [])
      in if selfAddr = [] then Some n
         else
           (let self = (simSelf n)\<lparr>si_Name := ''fbip.'' @ selfAddr, si_Address := seed, si_PeerID := mypeerid\<rparr>;
                n = n\<lparr>simSelf := self, currentPeerID := mypeerid\<rparr>
            in if length mypeerid < 7 then None
               else Some (n\<lparr>simSelf := self\<lparr>si_StatusMessage := take 7 mypeerid @ '' . . . '' @ peerID7 n\<rparr>\<rparr>)))"

definition onBootReady :: "(string \<Rightarrow> int) \<Rightarrow> string \<Rightarrow> node \<Rightarrow> node" where
  "onBootReady hostPart peerID n =
     (if peerID = [] then n
      else n\<lparr>localPeerID := peerID, LocalPeerIP := vlanpfx @ itoa (hostPart peerID)\<rparr>)"

definition onTargetPeer :: "string \<Rightarrow> node \<Rightarrow> node" where
  "onTargetPeer pid n = (if pid = [] then n else n\<lparr>currentPeerID := pid\<rparr>)"

text \<open>One round of \<open>waitPeerCome\<close>: the first peer whose id ends in the configured suffix.\<close>

definition waitPeerRound :: "string \<Rightarrow> string list \<Rightarrow> string option" where
  "waitPeerRound usepeer ids = List.find (\<lambda>p. has_suffix p usepeer) ids"

section \<open>Self, peers\<close>

definition handleSelf :: "(string \<rightharpoonup> string) option \<Rightarrow> node \<Rightarrow> node \<times> selfInfo" where
  "handleSelf post n =
     (let value = (\<lambda>f k. case f k of Some v \<Rightarrow> v | None \<Rightarrow> []);
          n = (case post of
                 None \<Rightarrow> n
               | Some f \<Rightarrow> n\<lparr>simSelf := (simSelf n)\<lparr>si_Name := value f ''name'', si_StatusMessage := value f ''status_message''\<rparr>\<rparr>)
      in (n, simSelf n))"

definition handleSwitchPeer :: "(string \<rightharpoonup> string) option \<Rightarrow> node \<Rightarrow> node \<times> string" where
  "handleSwitchPeer post n =
     (let n = (case post of
                 None \<Rightarrow> n
               | Some f \<Rightarrow> (case f ''peer'' of Some p \<Rightarrow> if p \<noteq> [] then n\<lparr>simPeer := p\<rparr> else n | None \<Rightarrow> n))
      in (n, simPeer n))"

record peerEntry =
  pe_No :: nat
  pe_ID :: string
  pe_Name :: string
  pe_IP :: string

definition getPeerList :: "(string \<Rightarrow> int) \<Rightarrow> (string list \<Rightarrow> string list) \<Rightarrow> string list \<Rightarrow> peerEntry list" where
  "getPeerList hostPart sort_strings ids =
     map (\<lambda>(i, p). \<lparr>pe_No = i, pe_ID = p, pe_Name = p, pe_IP = vlanpfx @ itoa (hostPart p)\<rparr>)
       (enumerate 0 (sort_strings ids))"

fun find_no :: "string \<Rightarrow> peerEntry list \<Rightarrow> nat \<Rightarrow> int" where
  "find_no cur [] i = - 1"
| "find_no cur (p # ps) i = (if pe_ID p = cur then int i else find_no cur ps (Suc i))"

definition handlePeer :: "peerEntry list \<Rightarrow> (string \<rightharpoonup> string) option \<Rightarrow> node \<Rightarrow> node \<times> int \<times> string" where
  "handlePeer pl post n =
     (let value = (\<lambda>f k. case f k of Some v \<Rightarrow> v | None \<Rightarrow> []);
          n = (case post of
                 None \<Rightarrow> n
               | Some f \<Rightarrow>
                   if value f ''peerno'' \<noteq> [] then
                     (case atoi (value f ''peerno'') of
                        Some k \<Rightarrow> if 0 \<le> k \<and> k < int (length pl) then n\<lparr>currentPeerID := pe_ID (pl ! nat k)\<rparr> else n
                      | None \<Rightarrow> n)
                   else if value f ''peer'' \<noteq> [] then n\<lparr>currentPeerID := value f ''peer''\<rparr>
                   else n)
      in (n, find_no (currentPeerID n) pl 0, currentPeerID n))"

section \<open>The page of protocols\<close>

definition knownProtocols :: "(string \<times> string \<times> string \<times> (string \<times> string \<times> bool) list) list" where
  "knownProtocols = [
  (''emailauth'', ''emailimap'', ''Email IMAP'',
     [(''imapserver'', ''server'', False),
      (''imapdir'', ''folders'', False),
      (''emailauth'', ''auth'', True)]),
  (''outlook-client-id'', ''outlookgraph'', ''Microsoft Graph'',
     [(''outlook-client-id'', ''client_id'', True)]),
  (''gomuks'', ''gomuks'', ''Matrix (gomuks)'',
     [(''gomuks'', ''endpoint'', False)]),
  (''irc'', ''irccloud'', ''IRCCloud'',
     [(''irc-join'', ''channels'', False),
      (''irc'', ''auth'', True)]),
  (''irclounge'', ''irclounge'', ''The Lounge IRC'',
     [(''irclounge'', ''server'', False),
      (''irclounge-join'', ''channels'', False),
      (''irclounge-network'', ''network'', False),
      (''irclounge-auth'', ''auth'', True)]),
  (''toxhs'', ''toxoverhttp'', ''Tox over HTTP'',
     [(''toxhs'', ''url'', False)]),
  (''matrix-url'', ''matrixlite'', ''Matrix (native)'',
     [(''matrix-url'', ''server'', False),
      (''matrix-auth'', ''auth'', True)]),
  (''misskey'', ''misskey'', ''Misskey'',
     [(''misskey'', ''instance'', False),
      (''misskey-timeline'', ''timeline'', False),
      (''misskey-token'', ''token'', True)]),
  (''sysinfo-interval'', ''sysinfo'', ''Host metrics (sysinfo)'',
     [(''sysinfo-interval'', ''interval'', False)]),
  (''bilibili-hot'', ''bilibili'', ''Bilibili'',
     [(''bilibili-hot'', ''hot'', False),
      (''bilibili-notify'', ''notify'', False),
      (''bilibili-interval'', ''interval'', False),
      (''bilibili-notify-interval'', ''notify_interval'', False)]),
  (''coolapk-hot'', ''coolapk'', ''Coolapk'',
     [(''coolapk-hot'', ''hot'', False),
      (''coolapk-news'', ''news'', False),
      (''coolapk-interval'', ''interval'', False),
      (''coolapk-notify-interval'', ''notify_interval'', False)]),
  (''hongguo-interval'', ''hongguo'', ''Hongguo'',
     [(''hongguo-interval'', ''interval'', False)]),
  (''toutiao-hot'', ''toutiao'', ''Toutiao'',
     [(''toutiao-hot'', ''hot'', False),
      (''toutiao-news'', ''news'', False),
      (''toutiao-interval'', ''interval'', False),
      (''toutiao-notify-interval'', ''notify_interval'', False)]),
  (''weibo-interval'', ''weibo'', ''Weibo'',
     [(''weibo-interval'', ''interval'', False)]),
  (''xhs-hot'', ''xhs'', ''XHS'',
     [(''xhs-hot'', ''hot'', False),
      (''xhs-notify'', ''notify'', False),
      (''xhs-interval'', ''interval'', False),
      (''xhs-notify-interval'', ''notify_interval'', False)]),
  (''zhihu-hot'', ''zhihu'', ''Zhihu'',
     [(''zhihu-hot'', ''hot'', False),
      (''zhihu-notify'', ''notify'', False),
      (''zhihu-interval'', ''interval'', False),
      (''zhihu-notify-interval'', ''notify_interval'', False)]),
  (''tiebakw'', ''bdtieba'', ''Baidu Tieba'',
     [(''tiebakw'', ''keywords'', False),
      (''tiebainterval'', ''interval'', False)])]"

record protoParam =
  pp_Key :: string
  pp_Value :: string
  pp_Hide :: bool

record protoInfo =
  pr_Name :: string
  pr_Label :: string
  pr_Params :: "protoParam list"

definition protoParamOf :: "'e cfg \<Rightarrow> string \<times> string \<times> bool \<Rightarrow> protoParam option" where
  "protoParamOf s fkh =
     (case fkh of (fl, key, hide) \<Rightarrow>
        map_option (\<lambda>f.
          let v0 = flag_String (fv_val f); v = (if hide \<and> v0 \<noteq> [] then ''******'' else v0)
          in \<lparr>pp_Key = key, pp_Value = v, pp_Hide = (hide \<and> v \<noteq> [])\<rparr>) (flags s fl))"

definition handleProtocols :: "'e cfg \<Rightarrow> protoInfo list" where
  "handleProtocols s =
     map (\<lambda>(fl, name, label, params). \<lparr>pr_Name = name, pr_Label = label, pr_Params = List.map_filter (protoParamOf s) params\<rparr>)
       (filter (\<lambda>(fl, _). flags s fl \<noteq> None) knownProtocols)"

section \<open>The advertisement\<close>

datatype attr = AStr string | ABool bool | AInt int | AStrs "string list" | ATime "time option"

record DiscoveredService =
  ds_Name :: string
  ds_Ctypes :: "string list"
  ds_Running :: bool
  ds_CanSend :: bool
  ds_CanReceive :: bool
  ds_Attrs :: "(string \<times> attr) list"

record DiscoveryAdvertisement =
  ad_Type :: string
  ad_PeerID :: string
  ad_Name :: string
  ad_Addr :: string
  ad_Stamp :: time
  ad_Services :: "DiscoveredService list"

definition discoveryType :: string where "discoveryType = ''fedlet.service.discovery''"

definition lastErrShort :: "error list \<Rightarrow> string" where
  "lastErrShort errs = (case errs of [] \<Rightarrow> [] | e # _ \<Rightarrow> if length e > 120 then take 120 e else e)"

datatype goos = Android | Unixlike | DarwinOrWindows | OtherOS

definition clipboardDesktopKind :: "goos \<Rightarrow> (string \<Rightarrow> string) \<Rightarrow> bool \<times> string" where
  "clipboardDesktopKind os getenv =
     (case os of
        Android \<Rightarrow> (False, [])
      | Unixlike \<Rightarrow> if getenv ''WAYLAND_DISPLAY'' \<noteq> [] then (True, ''wayland'')
          else if getenv ''DISPLAY'' \<noteq> [] then (True, ''x11'') else (False, [])
      | DarwinOrWindows \<Rightarrow> (True, [])
      | OtherOS \<Rightarrow> (False, []))"

definition service_of :: "'w ProtocolInfo \<Rightarrow> 'w \<Rightarrow> DiscoveredService" where
  "service_of info w =
     (let st = info_Status info w in
      \<lparr>ds_Name = pi_Name info, ds_Ctypes = pi_Ctypes info, ds_Running = Running st, ds_CanSend = pi_CanSend info,
       ds_CanReceive = pi_CanReceive info,
       ds_Attrs = [(''cap_send'', ABool (pi_CanSend info)), (''cap_receive'', ABool (pi_CanReceive info)),
         (''has_sendfn'', ABool (SendFn info \<noteq> None)), (''has_redactfn'', ABool (RedactFn info \<noteq> None)),
         (''has_dlmediafn'', ABool (DlMediaFn info \<noteq> None)), (''auth_status'', AStr (st_AuthStatus st)),
         (''connected_since'', ATime (st_ConnectedSince st)), (''reconn_times'', AInt (ReconnTimes st))] @
         (let msg = lastErrShort (st_LastErrs st) in if msg \<noteq> [] then [(''last_err'', AStr msg)] else [])\<rparr>)"

definition clipboard_service :: "string \<Rightarrow> DiscoveredService" where
  "clipboard_service kind =
     \<lparr>ds_Name = ''clipboard'', ds_Ctypes = [''clipboard''], ds_Running = True, ds_CanSend = False, ds_CanReceive = True,
      ds_Attrs = [(''cap_send'', ABool False), (''cap_receive'', ABool True), (''has_sendfn'', ABool False),
        (''has_redactfn'', ABool False), (''formats'', AStrs [''text'', ''image'']), (''attach_types'', AStrs [''image'']),
        (''note'', AStr ''local desktop clipboard mirroring'')] @
        (if kind \<noteq> [] then [(''desktop'', AStr kind)] else [])\<rparr>"

definition buildDiscovery ::
  "goos \<Rightarrow> (string \<Rightarrow> string) \<Rightarrow> time \<Rightarrow> 'w registry \<Rightarrow> 'w \<Rightarrow> node \<Rightarrow> DiscoveryAdvertisement" where
  "buildDiscovery os getenv now reg w n =
     \<lparr>ad_Type = discoveryType,
      ad_PeerID = (if si_PeerID (simSelf n) = [] then currentPeerID n else si_PeerID (simSelf n)),
      ad_Name = si_Name (simSelf n), ad_Addr = si_Address (simSelf n), ad_Stamp = now,
      ad_Services = map (\<lambda>info. service_of info w) (ProtocolStatuses reg) @
        (case clipboardDesktopKind os getenv of (ok, kind) \<Rightarrow> if ok then [clipboard_service kind] else [])\<rparr>"

section \<open>The media proxy\<close>

record ServerInfo =
  sv_BaseURL :: string
  sv_MSC3916Stable :: bool
  sv_Versions :: "string list"
  sv_Features :: "string \<rightharpoonup> bool"
  sv_LastChecked :: time

datatype AuthSupport = AuthUnknown | AuthSupported | AuthUnsupported

record httpResp =
  rs_status :: nat
  rs_ctype :: string
  rs_body :: string

text \<open>The HTTP client, the check of an URL, and the decoding of JSON bodies are arguments.\<close>

record 'w web =
  web_get :: "string \<Rightarrow> 'w \<Rightarrow> 'w \<times> (error + httpResp)"
  web_bad :: "string \<Rightarrow> error option"
  json_base_url :: "string \<Rightarrow> string option"
  json_versions :: "string \<Rightarrow> (string list \<times> (string \<rightharpoonup> bool)) option"
  json_error :: "string \<Rightarrow> string option"
  web_now :: time

definition queryWellKnown :: "'w web \<Rightarrow> string \<Rightarrow> 'w \<Rightarrow> 'w \<times> (error + string)" where
  "queryWellKnown web server w =
     (case web_get web (''https://'' @ server @ ''/.well-known/matrix/client'') w of
        (w, Inl e) \<Rightarrow> (w, Inl e)
      | (w, Inr r) \<Rightarrow>
          if rs_status r \<noteq> 200 then (w, Inl (''.well-known returned '' @ show_nat (rs_status r)))
          else (case json_base_url web (rs_body r) of
                  None \<Rightarrow> (w, Inl ''json'') | Some u \<Rightarrow> (w, Inr (trim_right u ''/''))))"

definition queryVersions :: "'w web \<Rightarrow> string \<Rightarrow> 'w \<Rightarrow> 'w \<times> (error + string list \<times> (string \<rightharpoonup> bool))" where
  "queryVersions web baseURL w =
     (case web_get web (trim_right baseURL ''/'' @ ''/_matrix/client/versions'') w of
        (w, Inl e) \<Rightarrow> (w, Inl e)
      | (w, Inr r) \<Rightarrow>
          if rs_status r \<noteq> 200 then (w, Inl (''versions returned '' @ show_nat (rs_status r)))
          else (case json_versions web (rs_body r) of None \<Rightarrow> (w, Inl ''json'') | Some vf \<Rightarrow> (w, Inr vf)))"

definition msc3916 :: string where "msc3916 = ''org.matrix.msc3916.stable''"

definition discoverServerInfo :: "'w web \<Rightarrow> string \<Rightarrow> 'w \<Rightarrow> 'w \<times> ServerInfo \<times> error option" where
  "discoverServerInfo web server w =
     (case queryWellKnown web server w of (w, wk) \<Rightarrow>
        let base = (case wk of Inr u \<Rightarrow> u | Inl _ \<Rightarrow> []);
            matrixURL = (if base = [] then ''https://'' @ server else base)
        in case queryVersions web matrixURL w of (w, vr) \<Rightarrow>
             let (versions, features) = (case vr of Inr vf \<Rightarrow> vf | Inl _ \<Rightarrow> ([], Map.empty));
                 info = \<lparr>sv_BaseURL = base, sv_MSC3916Stable = (features msc3916 = Some True),
                         sv_Versions = versions, sv_Features = features, sv_LastChecked = web_now web\<rparr>
             in (w, info, case (wk, vr) of
                   (Inl e1, Inl e2) \<Rightarrow> Some (''well-known: '' @ e1 @ '', versions: '' @ e2) | _ \<Rightarrow> None))"

definition needsAuthForMedia :: "httpResp \<Rightarrow> AuthSupport \<Rightarrow> bool" where
  "needsAuthForMedia r as =
     (if rs_status r = 401 \<or> rs_status r = 403 then True
      else if as = AuthSupported then True
      else if rs_status r \<noteq> 404 then as = AuthUnknown
      else if \<not> has_prefix (rs_ctype r) ''application/json'' \<and> \<not> has_prefix (rs_ctype r) ''text/plain''
      then as = AuthUnknown
      else if contains_sub (rs_body r) ''authentication is required'' then True
      else as = AuthUnknown)"

datatype mediaReply =
    MediaErr nat string
  | Relayed httpResp
  | FromBackend bytes string

record 'w media =
  md_reg :: "'w registry"
  serverCaps :: "string \<rightharpoonup> ServerInfo"
  md_world :: 'w

definition auth_support :: "bool \<Rightarrow> ServerInfo \<Rightarrow> AuthSupport" where
  "auth_support known info =
     (if \<not> known then AuthUnknown
      else case sv_Features info msc3916 of
        Some True \<Rightarrow> AuthSupported | Some False \<Rightarrow> AuthUnsupported | None \<Rightarrow> AuthUnknown)"

definition server_caps :: "'w web \<Rightarrow> string \<Rightarrow> 'w media \<Rightarrow> 'w media \<times> ServerInfo \<times> bool" where
  "server_caps web server s =
     (case serverCaps s server of
        Some info \<Rightarrow> (s, info, True)
      | None \<Rightarrow>
          (case discoverServerInfo web server (md_world s) of
             (w, info, None) \<Rightarrow> (s\<lparr>md_world := w, serverCaps := (serverCaps s)(server \<mapsto> info)\<rparr>, info, True)
           | (w, info, Some e) \<Rightarrow> (s\<lparr>md_world := w\<rparr>, info, False)))"

definition upstream_text :: "'w web \<Rightarrow> httpResp \<Rightarrow> string" where
  "upstream_text web r =
     (let st = ''upstream='' @ show_nat (rs_status r);
          js = has_prefix (rs_ctype r) ''application/json''
      in if js \<or> has_prefix (rs_ctype r) ''text/plain'' then
           (let b = take 512 (rs_body r);
                msg = (if js then (case json_error web b of Some e \<Rightarrow> if e \<noteq> [] then trim_space e else trim_space b | None \<Rightarrow> trim_space b)
                       else trim_space b)
            in if msg \<noteq> [] then st @ '' '' @ msg else st)
         else st)"

definition peeked :: "httpResp \<Rightarrow> httpResp" where
  "peeked r =
     (if has_prefix (rs_ctype r) ''application/json'' \<or> has_prefix (rs_ctype r) ''text/plain''
      then r\<lparr>rs_body := take 512 (rs_body r)\<rparr> else r)"

fun backend_media :: "'w registry \<Rightarrow> string \<Rightarrow> string list \<Rightarrow> 'w \<Rightarrow> 'w \<times> (bytes \<times> string) option" where
  "backend_media reg raw [] w = (w, None)"
| "backend_media reg raw (ctype # cs) w =
     (case map_of reg ctype of
        None \<Rightarrow> backend_media reg raw cs w
      | Some info \<Rightarrow>
          (case DlMediaFn info of
             None \<Rightarrow> backend_media reg raw cs w
           | Some dl \<Rightarrow>
               if \<not> Running (info_Status info w) then backend_media reg raw cs w
               else if st_ConnectedSince (info_Status info w) = None then backend_media reg raw cs w
               else (case dl raw w of
                       (w, Inl e) \<Rightarrow> backend_media reg raw cs w
                     | (w, Inr rc) \<Rightarrow> (w, Some rc))))"

definition TypeMatrix :: string where "TypeMatrix = ''matrix''"
definition TypeGomuksRoom :: string where "TypeGomuksRoom = ''gomuks_room''"

definition mxc_parts :: "string \<Rightarrow> (string \<times> string) option" where
  "mxc_parts rest =
     (let server = takeWhile (\<lambda>c. c \<noteq> CHR ''/'') rest; tl = drop (length server) rest
      in if tl = [] \<or> server = [] \<or> drop 1 tl = [] then None else Some (server, drop 1 tl))"

definition plain_download :: "'w web \<Rightarrow> string \<Rightarrow> 'w media \<Rightarrow> 'w media \<times> mediaReply" where
  "plain_download web u s =
     (case web_bad web u of
        Some e \<Rightarrow> (s, MediaErr 400 e)
      | None \<Rightarrow>
          (case web_get web u (md_world s) of
             (w, Inl e) \<Rightarrow> (s\<lparr>md_world := w\<rparr>, MediaErr 502 e)
           | (w, Inr r) \<Rightarrow>
               if rs_status r \<noteq> 200 then (s\<lparr>md_world := w\<rparr>, MediaErr (rs_status r) ''download failed'')
               else (s\<lparr>md_world := w\<rparr>, Relayed r)))"

definition mxc_download :: "'w web \<Rightarrow> string \<Rightarrow> string \<Rightarrow> string \<Rightarrow> 'w media \<Rightarrow> 'w media \<times> mediaReply" where
  "mxc_download web raw server mediaID s =
     (case server_caps web server s of (s, cap, known) \<Rightarrow>
        let as = auth_support known cap;
            base = (if sv_BaseURL cap \<noteq> [] then sv_BaseURL cap else ''https://'' @ server);
            u = base @ ''/_matrix/media/v3/download/'' @ server @ ''/'' @ mediaID
        in case web_bad web u of
             Some e \<Rightarrow> (s, MediaErr 500 e)
           | None \<Rightarrow>
               (case web_get web u (md_world s) of
                  (w, Inl e) \<Rightarrow> (s\<lparr>md_world := w\<rparr>, MediaErr 502 e)
                | (w, Inr r) \<Rightarrow>
                    if rs_status r = 200 then (s\<lparr>md_world := w\<rparr>, Relayed r)
                    else if \<not> needsAuthForMedia (peeked r) as
                    then (s\<lparr>md_world := w\<rparr>, MediaErr 404 (''media not accessible: '' @ upstream_text web r))
                    else (case backend_media (md_reg s) raw [TypeMatrix, TypeGomuksRoom] w of
                            (w, Some (rc, ct)) \<Rightarrow> (s\<lparr>md_world := w\<rparr>, FromBackend rc ct)
                          | (w, None) \<Rightarrow> (s\<lparr>md_world := w\<rparr>, MediaErr 404 (''media not accessible: '' @ upstream_text web r)))))"

definition handleMediaDownload :: "'w web \<Rightarrow> bool \<Rightarrow> string \<Rightarrow> 'w media \<Rightarrow> 'w media \<times> mediaReply" where
  "handleMediaDownload web get raw s =
     (if \<not> get then (s, MediaErr 405 ''method not allowed'')
      else if raw = [] then (s, MediaErr 400 ''missing url parameter'')
      else if has_prefix raw ''mxc://'' then
        (case mxc_parts (drop 6 raw) of
           None \<Rightarrow> (s, MediaErr 400 ''invalid mxc url format'')
         | Some (server, mediaID) \<Rightarrow> mxc_download web raw server mediaID s)
      else if has_prefix raw ''//'' then plain_download web (''https:'' @ raw) s
      else if has_prefix raw ''http://'' \<or> has_prefix raw ''https://'' then plain_download web raw s
      else (s, MediaErr 400 ''invalid media url scheme''))"

section \<open>Properties\<close>

lemma hex_val_upper: "n < 16 \<Longrightarrow> hex_val (to_upper_char (hex_digits ! n)) = Some n"
proof -
  have "\<forall>k\<in>set [0..<16]. hex_val (to_upper_char (hex_digits ! k)) = Some k" by code_simp
  then show "n < 16 \<Longrightarrow> hex_val (to_upper_char (hex_digits ! n)) = Some n" by auto
qed

lemma hex_decode_upper: "hex_decode (map to_upper_char (hex_encode bs)) = Some bs"
proof (induction bs)
  case (Cons b bs)
  have "unat b div 16 < 16" using unat_byte_less [of b] by linarith
  then have h: "hex_val (to_upper_char (hex_digits ! (unat b div 16))) = Some (unat b div 16)" by (rule hex_val_upper)
  have l: "hex_val (to_upper_char (hex_digits ! (unat b mod 16))) = Some (unat b mod 16)" by (rule hex_val_upper) simp
  have "hex_encode (b # bs) = hex_digits ! (unat b div 16) # hex_digits ! (unat b mod 16) # hex_encode bs"
    by (simp add: hex_encode_def)
  moreover have "16 * (unat b div 16) + unat b mod 16 = unat b" by presburger
  ultimately show ?case using Cons h l by simp
qed (simp add: hex_encode_def)

text \<open>A node publishes the seed of its private key: after the start, the address that \<open>/api/self\<close>
  returns and that every advertisement carries to the cluster decodes to the seed in the key
  file, whatever back ends are registered and on every platform.\<close>

theorem advertisement_reveals_seed:
  assumes "initSelf hostPart (Some (pid, seed)) node_start = Some n" "pid \<noteq> []"
  shows "hex_decode (ad_Addr (buildDiscovery os getenv now reg w n)) = Some seed \<and>
     ad_PeerID (buildDiscovery os getenv now reg w n) = pid \<and>
     si_Address (snd (handleSelf None n)) = ad_Addr (buildDiscovery os getenv now reg w n)"
proof -
  have n: "si_Address (simSelf n) = map to_upper_char (hex_encode seed)" "si_PeerID (simSelf n) = pid"
    using assms by (auto simp: initSelf_def localPeerIDFromKeyFile_def getKeyRingSeedHex_def vlanpfx_def Let_def split: if_splits)
  then show ?thesis using assms(2) hex_decode_upper by (simp add: buildDiscovery_def handleSelf_def Let_def)
qed

theorem advertisement_reveals_seed_witness:
  "\<exists>n. initSelf (\<lambda>_. 7) (Some (''12D3KooW'', [1, 255])) node_start = Some n \<and>
     hex_decode (ad_Addr (buildDiscovery Android (\<lambda>_. []) 0 [] () n)) = Some [1, 255]"
proof -
  have "\<exists>n. initSelf (\<lambda>_. 7) (Some (''12D3KooW'', [1, 255])) node_start = Some n"
    by (simp add: initSelf_def localPeerIDFromKeyFile_def vlanpfx_def Let_def)
  then obtain n where n: "initSelf (\<lambda>_. 7) (Some (''12D3KooW'', [1, 255])) node_start = Some n" by blast
  have "hex_decode (ad_Addr (buildDiscovery Android (\<lambda>_. []) 0 [] () n)) = Some [1, 255]"
    using advertisement_reveals_seed[OF n, where os = Android and getenv = "\<lambda>_. []" and now = 0 and reg = "[]" and w = "()"] by simp
  then show ?thesis using n by blast
qed

lemma irc_known: "(''irc'', ''irccloud'', ''IRCCloud'', [(''irc-join'', ''channels'', False), (''irc'', ''auth'', True)]) \<in> set knownProtocols"
  by (simp add: knownProtocols_def)

lemma irc_not_secret: "\<not> mscfgIsSecret ''irc''"
  by code_simp

lemma param_masked: "protoParamOf s x = Some q \<Longrightarrow> pp_Hide q \<Longrightarrow> pp_Value q = ''******''"
  by (cases x) (auto simp: protoParamOf_def Let_def split: if_splits)

text \<open>The page of protocols never shows the value of a parameter it marks hidden, but the settings
  page hides by the flag's name alone: the IRCCloud credential, hidden on the one, is returned
  in full by the other.\<close>

theorem irc_credential_shown:
  assumes "flags s ''irc'' = Some f" "fv_val f = StringV pw" "pw \<noteq> []" "\<not> mscfgExtraExists ''irc'' s"
  shows "(\<forall>p\<in>set (handleProtocols s). \<forall>q\<in>set (pr_Params p). pp_Hide q \<longrightarrow> pp_Value q = ''******'') \<and>
     (\<exists>p\<in>set (handleProtocols s). pr_Name p = ''irccloud'' \<and>
        \<lparr>pp_Key = ''auth'', pp_Value = ''******'', pp_Hide = True\<rparr> \<in> set (pr_Params p)) \<and>
     (\<exists>e. mscfgHandleGet s ''irc'' = Some e \<and> en_Value e = pw)"
proof (intro conjI)
  show "\<forall>p\<in>set (handleProtocols s). \<forall>q\<in>set (pr_Params p). pp_Hide q \<longrightarrow> pp_Value q = ''******''"
    using param_masked by (fastforce simp: handleProtocols_def List.map_filter_def)
  let ?ps = "[(''irc-join'', ''channels'', False), (''irc'', ''auth'', True)]"
  have q: "protoParamOf s (''irc'', ''auth'', True) = Some \<lparr>pp_Key = ''auth'', pp_Value = ''******'', pp_Hide = True\<rparr>"
    using assms(1-3) by (simp add: protoParamOf_def)
  let ?p = "\<lparr>pr_Name = ''irccloud'', pr_Label = ''IRCCloud'', pr_Params = List.map_filter (protoParamOf s) ?ps\<rparr>"
  have "?p \<in> set (handleProtocols s)"
    using irc_known assms(1) unfolding handleProtocols_def by force
  moreover have "\<lparr>pp_Key = ''auth'', pp_Value = ''******'', pp_Hide = True\<rparr> \<in> set (pr_Params ?p)"
    using q by (force simp: List.map_filter_def)
  ultimately show "\<exists>p\<in>set (handleProtocols s). pr_Name p = ''irccloud'' \<and>
        \<lparr>pp_Key = ''auth'', pp_Value = ''******'', pp_Hide = True\<rparr> \<in> set (pr_Params p)" by force
  show "\<exists>e. mscfgHandleGet s ''irc'' = Some e \<and> en_Value e = pw"
    using assms irc_not_secret by (auto simp: mscfgHandleGet_def mscfgExtraExists_def Let_def split: option.splits)
qed

definition irc_bridge :: "(unit chg) cfg" where
  "irc_bridge = bridge0\<lparr>flags := [''irc'' \<mapsto> \<lparr>fv_val = StringV ''a:b'', fv_def = []\<rparr>]\<rparr>"

theorem irc_credential_shown_witness:
  "\<exists>e. mscfgHandleGet irc_bridge ''irc'' = Some e \<and> en_Value e = ''a:b''"
proof -
  have "flags irc_bridge ''irc'' = Some \<lparr>fv_val = StringV ''a:b'', fv_def = []\<rparr>" by (simp add: irc_bridge_def)
  moreover have "\<not> mscfgExtraExists ''irc'' irc_bridge"
    by (simp add: irc_bridge_def bridge0_def mscfgExtraExists_def chargectlExtras_of) (simp add: pause_key_def resume_key_def)
  ultimately show ?thesis using irc_credential_shown[of irc_bridge] by simp
qed

definition serves :: "'w registry \<Rightarrow> string \<Rightarrow> string \<Rightarrow> 'w \<Rightarrow> bytes \<times> string \<Rightarrow> bool" where
  "serves reg raw c w' x \<longleftrightarrow> (\<exists>info dl w0. map_of reg c = Some info \<and> DlMediaFn info = Some dl \<and>
     Running (info_Status info w0) \<and> st_ConnectedSince (info_Status info w0) \<noteq> None \<and> dl raw w0 = (w', Inr x))"

lemma backend_media_source:
  "backend_media reg raw cs w = (w', Some x) \<Longrightarrow> \<exists>c\<in>set cs. serves reg raw c w' x"
proof (induction cs arbitrary: w)
  case (Cons c cs)
  have "(\<exists>w1. backend_media reg raw cs w1 = (w', Some x)) \<or> serves reg raw c w' x"
  proof (cases "map_of reg c")
    case None
    then show ?thesis using Cons.prems by auto
  next
    case info: (Some info)
    show ?thesis
    proof (cases "DlMediaFn info")
      case None
      then show ?thesis using Cons.prems info by auto
    next
      case dl: (Some dl)
      obtain w1 r where r: "dl raw w = (w1, r)" by (metis prod.exhaust)
      show ?thesis
      proof (cases "Running (info_Status info w) \<and> st_ConnectedSince (info_Status info w) \<noteq> None")
        case True
        then have "(case r of Inl e \<Rightarrow> backend_media reg raw cs w1 | Inr rc \<Rightarrow> (w1, Some rc)) = (w', Some x)"
          using Cons.prems info dl r by auto
        then show ?thesis using info dl r True by (cases r) (auto simp: serves_def)
      next
        case False
        then have "backend_media reg raw cs w = (w', Some x)" using Cons.prems info dl by (auto split: if_splits)
        then show ?thesis by blast
      qed
    qed
  qed
  then show ?case using Cons.IH by auto
qed simp

lemma server_caps_keep: "server_caps web srv s = (s', cap, k) \<Longrightarrow> md_reg s' = md_reg s \<and>
    (\<forall>x i. serverCaps s x = Some i \<longrightarrow> serverCaps s' x = Some i)"
  by (auto simp: server_caps_def split: option.splits prod.splits)

text \<open>The media proxy uses a logged-in back end only for a Matrix URL, only one that is running and
  connected, and its answer is that back end's. What is once known of a server is never
  revised, so capabilities read when a probe half failed stay for the life of the process.\<close>

theorem media_sources:
  assumes "handleMediaDownload web get raw s = (s', r)"
  shows "(\<forall>x i. serverCaps s x = Some i \<longrightarrow> serverCaps s' x = Some i) \<and>
     (\<forall>b ct. r = FromBackend b ct \<longrightarrow> has_prefix raw ''mxc://'' \<and>
        (\<exists>c\<in>{TypeMatrix, TypeGomuksRoom}. serves (md_reg s) raw c (md_world s') (b, ct)))"
proof -
  have plain: "serverCaps s1 = serverCaps s \<and> (\<forall>b ct. r1 \<noteq> FromBackend b ct)" if "plain_download web u s = (s1, r1)" for u s1 r1
    using that by (auto simp: plain_download_def split: option.splits prod.splits sum.splits if_splits)
  have mxc: ?thesis if m: "mxc_download web raw srv mid s = (s', r)" "has_prefix raw ''mxc://''" for srv mid
  proof -
    obtain t cap k where t: "server_caps web srv s = (t, cap, k)" by (metis prod_cases3)
    note keep = server_caps_keep[OF t]
    define u where "u = (if sv_BaseURL cap \<noteq> [] then sv_BaseURL cap else ''https://'' @ srv) @ ''/_matrix/media/v3/download/'' @ srv @ ''/'' @ mid"
    obtain w1 g where g: "web_get web u (md_world t) = (w1, g)" by (metis prod.exhaust)
    obtain w2 x where x: "backend_media (md_reg t) raw [TypeMatrix, TypeGomuksRoom] w1 = (w2, x)" by (metis prod.exhaust)
    have "serverCaps s' = serverCaps t \<and> (\<forall>b ct. r = FromBackend b ct \<longrightarrow> x = Some (b, ct) \<and> md_world s' = w2)"
      using m(1) unfolding mxc_download_def t prod.case Let_def u_def[symmetric] g x
      by (cases x) (auto split: option.splits sum.splits if_splits)
    then show ?thesis using keep m(2) backend_media_source[of "md_reg t" raw "[TypeMatrix, TypeGomuksRoom]" w1 w2] x by force
  qed
  show ?thesis
    using assms plain mxc by (auto simp: handleMediaDownload_def split: if_splits option.splits prod.splits)
qed


definition web0 :: "unit web" where
  "web0 = \<lparr>web_get = (\<lambda>u w. (w, Inr \<lparr>rs_status = 401, rs_ctype = [], rs_body = []\<rparr>)), web_bad = (\<lambda>_. None),
     json_base_url = (\<lambda>_. None), json_versions = (\<lambda>_. None), json_error = (\<lambda>_. None), web_now = 0\<rparr>"

definition media0 :: "unit media" where
  "media0 = \<lparr>md_reg = [(TypeMatrix, \<lparr>pi_Name = ''matrix'', pi_Ctypes = [TypeMatrix], pi_CanSend = True, pi_CanReceive = True,
       SendFn = None, RedactFn = None, DlMediaFn = Some (\<lambda>u w. (w, Inr ([7], ''image/png''))),
       statusFn = Some (\<lambda>_. \<lparr>Running = True, st_AuthStatus = [], st_LastErrs = [], st_ConnectedSince = Some 1, ReconnTimes = 0\<rparr>)\<rparr>)],
     serverCaps = Map.empty, md_world = ()\<rparr>"

theorem media_sources_witness:
  "\<exists>s'. handleMediaDownload web0 True ''mxc://a/b'' media0 = (s', FromBackend [7] ''image/png'') \<and>
     (\<exists>c\<in>{TypeMatrix, TypeGomuksRoom}. serves (md_reg media0) ''mxc://a/b'' c (md_world s') ([7], ''image/png''))"
proof -
  have p: "mxc_parts ''a/b'' = Some (''a'', ''b'')" by (simp add: mxc_parts_def Let_def)
  have "\<exists>s'. handleMediaDownload web0 True ''mxc://a/b'' media0 = (s', FromBackend [7] ''image/png'')"
    by (simp add: handleMediaDownload_def has_prefix_def p mxc_download_def server_caps_def discoverServerInfo_def
        queryWellKnown_def queryVersions_def web0_def media0_def auth_support_def needsAuthForMedia_def peeked_def
        info_Status_def Let_def)
  then obtain s' where e: "handleMediaDownload web0 True ''mxc://a/b'' media0 = (s', FromBackend [7] ''image/png'')" by blast
  then show ?thesis using media_sources[OF e] by blast
qed

end
