(* ===== verification/Mobsub.thy ===== *)
theory Mobsub
  imports Dispatch Encodings
begin

text \<open>
  Mobile push: the registry of push subscriptions that arrive over the cluster
  (\<open>src/fedbridge/mobsub_registry.go\<close>), the subscription of this node to ntfy and to Mozilla's
  autopush (\<open>mobsub_command.go\<close>), and publishing to ntfy and to the registered subscribers
  (\<open>ntfysh_publish.go\<close>, \<open>webpush.go\<close>, \<open>publish\<close> in \<open>main.go\<close>). JSON decoding, field access by gjson,
  the cryptographic primitives, URL parsing and the network are arguments.
\<close>

section \<open>The registry of subscriptions\<close>

definition mobsubRegistryTTL :: duration where "mobsubRegistryTTL = hours 72"

record mobsubPushSub =
  sub_Auth :: string
  sub_Endpoint :: string
  sub_P256dh :: string
  sub_UAID :: string
  sub_PeerID :: string
  FirstSeen :: time
  LastSeen :: time

record subMsg =
  sm_Endpoint :: string
  sm_P256dh :: string
  sm_Auth :: string
  sm_UAID :: string

text \<open>What \<open>p2put.OnEvent\<close> delivers; the peer id comes in its short form.\<close>

datatype rawEvent =
    MessagePtr "(bytes \<times> string) option"
  | MessageVal bytes string
  | P2putEvent "(bytes \<times> string) option"
  | OtherEvent

fun extractPubsubData :: "rawEvent \<Rightarrow> bytes \<times> string" where
  "extractPubsubData (MessagePtr None) = ([], [])"
| "extractPubsubData (MessagePtr (Some (d, p))) = (d, p)"
| "extractPubsubData (MessageVal d p) = (d, p)"
| "extractPubsubData (P2putEvent None) = ([], [])"
| "extractPubsubData (P2putEvent (Some (d, p))) = (d, p)"
| "extractPubsubData OtherEvent = ([], [])"

text \<open>A gjson lookup gives the string of an existing value.\<close>

type_synonym gjson = "bytes \<Rightarrow> string \<Rightarrow> string option"

definition gstring :: "gjson \<Rightarrow> bytes \<Rightarrow> string \<Rightarrow> string" where
  "gstring gj data k = (case gj data k of Some v \<Rightarrow> v | None \<Rightarrow> [])"

fun matchPubMsg :: "gjson \<Rightarrow> bytes \<Rightarrow> string list \<Rightarrow> bool" where
  "matchPubMsg gj data [] = True"
| "matchPubMsg gj data [k] = (gj data k \<noteq> None \<and> gstring gj data k \<noteq> [])"
| "matchPubMsg gj data (k # v # kv) = (gstring gj data k = v \<and> matchPubMsg gj data kv)"

type_synonym subs = "string \<rightharpoonup> mobsubPushSub"

definition purge :: "time \<Rightarrow> subs \<Rightarrow> subs" where
  "purge now m = (\<lambda>k. case m k of Some e \<Rightarrow> if LastSeen e < now - mobsubRegistryTTL then None else Some e | None \<Rightarrow> None)"

definition upsert :: "time \<Rightarrow> string \<Rightarrow> subMsg \<Rightarrow> subs \<Rightarrow> subs" where
  "upsert now src m subs =
     subs(sm_Auth m \<mapsto>
       (case subs (sm_Auth m) of
          Some e \<Rightarrow> e\<lparr>sub_Endpoint := sm_Endpoint m, sub_P256dh := sm_P256dh m, LastSeen := now,
                     sub_UAID := (if sm_UAID m \<noteq> [] then sm_UAID m else sub_UAID e),
                     sub_PeerID := (if src \<noteq> [] then src else sub_PeerID e)\<rparr>
        | None \<Rightarrow> \<lparr>sub_Auth = sm_Auth m, sub_Endpoint = sm_Endpoint m, sub_P256dh = sm_P256dh m,
                   sub_UAID = sm_UAID m, sub_PeerID = src, FirstSeen = now, LastSeen = now\<rparr>))"

definition onP2PTopicEvent ::
  "gjson \<Rightarrow> (bytes \<Rightarrow> subMsg option) \<Rightarrow> time \<Rightarrow> rawEvent \<Rightarrow> subs \<Rightarrow> subs" where
  "onP2PTopicEvent gj decode now raw subs =
     (case extractPubsubData raw of (data, src) \<Rightarrow>
        if data = [] then subs
        else if gstring gj data ''proto_type'' \<noteq> ''mobsub'' then subs
        else (case decode data of
                None \<Rightarrow> subs
              | Some m \<Rightarrow>
                  if sm_Endpoint m = [] \<or> sm_P256dh m = [] \<or> sm_Auth m = [] then subs
                  else upsert now src m (purge now subs)))"

section \<open>Publishing to ntfy\<close>

record ntfy =
  ntfyshTopic :: string
  ntfyshServer :: string
  ntfyRetryAfter :: "time option"
  ntfyBackoff :: duration
  ntfySentOK :: nat
  ntfySentFail :: nat
  ntfySkipped :: nat

definition ntfyBackoffMin :: duration where "ntfyBackoffMin = seconds 60"
definition ntfyBackoffMax :: duration where "ntfyBackoffMax = minutes 15"

definition in_backoff :: "time \<Rightarrow> ntfy \<Rightarrow> bool" where
  "in_backoff now n \<longleftrightarrow> (case ntfyRetryAfter n of None \<Rightarrow> False | Some t \<Rightarrow> now < t)"

text \<open>The date form of the header is parsed by the HTTP library.\<close>

definition parseRetryAfter :: "(string \<Rightarrow> time option) \<Rightarrow> time \<Rightarrow> string \<Rightarrow> duration" where
  "parseRetryAfter parseTime now h0 =
     (let h = trim_space h0;
          until = (case parseTime h of Some t \<Rightarrow> if t - now > 0 then t - now else 0 | None \<Rightarrow> 0)
      in if h = [] then 0
         else case atoi h of
           Some sec \<Rightarrow> if sec > 0 then wrap64 (sec * seconds 1) else until
         | None \<Rightarrow> until)"

text \<open>The answer to a POST: an error, or the status, the header and the text. The clock is read before
  the POST and after it.\<close>

definition ntfy_failed :: "(string \<Rightarrow> time option) \<Rightarrow> time \<Rightarrow> string \<Rightarrow> ntfy \<Rightarrow> ntfy" where
  "ntfy_failed parseTime now retryAfter n =
     (let d = parseRetryAfter parseTime now retryAfter in
      if d \<le> 0
      then n\<lparr>ntfySentFail := ntfySentFail n + 1, ntfyBackoff := min (ntfyBackoff n * 2) ntfyBackoffMax,
              ntfyRetryAfter := Some (now + ntfyBackoff n)\<rparr>
      else n\<lparr>ntfySentFail := ntfySentFail n + 1, ntfyBackoff := ntfyBackoffMin,
              ntfyRetryAfter := Some (now + min d (hours 1))\<rparr>)"

definition publishNtfy ::
  "(string \<Rightarrow> time option) \<Rightarrow> time \<Rightarrow> time \<Rightarrow> error option \<Rightarrow> error + nat \<times> string \<times> string \<Rightarrow> string \<Rightarrow> ntfy \<Rightarrow>
   ntfy \<times> error option" where
  "publishNtfy parseTime now later bad_request answer body n =
     (if ntfyshTopic n = [] then (n, None)
      else if in_backoff now n then (n\<lparr>ntfySkipped := ntfySkipped n + 1\<rparr>, None)
      else if body = [] then (n, None)
      else case bad_request of
        Some e \<Rightarrow> (n\<lparr>ntfySentFail := ntfySentFail n + 1\<rparr>, Some e)
      | None \<Rightarrow>
          (case answer of
             Inl e \<Rightarrow> (n\<lparr>ntfySentFail := ntfySentFail n + 1\<rparr>, Some e)
           | Inr (status, retryAfter, respBody) \<Rightarrow>
               if status = 200
               then (n\<lparr>ntfySentOK := ntfySentOK n + 1, ntfyRetryAfter := None, ntfyBackoff := ntfyBackoffMin,
                        ntfySkipped := 0\<rparr>, None)
               else (ntfy_failed parseTime later retryAfter n,
                     Some (''ntfysh: status '' @ show_nat status @ '': '' @ respBody))))"

definition ntfy_start :: "string \<Rightarrow> string \<Rightarrow> ntfy" where
  "ntfy_start topic server =
     \<lparr>ntfyshTopic = topic, ntfyshServer = server, ntfyRetryAfter = None, ntfyBackoff = seconds 60,
      ntfySentOK = 0, ntfySentFail = 0, ntfySkipped = 0\<rparr>"

section \<open>Publishing to the subscribers\<close>

text \<open>One send per subscriber of the snapshot; the result counts the failures and keeps the first error.\<close>

fun push_all :: "(mobsubPushSub \<Rightarrow> 'w \<Rightarrow> 'w \<times> error option) \<Rightarrow> mobsubPushSub list \<Rightarrow> 'w \<times> nat \<times> error option \<Rightarrow> 'w \<times> nat \<times> error option" where
  "push_all send [] r = r"
| "push_all send (s # ss) (w, failn, firstErr) =
     (case send s w of
        (w, Some e) \<Rightarrow> push_all send ss (w, failn + 1, if firstErr = None then Some e else firstErr)
      | (w, None) \<Rightarrow> push_all send ss (w, failn, firstErr))"

definition publishMozPush ::
  "gjson \<Rightarrow> (mobsubPushSub \<Rightarrow> 'w \<Rightarrow> 'w \<times> error option) \<Rightarrow> mobsubPushSub list \<Rightarrow> bytes option \<Rightarrow> 'w \<Rightarrow> 'w \<times> error option" where
  "publishMozPush gj send snapshot data w =
     (if snapshot = [] then (w, None)
      else case data of
        None \<Rightarrow> (w, None)
      | Some d \<Rightarrow>
          if matchPubMsg gj d [''proto_type'', ''mobsub''] then (w, None)
          else (fst (push_all send snapshot (w, 0, None)), None))"

text \<open>\<open>publish\<close> of a unified message; its JSON text is an argument.\<close>

definition publishUnified ::
  "gjson \<Rightarrow> (ntfy \<Rightarrow> ntfy \<times> error option) \<Rightarrow> (mobsubPushSub \<Rightarrow> 'w \<Rightarrow> 'w \<times> error option) \<Rightarrow> mobsubPushSub list \<Rightarrow>
   bytes option \<Rightarrow> ntfy \<times> 'w \<Rightarrow> (ntfy \<times> 'w) \<times> error option" where
  "publishUnified gj ntfy_publish send snapshot data nw =
     (case nw of (n, w) \<Rightarrow>
        case data of
          None \<Rightarrow> ((n, w), Some ''publish: marshal UnifiedMessage'')
        | Some d \<Rightarrow>
            if d = [] then ((n, w), Some ''publish: empty UnifiedMessage'')
            else if matchPubMsg gj d [''proto_type'', ''mobsub''] then ((n, w), None)
            else (case ntfy_publish n of (n, _) \<Rightarrow>
                    case publishMozPush gj send snapshot data w of (w, err) \<Rightarrow> ((n, w), err)))"

section \<open>Subscribing\<close>

definition lower_hex :: "char \<Rightarrow> bool" where
  "lower_hex c \<longleftrightarrow> c \<in> set hex_digits"

text \<open>The two regular expressions of the source.\<close>

definition mobsubValidUAID :: "string \<Rightarrow> bool" where
  "mobsubValidUAID s \<longleftrightarrow>
     (let ps = split_on (CHR ''-'') s in map length ps = [8, 4, 4, 4, 12] \<and> list_all (list_all lower_hex) ps)"

definition topic_char :: "char \<Rightarrow> bool" where
  "topic_char c \<longleftrightarrow>
     (let n = (of_char c :: nat) in c = CHR ''-'' \<or> c = CHR ''_'' \<or> (65 \<le> n \<and> n \<le> 90) \<or> (97 \<le> n \<and> n \<le> 122) \<or> (48 \<le> n \<and> n \<le> 57))"

definition ntfyTopicMatch :: "string \<Rightarrow> bool" where
  "ntfyTopicMatch s \<longleftrightarrow> 1 \<le> length s \<and> length s \<le> 64 \<and> list_all topic_char s"

definition mobsubSameUAID :: "string \<Rightarrow> string \<Rightarrow> bool" where
  "mobsubSameUAID a b \<longleftrightarrow>
     to_lower (filter (\<lambda>c. c \<noteq> CHR ''-'') a) = to_lower (filter (\<lambda>c. c \<noteq> CHR ''-'') b)"

definition mobsubDefaultMozServer :: string where
  "mobsubDefaultMozServer = ''wss://push.services.mozilla.com/''"

definition mobsubWSByHost :: "string \<rightharpoonup> string" where
  "mobsubWSByHost = [
     ''updates.push.services.mozilla.com'' \<mapsto> ''wss://push.services.mozilla.com/'',
     ''updates-autopush.dev.mozaws.net'' \<mapsto> ''wss://autoconnect.dev.mozaws.net/'',
     ''updates-autopush.stage.mozaws.net'' \<mapsto> ''wss://autoconnect.stage.mozaws.net/'']"

record urlParts =
  u_Scheme :: string
  u_Host :: string
  u_Hostname :: string

definition mobsubWSServer :: "(string \<Rightarrow> urlParts option) \<Rightarrow> string \<Rightarrow> string" where
  "mobsubWSServer parse endpoint =
     (case parse endpoint of
        None \<Rightarrow> mobsubDefaultMozServer
      | Some u \<Rightarrow>
          if endpoint = [] \<or> u_Host u = [] then mobsubDefaultMozServer
          else (case mobsubWSByHost (to_lower (u_Hostname u)) of
                  Some ws \<Rightarrow> ws
                | None \<Rightarrow> (if u_Scheme u = ''https'' then ''wss'' else ''ws'') @ ''://'' @ u_Host u @ ''/''))"

record mobsubConfig =
  mc_uaid :: string
  mc_endpoint :: string
  mc_ntfyBase :: string
  mc_server :: string

definition buildMobSubConfig :: "(string \<Rightarrow> urlParts option) \<Rightarrow> string \<Rightarrow> string \<Rightarrow> string \<Rightarrow> mobsubConfig" where
  "buildMobSubConfig parse ntfyBase uaid endpoint =
     \<lparr>mc_uaid = uaid, mc_endpoint = endpoint, mc_ntfyBase = ntfyBase, mc_server = mobsubWSServer parse endpoint\<rparr>"

definition ntfy_url :: "mobsubConfig \<Rightarrow> string" where
  "ntfy_url cfg = trim_right (mc_ntfyBase cfg) ''/'' @ ''/'' @ mc_uaid cfg @ ''/json''"

text \<open>The back-off of the reconnect loop, from one attempt to the next.\<close>

definition mobsubMinBackoff :: duration where "mobsubMinBackoff = seconds 5"
definition mobsubMaxBackoff :: duration where "mobsubMaxBackoff = minutes 5"
definition mobsubStableConn :: duration where "mobsubStableConn = minutes 1"

definition sleep_of :: "duration \<Rightarrow> duration \<Rightarrow> duration" where
  "sleep_of lived backoff = (if lived \<ge> mobsubStableConn then mobsubMinBackoff else backoff)"

definition next_backoff :: "duration \<Rightarrow> duration" where
  "next_backoff backoff = (if backoff < mobsubMaxBackoff then backoff * 2 else backoff)"

fun sleeps :: "duration list \<Rightarrow> duration \<Rightarrow> duration list" where
  "sleeps [] backoff = []"
| "sleeps (lived # ls) backoff = sleep_of lived backoff # sleeps ls (next_backoff (sleep_of lived backoff))"

section \<open>Messages that ask for a send\<close>

record mobsubSendMsg =
  ms_Type :: string
  ms_ID :: string
  ms_Message :: string
  ms_TTL :: string
  ms_Visibility :: string
  ms_RelatesTo :: string
  ms_Mentions :: string
  ms_File :: string
  ms_Filename :: string

definition isSendMsg :: "gjson \<Rightarrow> bytes \<Rightarrow> bool" where
  "isSendMsg gj raw \<longleftrightarrow>
     gstring gj raw ''type'' \<noteq> [] \<and> gstring gj raw ''id'' \<noteq> [] \<and>
     (gstring gj raw ''message'' \<noteq> [] \<or> gstring gj raw ''file'' \<noteq> [])"

definition send_extra :: "mobsubSendMsg \<Rightarrow> SendExtra option" where
  "send_extra m =
     (if ms_RelatesTo m \<noteq> [] \<or> ms_Mentions m \<noteq> [] \<or> trim_space (ms_Visibility m) \<noteq> []
      then Some \<lparr>RelatesTo = splitCommaCSV (ms_RelatesTo m), Mentions = splitCommaCSV (ms_Mentions m),
                 Visibility = trim_space (ms_Visibility m)\<rparr>
      else None)"

definition after_comma :: "string \<Rightarrow> string option" where
  "after_comma s =
     (let p = takeWhile (\<lambda>c. c \<noteq> CHR '','') s
      in if length p < length s then Some (drop (length p + 1) s) else None)"

definition file_payload :: "string \<Rightarrow> error + bytes option" where
  "file_payload f =
     (if has_prefix f ''data:'' then
        (case after_comma f of
           None \<Rightarrow> Inr None
         | Some b64 \<Rightarrow>
             (case b64_decode b64 of
                None \<Rightarrow> Inl ''sendmsg file base64 decode''
              | Some b \<Rightarrow> if b = [] then Inl ''sendmsg file base64 decode: empty payload'' else Inr (Some b)))
      else Inr None)"

text \<open>The dispatch runs in a goroutine of its own; here it follows at once.\<close>

definition sendMobSubMsgParsed ::
  "(bytes \<Rightarrow> string) \<Rightarrow> (bytes \<Rightarrow> (int \<times> int) option) \<Rightarrow> 'w registry \<Rightarrow> mobsubSendMsg \<Rightarrow> 'w \<Rightarrow> 'w \<times> error option" where
  "sendMobSubMsgParsed detect config reg m w =
     (let msgOut = (if ms_Message m = [] then (if ms_Filename m \<noteq> [] then ms_Filename m else ms_File m) else ms_Message m)
      in case file_payload (ms_File m) of
           Inl e \<Rightarrow> (w, Some e)
         | Inr p \<Rightarrow>
             (let fdata = (case p of Some b \<Rightarrow> b | None \<Rightarrow> []);
                  finfo = map_option (\<lambda>b. getMediaDataInfo detect config b (ms_Filename m)) p
              in (fst (DispatchSend reg (ms_Type m) (ms_ID m) msgOut (ms_Type m) fdata finfo (send_extra m) w), None)))"

definition handleMobSubMsg ::
  "gjson \<Rightarrow> (bytes \<Rightarrow> mobsubSendMsg) \<Rightarrow> (mobsubSendMsg \<Rightarrow> 'w \<Rightarrow> 'w \<times> error option) \<Rightarrow> (bytes \<Rightarrow> 'w \<Rightarrow> 'w) \<Rightarrow> bytes \<Rightarrow> 'w \<Rightarrow> 'w" where
  "handleMobSubMsg gj parse send publishBytes msg w =
     (if isSendMsg gj msg then fst (send (parse msg) w) else publishBytes msg w)"

section \<open>The ntfy stream\<close>

record ntfyEvent =
  ne_Event :: string
  ne_Message :: bytes

definition ntfy_line :: "(bytes \<Rightarrow> ntfyEvent option) \<Rightarrow> (bytes \<Rightarrow> 'w \<Rightarrow> 'w) \<Rightarrow> bytes \<Rightarrow> 'w \<Rightarrow> 'w" where
  "ntfy_line decode handle line w =
     (if line = [] then w
      else case decode line of
        None \<Rightarrow> w
      | Some ev \<Rightarrow> if ne_Event ev = ''message'' then handle (ne_Message ev) w else w)"

definition mobsubNtfyOnce ::
  "(bytes \<Rightarrow> ntfyEvent option) \<Rightarrow> (bytes \<Rightarrow> 'w \<Rightarrow> 'w) \<Rightarrow> error + nat \<times> bytes list \<times> error option \<Rightarrow> 'w \<Rightarrow> 'w \<times> error option" where
  "mobsubNtfyOnce decode handle answer w =
     (case answer of
        Inl e \<Rightarrow> (w, Some e)
      | Inr (status, lines, scan_err) \<Rightarrow>
          if status \<noteq> 200 then (w, Some (''status '' @ show_nat status))
          else (fold (ntfy_line decode handle) lines w, scan_err))"

section \<open>The autopush connection\<close>

record mobsubState =
  mst_UAID :: string
  ECPrivate :: string
  ECPublic :: string
  AuthSecret :: string

record mozMsg =
  mm_type :: string
  mm_status :: "int option"
  mm_uaid :: string
  mm_channelID :: string
  mm_version :: string
  mm_data :: string
  mm_headers :: "(string \<times> string) list"

datatype wsOut = PingReply | Hello string | Ack string string

datatype wsIn = Frame bytes | ReadFails error

definition mobsubStatus :: "int option \<Rightarrow> int" where
  "mobsubStatus v = (case v of Some n \<Rightarrow> n | None \<Rightarrow> 0)"

text \<open>The loop over the frames that arrive; None means it still waits for the next one.\<close>

fun moz_loop ::
  "(bytes \<Rightarrow> mozMsg option) \<Rightarrow> (wsOut \<Rightarrow> 'w \<Rightarrow> 'w \<times> error option) \<Rightarrow> (mozMsg \<Rightarrow> error + bytes) \<Rightarrow> (bytes \<Rightarrow> 'w \<Rightarrow> 'w) \<Rightarrow>
   wsIn list \<Rightarrow> 'w \<Rightarrow> 'w \<times> error option" where
  "moz_loop json write decrypt handle [] w = (w, None)"
| "moz_loop json write decrypt handle (ReadFails e # fs) w = (w, Some (''read: '' @ e))"
| "moz_loop json write decrypt handle (Frame raw # fs) w =
     (if raw = bytes_of ''{}'' then
        (case write PingReply w of
           (w, Some e) \<Rightarrow> (w, Some (''write ping-reply: '' @ e))
         | (w, None) \<Rightarrow> moz_loop json write decrypt handle fs w)
      else case json raw of
        None \<Rightarrow> moz_loop json write decrypt handle fs w
      | Some msg \<Rightarrow>
          if mm_type msg = ''hello'' then
            (if mobsubStatus (mm_status msg) \<noteq> 200 then (w, Some (''hello status '' @ itoa (mobsubStatus (mm_status msg))))
             else moz_loop json write decrypt handle fs w)
          else if mm_type msg = ''notification'' then
            (let w = (if mm_data msg = [] then w else case decrypt msg of Inl e \<Rightarrow> w | Inr pt \<Rightarrow> handle pt w)
             in case write (Ack (mm_channelID msg) (mm_version msg)) w of
                  (w, Some e) \<Rightarrow> (w, Some (''write ack: '' @ e))
                | (w, None) \<Rightarrow> moz_loop json write decrypt handle fs w)
          else moz_loop json write decrypt handle fs w)"

definition mobsubMozillaOnce ::
  "(bytes \<Rightarrow> mozMsg option) \<Rightarrow> (wsOut \<Rightarrow> 'w \<Rightarrow> 'w \<times> error option) \<Rightarrow> (mozMsg \<Rightarrow> error + bytes) \<Rightarrow> (bytes \<Rightarrow> 'w \<Rightarrow> 'w) \<Rightarrow>
   mobsubState \<Rightarrow> error option \<Rightarrow> wsIn list \<Rightarrow> 'w \<Rightarrow> 'w \<times> error option" where
  "mobsubMozillaOnce json write decrypt handle st dial fs w =
     (case dial of
        Some e \<Rightarrow> (w, Some e)
      | None \<Rightarrow>
          (case write (Hello (mst_UAID st)) w of
             (w, Some e) \<Rightarrow> (w, Some e)
           | (w, None) \<Rightarrow> moz_loop json write decrypt handle fs w))"

section \<open>Decrypting a notification\<close>

text \<open>The primitives of the crypto packages: the private keys, the agreement, the key derivation of 16,
  12 and 32 bytes, and the authenticated cipher.\<close>

record crypto =
  ec_scalar :: "bytes \<Rightarrow> bool"
  ec_public :: "bytes \<Rightarrow> bytes"
  ec_point :: "bytes \<Rightarrow> bool"
  ec_dh :: "bytes \<Rightarrow> bytes \<Rightarrow> bytes option"
  hkdf_key :: "bytes \<Rightarrow> bytes \<Rightarrow> bytes \<Rightarrow> nat \<Rightarrow> bytes option"
  gcm_open :: "bytes \<Rightarrow> bytes \<Rightarrow> bytes \<Rightarrow> bytes option"

definition info_prefix :: bytes where "info_prefix = bytes_of ''WebPush: info'' @ [0]"
definition cek_info :: bytes where "cek_info = bytes_of ''Content-Encoding: aes128gcm'' @ [0]"
definition nonce_info :: bytes where "nonce_info = bytes_of ''Content-Encoding: nonce'' @ [0]"

definition unpad :: "bytes \<Rightarrow> bytes" where
  "unpad pt = (let t = rev (dropWhile (\<lambda>b. b = 0) (rev pt)) in if t \<noteq> [] \<and> last t = 2 then butlast t else pt)"

fun bad_encoding :: "(string \<times> string) list \<Rightarrow> error option" where
  "bad_encoding [] = None"
| "bad_encoding ((k, v) # hs) =
     (if to_lower k = ''content-encoding'' \<and> v \<noteq> [] \<and> v \<noteq> ''aes128gcm'' then Some (''unsupported content-encoding '' @ v)
      else bad_encoding hs)"

definition derive_open :: "crypto \<Rightarrow> bytes \<Rightarrow> bytes \<Rightarrow> bytes \<Rightarrow> bytes \<Rightarrow> bytes \<Rightarrow> bytes \<Rightarrow> error + bytes" where
  "derive_open cr priv secret authSecret salt keyid ct =
     (case hkdf_key cr secret authSecret (info_prefix @ ec_public cr priv @ keyid) 32 of
        None \<Rightarrow> Inl ''hkdf''
      | Some ikm \<Rightarrow>
          (case (hkdf_key cr ikm salt cek_info 16, hkdf_key cr ikm salt nonce_info 12) of
             (Some cek, Some nonce) \<Rightarrow>
               (case gcm_open cr cek nonce ct of None \<Rightarrow> Inl ''aead'' | Some pt \<Rightarrow> Inr (unpad pt))
           | _ \<Rightarrow> Inl ''hkdf''))"

definition decryptMozillaWebPush :: "crypto \<Rightarrow> string \<Rightarrow> (string \<times> string) list \<Rightarrow> mobsubState \<Rightarrow> error + bytes" where
  "decryptMozillaWebPush cr dataB64 headers st =
     (case bad_encoding headers of
        Some e \<Rightarrow> Inl e
      | None \<Rightarrow>
          (case b64url_decode (trim_right dataB64 ''='') of
             None \<Rightarrow> Inl ''base64''
           | Some body \<Rightarrow>
               if length body < 21 then Inl (''body too short ('' @ show_nat (length body) @ '')'')
               else
                 (let salt = take 16 body; idlen = unat (body ! 20)
                  in if length body < 21 + idlen then Inl ''body too short for keyid''
                     else
                       (let keyid = take idlen (drop 21 body); ct = drop (21 + idlen) body
                        in case b64url_decode (ECPrivate st) of
                             None \<Rightarrow> Inl ''private key''
                           | Some priv \<Rightarrow>
                               if \<not> ec_scalar cr priv then Inl ''private key''
                               else if \<not> ec_point cr keyid then Inl ''server pubkey''
                               else (case ec_dh cr priv keyid of
                                       None \<Rightarrow> Inl ''ecdh''
                                     | Some secret \<Rightarrow>
                                         (case b64url_decode (AuthSecret st) of
                                            None \<Rightarrow> Inl ''auth''
                                          | Some authSecret \<Rightarrow> derive_open cr priv secret authSecret salt keyid ct))))))"

definition mobsubKDFSalt :: bytes where "mobsubKDFSalt = bytes_of ''fedlet/mobsub/v1''"

text \<open>The loop of \<open>deriveMobSubState\<close>: the first of a thousand candidates that is a private key.\<close>

fun derive_priv :: "crypto \<Rightarrow> bytes \<Rightarrow> nat \<Rightarrow> nat \<Rightarrow> error + bytes" where
  "derive_priv cr secret i 0 = Inl ''derive p256dh: no valid scalar''"
| "derive_priv cr secret i (Suc n) =
     (case hkdf_key cr secret mobsubKDFSalt (bytes_of (''p256dh/'' @ show_nat i)) 32 of
        None \<Rightarrow> Inl ''hkdf''
      | Some raw \<Rightarrow> if ec_scalar cr raw then Inr raw else derive_priv cr secret (Suc i) n)"

definition deriveMobSubState :: "crypto \<Rightarrow> string \<Rightarrow> error + mobsubState" where
  "deriveMobSubState cr uaid =
     (case derive_priv cr (bytes_of uaid) 0 1000 of
        Inl e \<Rightarrow> Inl e
      | Inr priv \<Rightarrow>
          (case hkdf_key cr (bytes_of uaid) mobsubKDFSalt (bytes_of ''auth'') 16 of
             None \<Rightarrow> Inl ''hkdf''
           | Some auth \<Rightarrow>
               Inr \<lparr>mst_UAID = uaid, ECPrivate = b64url_encode priv, ECPublic = b64url_encode (ec_public cr priv),
                    AuthSecret = b64url_encode auth\<rparr>))"

section \<open>Properties of the registry\<close>

text \<open>The registry after a sequence of events at times that do not go back.\<close>

inductive registry_at :: "gjson \<Rightarrow> (bytes \<Rightarrow> subMsg option) \<Rightarrow> time \<Rightarrow> subs \<Rightarrow> bool" for gj decode where
  start: "registry_at gj decode t Map.empty"
| event: "registry_at gj decode t m \<Longrightarrow> t \<le> now \<Longrightarrow> registry_at gj decode now (onP2PTopicEvent gj decode now raw m)"

definition sub_ok :: "time \<Rightarrow> string \<Rightarrow> mobsubPushSub \<Rightarrow> bool" where
  "sub_ok now k e \<longleftrightarrow> sub_Auth e = k \<and> k \<noteq> [] \<and> sub_Endpoint e \<noteq> [] \<and> sub_P256dh e \<noteq> [] \<and>
     FirstSeen e \<le> LastSeen e \<and> LastSeen e \<le> now"

lemma sub_ok_later: "sub_ok t k e \<Longrightarrow> t \<le> now \<Longrightarrow> sub_ok now k e"
  by (auto simp: sub_ok_def)

lemma purge_Some: "purge now m k = Some e \<longleftrightarrow> m k = Some e \<and> now - mobsubRegistryTTL \<le> LastSeen e"
  by (auto simp: purge_def split: option.splits)

lemma upsert_ok:
  assumes "\<And>k e. m k = Some e \<Longrightarrow> sub_ok now k e" "sm_Endpoint x \<noteq> []" "sm_P256dh x \<noteq> []" "sm_Auth x \<noteq> []"
    "upsert now src x m k = Some e"
  shows "sub_ok now k e"
proof (cases "k = sm_Auth x")
  case False
  then show ?thesis using assms by (simp add: upsert_def)
next
  case True
  then show ?thesis
    using assms(1)[of k] assms(2-5) by (cases "m (sm_Auth x)") (auto simp: upsert_def sub_ok_def)
qed

lemma event_cases:
  obtains (ignored) "onP2PTopicEvent gj decode now raw m = m"
  | (taken) x src where "onP2PTopicEvent gj decode now raw m = upsert now src x (purge now m)"
      "sm_Endpoint x \<noteq> []" "sm_P256dh x \<noteq> []" "sm_Auth x \<noteq> []"
      "decode (fst (extractPubsubData raw)) = Some x" "src = snd (extractPubsubData raw)"
      "gstring gj (fst (extractPubsubData raw)) ''proto_type'' = ''mobsub''"
proof (cases "extractPubsubData raw")
  case (Pair d src)
  show thesis
  proof (cases "d = [] \<or> gstring gj d ''proto_type'' \<noteq> ''mobsub'' \<or> decode d = None")
    case True
    then show thesis using ignored Pair by (auto simp: onP2PTopicEvent_def)
  next
    case False
    then obtain x where x: "decode d = Some x" by auto
    show thesis
    proof (cases "sm_Endpoint x = [] \<or> sm_P256dh x = [] \<or> sm_Auth x = []")
      case True
      then show thesis using ignored Pair x by (auto simp: onP2PTopicEvent_def)
    next
      case sm: False
      then have "onP2PTopicEvent gj decode now raw m = upsert now src x (purge now m)"
        using Pair x False by (simp add: onP2PTopicEvent_def)
      then show thesis by (rule taken) (use sm Pair x False in simp_all)
    qed
  qed
qed

text \<open>C15: The registry is keyed by the auth secret, holds only complete subscriptions, and never one seen
  after the present or first seen after it was last seen. An event either changes nothing or
  is an accepted subscription: then everything not seen for 72 hours is gone, the entry of the
  message carries its endpoint and key and the present, its first time is that of a live
  predecessor, and every other live entry stays as it was.\<close>

theorem registry_invariant:
  fixes raw :: rawEvent
  assumes "registry_at gj decode t m" "t \<le> now"
  defines "m' \<equiv> onP2PTopicEvent gj decode now raw m"
  shows "(\<forall>k e. m k = Some e \<longrightarrow> sub_ok t k e) \<and>
     (m' = m \<or>
       (\<exists>x e. decode (fst (extractPubsubData raw)) = Some x \<and> m' (sm_Auth x) = Some e \<and>
          sub_Endpoint e = sm_Endpoint x \<and> sub_P256dh e = sm_P256dh x \<and> LastSeen e = now \<and>
          FirstSeen e = (case purge now m (sm_Auth x) of Some old \<Rightarrow> FirstSeen old | None \<Rightarrow> now) \<and>
          (\<forall>k. k \<noteq> sm_Auth x \<longrightarrow> m' k = purge now m k) \<and>
          (\<forall>k e. m' k = Some e \<longrightarrow> now - mobsubRegistryTTL \<le> LastSeen e)))"
proof
  show "\<forall>k e. m k = Some e \<longrightarrow> sub_ok t k e"
    using assms(1)
  proof (induction rule: registry_at.induct)
    case (event t m now raw)
    then have old: "m k = Some e \<Longrightarrow> sub_ok now k e" for k e using sub_ok_later by blast
    have "onP2PTopicEvent gj decode now raw m k = Some e \<Longrightarrow> sub_ok now k e" for k e
    proof (cases rule: event_cases[of gj decode now raw m])
      case ignored
      then show "onP2PTopicEvent gj decode now raw m k = Some e \<Longrightarrow> sub_ok now k e" using old by simp
    next
      case (taken x src)
      have "purge now m k = Some e \<Longrightarrow> sub_ok now k e" for k e using old by (simp add: purge_Some)
      from upsert_ok[OF this taken(2-4)] taken(1)
      show "onP2PTopicEvent gj decode now raw m k = Some e \<Longrightarrow> sub_ok now k e" by simp
    qed
    then show ?case by blast
  qed simp
  have ttl: "0 \<le> mobsubRegistryTTL" by (simp add: mobsubRegistryTTL_def hours_def)
  show "m' = m \<or> (\<exists>x e. decode (fst (extractPubsubData raw)) = Some x \<and> m' (sm_Auth x) = Some e \<and>
          sub_Endpoint e = sm_Endpoint x \<and> sub_P256dh e = sm_P256dh x \<and> LastSeen e = now \<and>
          FirstSeen e = (case purge now m (sm_Auth x) of Some old \<Rightarrow> FirstSeen old | None \<Rightarrow> now) \<and>
          (\<forall>k. k \<noteq> sm_Auth x \<longrightarrow> m' k = purge now m k) \<and>
          (\<forall>k e. m' k = Some e \<longrightarrow> now - mobsubRegistryTTL \<le> LastSeen e))"
  proof (cases rule: event_cases[of gj decode now raw m])
    case ignored
    then show ?thesis by (simp add: m'_def)
  next
    case (taken x src)
    have m': "m' = upsert now src x (purge now m)" by (simp add: m'_def taken(1))
    obtain e where e: "m' (sm_Auth x) = Some e" "sub_Endpoint e = sm_Endpoint x" "sub_P256dh e = sm_P256dh x" "LastSeen e = now"
        "FirstSeen e = (case purge now m (sm_Auth x) of Some old \<Rightarrow> FirstSeen old | None \<Rightarrow> now)"
      unfolding m' by (cases "purge now m (sm_Auth x)") (auto simp: upsert_def)
    have other: "k \<noteq> sm_Auth x \<Longrightarrow> m' k = purge now m k" for k by (simp add: m' upsert_def)
    have "m' k = Some d \<Longrightarrow> now - mobsubRegistryTTL \<le> LastSeen d" for k d
      using e(1,4) other[of k] ttl by (cases "k = sm_Auth x") (auto simp: purge_Some)
    then show ?thesis using e other taken(5) by blast
  qed
qed

definition gj0 :: gjson where
  "gj0 d k = (if k = ''proto_type'' then Some ''mobsub'' else None)"

definition dec0 :: "bytes \<Rightarrow> subMsg option" where
  "dec0 d = Some \<lparr>sm_Endpoint = ''e'', sm_P256dh = ''p'', sm_Auth = string_of d, sm_UAID = []\<rparr>"

theorem registry_invariant_witness:
  "\<exists>e. onP2PTopicEvent gj0 dec0 5 (MessageVal [97] ''peer'') Map.empty ''a'' = Some e \<and> LastSeen e = 5 \<and> FirstSeen e = 5"
proof -
  let ?r = "MessageVal [97] ''peer''"
  have a: "string_of [97] = ''a''" by (simp add: string_of_def char_of_byte_def char_of_def bit_0) 
  have ne: "onP2PTopicEvent gj0 dec0 5 ?r Map.empty \<noteq> Map.empty"
  proof -
    have "onP2PTopicEvent gj0 dec0 5 ?r Map.empty ''a'' \<noteq> None"
      by (simp add: onP2PTopicEvent_def gstring_def gj0_def dec0_def upsert_def purge_def a)
    then show ?thesis by auto
  qed
  show ?thesis
    using registry_invariant[OF registry_at.start[of gj0 dec0 0], of 5 ?r] ne
    by (auto simp: dec0_def a purge_def)
qed

section \<open>Decryption\<close>

text \<open>The sender of a notification (RFC 8291): the receiver's public key and auth secret, an ephemeral
  key, a salt, a record size and a length of padding.\<close>

definition webpush_seal ::
  "crypto \<Rightarrow> (bytes \<Rightarrow> bytes \<Rightarrow> bytes \<Rightarrow> bytes) \<Rightarrow> string \<Rightarrow> string \<Rightarrow> bytes \<Rightarrow> bytes \<Rightarrow> bytes \<Rightarrow> bytes \<Rightarrow> nat \<Rightarrow> string option" where
  "webpush_seal cr seal p256dh auth eph salt rs msg pad =
     (case (b64url_decode p256dh, b64url_decode auth) of
        (Some pub, Some au) \<Rightarrow>
          (case ec_dh cr eph pub of
             None \<Rightarrow> None
           | Some secret \<Rightarrow>
               (case hkdf_key cr secret au (info_prefix @ pub @ ec_public cr eph) 32 of
                  None \<Rightarrow> None
                | Some ikm \<Rightarrow>
                    (case (hkdf_key cr ikm salt cek_info 16, hkdf_key cr ikm salt nonce_info 12) of
                       (Some cek, Some nonce) \<Rightarrow>
                         Some (b64url_encode (salt @ rs @ [word_of_nat (length (ec_public cr eph))] @ ec_public cr eph @
                           seal cek nonce (msg @ [2] @ replicate pad 0)))
                     | _ \<Rightarrow> None)))
      | _ \<Rightarrow> None)"

lemma unpad_padded: "unpad (msg @ [2] @ replicate n 0) = msg"
proof -
  have "dropWhile (\<lambda>b. b = 0) (replicate n 0 @ [2] @ rev msg) = [2] @ rev msg"
    by (induction n) auto
  then show ?thesis by (simp add: unpad_def)
qed

lemma derive_priv_scalar: "derive_priv cr secret i n = Inr p \<Longrightarrow> ec_scalar cr p"
  by (induction n arbitrary: i) (auto split: option.splits if_splits)

lemma url_encode_no_pad: "trim_right (b64url_encode bs) ''='' = b64url_encode bs"
proof -
  have "CHR ''='' \<notin> set (b64url_encode bs)"
    using b64_encode_chars std_char_url by (fastforce simp: b64url_encode_def)
  then have "dropWhile (\<lambda>c. c \<in> set ''='') (rev (b64url_encode bs)) = rev (b64url_encode bs)"
    by (intro dropWhile_eq_self_iff[THEN iffD2]) (metis empty_iff empty_set hd_in_set set_ConsD set_rev)
  then show ?thesis by (simp add: trim_right_def)
qed

text \<open>C16: What a sender seals for this node's published keys, whatever the salt, the ephemeral key and the
  padding, is decrypted to the message, provided the cipher opens what it seals and the two
  sides of a key agreement agree. The keys are those derived from the uaid, so they are the
  same after every restart.\<close>

theorem decrypt_sealed:
  assumes "deriveMobSubState cr uaid = Inr st"
    "webpush_seal cr seal (ECPublic st) (AuthSecret st) eph salt rs msg pad = Some data"
    "\<And>k n p. gcm_open cr k n (seal k n p) = Some p"
    "\<And>a b. ec_scalar cr a \<Longrightarrow> ec_scalar cr b \<Longrightarrow> ec_dh cr a (ec_public cr b) = ec_dh cr b (ec_public cr a)"
    "\<And>a. ec_scalar cr a \<Longrightarrow> ec_point cr (ec_public cr a)"
    "ec_scalar cr eph" "length (ec_public cr eph) < 256" "length salt = 16" "length rs = 4"
    "bad_encoding headers = None"
  shows "decryptMozillaWebPush cr data headers st = Inr msg"
proof -
  let ?k = "ec_public cr eph"
  obtain priv auth where st: "ec_scalar cr priv" "ECPrivate st = b64url_encode priv"
      "ECPublic st = b64url_encode (ec_public cr priv)" "AuthSecret st = b64url_encode auth"
    using assms(1) derive_priv_scalar
    by (fastforce simp: deriveMobSubState_def split: sum.splits option.splits)
  obtain secret ikm cek nonce where k: "ec_dh cr eph (ec_public cr priv) = Some secret"
      "hkdf_key cr secret auth (info_prefix @ ec_public cr priv @ ?k) 32 = Some ikm"
      "hkdf_key cr ikm salt cek_info 16 = Some cek" "hkdf_key cr ikm salt nonce_info 12 = Some nonce"
      and data: "data = b64url_encode (salt @ rs @ [word_of_nat (length ?k)] @ ?k @ seal cek nonce (msg @ [2] @ replicate pad 0))"
    using assms(2) unfolding webpush_seal_def st(3,4) by (auto split: option.splits)
  define ct where "ct = seal cek nonce (msg @ [2] @ replicate pad 0)"
  define body where "body = salt @ rs @ [word_of_nat (length ?k)] @ ?k @ ct"
  have dec: "b64url_decode (trim_right data ''='') = Some body"
    unfolding data ct_def[symmetric] body_def[symmetric] url_encode_no_pad by simp
  have idx: "body ! 20 = word_of_nat (length ?k)" using assms(8,9) by (simp add: body_def nth_append)
  have id: "unat (body ! 20) = length ?k" unfolding idx using assms(7) by (simp add: unat_of_nat)
  have len: "\<not> length body < 21" "\<not> length body < 21 + length ?k" using assms(8,9) by (simp_all add: body_def)
  have parts: "take 16 body = salt" "take (length ?k) (drop 21 body) = ?k" "drop (21 + length ?k) body = ct"
    using assms(8,9) by (simp_all add: body_def)
  have dh: "ec_dh cr priv ?k = Some secret" using assms(4)[OF st(1) assms(6)] k(1) by simp
  have opened: "derive_open cr priv secret auth salt ?k ct = Inr msg"
    unfolding derive_open_def using k assms(3) unpad_padded by (simp add: ct_def)
  show ?thesis
    unfolding decryptMozillaWebPush_def assms(10) option.case dec Let_def id parts
    using len st dh opened assms(5)[OF assms(6)] by simp
qed

text \<open>A toy instance of the primitives, for the witness: sums for the group, a cipher that prepends the
  nonce.\<close>

definition toy :: crypto where
  "toy = \<lparr>ec_scalar = (\<lambda>a. length a = 1), ec_public = (\<lambda>a. a), ec_point = (\<lambda>a. True),
     ec_dh = (\<lambda>a b. Some [hd a + hd b]), hkdf_key = (\<lambda>s a i n. Some [hd s]), gcm_open = (\<lambda>k n c. Some (drop (length n) c))\<rparr>"

theorem decrypt_sealed_witness:
  "\<exists>st data. deriveMobSubState toy ''u'' = Inr st \<and>
     webpush_seal toy (\<lambda>k n p. n @ p) (ECPublic st) (AuthSecret st) [9] (replicate 16 7) [0, 0, 16, 0] [104, 105] 3 = Some data \<and>
     decryptMozillaWebPush toy data [] st = Inr [104, 105]"
proof -
  have "n > 0 \<Longrightarrow> derive_priv toy (bytes_of ''u'') 0 n = Inr [hd (bytes_of ''u'')]" for n
    by (cases n) (simp_all add: toy_def)
  from this[of 1000] have "derive_priv toy (bytes_of ''u'') 0 1000 = Inr [hd (bytes_of ''u'')]" by simp
  then obtain st where st: "deriveMobSubState toy ''u'' = Inr st" "ECPublic st = b64url_encode [hd (bytes_of ''u'')]"
      "\<exists>a. AuthSecret st = b64url_encode a"
    by (auto simp: deriveMobSubState_def toy_def)
  then obtain data where d: "webpush_seal toy (\<lambda>k n p. n @ p) (ECPublic st) (AuthSecret st) [9] (replicate 16 7) [0, 0, 16, 0] [104, 105] 3 = Some data"
    by (auto simp: webpush_seal_def toy_def)
  have "decryptMozillaWebPush toy data [] st = Inr [104, 105]"
    by (rule decrypt_sealed[OF st(1) d]) (auto simp: toy_def add.commute)
  then show ?thesis using st(1) d by blast
qed

section \<open>The autopush loop\<close>

text \<open>A connection that records what is written and what is handled.\<close>

definition log_write :: "wsOut \<Rightarrow> bytes list \<times> wsOut list \<Rightarrow> (bytes list \<times> wsOut list) \<times> error option" where
  "log_write x w = ((fst w, snd w @ [x]), None)"

definition log_handle :: "bytes \<Rightarrow> bytes list \<times> wsOut list \<Rightarrow> bytes list \<times> wsOut list" where
  "log_handle m w = (fst w @ [m], snd w)"

fun ends :: "(bytes \<Rightarrow> mozMsg option) \<Rightarrow> wsIn \<Rightarrow> bool" where
  "ends json (ReadFails e) = True"
| "ends json (Frame raw) =
     (raw \<noteq> bytes_of ''{}'' \<and> (case json raw of None \<Rightarrow> False
        | Some m \<Rightarrow> mm_type m = ''hello'' \<and> mobsubStatus (mm_status m) \<noteq> 200))"

definition notification :: "(bytes \<Rightarrow> mozMsg option) \<Rightarrow> wsIn \<Rightarrow> mozMsg option" where
  "notification json f =
     (case f of ReadFails e \<Rightarrow> None
      | Frame raw \<Rightarrow> if raw = bytes_of ''{}'' then None
          else (case json raw of None \<Rightarrow> None | Some m \<Rightarrow> if mm_type m = ''notification'' then Some m else None))"

definition answer_to :: "(bytes \<Rightarrow> mozMsg option) \<Rightarrow> wsIn \<Rightarrow> wsOut list" where
  "answer_to json f =
     (if f = Frame (bytes_of ''{}'') then [PingReply]
      else case notification json f of None \<Rightarrow> [] | Some m \<Rightarrow> [Ack (mm_channelID m) (mm_version m)])"

definition delivery :: "(bytes \<Rightarrow> mozMsg option) \<Rightarrow> (mozMsg \<Rightarrow> error + bytes) \<Rightarrow> wsIn \<Rightarrow> bytes list" where
  "delivery json decrypt f =
     (case notification json f of None \<Rightarrow> []
      | Some m \<Rightarrow> if mm_data m = [] then [] else (case decrypt m of Inl e \<Rightarrow> [] | Inr pt \<Rightarrow> [pt]))"

lemma moz_step:
  assumes "\<not> ends json f"
  shows "moz_loop json log_write decrypt log_handle (f # fs) (handled, sent) =
     moz_loop json log_write decrypt log_handle fs (handled @ delivery json decrypt f, sent @ answer_to json f)"
proof (cases f)
  case (ReadFails e)
  then show ?thesis using assms by simp
next
  case (Frame raw)
  show ?thesis
  proof (cases "raw = bytes_of ''{}'' \<or> json raw = None")
    case True
    then show ?thesis using Frame
      by (cases "raw = bytes_of ''{}''") (simp_all add: log_write_def answer_to_def delivery_def notification_def)
  next
    case False
    then obtain m where m: "raw \<noteq> bytes_of ''{}''" "json raw = Some m" by auto
    show ?thesis
    proof (cases "mm_type m = ''notification''")
      case True
      have n: "notification json f = Some m" using Frame m True by (simp add: notification_def)
      have "f \<noteq> Frame (bytes_of ''{}'')" using Frame m by simp
      then have a: "answer_to json f = [Ack (mm_channelID m) (mm_version m)]" using n by (simp add: answer_to_def)
      have d: "delivery json decrypt f = (if mm_data m = [] then [] else (case decrypt m of Inl e \<Rightarrow> [] | Inr pt \<Rightarrow> [pt]))"
        using n by (simp add: delivery_def)
      show ?thesis unfolding a d using Frame m True
        by (cases "decrypt m") (simp_all add: log_write_def log_handle_def Let_def)
    next
      case False
      then have n: "notification json f = None" using Frame m by (simp add: notification_def)
      then have "answer_to json f = []" "delivery json decrypt f = []"
        using Frame m by (simp_all add: answer_to_def delivery_def)
      then show ?thesis using Frame m False assms by (auto simp: Let_def)
    qed
  qed
qed

lemma moz_end: "ends json f \<Longrightarrow> moz_loop json write decrypt handle (f # fs) w = (w, snd (moz_loop json write decrypt handle (f # fs) w)) \<and>
    snd (moz_loop json write decrypt handle (f # fs) w) \<noteq> None"
  by (cases f) (auto split: option.splits)

text \<open>While a connection lasts, every ping is answered and every notification is acknowledged, once and
  in the order of arrival; those that decrypt are handed on in that order, and those that do
  not are acknowledged all the same, so the server will not send them again.\<close>

theorem notifications_acknowledged:
  "fst (moz_loop json log_write decrypt log_handle fs (handled, sent)) =
     (handled @ concat (map (delivery json decrypt) (takeWhile (\<lambda>f. \<not> ends json f) fs)),
      sent @ concat (map (answer_to json) (takeWhile (\<lambda>f. \<not> ends json f) fs))) \<and>
   (snd (moz_loop json log_write decrypt log_handle fs (handled, sent)) = None \<longleftrightarrow> list_all (\<lambda>f. \<not> ends json f) fs)"
proof (induction fs arbitrary: handled sent)
  case (Cons f fs)
  show ?case
  proof (cases "ends json f")
    case True
    then show ?thesis using moz_end[OF True, of log_write decrypt log_handle fs "(handled, sent)"] by (simp, metis fst_conv)
  next
    case False
    then show ?thesis unfolding moz_step[OF False] using Cons[of "handled @ delivery json decrypt f" "sent @ answer_to json f"] by simp
  qed
qed simp

section \<open>Back-off\<close>

inductive ntfy_at :: "(string \<Rightarrow> time option) \<Rightarrow> string \<Rightarrow> string \<Rightarrow> time \<Rightarrow> ntfy \<Rightarrow> bool" for parse topic server where
  start: "ntfy_at parse topic server t (ntfy_start topic server)"
| publish: "ntfy_at parse topic server t n \<Longrightarrow> t \<le> now \<Longrightarrow> now \<le> later \<Longrightarrow>
    ntfy_at parse topic server later (fst (publishNtfy parse now later bad answer body n))"

definition ntfy_ok :: "time \<Rightarrow> ntfy \<Rightarrow> bool" where
  "ntfy_ok t n \<longleftrightarrow> ntfyBackoffMin \<le> ntfyBackoff n \<and> ntfyBackoff n \<le> ntfyBackoffMax \<and>
     (\<forall>u. ntfyRetryAfter n = Some u \<longrightarrow> u \<le> t + hours 1)"

lemma backoff_consts: "ntfyBackoffMin = 60000000000" "ntfyBackoffMax = 900000000000" "hours 1 = 3600000000000" "seconds 60 = 60000000000"
  by (simp_all add: ntfyBackoffMin_def ntfyBackoffMax_def hours_def seconds_def minutes_def)

lemma ntfy_failed_ok:
  assumes "ntfy_ok t n"
  shows "ntfy_ok later (ntfy_failed parse later h n) \<and>
     (\<exists>u. ntfyRetryAfter (ntfy_failed parse later h n) = Some u \<and> later < u)"
  using assms by (auto simp: ntfy_failed_def ntfy_ok_def backoff_consts Let_def)

lemma ntfy_ok_later: "ntfy_ok t n \<Longrightarrow> t \<le> u \<Longrightarrow> ntfy_ok u n"
  by (fastforce simp: ntfy_ok_def)

lemma ntfy_publish_ok:
  assumes "ntfy_ok t n" "t \<le> now" "now \<le> later"
  shows "ntfy_ok later (fst (publishNtfy parse now later bad answer body n))"
proof -
  have l: "ntfy_ok later n" using ntfy_ok_later[OF assms(1)] assms(2,3) by simp
  have f: "ntfy_ok later (ntfy_failed parse later h n)" for h using ntfy_failed_ok[OF l] by blast
  have b: "60000000000 \<le> ntfyBackoff n" "ntfyBackoff n \<le> 900000000000"
    using l by (simp_all add: ntfy_ok_def backoff_consts)
  show ?thesis
    using l f by (auto simp: publishNtfy_def ntfy_ok_def backoff_consts split: option.splits sum.splits)
qed

text \<open>In every history of publishing, whatever the server answers, the default back-off stays between
  a minute and a quarter of an hour and a pause never extends more than an hour beyond the
  present, even when the header's number of seconds overflows. An answer other than 200 always
  opens a pause, in which a publish is counted as skipped and otherwise dropped.\<close>

theorem ntfy_backoff_bounds:
  assumes "ntfy_at parse topic server t n"
  shows "ntfyBackoffMin \<le> ntfyBackoff n \<and> ntfyBackoff n \<le> ntfyBackoffMax \<and>
     (\<forall>u. ntfyRetryAfter n = Some u \<longrightarrow> u \<le> t + hours 1) \<and>
     (\<forall>now later status h reply body n' e. topic \<noteq> [] \<and> body \<noteq> [] \<and> t \<le> now \<and> now \<le> later \<and> \<not> in_backoff now n \<and> status \<noteq> 200 \<and>
        publishNtfy parse now later None (Inr (status, h, reply)) body n = (n', e) \<longrightarrow>
        e \<noteq> None \<and> in_backoff later n' \<and>
        (\<forall>u later' bad a b. in_backoff u n' \<longrightarrow>
           publishNtfy parse u later' bad a b n' = (n'\<lparr>ntfySkipped := ntfySkipped n' + 1\<rparr>, None)))"
proof -
  have ok: "ntfy_ok t n \<and> ntfyshTopic n = topic"
    using assms
  proof (induction rule: ntfy_at.induct)
    case (start t)
    then show ?case by (simp add: ntfy_ok_def ntfy_start_def backoff_consts)
  next
    case (publish t n now later bad answer body)
    then have "ntfyshTopic (fst (publishNtfy parse now later bad answer body n)) = topic"
      by (auto simp: publishNtfy_def ntfy_failed_def Let_def split: option.splits sum.splits)
    then show ?case using ntfy_publish_ok publish by blast
  qed
  have fails: "e \<noteq> None \<and> in_backoff later n' \<and>
        (\<forall>u later' bad a b. in_backoff u n' \<longrightarrow>
           publishNtfy parse u later' bad a b n' = (n'\<lparr>ntfySkipped := ntfySkipped n' + 1\<rparr>, None))"
    if h: "topic \<noteq> []" "body \<noteq> []" "\<not> in_backoff now n" "status \<noteq> 200"
      "publishNtfy parse now later None (Inr (status, h, reply)) body n = (n', e)" for now later status h reply body n' e
  proof -
    have n': "n' = ntfy_failed parse later h n" "e \<noteq> None"
      using h ok by (auto simp: publishNtfy_def)
    obtain u where "ntfyRetryAfter n' = Some u" "later < u" using ntfy_failed_ok[of t n] ok n'(1) by blast
    moreover have "ntfyshTopic n' \<noteq> []" using n'(1) ok h(1) by (auto simp: ntfy_failed_def Let_def)
    ultimately show ?thesis using n'(2) by (auto simp: in_backoff_def publishNtfy_def)
  qed
  have b: "ntfyBackoffMin \<le> ntfyBackoff n" "ntfyBackoff n \<le> ntfyBackoffMax" "\<forall>u. ntfyRetryAfter n = Some u \<longrightarrow> u \<le> t + hours 1"
    using ok by (simp_all add: ntfy_ok_def)
  show ?thesis by (intro conjI b) (intro allI impI, elim conjE, rule fails, assumption+)
qed

theorem ntfy_backoff_bounds_witness:
  "ntfyBackoff (fst (publishNtfy (\<lambda>_. None) 0 1 None (Inr (429, [], [])) ''x'' (ntfy_start ''t'' ''s''))) = seconds 120 \<and>
   ntfyBackoff (fst (publishNtfy (\<lambda>_. None) 0 1 None (Inr (429, [], [])) ''x'' (ntfy_start ''t'' ''s''))) \<le> ntfyBackoffMax"
proof -
  have r: "ntfy_at (\<lambda>_. None) ''t'' ''s'' 1 (fst (publishNtfy (\<lambda>_. None) 0 1 None (Inr (429, [], [])) ''x'' (ntfy_start ''t'' ''s'')))"
    by (rule ntfy_at.publish[OF ntfy_at.start[of _ _ _ 0]]) simp_all
  have "ntfyBackoff (fst (publishNtfy (\<lambda>_. None) 0 1 None (Inr (429, [], [])) ''x'' (ntfy_start ''t'' ''s''))) = seconds 120"
    by (simp add: publishNtfy_def ntfy_start_def in_backoff_def ntfy_failed_def parseRetryAfter_def seconds_def ntfyBackoffMax_def minutes_def)
  then show ?thesis using ntfy_backoff_bounds[OF r, THEN conjunct2, THEN conjunct1] by simp
qed

text \<open>The pauses of the reconnect loop.\<close>

definition pauses :: "duration set" where
  "pauses = {seconds 5, seconds 10, seconds 20, seconds 40, seconds 80, seconds 160, seconds 320}"

lemma sleeps_pauses: "b \<in> pauses \<Longrightarrow> set (sleeps ls b) \<subseteq> pauses"
proof (induction ls arbitrary: b)
  case (Cons l ls)
  have s: "sleep_of l b \<in> pauses" using Cons.prems by (auto simp: sleep_of_def mobsubMinBackoff_def pauses_def)
  then have "next_backoff (sleep_of l b) \<in> pauses"
    by (auto simp: next_backoff_def mobsubMaxBackoff_def pauses_def seconds_def minutes_def)
  then show ?case using Cons.IH s by simp
qed simp

text \<open>The pause between two connections to autopush is at least five seconds and at most 320: after seven
  connections that did not last a minute it is 320 seconds, more than the five minutes that the
  source names as the maximum.\<close>

theorem reconnect_pauses:
  "(\<forall>d\<in>set (sleeps ls mobsubMinBackoff). seconds 5 \<le> d \<and> d \<le> seconds 320) \<and>
   last (sleeps (replicate 7 0) mobsubMinBackoff) = seconds 320 \<and> mobsubMaxBackoff < seconds 320"
proof (intro conjI)
  have "mobsubMinBackoff \<in> pauses" by (simp add: pauses_def mobsubMinBackoff_def)
  then have "set (sleeps ls mobsubMinBackoff) \<subseteq> pauses" by (rule sleeps_pauses)
  then show "\<forall>d\<in>set (sleeps ls mobsubMinBackoff). seconds 5 \<le> d \<and> d \<le> seconds 320"
    by (auto simp: pauses_def seconds_def)
  show "last (sleeps (replicate 7 0) mobsubMinBackoff) = seconds 320"
    by (simp add: numeral_eq_Suc sleep_of_def next_backoff_def mobsubStableConn_def mobsubMinBackoff_def mobsubMaxBackoff_def seconds_def minutes_def)
  show "mobsubMaxBackoff < seconds 320" by (simp add: mobsubMaxBackoff_def seconds_def minutes_def)
qed

end
