(* ===== verification/Socketio.thy ===== *)
theory Socketio
  imports Engineio Gojson
begin

text \<open>
  The client side of the IRC lounge bridge: the handshake of \<open>engineio.go\<close>, the Socket.IO events of
  \<open>src/fbprotocols/irclounge/socketio.go\<close> on top of the Engine.IO session, and the client of
  \<open>client.go\<close> with its authentication. \<open>pj\<close> parses a JSON text and \<open>js\<close> writes one. A reading
  operation gives \<open>None\<close> while it waits for the server.
\<close>

section \<open>Handshake\<close>

record eioHandshake =
  hs_SID :: string
  hs_PingInterval :: int
  hs_PingTimeout :: int
  hs_Upgrades :: "string list"

definition zeroHandshake :: eioHandshake where
  "zeroHandshake = \<lparr>hs_SID = [], hs_PingInterval = 0, hs_PingTimeout = 0, hs_Upgrades = []\<rparr>"

definition dec_handshake :: "eioHandshake decoder" where
  "dec_handshake = dec_struct
     [(''sid'', on hs_SID hs_SID_update dec_string),
      (''pingInterval'', on hs_PingInterval hs_PingInterval_update dec_int),
      (''pingTimeout'', on hs_PingTimeout hs_PingTimeout_update dec_int),
      (''upgrades'', on hs_Upgrades hs_Upgrades_update (dec_list [] dec_string))]"

text \<open>The query of \<open>url.Values\<close>, whose keys are written in ascending order; \<open>esc\<close> is
  \<open>url.QueryEscape\<close>.\<close>

definition newPollingURL :: "(string \<Rightarrow> string) \<Rightarrow> string \<Rightarrow> string \<Rightarrow> string" where
  "newPollingURL esc base session =
     base @ ''?'' @ ''EIO=4'' @ (if session \<noteq> [] then ''&sid='' @ esc session else []) @ ''&transport=polling''"

record eioDial =
  ed_baseURL :: string
  ed_sid :: string
  ed_pingInterval :: duration
  ed_pingTimeout :: duration
  ed_clientTimeout :: duration

definition millis :: "int \<Rightarrow> duration" where
  "millis n = wrap64 (n * 1000000)"

text \<open>\<open>None\<close> is the panic on an empty address.\<close>

definition DialEio ::
  "(string \<Rightarrow> json option) \<Rightarrow> (string \<Rightarrow> string) \<Rightarrow> (string \<Rightarrow> error + bytes) \<Rightarrow> string \<Rightarrow> (error + eioDial) option" where
  "DialEio pj esc fetch serverURL =
     (if serverURL = [] then None
      else
        (let u = (if last serverURL \<noteq> CHR ''/'' then serverURL @ ''/'' else serverURL) @ ''socket.io/''
         in Some (case fetch (newPollingURL esc u []) of
              Inl e \<Rightarrow> Inl (''engine.io handshake: '' @ e)
            | Inr body \<Rightarrow>
                if body = [] \<or> hd body \<noteq> 48 then Inl (''engine.io bad handshake: '' @ string_of body)
                else (case unmarshal dec_handshake zeroHandshake (pj (string_of (tl body))) of
                        None \<Rightarrow> Inl ''engine.io decode handshake''
                      | Some hs \<Rightarrow>
                          (let pingI = (if hs_PingInterval hs \<le> 0 then 25000 else hs_PingInterval hs);
                               pingT = (if hs_PingTimeout hs \<le> 0 then 20000 else hs_PingTimeout hs)
                           in Inr \<lparr>ed_baseURL = u, ed_sid = hs_SID hs, ed_pingInterval = millis pingI,
                                   ed_pingTimeout = millis pingT,
                                   ed_clientTimeout = millis (pingI + pingT + 5000)\<rparr>)))))"

section \<open>Events\<close>

record SioEvent =
  ev_Name :: string
  ev_Data :: "json option"

text \<open>The text behind the first comma, or the whole text when there is none.\<close>

definition ns_payload :: "string \<Rightarrow> string" where
  "ns_payload s = (if CHR '','' \<in> set s then tl (dropWhile (\<lambda>c. c \<noteq> CHR '','') s) else s)"

definition dec_any :: "json decoder" where
  "dec_any old j = (j, True)"

definition parseSioEvent :: "(string \<Rightarrow> json option) \<Rightarrow> bytes \<Rightarrow> SioEvent option" where
  "parseSioEvent pj data =
     (if length data < 2 \<or> hd data \<noteq> byte_of CHR ''2'' then None
      else
        (let payload = string_of (tl data);
             payload = (if payload \<noteq> [] \<and> hd payload = CHR ''/'' then ns_payload payload else payload)
         in case unmarshal (dec_list JNull dec_any) [] (pj payload) of
              None \<Rightarrow> None
            | Some [] \<Rightarrow> None
            | Some (x # xs) \<Rightarrow>
                (case unmarshal dec_string [] (Some x) of
                   None \<Rightarrow> None
                 | Some name \<Rightarrow> Some \<lparr>ev_Name = name, ev_Data = (case xs of [] \<Rightarrow> None | y # _ \<Rightarrow> Some y)\<rparr>)))"

lemma poll_polls: "poll s = Some (r, s') \<Longrightarrow>
    polls s = [] \<and> s' = s \<and> closed s \<or> closed s \<and> s' = s \<or> (\<exists>rs. polls s = r # rs \<and> s' = s\<lparr>polls := rs\<rparr>)"
  by (auto simp: poll_def split: if_splits list.splits)

lemma handlePackets_polls_any:
  "handlePackets ps s = Inl (r, s') \<Longrightarrow> polls s' = polls s"
proof (induction ps s rule: handlePackets.induct)
  case (2 p ps s)
  then show ?case
    using writeRaw_frame [of "[48 + EioPong]" s]
    by (auto split: if_splits prod.splits option.splits)
qed simp

definition session_left :: "EioSession \<Rightarrow> nat \<times> nat" where
  "session_left s = (length (polls s), length (buf s))"

text \<open>A packet read was the head of the buffer or used up an answer of the server.\<close>

lemma readPacket_progress:
  "readPacket s = Some (Inr p, s') \<Longrightarrow> (session_left s', session_left s) \<in> less_than <*lex*> less_than"
proof (induction s rule: readPacket.induct)
  case (1 s)
  show ?case
  proof (cases "buf s")
    case (Cons q qs)
    then show ?thesis using 1(2) by (auto simp: readPacket_buffered session_left_def)
  next
    case Nil
    show ?thesis
    proof (cases "closed s \<or> polls s = []")
      case True
      then show ?thesis using 1(2) Nil by (auto simp: readPacket.simps [of s] poll_def split: if_splits list.splits)
    next
      case False
      then obtain r rs where rs: "polls s = r # rs" "\<not> closed s" by (cases "polls s") auto
      then have poll: "poll s = Some (r, s\<lparr>polls := rs\<rparr>)" by (simp add: poll_def)
      show ?thesis
      proof (cases r)
        case (Inl e)
        then show ?thesis using 1(2) Nil poll by (simp add: readPacket.simps [of s])
      next
        case (Inr body)
        show ?thesis
        proof (cases "handlePackets (decodeTextPackets body) (s\<lparr>polls := rs\<rparr>)")
          case (Inl res)
          then have "polls s' = rs"
            using 1(2) Nil poll Inr handlePackets_polls_any[of "decodeTextPackets body" "s\<lparr>polls := rs\<rparr>" "Inr p" s']
            by (simp add: readPacket.simps [of s])
          then show ?thesis using rs by (simp add: session_left_def)
        next
          case i2: (Inr s2)
          then have eq: "readPacket s2 = Some (Inr p, s')"
            using 1(2) Nil poll Inr by (simp add: readPacket.simps [of s])
          have "polls s2 = rs" using handlePackets_polls[OF i2] by simp
          moreover have "(session_left s', session_left s2) \<in> less_than <*lex*> less_than"
            using 1(1)[OF Nil poll refl Inr i2 eq] .
          ultimately show ?thesis using rs by (auto simp: session_left_def)
        qed
      qed
    qed
  qed
qed

function readEvent :: "(string \<Rightarrow> json option) \<Rightarrow> EioSession \<Rightarrow> ((error + SioEvent) \<times> EioSession) option" where
  "readEvent pj s =
     (case readPacket s of
        None \<Rightarrow> None
      | Some (Inl e, s') \<Rightarrow> Some (Inl e, s')
      | Some (Inr p, s') \<Rightarrow>
          if pkType p \<noteq> EioMessage then readEvent pj s'
          else (case parseSioEvent pj (pkData p) of
                  None \<Rightarrow> readEvent pj s'
                | Some ev \<Rightarrow> Some (Inr ev, s')))"
  by pat_completeness auto
termination
  by (relation "inv_image (less_than <*lex*> less_than) (\<lambda>(pj, s). session_left s)")
     (auto dest: readPacket_progress)

declare readEvent.simps [simp del]

definition sendConnect :: "EioSession \<Rightarrow> error option \<times> EioSession" where
  "sendConnect s = writePacket \<lparr>pkType = EioMessage, pkData = bytes_of ''0''\<rparr> s"

text \<open>The text of an event: the array of its name and, unless it is nil, its value.\<close>

definition event_packet :: "(json \<Rightarrow> string) \<Rightarrow> string \<Rightarrow> json option \<Rightarrow> EioPacket" where
  "event_packet js event v =
     \<lparr>pkType = EioMessage,
      pkData = bytes_of (''2'' @ js (JArr (JStr event # (case v of None \<Rightarrow> [] | Some x \<Rightarrow> [x]))))\<rparr>"

definition emit_event :: "(json \<Rightarrow> string) \<Rightarrow> string \<Rightarrow> json option \<Rightarrow> EioSession \<Rightarrow> error option \<times> EioSession" where
  "emit_event js event v s = writePacket (event_packet js event v) s"

section \<open>The client\<close>

record authPerformData =
  ap_User :: string
  ap_Password :: string
  ap_LastMessage :: int
  ap_OpenChannel :: int

text \<open>\<open>omitempty\<close> leaves out a zero.\<close>

definition int_field :: "string \<Rightarrow> int \<Rightarrow> (string \<times> json) list" where
  "int_field k n = (if n = 0 then [] else [(k, JNum (itoa n))])"

definition str_field :: "string \<Rightarrow> string \<Rightarrow> (string \<times> json) list" where
  "str_field k v = (if v = [] then [] else [(k, JStr v)])"

definition authPerform_json :: "authPerformData \<Rightarrow> json" where
  "authPerform_json a = JObj ([(''user'', JStr (ap_User a)), (''password'', JStr (ap_Password a))] @
     int_field ''lastMessage'' (ap_LastMessage a) @ int_field ''openChannel'' (ap_OpenChannel a))"

definition dec_detail :: "string decoder" where
  "dec_detail = dec_struct [(''error'', dec_string)]"

lemma readEvent_progress:
  "readEvent pj s = Some (Inr ev, s') \<Longrightarrow> (session_left s', session_left s) \<in> less_than <*lex*> less_than"
proof (induction pj s rule: readEvent.induct)
  case (1 pj s)
  note trans = transD[OF trans_lex_prod[OF trans_less_than trans_less_than]]
  obtain p s1 where r: "readPacket s = Some (Inr p, s1)"
    using 1(3) by (subst (asm) readEvent.simps) (auto split: option.splits sum.splits)
  have dec: "(session_left s1, session_left s) \<in> less_than <*lex*> less_than" by (rule readPacket_progress[OF r])
  show ?case
  proof (cases "pkType p = EioMessage")
    case False
    then have "readEvent pj s1 = Some (Inr ev, s')" using 1(3) r by (subst (asm) readEvent.simps) simp
    from trans[OF 1(1)[OF r refl refl False this] dec] show ?thesis .
  next
    case True
    show ?thesis
    proof (cases "parseSioEvent pj (pkData p)")
      case None
      then have "readEvent pj s1 = Some (Inr ev, s')" using 1(3) r True by (subst (asm) readEvent.simps) simp
      from trans[OF 1(2)[OF r refl refl _ None this] dec] True show ?thesis by simp
    next
      case (Some e)
      then have "s' = s1" using 1(3) r True by (subst (asm) readEvent.simps) simp
      then show ?thesis using dec by simp
    qed
  qed
qed

lemma emit_left: "emit_event js event v s = (e, s') \<Longrightarrow> session_left s' = session_left s"
  using writeRaw_frame[of "encodeTextPacket (event_packet js event v)" s]
  by (simp add: emit_event_def writePacket_def session_left_def)

text \<open>The loop of \<open>auth\<close>. \<open>late n\<close> tells whether the thirty seconds are over when the \<open>n\<close>-th round starts.\<close>

function auth_loop ::
  "(string \<Rightarrow> json option) \<Rightarrow> (json \<Rightarrow> string) \<Rightarrow> (nat \<Rightarrow> bool) \<Rightarrow> authPerformData \<Rightarrow> nat \<Rightarrow> EioSession \<Rightarrow>
   (error option \<times> EioSession) option" where
  "auth_loop pj js late perform n s =
     (if late n then Some (Some ''auth timeout'', s)
      else case readEvent pj s of
        None \<Rightarrow> None
      | Some (Inl e, s1) \<Rightarrow> Some (Some (''read event during auth: '' @ e), s1)
      | Some (Inr ev, s1) \<Rightarrow>
          if ev_Name ev = ''auth:start'' then
            (case emit_event js ''auth:perform'' (Some (authPerform_json perform)) s1 of
               (Some e, s2) \<Rightarrow> Some (Some (''auth:perform emit: '' @ e), s2)
             | (None, s2) \<Rightarrow> auth_loop pj js late perform (Suc n) s2)
          else if ev_Name ev = ''auth:success'' then Some (None, s1)
          else if ev_Name ev = ''auth:failed'' then
            (let detail = unmarshal_lax dec_detail [] (ev_Data ev)
             in Some (Some (''authentication failed'' @ (if detail \<noteq> [] then '': '' @ detail else [])), s1))
          else auth_loop pj js late perform (Suc n) s1)"
  by pat_completeness auto
termination
  by (relation "inv_image (less_than <*lex*> less_than) (\<lambda>(pj, js, late, perform, n, s). session_left s)")
     (auto dest: readEvent_progress simp: emit_left[OF sym])

declare auth_loop.simps [simp del]

definition client_auth ::
  "(string \<Rightarrow> json option) \<Rightarrow> (json \<Rightarrow> string) \<Rightarrow> (nat \<Rightarrow> bool) \<Rightarrow> string \<Rightarrow> string \<Rightarrow> int \<Rightarrow> EioSession \<Rightarrow>
   (error option \<times> EioSession) option" where
  "client_auth pj js late user password lastMessage s =
     (case sendConnect s of
        (Some e, s1) \<Rightarrow> Some (Some (''socket.io connect: '' @ e), s1)
      | (None, s1) \<Rightarrow> auth_loop pj js late \<lparr>ap_User = user, ap_Password = password,
                        ap_LastMessage = lastMessage, ap_OpenChannel = 0\<rparr> 0 s1)"

text \<open>\<open>dialed\<close> is the result of \<open>DialEio\<close>; a session that did not authenticate is closed.\<close>

definition Connect ::
  "(string \<Rightarrow> json option) \<Rightarrow> (json \<Rightarrow> string) \<Rightarrow> (nat \<Rightarrow> bool) \<Rightarrow> error + EioSession \<Rightarrow> string \<Rightarrow> string \<Rightarrow> int \<Rightarrow>
   ((error \<times> EioSession option) + EioSession) option" where
  "Connect pj js late dialed user password lastMessage =
     (case dialed of
        Inl e \<Rightarrow> Some (Inl (''engine.io: '' @ e, None))
      | Inr s \<Rightarrow>
          (case client_auth pj js late user password lastMessage s of
             None \<Rightarrow> None
           | Some (Some e, s1) \<Rightarrow> Some (Inl (e, Some (closeSession s1)))
           | Some (None, s1) \<Rightarrow> Some (Inr s1)))"

text \<open>The events \<open>readLoop\<close> passes on, and the error that ended it; it has none while it waits.\<close>

function readLoop :: "(string \<Rightarrow> json option) \<Rightarrow> EioSession \<Rightarrow> SioEvent list \<times> error option \<times> EioSession" where
  "readLoop pj s =
     (case readEvent pj s of
        None \<Rightarrow> ([], None, s)
      | Some (Inl e, s1) \<Rightarrow> ([], Some e, s1)
      | Some (Inr ev, s1) \<Rightarrow> apfst (Cons ev) (readLoop pj s1))"
  by pat_completeness auto
termination
  by (relation "inv_image (less_than <*lex*> less_than) (\<lambda>(pj, s). session_left s)")
     (auto dest: readEvent_progress)

declare readLoop.simps [simp del]

definition input_json :: "int \<Rightarrow> string \<Rightarrow> json" where
  "input_json target txt = JObj [(''target'', JNum (itoa target)), (''text'', JStr txt)]"

definition SendMessage :: "int \<Rightarrow> string \<Rightarrow> string \<times> json" where
  "SendMessage channelID txt = (''input'', input_json channelID txt)"

definition Join :: "int \<Rightarrow> string \<Rightarrow> string \<times> json" where
  "Join lobbyID channel = (''input'', input_json lobbyID (''/join '' @ channel))"

definition RequestMore :: "int \<Rightarrow> int \<Rightarrow> string \<times> json" where
  "RequestMore channelID lastID =
     (''more'', JObj [(''lastId'', JNum (itoa lastID)), (''target'', JNum (itoa channelID))])"

section \<open>Delivery of events\<close>

definition packet_event :: "(string \<Rightarrow> json option) \<Rightarrow> EioPacket \<Rightarrow> SioEvent option" where
  "packet_event pj p = (if pkType p = EioMessage then parseSioEvent pj (pkData p) else None)"

lemma readEvent_queue:
  assumes "steady s"
  shows "case dropWhile (\<lambda>p. packet_event pj p = None) (pendingPackets s) of
      [] \<Rightarrow> readEvent pj s = None
    | p # ps \<Rightarrow> \<exists>s'. readEvent pj s = Some (Inr (the (packet_event pj p)), s') \<and> steady s' \<and> pendingPackets s' = ps"
  using assms
proof (induction "pendingPackets s" arbitrary: s)
  case Nil
  then have "readPacket s = None" using readPacket_queue[of s] by (simp add: Nil.hyps[symmetric])
  then show ?case by (simp add: Nil.hyps[symmetric] readEvent.simps)
next
  case (Cons p ps)
  obtain s' where s': "readPacket s = Some (Inr p, s')" "pendingPackets s' = ps" "steady s'"
    using readPacket_queue[OF Cons.prems] by (auto simp: Cons.hyps(2)[symmetric])
  show ?case
  proof (cases "packet_event pj p")
    case None
    then have eq: "readEvent pj s = readEvent pj s'"
      using s'(1) by (subst readEvent.simps) (auto simp: packet_event_def split: if_splits)
    have skip: "dropWhile (\<lambda>p. packet_event pj p = None) (pendingPackets s) =
        dropWhile (\<lambda>p. packet_event pj p = None) (pendingPackets s')"
      using None by (simp add: Cons.hyps(2)[symmetric] s'(2))
    show ?thesis unfolding skip eq by (rule Cons.hyps(1)[OF s'(2)[symmetric] s'(3)])
  next
    case (Some ev)
    then have "readEvent pj s = Some (Inr ev, s')"
      using s'(1) by (subst readEvent.simps) (auto simp: packet_event_def split: if_splits)
    then show ?thesis using Some s' by (simp add: Cons.hyps(2)[symmetric])
  qed
qed

lemma dropWhile_shorter: "dropWhile P xs = y # ys \<Longrightarrow> length ys < length xs"
  using length_dropWhile_le[of P xs] by simp

lemma map_filter_dropWhile:
  "List.map_filter f xs = (case dropWhile (\<lambda>x. f x = None) xs of [] \<Rightarrow> [] | y # ys \<Rightarrow> the (f y) # List.map_filter f ys)"
  by (induction xs) (auto simp: List.map_filter_simps split: option.splits)

lemma readLoop_queue:
  assumes "steady s"
  shows "fst (readLoop pj s) = List.map_filter (packet_event pj) (pendingPackets s) \<and> fst (snd (readLoop pj s)) = None"
  using assms
proof (induction "length (pendingPackets s)" arbitrary: s rule: less_induct)
  case less
  show ?case
  proof (cases "dropWhile (\<lambda>p. packet_event pj p = None) (pendingPackets s)")
    case Nil
    then have "readEvent pj s = None" using readEvent_queue[OF less.prems, of pj] by (simp only: list.case)
    moreover have "List.map_filter (packet_event pj) (pendingPackets s) = []"
      using Nil by (subst map_filter_dropWhile) (simp only: list.case)
    ultimately show ?thesis by (simp add: readLoop.simps)
  next
    case (Cons p ps)
    then obtain s' where s': "readEvent pj s = Some (Inr (the (packet_event pj p)), s')" "steady s'" "pendingPackets s' = ps"
      using readEvent_queue[OF less.prems, of pj] by auto
    have "length (pendingPackets s') < length (pendingPackets s)" using dropWhile_shorter[OF Cons] s'(3) by simp
    from less.hyps[OF this s'(2)] show ?thesis
      using s' Cons by (subst (1 2) readLoop.simps) (simp add: map_filter_dropWhile[of "packet_event pj" "pendingPackets s"])
  qed
qed

lemma parse_emitted:
  assumes "js (JArr (JStr ev # xs)) = CHR ''['' # t" and "pj (CHR ''['' # t) = Some (JArr (JStr ev # xs))"
    and "xs = (case v of None \<Rightarrow> [] | Some x \<Rightarrow> [x])"
  shows "parseSioEvent pj (pkData (event_packet js ev v)) = Some \<lparr>ev_Name = ev, ev_Data = v\<rparr>"
proof -
  let ?j = "JArr (JStr ev # xs)"
  have payload: "string_of (tl (pkData (event_packet js ev v))) = CHR ''['' # t"
    and head: "hd (pkData (event_packet js ev v)) = byte_of CHR ''2''" "2 \<le> length (pkData (event_packet js ev v))"
    using assms(1) unfolding assms(3) by (auto simp: event_packet_def bytes_of_def string_of_def comp_def)
  have "unmarshal (dec_list JNull dec_any) [] (Some ?j) = Some (JStr ev # xs)"
    by (simp add: unmarshal_Some dec_any_def list_all_iff)
  moreover have "unmarshal dec_string [] (Some (JStr ev)) = Some ev" by (simp add: unmarshal_Some)
  ultimately show ?thesis
    using payload head assms(2,3) by (cases v) (simp_all add: parseSioEvent_def)
qed



section \<open>End to end\<close>

text \<open>An event whose JSON text is an array that parses back and has no record separator, as the texts
  of \<open>encoding/json\<close> and \<open>JSON.stringify\<close> are.\<close>

definition event_json :: "string \<times> json option \<Rightarrow> json" where
  "event_json e = JArr (JStr (fst e) # (case snd e of None \<Rightarrow> [] | Some x \<Rightarrow> [x]))"

definition wire_ok :: "(string \<Rightarrow> json option) \<Rightarrow> (json \<Rightarrow> string) \<Rightarrow> string \<times> json option \<Rightarrow> bool" where
  "wire_ok pj js e \<longleftrightarrow>
     has_prefix (js (event_json e)) ''['' \<and> pj (js (event_json e)) = Some (event_json e) \<and>
     char_of_byte recordSep \<notin> set (js (event_json e))"

definition payload :: "(json \<Rightarrow> string) \<Rightarrow> (string \<times> json option) list \<Rightarrow> bytes" where
  "payload js es = join_with [recordSep] (map (\<lambda>e. encodeTextPacket (event_packet js (fst e) (snd e))) es)"

lemma wire_packet:
  assumes "wire_ok pj js e"
  shows "packet_event pj (event_packet js (fst e) (snd e)) = Some \<lparr>ev_Name = fst e, ev_Data = snd e\<rparr>"
    and "eio_wf (event_packet js (fst e) (snd e))"
proof -
  obtain t where "js (event_json e) = CHR ''['' # t"
    using assms by (cases "js (event_json e)") (auto simp: wire_ok_def has_prefix_def)
  then show "packet_event pj (event_packet js (fst e) (snd e)) = Some \<lparr>ev_Name = fst e, ev_Data = snd e\<rparr>"
    using assms parse_emitted[of js "fst e" _ t pj "snd e", OF _ _ refl]
    by (simp add: packet_event_def event_packet_def wire_ok_def event_json_def)
  have "recordSep = byte_of c \<Longrightarrow> c = char_of_byte recordSep" for c
    by (drule arg_cong[where f = char_of_byte]) simp
  then have "recordSep \<notin> byte_of ` set (js (event_json e))" using assms by (auto simp: wire_ok_def)
  moreover have "recordSep \<noteq> byte_of CHR ''2''" by (simp add: recordSep_def byte_of_def)
  ultimately show "eio_wf (event_packet js (fst e) (snd e))"
    by (simp add: eio_wf_def event_packet_def event_json_def bytes_of_def)
qed

lemma payload_decoded:
  assumes "list_all (wire_ok pj js) es"
  shows "decodeTextPackets (payload js es) = map (\<lambda>e. event_packet js (fst e) (snd e)) es"
proof -
  have wf: "\<forall>p \<in> set (map (\<lambda>e. event_packet js (fst e) (snd e)) es). eio_wf p"
    using assms wire_packet(2) by (fastforce simp: list_all_iff)
  show ?thesis using decode_encode_all[OF wf] by (simp add: payload_def comp_def)
qed

lemma events_of_packets:
  "list_all (wire_ok pj js) es \<Longrightarrow>
    List.map_filter (packet_event pj) (map (\<lambda>e. event_packet js (fst e) (snd e)) es) =
    map (\<lambda>e. \<lparr>ev_Name = fst e, ev_Data = snd e\<rparr>) es"
  by (induction es) (auto simp: List.map_filter_simps wire_packet(1))

text \<open>C17: From the server to the bridge: however the server's events are cut into payloads, \<open>readLoop\<close>
  passes on exactly these events, with their names and data, in order, and then waits.\<close>

theorem lounge_events_in_order:
  assumes "\<not> closed s" and "buf s = []" and "postErr s = (\<lambda>_. None)"
    and "polls s = map (\<lambda>es. Inr (payload js es)) ess"
    and "list_all (list_all (wire_ok pj js)) ess"
  shows "fst (readLoop pj s) = map (\<lambda>e. \<lparr>ev_Name = fst e, ev_Data = snd e\<rparr>) (concat ess) \<and>
    fst (snd (readLoop pj s)) = None"
proof -
  let ?pk = "\<lambda>e. event_packet js (fst e) (snd e)"
  have dec: "es \<in> set ess \<Longrightarrow> payloadPackets (Inr (payload js es)) = map ?pk es" for es
    using assms(5) payload_decoded[of pj js es] by (simp add: payloadPackets_def list_all_iff)
  have kinds: "pkType (?pk e) = EioMessage" for e by (simp add: event_packet_def)
  have "steady s"
    using assms(1,3,4) dec kinds by (auto simp: steady_def list_all_iff eio_types)
  moreover have "pendingPackets s = map ?pk (concat ess)"
  proof -
    have "concat (map payloadPackets (polls s)) = concat (map (map ?pk) ess)"
      unfolding assms(4) map_map by (rule arg_cong[where f = concat], rule map_cong) (simp_all add: dec)
    then show ?thesis using assms(2) by (simp add: pendingPackets_def map_concat keepsPacket_def kinds filter_id_conv)
  qed
  moreover have "list_all (wire_ok pj js) (concat ess)" using assms(5) by (auto simp: list_all_iff)
  ultimately show ?thesis by (simp only: readLoop_queue events_of_packets simp_thms)
qed

definition js0 :: "json \<Rightarrow> string" where
  "js0 j = (if j = event_json (''init'', None) then ''[0]'' else ''[1]'')"

definition pj0 :: "string \<Rightarrow> json option" where
  "pj0 t = Some (event_json (if t = ''[0]'' then (''init'', None) else (''msg'', Some (JBoolean True))))"

definition lounge0 :: EioSession where
  "lounge0 = \<lparr>sid = ''x'', closed = False, buf = [],
     polls = map (\<lambda>es. Inr (payload js0 es)) [[(''init'', None), (''msg'', Some (JBoolean True))], [(''msg'', Some (JBoolean True))]],
     postErr = (\<lambda>_. None), sent = []\<rparr>"

lemma wire_ok0: "wire_ok pj0 js0 (''init'', None)" "wire_ok pj0 js0 (''msg'', Some (JBoolean True))"
  by (code_simp, code_simp)

lemma lounge_events_in_order_witness:
  "fst (readLoop pj0 lounge0) =
     [\<lparr>ev_Name = ''init'', ev_Data = None\<rparr>, \<lparr>ev_Name = ''msg'', ev_Data = Some (JBoolean True)\<rparr>,
      \<lparr>ev_Name = ''msg'', ev_Data = Some (JBoolean True)\<rparr>]"
proof -
  have "polls lounge0 = map (\<lambda>es. Inr (payload js0 es)) [[(''init'', None), (''msg'', Some (JBoolean True))], [(''msg'', Some (JBoolean True))]]"
    by (simp add: lounge0_def)
  from lounge_events_in_order[OF _ _ _ this, of pj0] show ?thesis
    by (simp add: lounge0_def wire_ok0)
qed

end
