(* ===== verification/Unimessage.thy ===== *)
theory Unimessage
  imports Gojson Matrix_Profile
begin

text \<open>
  \<open>src/fbprotocols/fbshared/unimessage.go\<close>, what the protocol back ends share: the constants,
  the unified message and its attachments, and the application of room and member profiles to
  it. \<open>ringPush\<close> and \<open>ringErrs\<close> are the ring of the last three errors that every back end keeps
  in the same words.
\<close>

section \<open>Constants\<close>

definition ProtoEmailImap :: string where "ProtoEmailImap = ''emailimap''"
definition ProtoOutlookGraph :: string where "ProtoOutlookGraph = ''outlookgraph''"
definition ProtoToxOverHttp :: string where "ProtoToxOverHttp = ''toxoverhttp''"
definition ProtoMisskey :: string where "ProtoMisskey = ''misskey''"
definition ProtoGomuks :: string where "ProtoGomuks = ''gomuks_room''"
definition ProtoIRCCloud :: string where "ProtoIRCCloud = ''irccloud''"
definition ProtoMatrixLite :: string where "ProtoMatrixLite = ''matrix''"
definition ProtoIRCLounge :: string where "ProtoIRCLounge = ''irclounge''"
definition ProtoSysinfo :: string where "ProtoSysinfo = ''sysinfo''"

definition FmtText :: string where "FmtText = ''text''"
definition FmtMarkdown :: string where "FmtMarkdown = ''markdown''"
definition FmtHTML :: string where "FmtHTML = ''html''"

definition AttachImage :: string where "AttachImage = ''image''"
definition AttachVideo :: string where "AttachVideo = ''video''"
definition AttachAudio :: string where "AttachAudio = ''audio''"
definition AttachFile :: string where "AttachFile = ''file''"
definition AttachSticker :: string where "AttachSticker = ''sticker''"
definition AttachGif :: string where "AttachGif = ''gif''"

definition MsgTypeCreate :: string where "MsgTypeCreate = ''create''"
definition MsgTypeEdit :: string where "MsgTypeEdit = ''edit''"
definition MsgTypeDelete :: string where "MsgTypeDelete = ''delete''"
definition MsgTypeReactionAdd :: string where "MsgTypeReactionAdd = ''reaction_add''"
definition MsgTypeReactionRemove :: string where "MsgTypeReactionRemove = ''reaction_remove''"
definition MsgTypeJoin :: string where "MsgTypeJoin = ''join''"
definition MsgTypeLeave :: string where "MsgTypeLeave = ''leave''"
definition MsgTypeFileUpload :: string where "MsgTypeFileUpload = ''file_upload''"

lemmas attach_types = AttachImage_def AttachVideo_def AttachAudio_def AttachFile_def AttachSticker_def AttachGif_def
lemmas msg_types = MsgTypeCreate_def MsgTypeEdit_def MsgTypeDelete_def MsgTypeJoin_def MsgTypeLeave_def

section \<open>Messages\<close>

record Attachment =
  at_MimeType :: string
  at_Size :: int
  at_Width :: int
  at_Height :: int
  at_Filename :: string
  at_AttachType :: string
  at_URL :: string

record UnifiedMessage =
  um_Text :: string
  um_Markdown :: string
  um_HTML :: string
  um_MsgFormat :: string
  um_Protocol :: string
  um_AccountID :: string
  um_AccountName :: string
  um_ChatID :: string
  um_ChatName :: string
  um_Gateway :: string
  um_Username :: string
  um_UserID :: string
  um_Usernick :: string
  um_UserIcon :: string
  um_UserPresence :: string
  um_UserStatus :: string
  um_ChanIcon :: string
  um_ChatTopic :: string
  um_ChatAlias :: string
  um_ChatType :: string
  um_ChatMembers :: int
  um_ChatFederated :: "bool option"
  um_MsgType :: string
  um_MsgID :: string
  um_ReplyTos :: "string list"
  um_Mentions :: "string list"
  um_Timestamp :: int
  um_Attachments :: "Attachment list"
  um_Raw :: "json option"

definition zeroUM :: UnifiedMessage where
  "zeroUM = \<lparr>um_Text = [], um_Markdown = [], um_HTML = [], um_MsgFormat = [], um_Protocol = [],
     um_AccountID = [], um_AccountName = [], um_ChatID = [], um_ChatName = [], um_Gateway = [],
     um_Username = [], um_UserID = [], um_Usernick = [], um_UserIcon = [], um_UserPresence = [],
     um_UserStatus = [], um_ChanIcon = [], um_ChatTopic = [], um_ChatAlias = [], um_ChatType = [],
     um_ChatMembers = 0, um_ChatFederated = None, um_MsgType = [], um_MsgID = [], um_ReplyTos = [],
     um_Mentions = [], um_Timestamp = 0, um_Attachments = [], um_Raw = None\<rparr>"

definition ApplyRoomProfile :: "RoomProfileWire \<Rightarrow> UnifiedMessage \<Rightarrow> UnifiedMessage" where
  "ApplyRoomProfile w um =
     (let um = (if wName w \<noteq> [] then um\<lparr>um_ChatName := wName w\<rparr> else um);
          um = (if wAvatarURL w \<noteq> [] then um\<lparr>um_ChanIcon := wAvatarURL w\<rparr> else um);
          um = (if wTopic w \<noteq> [] then um\<lparr>um_ChatTopic := wTopic w\<rparr> else um);
          um = (if wAlias w \<noteq> [] then um\<lparr>um_ChatAlias := wAlias w\<rparr> else um);
          um = (if wRoomType w \<noteq> [] then um\<lparr>um_ChatType := wRoomType w\<rparr> else um);
          um = (if 0 < wNumJoinedMembers w then um\<lparr>um_ChatMembers := wNumJoinedMembers w\<rparr> else um);
          um = (if wFederated w \<noteq> None then um\<lparr>um_ChatFederated := wFederated w\<rparr> else um)
      in um)"

definition ApplySenderProfile :: "MemberProfileWire \<Rightarrow> UnifiedMessage \<Rightarrow> UnifiedMessage" where
  "ApplySenderProfile w um =
     (let um = (if mwDisplayName w \<noteq> [] then um\<lparr>um_Usernick := mwDisplayName w\<rparr> else um);
          um = (if mwAvatarURL w \<noteq> [] then um\<lparr>um_UserIcon := mwAvatarURL w\<rparr> else um);
          um = (if mwPresence w \<noteq> [] then um\<lparr>um_UserPresence := mwPresence w\<rparr> else um);
          um = (if mwStatusMsg w \<noteq> [] then um\<lparr>um_UserStatus := mwStatusMsg w\<rparr> else um)
      in um)"

section \<open>The last errors\<close>

type_synonym errRing = "error option list"

definition noErrs :: errRing where
  "noErrs = [None, None, None]"

definition ringPush :: "error \<Rightarrow> errRing \<Rightarrow> errRing" where
  "ringPush e errs = [Some e, errs ! 0, errs ! 1]"

definition ringErrs :: "errRing \<Rightarrow> error list" where
  "ringErrs errs = List.map_filter id errs"

lemma ringErrs_newest: "length errs = 3 \<Longrightarrow> ringErrs (ringPush e errs) = e # ringErrs (take 2 errs)"
  by (cases errs; cases "tl errs"; cases "tl (tl errs)") (auto simp: ringErrs_def ringPush_def List.map_filter_def)

lemma ringPush_length [simp]: "length (ringPush e errs) = 3"
  by (simp add: ringPush_def)

text \<open>What a back end hands to the mesh: the source's own text, or a unified message.\<close>

datatype pubItem = PubRaw json | PubUM UnifiedMessage

end
