(* ===== verification/Lounge.thy ===== *)
theory Lounge
  imports Socketio Unimessage
begin

text \<open>
  The IRC lounge bridge, \<open>src/fbprotocols/irclounge/lounge.go\<close> and \<open>types.go\<close>: the events of a
  connection are handled one after the other by \<open>pollLounge\<close>, which publishes messages once,
  asks for older ones, and joins the wanted channels. The state is that of the package's
  variables; \<open>published\<close> and \<open>emitted\<close> log what went to the mesh and to the server. The
  environment gives the answers of the publish function and of the emits, in order, and the
  clock. The package variables survive a reconnection except those \<open>pollLounge\<close> resets.
\<close>

section \<open>Data of the server\<close>

definition ChanLobby :: string where "ChanLobby = ''lobby''"

record UserInMessage =
  uim_Nick :: string
  uim_Mode :: string

record Message =
  m_ID :: int
  m_From :: "UserInMessage option"
  m_Text :: string
  m_Type :: string
  m_Time :: string
  m_Self :: bool
  m_Highlight :: bool
  m_Hostmask :: string
  m_MsgID :: string

record Channel =
  ch_ID :: int
  ch_Name :: string
  ch_Type :: string
  ch_TotalMessages :: int
  ch_Messages :: "Message list"

record Network =
  nw_Name :: string
  nw_Connected :: bool
  nw_Channels :: "Channel list"

definition zeroUIM :: UserInMessage where "zeroUIM = \<lparr>uim_Nick = [], uim_Mode = []\<rparr>"

definition zeroMessage :: Message where
  "zeroMessage = \<lparr>m_ID = 0, m_From = None, m_Text = [], m_Type = [], m_Time = [], m_Self = False,
     m_Highlight = False, m_Hostmask = [], m_MsgID = []\<rparr>"

definition zeroChannel :: Channel where
  "zeroChannel = \<lparr>ch_ID = 0, ch_Name = [], ch_Type = [], ch_TotalMessages = 0, ch_Messages = []\<rparr>"

definition zeroNetwork :: Network where
  "zeroNetwork = \<lparr>nw_Name = [], nw_Connected = False, nw_Channels = []\<rparr>"

definition dec_uim :: "UserInMessage decoder" where
  "dec_uim = dec_struct [(''nick'', on uim_Nick uim_Nick_update dec_string), (''mode'', on uim_Mode uim_Mode_update dec_string)]"

definition dec_message :: "Message decoder" where
  "dec_message = dec_struct
     [(''id'', on m_ID m_ID_update dec_int), (''from'', on m_From m_From_update (dec_ptr zeroUIM dec_uim)),
      (''text'', on m_Text m_Text_update dec_string), (''type'', on m_Type m_Type_update dec_string),
      (''time'', on m_Time m_Time_update dec_string), (''self'', on m_Self m_Self_update dec_bool),
      (''highlight'', on m_Highlight m_Highlight_update dec_bool),
      (''hostmask'', on m_Hostmask m_Hostmask_update dec_string), (''msgid'', on m_MsgID m_MsgID_update dec_string)]"

text \<open>Of channels and networks, the fields the bridge reads; the others are decoded for their type
  errors only.\<close>

definition dec_user :: "UserInMessage decoder" where
  "dec_user = dec_uim"

definition dec_channel :: "Channel decoder" where
  "dec_channel = dec_struct
     [(''id'', on ch_ID ch_ID_update dec_int), (''name'', on ch_Name ch_Name_update dec_string),
      (''topic'', checked [] dec_string), (''type'', on ch_Type ch_Type_update dec_string),
      (''state'', checked 0 dec_int), (''unread'', checked 0 dec_int),
      (''totalMessages'', on ch_TotalMessages ch_TotalMessages_update dec_int),
      (''muted'', checked False dec_bool), (''key'', checked [] dec_string),
      (''users'', checked [] (dec_list zeroUIM dec_user)),
      (''messages'', on ch_Messages ch_Messages_update (dec_list zeroMessage dec_message))]"

definition dec_status :: "bool decoder" where
  "dec_status = dec_struct [(''connected'', dec_bool), (''secure'', checked False dec_bool)]"

definition dec_statusEvent :: "bool decoder" where
  "dec_statusEvent = dec_struct
     [(''connected'', dec_bool), (''secure'', checked False dec_bool), (''network'', checked [] dec_string)]"

definition dec_network :: "Network decoder" where
  "dec_network = dec_struct
     [(''uuid'', checked [] dec_string), (''name'', on nw_Name nw_Name_update dec_string),
      (''nick'', checked [] dec_string), (''status'', on nw_Connected nw_Connected_update dec_status),
      (''channels'', on nw_Channels nw_Channels_update (dec_list zeroChannel dec_channel))]"

definition dec_init :: "Network list decoder" where
  "dec_init = dec_struct [(''active'', checked 0 dec_int), (''networks'', dec_list zeroNetwork dec_network)]"

text \<open>The message and channel number of a \<open>msg\<close> event, the channel and messages of a \<open>more\<close> event.\<close>

definition dec_msgEvent :: "(Message \<times> int) decoder" where
  "dec_msgEvent = dec_struct [(''msg'', on fst apfst dec_message), (''chan'', on snd apsnd dec_int)]"

definition dec_more :: "(int \<times> Message list) decoder" where
  "dec_more = dec_struct [(''chan'', on fst apfst dec_int), (''messages'', on snd apsnd (dec_list zeroMessage dec_message)),
     (''totalMessages'', checked 0 dec_int)]"

record NetworkConfig =
  nc_Name :: string
  nc_Host :: string
  nc_Port :: int
  nc_TLS :: bool
  nc_Nick :: string
  nc_Username :: string
  nc_Realname :: string
  nc_Password :: string
  nc_RejectUnauthorized :: bool
  nc_SASL :: string
  nc_SASLAccount :: string
  nc_SASLPassword :: string
  nc_Join :: string

definition zeroNetworkConfig :: NetworkConfig where
  "zeroNetworkConfig = \<lparr>nc_Name = [], nc_Host = [], nc_Port = 0, nc_TLS = False, nc_Nick = [], nc_Username = [],
     nc_Realname = [], nc_Password = [], nc_RejectUnauthorized = False, nc_SASL = [], nc_SASLAccount = [],
     nc_SASLPassword = [], nc_Join = []\<rparr>"

definition dec_networkConfig :: "NetworkConfig decoder" where
  "dec_networkConfig = dec_struct
     [(''name'', on nc_Name nc_Name_update dec_string), (''host'', on nc_Host nc_Host_update dec_string),
      (''port'', on nc_Port nc_Port_update dec_int), (''tls'', on nc_TLS nc_TLS_update dec_bool),
      (''nick'', on nc_Nick nc_Nick_update dec_string), (''username'', on nc_Username nc_Username_update dec_string),
      (''realname'', on nc_Realname nc_Realname_update dec_string),
      (''password'', on nc_Password nc_Password_update dec_string),
      (''rejectUnauthorized'', on nc_RejectUnauthorized nc_RejectUnauthorized_update dec_bool),
      (''sasl'', on nc_SASL nc_SASL_update dec_string),
      (''saslAccount'', on nc_SASLAccount nc_SASLAccount_update dec_string),
      (''saslPassword'', on nc_SASLPassword nc_SASLPassword_update dec_string),
      (''join'', on nc_Join nc_Join_update dec_string)]"

definition DefaultNetwork :: NetworkConfig where
  "DefaultNetwork = zeroNetworkConfig\<lparr>nc_Name := ''IRC (fedlet)'', nc_Host := ''irc.oftc.net'', nc_Port := 6697,
     nc_TLS := True, nc_Nick := ''fedlet'', nc_Username := ''fedlet'', nc_Realname := ''Fedlet Bridge'',
     nc_RejectUnauthorized := True\<rparr>"

definition networkConfig_json :: "NetworkConfig \<Rightarrow> json" where
  "networkConfig_json c = JObj
     ([(''name'', JStr (nc_Name c)), (''host'', JStr (nc_Host c)), (''port'', JNum (itoa (nc_Port c))),
       (''tls'', JBoolean (nc_TLS c)), (''nick'', JStr (nc_Nick c)), (''username'', JStr (nc_Username c)),
       (''realname'', JStr (nc_Realname c))] @ str_field ''password'' (nc_Password c) @
      [(''rejectUnauthorized'', JBoolean (nc_RejectUnauthorized c))] @ str_field ''sasl'' (nc_SASL c) @
      str_field ''saslAccount'' (nc_SASLAccount c) @ str_field ''saslPassword'' (nc_SASLPassword c) @
      str_field ''join'' (nc_Join c))"

definition CreateNetwork :: "NetworkConfig \<Rightarrow> string \<times> json" where
  "CreateNetwork cfg = (''network:new'', networkConfig_json cfg)"

definition bool_field :: "string \<Rightarrow> bool \<Rightarrow> (string \<times> json) list" where
  "bool_field k b = (if b then [(k, JBoolean True)] else [])"

definition message_json :: "Message \<Rightarrow> json" where
  "message_json m = JObj
     ([(''id'', JNum (itoa (m_ID m)))] @
      (case m_From m of None \<Rightarrow> []
       | Some u \<Rightarrow> [(''from'', JObj [(''nick'', JStr (uim_Nick u)), (''mode'', JStr (uim_Mode u))])]) @
      str_field ''text'' (m_Text m) @ [(''type'', JStr (m_Type m)), (''time'', JStr (m_Time m))] @
      bool_field ''self'' (m_Self m) @ bool_field ''highlight'' (m_Highlight m) @
      str_field ''hostmask'' (m_Hostmask m) @ str_field ''msgid'' (m_MsgID m))"

definition synthMsgRaw :: "int \<Rightarrow> Message \<Rightarrow> json" where
  "synthMsgRaw chanID m = JObj [(''msg'', message_json m), (''chan'', JNum (itoa chanID))]"

section \<open>Names and passwords\<close>

text \<open>\<open>split2\<close> tries the positions below \<open>len s - len sep\<close>, which leaves out the last one.\<close>

fun split2_from :: "nat \<Rightarrow> string \<Rightarrow> string \<Rightarrow> string list" where
  "split2_from 0 s sep = []"
| "split2_from (Suc n) s sep =
     (let i = length s - length sep - Suc n in
      if take (length sep) (drop i s) = sep then [take i s, drop (i + length sep) s] else split2_from n s sep)"

definition split2 :: "string \<Rightarrow> string \<Rightarrow> string list" where
  "split2 s sep = split2_from (length s - length sep) s sep"

definition lounge_login :: "string \<Rightarrow> string \<times> string" where
  "lounge_login auth =
     (if auth = [] then ([], [])
      else case split2 auth '':'' of [u, p] \<Rightarrow> (u, p) | _ \<Rightarrow> ([], []))"

text \<open>What \<open>pollLounge\<close> compares the server's networks with: name, host and port.\<close>

definition requested :: "(string \<Rightarrow> json option) \<Rightarrow> string \<Rightarrow> string \<times> string \<times> int" where
  "requested pj networkCfg =
     (let d = (nc_Name DefaultNetwork, nc_Host DefaultNetwork, nc_Port DefaultNetwork) in
      if networkCfg = [] then d
      else case unmarshal dec_networkConfig zeroNetworkConfig (pj networkCfg) of
        None \<Rightarrow> d
      | Some c \<Rightarrow> (if nc_Name c \<noteq> [] then nc_Name c else fst d,
                   if nc_Host c \<noteq> [] then nc_Host c else fst (snd d), nc_Port c))"

section \<open>State\<close>

record lounge =
  seenIDs :: "int set"
  maxSeenID :: int
  morePages :: "int \<Rightarrow> int"
  primaryLobbyID :: int
  netConnected :: bool
  pendingJoins :: "string list"
  joinedSet :: "string set"
  lastErrs :: errRing
  published :: "pubItem list"
  emitted :: "(string \<times> json) list"

record loungeEnv =
  le_pubfn :: "(nat \<Rightarrow> error option) option"
  le_emit :: "nat \<Rightarrow> error option"
  le_clock :: "nat \<Rightarrow> time"
  le_parseTime :: "string \<Rightarrow> time option"
  le_parse :: "string \<Rightarrow> json option"
  le_joinChannels :: string
  le_networkCfg :: string

definition lounge_init :: lounge where
  "lounge_init = \<lparr>seenIDs = {}, maxSeenID = 0, morePages = (\<lambda>_. 0), primaryLobbyID = 0, netConnected = False,
     pendingJoins = [], joinedSet = {}, lastErrs = noErrs, published = [], emitted = []\<rparr>"

definition lounge_pushError :: "error \<Rightarrow> lounge \<Rightarrow> lounge" where
  "lounge_pushError e s = s\<lparr>lastErrs := ringPush e (lastErrs s)\<rparr>"

definition lounge_publish :: "loungeEnv \<Rightarrow> pubItem \<Rightarrow> lounge \<Rightarrow> lounge" where
  "lounge_publish env v s =
     (case le_pubfn env of
        None \<Rightarrow> s
      | Some f \<Rightarrow>
          (let s1 = s\<lparr>published := published s @ [v]\<rparr>
           in case f (length (published s)) of None \<Rightarrow> s1 | Some e \<Rightarrow> lounge_pushError e s1))"

text \<open>An emit of the client whose error, if any, the caller pushes.\<close>

definition lounge_emit :: "loungeEnv \<Rightarrow> string \<times> json \<Rightarrow> lounge \<Rightarrow> lounge" where
  "lounge_emit env c s =
     (let s1 = s\<lparr>emitted := emitted s @ [c]\<rparr>
      in case le_emit env (length (emitted s)) of None \<Rightarrow> s1 | Some e \<Rightarrow> lounge_pushError e s1)"

section \<open>Messages\<close>

definition seenKeepWindow :: int where "seenKeepWindow = 50000"
definition maxMoreBatchesPerChan :: int where "maxMoreBatchesPerChan = 5"

definition markSeen :: "int \<Rightarrow> lounge \<Rightarrow> lounge \<times> bool" where
  "markSeen i s =
     (if i \<in> seenIDs s then (s, False)
      else
        (let ids = insert i (seenIDs s); m = max (maxSeenID s) i;
             ids' = (if int (card ids) > seenKeepWindow
                     then Set.filter (\<lambda>k. \<not> k < m - seenKeepWindow) ids else ids)
         in (s\<lparr>seenIDs := ids', maxSeenID := m\<rparr>, True)))"

definition loungeUnifiedMsgType :: "string \<Rightarrow> string" where
  "loungeUnifiedMsgType t =
     (if t = ''action'' then ''action''
      else if t = ''join'' then MsgTypeJoin
      else if t = ''part'' \<or> t = ''quit'' \<or> t = ''kick'' then MsgTypeLeave
      else MsgTypeCreate)"

definition loungeMessageToUnified :: "loungeEnv \<Rightarrow> time \<Rightarrow> Message \<Rightarrow> int \<Rightarrow> json \<Rightarrow> UnifiedMessage option" where
  "loungeMessageToUnified env now m chanID raw =
     (let mt = loungeUnifiedMsgType (m_Type m);
          nick = (case m_From m of None \<Rightarrow> [] | Some u \<Rightarrow> uim_Nick u);
          ts = (if m_Time m = [] then now
                else case le_parseTime env (m_Time m) of None \<Rightarrow> now | Some t \<Rightarrow> t)
      in if m_Text m = [] \<and> mt \<noteq> MsgTypeJoin \<and> mt \<noteq> MsgTypeLeave then None
         else Some (zeroUM\<lparr>um_Protocol := ProtoIRCLounge, um_MsgType := mt, um_MsgID := m_MsgID m,
                      um_MsgFormat := FmtText, um_ChatID := itoa chanID, um_Text := m_Text m,
                      um_Timestamp := ts, um_Username := nick, um_UserID := nick, um_Raw := Some raw\<rparr>))"

definition emitLoungeMessage :: "loungeEnv \<Rightarrow> Message \<Rightarrow> int \<Rightarrow> json \<Rightarrow> lounge \<Rightarrow> lounge" where
  "emitLoungeMessage env m chanID raw s =
     (if m_Self m then s
      else
        (let (s1, fresh) = (if m_ID m \<noteq> 0 then markSeen (m_ID m) s else (s, True))
         in if \<not> fresh then s1
            else
              (let s2 = lounge_publish env (PubRaw raw) s1
               in case loungeMessageToUnified env (le_clock env (length (published s2))) m chanID raw of
                    None \<Rightarrow> s2
                  | Some um \<Rightarrow> lounge_publish env (PubUM um) s2)))"

section \<open>Joining channels\<close>

definition setPrimaryNetwork :: "Network \<Rightarrow> lounge \<Rightarrow> lounge" where
  "setPrimaryNetwork net s =
     (let lobbyID = (case List.find (\<lambda>c. ch_Type c = ChanLobby) (nw_Channels net) of
                       Some c \<Rightarrow> ch_ID c | None \<Rightarrow> 0);
          lobbyID = (if lobbyID = 0 \<and> nw_Channels net \<noteq> [] then ch_ID (hd (nw_Channels net)) else lobbyID);
          s = (if lobbyID \<noteq> 0 then s\<lparr>primaryLobbyID := lobbyID\<rparr> else s)
      in if nw_Connected net then s\<lparr>netConnected := True\<rparr> else s)"

definition queueJoin :: "string \<Rightarrow> lounge \<Rightarrow> lounge" where
  "queueJoin channel s = s\<lparr>pendingJoins := pendingJoins s @ [channel]\<rparr>"

definition flushPendingJoins :: "loungeEnv \<Rightarrow> lounge \<Rightarrow> lounge" where
  "flushPendingJoins env s =
     (if \<not> netConnected s \<or> primaryLobbyID s = 0 \<or> pendingJoins s = [] then s
      else foldl (\<lambda>s ch. lounge_emit env (Join (primaryLobbyID s) ch) s) (s\<lparr>pendingJoins := []\<rparr>) (pendingJoins s))"

definition wantChannel :: "string \<Rightarrow> lounge \<Rightarrow> lounge" where
  "wantChannel ch s =
     (if ch = [] \<or> ch \<in> joinedSet s then s
      else queueJoin ch (s\<lparr>joinedSet := insert ch (joinedSet s)\<rparr>))"

section \<open>Events\<close>

definition init_channel :: "loungeEnv \<Rightarrow> lounge \<Rightarrow> Channel \<Rightarrow> lounge" where
  "init_channel env s ch =
     (let s = foldl (\<lambda>s m. emitLoungeMessage env m (ch_ID ch) (synthMsgRaw (ch_ID ch) m) s) s (ch_Messages ch);
          s = (if ch_TotalMessages ch > int (length (ch_Messages ch)) \<and> ch_Messages ch \<noteq> []
               then lounge_emit env (RequestMore (ch_ID ch) (m_ID (hd (ch_Messages ch)))) s else s)
      in s\<lparr>joinedSet := insert (ch_Name ch) (joinedSet s)\<rparr>)"

definition init_network :: "loungeEnv \<Rightarrow> lounge \<Rightarrow> nat \<times> Network \<Rightarrow> lounge" where
  "init_network env s = (\<lambda>(i, net).
     (let s = (if i = 0 \<or> nw_Name net = fst (requested (le_parse env) (le_networkCfg env))
               then setPrimaryNetwork net s else s)
      in foldl (init_channel env) s (nw_Channels net)))"

definition create_network :: "loungeEnv \<Rightarrow> lounge \<Rightarrow> lounge" where
  "create_network env s =
     (let bad = le_networkCfg env \<noteq> [] \<and>
                unmarshal dec_networkConfig DefaultNetwork (le_parse env (le_networkCfg env)) = None;
          cfg = (if le_networkCfg env = [] then DefaultNetwork
                 else unmarshal_lax dec_networkConfig DefaultNetwork (le_parse env (le_networkCfg env)));
          s = (if bad then lounge_pushError ''invalid network config'' s else s);
          cfg = (if le_joinChannels env = [] then cfg
                 else cfg\<lparr>nc_Join := (if nc_Join cfg \<noteq> [] then nc_Join cfg @ '','' else []) @ le_joinChannels env\<rparr>)
      in lounge_emit env (CreateNetwork cfg) s)"

definition want_channels :: "loungeEnv \<Rightarrow> lounge \<Rightarrow> lounge" where
  "want_channels env s =
     (if le_joinChannels env = [] then s
      else foldl (\<lambda>s ch. wantChannel (trim_space ch) s) s (split_on CHR '','' (le_joinChannels env)))"

definition handle_init :: "loungeEnv \<Rightarrow> json option \<Rightarrow> lounge \<Rightarrow> lounge" where
  "handle_init env data s =
     (case unmarshal dec_init [] data of
        None \<Rightarrow> lounge_pushError ''init parse error'' s
      | Some nets \<Rightarrow>
          if nets = [] then create_network env s
          else flushPendingJoins env (want_channels env (foldl (init_network env) s (List.enumerate 0 nets))))"

definition handle_more :: "loungeEnv \<Rightarrow> json option \<Rightarrow> lounge \<Rightarrow> lounge" where
  "handle_more env data s =
     (case unmarshal dec_more (0, []) data of
        None \<Rightarrow> lounge_pushError ''parse more error'' s
      | Some (chan, ms) \<Rightarrow>
          (let s = foldl (\<lambda>s m. emitLoungeMessage env m chan (synthMsgRaw chan m) s) s ms
           in if length ms = 100 \<and> morePages s chan < maxMoreBatchesPerChan
              then lounge_emit env (RequestMore chan (m_ID (hd ms)))
                     (s\<lparr>morePages := (morePages s)(chan := morePages s chan + 1)\<rparr>)
              else s))"

definition lounge_event :: "loungeEnv \<Rightarrow> SioEvent \<Rightarrow> lounge \<Rightarrow> lounge" where
  "lounge_event env ev s =
     (if ev_Name ev = ''msg'' then
        (case unmarshal dec_msgEvent (zeroMessage, 0) (ev_Data ev) of
           None \<Rightarrow> lounge_pushError ''parse msg error'' s
         | Some (m, chan) \<Rightarrow> emitLoungeMessage env m chan (the (ev_Data ev)) s)
      else if ev_Name ev = ''init'' then handle_init env (ev_Data ev) s
      else if ev_Name ev = ''network:status'' then
        (case unmarshal dec_statusEvent False (ev_Data ev) of
           None \<Rightarrow> s
         | Some c \<Rightarrow> (let s = s\<lparr>netConnected := c\<rparr> in if c then flushPendingJoins env s else s))
      else if ev_Name ev = ''more'' then handle_more env (ev_Data ev) s
      else s)"

text \<open>The start of a round of \<open>pollLounge\<close>, before it connects.\<close>

definition lounge_reset :: "lounge \<Rightarrow> lounge" where
  "lounge_reset s = s\<lparr>morePages := (\<lambda>_. 0), primaryLobbyID := 0, netConnected := False, pendingJoins := []\<rparr>"

text \<open>A round: the reset and the events of the connection, none when it could not be made.\<close>

definition lounge_round :: "loungeEnv \<Rightarrow> error option \<times> SioEvent list \<Rightarrow> lounge \<Rightarrow> lounge" where
  "lounge_round env = (\<lambda>(connErr, evs) s.
     (case connErr of
        Some e \<Rightarrow> lounge_pushError e (lounge_reset s)
      | None \<Rightarrow> foldl (\<lambda>s ev. lounge_event env ev s) (lounge_reset s) evs))"

definition lounge_Send :: "(int \<Rightarrow> string \<Rightarrow> error option) option \<Rightarrow> string \<Rightarrow> string \<Rightarrow> error option" where
  "lounge_Send client to msg =
     (if to = [] \<or> msg = [] then Some ''irclounge: empty target or message''
      else case client of
        None \<Rightarrow> Some ''irclounge: not connected''
      | Some post \<Rightarrow>
          (case atoi to of
             None \<Rightarrow> Some (''irclounge: invalid channel ID '' @ to)
           | Some ch \<Rightarrow> post ch msg))"

section \<open>What every event preserves\<close>

text \<open>A property of the state that the elementary changes of the handlers preserve is preserved by whole
  rounds.\<close>

locale lounge_inv =
  fixes env :: loungeEnv and inv :: "lounge \<Rightarrow> bool"
  assumes errs: "inv s \<Longrightarrow> inv (s\<lparr>lastErrs := e\<rparr>)"
    and publish: "inv s \<Longrightarrow> inv (s\<lparr>published := p\<rparr>)"
    and create: "inv s \<Longrightarrow> inv (s\<lparr>emitted := emitted s @ [CreateNetwork cfg]\<rparr>)"
    and more: "inv s \<Longrightarrow> inv (s\<lparr>emitted := emitted s @ [RequestMore c i]\<rparr>)"
    and mark: "inv s \<Longrightarrow> inv (fst (markSeen i s))"
    and lobby: "inv s \<Longrightarrow> inv (s\<lparr>primaryLobbyID := n\<rparr>)"
    and net: "inv s \<Longrightarrow> inv (s\<lparr>netConnected := b\<rparr>)"
    and pages: "inv s \<Longrightarrow> inv (s\<lparr>morePages := f\<rparr>)"
    and known: "inv s \<Longrightarrow> inv (s\<lparr>joinedSet := insert ch (joinedSet s)\<rparr>)"
    and want: "inv s \<Longrightarrow> inv (wantChannel ch s)"
    and flush: "inv s \<Longrightarrow> inv (flushPendingJoins env s)"
    and drop: "inv s \<Longrightarrow> inv (s\<lparr>pendingJoins := []\<rparr>)"
begin

lemma fold_inv: "(\<And>x s. inv s \<Longrightarrow> inv (f s x)) \<Longrightarrow> inv s \<Longrightarrow> inv (foldl f s xs)"
  by (induction xs arbitrary: s) simp_all

lemma pushError_inv: "inv s \<Longrightarrow> inv (lounge_pushError e s)"
  by (simp add: lounge_pushError_def errs)

lemma publish_inv: "inv s \<Longrightarrow> inv (lounge_publish env v s)"
  by (simp add: lounge_publish_def Let_def publish pushError_inv split: option.splits)

lemma emit_more_inv: "inv s \<Longrightarrow> inv (lounge_emit env (RequestMore c i) s)"
  by (simp add: lounge_emit_def Let_def more pushError_inv split: option.splits)

lemma emit_create_inv: "inv s \<Longrightarrow> inv (lounge_emit env (CreateNetwork cfg) s)"
  by (simp add: lounge_emit_def Let_def create pushError_inv split: option.splits)

lemma message_inv: "inv s \<Longrightarrow> inv (emitLoungeMessage env m c raw s)"
proof -
  assume inv: "inv s"
  have "inv (fst (if m_ID m \<noteq> 0 then markSeen (m_ID m) s else (s, True)))" using inv mark by simp
  then show ?thesis using inv
    by (auto simp: emitLoungeMessage_def Let_def publish_inv split: prod.splits option.splits)
qed

lemma primary_inv: "inv s \<Longrightarrow> inv (setPrimaryNetwork net s)"
  by (simp add: setPrimaryNetwork_def Let_def lobby local.net split: option.splits)

lemma init_channel_inv: "inv s \<Longrightarrow> inv (init_channel env s ch)"
proof -
  assume inv: "inv s"
  have "inv (foldl (\<lambda>s m. emitLoungeMessage env m (ch_ID ch) (synthMsgRaw (ch_ID ch) m) s) s (ch_Messages ch))"
    by (rule fold_inv) (simp_all add: message_inv inv)
  then show ?thesis by (simp add: init_channel_def Let_def known emit_more_inv)
qed

lemma init_network_inv: "inv s \<Longrightarrow> inv (init_network env s x)"
  by (cases x) (simp add: init_network_def Let_def fold_inv init_channel_inv primary_inv)

lemma init_inv: "inv s \<Longrightarrow> inv (handle_init env data s)"
proof -
  assume inv: "inv s"
  have "inv (want_channels env (foldl (init_network env) s xs))" for xs
    by (simp add: want_channels_def fold_inv init_network_inv want inv)
  then show ?thesis using inv
    by (auto simp: handle_init_def flush pushError_inv create_network_def Let_def emit_create_inv split: option.splits)
qed

lemma more_inv: "inv s \<Longrightarrow> inv (handle_more env data s)"
  by (auto simp: handle_more_def Let_def pushError_inv emit_more_inv pages fold_inv message_inv split: option.splits)

lemma event_inv: "inv s \<Longrightarrow> inv (lounge_event env ev s)"
  by (auto simp: lounge_event_def Let_def pushError_inv message_inv init_inv more_inv local.net flush split: option.splits)

lemma reset_inv: "inv s \<Longrightarrow> inv (lounge_reset s)"
  unfolding lounge_reset_def by (intro drop local.net lobby pages)

lemma round_inv: "inv s \<Longrightarrow> inv (lounge_round env r s)"
  by (cases r; cases "fst r") (simp_all add: lounge_round_def pushError_inv reset_inv fold_inv event_inv)

lemma rounds_inv: "inv s \<Longrightarrow> inv (foldl (\<lambda>s r. lounge_round env r s) s rs)"
  by (rule fold_inv) (simp_all add: round_inv)

end

section \<open>Messages are published once\<close>

text \<open>The seen numbers after the numbers \<open>L\<close>, in this order: only numbers that are more than the window below
  the largest have been forgotten.\<close>

definition seen_after :: "int list \<Rightarrow> lounge \<Rightarrow> bool" where
  "seen_after L s \<longleftrightarrow> finite (seenIDs s) \<and> seenIDs s \<subseteq> set L \<and> maxSeenID s = foldl max 0 L \<and>
     (\<forall>k\<in>set L. k \<notin> seenIDs s \<longrightarrow> k < maxSeenID s - seenKeepWindow) \<and> card (seenIDs s) \<le> 50001"

lemma foldl_max_ge: "k \<in> set L \<Longrightarrow> k \<le> foldl max (a :: int) L" "a \<le> foldl max a L"
proof (induction L arbitrary: a)
  case (Cons x L)
  { case 1 then show ?case using Cons.IH(1)[of "max a x"] Cons.IH(2)[of "max a x"] by auto }
  { case 2 then show ?case using Cons.IH(2)[of "max a x"] by simp }
qed simp_all

lemma foldl_max_in: "foldl max (a :: int) L = a \<or> foldl max a L \<in> set L"
proof (induction L arbitrary: a)
  case (Cons x L)
  then show ?case using Cons[of "max a x"] by (auto simp: max_def split: if_splits)
qed simp

lemma markSeen_after:
  assumes inv: "seen_after L s"
  shows "seen_after (L @ [i]) (fst (markSeen i s))" and "snd (markSeen i s) \<longleftrightarrow> i \<notin> seenIDs s"
proof -
  show "snd (markSeen i s) \<longleftrightarrow> i \<notin> seenIDs s" by (simp add: markSeen_def Let_def)
  show "seen_after (L @ [i]) (fst (markSeen i s))"
  proof (cases "i \<in> seenIDs s")
    case True
    then have "max (foldl max 0 L) i = foldl max 0 L"
      using inv foldl_max_ge(1)[of i L 0] by (auto simp: seen_after_def max_def)
    then show ?thesis using True inv by (auto simp: markSeen_def seen_after_def)
  next
    case False
    let ?ids = "insert i (seenIDs s)" and ?m = "max (maxSeenID s) i"
    have le: "k \<le> ?m" if "k \<in> ?ids" for k
      using that inv foldl_max_ge(1)[of k L 0] by (auto simp: seen_after_def max_def)
    have old: "k < ?m - seenKeepWindow" if "k \<in> set L" "k \<notin> seenIDs s" for k
      using that inv by (fastforce simp: seen_after_def max_def)
    have fin: "finite ?ids" using inv by (simp add: seen_after_def)
    show ?thesis
    proof (cases "int (card ?ids) > seenKeepWindow")
      case True
      let ?kept = "Set.filter (\<lambda>k. \<not> k < ?m - seenKeepWindow) ?ids"
      have "?kept \<subseteq> {?m - seenKeepWindow .. ?m}" using le by auto
      then have "card ?kept \<le> card {?m - seenKeepWindow .. ?m}" by (intro card_mono) simp_all
      then have "card ?kept \<le> 50001" by (simp add: seenKeepWindow_def)
      then show ?thesis using False True inv fin old
        by (auto simp: markSeen_def Let_def seen_after_def)
    next
      case small: False
      then show ?thesis using False inv fin old
        by (auto simp: markSeen_def Let_def seen_after_def seenKeepWindow_def)
    qed
  qed
qed

definition counted :: "Message \<Rightarrow> bool" where
  "counted m \<longleftrightarrow> \<not> m_Self m \<and> m_ID m \<noteq> 0"

type_synonym delivery = "Message \<times> int \<times> json"

definition emit_messages :: "loungeEnv \<Rightarrow> delivery list \<Rightarrow> lounge \<Rightarrow> lounge" where
  "emit_messages env ms s = foldl (\<lambda>s (m, c, raw). emitLoungeMessage env m c raw s) s ms"

definition numbers :: "delivery list \<Rightarrow> int list" where
  "numbers ms = map (m_ID \<circ> fst) (filter (counted \<circ> fst) ms)"

lemma publish_seen [frame_simps]:
  "seenIDs (lounge_publish env v s) = seenIDs s" "maxSeenID (lounge_publish env v s) = maxSeenID s"
  by (auto simp: lounge_publish_def Let_def lounge_pushError_def split: option.splits)

lemma emit_message_seen:
  "seenIDs (emitLoungeMessage env m c raw s) = (if counted m then seenIDs (fst (markSeen (m_ID m) s)) else seenIDs s)"
  "maxSeenID (emitLoungeMessage env m c raw s) = (if counted m then maxSeenID (fst (markSeen (m_ID m) s)) else maxSeenID s)"
  by (auto simp: emitLoungeMessage_def Let_def counted_def frame_simps split: prod.splits option.splits)

lemma seen_after_cong: "seen_after L s \<Longrightarrow> seenIDs t = seenIDs s \<Longrightarrow> maxSeenID t = maxSeenID s \<Longrightarrow> seen_after L t"
  unfolding seen_after_def by (elim conjE; intro conjI; simp)

lemma emit_message_after:
  assumes "seen_after L s"
  shows "seen_after (L @ (if counted m then [m_ID m] else [])) (emitLoungeMessage env m c raw s)"
proof (cases "counted m")
  case True
  show ?thesis
    by (rule seen_after_cong[where s = "fst (markSeen (m_ID m) s)"])
       (simp_all add: True markSeen_after(1)[OF assms] emit_message_seen)
next
  case False
  then show ?thesis using seen_after_cong[OF assms] by (simp add: emit_message_seen)
qed

lemma emit_messages_after: "seen_after L s \<Longrightarrow> seen_after (L @ numbers ms) (emit_messages env ms s)"
proof (induction ms arbitrary: L s)
  case (Cons x ms)
  obtain m c raw where x: "x = (m, c, raw)" by (cases x)
  from Cons.IH[OF emit_message_after[OF Cons.prems, of m env c raw]] show ?case
    by (cases "counted m") (simp_all add: x numbers_def emit_messages_def)
qed (simp add: numbers_def emit_messages_def)

lemma seen_after_init: "seen_after [] lounge_init"
  by (simp add: seen_after_def lounge_init_def)

lemma published_grows:
  assumes "le_pubfn env = Some f" and "counted m"
  shows "published (emitLoungeMessage env m c raw s) \<noteq> published s \<longleftrightarrow> m_ID m \<notin> seenIDs s"
proof -
  have pub: "published (lounge_publish env v t) = published t @ [v]" for v t
    using assms(1) by (auto simp: lounge_publish_def Let_def lounge_pushError_def split: option.splits)
  have mark: "published (fst (markSeen (m_ID m) s)) = published s" by (simp add: markSeen_def Let_def)
  have fresh: "snd (markSeen (m_ID m) s) \<longleftrightarrow> m_ID m \<notin> seenIDs s" by (simp add: markSeen_def Let_def)
  show ?thesis
    using assms(2) mark fresh
    by (cases "markSeen (m_ID m) s") (auto simp: emitLoungeMessage_def Let_def counted_def pub split: option.splits)
qed

text \<open>C18: Whatever messages the server sends, and resends as history, a numbered message of somebody else is
  published the first time its number occurs; one whose number occurred before is published again
  only when the largest number seen is more than 50000 above it; the numbers remembered never
  exceed 50001; and the number the next connection asks to resume from is the largest one seen.\<close>

theorem lounge_published_once:
  fixes ms :: "delivery list"
  assumes "le_pubfn env = Some f" and "j < length ms" and "counted (fst (ms ! j))"
  defines "before i \<equiv> emit_messages env (take i ms) lounge_init"
    and "n \<equiv> m_ID (fst (ms ! j))" and "earlier \<equiv> numbers (take j ms)"
  shows "(n \<notin> set earlier \<longrightarrow> published (before (Suc j)) \<noteq> published (before j)) \<and>
    (n \<in> set earlier \<and> published (before (Suc j)) \<noteq> published (before j) \<longrightarrow> n + 50000 < foldl max 0 earlier) \<and>
    card (seenIDs (before j)) \<le> 50001 \<and> maxSeenID (before j) = foldl max 0 earlier"
proof -
  obtain m c raw where x: "ms ! j = (m, c, raw)" by (cases "ms ! j")
  have inv: "seen_after earlier (before j)"
    using emit_messages_after[OF seen_after_init, of "take j ms" env] by (simp add: earlier_def before_def)
  have step: "before (Suc j) = emitLoungeMessage env m c raw (before j)"
    using assms(2) x by (simp add: before_def emit_messages_def take_Suc_conv_app_nth)
  have grows: "published (before (Suc j)) \<noteq> published (before j) \<longleftrightarrow> n \<notin> seenIDs (before j)"
    unfolding step using published_grows[OF assms(1)] assms(3) x by (simp add: n_def)
  show ?thesis unfolding grows using inv by (auto simp: seen_after_def seenKeepWindow_def)
qed

definition lenv0 :: loungeEnv where
  "lenv0 = \<lparr>le_pubfn = Some (\<lambda>_. None), le_emit = (\<lambda>_. None), le_clock = int, le_parseTime = (\<lambda>_. None),
     le_parse = (\<lambda>_. None), le_joinChannels = ''#a'', le_networkCfg = []\<rparr>"

definition msg0 :: "int \<Rightarrow> delivery" where
  "msg0 n = (zeroMessage\<lparr>m_ID := n, m_Text := ''hi''\<rparr>, 1, JNull)"

lemma lounge_published_once_witness:
  "published (emit_messages lenv0 (take 2 [msg0 7, msg0 7]) lounge_init) = published (emit_messages lenv0 (take 1 [msg0 7, msg0 7]) lounge_init)"
proof -
  have "(7::int) \<in> set (numbers (take 1 [msg0 7, msg0 7])) \<and> \<not> 7 + 50000 < foldl max 0 (numbers (take 1 [msg0 7, msg0 7]))"
    by code_simp
  then show ?thesis
    using lounge_published_once[of lenv0 "\<lambda>_. None" 1 "[msg0 7, msg0 7]"]
    by (simp add: lenv0_def msg0_def counted_def zeroMessage_def numeral_2_eq_2)
qed

section \<open>Channels are joined once\<close>

text \<open>The channel an emit joins, as the server reads it.\<close>

definition join_of :: "string \<times> json \<Rightarrow> string option" where
  "join_of c =
     (if fst c = ''input'' then
        (case jget (snd c) ''text'' of
           Some (JStr t) \<Rightarrow> if has_prefix t ''/join '' then Some (drop 6 t) else None
         | _ \<Rightarrow> None)
      else None)"

definition joins :: "lounge \<Rightarrow> string list" where
  "joins s = List.map_filter join_of (emitted s)"

lemma map_filter_append [simp]: "List.map_filter f (xs @ ys) = List.map_filter f xs @ List.map_filter f ys"
  by (simp add: List.map_filter_def)

lemma join_of_emits [simp]:
  "join_of (Join l ch) = Some ch" "join_of (RequestMore c i) = None" "join_of (CreateNetwork cfg) = None"
  by (simp_all add: join_of_def Join_def RequestMore_def CreateNetwork_def input_json_def has_prefix_def)

lemma emit_fields [frame_simps]:
  "pendingJoins (lounge_emit env c s) = pendingJoins s" "joinedSet (lounge_emit env c s) = joinedSet s"
  "primaryLobbyID (lounge_emit env c s) = primaryLobbyID s" "emitted (lounge_emit env c s) = emitted s @ [c]"
  "netConnected (lounge_emit env c s) = netConnected s"
  by (auto simp: lounge_emit_def Let_def lounge_pushError_def split: option.splits)

lemma flush_fold:
  defines "joined env s chs \<equiv> foldl (\<lambda>s ch. lounge_emit env (Join (primaryLobbyID s) ch) s) s chs"
  shows "pendingJoins (joined env s chs) = pendingJoins s \<and> joinedSet (joined env s chs) = joinedSet s \<and>
    joins (joined env s chs) = joins s @ chs"
proof (induction chs arbitrary: s)
  case (Cons ch chs)
  have "joins (lounge_emit env (Join (primaryLobbyID s) ch) s) = joins s @ [ch]"
    by (simp add: joins_def frame_simps List.map_filter_simps)
  then show ?case using Cons[of "lounge_emit env (Join (primaryLobbyID s) ch) s"] by (simp add: joined_def frame_simps)
qed (simp add: joined_def)

lemma flush_joins:
  "joins (flushPendingJoins env s) @ pendingJoins (flushPendingJoins env s) = joins s @ pendingJoins s"
  "joinedSet (flushPendingJoins env s) = joinedSet s"
  "set (pendingJoins (flushPendingJoins env s)) \<subseteq> set (pendingJoins s)"
  using flush_fold[of env "s\<lparr>pendingJoins := []\<rparr>" "pendingJoins s"]
  by (auto simp: flushPendingJoins_def joins_def)

lemma want_joins:
  "joins (wantChannel ch s) = joins s"
  "pendingJoins (wantChannel ch s) = (if ch = [] \<or> ch \<in> joinedSet s then pendingJoins s else pendingJoins s @ [ch])"
  "joinedSet (wantChannel ch s) = (if ch = [] then joinedSet s else insert ch (joinedSet s))"
  by (auto simp: wantChannel_def queueJoin_def joins_def)

definition joins_ok :: "lounge \<Rightarrow> bool" where
  "joins_ok s \<longleftrightarrow> distinct (joins s @ pendingJoins s) \<and> set (joins s @ pendingJoins s) \<subseteq> joinedSet s"

definition known_fixed :: "string \<Rightarrow> string list \<Rightarrow> lounge \<Rightarrow> bool" where
  "known_fixed ch js s \<longleftrightarrow> ch \<in> joinedSet s \<and> ch \<notin> set (pendingJoins s) \<and> filter (\<lambda>c. c = ch) (joins s) = js"

lemma markSeen_fields [frame_simps]:
  "pendingJoins (fst (markSeen i s)) = pendingJoins s" "joinedSet (fst (markSeen i s)) = joinedSet s"
  "emitted (fst (markSeen i s)) = emitted s" "morePages (fst (markSeen i s)) = morePages s"
  by (simp_all add: markSeen_def Let_def)

interpretation joins_kept: lounge_inv env joins_ok for env
proof
  fix s ch assume ok: "joins_ok s"
  show "joins_ok (wantChannel ch s)" using ok by (auto simp: joins_ok_def want_joins)
  show "joins_ok (flushPendingJoins env s)" using ok unfolding joins_ok_def flush_joins .
qed (auto simp: joins_ok_def joins_def frame_simps List.map_filter_simps)

lemma filter_notin: "c \<notin> set xs \<Longrightarrow> filter (\<lambda>x. x = c) xs = []"
  by (auto simp: filter_empty_conv)

interpretation known_kept: lounge_inv env "known_fixed ch js" for env ch js
proof
  fix s c assume ok: "known_fixed ch js s"
  show "known_fixed ch js (wantChannel c s)" using ok by (auto simp: known_fixed_def want_joins)
  have "filter (\<lambda>c. c = ch) (joins (flushPendingJoins env s) @ pendingJoins (flushPendingJoins env s)) =
        filter (\<lambda>c. c = ch) (joins s @ pendingJoins s)"
    by (simp only: flush_joins)
  then show "known_fixed ch js (flushPendingJoins env s)"
    using ok flush_joins(2,3)[of env s] by (auto simp: known_fixed_def filter_empty_conv filter_notin)
qed (auto simp: known_fixed_def joins_def frame_simps List.map_filter_simps)

interpretation seen_kept: lounge_inv env "\<lambda>s. \<exists>L. seen_after L s" for env
proof
  fix s i assume "\<exists>L. seen_after L s"
  then show "\<exists>L. seen_after L (fst (markSeen i s))" using markSeen_after(1) by blast
next
  fix s ch assume s: "\<exists>L. seen_after L s"
  have "seenIDs (foldl (\<lambda>s ch. lounge_emit env (Join (primaryLobbyID s) ch) s) t chs) = seenIDs t \<and>
    maxSeenID (foldl (\<lambda>s ch. lounge_emit env (Join (primaryLobbyID s) ch) s) t chs) = maxSeenID t" for t chs
    by (induction chs arbitrary: t) (auto simp: lounge_emit_def Let_def lounge_pushError_def split: option.splits)
  then have "seenIDs (flushPendingJoins env s) = seenIDs s \<and> maxSeenID (flushPendingJoins env s) = maxSeenID s"
    by (simp add: flushPendingJoins_def)
  then show "\<exists>L. seen_after L (flushPendingJoins env s)" using s seen_after_cong by blast
  have "seenIDs (wantChannel ch s) = seenIDs s \<and> maxSeenID (wantChannel ch s) = maxSeenID s"
    by (simp add: wantChannel_def queueJoin_def)
  then show "\<exists>L. seen_after L (wantChannel ch s)" using s seen_after_cong by blast
qed (auto simp: seen_after_def)

definition lounge_rounds :: "loungeEnv \<Rightarrow> (error option \<times> SioEvent list) list \<Rightarrow> lounge \<Rightarrow> lounge" where
  "lounge_rounds env rs s = foldl (\<lambda>s r. lounge_round env r s) s rs"

text \<open>C19: In every state the bridge reaches over any number of connections, the channels it joined and those
  it still has to join are distinct and all recorded as joined, and at most 50001 message numbers
  are remembered.\<close>

theorem lounge_invariant:
  fixes env :: loungeEnv and rs :: "(error option \<times> SioEvent list) list"
  defines "s \<equiv> lounge_rounds env rs lounge_init"
  shows "distinct (joins s @ pendingJoins s) \<and> set (joins s @ pendingJoins s) \<subseteq> joinedSet s \<and>
    card (seenIDs s) \<le> 50001"
proof -
  have "joins_ok lounge_init" by (simp add: joins_ok_def lounge_init_def joins_def List.map_filter_simps)
  then have "joins_ok s" unfolding s_def lounge_rounds_def by (rule joins_kept.rounds_inv)
  moreover have "\<exists>L. seen_after L s"
    unfolding s_def lounge_rounds_def by (rule seen_kept.rounds_inv) (use seen_after_init in blast)
  ultimately show ?thesis by (auto simp: joins_ok_def seen_after_def)
qed

text \<open>A channel that is recorded as joined is never joined again. It is recorded when its join is queued,
  and a new connection drops the queue: a wanted channel whose network was not up before the
  connection broke is not joined by any later connection.\<close>

theorem lounge_queued_join_lost:
  assumes "ch \<in> joinedSet s"
  shows "filter (\<lambda>c. c = ch) (joins (lounge_rounds env rs (lounge_reset s))) = filter (\<lambda>c. c = ch) (joins s)"
proof -
  have "known_fixed ch (filter (\<lambda>c. c = ch) (joins s)) (lounge_reset s)"
    using assms by (simp add: known_fixed_def lounge_reset_def joins_def)
  from known_kept.rounds_inv[OF this, of env rs] show ?thesis
    by (simp add: known_fixed_def lounge_rounds_def)
qed

text \<open>A server with one network and its lobby, connected or not.\<close>

definition init_ev :: "bool \<Rightarrow> SioEvent" where
  "init_ev up = \<lparr>ev_Name = ''init'', ev_Data = Some (JObj [(''networks'', JArr [JObj
     [(''name'', JStr ''n''), (''status'', JObj [(''connected'', JBoolean up)]),
      (''channels'', JArr [JObj [(''id'', JNum ''1''), (''name'', JStr ''lobby''), (''type'', JStr ''lobby'')]])]])])\<rparr>"

definition net0 :: "bool \<Rightarrow> Network" where
  "net0 up = \<lparr>nw_Name = ''n'', nw_Connected = up, nw_Channels = [zeroChannel\<lparr>ch_ID := 1, ch_Name := ''lobby'', ch_Type := ''lobby''\<rparr>]\<rparr>"

lemma init_ev_nets: "unmarshal dec_init [] (ev_Data (init_ev False)) = Some [net0 False]"
  "unmarshal dec_init [] (ev_Data (init_ev True)) = Some [net0 True]"
  by (code_simp, code_simp)

lemma want0: "split_on CHR '','' ''#a'' = [''#a'']" "trim_space ''#a'' = ''#a''" by (code_simp, code_simp)

lemma round0:
  "unmarshal dec_init [] (ev_Data (init_ev up)) = Some [net0 up] \<Longrightarrow>
   lounge_round lenv0 (None, [init_ev up]) s = flushPendingJoins lenv0 (want_channels lenv0 (init_network lenv0 (lounge_reset s) (0, net0 up)))"
  by (simp add: lounge_round_def lounge_event_def handle_init_def init_ev_def)

lemma round0_down: "lounge_round lenv0 (None, [init_ev False]) lounge_init =
    lounge_init\<lparr>joinedSet := {''#a'', ''lobby''}, primaryLobbyID := 1, pendingJoins := [''#a'']\<rparr>"
  unfolding round0[OF init_ev_nets(1)]
  by (simp add: init_network_def net0_def setPrimaryNetwork_def init_channel_def zeroChannel_def ChanLobby_def
      lounge_reset_def lounge_init_def want_channels_def want0 wantChannel_def queueJoin_def flushPendingJoins_def lenv0_def)
lemma round0_up: "joins (lounge_round lenv0 (None, [init_ev True]) lounge_init) = [''#a'']"
  unfolding round0[OF init_ev_nets(2)]
  by (simp add: init_network_def net0_def setPrimaryNetwork_def init_channel_def zeroChannel_def ChanLobby_def
      lounge_reset_def lounge_init_def want_channels_def want0 wantChannel_def queueJoin_def flushPendingJoins_def lenv0_def
      joins_def frame_simps List.map_filter_simps)

lemma lounge_queued_join_lost_witness:
  defines "s \<equiv> lounge_round lenv0 (None, [init_ev False]) lounge_init"
  shows "pendingJoins s = [''#a''] \<and> joins (lounge_round lenv0 (None, [init_ev True]) lounge_init) = [''#a''] \<and>
    filter (\<lambda>c. c = ''#a'') (joins (lounge_rounds lenv0 [(None, [init_ev True])] (lounge_reset s))) = []"
proof -
  have s: "pendingJoins s = [''#a'']" "''#a'' \<in> joinedSet s" "joins s = []"
    unfolding s_def round0_down by (simp_all add: lounge_init_def joins_def List.map_filter_simps)
  then show ?thesis using round0_up lounge_queued_join_lost[OF s(2)] by simp
qed

section \<open>History is asked for a bounded number of times\<close>

definition more_for :: "int \<Rightarrow> string \<times> json \<Rightarrow> bool" where
  "more_for c e \<longleftrightarrow> fst e = ''more'' \<and> jget (snd e) ''target'' = Some (JNum (itoa c))"

definition asked :: "int \<Rightarrow> lounge \<Rightarrow> int" where
  "asked c s = int (length (filter (more_for c) (emitted s)))"

lemma more_for_emits [simp]:
  "more_for c (Join l ch) = False" "more_for c (CreateNetwork cfg) = False" "more_for c (RequestMore d i) \<longleftrightarrow> c = d"
  by (auto simp: more_for_def Join_def CreateNetwork_def RequestMore_def itoa_inj)

lemma publish_frame [frame_simps]:
  "emitted (lounge_publish env v s) = emitted s" "morePages (lounge_publish env v s) = morePages s"
  by (auto simp: lounge_publish_def Let_def lounge_pushError_def split: option.splits)

lemma lounge_pushError_frame [frame_simps]:
  "emitted (lounge_pushError e s) = emitted s" "morePages (lounge_pushError e s) = morePages s"
  by (simp_all add: lounge_pushError_def)

lemma emit_message_frame [frame_simps]:
  "emitted (emitLoungeMessage env m c raw s) = emitted s" "morePages (emitLoungeMessage env m c raw s) = morePages s"
  using markSeen_fields(3,4)[of "m_ID m" s]
  by (cases "markSeen (m_ID m) s"; auto simp: emitLoungeMessage_def Let_def frame_simps split: option.splits)+

lemma emit_fold_frame [frame_simps]:
  "emitted (foldl (\<lambda>s m. emitLoungeMessage env m c (r m) s) s ms) = emitted s"
  "morePages (foldl (\<lambda>s m. emitLoungeMessage env m c (r m) s) s ms) = morePages s"
  by (induction ms arbitrary: s) (simp_all add: frame_simps)

lemma flush_frame:
  "morePages (flushPendingJoins env s) = morePages s \<and> asked c (flushPendingJoins env s) = asked c s"
proof -
  have "morePages (foldl (\<lambda>s ch. lounge_emit env (Join (primaryLobbyID s) ch) s) t chs) = morePages t \<and>
     asked c (foldl (\<lambda>s ch. lounge_emit env (Join (primaryLobbyID s) ch) s) t chs) = asked c t" for t chs
    by (induction chs arbitrary: t) (auto simp: lounge_emit_def Let_def lounge_pushError_def asked_def split: option.splits)
  then show ?thesis by (auto simp: flushPendingJoins_def asked_def)
qed

definition asked_ok :: "int \<Rightarrow> int \<Rightarrow> lounge \<Rightarrow> bool" where
  "asked_ok c n s \<longleftrightarrow> asked c s = n + morePages s c \<and> morePages s c \<le> maxMoreBatchesPerChan"

lemma asked_cong: "asked_ok c n s \<Longrightarrow> emitted t = emitted s \<Longrightarrow> morePages t = morePages s \<Longrightarrow> asked_ok c n t"
  by (simp add: asked_ok_def asked_def)

lemma emit_asked:
  "asked c (lounge_emit env (RequestMore d i) s) = asked c s + (if c = d then 1 else 0)"
  "morePages (lounge_emit env (RequestMore d i) s) = morePages s"
  by (auto simp: lounge_emit_def Let_def lounge_pushError_def asked_def split: option.splits)

lemma more_asked: "asked_ok c n s \<Longrightarrow> asked_ok c n (handle_more env data s)"
proof -
  assume ok: "asked_ok c n s"
  show ?thesis
  proof (cases "unmarshal dec_more (0, []) data")
    case None
    then show ?thesis using asked_cong[OF ok] by (simp add: handle_more_def frame_simps)
  next
    case (Some x)
    obtain chan ms where x: "x = (chan, ms)" by (cases x)
    define t where "t = foldl (\<lambda>s m. emitLoungeMessage env m chan (synthMsgRaw chan m) s) s ms"
    have t: "asked_ok c n t" using asked_cong[OF ok, of t] by (simp add: t_def frame_simps)
    have "handle_more env data s = (if length ms = 100 \<and> morePages t chan < maxMoreBatchesPerChan
        then lounge_emit env (RequestMore chan (m_ID (hd ms))) (t\<lparr>morePages := (morePages t)(chan := morePages t chan + 1)\<rparr>) else t)"
      by (simp add: handle_more_def Some x Let_def t_def)
    then show ?thesis using t by (auto simp: asked_ok_def emit_asked) (auto simp: asked_def)
  qed
qed

lemma event_asked:
  assumes "asked_ok c n s" and "ev_Name ev \<noteq> ''init''"
  shows "asked_ok c n (lounge_event env ev s)"
proof -
  have "asked_ok c n (s\<lparr>netConnected := b\<rparr>)" for b using assms(1) by (simp add: asked_ok_def asked_def)
  then have "asked_ok c n (flushPendingJoins env (s\<lparr>netConnected := b\<rparr>))" "asked_ok c n (s\<lparr>netConnected := b\<rparr>)" for b
    using flush_frame[of env "s\<lparr>netConnected := b\<rparr>" c] by (auto simp: asked_ok_def)
  moreover have "asked_ok c n (emitLoungeMessage env m d raw s)" "asked_ok c n (lounge_pushError e s)" for m d raw e
    using asked_cong[OF assms(1)] by (simp_all add: frame_simps)
  ultimately show ?thesis
    using assms more_asked[OF assms(1), of env "ev_Data ev"]
    by (auto simp: lounge_event_def Let_def split: option.splits)
qed

text \<open>Over one connection the bridge answers \<open>more\<close> events with at most five requests for older messages
  of a channel, whatever the server sends: the paging ends.\<close>

theorem lounge_more_bounded:
  assumes "list_all (\<lambda>e. ev_Name e \<noteq> ''init'') evs"
  shows "asked c (lounge_round env (None, evs) s) \<le> asked c s + 5"
proof -
  have "asked_ok c (asked c s) (lounge_reset s)"
    by (simp add: asked_ok_def asked_def lounge_reset_def maxMoreBatchesPerChan_def)
  then have "asked_ok c (asked c s) (foldl (\<lambda>s ev. lounge_event env ev s) (lounge_reset s) evs)"
    using assms event_asked by (induction evs rule: rev_induct) simp_all
  then show ?thesis by (simp add: lounge_round_def asked_ok_def maxMoreBatchesPerChan_def)
qed

definition page_ev :: SioEvent where
  "page_ev = \<lparr>ev_Name = ''more'', ev_Data = Some (JObj [(''chan'', JNum ''1''), (''messages'', JArr (replicate 100 (JObj [])))])\<rparr>"

lemma lounge_more_bounded_witness:
  "asked 1 (lounge_round lenv0 (None, replicate 7 page_ev) lounge_init) \<le> asked 1 lounge_init + 5"
  by (rule lounge_more_bounded) (simp add: page_ev_def list_all_iff)

section \<open>The login\<close>

lemma split2_from_found:
  assumes "c \<notin> set u" and "length p \<le> n" and "n \<le> length p + length u" and "p \<noteq> []"
  shows "split2_from n (u @ [c] @ p) [c] = [u, p]"
  using assms(2,3)
proof (induction n)
  case 0
  then show ?case using assms(4) by simp
next
  case (Suc n)
  let ?i = "length u + length p - Suc n"
  show ?case
  proof (cases "length p \<le> n")
    case True
    then have "?i < length u" using Suc.prems by simp
    then have "take 1 (drop ?i (u @ [c] @ p)) \<noteq> [c]"
      using assms(1) nth_mem[of ?i u] by (auto simp: take_Suc_conv_app_nth hd_drop_conv_nth take_Suc)
    then show ?thesis using Suc True by (simp add: Let_def)
  next
    case False
    then have "length p = Suc n" using Suc.prems by simp
    then show ?thesis by (simp add: Let_def)
  qed
qed

lemma split2_from_none:
  assumes "c \<notin> set u" and "n \<le> length u"
  shows "split2_from n (u @ [c]) [c] = []"
  using assms(2)
proof (induction n)
  case (Suc n)
  let ?i = "length u - Suc n"
  have "take 1 (drop ?i (u @ [c])) \<noteq> [c]"
    using assms(1) Suc.prems nth_mem[of ?i u] by (auto simp: take_Suc hd_drop_conv_nth nth_append)
  then show ?case using Suc by (simp add: Let_def)
qed simp

text \<open>The login setting is cut at its first colon, and a password may hold colons; but with an empty
  password the user name is lost as well, because \<open>split2\<close> does not try the last position.\<close>

theorem lounge_login_cut:
  assumes "CHR '':'' \<notin> set u"
  shows "lounge_login (u @ '':'' @ p) = (if p = [] then ([], []) else (u, p))"
  using split2_from_found[OF assms, of p "length u + length p"] split2_from_none[OF assms, of "length u"]
  by (simp add: lounge_login_def split2_def)

lemma lounge_login_cut_witness: "lounge_login ''me:'' = ([], []) \<and> lounge_login ''me:a:b'' = (''me'', ''a:b'')"
  using lounge_login_cut[of "''me''" "[]"] lounge_login_cut[of "''me''" "''a:b''"] by simp

end
