(* ===== verification/Gomuks.thy ===== *)
theory Gomuks
  imports Unimessage Dispatch
begin

text \<open>
  The gomuks bridge, \<open>src/fbprotocols/gomuks/gomuks_websocket.go\<close>: unified messages from the sync
  events of the gomuks back end, the requests it is sent, and the messages of its websocket with
  the state a connection resumes from. The threads that share this state are in \<open>Gomuks_Send\<close>.
  Go maps are iterated in any order; the functions that do so take the orders as arguments.
\<close>

section \<open>Sync events\<close>

record chanCacheEntry =
  cc_Name :: string
  cc_Icon :: string
  cc_Topic :: string

record usrCacheEntry =
  uc_Nick :: string
  uc_Icon :: string
  uc_Topic :: string

record gmCaches =
  chanCache :: "string \<Rightarrow> chanCacheEntry"
  usrCache :: "string \<Rightarrow> usrCacheEntry"

definition noCaches :: gmCaches where
  "noCaches = \<lparr>chanCache = (\<lambda>_. \<lparr>cc_Name = [], cc_Icon = [], cc_Topic = []\<rparr>),
     usrCache = (\<lambda>_. \<lparr>uc_Nick = [], uc_Icon = [], uc_Topic = []\<rparr>)\<rparr>"

record gmRoom =
  rm_Name :: "string option"
  rm_Avatar :: "string option"
  rm_Events :: "json list"

definition zeroRoom :: gmRoom where
  "zeroRoom = \<lparr>rm_Name = None, rm_Avatar = None, rm_Events = []\<rparr>"

definition raw_elem :: "json decoder" where
  "raw_elem old j = (j, True)"

definition dec_meta :: "gmRoom decoder" where
  "dec_meta = dec_struct
     [(''name'', on rm_Name rm_Name_update (dec_ptr [] dec_string)),
      (''avatar'', on rm_Avatar rm_Avatar_update (dec_ptr [] dec_string))]"

definition dec_room :: "gmRoom decoder" where
  "dec_room = dec_struct
     [(''meta'', dec_meta), (''events'', on rm_Events rm_Events_update (dec_list JNull raw_elem))]"

definition dec_sync :: "(string \<rightharpoonup> gmRoom) decoder" where
  "dec_sync = dec_struct [(''rooms'', dec_map zeroRoom dec_room)]"

record gmMember =
  mb_Type :: string
  mb_StateKey :: "string option"
  mb_Content :: "json option"

definition dec_member :: "gmMember decoder" where
  "dec_member = dec_struct
     [(''sender'', checked [] dec_string), (''type'', on mb_Type mb_Type_update dec_string),
      (''state_key'', on mb_StateKey mb_StateKey_update (dec_ptr [] dec_string)),
      (''content'', on mb_Content mb_Content_update dec_raw)]"

definition dec_memberContent :: "(string \<times> string) decoder" where
  "dec_memberContent = dec_struct [(''displayname'', on fst apfst dec_string), (''avatar_url'', on snd apsnd dec_string)]"

record gmEvent =
  ge_EventID :: string
  ge_Sender :: string
  ge_Type :: string
  ge_Timestamp :: int
  ge_Content :: "json option"
  ge_Decrypted :: "json option"

definition zeroEvent :: gmEvent where
  "zeroEvent = \<lparr>ge_EventID = [], ge_Sender = [], ge_Type = [], ge_Timestamp = 0, ge_Content = None, ge_Decrypted = None\<rparr>"

definition dec_event :: "gmEvent decoder" where
  "dec_event = dec_struct
     [(''event_id'', on ge_EventID ge_EventID_update dec_string), (''sender'', on ge_Sender ge_Sender_update dec_string),
      (''type'', on ge_Type ge_Type_update dec_string), (''timestamp'', on ge_Timestamp ge_Timestamp_update dec_int),
      (''content'', on ge_Content ge_Content_update dec_raw), (''decrypted'', on ge_Decrypted ge_Decrypted_update dec_raw)]"

record gmInfo =
  gi_MimeType :: string
  gi_Size :: int
  gi_W :: int
  gi_H :: int

definition zeroInfo :: gmInfo where "zeroInfo = \<lparr>gi_MimeType = [], gi_Size = 0, gi_W = 0, gi_H = 0\<rparr>"

definition dec_info :: "gmInfo decoder" where
  "dec_info = dec_struct
     [(''mimetype'', on gi_MimeType gi_MimeType_update dec_string), (''size'', on gi_Size gi_Size_update dec_int),
      (''w'', on gi_W gi_W_update dec_int), (''h'', on gi_H gi_H_update dec_int),
      (''duration'', checked 0 dec_int), (''thumbnail_url'', checked [] dec_string)]"

record gmContent =
  gc_Body :: string
  gc_MsgType :: string
  gc_Format :: string
  gc_URL :: string
  gc_Filename :: string
  gc_Info :: "gmInfo option"
  gc_Mentions :: "string list option"
  gc_RelatesTo :: "string option option"

definition zeroContent :: gmContent where
  "zeroContent = \<lparr>gc_Body = [], gc_MsgType = [], gc_Format = [], gc_URL = [], gc_Filename = [], gc_Info = None,
     gc_Mentions = None, gc_RelatesTo = None\<rparr>"

definition dec_content :: "gmContent decoder" where
  "dec_content = dec_struct
     [(''body'', on gc_Body gc_Body_update dec_string), (''msgtype'', on gc_MsgType gc_MsgType_update dec_string),
      (''format'', on gc_Format gc_Format_update dec_string), (''url'', on gc_URL gc_URL_update dec_string),
      (''filename'', on gc_Filename gc_Filename_update dec_string),
      (''info'', on gc_Info gc_Info_update (dec_ptr zeroInfo dec_info)),
      (''m.mentions'', on gc_Mentions gc_Mentions_update
         (dec_ptr [] (dec_struct [(''user_ids'', dec_list [] dec_string)]))),
      (''m.relates_to'', on gc_RelatesTo gc_RelatesTo_update
         (dec_ptr None (dec_struct [(''m.in_reply_to'', dec_ptr [] (dec_struct [(''event_id'', dec_string)]))])))]"

definition attachTypeForMsgType :: "string \<Rightarrow> string" where
  "attachTypeForMsgType mt =
     (if mt = ''m.image'' then AttachImage else if mt = ''m.video'' then AttachVideo
      else if mt = ''m.audio'' then AttachAudio else if mt = ''m.file'' then AttachFile
      else if mt = ''m.sticker'' then AttachSticker else [])"

definition gm_attachment :: "string \<Rightarrow> gmContent \<Rightarrow> Attachment" where
  "gm_attachment kind c =
     (let a = \<lparr>at_MimeType = [], at_Size = 0, at_Width = 0, at_Height = 0,
               at_Filename = (if gc_Filename c = [] then gc_Body c else gc_Filename c),
               at_AttachType = kind, at_URL = gc_URL c\<rparr>
      in case gc_Info c of
           None \<Rightarrow> a
         | Some i \<Rightarrow> a\<lparr>at_MimeType := gi_MimeType i, at_Size := gi_Size i, at_Width := gi_W i, at_Height := gi_H i,
             at_AttachType := (if kind = AttachImage \<and> gi_MimeType i = ''image/gif'' then AttachGif else kind)\<rparr>)"

definition parseGomuksEvent :: "gmCaches \<Rightarrow> json \<Rightarrow> string \<Rightarrow> string \<Rightarrow> string \<Rightarrow> UnifiedMessage option" where
  "parseGomuksEvent caches raw roomID roomName roomIcon =
     (case unmarshal dec_event zeroEvent (Some raw) of
        None \<Rightarrow> None
      | Some ev \<Rightarrow>
          if ge_Type ev \<noteq> ''m.room.message'' \<and> ge_Type ev \<noteq> ''m.sticker'' then None
          else if ge_Decrypted ev \<noteq> None then None
          else case unmarshal dec_content zeroContent (ge_Content ev) of
            None \<Rightarrow> None
          | Some c \<Rightarrow>
              if gc_Body c = [] then None
              else
                (let cached = chanCache caches roomID;
                     user = usrCache caches (ge_Sender ev);
                     msgType = (if gc_MsgType c = [] then ge_Type ev else gc_MsgType c);
                     kind = attachTypeForMsgType msgType;
                     mns = (case gc_Mentions c of None \<Rightarrow> [] | Some ids \<Rightarrow> filter (\<lambda>i. i \<noteq> []) ids)
                 in Some (zeroUM\<lparr>um_Protocol := ProtoGomuks, um_MsgID := ge_EventID ev, um_UserID := ge_Sender ev,
                      um_Username := ge_Sender ev, um_Usernick := uc_Nick user, um_UserIcon := uc_Icon user,
                      um_ChatID := roomID, um_ChatName := (if roomName = [] then cc_Name cached else roomName),
                      um_ChanIcon := (if roomIcon = [] then cc_Icon cached else roomIcon), um_MsgType := msgType,
                      um_MsgFormat := gc_Format c, um_Text := gc_Body c,
                      um_Timestamp := wrap64 (ge_Timestamp ev * 1000000), um_Raw := Some raw,
                      um_Attachments := (if kind = [] then [] else [gm_attachment kind c]), um_Mentions := mns,
                      um_ReplyTos := (case gc_RelatesTo c of Some (Some e) \<Rightarrow> (if e = [] then [] else [e]) | _ \<Rightarrow> [])\<rparr>)))"

section \<open>Caches\<close>

definition text_of :: "string option \<Rightarrow> string" where
  "text_of x = (case x of None \<Rightarrow> [] | Some t \<Rightarrow> t)"

definition cache_room :: "(string \<rightharpoonup> gmRoom) \<Rightarrow> gmCaches \<Rightarrow> string \<Rightarrow> gmCaches" where
  "cache_room rooms c roomID =
     (case rooms roomID of
        None \<Rightarrow> c
      | Some room \<Rightarrow>
          (let e = chanCache c roomID;
               e = (if text_of (rm_Name room) \<noteq> [] then e\<lparr>cc_Name := text_of (rm_Name room)\<rparr> else e);
               e = (if text_of (rm_Avatar room) \<noteq> [] then e\<lparr>cc_Icon := text_of (rm_Avatar room)\<rparr> else e)
           in c\<lparr>chanCache := (chanCache c)(roomID := e)\<rparr>))"

definition cache_member :: "gmCaches \<Rightarrow> json \<Rightarrow> gmCaches" where
  "cache_member c raw =
     (case unmarshal dec_member \<lparr>mb_Type = [], mb_StateKey = None, mb_Content = None\<rparr> (Some raw) of
        None \<Rightarrow> c
      | Some ev \<Rightarrow>
          (case mb_StateKey ev of
             None \<Rightarrow> c
           | Some userID \<Rightarrow>
               if mb_Type ev \<noteq> ''m.room.member'' then c
               else case unmarshal dec_memberContent ([], []) (mb_Content ev) of
                 None \<Rightarrow> c
               | Some (nick, icon) \<Rightarrow>
                   (let e = usrCache c userID;
                        e = (if nick \<noteq> [] then e\<lparr>uc_Nick := nick\<rparr> else e);
                        e = (if icon \<noteq> [] then e\<lparr>uc_Icon := icon\<rparr> else e)
                    in c\<lparr>usrCache := (usrCache c)(userID := e)\<rparr>)))"

definition cache_members :: "(string \<rightharpoonup> gmRoom) \<Rightarrow> gmCaches \<Rightarrow> string \<Rightarrow> gmCaches" where
  "cache_members rooms c roomID =
     (case rooms roomID of None \<Rightarrow> c | Some room \<Rightarrow> foldl cache_member c (rm_Events room))"

definition room_messages :: "(string \<rightharpoonup> gmRoom) \<Rightarrow> gmCaches \<Rightarrow> string \<Rightarrow> UnifiedMessage list" where
  "room_messages rooms c roomID =
     (case rooms roomID of
        None \<Rightarrow> []
      | Some room \<Rightarrow>
          List.map_filter (\<lambda>raw. parseGomuksEvent c raw roomID (text_of (rm_Name room)) (text_of (rm_Avatar room)))
            (rm_Events room))"

record gmResp =
  gr_Command :: string
  gr_RequestID :: int
  gr_Data :: "json option"

definition zeroResp :: gmResp where "zeroResp = \<lparr>gr_Command = [], gr_RequestID = 0, gr_Data = None\<rparr>"

definition dec_resp :: "gmResp decoder" where
  "dec_resp = dec_struct
     [(''command'', on gr_Command gr_Command_update dec_string),
      (''request_id'', on gr_RequestID gr_RequestID_update dec_int), (''data'', on gr_Data gr_Data_update dec_raw)]"

definition dec_command :: "gmResp decoder" where
  "dec_command = dec_struct
     [(''command'', on gr_Command gr_Command_update dec_string), (''data'', on gr_Data gr_Data_update dec_raw)]"

text \<open>\<open>orders\<close> are the orders in which the three loops visit the rooms.\<close>

definition gomuksToUnified ::
  "(string list \<times> string list \<times> string list) \<Rightarrow> json \<Rightarrow> gmCaches \<Rightarrow> gmCaches \<times> UnifiedMessage list" where
  "gomuksToUnified orders msg c =
     (case unmarshal dec_command zeroResp (Some msg) of
        None \<Rightarrow> (c, [])
      | Some resp \<Rightarrow>
          if gr_Command resp \<noteq> ''sync_complete'' then (c, [])
          else case unmarshal dec_sync Map.empty (gr_Data resp) of
            None \<Rightarrow> (c, [])
          | Some rooms \<Rightarrow>
              (let c1 = foldl (cache_room rooms) c (fst orders);
                   c2 = foldl (cache_members rooms) c1 (fst (snd orders))
               in (c2, concat (map (room_messages rooms c2) (snd (snd orders))))))"

section \<open>Requests\<close>

definition gomuksHost :: string where "gomuksHost = ''127.0.0.1:29325''"

text \<open>The object of a request; the keys of the Go map are written in ascending order.\<close>

definition gomuksSendData :: "string \<Rightarrow> string \<Rightarrow> (string \<times> json) list \<Rightarrow> SendExtra option \<Rightarrow> json" where
  "gomuksSendData roomID msg base extra =
     JObj ((if base = [] then [] else [(''base_content'', JObj base)]) @
       (case extra of
          Some e \<Rightarrow> (if Mentions e = [] then [] else [(''mentions'', JObj [(''user_ids'', JArr (map JStr (Mentions e)))])]) @
             (case RelatesTo e of
                target # _ \<Rightarrow> [(''relates_to'', JObj [(''m.in_reply_to'', JObj [(''event_id'', JStr target)])])]
              | [] \<Rightarrow> [])
        | None \<Rightarrow> []) @
       [(''room_id'', JStr roomID), (''text'', JStr msg)])"

definition command_json :: "string \<Rightarrow> json \<Rightarrow> int \<Rightarrow> json" where
  "command_json cmd data q =
     JObj [(''command'', JStr cmd), (''data'', data), (''request_id'', JNum (itoa q))]"

definition redactData :: "string \<Rightarrow> string \<Rightarrow> string \<Rightarrow> json" where
  "redactData roomID eventID reason =
     JObj ([(''event_id'', JStr eventID)] @ (if reason = [] then [] else [(''reason'', JStr reason)]) @
       [(''room_id'', JStr roomID)])"

definition ping_json :: "int \<Rightarrow> int \<Rightarrow> json" where
  "ping_json n lastID = command_json ''ping'' (JObj [(''last_received_id'', JNum (itoa lastID))]) n"

definition isGomuksControl :: "string \<Rightarrow> bool" where
  "isGomuksControl cmd \<longleftrightarrow> cmd \<in> {''client_state'', ''sync_status'', ''init_complete'', ''error'', ''response''}"

text \<open>\<open>DownloadMedia\<close> up to the request; \<open>esc\<close> is \<open>url.QueryEscape\<close>.\<close>

definition media_url :: "(string \<Rightarrow> string) \<Rightarrow> string \<Rightarrow> string \<Rightarrow> error + string" where
  "media_url esc token mxcURL =
     (if \<not> has_prefix mxcURL ''mxc://'' then Inl (''gomuks: not mxc: '' @ mxcURL)
      else Inr (''http://'' @ gomuksHost @ ''/_gomuks/media/'' @ drop 6 mxcURL @ ''?encrypted=false'' @
             (if token \<noteq> [] then ''&image_auth='' @ esc token else [])))"

text \<open>An HTTP answer: a transport error, or the status with the body, \<open>None\<close> when it is no JSON.\<close>

type_synonym httpAnswer = "error + nat \<times> json option"

text \<open>\<open>doGomuksAuth\<close>: the token and the error pushed. A server without authentication answers 204, which
  leaves no token and no error.\<close>

definition doGomuksAuth :: "httpAnswer \<Rightarrow> string \<times> error option" where
  "doGomuksAuth answer =
     (case answer of
        Inl e \<Rightarrow> ([], Some e)
      | Inr (status, body) \<Rightarrow>
          if status = 204 then ([], None)
          else if status \<noteq> 200 \<and> status \<noteq> 201 then ([], Some (''auth failed: '' @ show_nat status))
          else (case unmarshal (dec_struct [(''token'', dec_string)]) [] body of
                  None \<Rightarrow> ([], Some ''auth decode error'')
                | Some tok \<Rightarrow> (tok, None)))"

definition sendGomuksUpload :: "httpAnswer \<Rightarrow> error + json" where
  "sendGomuksUpload answer =
     (case answer of
        Inl e \<Rightarrow> Inl (''gomuks: upload: '' @ e)
      | Inr (status, body) \<Rightarrow>
          if status \<noteq> 200 then Inl (''gomuks: upload failed: '' @ show_nat status)
          else (case body of None \<Rightarrow> Inl ''gomuks: upload response decode'' | Some j \<Rightarrow> Inr j))"

text \<open>\<open>Send\<close> up to the point where it takes a request number: the data of the command. \<open>upload\<close> answers the
  upload of a file.\<close>

definition gm_send_data ::
  "(bytes \<Rightarrow> MediaDataInfo \<Rightarrow> httpAnswer) \<Rightarrow> string \<Rightarrow> string \<Rightarrow> bytes \<Rightarrow> MediaDataInfo option \<Rightarrow> SendExtra option \<Rightarrow>
   error + json" where
  "gm_send_data upload roomID msg filedata fileinfo extra =
     (if roomID = [] \<or> msg = [] then Inl ''gomuks: empty roomID or message''
      else if filedata = [] then Inr (gomuksSendData roomID msg [] extra)
      else case fileinfo of
        None \<Rightarrow> Inl ''gomuks: filedata present but fileinfo is nil''
      | Some info \<Rightarrow>
          (case sendGomuksUpload (upload filedata info) of
             Inl e \<Rightarrow> Inl (''gomuks: upload: '' @ e)
           | Inr (JObj base) \<Rightarrow> Inr (gomuksSendData roomID msg base extra)
           | Inr JNull \<Rightarrow> Inr (gomuksSendData roomID msg [] extra)
           | Inr _ \<Rightarrow> Inl ''gomuks: upload_media response decode''))"

definition gm_redact_data :: "string \<Rightarrow> string \<Rightarrow> string \<Rightarrow> error + json" where
  "gm_redact_data roomID eventID reason =
     (if roomID = [] \<or> eventID = [] then Inl ''gomuks: empty roomID or eventID'' else Inr (redactData roomID eventID reason))"

section \<open>The websocket's messages\<close>

text \<open>The variables the event loop owns. \<open>gm_items\<close> logs what was handed to the publish function, whose
  errors are only logged by the program; \<open>gm_pubfn\<close> tells whether there is one.\<close>

record gmLoop =
  gm_imageAuthToken :: string
  gm_runID :: string
  gm_listenerID :: int
  gm_lastRecvNegID :: int
  gm_caches :: gmCaches
  gm_pubfn :: bool
  gm_items :: "pubItem list"

text \<open>A reply to a request leaves the loop: the number of the request and the error, if any.\<close>

datatype gmAction = Handled | Reply int "error option"

definition dec_runID :: "(string \<times> int) decoder" where
  "dec_runID = dec_struct [(''run_id'', on fst apfst dec_string), (''listener_id'', on snd apsnd dec_uint)]"

definition gm_publish :: "pubItem list \<Rightarrow> gmLoop \<Rightarrow> gmLoop" where
  "gm_publish vs s = (if gm_pubfn s then s\<lparr>gm_items := gm_items s @ vs\<rparr> else s)"

definition gm_run :: "string \<times> int \<Rightarrow> gmLoop \<Rightarrow> gmLoop" where
  "gm_run rd s =
     (let s = (if gm_runID s \<noteq> [] \<and> gm_runID s \<noteq> fst rd then s\<lparr>gm_lastRecvNegID := 0, gm_listenerID := 0\<rparr> else s)
      in s\<lparr>gm_runID := fst rd, gm_listenerID := snd rd\<rparr>)"

definition gm_forward :: "(string list \<times> string list \<times> string list) \<Rightarrow> json \<Rightarrow> int \<Rightarrow> gmLoop \<Rightarrow> gmLoop" where
  "gm_forward orders msg req s =
     (let s = (if req < 0 then s\<lparr>gm_lastRecvNegID := min (gm_lastRecvNegID s) req\<rparr> else s);
          (c, ums) = gomuksToUnified orders msg (gm_caches s)
      in gm_publish (PubRaw msg # map PubUM ums) (s\<lparr>gm_caches := c\<rparr>))"

text \<open>One message, \<open>None\<close> when its text is no JSON.\<close>

definition gm_message :: "(string list \<times> string list \<times> string list) \<Rightarrow> json option \<Rightarrow> gmLoop \<Rightarrow> gmLoop \<times> gmAction" where
  "gm_message orders msg s =
     (case unmarshal dec_resp zeroResp msg of
        None \<Rightarrow> (s, Handled)
      | Some r \<Rightarrow>
          if gr_RequestID r = 0 \<and> gr_Command r = ''image_auth_token'' then
            (case unmarshal dec_string [] (gr_Data r) of
               None \<Rightarrow> (s, Handled) | Some tok \<Rightarrow> (s\<lparr>gm_imageAuthToken := tok\<rparr>, Handled))
          else if gr_Command r = ''run_id'' then
            (case unmarshal dec_runID ([], 0) (gr_Data r) of
               None \<Rightarrow> (s, Handled) | Some rd \<Rightarrow> (gm_run rd s, Handled))
          else if gr_Command r = ''pong'' then (s, Handled)
          else if gr_RequestID r > 0 then
            (s, Reply (gr_RequestID r)
               (if gr_Command r = ''error'' then Some (''gomuks: '' @ unmarshal_lax dec_string [] (gr_Data r)) else None))
          else if gr_Command r = ''typing'' then (s, Handled)
          else if gr_RequestID r = 0 \<and> isGomuksControl (gr_Command r) then (s, Handled)
          else (gm_forward orders (the msg) (gr_RequestID r) s, Handled))"

text \<open>The address \<open>poll_gomuks\<close> dials; \<open>esc\<close> is \<open>url.QueryEscape\<close>.\<close>

definition gm_dial_url :: "(string \<Rightarrow> string) \<Rightarrow> gmLoop \<Rightarrow> string" where
  "gm_dial_url esc s =
     ''ws://'' @ gomuksHost @ ''/_gomuks/websocket'' @
     (if gm_runID s \<noteq> [] \<and> gm_lastRecvNegID s < 0 then
        ''?last_received_event='' @ esc (itoa (gm_lastRecvNegID s)) @
        (if gm_listenerID s \<noteq> 0 then ''&prev_listener_id='' @ esc (itoa (gm_listenerID s)) else []) @
        ''&run_id='' @ esc (gm_runID s)
      else [])"

section \<open>Resuming\<close>

text \<open>What a stream of messages tells of the server: its last run and the events received in it.\<close>

datatype gmTrace = RunIs string int | Event int

definition trace_of :: "json option \<Rightarrow> gmTrace option" where
  "trace_of msg =
     (case unmarshal dec_resp zeroResp msg of
        None \<Rightarrow> None
      | Some r \<Rightarrow>
          if gr_RequestID r = 0 \<and> gr_Command r = ''image_auth_token'' then None
          else if gr_Command r = ''run_id'' then map_option (\<lambda>(i, l). RunIs i l) (unmarshal dec_runID ([], 0) (gr_Data r))
          else if gr_Command r \<in> {''pong'', ''typing''} \<or> 0 \<le> gr_RequestID r then None
          else Some (Event (gr_RequestID r)))"

definition gm_stream :: "((string list \<times> string list \<times> string list) \<times> json option) list \<Rightarrow> gmLoop \<Rightarrow> gmLoop" where
  "gm_stream ms s = foldl (\<lambda>s (ord, m). fst (gm_message ord m s)) s ms"

definition gm_start :: "bool \<Rightarrow> gmLoop" where
  "gm_start pub = \<lparr>gm_imageAuthToken = [], gm_runID = [], gm_listenerID = 0, gm_lastRecvNegID = 0,
     gm_caches = noCaches, gm_pubfn = pub, gm_items = []\<rparr>"

fun resume_step :: "string \<times> int \<Rightarrow> gmTrace \<Rightarrow> string \<times> int" where
  "resume_step (run, low) (RunIs i l) = (i, if run \<noteq> [] \<and> run \<noteq> i then 0 else low)"
| "resume_step (run, low) (Event n) = (run, min low n)"

definition resume_state :: "gmLoop \<Rightarrow> string \<times> int" where
  "resume_state s = (gm_runID s, gm_lastRecvNegID s)"

lemma publish_resume [simp]: "resume_state (gm_publish vs s) = resume_state s"
  by (simp add: gm_publish_def resume_state_def)

lemma message_resume:
  "resume_state (fst (gm_message orders msg s)) =
     (case trace_of msg of None \<Rightarrow> resume_state s | Some t \<Rightarrow> resume_step (resume_state s) t)"
proof (cases "unmarshal dec_resp zeroResp msg")
  case None
  then show ?thesis by (simp add: gm_message_def trace_of_def)
next
  case (Some r)
  show ?thesis
  proof (cases "gr_Command r = ''run_id''")
    case True
    then show ?thesis using Some
      by (cases "unmarshal dec_runID ([], 0) (gr_Data r)")
         (auto simp: gm_message_def trace_of_def gm_run_def resume_state_def Let_def)
  next
    case False
    have tok: "resume_state (s\<lparr>gm_imageAuthToken := t\<rparr>) = resume_state s" for t by (simp add: resume_state_def)
    have fwd: "resume_state (gm_forward orders m n s) = (if n < 0 then resume_step (resume_state s) (Event n) else resume_state s)" for m n
      by (auto simp: gm_forward_def Let_def resume_state_def gm_publish_def split: prod.splits)
    have neg: "\<not> n < 0 \<Longrightarrow> \<not> 0 < n \<Longrightarrow> n = 0" for n :: int by simp
    show ?thesis using Some False
      by (auto simp: gm_message_def trace_of_def tok fwd not_less dest: neg split: option.splits)
  qed
qed

lemma stream_resume:
  "resume_state (gm_stream ms s) = foldl resume_step (resume_state s) (List.map_filter (trace_of \<circ> snd) ms)"
proof (induction ms arbitrary: s)
  case (Cons x ms)
  obtain ord m where x: "x = (ord, m)" by (cases x)
  have "gm_stream (x # ms) s = gm_stream ms (fst (gm_message ord m s))" by (simp add: gm_stream_def x)
  then show ?case using Cons[of "fst (gm_message ord m s)"]
    by (simp add: x message_resume List.map_filter_simps split: option.splits)
qed (simp add: gm_stream_def List.map_filter_simps)

definition numbers_of :: "gmTrace list \<Rightarrow> int list" where
  "numbers_of ts = List.map_filter (\<lambda>t. case t of Event n \<Rightarrow> Some n | _ \<Rightarrow> None) ts"

definition same_run :: "string \<Rightarrow> gmTrace \<Rightarrow> bool" where
  "same_run i t \<longleftrightarrow> (case t of RunIs j l \<Rightarrow> j = i | Event n \<Rightarrow> True)"

lemma resume_same:
  "list_all (same_run i) ts \<Longrightarrow> run = i \<or> run = [] \<Longrightarrow> i \<noteq> [] \<Longrightarrow>
    snd (foldl resume_step (run, low) ts) = foldl min low (numbers_of ts) \<and>
    (run = i \<longrightarrow> fst (foldl resume_step (run, low) ts) = i)"
proof (induction ts arbitrary: run low)
  case (Cons t ts)
  then show ?case by (cases t) (auto simp: same_run_def numbers_of_def List.map_filter_simps)
qed (simp add: numbers_of_def List.map_filter_simps)

text \<open>The point a new connection resumes from: as long as the server stays in one run it is the smallest
  (the latest) event number received in all the connections of that run; when the server starts
  another run, the numbers of the old run are forgotten and only those received since count.\<close>

theorem gomuks_resume:
  fixes pub :: bool
  assumes "List.map_filter (trace_of \<circ> snd) ms = us @ RunIs i l # vs" and "list_all (same_run i) vs" and "i \<noteq> []"
  defines "s \<equiv> gm_stream ms (gm_start pub)"
  shows "gm_runID s = i \<and>
    (list_all (same_run i) us \<longrightarrow> gm_lastRecvNegID s = foldl min 0 (numbers_of us @ numbers_of vs)) \<and>
    (us = us' @ RunIs j l' # ws \<and> j \<notin> {[], i} \<and> list_all (same_run j) ws \<longrightarrow>
      gm_lastRecvNegID s = foldl min 0 (numbers_of vs))"
proof -
  have s: "(gm_runID s, gm_lastRecvNegID s) = foldl resume_step ([], 0) (us @ RunIs i l # vs)"
    using stream_resume[of ms "gm_start pub"] by (simp add: s_def assms(1) resume_state_def gm_start_def)
  obtain r low where us: "foldl resume_step ([], 0) us = (r, low)" by fastforce
  let ?low = "if r \<noteq> [] \<and> r \<noteq> i then 0 else low"
  have vs: "(gm_runID s, gm_lastRecvNegID s) = foldl resume_step (i, ?low) vs" using s us by simp
  have run: "gm_runID s = i" and lo: "gm_lastRecvNegID s = foldl min ?low (numbers_of vs)"
    using resume_same[OF assms(2), of i ?low] vs[symmetric] assms(3) by simp_all
  have "gm_lastRecvNegID s = foldl min 0 (numbers_of us @ numbers_of vs)" if "list_all (same_run i) us"
  proof -
    have "list_all (same_run i) (us @ RunIs i l # vs)" using that assms(2) by (simp add: same_run_def)
    from resume_same[OF this, of "[]" 0] s[symmetric] assms(3) show ?thesis
      by (simp add: numbers_of_def List.map_filter_def)
  qed
  moreover have "gm_lastRecvNegID s = foldl min 0 (numbers_of vs)"
    if "us = us' @ RunIs j l' # ws" "j \<notin> {[], i}" "list_all (same_run j) ws"
  proof -
    obtain r' low' where "foldl resume_step ([], 0) us' = (r', low')" by fastforce
    then have "fst (foldl resume_step ([], 0) us) = j"
      using resume_same[OF that(3), of j] that(1,2) by simp
    then show ?thesis using lo us that(2) by simp
  qed
  ultimately show ?thesis using run by blast
qed

definition run_msg :: "string \<Rightarrow> json" where
  "run_msg i = JObj [(''command'', JStr ''run_id''), (''data'', JObj [(''run_id'', JStr i), (''listener_id'', JNum ''4'')])]"

definition event_msg :: "string \<Rightarrow> json" where
  "event_msg n = JObj [(''command'', JStr ''sync_complete''), (''request_id'', JNum n)]"

definition resumed :: "((string list \<times> string list \<times> string list) \<times> json option) list" where
  "resumed = map (\<lambda>j. (([], [], []), Some j)) [run_msg ''a'', event_msg ''-7'', run_msg ''b'', event_msg ''-2'', event_msg ''-3'']"

lemma gomuks_resume_witness:
  "gm_runID (gm_stream resumed (gm_start False)) = ''b'' \<and> gm_lastRecvNegID (gm_stream resumed (gm_start False)) = -3"
proof -
  have t: "List.map_filter (trace_of \<circ> snd) resumed = [RunIs ''a'' 4, Event (-7)] @ RunIs ''b'' 4 # [Event (-2), Event (-3)]"
    by code_simp
  have "list_all (same_run ''b'') [Event (-2), Event (-3)]" by (simp add: same_run_def)
  from gomuks_resume[OF t this, of False "[]" "''a''" 4 "[Event (- 7)]"] show ?thesis
    by (auto simp: same_run_def numbers_of_def List.map_filter_simps)
qed

section \<open>Messages of a sync\<close>

lemma parse_chat: "parseGomuksEvent c raw roomID name icon = Some um \<Longrightarrow> um_ChatID um = roomID"
  by (auto simp: parseGomuksEvent_def Let_def split: option.splits if_splits)

lemma room_messages_chat: "um \<in> set (room_messages rooms c r) \<Longrightarrow> um_ChatID um = r"
  by (auto simp: room_messages_def List.map_filter_def parse_chat split: option.splits)

lemma messages_of_room:
  assumes "distinct rs" and "r \<in> set rs"
  shows "filter (\<lambda>um. um_ChatID um = r) (concat (map (room_messages rooms c) rs)) = room_messages rooms c r"
proof -
  have own: "filter (\<lambda>um. um_ChatID um = r) (room_messages rooms c q) = (if q = r then room_messages rooms c q else [])" for q
    using room_messages_chat by (fastforce simp: filter_id_conv filter_empty_conv)
  have none: "r \<notin> set qs \<Longrightarrow> filter (\<lambda>um. um_ChatID um = r) (concat (map (room_messages rooms c) qs)) = []" for qs
    by (induction qs) (auto simp: own)
  show ?thesis using assms by (induction rs) (auto simp: own none)
qed

text \<open>The display names a list of events gives a user.\<close>

definition nick_of :: "string \<Rightarrow> json \<Rightarrow> string option" where
  "nick_of u raw =
     (let c = cache_member noCaches raw in
      if uc_Nick (usrCache c u) = [] then None else Some (uc_Nick (usrCache c u)))"

lemma cache_member_nick:
  "uc_Nick (usrCache (cache_member c raw) u) = (case nick_of u raw of None \<Rightarrow> uc_Nick (usrCache c u) | Some n \<Rightarrow> n)"
  by (auto simp: nick_of_def cache_member_def noCaches_def Let_def split: option.splits)

lemma cached_nick:
  "uc_Nick (usrCache (foldl cache_member c raws) u) =
     (if List.map_filter (nick_of u) raws = [] then uc_Nick (usrCache c u) else last (List.map_filter (nick_of u) raws))"
  by (induction raws arbitrary: c) (auto simp: cache_member_nick List.map_filter_simps split: option.splits)

definition events_of :: "(string \<rightharpoonup> gmRoom) \<Rightarrow> string list \<Rightarrow> json list" where
  "events_of rooms rs = concat (map (\<lambda>r. case rooms r of None \<Rightarrow> [] | Some room \<Rightarrow> rm_Events room) rs)"

lemma cache_members_events: "foldl (cache_members rooms) c rs = foldl cache_member c (events_of rooms rs)"
  by (induction rs arbitrary: c) (auto simp: cache_members_def events_of_def split: option.splits)

lemma cache_room_users: "usrCache (foldl (cache_room rooms) c rs) = usrCache c"
  by (induction rs arbitrary: c) (auto simp: cache_room_def Let_def split: option.splits)

text \<open>For every order in which the rooms of a sync are visited, the messages of a room come out in the order of
  its timeline, each parsed with the caches that hold the whole sync. The name of a user is the
  last one that a member event gave in the order of the visits, whatever room it belongs to; so
  when two rooms name a user differently, the order of a Go map decides which name all messages
  carry.\<close>

theorem gomuks_sync_messages:
  fixes c :: gmCaches and ps qs :: "string list"
  assumes "unmarshal dec_command zeroResp (Some msg) = Some resp" and "gr_Command resp = ''sync_complete''"
    and "unmarshal dec_sync Map.empty (gr_Data resp) = Some rooms"
    and "distinct rs" and "rooms r = Some room" and "r \<in> set rs"
  defines "c' \<equiv> fst (gomuksToUnified (ps, qs, rs) msg c)" and "out \<equiv> snd (gomuksToUnified (ps, qs, rs) msg c)"
  shows "filter (\<lambda>um. um_ChatID um = r) out = List.map_filter
      (\<lambda>raw. parseGomuksEvent c' raw r (text_of (rm_Name room)) (text_of (rm_Avatar room))) (rm_Events room) \<and>
    uc_Nick (usrCache c' u) =
      (let ns = List.map_filter (nick_of u) (events_of rooms qs) in if ns = [] then uc_Nick (usrCache c u) else last ns)"
proof -
  have c': "c' = foldl cache_member (foldl (cache_room rooms) c ps) (events_of rooms qs)"
    and out: "out = concat (map (room_messages rooms c') rs)"
    using assms(1-3) by (simp_all add: c'_def out_def gomuksToUnified_def Let_def cache_members_events)
  show ?thesis
    unfolding out messages_of_room[OF assms(4,6)] c' cached_nick cache_room_users
    by (simp add: room_messages_def assms(5) Let_def)
qed

definition member_json :: "string \<Rightarrow> json" where
  "member_json n = JObj [(''type'', JStr ''m.room.member''), (''state_key'', JStr ''@u''), (''content'', JObj [(''displayname'', JStr n)])]"

definition text_json :: json where
  "text_json = JObj [(''type'', JStr ''m.room.message''), (''sender'', JStr ''@u''), (''content'', JObj [(''body'', JStr ''hi'')])]"

definition sync_json :: json where
  "sync_json = JObj [(''command'', JStr ''sync_complete''), (''data'', JObj [(''rooms'', JObj
     [(''!a'', JObj [(''events'', JArr [member_json ''Ann'', text_json])]), (''!b'', JObj [(''events'', JArr [member_json ''Bob''])])])])]"

definition sync_rooms :: "string \<rightharpoonup> gmRoom" where
  "sync_rooms = [''!a'' \<mapsto> \<lparr>rm_Name = None, rm_Avatar = None, rm_Events = [member_json ''Ann'', text_json]\<rparr>,
                 ''!b'' \<mapsto> \<lparr>rm_Name = None, rm_Avatar = None, rm_Events = [member_json ''Bob'']\<rparr>]"

lemma nicks0: "nick_of ''@u'' (member_json ''Ann'') = Some ''Ann''" "nick_of ''@u'' (member_json ''Bob'') = Some ''Bob''"
  "nick_of ''@u'' text_json = None"
  by (code_simp, code_simp, code_simp)

lemma gomuks_sync_messages_witness:
  "uc_Nick (usrCache (fst (gomuksToUnified ([], [''!a'', ''!b''], [''!a'']) sync_json noCaches)) ''@u'') = ''Bob'' \<and>
   uc_Nick (usrCache (fst (gomuksToUnified ([], [''!b'', ''!a''], [''!a'']) sync_json noCaches)) ''@u'') = ''Ann''"
proof -
  let ?d = "JObj [(''rooms'', JObj
     [(''!a'', JObj [(''events'', JArr [member_json ''Ann'', text_json])]), (''!b'', JObj [(''events'', JArr [member_json ''Bob''])])])]"
  have r: "unmarshal dec_command zeroResp (Some sync_json) = Some \<lparr>gr_Command = ''sync_complete'', gr_RequestID = 0, gr_Data = Some ?d\<rparr>"
    by code_simp
  have "unmarshal dec_sync Map.empty (Some ?d) = Some sync_rooms"
    by (simp add: unmarshal_def dec_sync_def dec_room_def dec_entry_def find_field_def on_def raw_elem_def sync_rooms_def zeroRoom_def)
  then have d: "unmarshal dec_sync Map.empty (gr_Data \<lparr>gr_Command = ''sync_complete'', gr_RequestID = 0, gr_Data = Some ?d\<rparr>) = Some sync_rooms"
    by simp
  have a: "sync_rooms ''!a'' = Some \<lparr>rm_Name = None, rm_Avatar = None, rm_Events = [member_json ''Ann'', text_json]\<rparr>"
    "sync_rooms ''!b'' = Some \<lparr>rm_Name = None, rm_Avatar = None, rm_Events = [member_json ''Bob'']\<rparr>"
    by (simp_all add: sync_rooms_def)
  show ?thesis
    using gomuks_sync_messages[OF r _ d _ a(1), of "[''!a'']" "[]" "[''!a'', ''!b'']" noCaches "''@u''"]
      gomuks_sync_messages[OF r _ d _ a(1), of "[''!a'']" "[]" "[''!b'', ''!a'']" noCaches "''@u''"]
    by (simp add: events_of_def a List.map_filter_simps nicks0)
qed

end
