(* ===== verification/Gomuks_Send.thy ===== *)
theory Gomuks_Send
  imports Gomuks
begin

text \<open>
  The threads of the gomuks bridge: any number of calls of \<open>Send\<close> and \<open>Redact\<close>, the event loop and
  its reconnections, as steps on the state they share (\<open>gomuks_websocket.go\<close>). A step is a
  critical section, a channel operation, a write, or the passing of a timeout. A call is known by
  its request number; its channel holds one result. A call is in one of the stages below; the
  event loop handles one message at a time and cannot do anything else while it waits to put a
  reply into a full channel.
\<close>

section \<open>State\<close>

datatype gmResult = Sent | Rejected error | Disconnected | TimedOut | WriteFailed | NotConnected

datatype gmStage = Reserved nat | Registered nat | Waiting | Leaving gmResult | Returned gmResult

datatype gmLoopStage = Off | Reading nat | Delivering nat int gmResult | Dropped nat | Failed nat

record gmSys =
  sy_seq :: int
  sy_conn :: "nat option"
  sy_pending :: "int set"
  sy_buf :: "int \<Rightarrow> gmResult option"
  sy_closedCh :: "int set"
  sy_thread :: "int \<Rightarrow> gmStage option"
  sy_loop :: gmLoopStage
  sy_closedConn :: "nat set"
  sy_next :: nat
  sy_replies :: "(int \<times> gmResult) list"

definition gm_idle :: gmSys where
  "gm_idle = \<lparr>sy_seq = 0, sy_conn = None, sy_pending = {}, sy_buf = (\<lambda>_. None), sy_closedCh = {},
     sy_thread = (\<lambda>_. None), sy_loop = Off, sy_closedConn = {}, sy_next = 0, sy_replies = []\<rparr>"

definition reply_result :: "error option \<Rightarrow> gmResult" where
  "reply_result e = (case e of None \<Rightarrow> Sent | Some x \<Rightarrow> Rejected x)"

text \<open>The error the caller of \<open>Send\<close> sees; \<open>werr\<close> is that of the write.\<close>

definition send_error :: "error \<Rightarrow> gmResult \<Rightarrow> error option" where
  "send_error werr r =
     (case r of
        Sent \<Rightarrow> None
      | Rejected e \<Rightarrow> Some e
      | Disconnected \<Rightarrow> Some ''gomuks: disconnected''
      | TimedOut \<Rightarrow> Some ''gomuks: send timeout''
      | WriteFailed \<Rightarrow> Some werr
      | NotConnected \<Rightarrow> Some ''gomuks: not connected'')"

text \<open>What \<open>Redact\<close> returns: the number of the event it removed, or the error.\<close>

definition redact_result :: "error \<Rightarrow> string \<Rightarrow> gmResult \<Rightarrow> string \<times> error option" where
  "redact_result werr eventID r =
     (case r of
        Sent \<Rightarrow> (eventID, None)
      | TimedOut \<Rightarrow> ([], Some ''gomuks: redact timeout'')
      | _ \<Rightarrow> ([], send_error werr r))"

section \<open>Steps of a call\<close>

definition step_reserve :: "gmSys \<Rightarrow> gmSys" where
  "step_reserve s =
     (let q = sy_seq s + 1
      in s\<lparr>sy_seq := q, sy_thread := (sy_thread s)(q \<mapsto>
           (case sy_conn s of None \<Rightarrow> Returned NotConnected | Some c \<Rightarrow> Reserved c))\<rparr>)"

definition step_register :: "int \<Rightarrow> nat \<Rightarrow> gmSys \<Rightarrow> gmSys" where
  "step_register q c s = s\<lparr>sy_pending := insert q (sy_pending s), sy_buf := (sy_buf s)(q := None),
     sy_closedCh := sy_closedCh s - {q}, sy_thread := (sy_thread s)(q \<mapsto> Registered c)\<rparr>"

definition step_stage :: "int \<Rightarrow> gmStage \<Rightarrow> gmSys \<Rightarrow> gmSys" where
  "step_stage q st s = s\<lparr>sy_thread := (sy_thread s)(q \<mapsto> st)\<rparr>"

definition step_receive :: "int \<Rightarrow> gmResult \<Rightarrow> gmSys \<Rightarrow> gmSys" where
  "step_receive q r s = step_stage q (Leaving r) (s\<lparr>sy_buf := (sy_buf s)(q := None)\<rparr>)"

definition step_leave :: "int \<Rightarrow> gmResult \<Rightarrow> gmSys \<Rightarrow> gmSys" where
  "step_leave q r s = step_stage q (Returned r) (s\<lparr>sy_pending := sy_pending s - {q}\<rparr>)"

section \<open>Steps of the event loop\<close>

definition step_connect :: "gmSys \<Rightarrow> gmSys" where
  "step_connect s = s\<lparr>sy_conn := Some (sy_next s), sy_loop := Reading (sy_next s), sy_next := sy_next s + 1\<rparr>"

definition step_lookup :: "nat \<Rightarrow> int \<Rightarrow> gmResult \<Rightarrow> gmSys \<Rightarrow> gmSys" where
  "step_lookup c q r s =
     (if q \<in> sy_pending s then s\<lparr>sy_loop := Delivering c q r, sy_replies := sy_replies s @ [(q, r)]\<rparr> else s)"

definition step_deliver :: "nat \<Rightarrow> int \<Rightarrow> gmResult \<Rightarrow> gmSys \<Rightarrow> gmSys" where
  "step_deliver c q r s = s\<lparr>sy_buf := (sy_buf s)(q := Some r), sy_loop := Reading c\<rparr>"

definition step_drop :: "nat \<Rightarrow> gmSys \<Rightarrow> gmSys" where
  "step_drop c s = s\<lparr>sy_conn := None, sy_loop := Dropped c\<rparr>"

definition step_fail :: "nat \<Rightarrow> gmSys \<Rightarrow> gmSys" where
  "step_fail c s = s\<lparr>sy_buf := (\<lambda>q. if q \<in> sy_pending s \<and> sy_buf s q = None then Some Disconnected else sy_buf s q),
     sy_closedCh := sy_closedCh s \<union> sy_pending s, sy_pending := {}, sy_loop := Failed c\<rparr>"

definition step_hangup :: "nat \<Rightarrow> gmSys \<Rightarrow> gmSys" where
  "step_hangup c s = s\<lparr>sy_closedConn := insert c (sy_closedConn s), sy_loop := Off\<rparr>"

text \<open>A write on a closed connection fails, any other may fail. A receive from a closed empty channel gives
  the zero error, which is nil. The ping loop may close the connection at any time.\<close>

inductive gm_step :: "gmSys \<Rightarrow> gmSys \<Rightarrow> bool" where
  reserve: "gm_step s (step_reserve s)"
| register: "sy_thread s q = Some (Reserved c) \<Longrightarrow> gm_step s (step_register q c s)"
| written: "sy_thread s q = Some (Registered c) \<Longrightarrow> c \<notin> sy_closedConn s \<Longrightarrow> gm_step s (step_stage q Waiting s)"
| not_written: "sy_thread s q = Some (Registered c) \<Longrightarrow> gm_step s (step_stage q (Leaving WriteFailed) s)"
| receive: "sy_thread s q = Some Waiting \<Longrightarrow> sy_buf s q = Some r \<Longrightarrow> gm_step s (step_receive q r s)"
| receive_closed: "sy_thread s q = Some Waiting \<Longrightarrow> sy_buf s q = None \<Longrightarrow> q \<in> sy_closedCh s \<Longrightarrow>
    gm_step s (step_stage q (Leaving Sent) s)"
| expire: "sy_thread s q = Some Waiting \<Longrightarrow> gm_step s (step_stage q (Leaving TimedOut) s)"
| leave: "sy_thread s q = Some (Leaving r) \<Longrightarrow> gm_step s (step_leave q r s)"
| connect: "sy_loop s = Off \<Longrightarrow> gm_step s (step_connect s)"
| lookup: "sy_loop s = Reading c \<Longrightarrow> snd (gm_message orders msg l) = Reply q e \<Longrightarrow>
    gm_step s (step_lookup c q (reply_result e) s)"
| deliver: "sy_loop s = Delivering c q r \<Longrightarrow> sy_buf s q = None \<Longrightarrow> q \<notin> sy_closedCh s \<Longrightarrow> gm_step s (step_deliver c q r s)"
| drop: "sy_loop s = Reading c \<Longrightarrow> gm_step s (step_drop c s)"
| fail: "sy_loop s = Dropped c \<Longrightarrow> gm_step s (step_fail c s)"
| hangup: "sy_loop s = Failed c \<Longrightarrow> gm_step s (step_hangup c s)"
| ping_failed: "sy_conn s = Some c \<Longrightarrow> gm_step s (s\<lparr>sy_closedConn := insert c (sy_closedConn s)\<rparr>)"

lemmas step_defs = step_reserve_def step_register_def step_stage_def step_receive_def step_leave_def step_connect_def
  step_lookup_def step_deliver_def step_drop_def step_fail_def step_hangup_def

inductive gm_reach :: "gmSys \<Rightarrow> gmSys \<Rightarrow> bool" for s0 where
  start: "gm_reach s0 s0"
| step: "gm_reach s0 s \<Longrightarrow> gm_step s t \<Longrightarrow> gm_reach s0 t"

section \<open>Invariant\<close>

definition answers :: "int \<Rightarrow> gmSys \<Rightarrow> nat" where
  "answers q s = length (filter (\<lambda>x. fst x = q) (sy_replies s))"

definition in_buffer :: "int \<Rightarrow> gmSys \<Rightarrow> nat" where
  "in_buffer q s = (if sy_buf s q \<noteq> None \<and> q \<notin> sy_closedCh s then 1 else 0)"

definition in_hand :: "int \<Rightarrow> gmSys \<Rightarrow> nat" where
  "in_hand q s = (case sy_loop s of Delivering c p r \<Rightarrow> if p = q then 1 else 0 | _ \<Rightarrow> 0)"

definition active :: "gmStage option \<Rightarrow> bool" where
  "active st \<longleftrightarrow> (case st of Some (Registered _) \<Rightarrow> True | Some Waiting \<Rightarrow> True | Some (Leaving _) \<Rightarrow> True | _ \<Rightarrow> False)"

definition listening :: "gmStage option \<Rightarrow> bool" where
  "listening st \<longleftrightarrow> (case st of Some (Registered _) \<Rightarrow> True | Some Waiting \<Rightarrow> True | _ \<Rightarrow> False)"

definition earned :: "(int \<times> gmResult) list \<Rightarrow> int \<Rightarrow> gmResult \<Rightarrow> bool" where
  "earned rs q r \<longleftrightarrow> (case r of Sent \<Rightarrow> (q, r) \<in> set rs | Rejected _ \<Rightarrow> (q, r) \<in> set rs | _ \<Rightarrow> True)"

text \<open>What holds of a call \<open>q\<close> in every reachable state.\<close>

definition call_ok :: "gmSys \<Rightarrow> int \<Rightarrow> bool" where
  "call_ok s q \<longleftrightarrow>
     (sy_seq s < q \<longrightarrow> sy_thread s q = None) \<and>
     (q \<in> sy_pending s \<longrightarrow> active (sy_thread s q) \<and> q \<notin> sy_closedCh s) \<and>
     (listening (sy_thread s q) \<and> q \<in> sy_closedCh s \<longrightarrow> sy_buf s q \<noteq> None) \<and>
     (\<forall>r. sy_buf s q = Some r \<longrightarrow> earned (sy_replies s) q r) \<and>
     (\<forall>r. sy_thread s q = Some (Leaving r) \<or> sy_thread s q = Some (Returned r) \<longrightarrow> earned (sy_replies s) q r) \<and>
     (\<forall>c r. sy_loop s = Delivering c q r \<longrightarrow> earned (sy_replies s) q r \<and> q \<notin> sy_closedCh s \<and>
        sy_thread s q \<noteq> None \<and> (\<forall>d. sy_thread s q \<noteq> Some (Reserved d))) \<and>
     in_buffer q s + in_hand q s \<le> answers q s"

lemma earned_append: "earned rs q r \<Longrightarrow> earned (rs @ xs) q r"
  by (auto simp: earned_def split: gmResult.splits)

lemma earned_new: "earned (rs @ [(q, r)]) q r"
  by (auto simp: earned_def split: gmResult.splits)

lemma call_ok_idle: "call_ok gm_idle q"
  by (simp add: call_ok_def gm_idle_def active_def listening_def in_buffer_def in_hand_def)

lemmas call_defs = call_ok_def active_def listening_def in_buffer_def in_hand_def answers_def

lemma reserve_ok: "(\<And>q. call_ok s q) \<Longrightarrow> call_ok (step_reserve s) q"
proof -
  assume ok: "\<And>q. call_ok s q"
  show ?thesis
    using ok[of q] unfolding call_defs step_defs Let_def
    by (cases "q = sy_seq s + 1"; cases "sy_conn s"; simp add: earned_def split: gmStage.splits gmLoopStage.splits option.splits)
qed

lemma register_ok: "call_ok s q \<Longrightarrow> sy_thread s p = Some (Reserved c) \<Longrightarrow> call_ok (step_register p c s) q"
  unfolding call_defs step_defs by (cases "q = p"; auto split: gmLoopStage.splits)

lemma stage_ok: "call_ok s q \<Longrightarrow> sy_thread s p = Some (Registered c) \<Longrightarrow> call_ok (step_stage p Waiting s) q"
  unfolding call_defs step_defs by (cases "q = p"; auto split: gmLoopStage.splits)

lemma quit_ok:
  "call_ok s q \<Longrightarrow> listening (sy_thread s p) \<Longrightarrow> r = WriteFailed \<or> r = TimedOut \<Longrightarrow> call_ok (step_stage p (Leaving r) s) q"
  unfolding call_defs step_defs by (cases "q = p"; auto simp: earned_def split: gmLoopStage.splits option.splits gmStage.splits)

lemma receive_ok:
  "call_ok s q \<Longrightarrow> sy_thread s p = Some Waiting \<Longrightarrow> sy_buf s p = Some r \<Longrightarrow> call_ok (step_receive p r s) q"
  unfolding call_defs step_defs by (cases "q = p"; auto split: gmLoopStage.splits if_splits)

lemma leave_ok: "call_ok s q \<Longrightarrow> sy_thread s p = Some (Leaving r) \<Longrightarrow> call_ok (step_leave p r s) q"
  unfolding call_defs step_defs by (cases "q = p"; auto split: gmLoopStage.splits)

lemma connect_ok: "call_ok s q \<Longrightarrow> sy_loop s = Off \<Longrightarrow> call_ok (step_connect s) q"
  unfolding call_defs step_defs by simp

lemma lookup_ok: "call_ok s q \<Longrightarrow> sy_loop s = Reading c \<Longrightarrow> call_ok (step_lookup c p r s) q"
  unfolding call_defs step_defs
  by (cases "q = p"; auto simp: earned_append earned_new split: option.splits gmStage.splits)

lemma deliver_ok: "call_ok s q \<Longrightarrow> sy_loop s = Delivering c p r \<Longrightarrow> sy_buf s p = None \<Longrightarrow> call_ok (step_deliver c p r s) q"
  unfolding call_defs step_defs by (cases "q = p"; auto)

lemma drop_ok: "call_ok s q \<Longrightarrow> sy_loop s = Reading c \<Longrightarrow> call_ok (step_drop c s) q"
  unfolding call_defs step_defs by simp

lemma fail_ok: "call_ok s q \<Longrightarrow> sy_loop s = Dropped c \<Longrightarrow> call_ok (step_fail c s) q"
  unfolding call_defs step_defs by (auto simp: earned_def)

lemma hangup_ok: "call_ok s q \<Longrightarrow> sy_loop s = Failed c \<Longrightarrow> call_ok (step_hangup c s) q"
  unfolding call_defs step_defs by simp

lemma step_ok:
  assumes "gm_step s t" and ok: "\<And>q. call_ok s q"
  shows "call_ok t q"
  using assms(1)
proof cases
  case (receive_closed p)
  then show ?thesis using ok[of p] by (simp add: call_ok_def listening_def)
next
  case (not_written p c)
  then show ?thesis using ok[of q] by (simp add: quit_ok listening_def)
next
  case (expire p)
  then show ?thesis using ok[of q] by (simp add: quit_ok listening_def)
next
  case (ping_failed c)
  then show ?thesis using ok[of q] by (simp add: call_defs)
qed (auto intro: ok reserve_ok register_ok stage_ok receive_ok leave_ok connect_ok lookup_ok deliver_ok drop_ok fail_ok hangup_ok)

lemma reach_ok: "gm_reach gm_idle s \<Longrightarrow> call_ok s q"
  by (induction arbitrary: q rule: gm_reach.induct) (simp_all add: call_ok_idle step_ok)

section \<open>What the callers are told\<close>

text \<open>C20: In every interleaving of calls, replies, timeouts and reconnections a call reports success only if the
  back end answered its own request without an error, and an error of the back end only if that
  was the answer. No reply is ever put into a channel that was closed, which would be a panic, and
  a call never takes the closing of its channel for success.\<close>

theorem gomuks_send_truthful:
  assumes "gm_reach gm_idle s"
  shows "(sy_thread s q = Some (Returned r) \<and> (r = Sent \<or> (\<exists>e. r = Rejected e)) \<longrightarrow> (q, r) \<in> set (sy_replies s)) \<and>
    (sy_loop s = Delivering c q r \<longrightarrow> q \<notin> sy_closedCh s) \<and>
    (sy_thread s q = Some Waiting \<and> q \<in> sy_closedCh s \<longrightarrow> sy_buf s q \<noteq> None)"
  using reach_ok[OF assms, of q] by (auto simp: call_ok_def earned_def listening_def)

text \<open>C21: As long as the back end answers each request at most once, the event loop never blocks on a reply: the
  channel it is about to fill is empty.\<close>

theorem gomuks_reply_delivered:
  assumes "gm_reach gm_idle s" and "sy_loop s = Delivering c q r" and "answers q s \<le> 1"
  shows "gm_step s (step_deliver c q r s)"
proof (rule gm_step.deliver[OF assms(2)])
  show "q \<notin> sy_closedCh s" "sy_buf s q = None"
    using reach_ok[OF assms(1), of q] assms(2,3) by (auto simp: call_ok_def in_buffer_def in_hand_def split: if_splits)
qed

definition gone :: "gmStage option \<Rightarrow> bool" where
  "gone st \<longleftrightarrow> (case st of Some (Leaving _) \<Rightarrow> True | Some (Returned _) \<Rightarrow> True | _ \<Rightarrow> False)"

definition stuck :: "nat \<Rightarrow> int \<Rightarrow> gmResult \<Rightarrow> gmSys \<Rightarrow> bool" where
  "stuck c q r s \<longleftrightarrow> sy_loop s = Delivering c q r \<and> sy_buf s q \<noteq> None \<and> gone (sy_thread s q)"

lemma stuck_step:
  assumes "gm_step s t" and "stuck c q r s" and "call_ok s q"
  shows "stuck c q r t"
  using assms(1)
proof cases
  case reserve
  then show ?thesis using assms(2,3) by (auto simp: stuck_def step_defs call_ok_def Let_def gone_def)
next
  case (leave p x)
  then show ?thesis using assms(2) by (cases "p = q") (auto simp: stuck_def step_defs gone_def)
qed (use assms(2) in \<open>auto simp: stuck_def step_defs gone_def split: option.splits\<close>)

text \<open>A second reply to a request whose caller has stopped listening (its write failed or its time was over)
  while the first reply still fills its channel blocks the event loop for ever: no event, no
  reply of any other call and no end of the connection is handled any more.\<close>

theorem gomuks_loop_stuck:
  assumes "gm_reach gm_idle s" and "stuck c q r s" and "gm_reach s t"
  shows "sy_loop t = Delivering c q r"
proof -
  from assms(3) have "gm_reach gm_idle t \<and> stuck c q r t"
  proof induction
    case (step u v)
    then show ?case using stuck_step[OF step(2)] reach_ok[of u q] gm_reach.step[of gm_idle u v] by simp
  qed (simp add: assms(1,2))
  then show ?thesis by (simp add: stuck_def)
qed

section \<open>Runs\<close>

definition ok_reply :: json where
  "ok_reply = JObj [(''command'', JStr ''response''), (''request_id'', JNum ''1'')]"

lemma ok_reply_handled: "snd (gm_message ([], [], []) (Some ok_reply) (gm_start False)) = Reply 1 None"
  by code_simp

definition run1 :: gmSys where "run1 = step_register 1 0 (step_reserve (step_connect gm_idle))"
definition run2 :: gmSys where "run2 = step_lookup 0 1 Sent (step_stage 1 Waiting run1)"
definition run3 :: gmSys where "run3 = step_leave 1 Sent (step_receive 1 Sent (step_deliver 0 1 Sent run2))"
definition run4 :: gmSys where
  "run4 = step_lookup 0 1 Sent (step_stage 1 (Leaving TimedOut) (step_deliver 0 1 Sent run2))"

lemma lookup_ok_reply: "sy_loop s = Reading c \<Longrightarrow> gm_step s (step_lookup c 1 Sent s)"
  using gm_step.lookup[OF _ ok_reply_handled, of s c] by (simp add: reply_result_def)

lemma run1_reach: "gm_reach gm_idle run1"
  unfolding run1_def
  by (intro gm_reach.step[OF gm_reach.step[OF gm_reach.step[OF gm_reach.start gm_step.connect] gm_step.reserve] gm_step.register])
     (simp_all add: step_defs gm_idle_def Let_def)

lemma run2_reach: "gm_reach gm_idle run2"
  unfolding run2_def
  by (intro gm_reach.step[OF gm_reach.step[OF run1_reach gm_step.written] lookup_ok_reply])
     (simp_all add: run1_def step_defs gm_idle_def Let_def)

lemma deliver2_reach: "gm_reach gm_idle (step_deliver 0 1 Sent run2)"
  by (rule gm_reach.step[OF run2_reach gm_step.deliver]) (simp_all add: run2_def run1_def step_defs gm_idle_def Let_def)

lemma run3_reach: "gm_reach gm_idle run3"
  unfolding run3_def
  by (rule gm_reach.step[OF gm_reach.step[OF deliver2_reach gm_step.receive] gm_step.leave])
     (simp_all add: run2_def run1_def step_defs gm_idle_def Let_def)

lemma run4_reach: "gm_reach gm_idle run4"
  unfolding run4_def
  by (rule gm_reach.step[OF gm_reach.step[OF deliver2_reach gm_step.expire] lookup_ok_reply])
     (simp_all add: run2_def run1_def step_defs gm_idle_def Let_def)

lemma gomuks_send_truthful_witness: "sy_thread run3 1 = Some (Returned Sent) \<and> (1, Sent) \<in> set (sy_replies run3)"
  using gomuks_send_truthful[OF run3_reach, of 1 Sent]
  by (simp add: run3_def run2_def run1_def step_defs gm_idle_def Let_def)

lemma gomuks_reply_delivered_witness: "gm_step run2 (step_deliver 0 1 Sent run2)"
  by (rule gomuks_reply_delivered[OF run2_reach])
     (simp_all add: answers_def run2_def run1_def step_defs gm_idle_def Let_def)

lemma gomuks_loop_stuck_witness: "sy_loop (step_leave 1 TimedOut run4) = Delivering 0 1 Sent"
proof (rule gomuks_loop_stuck[OF run4_reach])
  show "stuck 0 1 Sent run4"
    by (simp add: stuck_def gone_def run4_def run2_def run1_def step_defs gm_idle_def Let_def)
  show "gm_reach run4 (step_leave 1 TimedOut run4)"
    by (rule gm_reach.step[OF gm_reach.start gm_step.leave])
       (simp add: run4_def run2_def run1_def step_defs gm_idle_def Let_def)
qed

end
