(* ===== verification/Bili_Client.thy ===== *)
theory Bili_Client
  imports Feedlib Gotime Digest Dispatch "HOL-Library.List_Lexorder" "HOL-Library.Char_ord"
begin

text \<open>
  The HTTP client of the bilibili back end: \<open>src/fbprotocols/bilibili/client.go\<close> (cookies, the
  classification of answers, the envelope), \<open>wbi.go\<close> (signed queries) and \<open>recommend.go\<close>, with the
  state and the environment that all of the back end shares. In the environment, \<open>be_net n\<close> answers the
  \<open>n\<close>-th request, \<open>be_clock i\<close> is the time at instant \<open>i\<close> (instants pass with each request and with each
  tick of the schedule), \<open>be_json\<close> parses a JSON text, \<open>be_loginUI\<close> starts the login page (\<open>login.go\<close>) or
  gives the address of the one that runs, and \<open>be_writes\<close> tells whether the credential file can be
  written. Maps of parameters are association lists with distinct keys. Headers that are the same in
  every request are left out, as are the locks: the operations run one at a time.
\<close>

section \<open>Errors and answers\<close>

datatype biliErr =
  ErrNotLoggedIn | ErrRiskControl | Unverifiable string | OtherErr string
| PartialBackoff | LoginPending string | LoginCooldown duration

text \<open>The words of the cooldown message, in UTF-8.\<close>

definition cooldown_head :: string where
  "cooldown_head = map char_of [0xE7 :: nat, 0x99, 0xBB, 0xE5, 0xBD, 0x95, 0x20, 0x55, 0x49, 0x20, 0xE5, 0x86, 0xB7, 0xE5, 0x8D, 0xB4, 0xE4, 0xB8, 0xAD, 0x28, 0xE7, 0xBA, 0xA6, 0x20]"

definition cooldown_tail :: string where
  "cooldown_tail = map char_of [0x29 :: nat, 0x2C, 0xE7, 0xA8, 0x8D, 0xE5, 0x90, 0x8E, 0xE8, 0x87, 0xAA, 0xE5, 0x8A, 0xA8, 0xE9, 0x87, 0x8D, 0xE8, 0xAF, 0x95]"

text \<open>\<open>d.Round(time.Second)\<close> of a duration that is not negative.\<close>

definition round_second :: "duration \<Rightarrow> duration" where
  "round_second d = (d + 500000000) div 1000000000 * 1000000000"

definition errText :: "biliErr \<Rightarrow> string" where
  "errText e =
     (case e of
        ErrNotLoggedIn \<Rightarrow> ''bilibili: not logged in or session expired''
      | ErrRiskControl \<Rightarrow> ''bilibili: blocked by risk control''
      | Unverifiable t \<Rightarrow> ''bilibili: unverifiable html response'' @ (if t = [] then [] else CHR '' '' # t)
      | PartialBackoff \<Rightarrow> ''bilibili: risk control backoff, round skipped''
      | LoginPending u \<Rightarrow> ''bilibili: login UI open at '' @ u
      | LoginCooldown d \<Rightarrow> ''bilibili: '' @ cooldown_head @ showDuration (round_second d) @ cooldown_tail
      | OtherErr t \<Rightarrow> t)"

record biliReq =
  rq_method :: string
  rq_url :: string
  rq_form :: "(string \<times> string) list option"

text \<open>An answer: a transport error, or the status, the \<open>Set-Cookie\<close> headers and the body, which is
  \<open>Inl\<close> of an error when it could not be read.\<close>

datatype biliAnswer = NetError error | Answer nat "string list" "error + string"

record biliEnv =
  be_net :: "nat \<Rightarrow> biliReq \<Rightarrow> biliAnswer"
  be_clock :: "nat \<Rightarrow> time"
  be_json :: "string \<Rightarrow> json option"
  be_loginUI :: "nat \<Rightarrow> error + string"
  be_writes :: "nat \<Rightarrow> bool"

record wbiKeys =
  imgKey :: string
  subKey :: string
  mixinKey :: string
  fetchedAt :: time

record biliAuth =
  au_user :: string
  au_status :: string
  au_loginMethod :: string
  au_refreshToken :: string

record authFileJSON =
  af_SESSDATA :: string
  af_BiliJCT :: string
  af_DedeUserID :: string
  af_CkMd5 :: string
  af_RefreshToken :: string
  af_User :: string
  af_Status :: string
  af_LoginMethod :: string

record bili =
  jar :: "string \<Rightarrow> string"
  wbi :: wbiKeys
  backoffUntil :: time
  warm :: bool
  auth :: biliAuth
  lastAuthErr :: "biliErr option"
  reLoginAt :: time
  authFile :: "authFileJSON option"
  requests :: "biliReq list"
  loginUIs :: "time list"
  lastErrs :: "biliErr list"
  published :: "(string \<rightharpoonup> json) list"
  ticks :: nat
  crashed :: bool

definition bili_ix :: "bili \<Rightarrow> nat" where "bili_ix s = length (requests s) + ticks s"

definition bili_now :: "biliEnv \<Rightarrow> bili \<Rightarrow> time" where
  "bili_now env s = be_clock env (bili_ix s)"

section \<open>Cookies\<close>

text \<open>\<open>cookieStore\<close>: a cookie that was never set reads as the empty string; the empty value is never stored.\<close>

definition jar_set :: "string \<Rightarrow> string \<Rightarrow> bili \<Rightarrow> bili" where
  "jar_set k v s = (if v = [] then s else s\<lparr>jar := (jar s)(k := v)\<rparr>)"

definition captureCookie :: "bili \<Rightarrow> string \<Rightarrow> bili" where
  "captureCookie s header =
     (case cut CHR ''='' header of
        None \<Rightarrow> s
      | Some (name, rest) \<Rightarrow>
          (let val = trim_space (takeWhile (\<lambda>d. d \<noteq> CHR '';'') rest)
           in if name \<noteq> [] \<and> val \<noteq> [] then jar_set name val s else s))"

definition captureSetCookie :: "string list \<Rightarrow> bili \<Rightarrow> bili" where
  "captureSetCookie hs s = foldl captureCookie s hs"

section \<open>Requests\<close>

definition apiHost :: string where "apiHost = ''https://api.bilibili.com''"
definition passportHost :: string where "passportHost = ''https://passport.bilibili.com''"
definition navURL :: string where "navURL = apiHost @ ''/x/web-interface/nav''"
definition fingerURL :: string where "fingerURL = apiHost @ ''/x/frontend/finger/spi''"
definition ticketURL :: string where "ticketURL = apiHost @ ''/bapis/bilibili.api.ticket.v1.Ticket/GenWebTicket''"

definition looksHTML :: "string \<Rightarrow> bool" where
  "looksHTML b \<longleftrightarrow> has_prefix (trim_space b) ''<''"

text \<open>\<open>\s+\<close> becomes one blank; then at most \<open>n\<close> runes.\<close>

definition re_space :: "char \<Rightarrow> bool" where
  "re_space c \<longleftrightarrow> c = CHR '' '' \<or> of_char c \<in> {9, 10, 12, 13 :: nat}"

fun squeeze :: "bool \<Rightarrow> string \<Rightarrow> string" where
  "squeeze inside [] = []"
| "squeeze inside (c # s) =
     (if re_space c then (if inside then squeeze True s else CHR '' '' # squeeze True s) else c # squeeze False s)"

definition truncateText :: "string \<Rightarrow> nat \<Rightarrow> string" where
  "truncateText s n =
     (let t = squeeze False (trim_space s); rs = runes t
      in if length rs \<le> n then t else concat (map (encode_rune \<circ> fst) (take n rs)) @ ''...'')"

definition noteRateLimit :: "time \<Rightarrow> bili \<Rightarrow> bili" where
  "noteRateLimit now s = s\<lparr>backoffUntil := now + seconds 15\<rparr>"

text \<open>\<open>doBili\<close>: the body with the status, or the classified error.\<close>

definition doBili :: "biliEnv \<Rightarrow> string \<Rightarrow> string \<Rightarrow> (string \<times> string) list option \<Rightarrow> bili \<Rightarrow> bili \<times> (biliErr + nat \<times> string)" where
  "doBili env meth u form s =
     (let rq = \<lparr>rq_method = meth, rq_url = u, rq_form = form\<rparr>;
          s1 = s\<lparr>requests := requests s @ [rq]\<rparr>
      in case be_net env (length (requests s)) rq of
           NetError e \<Rightarrow> (s1, Inl (OtherErr e))
         | Answer status cookies content \<Rightarrow>
             (let s2 = captureSetCookie cookies s1
              in case content of
                   Inl e \<Rightarrow> (s2, Inl (OtherErr e))
                 | Inr body \<Rightarrow>
                     if status = 200 then
                       (if looksHTML body then (noteRateLimit (bili_now env s2) s2, Inl (Unverifiable (''http 200 '' @ u)))
                        else (s2, Inr (200, body)))
                     else if status = 401 then (s2, Inl ErrNotLoggedIn)
                     else if status = 403 then (s2, Inl (OtherErr (''bilibili: http 403 '' @ truncateText body 160)))
                     else if status = 429 \<or> status = 412 then (s2, Inl ErrRiskControl)
                     else if status = 404 \<and> looksHTML body then (s2, Inl (Unverifiable (''http 404 '' @ u)))
                     else if status = 522 then (s2, Inl (Unverifiable (''http 522 '' @ u)))
                     else (s2, Inr (status, body))))"

definition classifyAPIError :: "string \<Rightarrow> int \<Rightarrow> string \<Rightarrow> biliErr" where
  "classifyAPIError u code msg =
     (if code = -101 \<or> code = -401 then ErrNotLoggedIn
      else if code = -352 \<or> code = -412 then ErrRiskControl
      else if code = -403 then ErrRiskControl
      else OtherErr (''bilibili: '' @ u @ '' code '' @ itoa code @ '': '' @ (if msg = [] then ''api error'' else msg)))"

record envResp =
  ev_Code :: int
  ev_Message :: string
  ev_Content :: "json option"

definition dec_envelope :: "envResp decoder" where
  "dec_envelope = dec_struct
     [(''code'', on ev_Code ev_Code_update dec_int), (''message'', on ev_Message ev_Message_update dec_string),
      (''data'', on ev_Content ev_Content_update dec_raw)]"

definition zeroEnvelope :: envResp where
  "zeroEnvelope = \<lparr>ev_Code = 0, ev_Message = [], ev_Content = None\<rparr>"

text \<open>\<open>getJSON\<close> into a target with the decoder \<open>d\<close> and the contents \<open>old\<close>; \<open>None\<close> is the nil target,
  into which nothing decodes. The result is the error, if any, and the target as it is left.\<close>

definition getJSON :: "biliEnv \<Rightarrow> 'a decoder option \<Rightarrow> 'a \<Rightarrow> string \<Rightarrow> bool \<Rightarrow> bili \<Rightarrow> bili \<times> biliErr option \<times> 'a" where
  "getJSON env d old u needAuth s =
     (case doBili env ''GET'' u None s of
        (s1, Inl e) \<Rightarrow> (s1, Some e, old)
      | (s1, Inr (status, body)) \<Rightarrow>
          (s1,
           if status \<noteq> 200 then (Some (OtherErr (''bilibili: http '' @ show_nat status @ '' '' @ truncateText body 160)), old)
           else case unmarshal dec_envelope zeroEnvelope (be_json env body) of
             None \<Rightarrow> (Some (if looksHTML body then Unverifiable u else OtherErr (''bilibili: parse '' @ u)), old)
           | Some r \<Rightarrow>
               if ev_Code r \<noteq> 0 then (Some (classifyAPIError u (ev_Code r) (ev_Message r)), old)
               else if needAuth \<and> jar s1 ''SESSDATA'' = [] then (Some ErrNotLoggedIn, old)
               else case (ev_Content r, d) of
                 (None, _) \<Rightarrow> (None, old)
               | (Some j, None) \<Rightarrow> (Some (OtherErr (''bilibili: parse data '' @ u)), old)
               | (Some j, Some d) \<Rightarrow>
                   (if snd (d old j) then None else Some (OtherErr (''bilibili: parse data '' @ u)), fst (d old j))))"

definition postForm :: "biliEnv \<Rightarrow> 'a decoder option \<Rightarrow> 'a \<Rightarrow> string \<Rightarrow> (string \<times> string) list \<Rightarrow> bili \<Rightarrow> bili \<times> (biliErr + 'a)" where
  "postForm env d zero u form s =
     (case doBili env ''POST'' u (Some form) s of
        (s1, Inl e) \<Rightarrow> (s1, Inl e)
      | (s1, Inr (status, body)) \<Rightarrow>
          (s1,
           if status \<noteq> 200 then Inl (OtherErr (''bilibili: http '' @ show_nat status @ '' '' @ truncateText body 160))
           else case unmarshal dec_envelope zeroEnvelope (be_json env body) of
             None \<Rightarrow> Inl (OtherErr (''bilibili: parse '' @ u))
           | Some r \<Rightarrow>
               if ev_Code r \<noteq> 0 then Inl (classifyAPIError u (ev_Code r) (ev_Message r))
               else (case (ev_Content r, d) of
                       (Some j, Some d) \<Rightarrow>
                         (case unmarshal d zero (Some j) of
                            None \<Rightarrow> Inl (OtherErr (''bilibili: parse data '' @ u)) | Some v \<Rightarrow> Inr v)
                     | _ \<Rightarrow> Inr zero)))"

section \<open>WBI keys\<close>

definition mixinKeyEncTab :: "nat list" where
  "mixinKeyEncTab =
     [46, 47, 18, 2, 53, 8, 23, 32, 15, 50, 10, 31, 58, 3, 45, 35, 27, 43, 5, 49,
      33, 9, 42, 19, 29, 28, 14, 39, 12, 38, 41, 13, 37, 48, 7, 16, 24, 55, 40,
      61, 26, 17, 0, 1, 60, 51, 30, 4, 22, 25, 54, 21, 56, 59, 6, 63, 57, 62, 11,
      36, 20, 34, 44, 52]"

definition wbiMixinFromKeys :: "string \<Rightarrow> string \<Rightarrow> string" where
  "wbiMixinFromKeys img sub =
     (let raw = img @ sub in map (\<lambda>i. raw ! i) (filter (\<lambda>i. i < length raw) (take 32 mixinKeyEncTab)))"

definition trim_suffix :: "string \<Rightarrow> string \<Rightarrow> string" where
  "trim_suffix s suf = (if has_suffix s suf then take (length s - length suf) s else s)"

definition keyFromURL :: "string \<Rightarrow> string" where
  "keyFromURL u = takeWhile (\<lambda>c. c \<noteq> CHR ''.'') (path_base (trim_suffix (trim_space u) ''/''))"

definition wbiKeysFromNav :: "time \<Rightarrow> json \<Rightarrow> bili \<Rightarrow> bili" where
  "wbiKeysFromNav now nav s =
     (case any_field nav ''wbi_img'' of
        Some (JObj es) \<Rightarrow>
          (let imgURL = any_string (any_field (JObj es) ''img_url'');
               subURL = any_string (any_field (JObj es) ''sub_url'');
               img = keyFromURL imgURL; sub = keyFromURL subURL
           in if imgURL = [] \<or> subURL = [] then s
              else if length img \<noteq> 32 \<or> length sub \<noteq> 32 then s
              else s\<lparr>wbi := \<lparr>imgKey = img, subKey = sub, mixinKey = wbiMixinFromKeys img sub, fetchedAt = now\<rparr>\<rparr>)
      | _ \<Rightarrow> s)"

definition wbiReady :: "bili \<Rightarrow> bool" where
  "wbiReady s \<longleftrightarrow> mixinKey (wbi s) \<noteq> []"

section \<open>Signed queries\<close>

definition uriEncodeCaps :: "string \<Rightarrow> string" where
  "uriEncodeCaps s =
     concat (map (\<lambda>(r, _). if wbi_plain r then [char_of r] else concat (map pct_char (encode_rune r))) (runes s))"

type_synonym params = "(string \<times> string) list"

definition wbi_pair :: "params \<Rightarrow> string \<Rightarrow> string" where
  "wbi_pair ps k = uriEncodeCaps k @ ''='' @ uriEncodeCaps (the (map_of ps k))"

definition wbi_query :: "params \<Rightarrow> string" where
  "wbi_query ps = join_with ''&'' (map (wbi_pair ps) (sort (map fst ps)))"

text \<open>\<open>wbiSign\<close> changes the map of its caller: the result has the query and the map as it is left.\<close>

definition wbiSign :: "string \<Rightarrow> time \<Rightarrow> params \<Rightarrow> error + string \<times> params" where
  "wbiSign mk now ps =
     (if mk = [] then Inl ''bilibili: wbi mixin key not ready''
      else
        (let ps1 = AList.update ''wts'' (itoa (now div 1000000000)) ps;
             ps2 = AList.update ''w_rid'' (md5_hex (wbi_query ps1 @ mk)) ps1
         in Inr (wbi_query ps2, ps2)))"

definition buildWBIURL :: "string \<Rightarrow> time \<Rightarrow> string \<Rightarrow> params \<Rightarrow> error + string \<times> params" where
  "buildWBIURL mk now base ps =
     (case wbiSign mk now ps of
        Inl e \<Rightarrow> Inl e
      | Inr (q, ps') \<Rightarrow> Inr (base @ (if contains_sub base ''?'' then ''&'' else ''?'') @ q, ps'))"

section \<open>The warm-up\<close>

text \<open>\<open>getJSONDataRaw\<close> decodes the whole body, envelope and all, into a \<open>map[string]any\<close>.\<close>

definition getJSONDataRaw :: "biliEnv \<Rightarrow> string \<Rightarrow> bili \<Rightarrow> bili \<times> (biliErr + json)" where
  "getJSONDataRaw env u s =
     (case doBili env ''GET'' u None s of
        (s1, Inl e) \<Rightarrow> (s1, Inl e)
      | (s1, Inr (status, body)) \<Rightarrow>
          (s1,
           if status \<noteq> 200 then Inl (OtherErr (''bilibili: http '' @ show_nat status))
           else case be_json env body of
             Some (JObj es) \<Rightarrow> Inr (JObj es)
           | Some JNull \<Rightarrow> Inr JNull
           | _ \<Rightarrow> Inl (OtherErr ''json'')))"

record ticketJSON =
  tk_Ticket :: string
  tk_NavID :: int

definition dec_ticket :: "ticketJSON decoder" where
  "dec_ticket = dec_struct [(''ticket'', on tk_Ticket tk_Ticket_update dec_string), (''nav_id'', on tk_NavID tk_NavID_update dec_int)]"

definition ticketForm :: "biliEnv \<Rightarrow> bili \<Rightarrow> (string \<times> string) list" where
  "ticketForm env s =
     (let csrf = jar s ''bili_jct''
      in (if csrf \<noteq> [] then [(''csrf'', csrf)] else [])
         @ [(''platform'', ''web''), (''ts'', itoa (unix (bili_now env s)))])"

definition biliTicket :: "biliEnv \<Rightarrow> bili \<Rightarrow> bili" where
  "biliTicket env s =
     (case postForm env (Some dec_ticket) \<lparr>tk_Ticket = [], tk_NavID = 0\<rparr> ticketURL (ticketForm env s) s of
        (s1, Inl e) \<Rightarrow> s1
      | (s1, Inr t) \<Rightarrow> jar_set ''bili_ticket'' (tk_Ticket t) s1)"

definition warmup :: "biliEnv \<Rightarrow> bili \<Rightarrow> bili" where
  "warmup env s =
     (let (s1, _) = getJSON env (None :: unit decoder option) () fingerURL False s;
          (s2, nav) = getJSONDataRaw env navURL s1;
          s3 = (case nav of Inl e \<Rightarrow> s2 | Inr j \<Rightarrow> wbiKeysFromNav (bili_now env s2) j s2)
      in biliTicket env s3)"

definition ensureWarmup :: "biliEnv \<Rightarrow> bili \<Rightarrow> bili" where
  "ensureWarmup env s = (if warm s then s else (warmup env s)\<lparr>warm := True\<rparr>)"

text \<open>\<open>decodeNavForWBI\<close> of \<open>wbi.go\<close>, as the session probe calls it.\<close>

definition decodeNavForWBI :: "biliEnv \<Rightarrow> string \<Rightarrow> bili \<Rightarrow> bili" where
  "decodeNavForWBI env body s =
     (case be_json env body of
        Some (JObj es) \<Rightarrow> wbiKeysFromNav (bili_now env s) (JObj es) s
      | _ \<Rightarrow> s)"

section \<open>Recommendations\<close>

record rcmdOwner =
  ow_Mid :: int
  ow_Name :: string

record rcmdStat =
  st_View :: int
  st_Like :: int

record rcmdItem =
  ri_ID :: int
  ri_Bvid :: string
  ri_Type :: int
  ri_Title :: string
  ri_Pic :: string
  ri_Owner :: rcmdOwner
  ri_Stat :: rcmdStat
  ri_Duration :: int

definition zeroItem :: rcmdItem where
  "zeroItem = \<lparr>ri_ID = 0, ri_Bvid = [], ri_Type = 0, ri_Title = [], ri_Pic = [],
     ri_Owner = \<lparr>ow_Mid = 0, ow_Name = []\<rparr>, ri_Stat = \<lparr>st_View = 0, st_Like = 0\<rparr>, ri_Duration = 0\<rparr>"

definition dec_item :: "rcmdItem decoder" where
  "dec_item = dec_struct
     [(''id'', on ri_ID ri_ID_update dec_int), (''bvid'', on ri_Bvid ri_Bvid_update dec_string),
      (''type'', on ri_Type ri_Type_update dec_int), (''title'', on ri_Title ri_Title_update dec_string),
      (''pic'', on ri_Pic ri_Pic_update dec_string),
      (''owner'', on ri_Owner ri_Owner_update (dec_struct
         [(''mid'', on ow_Mid ow_Mid_update dec_int), (''name'', on ow_Name ow_Name_update dec_string)])),
      (''stat'', on ri_Stat ri_Stat_update (dec_struct
         [(''view'', on st_View st_View_update dec_int), (''like'', on st_Like st_Like_update dec_int)])),
      (''duration'', on ri_Duration ri_Duration_update dec_int)]"

text \<open>\<open>rcmdData\<close> is its one field.\<close>

definition dec_rcmd :: "rcmdItem list decoder" where
  "dec_rcmd = dec_struct [(''item'', dec_list zeroItem dec_item)]"

definition rcmd_url :: "rcmdItem \<Rightarrow> string" where
  "rcmd_url it =
     (if ri_Bvid it \<noteq> [] then ''https://www.bilibili.com/video/'' @ ri_Bvid it
      else ''https://www.bilibili.com/video/av'' @ itoa (ri_ID it))"

definition rcmdBase :: string where
  "rcmdBase = apiHost @ ''/x/web-interface/wbi/index/top/feed/rcmd''"

text \<open>The error of \<open>refreshWBIKeys\<close> wraps that of the request.\<close>

definition refreshWBIKeys :: "biliEnv \<Rightarrow> bili \<Rightarrow> bili \<times> biliErr option" where
  "refreshWBIKeys env s =
     (case getJSONDataRaw env navURL s of
        (s1, Inl e) \<Rightarrow> (s1, Some (OtherErr (''bilibili: refresh wbi keys: '' @ errText e)))
      | (s1, Inr nav) \<Rightarrow>
          (let s2 = biliTicket env (wbiKeysFromNav (bili_now env s1) nav s1)
           in (s2, if wbiReady s2 then None else Some (OtherErr ''bilibili: wbi keys unavailable after nav probe''))))"

definition isWBIStale :: "biliErr \<Rightarrow> bool" where
  "isWBIStale e \<longleftrightarrow> list_ex (contains_sub (errText e)) [''-403'', ''code -403'', ''w_rid'', ''wbi'']"

definition rcmd_params :: "int \<Rightarrow> params" where
  "rcmd_params limit =
     (let l = (if limit \<le> 0 then 10 else limit); l = (if 30 < l then 30 else l)
      in [(''ps'', itoa l), (''fresh_type'', ''4'')])"

text \<open>The part after the keys are there: the signed request, and one retry with fresh keys. The map of
  parameters is the same in both, as the first signature left it.\<close>

definition rcmd_request :: "biliEnv \<Rightarrow> params \<Rightarrow> bili \<Rightarrow> bili \<times> (biliErr + rcmdItem list)" where
  "rcmd_request env ps s =
     (case buildWBIURL (mixinKey (wbi s)) (bili_now env s) rcmdBase ps of
        Inl e \<Rightarrow> (s, Inl (OtherErr e))
      | Inr (u, ps1) \<Rightarrow>
          (case getJSON env (Some dec_rcmd) [] u True s of
             (s1, None, items) \<Rightarrow> (s1, Inr items)
           | (s1, Some e, items) \<Rightarrow>
               if \<not> isWBIStale e then (s1, Inl e)
               else
                 (case refreshWBIKeys env s1 of
                    (s2, Some e2) \<Rightarrow> (s2, Inl e2)
                  | (s2, None) \<Rightarrow>
                      (case buildWBIURL (mixinKey (wbi s2)) (bili_now env s2) rcmdBase ps1 of
                         Inl e3 \<Rightarrow> (s2, Inl (OtherErr e3))
                       | Inr (u2, _) \<Rightarrow>
                           (case getJSON env (Some dec_rcmd) items u2 True s2 of
                              (s3, Some e4, _) \<Rightarrow> (s3, Inl e4)
                            | (s3, None, items2) \<Rightarrow> (s3, Inr items2))))))"

definition fetchRecommend :: "biliEnv \<Rightarrow> int \<Rightarrow> bili \<Rightarrow> bili \<times> (biliErr + rcmdItem list)" where
  "fetchRecommend env limit s =
     (if jar s ''SESSDATA'' = [] then (s, Inl ErrNotLoggedIn)
      else
        (let s1 = ensureWarmup env s
         in if wbiReady s1 then rcmd_request env (rcmd_params limit) s1
            else (case refreshWBIKeys env s1 of
                    (s2, Some e) \<Rightarrow> (s2, Inl e)
                  | (s2, None) \<Rightarrow> rcmd_request env (rcmd_params limit) s2)))"

section \<open>What an escaped text holds\<close>

lemma decode_rune_below:
  assumes "fst (decode_rune (c # s)) < 128"
  shows "decode_rune (c # s) = (of_char c, 1) \<and> (of_char c :: nat) < 128"
proof (rule ccontr)
  assume a: "\<not> ?thesis"
  then have ge: "\<not> (of_char c :: nat) < 128" by auto
  show False
  proof (cases "lead (of_char c)")
    case None
    then show ?thesis using ge assms by (simp add: runeError_def)
  next
    case (Some t)
    obtain n lo hi where t: "t = (n, lo, hi)" by (cases t) auto
    show ?thesis using ge assms Some t
      by (auto simp: runeError_def cont_def lead_def Let_def split: list.splits if_splits)
  qed
qed

lemma runes_step: "s \<noteq> [] \<Longrightarrow> runes s = (fst (decode_rune s), take (snd (decode_rune s)) s) # runes (drop (snd (decode_rune s)) s)"
  by (subst runes.simps) (simp add: case_prod_beta)

lemma wbi_plain_below: "wbi_plain r \<Longrightarrow> r < 128"
  by (auto simp: wbi_plain_def)

lemma wbi_plain_upper_digit: "i < 16 \<Longrightarrow> wbi_plain (of_char (upper_digits ! i))"
proof -
  assume "i < 16"
  then have "upper_digits ! i \<in> set upper_digits" by (intro nth_mem) (simp add: upper_digits_def)
  moreover have "list_all (\<lambda>c. wbi_plain (of_char c)) upper_digits" by (simp add: upper_digits_def wbi_plain_def)
  ultimately show ?thesis by (simp add: list_all_iff)
qed

definition wbi_char :: "char \<Rightarrow> bool" where
  "wbi_char c \<longleftrightarrow> wbi_plain (of_char c) \<or> c = CHR ''%''"

lemma pct_char_chars: "d \<in> set (pct_char c) \<Longrightarrow> wbi_char d"
proof -
  have "(of_char c :: nat) div 16 < 16" using of_char_less[of c] by (simp add: less_mult_imp_div_less)
  then show "d \<in> set (pct_char c) \<Longrightarrow> wbi_char d"
    using wbi_plain_upper_digit[of "of_char c div 16"] wbi_plain_upper_digit[of "of_char c mod 16"]
    by (auto simp: pct_char_def wbi_char_def)
qed

lemma uriEncodeCaps_chars: "c \<in> set (uriEncodeCaps s) \<Longrightarrow> wbi_char c"
proof -
  assume "c \<in> set (uriEncodeCaps s)"
  then obtain r where "wbi_plain r \<and> c = char_of r \<or> (\<exists>d. c \<in> set (pct_char d))"
    by (auto simp: uriEncodeCaps_def split: if_splits)
  then show "wbi_char c"
  proof
    assume "wbi_plain r \<and> c = char_of r"
    moreover from this have "(of_char c :: nat) = r" using wbi_plain_below[of r] by simp
    ultimately show ?thesis by (simp add: wbi_char_def)
  qed (auto intro: pct_char_chars)
qed

lemma uriEncodeCaps_no_sep [simp]: "CHR ''&'' \<notin> set (uriEncodeCaps s)" "CHR ''='' \<notin> set (uriEncodeCaps s)"
  using uriEncodeCaps_chars by (fastforce simp: wbi_char_def wbi_plain_def)+

lemma encode_rune_not_Nil: "encode_rune r \<noteq> []"
  by (simp add: encode_rune_def Let_def)

lemma uriEncodeCaps_id_iff: "CHR ''%'' \<notin> set (uriEncodeCaps s) \<Longrightarrow> uriEncodeCaps s = s"
proof (induction s rule: runes.induct)
  case (1 s)
  show ?case
  proof (cases s)
    case (Cons c t)
    let ?r = "fst (decode_rune s)" and ?n = "snd (decode_rune s)"
    have e: "uriEncodeCaps s = (if wbi_plain ?r then [char_of ?r] else concat (map pct_char (encode_rune ?r))) @ uriEncodeCaps (drop ?n s)"
      using Cons by (simp add: uriEncodeCaps_def runes_step del: decode_rune.simps)
    have "wbi_plain ?r"
    proof (rule ccontr)
      assume "\<not> wbi_plain ?r"
      then have "CHR ''%'' \<in> set (uriEncodeCaps s)"
        using e encode_rune_not_Nil[of ?r] by (cases "encode_rune ?r") (auto simp: pct_char_def)
      then show False using 1(2) by simp
    qed
    then have d: "decode_rune s = (of_char c, 1)" using decode_rune_below wbi_plain_below Cons by blast
    then have "uriEncodeCaps t = t" using 1 e Cons by simp
    then show ?thesis using e d Cons \<open>wbi_plain ?r\<close> by (simp del: decode_rune.simps)
  qed (simp add: uriEncodeCaps_def)
qed

lemma uriEncodeCaps_plain: "(\<forall>c \<in> set s. wbi_plain (of_char c)) \<Longrightarrow> uriEncodeCaps s = s"
  by (induction s) (simp_all add: uriEncodeCaps_def wbi_plain_below)

lemma uriEncodeCaps_eq_plain:
  "uriEncodeCaps s = t \<Longrightarrow> CHR ''%'' \<notin> set t \<Longrightarrow> s = t"
  using uriEncodeCaps_id_iff by metis

section \<open>Signatures the server accepts\<close>

text \<open>What the server checks: without the \<open>w_rid\<close> pair, the query and the key have that digest.\<close>

definition wbi_accepts :: "string \<Rightarrow> string \<Rightarrow> bool" where
  "wbi_accepts mk q =
     (let parts = split_on CHR ''&'' q
      in filter (\<lambda>p. has_prefix p ''w_rid='') parts
         = [''w_rid='' @ md5_hex (join_with ''&'' (filter (\<lambda>p. \<not> has_prefix p ''w_rid='') parts) @ mk)])"

lemma wbi_pair_prefix: "has_prefix (wbi_pair ps k) ''w_rid='' \<longleftrightarrow> k = ''w_rid''"
proof -
  have "has_prefix (uriEncodeCaps k @ ''='' @ v) ''w_rid='' \<longleftrightarrow> uriEncodeCaps k = ''w_rid''" for v
  proof
    assume "has_prefix (uriEncodeCaps k @ ''='' @ v) ''w_rid=''"
    then obtain r where e: "uriEncodeCaps k @ CHR ''='' # v = ''w_rid'' @ CHR ''='' # r"
      by (auto simp: has_prefix_iff)
    have "takeWhile (\<lambda>c. c \<noteq> CHR ''='') (uriEncodeCaps k @ CHR ''='' # v) = uriEncodeCaps k"
      by (subst takeWhile_append2) auto
    then show "uriEncodeCaps k = ''w_rid''" unfolding e by simp
  qed (simp add: has_prefix_def)
  moreover have "uriEncodeCaps k = ''w_rid'' \<longleftrightarrow> k = ''w_rid''"
    using uriEncodeCaps_eq_plain[of k "''w_rid''"] uriEncodeCaps_plain[of "''w_rid''"]
    by (auto simp: wbi_plain_def)
  ultimately show ?thesis by (simp add: wbi_pair_def)
qed

lemma wbi_pair_no_sep: "CHR ''&'' \<notin> set (wbi_pair ps k)"
  by (simp add: wbi_pair_def)

lemma split_wbi_query:
  "ps \<noteq> [] \<Longrightarrow> split_on CHR ''&'' (wbi_query ps) = map (wbi_pair ps) (sort (map fst ps))"
  unfolding wbi_query_def by (rule split_on_join_with) (auto simp: wbi_pair_no_sep simp flip: set_empty)

lemma sort_filter: "filter P (sort xs) = sort (filter P xs)"
  by (simp add: filter_sort)

lemma keys_delete: "map fst (AList.delete k ps) = filter (\<lambda>x. x \<noteq> k) (map fst ps)"
  by (induction ps) (auto simp: AList.delete_eq)

lemma wbi_pair_cong: "map_of ps k = map_of qs k \<Longrightarrow> wbi_pair ps k = wbi_pair qs k"
  by (simp add: wbi_pair_def)

lemma md5_hex_plain: "c \<in> set (md5_hex s) \<Longrightarrow> wbi_plain (of_char c)"
proof -
  have hd: "wbi_plain (of_char (hex_digits ! i))" if "i < 16" for i
  proof -
    have "hex_digits ! i \<in> set hex_digits" using that by (intro nth_mem) (simp add: hex_digits_props)
    moreover have "list_all (\<lambda>c. wbi_plain (of_char c)) hex_digits" by (simp add: hex_digits_def wbi_plain_def)
    ultimately show ?thesis by (simp add: list_all_iff)
  qed
  have "unat (b :: byte) div 16 < 16" for b using unat_byte_less[of b] by (simp add: less_mult_imp_div_less)
  then show "c \<in> set (md5_hex s) \<Longrightarrow> wbi_plain (of_char c)"
    by (auto simp: md5_hex_def hex_encode_def hd)
qed

lemma filter_one_key:
  "distinct ks \<Longrightarrow> filter (\<lambda>x. x = k) ks = (if k \<in> set ks then [k] else [])"
  by (induction ks) auto

text \<open>A query with the value \<open>v\<close> of \<open>w_rid\<close>: the server takes the digest of the other pairs.\<close>

lemma wbi_accepts_query:
  assumes "distinct (map fst ps)"
  shows "wbi_accepts mk (wbi_query (AList.update ''w_rid'' v ps)) \<longleftrightarrow>
           uriEncodeCaps v = md5_hex (wbi_query (AList.delete ''w_rid'' ps) @ mk)"
proof -
  let ?qs = "AList.update ''w_rid'' v ps" and ?ds = "AList.delete ''w_rid'' ps"
  have ks: "map fst ?qs = (if ''w_rid'' \<in> set (map fst ps) then map fst ps else map fst ps @ [''w_rid''])"
    by (simp add: AList.update_keys)
  have parts: "split_on CHR ''&'' (wbi_query ?qs) = map (wbi_pair ?qs) (sort (map fst ?qs))"
    by (rule split_wbi_query) (metis AList.update_nonempty)
  have one: "filter (\<lambda>k. k = ''w_rid'') (map fst ?qs) = [''w_rid'']"
    unfolding ks using assms filter_one_key[of "map fst ps"] by auto
  have rest: "filter (\<lambda>k. k \<noteq> ''w_rid'') (map fst ?qs) = map fst ?ds"
    unfolding ks keys_delete by simp
  have "filter (\<lambda>p. has_prefix p ''w_rid='') (split_on CHR ''&'' (wbi_query ?qs)) = [wbi_pair ?qs ''w_rid'']"
    using one by (simp add: parts filter_map comp_def wbi_pair_prefix sort_filter)
  moreover have "filter (\<lambda>p. \<not> has_prefix p ''w_rid='') (split_on CHR ''&'' (wbi_query ?qs)) = map (wbi_pair ?ds) (sort (map fst ?ds))"
  proof -
    have "map (wbi_pair ?qs) (sort (map fst ?ds)) = map (wbi_pair ?ds) (sort (map fst ?ds))"
      by (auto simp: keys_delete AList.update_conv' AList.delete_conv' intro!: wbi_pair_cong)
    moreover have "filter (\<lambda>k. k \<noteq> ''w_rid'') (sort (map fst ?qs)) = sort (map fst ?ds)"
      by (simp only: sort_filter rest)
    ultimately show ?thesis by (simp add: parts filter_map comp_def wbi_pair_prefix del: sort_filter)
  qed
  ultimately show ?thesis
    by (simp add: wbi_accepts_def Let_def wbi_query_def wbi_pair_def AList.update_conv' uriEncodeCaps_plain wbi_plain_def)
qed

lemma distinct_update: "distinct (map fst ps) \<Longrightarrow> distinct (map fst (AList.update k v ps))"
  by (rule AList.distinct_update)

lemma delete_update_same: "AList.delete k (AList.update k v ps) = AList.delete k ps"
  by (induction ps) (auto simp: AList.delete_eq)

lemma delete_absent: "k \<notin> set (map fst ps) \<Longrightarrow> AList.delete k ps = ps"
  by (induction ps) (auto simp: AList.delete_eq)

lemma wbiSign_result:
  assumes "wbiSign mk now ps = Inr (q, ps')"
  shows "q = wbi_query ps'"
    and "ps' = AList.update ''w_rid'' (md5_hex (wbi_query (AList.update ''wts'' (itoa (unix now)) ps) @ mk))
                 (AList.update ''wts'' (itoa (unix now)) ps)"
    and "mk \<noteq> []"
  using assms by (auto simp: wbiSign_def unix_def Let_def split: if_splits)

lemma wbi_accepts_signed:
  assumes "wbiSign mk now ps = Inr (q, ps')" "distinct (map fst ps)"
  defines "ps1 \<equiv> AList.update ''wts'' (itoa (unix now)) ps"
  shows "wbi_accepts mk q \<longleftrightarrow> md5_hex (wbi_query ps1 @ mk) = md5_hex (wbi_query (AList.delete ''w_rid'' ps1) @ mk)"
proof -
  have "uriEncodeCaps (md5_hex s) = md5_hex s" for s by (intro uriEncodeCaps_plain ballI md5_hex_plain)
  then show ?thesis
    unfolding wbiSign_result(1)[OF assms(1)] wbiSign_result(2)[OF assms(1)] ps1_def
    by (simp add: wbi_accepts_query AList.distinct_update assms(2))
qed

lemma wbi_query_delete_differs:
  assumes "''w_rid'' \<in> set (map fst ps)" "AList.delete ''w_rid'' ps \<noteq> []"
  shows "wbi_query ps \<noteq> wbi_query (AList.delete ''w_rid'' ps)"
proof
  assume e: "wbi_query ps = wbi_query (AList.delete ''w_rid'' ps)"
  have "ps \<noteq> []" using assms(1) by auto
  then have "map (wbi_pair ps) (sort (map fst ps)) =
      map (wbi_pair (AList.delete ''w_rid'' ps)) (sort (map fst (AList.delete ''w_rid'' ps)))"
    using e assms(2) by (simp flip: split_wbi_query)
  then have "length (sort (map fst ps)) = length (sort (map fst (AList.delete ''w_rid'' ps)))"
    by (metis length_map)
  then have "length (map fst ps) = length (filter (\<lambda>x. x \<noteq> ''w_rid'') (map fst ps))"
    by (simp only: length_sort keys_delete)
  then show False using assms(1) length_filter_less[of "''w_rid''" "map fst ps" "\<lambda>x. x \<noteq> ''w_rid''"] by simp
qed


text \<open>The retry of \<open>FetchRecommend\<close> signs the map of parameters that the first signature left, the old \<open>w_rid\<close> in it: what is signed differs from what the server digests, so the server accepts the second query only when these two texts have the same MD5 digest.\<close>

theorem recommend_retry_signature:
  assumes "wbiSign mk now ps = Inr (q, ps1)" "distinct (map fst ps)"
    and "wbiSign mk2 now2 ps1 = Inr (q2, ps2)"
  shows "wbi_query (AList.update ''wts'' (itoa (unix now2)) ps1) \<noteq> wbi_query (AList.delete ''w_rid'' ps2) \<and>
    (wbi_accepts mk2 q2 \<longleftrightarrow>
           md5_hex (wbi_query (AList.update ''wts'' (itoa (unix now2)) ps1) @ mk2)
           = md5_hex (wbi_query (AList.delete ''w_rid'' ps2) @ mk2))"
proof -
  let ?ps = "AList.update ''wts'' (itoa (unix now2)) ps1"
  have d1: "distinct (map fst ps1)"
    unfolding wbiSign_result(2)[OF assms(1)] by (intro AList.distinct_update assms(2))
  have d2: "AList.delete ''w_rid'' ps2 = AList.delete ''w_rid'' ?ps"
    unfolding wbiSign_result(2)[OF assms(3)] by (rule delete_update_same)
  have "''w_rid'' \<in> set (map fst ps1)"
    unfolding wbiSign_result(2)[OF assms(1)] by (simp add: AList.update_keys)
  then have "''w_rid'' \<in> set (map fst ?ps)" by (auto simp: AList.update_keys)
  moreover have "''wts'' \<in> set (map fst (AList.delete ''w_rid'' ?ps))"
    unfolding keys_delete by (simp add: AList.update_keys)
  then have "AList.delete ''w_rid'' ?ps \<noteq> []" by auto
  ultimately have "wbi_query ?ps \<noteq> wbi_query (AList.delete ''w_rid'' ps2)"
    unfolding d2 by (rule wbi_query_delete_differs)
  moreover have "wbi_accepts mk2 q2 \<longleftrightarrow> md5_hex (wbi_query ?ps @ mk2) = md5_hex (wbi_query (AList.delete ''w_rid'' ps2) @ mk2)"
    unfolding d2 by (rule wbi_accepts_signed[OF assms(3) d1])
  ultimately show ?thesis ..
qed


lemma recommend_retry_signature_witness:
  "\<exists>q1 ps1 q2 ps2. wbiSign ''k'' 0 [(''ps'', ''10'')] = Inr (q1, ps1) \<and> wbiSign ''m'' 9 ps1 = Inr (q2, ps2)
     \<and> wbi_query (AList.update ''wts'' (itoa (unix 9)) ps1) \<noteq> wbi_query (AList.delete ''w_rid'' ps2)"
proof -
  obtain q1 ps1 where a: "wbiSign ''k'' 0 [(''ps'', ''10'')] = Inr (q1, ps1)" by (simp add: wbiSign_def Let_def)
  obtain q2 ps2 where b: "wbiSign ''m'' 9 ps1 = Inr (q2, ps2)" by (simp add: wbiSign_def Let_def)
  show ?thesis using a b recommend_retry_signature[OF a _ b] by auto
qed

section \<open>Which errors are retried\<close>

text \<open>An answer of the recommendation endpoint with an error code is retried with fresh keys exactly when the code is none of -101, -401, -352, -412 and -403: the codes of a refused signature are the ones that are not retried, since their error has a text without the code, while the text of every other error holds the URL and so ``wbi''.\<close>

theorem wbi_stale_codes:
  "isWBIStale (classifyAPIError (rcmdBase @ q) code msg) \<longleftrightarrow> code \<notin> {-101, -401, -352, -412, -403}"
proof (cases "code \<in> {-101, -401, -352, -412, -403}")
  case True
  then have "classifyAPIError (rcmdBase @ q) code msg \<in> {ErrNotLoggedIn, ErrRiskControl}"
    by (auto simp: classifyAPIError_def)
  moreover have "\<not> isWBIStale ErrNotLoggedIn" "\<not> isWBIStale ErrRiskControl" by code_simp+
  ultimately show ?thesis using True by auto
next
  case False
  obtain x y where r: "rcmdBase = x @ y" and p: "has_prefix y ''wbi''"
    by (rule that[of "''https://api.bilibili.com/x/web-interface/''" "''wbi/index/top/feed/rcmd''"])
       (simp_all add: rcmdBase_def apiHost_def has_prefix_def)
  from p obtain z where y: "y = ''wbi'' @ z" unfolding has_prefix_iff by blast
  have pre: "contains_sub (''wbi'' @ t) ''wbi''" for t by (intro contains_sub_prefix has_prefix_append)
  have w: "contains_sub (''bilibili: '' @ rcmdBase @ t) ''wbi''" for t
    unfolding r y append_assoc by (rule contains_sub_append_left, rule contains_sub_append_left, rule pre)
  have "\<exists>t. classifyAPIError (rcmdBase @ q) code msg = OtherErr (''bilibili: '' @ rcmdBase @ t)"
    using False by (auto simp: classifyAPIError_def simp del: append_Cons intro: exI)
  then obtain t where "errText (classifyAPIError (rcmdBase @ q) code msg) = ''bilibili: '' @ rcmdBase @ t"
    by (auto simp: errText_def simp del: append_Cons)
  then have "contains_sub (errText (classifyAPIError (rcmdBase @ q) code msg)) ''wbi''" by (simp only: w)
  then show ?thesis using False by (simp only: isWBIStale_def list_ex_iff) auto
qed

section \<open>The keys of the navigation answer\<close>

lemma jar_set_wbi [simp]: "wbi (jar_set k v s) = wbi s"
  by (simp add: jar_set_def)

lemma captureCookie_wbi [simp]: "wbi (captureCookie s h) = wbi s"
  by (simp add: captureCookie_def Let_def split: option.splits)

lemma captureSetCookie_wbi [simp]: "wbi (captureSetCookie hs s) = wbi s"
  by (induction hs arbitrary: s) (simp_all add: captureSetCookie_def)

lemma jar_set_requests [simp]: "requests (jar_set k v s) = requests s"
  by (simp add: jar_set_def)

lemma captureCookie_requests [simp]: "requests (captureCookie s h) = requests s"
  by (simp add: captureCookie_def Let_def split: option.splits)

lemma captureSetCookie_requests [simp]: "requests (captureSetCookie hs s) = requests s"
  by (induction hs arbitrary: s) (simp_all add: captureSetCookie_def)

lemma doBili_wbi: "doBili env m u f s = (s', r) \<Longrightarrow> wbi s' = wbi s"
  by (auto simp: doBili_def Let_def noteRateLimit_def split: biliAnswer.splits sum.splits if_splits)

lemma doBili_requests: "doBili env m u f s = (s', r) \<Longrightarrow>
    requests s' = requests s @ [\<lparr>rq_method = m, rq_url = u, rq_form = f\<rparr>]"
  by (auto simp: doBili_def Let_def noteRateLimit_def split: biliAnswer.splits sum.splits if_splits)

lemma doBili_answer: "doBili env m u f s = (s', Inr (status, body)) \<Longrightarrow>
    \<exists>ck. be_net env (length (requests s)) \<lparr>rq_method = m, rq_url = u, rq_form = f\<rparr> = Answer status ck (Inr body)"
  by (auto simp: doBili_def Let_def split: biliAnswer.splits sum.splits if_splits)

text \<open>An answer of the service holds \<open>wbi_img\<close> under \<open>data\<close>, not at the top of the envelope.\<close>

definition nav_enveloped :: "biliEnv \<Rightarrow> bool" where
  "nav_enveloped env \<longleftrightarrow>
     (\<forall>n f ck body es. be_net env n \<lparr>rq_method = ''GET'', rq_url = navURL, rq_form = f\<rparr> = Answer 200 ck (Inr body) \<longrightarrow>
        be_json env body = Some (JObj es) \<longrightarrow> ''wbi_img'' \<notin> fst ` set es)"

text \<open>No keys yet, and only requests that are not for recommendations since the state \<open>s0\<close>.\<close>

definition no_keys_since :: "bili \<Rightarrow> bili \<Rightarrow> bool" where
  "no_keys_since s0 s \<longleftrightarrow> mixinKey (wbi s) = [] \<and>
     (\<forall>rq \<in> set (requests s). rq \<in> set (requests s0) \<or> rq_url rq \<in> {navURL, ticketURL, fingerURL})"

lemma wbiKeysFromNav_absent: "''wbi_img'' \<notin> fst ` set es \<Longrightarrow> wbiKeysFromNav now (JObj es) s = s"
  by (simp add: wbiKeysFromNav_def any_field_def map_of_eq_None_iff[THEN iffD2] split: option.split)

lemma wbiKeysFromNav_JNull: "wbiKeysFromNav now JNull s = s"
  by (simp add: wbiKeysFromNav_def any_field_def)

lemma doBili_no_keys:
  "doBili env m u f s = (s', r) \<Longrightarrow> u \<in> {navURL, ticketURL, fingerURL} \<Longrightarrow> no_keys_since s0 s \<Longrightarrow> no_keys_since s0 s'"
  unfolding no_keys_since_def using doBili_wbi[of env m u f s s' r] doBili_requests[of env m u f s s' r] by auto

lemma getJSON_no_keys:
  "getJSON env d old u a s = (s', r) \<Longrightarrow> u \<in> {navURL, ticketURL, fingerURL} \<Longrightarrow> no_keys_since s0 s \<Longrightarrow> no_keys_since s0 s'"
  by (auto simp: getJSON_def split: prod.splits sum.splits dest: doBili_no_keys)

lemma postForm_no_keys:
  "postForm env d old u f s = (s', r) \<Longrightarrow> u \<in> {navURL, ticketURL, fingerURL} \<Longrightarrow> no_keys_since s0 s \<Longrightarrow> no_keys_since s0 s'"
  by (auto simp: postForm_def split: prod.splits sum.splits dest: doBili_no_keys)

lemma jar_set_no_keys [simp]: "no_keys_since s0 (jar_set k v s) = no_keys_since s0 s"
  by (simp add: no_keys_since_def)

lemma biliTicket_no_keys: "no_keys_since s0 s \<Longrightarrow> no_keys_since s0 (biliTicket env s)"
  by (auto simp: biliTicket_def split: prod.splits sum.splits dest: postForm_no_keys)

lemma getJSONDataRaw_no_keys:
  assumes "nav_enveloped env" "getJSONDataRaw env navURL s = (s', r)" "no_keys_since s0 s"
  shows "no_keys_since s0 s'" and "r = Inr j \<Longrightarrow> wbiKeysFromNav now j t = t"
proof -
  obtain s1 a where d: "doBili env ''GET'' navURL None s = (s1, a)" by fastforce
  then have "s' = s1" using assms(2) by (auto simp: getJSONDataRaw_def split: sum.splits prod.splits)
  then show "no_keys_since s0 s'" using doBili_no_keys[OF d _ assms(3)] by simp
  assume r: "r = Inr j"
  then obtain body where a: "a = Inr (200, body)" and j: "be_json env body = Some j" "j = JNull \<or> (\<exists>es. j = JObj es)"
    using assms(2) d by (auto simp: getJSONDataRaw_def split: sum.splits prod.splits if_splits option.splits json.splits)
  show "wbiKeysFromNav now j t = t"
  proof (cases "j = JNull")
    case False
    with j obtain es where es: "be_json env body = Some (JObj es)" "j = JObj es" by auto
    then have "''wbi_img'' \<notin> fst ` set es"
      using doBili_answer[OF d[unfolded a]] assms(1) unfolding nav_enveloped_def by blast
    then show ?thesis unfolding es(2) by (rule wbiKeysFromNav_absent)
  qed (simp add: wbiKeysFromNav_JNull)
qed

lemma warmup_no_keys:
  assumes "nav_enveloped env" "no_keys_since s0 s"
  shows "no_keys_since s0 (warmup env s)"
proof -
  obtain s1 r1 where 1: "getJSON env (None :: unit decoder option) () fingerURL False s = (s1, r1)" by (rule prod.exhaust)
  obtain s2 r2 where 2: "getJSONDataRaw env navURL s1 = (s2, r2)" by fastforce
  have k1: "no_keys_since s0 s1" using getJSON_no_keys[OF 1 _ assms(2)] by simp
  note k2 = getJSONDataRaw_no_keys[OF assms(1) 2 k1]
  show ?thesis using k2 by (auto simp: warmup_def 1 2 Let_def intro!: biliTicket_no_keys split: sum.splits)
qed

lemma ensureWarmup_no_keys: "nav_enveloped env \<Longrightarrow> no_keys_since s0 s \<Longrightarrow> no_keys_since s0 (ensureWarmup env s)"
  using warmup_no_keys[of env s0 s] by (simp add: ensureWarmup_def no_keys_since_def)

lemma refreshWBIKeys_no_keys:
  assumes "nav_enveloped env" "no_keys_since s0 s" "refreshWBIKeys env s = (s', e)"
  shows "no_keys_since s0 s' \<and> e \<noteq> None"
proof -
  obtain s1 r1 where 1: "getJSONDataRaw env navURL s = (s1, r1)" by fastforce
  note k = getJSONDataRaw_no_keys[OF assms(1) 1 assms(2)]
  have t: "no_keys_since s0 (biliTicket env s1)" by (rule biliTicket_no_keys[OF k(1)])
  show ?thesis
  proof (cases r1)
    case (Inr j)
    then show ?thesis using assms(3) t k(2) by (auto simp: refreshWBIKeys_def 1 Let_def wbiReady_def no_keys_since_def)
  qed (use assms(3) k(1) in \<open>auto simp: refreshWBIKeys_def 1\<close>)
qed

text \<open>as long as the service wraps the navigation answer in its envelope (\<open>wbi_img\<close> under \<open>data\<close>, not at the top), \<open>FetchRecommend\<close> without keys fails, whatever else the service answers: it never sends a request for recommendations, and has no keys afterwards either.\<close>

theorem recommend_without_keys_fails:
  assumes "nav_enveloped env" "mixinKey (wbi s) = []"
  shows "(\<exists>e. snd (fetchRecommend env limit s) = Inl e)
       \<and> no_keys_since s (fst (fetchRecommend env limit s))"
proof -
  have k0: "no_keys_since s s" using assms(2) by (simp add: no_keys_since_def)
  have k1: "no_keys_since s (ensureWarmup env s)" by (rule ensureWarmup_no_keys[OF assms(1) k0])
  then have r: "\<not> wbiReady (ensureWarmup env s)" by (simp add: wbiReady_def no_keys_since_def)
  obtain s2 e where 2: "refreshWBIKeys env (ensureWarmup env s) = (s2, e)" by fastforce
  show ?thesis
    using k0 r refreshWBIKeys_no_keys[OF assms(1) k1 2] by (auto simp: fetchRecommend_def Let_def 2)
qed

text \<open>A service that answers everything with the envelope.\<close>

definition nav_service :: biliEnv where
  "nav_service = \<lparr>be_net = (\<lambda>_ _. Answer 200 [] (Inr ''{}'')), be_clock = int,
     be_json = (\<lambda>_. Some (JObj [(''code'', JNum ''0''), (''data'', JObj [(''wbi_img'', JObj [])])])),
     be_loginUI = (\<lambda>_. Inr ''http://127.0.0.1:1/''), be_writes = (\<lambda>_. True)\<rparr>"

definition fresh_bili :: bili where
  "fresh_bili = \<lparr>jar = (\<lambda>_. []), wbi = \<lparr>imgKey = [], subKey = [], mixinKey = [], fetchedAt = 0\<rparr>, backoffUntil = 0,
     warm = False, auth = \<lparr>au_user = [], au_status = [], au_loginMethod = [], au_refreshToken = []\<rparr>,
     lastAuthErr = None, reLoginAt = 0, authFile = None, requests = [], loginUIs = [], lastErrs = [],
     published = [], ticks = 0, crashed = False\<rparr>"

lemma recommend_without_keys_fails_witness:
  "\<exists>e. snd (fetchRecommend nav_service 5 (jar_set ''SESSDATA'' ''a'' fresh_bili)) = Inl e"
proof -
  have "nav_enveloped nav_service" by (auto simp: nav_enveloped_def nav_service_def)
  moreover have "mixinKey (wbi (jar_set ''SESSDATA'' ''a'' fresh_bili)) = []" by (simp add: fresh_bili_def)
  ultimately show ?thesis
    using recommend_without_keys_fails[of nav_service "jar_set ''SESSDATA'' ''a'' fresh_bili" 5] by blast
qed

end
