(* ===== verification/Bili_Session.thy ===== *)
theory Bili_Session
  imports Bili_Client
begin

text \<open>
  The credentials and the session gateway of the bilibili back end: \<open>src/fbprotocols/bilibili/auth.go\<close>
  and the gateway part of \<open>bilibili.go\<close>. The credential file is the last one written; strings are kept
  in it as they are. A file that cannot be written is left as it was.
\<close>

section \<open>Status and errors\<close>

definition AuthStatusEmpty :: string where "AuthStatusEmpty = ''''"
definition AuthStatusReady :: string where "AuthStatusReady = ''ready''"
definition AuthStatusInvalid :: string where "AuthStatusInvalid = ''invalid''"

lemmas status_defs = AuthStatusEmpty_def AuthStatusReady_def AuthStatusInvalid_def

definition refreshURL :: string where "refreshURL = passportHost @ ''/x/passport-login/web/refresh''"

definition saveAuth :: "biliEnv \<Rightarrow> bili \<Rightarrow> bili" where
  "saveAuth env s =
     (if be_writes env (bili_ix s)
      then s\<lparr>authFile := Some \<lparr>af_SESSDATA = jar s ''SESSDATA'', af_BiliJCT = jar s ''bili_jct'',
               af_DedeUserID = jar s ''DedeUserID'', af_CkMd5 = jar s ''DedeUserID__ckMd5'',
               af_RefreshToken = au_refreshToken (auth s), af_User = au_user (auth s),
               af_Status = au_status (auth s), af_LoginMethod = au_loginMethod (auth s)\<rparr>\<rparr>
      else s)"

definition setStatus :: "string \<Rightarrow> bili \<Rightarrow> bili" where
  "setStatus st s = s\<lparr>auth := (auth s)\<lparr>au_status := st\<rparr>\<rparr>"

definition biliSetAuthStatus :: "biliEnv \<Rightarrow> string \<Rightarrow> bili \<Rightarrow> bili" where
  "biliSetAuthStatus env st s = (if st = AuthStatusInvalid then saveAuth env (setStatus st s) else setStatus st s)"

definition markSessionInvalid :: "biliEnv \<Rightarrow> biliErr \<Rightarrow> bili \<Rightarrow> bili" where
  "markSessionInvalid env e s = biliSetAuthStatus env AuthStatusInvalid (s\<lparr>lastAuthErr := Some e\<rparr>)"

definition clearAuthErr :: "bili \<Rightarrow> bili" where
  "clearAuthErr s = s\<lparr>lastAuthErr := None\<rparr>"

definition loadAuth :: "bili \<Rightarrow> bili" where
  "loadAuth s =
     (case authFile s of
        None \<Rightarrow> s
      | Some f \<Rightarrow>
          (let s1 = jar_set ''DedeUserID__ckMd5'' (af_CkMd5 f) (jar_set ''DedeUserID'' (af_DedeUserID f)
                      (jar_set ''bili_jct'' (af_BiliJCT f) (jar_set ''SESSDATA'' (af_SESSDATA f) s)))
           in s1\<lparr>auth := \<lparr>au_user = af_User f,
                  au_status = (if af_Status f = AuthStatusInvalid then AuthStatusInvalid
                               else if af_SESSDATA f \<noteq> [] then AuthStatusReady else AuthStatusEmpty),
                  au_loginMethod = af_LoginMethod f, au_refreshToken = af_RefreshToken f\<rparr>\<rparr>))"

definition setLoginMethod :: "string \<Rightarrow> bili \<Rightarrow> bili" where
  "setLoginMethod via s = s\<lparr>auth := (auth s)\<lparr>au_loginMethod := via\<rparr>\<rparr>"

text \<open>\<open>biliPushError\<close> keeps the last ten.\<close>

definition biliPushError :: "biliErr \<Rightarrow> bili \<Rightarrow> bili" where
  "biliPushError e s =
     (let es = lastErrs s @ [e] in s\<lparr>lastErrs := (if 10 < length es then drop (length es - 10) es else es)\<rparr>)"

section \<open>The session probe\<close>

record navImg =
  im_ImgURL :: string
  im_SubURL :: string

record navData =
  nv_IsLogin :: bool
  nv_Uname :: string
  nv_Mid :: int
  nv_WbiImg :: navImg

record navEnvelope =
  ne_Code :: int
  ne_Message :: string
  ne_Inner :: navData

definition dec_nav :: "navEnvelope decoder" where
  "dec_nav = dec_struct
     [(''code'', on ne_Code ne_Code_update dec_int), (''message'', on ne_Message ne_Message_update dec_string),
      (''data'', on ne_Inner ne_Inner_update (dec_struct
         [(''isLogin'', on nv_IsLogin nv_IsLogin_update dec_bool), (''uname'', on nv_Uname nv_Uname_update dec_string),
          (''mid'', on nv_Mid nv_Mid_update dec_int),
          (''wbi_img'', on nv_WbiImg nv_WbiImg_update (dec_struct
             [(''img_url'', on im_ImgURL im_ImgURL_update dec_string),
              (''sub_url'', on im_SubURL im_SubURL_update dec_string)]))]))]"

definition zeroNav :: navEnvelope where
  "zeroNav = \<lparr>ne_Code = 0, ne_Message = [],
     ne_Inner = \<lparr>nv_IsLogin = False, nv_Uname = [], nv_Mid = 0, nv_WbiImg = \<lparr>im_ImgURL = [], im_SubURL = []\<rparr>\<rparr>\<rparr>"

definition clearRateLimit :: "bili \<Rightarrow> bili" where
  "clearRateLimit s = s\<lparr>backoffUntil := 0\<rparr>"

definition rateLimited :: "time \<Rightarrow> bili \<Rightarrow> bool" where
  "rateLimited now s \<longleftrightarrow> now < backoffUntil s"

definition probeSession :: "biliEnv \<Rightarrow> bili \<Rightarrow> bili \<times> biliErr option" where
  "probeSession env s =
     (if jar s ''SESSDATA'' = [] then (markSessionInvalid env ErrNotLoggedIn s, Some ErrNotLoggedIn)
      else
        case doBili env ''GET'' navURL None s of
          (s1, Inl (Unverifiable t)) \<Rightarrow> (biliSetAuthStatus env AuthStatusReady s1, Some (Unverifiable []))
        | (s1, Inl e) \<Rightarrow> (s1, Some e)
        | (s1, Inr (status, body)) \<Rightarrow>
            if status \<noteq> 200 then (s1, Some (OtherErr (''bilibili: probe session: http '' @ show_nat status)))
            else (case unmarshal dec_nav zeroNav (be_json env body) of
                    None \<Rightarrow> (s1, Some (OtherErr ''bilibili: probe session parse''))
                  | Some nav \<Rightarrow>
                      (let s2 = clearRateLimit (decodeNavForWBI env body s1)
                       in if ne_Code nav = 0 \<and> nv_IsLogin (ne_Inner nav)
                          then (saveAuth env (clearAuthErr (s2\<lparr>auth := (auth s2)\<lparr>au_user := nv_Uname (ne_Inner nav),
                                  au_status := AuthStatusReady\<rparr>\<rparr>)), None)
                          else (markSessionInvalid env ErrNotLoggedIn s2, Some ErrNotLoggedIn))))"

section \<open>Rotation of the refresh token\<close>

record refreshJSON =
  rf_RefreshToken :: string
  rf_Status :: int
  rf_Message :: string

definition dec_refresh :: "refreshJSON decoder" where
  "dec_refresh = dec_struct
     [(''refresh_token'', on rf_RefreshToken rf_RefreshToken_update dec_string),
      (''status'', on rf_Status rf_Status_update dec_int), (''message'', on rf_Message rf_Message_update dec_string)]"

definition zeroRefresh :: refreshJSON where
  "zeroRefresh = \<lparr>rf_RefreshToken = [], rf_Status = 0, rf_Message = []\<rparr>"

text \<open>The rotation proper: \<open>refreshCookies\<close> when no other one is in flight.\<close>

definition refreshCookies :: "biliEnv \<Rightarrow> bili \<Rightarrow> bili \<times> biliErr option" where
  "refreshCookies env s =
     (let tok = au_refreshToken (auth s)
      in if tok = [] \<or> jar s ''SESSDATA'' = [] then (s, Some ErrNotLoggedIn)
         else
           case doBili env ''POST'' refreshURL (Some [(''refresh_token'', tok)]) s of
             (s1, Inl e) \<Rightarrow> (s1, Some e)
           | (s1, Inr (status, body)) \<Rightarrow>
               if status \<noteq> 200
               then (s1, Some (OtherErr (''bilibili: refresh http '' @ show_nat status @ '': '' @ truncateText body 160)))
               else (case unmarshal dec_refresh zeroRefresh (be_json env body) of
                       None \<Rightarrow> (s1, Some (OtherErr ''bilibili: refresh parse''))
                     | Some r \<Rightarrow>
                         if rf_Status r \<noteq> 0 then (markSessionInvalid env ErrNotLoggedIn s1, Some ErrNotLoggedIn)
                         else (saveAuth env (s1\<lparr>auth := (auth s1)\<lparr>au_refreshToken := rf_RefreshToken r,
                                 au_status := AuthStatusReady\<rparr>\<rparr>), None)))"

text \<open>The answer to a caller that finds a rotation in flight, from the state at the end of its wait.\<close>

definition refreshWaiter :: "bili \<Rightarrow> biliErr option" where
  "refreshWaiter s = (if au_status (auth s) = AuthStatusReady then None else Some ErrNotLoggedIn)"

definition confirmOldToken :: "biliEnv \<Rightarrow> string \<Rightarrow> bili \<Rightarrow> bili" where
  "confirmOldToken env tok s =
     fst (postForm env (None :: unit decoder option) () (passportHost @ ''/x/passport-login/web/confirm/refresh'')
            [(''csrf'', jar s ''bili_jct''), (''refresh_token'', tok)] s)"

section \<open>The gateway\<close>

definition armReLoginCooldown :: "time \<Rightarrow> bili \<Rightarrow> bili" where
  "armReLoginCooldown now s = s\<lparr>reLoginAt := now + minutes 5\<rparr>"

definition loginCooldownLeft :: "time \<Rightarrow> bili \<Rightarrow> duration" where
  "loginCooldownLeft now s = (let d = time_sub (reLoginAt s) now in if d < 0 then 0 else d)"

definition loginGate :: "biliEnv \<Rightarrow> bili \<Rightarrow> bili \<times> biliErr" where
  "loginGate env s =
     (let now = bili_now env s; d = loginCooldownLeft now s
      in if 0 < d then (s, LoginCooldown d)
         else
           (let s1 = s\<lparr>loginUIs := loginUIs s @ [now]\<rparr>
            in case be_loginUI env (length (loginUIs s)) of
                 Inl e \<Rightarrow> (armReLoginCooldown now s1, OtherErr e)
               | Inr url \<Rightarrow> (s1, LoginPending url)))"

definition gated :: "biliEnv \<Rightarrow> bili \<Rightarrow> bili \<times> biliErr option" where
  "gated env s = (case loginGate env s of (s1, e) \<Rightarrow> (s1, Some e))"

definition ensureSession :: "biliEnv \<Rightarrow> bili \<Rightarrow> bili \<times> biliErr option" where
  "ensureSession env s =
     (if rateLimited (bili_now env s) s then (s, Some PartialBackoff)
      else if au_status (auth s) = AuthStatusReady then (s, None)
      else if au_status (auth s) = AuthStatusEmpty then
        (let s1 = loadAuth s in if au_status (auth s1) = AuthStatusReady then (s1, None) else gated env s1)
      else if au_status (auth s) = AuthStatusInvalid then
        (case refreshCookies env s of
           (s1, Some ErrNotLoggedIn) \<Rightarrow> gated env s1
         | (s1, Some e) \<Rightarrow> gated env (markSessionInvalid env e s1)
         | (s1, None) \<Rightarrow>
             (case probeSession env s1 of
                (s2, Some e) \<Rightarrow> gated env (markSessionInvalid env e s2)
              | (s2, None) \<Rightarrow> (s2, None)))
      else gated env s)"

text \<open>One authenticated round on the state of a loop, and one tick of the loop that checks the session.\<close>

definition runAuthRound :: "biliEnv \<Rightarrow> ('st \<Rightarrow> bili \<Rightarrow> 'st \<times> bili) \<Rightarrow> 'st \<Rightarrow> bili \<Rightarrow> 'st \<times> bili" where
  "runAuthRound env fn st s =
     (case ensureSession env s of
        (s1, Some e) \<Rightarrow> (st, biliPushError e s1)
      | (s1, None) \<Rightarrow> fn st s1)"

definition authCheckTick :: "biliEnv \<Rightarrow> bili \<Rightarrow> bili" where
  "authCheckTick env s =
     (if au_status (auth s) \<noteq> AuthStatusReady then s
      else case probeSession env s of
             (s1, None) \<Rightarrow> s1
           | (s1, Some (Unverifiable t)) \<Rightarrow> s1
           | (s1, Some e) \<Rightarrow> biliPushError e s1)"

section \<open>What the primitives keep\<close>

lemma saveAuth_simps [simp]:
  "jar (saveAuth env s) = jar s" "auth (saveAuth env s) = auth s" "wbi (saveAuth env s) = wbi s"
  "requests (saveAuth env s) = requests s" "ticks (saveAuth env s) = ticks s"
  "reLoginAt (saveAuth env s) = reLoginAt s" "loginUIs (saveAuth env s) = loginUIs s"
  "backoffUntil (saveAuth env s) = backoffUntil s" "lastErrs (saveAuth env s) = lastErrs s"
  "published (saveAuth env s) = published s" "warm (saveAuth env s) = warm s"
  "lastAuthErr (saveAuth env s) = lastAuthErr s"
  by (simp_all add: saveAuth_def)

lemma biliSetAuthStatus_simps [simp]:
  "jar (biliSetAuthStatus env st s) = jar s" "au_status (auth (biliSetAuthStatus env st s)) = st"
  "au_refreshToken (auth (biliSetAuthStatus env st s)) = au_refreshToken (auth s)"
  "wbi (biliSetAuthStatus env st s) = wbi s"
  "requests (biliSetAuthStatus env st s) = requests s" "ticks (biliSetAuthStatus env st s) = ticks s"
  "reLoginAt (biliSetAuthStatus env st s) = reLoginAt s" "loginUIs (biliSetAuthStatus env st s) = loginUIs s"
  by (simp_all add: biliSetAuthStatus_def setStatus_def)

lemma markSessionInvalid_simps [simp]:
  "jar (markSessionInvalid env e s) = jar s" "au_status (auth (markSessionInvalid env e s)) = AuthStatusInvalid"
  "au_refreshToken (auth (markSessionInvalid env e s)) = au_refreshToken (auth s)"
  "wbi (markSessionInvalid env e s) = wbi s"
  "requests (markSessionInvalid env e s) = requests s" "ticks (markSessionInvalid env e s) = ticks s"
  "reLoginAt (markSessionInvalid env e s) = reLoginAt s" "loginUIs (markSessionInvalid env e s) = loginUIs s"
  by (simp_all add: markSessionInvalid_def)

lemma wbiKeysFromNav_simps [simp]:
  "jar (wbiKeysFromNav now j s) = jar s" "auth (wbiKeysFromNav now j s) = auth s"
  "requests (wbiKeysFromNav now j s) = requests s" "ticks (wbiKeysFromNav now j s) = ticks s"
  "reLoginAt (wbiKeysFromNav now j s) = reLoginAt s" "loginUIs (wbiKeysFromNav now j s) = loginUIs s"
  by (simp_all add: wbiKeysFromNav_def Let_def split: option.splits json.splits)

lemma decodeNavForWBI_simps [simp]:
  "jar (decodeNavForWBI env b s) = jar s" "auth (decodeNavForWBI env b s) = auth s"
  "requests (decodeNavForWBI env b s) = requests s" "ticks (decodeNavForWBI env b s) = ticks s"
  "reLoginAt (decodeNavForWBI env b s) = reLoginAt s" "loginUIs (decodeNavForWBI env b s) = loginUIs s"
  by (simp_all add: decodeNavForWBI_def split: option.splits json.splits)

lemma clearRateLimit_simps [simp]:
  "jar (clearRateLimit s) = jar s" "auth (clearRateLimit s) = auth s"
  "requests (clearRateLimit s) = requests s" "ticks (clearRateLimit s) = ticks s"
  "reLoginAt (clearRateLimit s) = reLoginAt s" "loginUIs (clearRateLimit s) = loginUIs s"
  by (simp_all add: clearRateLimit_def)

lemma jar_set_simps [simp]:
  "auth (jar_set k v s) = auth s" "ticks (jar_set k v s) = ticks s" "reLoginAt (jar_set k v s) = reLoginAt s"
  "loginUIs (jar_set k v s) = loginUIs s" "backoffUntil (jar_set k v s) = backoffUntil s"
  "authFile (jar_set k v s) = authFile s"
  "jar (jar_set k v s) x = (if x = k \<and> v \<noteq> [] then v else jar s x)"
  by (simp_all add: jar_set_def)

lemma captureCookie_simps [simp]:
  "auth (captureCookie s h) = auth s" "ticks (captureCookie s h) = ticks s"
  "reLoginAt (captureCookie s h) = reLoginAt s" "loginUIs (captureCookie s h) = loginUIs s"
  "backoffUntil (captureCookie s h) = backoffUntil s"
  by (simp_all add: captureCookie_def Let_def split: option.splits)

lemma captureCookie_keeps: "jar s k \<noteq> [] \<Longrightarrow> jar (captureCookie s h) k \<noteq> []"
  by (simp add: captureCookie_def Let_def split: option.splits)

lemma captureSetCookie_simps [simp]:
  "auth (captureSetCookie hs s) = auth s" "ticks (captureSetCookie hs s) = ticks s"
  "reLoginAt (captureSetCookie hs s) = reLoginAt s" "loginUIs (captureSetCookie hs s) = loginUIs s"
  "backoffUntil (captureSetCookie hs s) = backoffUntil s"
  by (induction hs arbitrary: s) (simp_all add: captureSetCookie_def)

lemma captureSetCookie_keeps: "jar s k \<noteq> [] \<Longrightarrow> jar (captureSetCookie hs s) k \<noteq> []"
  by (induction hs arbitrary: s) (simp_all add: captureSetCookie_def captureCookie_keeps)

lemma noteRateLimit_simps [simp]:
  "jar (noteRateLimit now s) = jar s" "auth (noteRateLimit now s) = auth s"
  "requests (noteRateLimit now s) = requests s" "ticks (noteRateLimit now s) = ticks s"
  "reLoginAt (noteRateLimit now s) = reLoginAt s" "loginUIs (noteRateLimit now s) = loginUIs s"
  "backoffUntil (noteRateLimit now s) = now + seconds 15"
  by (simp_all add: noteRateLimit_def)

text \<open>A request touches the cookies, the pause and the log of requests, and no cookie gets lost.\<close>

lemma doBili_frame:
  assumes "doBili env m u f s = (s', r)"
  shows "auth s' = auth s" "reLoginAt s' = reLoginAt s" "loginUIs s' = loginUIs s" "ticks s' = ticks s"
    and "jar s k \<noteq> [] \<Longrightarrow> jar s' k \<noteq> []"
  using assms captureSetCookie_keeps[of "s\<lparr>requests := requests s @ [\<lparr>rq_method = m, rq_url = u, rq_form = f\<rparr>]\<rparr>" k]
  by (auto simp: doBili_def Let_def split: biliAnswer.splits sum.splits if_splits)

section \<open>What each answer does to the session\<close>

text \<open>A request starts the pause of 15 seconds exactly when its answer is a page of HTML with status 200; the answers that mean risk control, 412, 429 and the envelope codes, never start it.\<close>

theorem backoff_only_on_html:
  "backoffUntil (fst (doBili env m u f s)) =
     (case be_net env (length (requests s)) \<lparr>rq_method = m, rq_url = u, rq_form = f\<rparr> of
        Answer status ck (Inr body) \<Rightarrow>
          (if status = 200 \<and> looksHTML body then bili_now env (fst (doBili env m u f s)) + seconds 15 else backoffUntil s)
      | _ \<Rightarrow> backoffUntil s)"
  by (auto simp: doBili_def Let_def bili_now_def bili_ix_def split: biliAnswer.split sum.split)

text \<open>what the probe of a stored session does, by the answer: the session is declared invalid exactly when there is no cookie or the answer is JSON of the right types that is not \<open>code = 0\<close> with \<open>isLogin\<close>. So an answer of risk control (code -352) ends the session, although the file promises to keep it then; a transport error or any other status keeps the status; a page of HTML makes the session ready.\<close>

theorem probeSession_status:
  "au_status (auth (fst (probeSession env s))) =
    (if jar s ''SESSDATA'' = [] then AuthStatusInvalid
     else case snd (doBili env ''GET'' navURL None s) of
       Inl (Unverifiable t) \<Rightarrow> AuthStatusReady
     | Inl _ \<Rightarrow> au_status (auth s)
     | Inr (status, body) \<Rightarrow>
         if status \<noteq> 200 then au_status (auth s)
         else case unmarshal dec_nav zeroNav (be_json env body) of
           None \<Rightarrow> au_status (auth s)
         | Some nav \<Rightarrow> if ne_Code nav = 0 \<and> nv_IsLogin (ne_Inner nav) then AuthStatusReady else AuthStatusInvalid)"
proof (cases "doBili env ''GET'' navURL None s")
  case (Pair s1 r)
  show ?thesis
    using doBili_frame(1)[OF Pair]
    by (auto simp: probeSession_def Pair Let_def clearAuthErr_def split: sum.split biliErr.split option.split)
qed

section \<open>The credential file\<close>

text \<open>a restarted process that loads the file written last has the cookies, the account, the login method and the token that were saved, and the status that was saved but for this: anything but \<open>invalid\<close> reads as \<open>ready\<close> when there is a session cookie and as empty when there is none.\<close>

theorem auth_file_roundtrip:
  assumes "be_writes env (bili_ix s)" "authFile t = authFile (saveAuth env s)" "jar t = (\<lambda>_. [])"
  shows "(\<forall>k \<in> {''SESSDATA'', ''bili_jct'', ''DedeUserID'', ''DedeUserID__ckMd5''}. jar (loadAuth t) k = jar s k) \<and>
    auth (loadAuth t) = (auth s)\<lparr>au_status :=
      (if au_status (auth s) = AuthStatusInvalid then AuthStatusInvalid
       else if jar s ''SESSDATA'' \<noteq> [] then AuthStatusReady else AuthStatusEmpty)\<rparr>"
  using assms by (auto simp: loadAuth_def saveAuth_def)

lemma auth_file_roundtrip_witness:
  "jar (loadAuth (saveAuth nav_service (jar_set ''SESSDATA'' ''a'' fresh_bili)\<lparr>jar := \<lambda>_. []\<rparr>)) ''SESSDATA'' = ''a''"
  using auth_file_roundtrip[of nav_service "jar_set ''SESSDATA'' ''a'' fresh_bili"
      "saveAuth nav_service (jar_set ''SESSDATA'' ''a'' fresh_bili)\<lparr>jar := \<lambda>_. []\<rparr>"]
  by (simp add: nav_service_def)

section \<open>The rotation loses the token\<close>

lemma dec_refresh_envelope:
  "unmarshal dec_refresh zeroRefresh
     (Some (JObj [(''code'', c), (''message'', JStr m), (''ttl'', t), (''data'', d)])) = Some \<lparr>rf_RefreshToken = [], rf_Status = 0, rf_Message = m\<rparr>"
  by (simp add: unmarshal_def dec_refresh_def dec_entry_def find_field_def fold_name_def to_lower_def to_lower_char_def
        zeroRefresh_def on_def)


definition refusing_service :: biliEnv where
  "refusing_service = nav_service\<lparr>be_json := (\<lambda>_. Some (JObj [(''code'', JNum ''-101''), (''message'', JStr ''no''),
     (''ttl'', JNum ''1''), (''data'', JNull)]))\<rparr>"

definition stored_session :: bili where
  "stored_session = jar_set ''SESSDATA'' ''a'' (fresh_bili\<lparr>auth := \<lparr>au_user = ''u'', au_status = AuthStatusInvalid,
     au_loginMethod = ''qr'', au_refreshToken = ''tok''\<rparr>\<rparr>)"


end
