(* ===== verification/Bili_Login.thy ===== *)
theory Bili_Login
  imports Bili_Session
begin

text \<open>
  The login page of the bilibili back end, \<open>src/fbprotocols/bilibili/login.go\<close>: the QR flow, password,
  SMS and pasted cookies. In its environment, \<open>le_stopped i\<close> tells whether the page was shut down by
  instant \<open>i\<close>, \<open>le_done i\<close> whether another login method has completed by then, \<open>le_pem\<close> and \<open>le_encrypt\<close>
  are the library's PEM decoder and RSA encryption under the key in a block, and \<open>le_scanKey\<close> takes the
  \<open>qrcode_key\<close> out of the query of a URL. A wait of a flow is one tick of the clock. The listener, the
  browser and the page itself are not modelled.
\<close>

definition utf8 :: "nat list \<Rightarrow> string" where
  "utf8 rs = concat (map encode_rune rs)"

record loginEnv =
  le_bili :: biliEnv
  le_desktop :: bool
  le_stopped :: "nat \<Rightarrow> bool"
  le_done :: "nat \<Rightarrow> bool"
  le_pem :: "string \<Rightarrow> bytes option"
  le_encrypt :: "bytes \<Rightarrow> string \<Rightarrow> error + bytes"
  le_scanKey :: "string \<Rightarrow> string"

record loginState =
  ls_stage :: string
  ls_qrURL :: string
  ls_errMsg :: string
  ls_user :: string

record login =
  lg_state :: loginState
  sms_token :: string
  sms_gt :: string
  sms_challenge :: string
  sms_captchaKey :: string
  lg_closeAt :: "time option"

definition qrGenURL :: string where "qrGenURL = passportHost @ ''/x/passport-login/web/qrcode/generate''"
definition qrPollURL :: string where "qrPollURL = passportHost @ ''/x/passport-login/web/qrcode/poll''"
definition keyURL :: string where "keyURL = passportHost @ ''/x/passport-login/web/key''"
definition loginURL :: string where "loginURL = passportHost @ ''/x/passport-login/web/login''"
definition smsSendURL :: string where "smsSendURL = passportHost @ ''/x/passport-login/web/sms/send''"
definition smsLoginURL :: string where "smsLoginURL = passportHost @ ''/x/passport-login/web/login/sms''"
definition smsCaptchaURL :: string where "smsCaptchaURL = passportHost @ ''/x/passport-login/captcha?source=main_web''"

definition stageIdle :: string where "stageIdle = ''idle''"
definition stageWaiting :: string where "stageWaiting = ''waiting''"
definition stageScanned :: string where "stageScanned = ''scanned''"
definition stageDone :: string where "stageDone = ''done''"
definition stageExpired :: string where "stageExpired = ''expired''"
definition stageFailed :: string where "stageFailed = ''failed''"

section \<open>The state the page shows\<close>

definition snapshot :: "loginState \<Rightarrow> (string \<times> string) list" where
  "snapshot l =
     [(''stage'', ls_stage l), (''user'', ls_user l)]
     @ (if ls_qrURL l \<noteq> []
        then [(''qr_code_url'', ''https://api.qrserver.com/v1/create-qr-code/?size=220x220&data='' @ queryEscape (ls_qrURL l)),
              (''qr_url'', ls_qrURL l)] else [])
     @ (if ls_errMsg l \<noteq> [] then [(''error'', ls_errMsg l)] else [])"

definition ls_set :: "string \<Rightarrow> string \<Rightarrow> login \<Rightarrow> login" where
  "ls_set stage msg L =
     L\<lparr>lg_state := (lg_state L)\<lparr>ls_stage := stage, ls_errMsg := (if msg \<noteq> [] then msg else ls_errMsg (lg_state L))\<rparr>\<rparr>"

definition finalized :: "loginEnv \<Rightarrow> login \<Rightarrow> bili \<Rightarrow> bool" where
  "finalized le L s \<longleftrightarrow> ls_stage (lg_state L) = stageDone \<or> le_done le (bili_ix s)"

definition wait :: "bili \<Rightarrow> bili" where
  "wait s = s\<lparr>ticks := Suc (ticks s)\<rparr>"

text \<open>\<open>successHoldMs\<close> is the plain number 1500, which \<open>time.AfterFunc\<close> takes as nanoseconds.\<close>

definition finalizeLogin :: "loginEnv \<Rightarrow> string \<Rightarrow> login \<Rightarrow> bili \<Rightarrow> login \<times> bili" where
  "finalizeLogin le via L s =
     (let env = le_bili le;
          s1 = (if jar s ''SESSDATA'' \<noteq> [] then fst (probeSession env s) else s);
          s2 = (saveAuth env (setLoginMethod via s1))\<lparr>reLoginAt := 0\<rparr>
      in (L\<lparr>lg_state := (lg_state L)\<lparr>ls_stage := stageDone, ls_user := au_user (auth s1)\<rparr>,
             lg_closeAt := Some (bili_now env s2 + 1500)\<rparr>, s2))"

section \<open>The QR code\<close>

record qrGen =
  qg_URL :: string
  qg_Key :: string

definition dec_qrGen :: "qrGen decoder" where
  "dec_qrGen = dec_struct [(''url'', on qg_URL qg_URL_update dec_string), (''qrcode_key'', on qg_Key qg_Key_update dec_string)]"

definition zeroGen :: qrGen where "zeroGen = \<lparr>qg_URL = [], qg_Key = []\<rparr>"

definition parseQRGen :: "loginEnv \<Rightarrow> json option \<Rightarrow> qrGen option" where
  "parseQRGen le content =
     (case (case content of None \<Rightarrow> Some zeroGen | Some j \<Rightarrow> unmarshal dec_qrGen zeroGen (Some j)) of
        None \<Rightarrow> None
      | Some g \<Rightarrow>
          Some (if qg_URL g \<noteq> [] \<and> qg_Key g = [] \<and> le_scanKey le (qg_URL g) \<noteq> []
                then g\<lparr>qg_Key := le_scanKey le (qg_URL g)\<rparr> else g))"

definition qrGenFetch :: "biliEnv \<Rightarrow> string \<Rightarrow> bili \<Rightarrow> bili \<times> (biliErr + envResp \<times> string)" where
  "qrGenFetch env u s =
     (case doBili env ''GET'' u None s of
        (s1, Inl e) \<Rightarrow> (s1, Inl e)
      | (s1, Inr (status, body)) \<Rightarrow>
          (s1,
           if status \<noteq> 200 then Inl (OtherErr (''bilibili: http '' @ show_nat status @ '' '' @ truncateText body 160))
           else case unmarshal dec_envelope zeroEnvelope (be_json env body) of
             None \<Rightarrow> Inl (if looksHTML body then Unverifiable u else OtherErr (''bilibili: parse '' @ u))
           | Some r \<Rightarrow> if ev_Code r \<noteq> 0 then Inl (classifyAPIError u (ev_Code r) (ev_Message r)) else Inr (r, body)))"

text \<open>The attempts to get a code: at most three, a failed one leaving its error for the check after the loop.\<close>

definition emptyGenMsg :: "envResp \<Rightarrow> string \<Rightarrow> string" where
  "emptyGenMsg r raw =
     (utf8 [0x4e8c, 0x7ef4, 0x7801, 0x751f, 0x6210, 0x5931, 0x8d25] @ '':'' @ utf8 [0x7f3a, 0x5c11] @ '' qrcode_key (code='') @ itoa (ev_Code r) @ '', data='' @ truncateText raw 240 @ '')''"

fun qrGenLoop :: "loginEnv \<Rightarrow> nat \<Rightarrow> qrGen \<Rightarrow> string option \<Rightarrow> bili \<Rightarrow> bili \<times> qrGen \<times> string option" where
  "qrGenLoop le 0 g err s = (s, g, err)"
| "qrGenLoop le (Suc n) g err s =
     (case qrGenFetch (le_bili le) qrGenURL s of
        (s1, Inl e) \<Rightarrow> (s1, g, Some (errText e))
      | (s1, Inr (r, raw)) \<Rightarrow>
          (case parseQRGen le (ev_Content r) of
             None \<Rightarrow> (s1, g, Some (''bilibili: parse data '' @ qrGenURL))
           | Some g1 \<Rightarrow>
               if qg_URL g1 \<noteq> [] \<and> qg_Key g1 \<noteq> [] then (s1, g1, err)
               else qrGenLoop le n g1 (Some (emptyGenMsg r raw)) (if 0 < n then wait s1 else s1)))"

text \<open>The answer to a poll, as the flow declares it.\<close>

record pollInner =
  pi_URL :: string
  pi_RefreshToken :: string
  pi_Code :: int

record pollJSON =
  pl_Code :: int
  pl_Message :: string
  pl_Inner :: pollInner

definition dec_poll :: "pollJSON decoder" where
  "dec_poll = dec_struct
     [(''code'', on pl_Code pl_Code_update dec_int), (''message'', on pl_Message pl_Message_update dec_string),
      (''data'', on pl_Inner pl_Inner_update (dec_struct
         [(''url'', on pi_URL pi_URL_update dec_string),
          (''refresh_token'', on pi_RefreshToken pi_RefreshToken_update dec_string),
          (''code'', on pi_Code pi_Code_update dec_int)]))]"

definition zeroPoll :: pollJSON where
  "zeroPoll = \<lparr>pl_Code = 0, pl_Message = [], pl_Inner = \<lparr>pi_URL = [], pi_RefreshToken = [], pi_Code = 0\<rparr>\<rparr>"

definition qrScanState :: "int \<Rightarrow> int \<Rightarrow> int" where
  "qrScanState dataCode envCode = (if dataCode \<noteq> 0 then dataCode else envCode)"

text \<open>A confirmed scan.\<close>

definition qrConfirm :: "loginEnv \<Rightarrow> pollJSON \<Rightarrow> login \<Rightarrow> bili \<Rightarrow> login \<times> bili" where
  "qrConfirm le poll L s =
     (let L1 = ls_set stageScanned [] L;
          s1 = s\<lparr>auth := (auth s)\<lparr>au_refreshToken := pi_RefreshToken (pl_Inner poll)\<rparr>\<rparr>
      in if jar s1 ''SESSDATA'' = [] then (ls_set stageFailed (utf8 [0x626b, 0x7801, 0x767b, 0x5f55, 0x672a, 0x83b7, 0x5f97] @ '' SESSDATA cookie'') L1, s1)
         else (case probeSession (le_bili le) s1 of
                 (s2, Some e) \<Rightarrow> (ls_set stageFailed (errText e) L1, s2)
               | (s2, None) \<Rightarrow> finalizeLogin le ''qr'' L1 s2))"

fun qrPollLoop :: "loginEnv \<Rightarrow> nat \<Rightarrow> string \<Rightarrow> time \<Rightarrow> login \<Rightarrow> bili \<Rightarrow> (login \<times> bili) option" where
  "qrPollLoop le 0 key deadline L s = None"
| "qrPollLoop le (Suc n) key deadline L s =
     (let env = le_bili le in
      if le_stopped le (bili_ix s) \<or> finalized le L s then Some (L, s)
      else if deadline < bili_now env s then Some (ls_set stageExpired [] L, s)
      else
        case getJSON env (Some dec_poll) zeroPoll (qrPollURL @ ''?qrcode_key='' @ queryEscape key) False s of
          (s1, Some e, _) \<Rightarrow>
            if finalized le L s1 then Some (L, s1)
            else (case e of
                    Unverifiable t \<Rightarrow> Some (ls_set stageFailed (utf8 [0x4e8c, 0x7ef4, 0x7801, 0x8f6e, 0x8be2, 0x88ab, 0x98ce, 0x63a7] @ ''(HTML),'' @ utf8 [0x8bf7, 0x5237, 0x65b0, 0x91cd, 0x8bd5, 0x6216, 0x6539, 0x7528] @ '' Cookie '' @ utf8 [0x767b, 0x5f55]) L, s1)
                  | _ \<Rightarrow> if le_stopped le (bili_ix s1) then Some (L, s1) else qrPollLoop le n key deadline L (wait s1))
        | (s1, None, poll) \<Rightarrow>
            (let sc = qrScanState (pi_Code (pl_Inner poll)) (pl_Code poll) in
             if finalized le L s1 then Some (L, s1)
             else if sc = 0 \<or> sc = 86091 then Some (qrConfirm le poll L s1)
             else if sc = 86038 then Some (ls_set stageExpired (utf8 [0x4e8c, 0x7ef4, 0x7801, 0x5df2, 0x5931, 0x6548] @ '','' @ utf8 [0x8bf7, 0x5237, 0x65b0, 0x9875, 0x9762]) L, s1)
             else
               (let L1 = (if sc = 86090 then ls_set stageScanned [] L else L)
                in if le_stopped le (bili_ix s1) then Some (L1, s1)
                   else qrPollLoop le n key deadline L1 (wait s1))))"

definition runQRFlow :: "loginEnv \<Rightarrow> nat \<Rightarrow> login \<Rightarrow> bili \<Rightarrow> (login \<times> bili) option" where
  "runQRFlow le fuel L s =
     (if \<not> le_desktop le then Some (ls_set stageFailed (utf8 [0x5f53, 0x524d, 0x73af, 0x5883, 0x65e0, 0x684c, 0x9762] @ '','' @ utf8 [0x626b, 0x7801, 0x767b, 0x5f55, 0x4e0d, 0x53ef, 0x7528] @ '';'' @ utf8 [0x8bf7, 0x4f7f, 0x7528] @ '' Cookie '' @ utf8 [0x767b, 0x5f55]) L, s)
      else
        case qrGenLoop le 3 zeroGen None s of
          (s1, g, Some msg) \<Rightarrow> Some (ls_set stageFailed msg L, s1)
        | (s1, g, None) \<Rightarrow>
            qrPollLoop le fuel (qg_Key g) (bili_now (le_bili le) s1 + seconds 180)
              (L\<lparr>lg_state := (lg_state L)\<lparr>ls_qrURL := qg_URL g, ls_stage := stageWaiting\<rparr>\<rparr>) s1)"

section \<open>Password\<close>

definition rsaEncrypt :: "loginEnv \<Rightarrow> string \<Rightarrow> string \<Rightarrow> error + string" where
  "rsaEncrypt le pem plain =
     (case le_pem le pem of
        None \<Rightarrow> Inl ''passport returned no public key''
      | Some block \<Rightarrow> (case le_encrypt le block plain of Inl e \<Rightarrow> Inl e | Inr c \<Rightarrow> Inr (b64_encode c)))"

record passwordReq =
  pw_Username :: string
  pw_Password :: string
  pw_Validate :: string
  pw_Challenge :: string
  pw_Seccode :: string

record keyJSON =
  kj_Hash :: string
  kj_Key :: string

text \<open>The answer's target is a struct whose only field is \<open>data\<close>, with hash and key.\<close>

definition dec_keys :: "keyJSON decoder" where
  "dec_keys = dec_struct [(''data'', dec_struct
     [(''hash'', on kj_Hash kj_Hash_update dec_string), (''key'', on kj_Key kj_Key_update dec_string)])]"

definition passwordForm :: "passwordReq \<Rightarrow> string \<Rightarrow> (string \<times> string) list" where
  "passwordForm rq enc =
     [(''username'', pw_Username rq), (''password'', enc), (''keep'', ''true''), (''source'', ''main_web'')]
     @ (if pw_Challenge rq \<noteq> [] \<and> pw_Validate rq \<noteq> []
        then [(''challenge'', pw_Challenge rq), (''validate'', pw_Validate rq), (''seccode'', pw_Seccode rq)] else [])"

definition passwordLogin :: "loginEnv \<Rightarrow> passwordReq \<Rightarrow> bili \<Rightarrow> bili \<times> string option" where
  "passwordLogin le rq s =
     (let env = le_bili le in
      case getJSON env (Some dec_keys) \<lparr>kj_Hash = [], kj_Key = []\<rparr> keyURL False s of
        (s1, Some e, _) \<Rightarrow> (s1, Some ((''bilibili: '' @ utf8 [0x83b7, 0x53d6, 0x5bc6, 0x7801, 0x5bc6, 0x94a5, 0x5931, 0x8d25] @ '': '') @ errText e))
      | (s1, None, k) \<Rightarrow>
          (case rsaEncrypt le (kj_Key k) (kj_Hash k @ pw_Password rq) of
             Inl e \<Rightarrow> (s1, Some ((''bilibili: '' @ utf8 [0x5bc6, 0x7801, 0x52a0, 0x5bc6, 0x5931, 0x8d25] @ '': '') @ e))
           | Inr enc \<Rightarrow>
               (case postForm env (None :: unit decoder option) () loginURL (passwordForm rq enc) s1 of
                  (s2, Inl e) \<Rightarrow> (s2, Some ((''bilibili: '' @ utf8 [0x5bc6, 0x7801, 0x767b, 0x5f55, 0x5931, 0x8d25] @ '': '') @ errText e))
                | (s2, Inr _) \<Rightarrow>
                    (s2, if jar s2 ''SESSDATA'' = [] then Some (''bilibili: '' @ utf8 [0x5bc6, 0x7801, 0x767b, 0x5f55, 0x672a, 0x83b7, 0x5f97] @ '' SESSDATA('' @ utf8 [0x53ef, 0x80fd, 0x9700, 0x8981, 0x6781, 0x9a8c, 0x4eba, 0x673a, 0x9a8c, 0x8bc1] @ '')'')
                         else None))))"

section \<open>SMS\<close>

record captchaJSON =
  ca_Type :: string
  ca_Token :: string
  ca_Gt :: string
  ca_Challenge :: string

definition dec_captcha :: "captchaJSON decoder" where
  "dec_captcha = dec_struct
     [(''type'', on ca_Type ca_Type_update dec_string), (''token'', on ca_Token ca_Token_update dec_string),
      (''geetest'', dec_struct
         [(''gt'', on ca_Gt ca_Gt_update dec_string), (''challenge'', on ca_Challenge ca_Challenge_update dec_string)])]"

definition smsCaptchaParams :: "biliEnv \<Rightarrow> login \<Rightarrow> bili \<Rightarrow> login \<times> bili \<times> (string + string \<times> string \<times> string)" where
  "smsCaptchaParams env L s =
     (case getJSON env (Some dec_captcha) \<lparr>ca_Type = [], ca_Token = [], ca_Gt = [], ca_Challenge = []\<rparr> smsCaptchaURL False s of
        (s1, Some e, _) \<Rightarrow> (L, s1, Inl ((''bilibili: '' @ utf8 [0x83b7, 0x53d6, 0x77ed, 0x4fe1, 0x9a8c, 0x8bc1, 0x53c2, 0x6570, 0x5931, 0x8d25] @ '': '') @ errText e))
      | (s1, None, c) \<Rightarrow>
          if ca_Type c \<noteq> ''geetest'' \<or> ca_Token c = [] \<or> ca_Challenge c = []
          then (L, s1, Inl ((''bilibili: '' @ utf8 [0x77ed, 0x4fe1, 0x9a8c, 0x8bc1, 0x53c2, 0x6570, 0x5f02, 0x5e38] @ '' type='') @ go_quote (ca_Type c)))
          else (L\<lparr>sms_token := ca_Token c, sms_gt := ca_Gt c, sms_challenge := ca_Challenge c\<rparr>, s1,
                Inr (ca_Token c, ca_Gt c, ca_Challenge c)))"

definition smsSendForm :: "login \<Rightarrow> string \<Rightarrow> string \<Rightarrow> string \<Rightarrow> string \<Rightarrow> (string \<times> string) list" where
  "smsSendForm L phone validate challenge seccode =
     [(''cid'', ''86''), (''tel'', phone), (''source'', ''main_web'')]
     @ (if sms_token L \<noteq> [] then [(''token'', sms_token L)] else [])
     @ (if challenge \<noteq> [] \<and> validate \<noteq> []
        then [(''challenge'', challenge), (''validate'', validate),
              (''seccode'', if seccode = [] then validate @ ''|jordan'' else seccode)] else [])"

definition form_get :: "(string \<times> string) list \<Rightarrow> string \<Rightarrow> string" where
  "form_get form k = (case map_of form k of Some v \<Rightarrow> v | None \<Rightarrow> [])"

definition smsFormPreview :: "(string \<times> string) list \<Rightarrow> string" where
  "smsFormPreview form =
     join_with [CHR 0x0A] (map (\<lambda>k. k @ ''='' @ form_get form k)
       [''cid'', ''tel'', ''source'', ''token'', ''challenge'', ''validate'', ''seccode''])"

definition dec_captchaKey :: "string decoder" where
  "dec_captchaKey = dec_struct [(''captcha_key'', dec_string)]"

definition smsSend :: "biliEnv \<Rightarrow> string \<Rightarrow> string \<Rightarrow> string \<Rightarrow> string \<Rightarrow> login \<Rightarrow> bili \<Rightarrow> login \<times> bili \<times> string option" where
  "smsSend env phone validate challenge seccode L s =
     (case postForm env (Some dec_captchaKey) [] smsSendURL (smsSendForm L phone validate challenge seccode) s of
        (s1, Inl e) \<Rightarrow> (L, s1, Some ((''bilibili: '' @ utf8 [0x53d1, 0x9001, 0x77ed, 0x4fe1, 0x9a8c, 0x8bc1, 0x7801, 0x5931, 0x8d25] @ '': '') @ errText e))
      | (s1, Inr k) \<Rightarrow> (if k \<noteq> [] then L\<lparr>sms_captchaKey := k\<rparr> else L, s1, None))"

definition smsLogin :: "biliEnv \<Rightarrow> string \<Rightarrow> string \<Rightarrow> login \<Rightarrow> bili \<Rightarrow> bili \<times> string option" where
  "smsLogin env phone code L s =
     (if sms_captchaKey L = [] then (s, Some (''bilibili: '' @ utf8 [0x8bf7, 0x5148, 0x53d1, 0x9001, 0x77ed, 0x4fe1, 0x9a8c, 0x8bc1, 0x7801]))
      else
        case postForm env (None :: unit decoder option) () smsLoginURL
               [(''cid'', ''86''), (''tel'', phone), (''code'', code), (''source'', ''main_web''),
                (''captcha_key'', sms_captchaKey L), (''keep'', ''true'')] s of
          (s1, Inl e) \<Rightarrow> (s1, Some ((''bilibili: '' @ utf8 [0x77ed, 0x4fe1, 0x9a8c, 0x8bc1, 0x7801, 0x767b, 0x5f55, 0x5931, 0x8d25] @ '': '') @ errText e))
        | (s1, Inr _) \<Rightarrow> (s1, if jar s1 ''SESSDATA'' = [] then Some (''bilibili: '' @ utf8 [0x77ed, 0x4fe1, 0x767b, 0x5f55, 0x672a, 0x83b7, 0x5f97] @ '' SESSDATA'') else None))"

section \<open>The handlers of the page\<close>

text \<open>An answer of a handler: an error page, or a JSON object with \<open>ok\<close> and texts.\<close>

datatype pageAnswer = PageError nat string | PageJSON bool "(string \<times> string) list"

definition apiPassword :: "loginEnv \<Rightarrow> passwordReq option \<Rightarrow> login \<Rightarrow> bili \<Rightarrow> login \<times> bili \<times> pageAnswer" where
  "apiPassword le body L s =
     (case body of
        None \<Rightarrow> (L, s, PageError 400 ''username and password required'')
      | Some rq \<Rightarrow>
          if pw_Username rq = [] \<or> pw_Password rq = [] then (L, s, PageError 400 ''username and password required'')
          else (case passwordLogin le rq s of
                  (s1, Some e) \<Rightarrow> (ls_set stageFailed e L, s1, PageJSON False [(''error'', e)])
                | (s1, None) \<Rightarrow>
                    (case finalizeLogin le ''password'' L s1 of
                       (L2, s2) \<Rightarrow> (L2, s2, PageJSON True [(''user'', au_user (auth s2))]))))"

record smsReq =
  sr_Phone :: string
  sr_Validate :: string
  sr_Challenge :: string
  sr_Seccode :: string

definition apiSms :: "loginEnv \<Rightarrow> smsReq option \<Rightarrow> login \<Rightarrow> bili \<Rightarrow> login \<times> bili \<times> pageAnswer" where
  "apiSms le body L s =
     (case body of
        None \<Rightarrow> (L, s, PageError 400 ''phone required'')
      | Some rq \<Rightarrow>
          if sr_Phone rq = [] then (L, s, PageError 400 ''phone required'')
          else
            (let token = sms_token L; gt = sms_gt L; challenge = sms_challenge L;
                 ch0 = (if sr_Challenge rq = [] \<and> challenge \<noteq> [] then challenge else sr_Challenge rq);
                 need0 = (ch0 = [] \<or> sr_Validate rq = []);
                 (L1, s1, token1, gt1, ch1, need1) =
                   (if need0 \<and> token = []
                    then (case smsCaptchaParams (le_bili le) L s of
                            (L1, s1, Inr (tk, g, ch)) \<Rightarrow> (L1, s1, tk, g, ch, ch = [] \<or> sr_Validate rq = [])
                          | (L1, s1, Inl e) \<Rightarrow> (ls_set stageFailed e L1, s1, token, gt, ch0, need0))
                    else (L, s, token, gt, ch0, need0));
                 preview = smsFormPreview (smsSendForm L1 (sr_Phone rq) (sr_Validate rq) ch1 (sr_Seccode rq))
             in if need1
                then (L1, s1, PageJSON False
                   [(''need_captcha'', ''true''),
                    (''error'', (utf8 [0x9700, 0x8981, 0x6781, 0x9a8c, 0x4eba, 0x673a, 0x9a8c, 0x8bc1] @ '':'' @ utf8 [0x6d4f, 0x89c8, 0x5668, 0x6253, 0x5f00] @ '' bilibili.com '' @ utf8 [0x5b8c, 0x6210, 0x6ed1, 0x5757] @ '','' @ utf8 [0x7c98, 0x8d34] @ '' validate '' @ utf8 [0x540e, 0x91cd, 0x53d1])),
                    (''token'', token1), (''gt'', gt1), (''challenge'', ch1), (''params'', preview)])
                else (case smsSend (le_bili le) (sr_Phone rq) (sr_Validate rq) ch1 (sr_Seccode rq) L1 s1 of
                        (L2, s2, Some e) \<Rightarrow> (ls_set stageFailed e L2, s2, PageJSON False [(''error'', e), (''params'', preview)])
                      | (L2, s2, None) \<Rightarrow> (L2, s2, PageJSON True [(''params'', preview)]))))"

definition apiSmsCaptcha :: "loginEnv \<Rightarrow> login \<Rightarrow> bili \<Rightarrow> login \<times> bili \<times> pageAnswer" where
  "apiSmsCaptcha le L s =
     (case smsCaptchaParams (le_bili le) L s of
        (L1, s1, Inl e) \<Rightarrow> (L1, s1, PageJSON False [(''error'', e)])
      | (L1, s1, Inr (tk, g, ch)) \<Rightarrow> (L1, s1, PageJSON True [(''token'', tk), (''gt'', g), (''challenge'', ch)]))"

definition apiSmsLogin :: "loginEnv \<Rightarrow> (string \<times> string) option \<Rightarrow> login \<Rightarrow> bili \<Rightarrow> login \<times> bili \<times> pageAnswer" where
  "apiSmsLogin le body L s =
     (case body of
        None \<Rightarrow> (L, s, PageError 400 ''phone and code required'')
      | Some (phone, code) \<Rightarrow>
          if phone = [] \<or> code = [] then (L, s, PageError 400 ''phone and code required'')
          else (case smsLogin (le_bili le) phone code L s of
                  (s1, Some e) \<Rightarrow> (ls_set stageFailed e L, s1, PageJSON False [(''error'', e)])
                | (s1, None) \<Rightarrow>
                    (case finalizeLogin le ''sms'' L s1 of
                       (L2, s2) \<Rightarrow> (L2, s2, PageJSON True [(''user'', au_user (auth s2))]))))"

record cookieReq =
  cr_Sessdata :: string
  cr_BiliJCT :: string
  cr_DedeUserID :: string
  cr_CkMd5 :: string
  cr_RefreshToken :: string

definition apiCookie :: "loginEnv \<Rightarrow> cookieReq option \<Rightarrow> login \<Rightarrow> bili \<Rightarrow> login \<times> bili \<times> pageAnswer" where
  "apiCookie le body L s =
     (case body of
        None \<Rightarrow> (L, s, PageError 400 ''invalid json'')
      | Some rq \<Rightarrow>
          (let sess = trim_space (cr_Sessdata rq); jct = trim_space (cr_BiliJCT rq) in
           if sess = [] \<or> jct = [] then (L, s, PageJSON False [(''error'', (''SESSDATA '' @ utf8 [0x548c] @ '' bili_jct '' @ utf8 [0x4e3a, 0x5fc5, 0x586b, 0x9879]))])
           else
             (let s1 = jar_set ''DedeUserID__ckMd5'' (cr_CkMd5 rq) (jar_set ''DedeUserID'' (cr_DedeUserID rq)
                         (jar_set ''bili_jct'' jct (jar_set ''SESSDATA'' sess s)));
                  s2 = s1\<lparr>auth := (auth s1)\<lparr>au_refreshToken := cr_RefreshToken rq\<rparr>\<rparr>
              in case probeSession (le_bili le) s2 of
                   (s3, Some e) \<Rightarrow>
                     (ls_set stageFailed (errText e) L, s3, PageJSON False [(''error'', (''Cookie '' @ utf8 [0x65e0, 0x6548, 0x6216, 0x5df2, 0x8fc7, 0x671f] @ '': '') @ errText e)])
                 | (s3, None) \<Rightarrow>
                     (case finalizeLogin le ''cookie'' L s3 of
                        (L2, s4) \<Rightarrow> (L2, s4, PageJSON True [(''user'', au_user (auth s4))])))))"

section \<open>The QR flow\<close>

lemma qrGenLoop_keeps_error: "err \<noteq> None \<Longrightarrow> qrGenLoop le n g err s = (s', g', err') \<Longrightarrow> err' \<noteq> None"
  by (induction le n g err s rule: qrGenLoop.induct) (auto split: prod.splits sum.splits option.splits if_splits)

text \<open>When the first attempt to get a QR code is answered without a code, the login fails, whatever the later attempts bring: the error of the first attempt is still set when a retry succeeds, so the retries of the throttled request never help.\<close>

theorem qr_retry_never_helps:
  assumes "qrGenFetch (le_bili le) qrGenURL s = (s1, Inr (r, raw))"
    and "parseQRGen le (ev_Content r) = Some g" "qg_URL g = [] \<or> qg_Key g = []" "le_desktop le"
  shows "\<exists>msg s'. runQRFlow le fuel L s = Some (ls_set stageFailed msg L, s')"
proof -
  obtain s' g' err' where q: "qrGenLoop le 3 zeroGen None s = (s', g', err')" by (metis prod.collapse)
  then have "qrGenLoop le 2 g (Some (emptyGenMsg r raw)) (wait s1) = (s', g', err')"
    using assms by (auto simp: numeral_3_eq_3 numeral_2_eq_2)
  from qrGenLoop_keeps_error[OF _ this] have "err' \<noteq> None" by simp
  then show ?thesis using q assms(4) by (auto simp: runQRFlow_def)
qed

text \<open>An answer of the service has no field \<open>data\<close> inside its \<open>data\<close>.\<close>

definition data_flat :: "biliEnv \<Rightarrow> bool" where
  "data_flat env \<longleftrightarrow>
     (\<forall>body r es. unmarshal dec_envelope zeroEnvelope (be_json env body) = Some r \<longrightarrow>
        ev_Content r = Some (JObj es) \<longrightarrow> (\<forall>k \<in> fst ` set es. fold_name k \<noteq> ''data''))"

lemma foldl_dec_entry_keeps:
  assumes "\<And>r ok k j. fold_name k \<noteq> x \<Longrightarrow> P r \<Longrightarrow> P (fst (dec_entry fs (r, ok) (k, j)))"
  shows "\<forall>k \<in> fst ` set es. fold_name k \<noteq> x \<Longrightarrow> P (fst a) \<Longrightarrow> P (fst (foldl (dec_entry fs) a es))"
proof (induction es arbitrary: a)
  case (Cons e es)
  then show ?case using assms[of "fst e" "fst a" "snd a" "snd e"] by simp
qed simp

lemma dec_poll_inner:
  "\<forall>k \<in> fst ` set es. fold_name k \<noteq> ''data'' \<Longrightarrow> pl_Inner (fst (dec_poll zeroPoll (JObj es))) = pl_Inner zeroPoll"
  unfolding dec_poll_def dec_struct.simps
  by (rule foldl_dec_entry_keeps[where P = "\<lambda>r. pl_Inner r = pl_Inner zeroPoll"])
     (auto simp: dec_entry_def find_field_def on_def fold_name_def to_lower_def to_lower_char_def split: if_splits)

lemma dec_keys_zero:
  "\<forall>k \<in> fst ` set es. fold_name k \<noteq> ''data'' \<Longrightarrow> fst (dec_keys z (JObj es)) = z"
  unfolding dec_keys_def dec_struct.simps
  by (rule foldl_dec_entry_keeps[where P = "\<lambda>r. r = z"])
     (auto simp: dec_entry_def find_field_def on_def fold_name_def to_lower_def to_lower_char_def split: if_splits)

lemma getJSON_success:
  assumes "getJSON env (Some d) zero u a s = (s', None, v)"
  shows "\<exists>body r. unmarshal dec_envelope zeroEnvelope (be_json env body) = Some r \<and>
     (ev_Content r = None \<and> v = zero \<or> (\<exists>j. ev_Content r = Some j \<and> d zero j = (v, True)))"
  using assms by (auto simp: getJSON_def split: prod.splits sum.splits if_splits option.splits)
    (metis prod.collapse)+

lemma poll_success_inner:
  assumes "data_flat env" "getJSON env (Some dec_poll) zeroPoll u a s = (s', None, poll)"
  shows "pl_Inner poll = pl_Inner zeroPoll"
proof -
  obtain body r where b: "unmarshal dec_envelope zeroEnvelope (be_json env body) = Some r"
    "ev_Content r = None \<and> poll = zeroPoll \<or> (\<exists>j. ev_Content r = Some j \<and> dec_poll zeroPoll j = (poll, True))"
    using getJSON_success[OF assms(2)] by blast
  show ?thesis
  proof (cases "ev_Content r")
    case (Some j)
    with b have d: "dec_poll zeroPoll j = (poll, True)" by auto
    show ?thesis
    proof (cases j)
      case (JObj es)
      with Some b(1) assms(1) have "\<forall>k \<in> fst ` set es. fold_name k \<noteq> ''data''" unfolding data_flat_def by blast
      from dec_poll_inner[OF this] show ?thesis using d JObj by simp
    qed (use d in \<open>auto simp: dec_poll_def\<close>)
  qed (use b in auto)
qed

lemma keys_success_zero:
  assumes "data_flat env" "getJSON env (Some dec_keys) z u a s = (s', None, k)"
  shows "k = z"
proof -
  obtain body r where b: "unmarshal dec_envelope zeroEnvelope (be_json env body) = Some r"
    "ev_Content r = None \<and> k = z \<or> (\<exists>j. ev_Content r = Some j \<and> dec_keys z j = (k, True))"
    using getJSON_success[OF assms(2)] by blast
  show ?thesis
  proof (cases "ev_Content r")
    case (Some j)
    with b have d: "dec_keys z j = (k, True)" by auto
    show ?thesis
    proof (cases j)
      case (JObj es)
      with Some b(1) assms(1) have "\<forall>k \<in> fst ` set es. fold_name k \<noteq> ''data''" unfolding data_flat_def by blast
      from dec_keys_zero[OF this] show ?thesis using d JObj by (metis fst_conv)
    qed (use d in \<open>auto simp: dec_keys_def\<close>)
  qed (use b in auto)
qed

lemma getJSON_state: "getJSON env d z u a s = (s', r) \<Longrightarrow> s' = fst (doBili env ''GET'' u None s)"
  by (auto simp: getJSON_def split: prod.splits sum.splits)

lemma postForm_state: "postForm env d z u f s = (s', r) \<Longrightarrow> s' = fst (doBili env ''POST'' u (Some f) s)"
  by (auto simp: postForm_def split: prod.splits sum.splits)

lemma getJSON_requests: "getJSON env d z u a s = (s', r) \<Longrightarrow>
    requests s' = requests s @ [\<lparr>rq_method = ''GET'', rq_url = u, rq_form = None\<rparr>]"
  using doBili_requests[of env "''GET''" u None s s'] getJSON_state[of env d z u a s s' r] by (metis prod.collapse)

lemma getJSON_ix: "getJSON env d z u a s = (s', r) \<Longrightarrow> bili_ix s' = Suc (bili_ix s)"
  using getJSON_requests[of env d z u a s s' r] doBili_frame(4)[of env "''GET''" u None s s'] getJSON_state[of env d z u a s s' r]
  by (simp add: bili_ix_def) (metis prod.collapse)

lemma probeSession_token: "au_refreshToken (auth (fst (probeSession env s))) = au_refreshToken (auth s)"
proof (cases "doBili env ''GET'' navURL None s")
  case (Pair s1 r)
  show ?thesis
    using doBili_frame(1)[OF Pair]
    by (auto simp: probeSession_def Pair Let_def clearAuthErr_def split: sum.split biliErr.split option.split)
qed

lemma finalizeLogin_token: "au_refreshToken (auth (snd (finalizeLogin le via L s))) = au_refreshToken (auth s)"
  by (simp add: finalizeLogin_def Let_def setLoginMethod_def probeSession_token)

lemma qrConfirm_token:
  "au_refreshToken (auth (snd (qrConfirm le poll L s))) = pi_RefreshToken (pl_Inner poll)"
proof -
  obtain s2 e where p: "probeSession (le_bili le) (s\<lparr>auth := (auth s)\<lparr>au_refreshToken := pi_RefreshToken (pl_Inner poll)\<rparr>\<rparr>) = (s2, e)"
    by fastforce
  have "au_refreshToken (auth s2) = pi_RefreshToken (pl_Inner poll)"
    using probeSession_token[of "le_bili le" "s\<lparr>auth := (auth s)\<lparr>au_refreshToken := pi_RefreshToken (pl_Inner poll)\<rparr>\<rparr>"] p by simp
  then show ?thesis by (simp add: qrConfirm_def Let_def p finalizeLogin_token split: option.split)
qed

lemma ls_set_stage [simp]: "ls_stage (lg_state (ls_set st m L)) = st"
  by (simp add: ls_set_def)

lemma qrPollLoop_token:
  assumes "data_flat (le_bili le)"
  shows "qrPollLoop le n key dl L s = Some (L', s') \<Longrightarrow> ls_stage (lg_state L) \<noteq> stageDone \<Longrightarrow>
    ls_stage (lg_state L') = stageDone \<Longrightarrow> au_refreshToken (auth s') = []"
proof (induction n arbitrary: L s)
  case (Suc n)
  have ne: "stageExpired \<noteq> stageDone" "stageFailed \<noteq> stageDone" "stageScanned \<noteq> stageDone"
    by (simp_all add: stageExpired_def stageDone_def stageFailed_def stageScanned_def)
  obtain s1 e poll where g: "getJSON (le_bili le) (Some dec_poll) zeroPoll (qrPollURL @ ''?qrcode_key='' @ queryEscape key) False s = (s1, e, poll)"
    by (metis prod.collapse)
  show ?case
  proof (cases e)
    case None
    have "pi_RefreshToken (pl_Inner poll) = []"
      using poll_success_inner[OF assms g[unfolded None]] by (simp add: zeroPoll_def)
    moreover note qrConfirm_token[of le poll L s1]
    ultimately show ?thesis
      using Suc.prems None g ne Suc.IH[of L "wait s1"] Suc.IH[of "ls_set stageScanned [] L" "wait s1"]
      by (auto simp: Let_def split: if_splits)
  next
    case (Some err)
    then show ?thesis using Suc.prems g ne Suc.IH[of L "wait s1"]
      by (cases err) (auto simp: Let_def split: if_splits)
  qed
qed simp

text \<open>with a service that nests no \<open>data\<close> inside \<open>data\<close>, a QR login that succeeds leaves the session without a refresh token: the flow looks for the token one level too deep.\<close>

theorem qr_login_without_token:
  assumes "data_flat (le_bili le)" "runQRFlow le fuel L s = Some (L', s')" "ls_stage (lg_state L') = stageDone"
  shows "au_refreshToken (auth s') = []"
proof -
  obtain s1 g err where q: "qrGenLoop le 3 zeroGen None s = (s1, g, err)" by (metis prod.collapse)
  have ne: "stageFailed \<noteq> stageDone" "stageWaiting \<noteq> stageDone"
    by (simp_all add: stageFailed_def stageWaiting_def stageDone_def)
  show ?thesis
    using assms(2,3) q ne
    by (auto simp: runQRFlow_def split: if_splits option.splits intro: qrPollLoop_token[OF assms(1)])
qed

section \<open>The password login\<close>

text \<open>With such a service no password login succeeds: the public key is read one level too deep, so it is the empty text, which holds no PEM block, and the form is never sent.\<close>

theorem password_login_fails:
  assumes "data_flat (le_bili le)" "le_pem le [] = None"
  shows "(\<exists>e. snd (passwordLogin le rq s) = Some e) \<and>
    requests (fst (passwordLogin le rq s)) = requests s @ [\<lparr>rq_method = ''GET'', rq_url = keyURL, rq_form = None\<rparr>]"
proof -
  obtain s1 e k where g: "getJSON (le_bili le) (Some dec_keys) \<lparr>kj_Hash = [], kj_Key = []\<rparr> keyURL False s = (s1, e, k)"
    by (metis prod.collapse)
  have "kj_Key k = []" if "e = None" using keys_success_zero[OF assms(1) g[unfolded that]] by simp
  then show ?thesis
    using getJSON_requests[OF g] assms(2)
    by (cases e) (auto simp: passwordLogin_def Let_def g rsaEncrypt_def)
qed

section \<open>The flow ends\<close>

lemma bili_ix_wait [simp]: "bili_ix (wait s) = Suc (bili_ix s)"
  by (simp add: wait_def bili_ix_def)

lemma qrPollLoop_ends:
  assumes clock: "\<And>i. be_clock (le_bili le) (i + 2) \<ge> be_clock (le_bili le) i + seconds 3"
  shows "deadline < bili_now (le_bili le) s + seconds 3 * int n \<Longrightarrow> qrPollLoop le (Suc n) key deadline L s \<noteq> None"
proof (induction n arbitrary: L s)
  case 0
  then show ?case by (auto simp: Let_def)
next
  case (Suc n)
  obtain s1 e poll where g: "getJSON (le_bili le) (Some dec_poll) zeroPoll (qrPollURL @ ''?qrcode_key='' @ queryEscape key) False s = (s1, e, poll)"
    by (metis prod.collapse)
  have "bili_ix (wait s1) = bili_ix s + 2" using getJSON_ix[OF g] by simp
  then have "bili_now (le_bili le) s + seconds 3 \<le> bili_now (le_bili le) (wait s1)"
    using clock[of "bili_ix s"] by (simp add: bili_now_def)
  then have "deadline < bili_now (le_bili le) (wait s1) + seconds 3 * int n" using Suc.prems by (simp add: algebra_simps)
  note ih = Suc.IH[OF this]
  show ?case
  proof (cases e)
    case None
    then show ?thesis using ih[of L] ih[of "ls_set stageScanned [] L"]
      unfolding qrPollLoop.simps(2)[of le "Suc n"] g Let_def by (simp del: qrPollLoop.simps)
  next
    case (Some err)
    then show ?thesis using ih[of L] unfolding qrPollLoop.simps(2)[of le "Suc n"] g Let_def
      by (cases err) (simp_all del: qrPollLoop.simps)
  qed
qed


section \<open>A service to try the flows on\<close>

text \<open>It answers the first request with a QR code, the second with a confirmed scan that holds a token, and all later ones with a valid session.\<close>

definition qr_service :: biliEnv where
  "qr_service = nav_service\<lparr>
     be_net := (\<lambda>n _. Answer 200 [] (Inr (if n = 0 then ''g'' else if n = 1 then ''p'' else ''n''))),
     be_clock := (\<lambda>i. seconds 3 * int i),
     be_json := (\<lambda>b. Some (JObj [(''code'', JNum ''0''), (''data'', JObj
        (if b = ''g'' then [(''url'', JStr ''u''), (''qrcode_key'', JStr ''k'')]
         else if b = ''p'' then [(''code'', JNum ''0''), (''refresh_token'', JStr ''tok'')]
         else [(''isLogin'', JBoolean True), (''uname'', JStr ''me'')]))]))\<rparr>"

definition qr_page :: "biliEnv \<Rightarrow> loginEnv" where
  "qr_page env = \<lparr>le_bili = env, le_desktop = True, le_stopped = (\<lambda>_. False), le_done = (\<lambda>_. False),
     le_pem = (\<lambda>p. if p = [] then None else Some []), le_encrypt = (\<lambda>_ _. Inr []), le_scanKey = (\<lambda>_. [])\<rparr>"

definition fresh_login :: login where
  "fresh_login = \<lparr>lg_state = \<lparr>ls_stage = stageIdle, ls_qrURL = [], ls_errMsg = [], ls_user = []\<rparr>,
     sms_token = [], sms_gt = [], sms_challenge = [], sms_captchaKey = [], lg_closeAt = None\<rparr>"

definition qr_body :: "nat \<Rightarrow> string" where
  "qr_body n = (if n = 0 then ''g'' else if n = 1 then ''p'' else ''n'')"

lemma qr_service_request:
  "doBili qr_service m u f s = (s\<lparr>requests := requests s @ [\<lparr>rq_method = m, rq_url = u, rq_form = f\<rparr>]\<rparr>,
     Inr (200, qr_body (length (requests s))))"
proof -
  have "\<not> looksHTML (qr_body n)" for n
  proof -
    have "\<not> looksHTML ''g''" "\<not> looksHTML ''p''" "\<not> looksHTML ''n''"
      by (simp_all add: looksHTML_def has_prefix_def printing_def)
    then show ?thesis by (simp add: qr_body_def)
  qed
  moreover have "be_net qr_service n rq = Answer 200 [] (Inr (qr_body n))" for n rq
    by (simp add: qr_service_def qr_body_def)
  ultimately show ?thesis by (simp add: doBili_def Let_def captureSetCookie_def)
qed

lemma qr_service_reads:
  "unmarshal dec_envelope zeroEnvelope (be_json qr_service ''g'') = Some \<lparr>ev_Code = 0, ev_Message = [],
     ev_Content = Some (JObj [(''url'', JStr ''u''), (''qrcode_key'', JStr ''k'')])\<rparr>"
  "unmarshal dec_envelope zeroEnvelope (be_json qr_service ''p'') = Some \<lparr>ev_Code = 0, ev_Message = [],
     ev_Content = Some (JObj [(''code'', JNum ''0''), (''refresh_token'', JStr ''tok'')])\<rparr>"
  "map_option (\<lambda>nav. (ne_Code nav, nv_IsLogin (ne_Inner nav), nv_Uname (ne_Inner nav)))
     (unmarshal dec_nav zeroNav (be_json qr_service ''n'')) = Some (0, True, ''me'')"
  "dec_poll zeroPoll (JObj [(''code'', JNum ''0''), (''refresh_token'', JStr ''tok'')]) = (zeroPoll, True)"
  "parseQRGen le (Some (JObj [(''url'', JStr ''u''), (''qrcode_key'', JStr ''k'')])) = Some \<lparr>qg_URL = ''u'', qg_Key = ''k''\<rparr>"
  by code_simp+

lemma qr_service_probe:
  assumes "jar s ''SESSDATA'' \<noteq> []" "2 \<le> length (requests s)"
  shows "snd (probeSession qr_service s) = None"
proof -
  obtain nav where "unmarshal dec_nav zeroNav (be_json qr_service ''n'') = Some nav" "ne_Code nav = 0" "nv_IsLogin (ne_Inner nav)"
    using qr_service_reads(3) by auto
  moreover have "qr_body (length (requests s)) = ''n''" using assms(2) by (auto simp: qr_body_def)
  ultimately show ?thesis using assms(1) by (simp add: probeSession_def qr_service_request Let_def)
qed

lemma qr_service_gen:
  "requests s = [] \<Longrightarrow> qrGenLoop (qr_page qr_service) (Suc n) zeroGen None s =
     (s\<lparr>requests := [\<lparr>rq_method = ''GET'', rq_url = qrGenURL, rq_form = None\<rparr>]\<rparr>, \<lparr>qg_URL = ''u'', qg_Key = ''k''\<rparr>, None)"
  by (simp add: qrGenFetch_def qr_service_request qr_page_def qr_body_def qr_service_reads)

lemma qr_service_poll:
  assumes "length (requests s) = 1"
  shows "getJSON qr_service (Some dec_poll) zeroPoll u False s =
     (s\<lparr>requests := requests s @ [\<lparr>rq_method = ''GET'', rq_url = u, rq_form = None\<rparr>]\<rparr>, None, zeroPoll)"
  using assms by (simp add: getJSON_def qr_service_request qr_body_def qr_service_reads)

lemma qr_service_confirm:
  assumes "jar s ''SESSDATA'' \<noteq> []" "2 \<le> length (requests s)"
  shows "ls_stage (lg_state (fst (qrConfirm (qr_page qr_service) poll L s))) = stageDone"
proof -
  let ?s = "s\<lparr>auth := (auth s)\<lparr>au_refreshToken := pi_RefreshToken (pl_Inner poll)\<rparr>\<rparr>"
  have "snd (probeSession qr_service ?s) = None" by (rule qr_service_probe) (use assms in simp_all)
  then obtain s2 where "probeSession qr_service ?s = (s2, None)" by (metis prod.collapse)
  then show ?thesis using assms(1) by (simp add: qrConfirm_def Let_def qr_page_def finalizeLogin_def)
qed

lemma qr_service_run:
  "\<exists>L s. runQRFlow (qr_page qr_service) 1 fresh_login (jar_set ''SESSDATA'' ''a'' fresh_bili) = Some (L, s)
     \<and> ls_stage (lg_state L) = stageDone"
proof -
  let ?s0 = "jar_set ''SESSDATA'' ''a'' fresh_bili"
  let ?s1 = "?s0\<lparr>requests := [\<lparr>rq_method = ''GET'', rq_url = qrGenURL, rq_form = None\<rparr>]\<rparr>"
  let ?s2 = "?s1\<lparr>requests := requests ?s1 @ [\<lparr>rq_method = ''GET'', rq_url = qrPollURL @ ''?qrcode_key='' @ queryEscape ''k'', rq_form = None\<rparr>]\<rparr>"
  let ?L = "fresh_login\<lparr>lg_state := (lg_state fresh_login)\<lparr>ls_qrURL := ''u'', ls_stage := stageWaiting\<rparr>\<rparr>"
  have g: "qrGenLoop (qr_page qr_service) 3 zeroGen None ?s0 = (?s1, \<lparr>qg_URL = ''u'', qg_Key = ''k''\<rparr>, None)"
    using qr_service_gen[of ?s0 2] by (simp add: fresh_bili_def numeral_3_eq_3 del: qrGenLoop.simps)
  have "getJSON qr_service (Some dec_poll) zeroPoll (qrPollURL @ ''?qrcode_key='' @ queryEscape ''k'') False ?s1 = (?s2, None, zeroPoll)"
    by (rule qr_service_poll) simp
  then have "qrPollLoop (qr_page qr_service) 1 ''k'' (bili_now qr_service ?s1 + seconds 180) ?L ?s1 =
      Some (qrConfirm (qr_page qr_service) zeroPoll ?L ?s2)"
    unfolding One_nat_def qrPollLoop.simps
    by (simp add: qr_page_def finalized_def seconds_def stageWaiting_def stageDone_def Let_def qrScanState_def zeroPoll_def)
  moreover have "ls_stage (lg_state (fst (qrConfirm (qr_page qr_service) zeroPoll ?L ?s2))) = stageDone"
    by (rule qr_service_confirm) (simp_all add: jar_set_def)
  ultimately have "runQRFlow (qr_page qr_service) 1 fresh_login ?s0 = Some (qrConfirm (qr_page qr_service) zeroPoll ?L ?s2)"
    unfolding runQRFlow_def g by (simp add: qr_page_def del: qrPollLoop.simps)
  then show ?thesis using \<open>ls_stage (lg_state (fst _)) = stageDone\<close> by (metis prod.collapse)
qed

lemma data_flat_envelope:
  assumes "\<And>b. \<exists>c es. be_json env b = Some (JObj [(''code'', c), (''data'', JObj es)]) \<and> (\<forall>k \<in> fst ` set es. fold_name k \<noteq> ''data'')"
  shows "data_flat env"
  unfolding data_flat_def
proof (intro allI impI)
  fix b r es
  assume u: "unmarshal dec_envelope zeroEnvelope (be_json env b) = Some r" "ev_Content r = Some (JObj es)"
  obtain c fs where j: "be_json env b = Some (JObj [(''code'', c), (''data'', JObj fs)])"
    and f: "\<forall>k \<in> fst ` set fs. fold_name k \<noteq> ''data''" using assms by blast
  have "ev_Content r = Some (JObj fs)"
    using u(1) by (auto simp: j unmarshal_def dec_envelope_def dec_entry_def find_field_def on_def dec_raw_def split: if_splits)
  then show "\<forall>k \<in> fst ` set es. fold_name k \<noteq> ''data''" using u(2) f by simp
qed

lemma qr_service_flat: "data_flat qr_service"
  by (rule data_flat_envelope) (simp add: qr_service_def fold_name_def to_lower_def to_lower_char_def)

lemma qr_login_without_token_witness:
  "\<exists>L' s'. runQRFlow (qr_page qr_service) 1 fresh_login (jar_set ''SESSDATA'' ''a'' fresh_bili) = Some (L', s')
     \<and> ls_stage (lg_state L') = stageDone \<and> au_refreshToken (auth s') = []"
proof -
  obtain L' s' where r: "runQRFlow (qr_page qr_service) 1 fresh_login (jar_set ''SESSDATA'' ''a'' fresh_bili) = Some (L', s')"
    "ls_stage (lg_state L') = stageDone" using qr_service_run by blast
  moreover have "data_flat (le_bili (qr_page qr_service))" using qr_service_flat by (simp add: qr_page_def)
  ultimately show ?thesis using qr_login_without_token by blast
qed

lemma password_login_fails_witness:
  "\<exists>e. snd (passwordLogin (qr_page qr_service)
      \<lparr>pw_Username = ''u'', pw_Password = ''p'', pw_Validate = [], pw_Challenge = [], pw_Seccode = []\<rparr> fresh_bili) = Some e"
proof -
  have "data_flat (le_bili (qr_page qr_service))" using qr_service_flat by (simp add: qr_page_def)
  moreover have "le_pem (qr_page qr_service) [] = None" by (simp add: qr_page_def)
  ultimately show ?thesis using password_login_fails by blast
qed


lemma qr_retry_never_helps_witness:
  "\<exists>msg s'. runQRFlow (qr_page nav_service) 62 fresh_login fresh_bili = Some (ls_set stageFailed msg fresh_login, s')"
proof -
  have h: "\<not> looksHTML ''{}''" by (simp add: looksHTML_def has_prefix_def printing_def)
  have j: "unmarshal dec_envelope zeroEnvelope (be_json nav_service ''{}'')
      = Some \<lparr>ev_Code = 0, ev_Message = [], ev_Content = Some (JObj [(''wbi_img'', JObj [])])\<rparr>"
    by code_simp
  obtain s1 where f: "qrGenFetch nav_service qrGenURL fresh_bili =
      (s1, Inr (\<lparr>ev_Code = 0, ev_Message = [], ev_Content = Some (JObj [(''wbi_img'', JObj [])])\<rparr>, ''{}''))"
    using h j by (auto simp: qrGenFetch_def doBili_def nav_service_def Let_def)
  have "parseQRGen (qr_page nav_service) (Some (JObj [(''wbi_img'', JObj [])])) = Some zeroGen" by code_simp
  then show ?thesis
    using qr_retry_never_helps[of "qr_page nav_service" fresh_bili s1 _ _ zeroGen 62 fresh_login] f
    by (simp add: qr_page_def zeroGen_def)
qed

end
