(* ===== verification/Bili_Rounds.thy ===== *)
theory Bili_Rounds
  imports Bili_Login
begin

text \<open>
  The rounds of the bilibili back end: \<open>hotboard.go\<close>, \<open>feed.go\<close>, \<open>fav.go\<close>, \<open>history.go\<close>, \<open>notify.go\<close>
  (all in \<open>src/fbprotocols/bilibili/\<close>), the state of the de-duplication and the loops of \<open>bilibili.go\<close>, and
  \<open>InsertFlatFields\<close> of \<open>src/fbprotocols/fbshared/listmsg.go\<close>. A round publishes an entry as it came,
  with two more fields; the map \<open>payload\<close> that the code builds beside it is not published (only its
  kind is), so it is left out. Fields that nothing but that map reads are decoded for their type errors
  alone. A panic ends the process: it sets \<open>crashed\<close>.
\<close>

section \<open>The state of the de-duplication\<close>

record biliState =
  bs_Hotboard :: seen
  bs_FollowFeed :: seen
  bs_Notifications :: seen
  bs_Favorites :: seen
  bs_History :: seen

definition newBiliState :: biliState where
  "newBiliState = \<lparr>bs_Hotboard = [], bs_FollowFeed = [], bs_Notifications = [], bs_Favorites = [], bs_History = []\<rparr>"

text \<open>The file is absent, or holds the state saved last.\<close>

definition loadState :: "biliState option \<Rightarrow> biliState" where
  "loadState stored = (case stored of None \<Rightarrow> newBiliState | Some st \<Rightarrow> st)"

definition pruneState :: "time \<Rightarrow> biliState \<Rightarrow> biliState" where
  "pruneState now st =
     \<lparr>bs_Hotboard = pruneMap now (bs_Hotboard st), bs_FollowFeed = pruneMap now (bs_FollowFeed st),
      bs_Notifications = pruneMap now (bs_Notifications st), bs_Favorites = pruneMap now (bs_Favorites st),
      bs_History = pruneMap now (bs_History st)\<rparr>"

text \<open>\<open>saveState\<close> prunes the state of its caller and writes it: the state, and the file.\<close>

definition saveState :: "biliEnv \<Rightarrow> biliState \<Rightarrow> biliState option \<Rightarrow> bili \<Rightarrow> biliState \<times> biliState option" where
  "saveState env st stored s =
     (let st1 = pruneState (bili_now env s) st
      in (st1, if be_writes env (bili_ix s) then Some st1 else stored))"

section \<open>The common part of a round\<close>

definition publish :: "(string \<rightharpoonup> json) \<Rightarrow> bili \<Rightarrow> bili" where
  "publish m s = s\<lparr>published := published s @ [m]\<rparr>"

definition panic :: "bili \<Rightarrow> bili" where
  "panic s = s\<lparr>crashed := True\<rparr>"

text \<open>The loop over the entries: those with a key that is not in the map are marked and published. The
  result is the map, the state and the number of entries published. An entry that cannot be published
  stays marked.\<close>

fun round_items :: "('i \<Rightarrow> string) \<Rightarrow> ('i \<Rightarrow> json) \<Rightarrow> (string \<times> json) list \<Rightarrow> int \<Rightarrow> 'i list \<Rightarrow> seen \<Rightarrow> bili
    \<Rightarrow> seen \<times> bili \<times> nat" where
  "round_items key raw extra now [] m s = (m, s, 0)"
| "round_items key raw extra now (i # is) m s =
     (if map_of m (key i) \<noteq> None then round_items key raw extra now is m s
      else
        (let m1 = AList.update (key i) now m
         in case insertFlatFields (raw i) extra of
              FlatPanic \<Rightarrow> (m1, panic s, 0)
            | FlatErr \<Rightarrow> map_prod id (map_prod id Suc) (round_items key raw extra now is m1 s)
            | FlatOk f \<Rightarrow> map_prod id (map_prod id Suc) (round_items key raw extra now is m1 (publish f s))))"

abbreviation "some_string \<equiv> checked ([] :: string) dec_string"
abbreviation "some_int \<equiv> checked (0 :: int) dec_int"

section \<open>The hot board\<close>

definition rankingURL :: string where
  "rankingURL = apiHost @ ''/x/web-interface/ranking/v2?rid=0&type=all&web_location=333.934''"

record rankingItem =
  rk_Aid :: int
  rk_Bvid :: string
  rk_Raw :: json

definition zeroRanking :: rankingItem where
  "zeroRanking = \<lparr>rk_Aid = 0, rk_Bvid = [], rk_Raw = JNull\<rparr>"

definition dec_ranking :: "rankingItem decoder" where
  "dec_ranking = dec_keeping (dec_struct
     [(''aid'', on rk_Aid rk_Aid_update dec_int), (''bvid'', on rk_Bvid rk_Bvid_update dec_string),
      (''tid'', some_int), (''tname'', some_string), (''rank'', some_int), (''score'', some_int),
      (''title'', some_string), (''desc'', some_string), (''pic'', some_string), (''duration'', some_int),
      (''owner'', dec_struct [(''mid'', some_int), (''name'', some_string)]),
      (''stat'', dec_struct [(''view'', some_int), (''danmaku'', some_int), (''reply'', some_int), (''favorite'', some_int),
          (''coin'', some_int), (''share'', some_int), (''like'', some_int)]),
      (''short_link_v2'', some_string)]) zeroRanking (\<lambda>j. rk_Raw_update (\<lambda>_. j))"

definition dec_rankings :: "rankingItem list decoder" where
  "dec_rankings = dec_struct [(''list'', dec_list zeroRanking dec_ranking)]"

definition hotItemID :: "rankingItem \<Rightarrow> string" where
  "hotItemID it = (if rk_Bvid it \<noteq> [] then rk_Bvid it else ''av'' @ itoa (rk_Aid it))"

definition fetchHotboard :: "biliEnv \<Rightarrow> bili \<Rightarrow> bili \<times> (biliErr + rankingItem list)" where
  "fetchHotboard env s =
     (case getJSON env (Some dec_rankings) [] rankingURL False (ensureWarmup env s) of
        (s1, Some e, _) \<Rightarrow> (s1, Inl e)
      | (s1, None, items) \<Rightarrow> (s1, Inr items))"

definition hotRound :: "biliEnv \<Rightarrow> biliState \<Rightarrow> bili \<Rightarrow> biliState \<times> bili \<times> nat" where
  "hotRound env st s =
     (case fetchHotboard env s of
        (s1, Inl e) \<Rightarrow> (st, biliPushError e s1, 0)
      | (s1, Inr items) \<Rightarrow>
          (case round_items hotItemID rk_Raw (flatFields ''hotboard'' (length items)) (unix (bili_now env s1)) items
                  (bs_Hotboard st) s1 of
             (m, s2, n) \<Rightarrow> (st\<lparr>bs_Hotboard := m\<rparr>, s2, n)))"

section \<open>The follow feed\<close>

definition feedURL :: string where
  "feedURL = apiHost @ ''/x/polymer/web-dynamic/v1/feed/all?type=all&platform=web''"

text \<open>A number, a number in a string, or nothing. A string whose text has escapes is not a number.\<close>

fun dec_flex :: "int decoder" where
  "dec_flex old JNull = (0, True)"
| "dec_flex old (JNum n) = (case atoi n of Some v \<Rightarrow> (v, True) | None \<Rightarrow> (old, False))"
| "dec_flex old (JStr t) = (if t = [] \<or> t = ''null'' then (0, True) else case atoi t of Some v \<Rightarrow> (v, True) | None \<Rightarrow> (old, False))"
| "dec_flex old _ = (old, False)"

abbreviation "some_flex \<equiv> checked (0 :: int) dec_flex"

definition some_object :: "unit fields \<Rightarrow> 'r decoder" where
  "some_object fs = checked None (dec_ptr () (dec_struct fs))"

record feedItem =
  fd_IDStr :: string
  fd_Type :: string
  fd_Mid :: int
  fd_Raw :: json

definition zeroFeed :: feedItem where
  "zeroFeed = \<lparr>fd_IDStr = [], fd_Type = [], fd_Mid = 0, fd_Raw = JNull\<rparr>"

definition dec_feed :: "feedItem decoder" where
  "dec_feed = dec_keeping (dec_struct
     [(''id_str'', on fd_IDStr fd_IDStr_update dec_string), (''type'', on fd_Type fd_Type_update dec_string),
      (''modules'', dec_struct
         [(''module_author'', dec_struct
             [(''name'', some_string), (''mid'', on fd_Mid fd_Mid_update dec_int), (''pub_ts'', some_flex),
              (''time_unix'', some_flex)]),
          (''module_dynamic'', dec_struct
             [(''desc'', dec_struct [(''text'', some_string)]),
              (''major'', dec_struct
                 [(''type'', some_string),
                  (''archive'', some_object
                     [(''title'', some_string), (''bvid'', some_string), (''aid'', some_flex), (''cover'', some_string),
                      (''desc'', some_string), (''stat'', dec_struct [(''view'', some_flex), (''like'', some_flex)])]),
                  (''draw'', some_object
                     [(''title'', some_string),
                      (''items'', checked [] (dec_list () (dec_struct [(''src'', some_string)])))]),
                  (''article'', some_object [(''title'', some_string)]),
                  (''common'', some_object [(''title'', some_string)]),
                  (''ugc_season'', some_object [(''title'', some_string), (''cover'', some_string)]),
                  (''pgc'', some_object [(''title'', some_string), (''cover'', some_string)])])])])])
     zeroFeed (\<lambda>j. fd_Raw_update (\<lambda>_. j))"

definition dec_feeds :: "feedItem list decoder" where
  "dec_feeds = dec_struct
     [(''items'', dec_list zeroFeed dec_feed), (''offset'', some_string), (''has_more'', checked False dec_bool)]"

definition feedItemID :: "feedItem \<Rightarrow> string" where
  "feedItemID it = (if fd_IDStr it \<noteq> [] then fd_IDStr it else ''feed:'' @ fd_Type it @ '':'' @ itoa (fd_Mid it))"

definition fetchFollowFeed :: "biliEnv \<Rightarrow> bili \<Rightarrow> bili \<times> (biliErr + feedItem list)" where
  "fetchFollowFeed env s =
     (let s1 = ensureWarmup env s in
      if jar s1 ''SESSDATA'' = [] then (s1, Inl ErrNotLoggedIn)
      else case getJSON env (Some dec_feeds) [] feedURL True s1 of
             (s2, Some e, _) \<Rightarrow> (s2, Inl e)
           | (s2, None, items) \<Rightarrow> (s2, Inr items))"

text \<open>The rounds that seed an empty map in silence share this body.\<close>

definition seeding_round :: "('i \<Rightarrow> string) \<Rightarrow> ('i \<Rightarrow> json) \<Rightarrow> string \<Rightarrow> int \<Rightarrow> 'i list \<Rightarrow> seen \<Rightarrow> bili \<Rightarrow> seen \<times> bili \<times> nat" where
  "seeding_round key raw kind now is m s =
     (if m = [] then (seed_items key now is m, s, 0)
      else round_items key raw (flatFields kind (length is)) now is m s)"

definition feedRound :: "biliEnv \<Rightarrow> biliState \<Rightarrow> bili \<Rightarrow> biliState \<times> bili \<times> nat" where
  "feedRound env st s =
     (case fetchFollowFeed env s of
        (s1, Inl e) \<Rightarrow> (st, biliPushError e s1, 0)
      | (s1, Inr items) \<Rightarrow>
          (case seeding_round feedItemID fd_Raw ''follow_feed'' (unix (bili_now env s1)) items (bs_FollowFeed st) s1 of
             (m, s2, n) \<Rightarrow> (st\<lparr>bs_FollowFeed := m\<rparr>, s2, n)))"

section \<open>Favourites\<close>

definition favFoldersURL :: "string \<Rightarrow> string" where
  "favFoldersURL mid = apiHost @ ''/x/v3/fav/folder/created/list-all?up_mid='' @ mid"

definition favResourceURL :: string where
  "favResourceURL = apiHost @ ''/x/v3/fav/resource/list?platform=web&order=mtime''"

text \<open>Of a folder only the number is used.\<close>

definition dec_folders :: "int list decoder" where
  "dec_folders = dec_struct [(''list'', dec_list 0 (dec_struct
     [(''id'', dec_int), (''title'', some_string), (''media_count'', some_int)]))]"

record favMedia =
  fm_ID :: int
  fm_Raw :: json

definition zeroMedia :: favMedia where "zeroMedia = \<lparr>fm_ID = 0, fm_Raw = JNull\<rparr>"

definition dec_media :: "favMedia decoder" where
  "dec_media = dec_keeping (dec_struct
     [(''id'', on fm_ID fm_ID_update dec_int), (''type'', some_int), (''bvid'', some_string), (''title'', some_string),
      (''cover'', some_string), (''fav_time'', some_int),
      (''upper'', dec_struct [(''mid'', some_int), (''name'', some_string)])]) zeroMedia (\<lambda>j. fm_Raw_update (\<lambda>_. j))"

record favResources =
  fr_Medias :: "favMedia list"
  fr_HasMore :: bool

definition dec_resources :: "favResources decoder" where
  "dec_resources = dec_struct
     [(''medias'', on fr_Medias fr_Medias_update (dec_list zeroMedia dec_media)),
      (''has_more'', on fr_HasMore fr_HasMore_update dec_bool), (''count'', some_int)]"

record favEntry =
  fe_FolderID :: int
  fe_Media :: favMedia

definition favMediaID :: "favEntry \<Rightarrow> string" where
  "favMediaID e = itoa (fe_FolderID e) @ '':'' @ itoa (fm_ID (fe_Media e))"

definition fetchFavFolders :: "biliEnv \<Rightarrow> bili \<Rightarrow> bili \<times> (biliErr + int list)" where
  "fetchFavFolders env s =
     (let s1 = ensureWarmup env s; mid = jar s1 ''DedeUserID'' in
      if jar s1 ''SESSDATA'' = [] \<or> mid = [] then (s1, Inl ErrNotLoggedIn)
      else case getJSON env (Some dec_folders) [] (favFoldersURL mid) True s1 of
             (s2, Some e, _) \<Rightarrow> (s2, Inl e)
           | (s2, None, fs) \<Rightarrow> (s2, Inr fs))"

text \<open>The pages of one folder from page \<open>pn\<close> on, at most \<open>n\<close> of them.\<close>

fun favPages :: "biliEnv \<Rightarrow> int \<Rightarrow> nat \<Rightarrow> nat \<Rightarrow> favMedia list \<Rightarrow> bili \<Rightarrow> bili \<times> (biliErr + favMedia list)" where
  "favPages env fid pn 0 out s = (s, Inr out)"
| "favPages env fid pn (Suc n) out s =
     (case getJSON env (Some dec_resources) \<lparr>fr_Medias = [], fr_HasMore = False\<rparr>
             (favResourceURL @ ''&media_id='' @ itoa fid @ ''&pn='' @ show_nat pn @ ''&ps=20'') True s of
        (s1, Some e, _) \<Rightarrow> (s1, Inl e)
      | (s1, None, r) \<Rightarrow>
          if \<not> fr_HasMore r \<or> fr_Medias r = [] then (s1, Inr (out @ fr_Medias r))
          else favPages env fid (Suc pn) n (out @ fr_Medias r) s1)"

definition fetchFavMedia :: "biliEnv \<Rightarrow> int \<Rightarrow> bili \<Rightarrow> bili \<times> (biliErr + favMedia list)" where
  "fetchFavMedia env fid s = favPages env fid 1 10 [] s"

fun favFolders :: "biliEnv \<Rightarrow> int list \<Rightarrow> favEntry list \<Rightarrow> bili \<Rightarrow> bili \<times> (biliErr + favEntry list)" where
  "favFolders env [] out s = (s, Inr out)"
| "favFolders env (f # fs) out s =
     (case fetchFavMedia env f s of
        (s1, Inl e) \<Rightarrow> (s1, Inl e)
      | (s1, Inr ms) \<Rightarrow> favFolders env fs (out @ map (\<lambda>m. \<lparr>fe_FolderID = f, fe_Media = m\<rparr>) ms) s1)"

definition fetchMyFavorites :: "biliEnv \<Rightarrow> bili \<Rightarrow> bili \<times> (biliErr + favEntry list)" where
  "fetchMyFavorites env s =
     (case fetchFavFolders env s of
        (s1, Inl e) \<Rightarrow> (s1, Inl e)
      | (s1, Inr fs) \<Rightarrow> favFolders env fs [] s1)"

definition favRound :: "biliEnv \<Rightarrow> biliState \<Rightarrow> bili \<Rightarrow> biliState \<times> bili \<times> nat" where
  "favRound env st s =
     (case fetchMyFavorites env s of
        (s1, Inl e) \<Rightarrow> (st, biliPushError e s1, 0)
      | (s1, Inr items) \<Rightarrow>
          (case seeding_round favMediaID (fm_Raw \<circ> fe_Media) ''bilibili_fav'' (unix (bili_now env s1)) items (bs_Favorites st) s1 of
             (m, s2, n) \<Rightarrow> (st\<lparr>bs_Favorites := m\<rparr>, s2, n)))"

section \<open>Watch history\<close>

definition historyURLBase :: string where
  "historyURLBase = apiHost @ ''/x/web-interface/history/cursor?ps=30''"

record histCursor =
  hc_Max :: int
  hc_ViewAt :: int
  hc_Business :: string

definition zeroCursor :: histCursor where "zeroCursor = \<lparr>hc_Max = 0, hc_ViewAt = 0, hc_Business = []\<rparr>"

record histItem =
  hi_Kid :: int
  hi_Business :: string
  hi_Raw :: json

definition zeroHist :: histItem where "zeroHist = \<lparr>hi_Kid = 0, hi_Business = [], hi_Raw = JNull\<rparr>"

definition dec_hist :: "histItem decoder" where
  "dec_hist = dec_keeping (dec_struct
     [(''kid'', on hi_Kid hi_Kid_update dec_int), (''view_at'', some_int), (''title'', some_string), (''cover'', some_string),
      (''uri'', some_string), (''author_name'', some_string), (''author_mid'', some_int), (''badge'', some_string),
      (''show_title'', some_string), (''duration'', some_int), (''progress'', some_int),
      (''history'', dec_struct
         [(''oid'', some_int), (''epid'', some_int), (''bvid'', some_string),
          (''business'', on hi_Business hi_Business_update dec_string)])]) zeroHist (\<lambda>j. hi_Raw_update (\<lambda>_. j))"

record histPage =
  hp_Cursor :: histCursor
  hp_List :: "histItem list"

definition dec_histPage :: "histPage decoder" where
  "dec_histPage = dec_struct
     [(''cursor'', on hp_Cursor hp_Cursor_update (dec_struct
         [(''max'', on hc_Max hc_Max_update dec_int), (''view_at'', on hc_ViewAt hc_ViewAt_update dec_int),
          (''business'', on hc_Business hc_Business_update dec_string), (''ps'', some_int)])),
      (''list'', on hp_List hp_List_update (dec_list zeroHist dec_hist))]"

definition histItemID :: "histItem \<Rightarrow> string" where
  "histItemID it = hi_Business it @ '':'' @ itoa (hi_Kid it)"

definition historyURL :: "histCursor \<Rightarrow> string" where
  "historyURL c =
     historyURLBase @ (if hc_Max c \<noteq> 0
       then ''&max='' @ itoa (hc_Max c) @ ''&business='' @ queryEscape (hc_Business c) @ ''&view_at='' @ itoa (hc_ViewAt c) else [])"

definition fetchHistoryPage :: "biliEnv \<Rightarrow> histCursor \<Rightarrow> bili \<Rightarrow> bili \<times> (biliErr + histPage)" where
  "fetchHistoryPage env c s =
     (case getJSON env (Some dec_histPage) \<lparr>hp_Cursor = zeroCursor, hp_List = []\<rparr> (historyURL c) True s of
        (s1, Some e, _) \<Rightarrow> (s1, Inl e)
      | (s1, None, d) \<Rightarrow> (s1, Inr d))"

text \<open>At most \<open>n\<close> pages from the cursor on.\<close>

fun histWalk :: "biliEnv \<Rightarrow> nat \<Rightarrow> histCursor \<Rightarrow> histItem list \<Rightarrow> bili \<Rightarrow> bili \<times> (biliErr + histItem list)" where
  "histWalk env 0 c out s = (s, Inr out)"
| "histWalk env (Suc n) c out s =
     (case fetchHistoryPage env c s of
        (s1, Inl e) \<Rightarrow> (s1, Inl e)
      | (s1, Inr d) \<Rightarrow>
          if hp_List d = [] then (s1, Inr out) else histWalk env n (hp_Cursor d) (out @ hp_List d) s1)"

definition fetchHistory :: "biliEnv \<Rightarrow> bili \<Rightarrow> bili \<times> (biliErr + histItem list)" where
  "fetchHistory env s =
     (let s1 = ensureWarmup env s in
      if jar s1 ''SESSDATA'' = [] then (s1, Inl ErrNotLoggedIn) else histWalk env 10 zeroCursor [] s1)"

definition historyRound :: "biliEnv \<Rightarrow> biliState \<Rightarrow> bili \<Rightarrow> biliState \<times> bili \<times> nat" where
  "historyRound env st s =
     (case fetchHistory env s of
        (s1, Inl e) \<Rightarrow> (st, biliPushError e s1, 0)
      | (s1, Inr items) \<Rightarrow>
          (case seeding_round histItemID hi_Raw ''bilibili_history'' (unix (bili_now env s1)) items (bs_History st) s1 of
             (m, s2, n) \<Rightarrow> (st\<lparr>bs_History := m\<rparr>, s2, n)))"

section \<open>Notifications\<close>

definition unreadURL :: string where "unreadURL = apiHost @ ''/x/msgfeed/unread''"
definition replyURL :: string where "replyURL = apiHost @ ''/x/msgfeed/reply''"
definition atURL :: string where "atURL = apiHost @ ''/x/msgfeed/at''"
definition likeURL :: string where "likeURL = apiHost @ ''/x/msgfeed/like''"
definition sysMsgURL :: string where "sysMsgURL = ''https://message.bilibili.com/x/sys-msg/query_user_notify''"

record unreadCounts =
  un_Reply :: int
  un_At :: int
  un_Like :: int
  un_SysMsg :: int
  un_Total :: int

definition zeroUnread :: unreadCounts where
  "zeroUnread = \<lparr>un_Reply = 0, un_At = 0, un_Like = 0, un_SysMsg = 0, un_Total = 0\<rparr>"

definition dec_unread :: "unreadCounts decoder" where
  "dec_unread = dec_struct
     [(''reply'', on un_Reply un_Reply_update dec_int), (''at'', on un_At un_At_update dec_int),
      (''like'', on un_Like un_Like_update dec_int), (''sys_msg'', on un_SysMsg un_SysMsg_update dec_int)]"

definition unmarshalUnread :: "json option \<Rightarrow> unreadCounts option" where
  "unmarshalUnread content =
     map_option (\<lambda>u. u\<lparr>un_Total := wrap64 (un_Reply u + un_At u + un_Like u + un_SysMsg u)\<rparr>)
       (unmarshal dec_unread zeroUnread content)"

definition sameUnread :: "unreadCounts \<Rightarrow> unreadCounts \<Rightarrow> bool" where
  "sameUnread a b \<longleftrightarrow> un_Reply a = un_Reply b \<and> un_At a = un_At b \<and> un_Like a = un_Like b \<and> un_Total a = un_Total b"

definition fetchUnread :: "biliEnv \<Rightarrow> bili \<Rightarrow> bili \<times> (biliErr + unreadCounts)" where
  "fetchUnread env s =
     (if jar s ''SESSDATA'' = [] then (s, Inl ErrNotLoggedIn)
      else case doBili env ''GET'' unreadURL None s of
        (s1, Inl e) \<Rightarrow> (s1, Inl e)
      | (s1, Inr (status, body)) \<Rightarrow>
          (s1,
           if status \<noteq> 200 then Inl (OtherErr (''bilibili: unread http '' @ show_nat status))
           else case unmarshal dec_envelope zeroEnvelope (be_json env body) of
             None \<Rightarrow> Inl (if looksHTML body then Unverifiable unreadURL else OtherErr ''bilibili: unread parse'')
           | Some r \<Rightarrow>
               if ev_Code r \<noteq> 0 then Inl (classifyAPIError unreadURL (ev_Code r) (ev_Message r))
               else (case unmarshalUnread (ev_Content r) of
                       None \<Rightarrow> Inl (OtherErr ''bilibili: unread data parse'') | Some u \<Rightarrow> Inr u)))"

text \<open>An event, of which the round uses the kind, the number and the entry as it came. An entry is an
  object, or \<open>null\<close> for the nil map.\<close>

record notifyEvent =
  ev_Kind :: string
  ev_ID :: int
  ev_Raw :: json

fun dec_anyMap :: "json decoder" where
  "dec_anyMap old JNull = (JNull, True)"
| "dec_anyMap old (JObj es) = (JObj es, True)"
| "dec_anyMap old _ = (old, False)"

definition numAnyAsInt :: "json option \<Rightarrow> int option" where
  "numAnyAsInt v = (case v of Some (JNum n) \<Rightarrow> atoi n | Some (JStr t) \<Rightarrow> atoi t | _ \<Rightarrow> None)"

definition event_of :: "string \<Rightarrow> json \<Rightarrow> notifyEvent" where
  "event_of kind m =
     \<lparr>ev_Kind = kind, ev_ID = (case numAnyAsInt (any_field m ''id'') of Some i \<Rightarrow> i | None \<Rightarrow> 0), ev_Raw = m\<rparr>"

definition parseMsgfeedItems :: "json list \<Rightarrow> string \<Rightarrow> notifyEvent list" where
  "parseMsgfeedItems items kind = map (event_of kind) items"

definition parseLikeItems :: "json list \<Rightarrow> notifyEvent list" where
  "parseLikeItems items = map (event_of ''like'') items"

definition parseSysItems :: "json list \<Rightarrow> notifyEvent list" where
  "parseSysItems items = map (event_of ''sys'') items"

text \<open>The answers: a code and lists of entries.\<close>

record listJSON =
  lj_Code :: int
  lj_Latest :: "json list"
  lj_Items :: "json list"

definition zeroList :: listJSON where "zeroList = \<lparr>lj_Code = 0, lj_Latest = [], lj_Items = []\<rparr>"

abbreviation "entries \<equiv> dec_list JNull dec_anyMap"

definition dec_notifyList :: "listJSON decoder" where
  "dec_notifyList = dec_struct
     [(''code'', on lj_Code lj_Code_update dec_int),
      (''data'', dec_struct [(''items'', on lj_Items lj_Items_update entries)])]"

definition dec_likeList :: "listJSON decoder" where
  "dec_likeList = dec_struct
     [(''code'', on lj_Code lj_Code_update dec_int),
      (''data'', dec_struct
         [(''latest'', dec_struct [(''items'', on lj_Latest lj_Latest_update entries)]),
          (''total'', dec_struct [(''items'', on lj_Items lj_Items_update entries)])])]"

definition dec_sysList :: "listJSON decoder" where
  "dec_sysList = dec_struct
     [(''code'', on lj_Code lj_Code_update dec_int),
      (''data'', dec_struct [(''system_notify_list'', on lj_Items lj_Items_update entries)])]"

text \<open>What the three fetchers do with the answer to their request.\<close>

definition list_answer :: "biliEnv \<Rightarrow> listJSON decoder \<Rightarrow> string \<Rightarrow> string \<Rightarrow> string \<Rightarrow> biliErr + listJSON" where
  "list_answer env d u kind body =
     (case unmarshal d zeroList (be_json env body) of
        None \<Rightarrow> Inl (if looksHTML body then Unverifiable u else OtherErr (''bilibili: notify '' @ kind @ '' parse''))
      | Some r \<Rightarrow> if lj_Code r \<noteq> 0 then Inl (classifyAPIError u (lj_Code r) []) else Inr r)"

definition list_request :: "biliEnv \<Rightarrow> listJSON decoder \<Rightarrow> string \<Rightarrow> string \<Rightarrow> bili \<Rightarrow> bili \<times> (biliErr + listJSON)" where
  "list_request env d u kind s =
     (if jar s ''SESSDATA'' = [] then (s, Inl ErrNotLoggedIn)
      else case doBili env ''GET'' u None s of
        (s1, Inl e) \<Rightarrow> (s1, Inl e)
      | (s1, Inr (status, body)) \<Rightarrow>
          (s1, if status \<noteq> 200 then Inl (OtherErr (''bilibili: notify '' @ kind @ '' http '' @ show_nat status))
               else list_answer env d u kind body))"

definition fetchNotifyList :: "biliEnv \<Rightarrow> string \<Rightarrow> string \<Rightarrow> bili \<Rightarrow> bili \<times> (biliErr + notifyEvent list)" where
  "fetchNotifyList env u kind s =
     (case list_request env dec_notifyList u kind s of
        (s1, Inl e) \<Rightarrow> (s1, Inl e)
      | (s1, Inr r) \<Rightarrow> (s1, Inr (parseMsgfeedItems (lj_Items r) kind)))"

definition fetchLikeList :: "biliEnv \<Rightarrow> bili \<Rightarrow> bili \<times> (biliErr + notifyEvent list)" where
  "fetchLikeList env s =
     (case list_request env dec_likeList likeURL ''like'' s of
        (s1, Inl e) \<Rightarrow> (s1, Inl e)
      | (s1, Inr r) \<Rightarrow> (s1, Inr (parseLikeItems (if lj_Items r = [] then lj_Latest r else lj_Items r))))"

text \<open>The system feed has a request of its own: no cookie is taken from the answer and no status is classified.\<close>

definition fetchSysNotify :: "biliEnv \<Rightarrow> bili \<Rightarrow> bili \<times> (biliErr + notifyEvent list)" where
  "fetchSysNotify env s =
     (if jar s ''SESSDATA'' = [] then (s, Inl ErrNotLoggedIn)
      else
        (let rq = \<lparr>rq_method = ''GET'', rq_url = sysMsgURL, rq_form = None\<rparr>;
             s1 = s\<lparr>requests := requests s @ [rq]\<rparr>
         in (s1,
             case be_net env (length (requests s)) rq of
               NetError e \<Rightarrow> Inl (OtherErr e)
             | Answer status ck (Inl e) \<Rightarrow> Inl (OtherErr e)
             | Answer status ck (Inr body) \<Rightarrow>
                 if status \<noteq> 200
                 then Inl (if looksHTML body then Unverifiable (''http '' @ show_nat status @ '' '' @ sysMsgURL)
                           else OtherErr (''bilibili: notify sys http '' @ show_nat status))
                 else (case list_answer env dec_sysList sysMsgURL ''sys'' body of
                         Inl e \<Rightarrow> Inl e | Inr r \<Rightarrow> Inr (parseSysItems (lj_Items r))))))"

definition notifyFetchers :: "(string \<times> (biliEnv \<Rightarrow> bili \<Rightarrow> bili \<times> (biliErr + notifyEvent list))) list" where
  "notifyFetchers =
     [(''reply'', \<lambda>env. fetchNotifyList env replyURL ''reply''), (''at'', \<lambda>env. fetchNotifyList env atURL ''at''),
      (''like'', fetchLikeList), (''sys'', fetchSysNotify)]"

definition notifyKey :: "notifyEvent \<Rightarrow> string" where
  "notifyKey e = ev_Kind e @ '':'' @ itoa (ev_ID e)"

definition isWAFGate :: "biliErr \<Rightarrow> bool" where
  "isWAFGate e \<longleftrightarrow> (case e of Unverifiable t \<Rightarrow> True | _ \<Rightarrow> False)"

record notifyVars =
  nv_LastUnread :: "unreadCounts option"
  nv_BlockedUntil :: time

definition unreadPayload :: "unreadCounts \<Rightarrow> int \<Rightarrow> string \<rightharpoonup> json" where
  "unreadPayload u now = map_of
     [(''kind'', JStr ''notify_unread''), (''reply'', JNum (itoa (un_Reply u))), (''at'', JNum (itoa (un_At u))),
      (''like'', JNum (itoa (un_Like u))), (''sys_msg'', JNum (itoa (un_SysMsg u))), (''total'', JNum (itoa (un_Total u))),
      (''published_at'', JNum (itoa now))]"

fun notifySeed :: "biliEnv \<Rightarrow> int \<Rightarrow> (string \<times> (biliEnv \<Rightarrow> bili \<Rightarrow> bili \<times> (biliErr + notifyEvent list))) list
    \<Rightarrow> seen \<Rightarrow> bili \<Rightarrow> seen \<times> bili" where
  "notifySeed env now [] m s = (m, s)"
| "notifySeed env now ((kind, get) # fs) m s =
     (case get env s of
        (s1, Inl e) \<Rightarrow> notifySeed env now fs m s1
      | (s1, Inr evs) \<Rightarrow> notifySeed env now fs (seed_items notifyKey now evs m) s1)"

fun notifyHandle :: "biliEnv \<Rightarrow> int \<Rightarrow> (string \<times> (biliEnv \<Rightarrow> bili \<Rightarrow> bili \<times> (biliErr + notifyEvent list))) list
    \<Rightarrow> seen \<Rightarrow> bili \<Rightarrow> seen \<times> bili \<times> nat" where
  "notifyHandle env now [] m s = (m, s, 0)"
| "notifyHandle env now ((kind, get) # fs) m s =
     (case get env s of
        (s1, Inl e) \<Rightarrow> notifyHandle env now fs m (if isWAFGate e then s1 else biliPushError e s1)
      | (s1, Inr evs) \<Rightarrow>
          (case round_items notifyKey ev_Raw (flatFields ''notify_event'' (length evs)) now evs m s1 of
             (m2, s2, n) \<Rightarrow>
               if crashed s2 then (m2, s2, n)
               else map_prod id (map_prod id ((+) n)) (notifyHandle env now fs m2 s2)))"

definition notifyRound :: "biliEnv \<Rightarrow> notifyVars \<Rightarrow> biliState \<Rightarrow> bili \<Rightarrow> notifyVars \<times> biliState \<times> bili \<times> nat" where
  "notifyRound env v st s =
     (if bili_now env s < nv_BlockedUntil v then (v, st, s, 0)
      else case fetchUnread env s of
        (s1, Inl e) \<Rightarrow>
          (if isWAFGate e then v\<lparr>nv_BlockedUntil := bili_now env s1 + minutes 30\<rparr> else v, st, biliPushError e s1, 0)
      | (s1, Inr u) \<Rightarrow>
          (let now = unix (bili_now env s1);
               s2 = (if \<exists>l. nv_LastUnread v = Some l \<and> sameUnread l u then s1 else publish (unreadPayload u now) s1);
               v2 = v\<lparr>nv_LastUnread := Some u\<rparr>
           in if bs_Notifications st = []
              then (case notifySeed env now notifyFetchers (bs_Notifications st) s2 of
                      (m, s3) \<Rightarrow> (v2, st\<lparr>bs_Notifications := m\<rparr>, s3, 0))
              else (case notifyHandle env now notifyFetchers (bs_Notifications st) s2 of
                      (m, s3, n) \<Rightarrow> (v2, st\<lparr>bs_Notifications := m\<rparr>, s3, n))))"

section \<open>The loops\<close>

text \<open>The three loops with rounds each hold a state of their own, loaded when the loop starts.\<close>

record biliLoops =
  lp_bili :: bili
  lp_file :: "biliState option"
  lp_hot :: biliState
  lp_feed :: biliState
  lp_fav :: biliState
  lp_vars :: notifyVars

definition startLoops :: "biliEnv \<Rightarrow> bili \<Rightarrow> biliState option \<Rightarrow> biliLoops" where
  "startLoops env s stored =
     \<lparr>lp_bili = ensureWarmup env s, lp_file = stored, lp_hot = loadState stored, lp_feed = loadState stored,
      lp_fav = loadState stored, lp_vars = \<lparr>nv_LastUnread = None, nv_BlockedUntil = 0\<rparr>\<rparr>"

definition plain_round :: "(biliEnv \<Rightarrow> biliState \<Rightarrow> bili \<Rightarrow> biliState \<times> bili \<times> nat) \<Rightarrow> biliEnv \<Rightarrow> biliState \<Rightarrow> bili \<Rightarrow> biliState \<times> bili" where
  "plain_round r env st s = (case r env st s of (st1, s1, n) \<Rightarrow> (st1, s1))"

datatype biliTick = HotTick | NotifyTick | FeedTick | FavTick | HistTick | AuthTick | IdleTick

text \<open>One tick of a loop: the round behind the gateway, then the state of the loop is saved.\<close>

definition tick_step :: "biliEnv \<Rightarrow> biliTick \<Rightarrow> biliLoops \<Rightarrow> biliLoops" where
  "tick_step env t w =
     (let s = lp_bili w in
      if crashed s then w
      else case t of
        HotTick \<Rightarrow>
          (case runAuthRound env (plain_round hotRound env) (lp_hot w) s of (st, s1) \<Rightarrow>
             if crashed s1 then w\<lparr>lp_bili := s1\<rparr>
             else (case saveState env st (lp_file w) s1 of (st1, f) \<Rightarrow> w\<lparr>lp_bili := s1, lp_hot := st1, lp_file := f\<rparr>))
      | NotifyTick \<Rightarrow>
          (case runAuthRound env (\<lambda>(v, st) s. case notifyRound env v st s of (v1, st1, s1, n) \<Rightarrow> ((v1, st1), s1))
                  (lp_vars w, lp_hot w) s of ((v, st), s1) \<Rightarrow>
             if crashed s1 then w\<lparr>lp_bili := s1\<rparr>
             else (case saveState env st (lp_file w) s1 of (st1, f) \<Rightarrow>
                     w\<lparr>lp_bili := s1, lp_hot := st1, lp_vars := v, lp_file := f\<rparr>))
      | FeedTick \<Rightarrow>
          (case runAuthRound env (plain_round feedRound env) (lp_feed w) s of (st, s1) \<Rightarrow>
             if crashed s1 then w\<lparr>lp_bili := s1\<rparr>
             else (case saveState env st (lp_file w) s1 of (st1, f) \<Rightarrow> w\<lparr>lp_bili := s1, lp_feed := st1, lp_file := f\<rparr>))
      | FavTick \<Rightarrow>
          (case runAuthRound env (plain_round favRound env) (lp_fav w) s of (st, s1) \<Rightarrow>
             if crashed s1 then w\<lparr>lp_bili := s1\<rparr>
             else (case saveState env st (lp_file w) s1 of (st1, f) \<Rightarrow> w\<lparr>lp_bili := s1, lp_fav := st1, lp_file := f\<rparr>))
      | HistTick \<Rightarrow>
          (case runAuthRound env (plain_round historyRound env) (lp_fav w) s of (st, s1) \<Rightarrow>
             if crashed s1 then w\<lparr>lp_bili := s1\<rparr>
             else (case saveState env st (lp_file w) s1 of (st1, f) \<Rightarrow> w\<lparr>lp_bili := s1, lp_fav := st1, lp_file := f\<rparr>))
      | AuthTick \<Rightarrow> w\<lparr>lp_bili := authCheckTick env s\<rparr>
      | IdleTick \<Rightarrow> w\<lparr>lp_bili := wait s\<rparr>)"

section \<open>What a round publishes\<close>

lemma publish_simps [simp]:
  "published (publish f s) = published s @ [f]" "crashed (publish f s) = crashed s" "auth (publish f s) = auth s"
  "jar (publish f s) = jar s" "requests (publish f s) = requests s" "ticks (publish f s) = ticks s"
  "loginUIs (publish f s) = loginUIs s" "reLoginAt (publish f s) = reLoginAt s"
  by (simp_all add: publish_def)

lemma round_items_spec:
  assumes "\<forall>i \<in> set is. raw i \<noteq> JNull" "extra \<noteq> []"
  shows "round_items key raw extra now is m s =
    (fold (\<lambda>i. AList.update (key i) now) (fresh_items key (fst ` set m) is) m,
     s\<lparr>published := published s @ concat (map (flat_of raw extra) (fresh_items key (fst ` set m) is))\<rparr>,
     length (fresh_items key (fst ` set m) is))"
  using assms(1)
proof (induction "is" arbitrary: m s)
  case (Cons i "is")
  have np: "insertFlatFields (raw i) extra \<noteq> FlatPanic"
    using Cons.prems assms(2) by (auto simp: insertFlatFields_def split: json.splits)
  show ?case
    using Cons np
    by (cases "insertFlatFields (raw i) extra")
       (auto simp: Let_def flat_of_def map_of_eq_None_iff publish_def)
qed simp

lemma round_items_null_crashes:
  assumes "extra \<noteq> []"
  shows "i \<in> set is \<Longrightarrow> raw i = JNull \<Longrightarrow> key i \<notin> fst ` set m \<Longrightarrow> (\<And>j. j \<in> set is \<Longrightarrow> key j = key i \<Longrightarrow> raw j = JNull) \<Longrightarrow>
    crashed (fst (snd (round_items key raw extra now is m s)))"
proof (induction "is" arbitrary: m s)
  case (Cons j "is")
  show ?case
  proof (cases "key j = key i")
    case True
    then show ?thesis using Cons.prems assms
      by (auto simp: Let_def insertFlatFields_def panic_def map_of_eq_None_iff[THEN iffD2])
  next
    case False
    then have i: "i \<in> set is" using Cons.prems by auto
    show ?thesis
      using Cons.IH[OF i] Cons.prems False
      by (auto simp: Let_def panic_def split: flatResult.split)
  qed
qed simp

lemma round_items_keys:
  assumes "\<forall>i \<in> set is. raw i \<noteq> JNull" "extra \<noteq> []"
  shows "fst ` set (fst (round_items key raw extra now is m s)) = key ` set is \<union> fst ` set m"
  by (auto simp: round_items_spec[OF assms] keys_fold_update fresh_items_keys)

lemma hot_round_state:
  assumes "fetchHotboard env s = (s1, Inr items)" "\<forall>i \<in> set items. rk_Raw i \<noteq> JNull"
  shows "published (fst (snd (hotRound env st s))) = published s1
      @ concat (map (flat_of rk_Raw (flatFields ''hotboard'' (length items))) (fresh_items hotItemID (fst ` set (bs_Hotboard st)) items))"
  by (simp add: hotRound_def assms(1) round_items_spec[OF assms(2)])

text \<open>C27: a hot-board round that gets its list publishes, in the order of the list, the first entry of each key it does not know, as it came with the two fields added, counts them, and knows every key of the list afterwards. So an entry is not published again as long as its key is kept.\<close>

theorem hot_round_publishes:
  assumes "fetchHotboard env s = (s1, Inr items)" "\<forall>i \<in> set items. rk_Raw i \<noteq> JNull"
  shows "let new = fresh_items hotItemID (fst ` set (bs_Hotboard st)) items in
    published (fst (snd (hotRound env st s))) = published s1
      @ concat (map (flat_of rk_Raw (flatFields ''hotboard'' (length items))) new) \<and>
    snd (snd (hotRound env st s)) = length new \<and> distinct (map hotItemID new) \<and>
    fst ` set (bs_Hotboard (fst (hotRound env st s))) = hotItemID ` set items \<union> fst ` set (bs_Hotboard st)"
  by (auto simp: Let_def hotRound_def assms(1) round_items_spec[OF assms(2)] fresh_items_distinct keys_fold_update
        fresh_items_keys)

text \<open>A \<open>null\<close> in the ranking list that the service sends ends the whole process, unless its key \<open>av0\<close> is known already: the extra fields are assigned into a nil map.\<close>

theorem hot_null_entry_crashes:
  assumes "fetchHotboard env s = (s1, Inr items)" "it \<in> set items" "rk_Raw it = JNull"
    and "\<forall>i \<in> set items. hotItemID i = hotItemID it \<longrightarrow> rk_Raw i = JNull"
    and "hotItemID it \<notin> fst ` set (bs_Hotboard st)"
  shows "crashed (fst (snd (hotRound env st s)))"
proof -
  have "crashed (fst (snd (round_items hotItemID rk_Raw (flatFields ''hotboard'' (length items)) now items (bs_Hotboard st) s1)))" for now
    using assms(2-5) by (intro round_items_null_crashes[where i = it]) auto
  then show ?thesis by (simp add: hotRound_def assms(1) case_prod_beta)
qed

section \<open>What the 72 hours do\<close>

text \<open>An entry that stays on the hot board is published anew once its key is older than 72 hours: seeing it again does not renew the key, so saving drops it and the next round takes it for new.\<close>

theorem hot_entry_republished:
  assumes "\<forall>v. (hotItemID it, v) \<in> set (bs_Hotboard st) \<longrightarrow> v < unix (bili_now env s - hours 72)"
    and "saveState env st stored s = (st1, f)"
    and "fetchHotboard env2 s2 = (s3, Inr items)" "\<forall>i \<in> set items. rk_Raw i \<noteq> JNull" "it \<in> set items"
  shows "\<exists>i \<in> set (fresh_items hotItemID (fst ` set (bs_Hotboard st1)) items). hotItemID i = hotItemID it \<and>
    set (flat_of rk_Raw (flatFields ''hotboard'' (length items)) i) \<subseteq> set (published (fst (snd (hotRound env2 st1 s2))))"
proof -
  have st1: "st1 = pruneState (bili_now env s) st" using assms(2) by (simp add: saveState_def Let_def)
  have "hotItemID it \<notin> fst ` set (bs_Hotboard st1)"
  proof
    assume "hotItemID it \<in> fst ` set (bs_Hotboard st1)"
    then have "hotItemID it \<in> fst ` set (pruneMap (bili_now env s) (bs_Hotboard st))" by (simp add: st1 pruneState_def)
    from keys_prune[OF this] show False using assms(1) by (meson not_less)
  qed
  then have "hotItemID it \<in> hotItemID ` set (fresh_items hotItemID (fst ` set (bs_Hotboard st1)) items)"
    using assms(5) by (simp add: fresh_items_keys)
  then obtain i where i: "i \<in> set (fresh_items hotItemID (fst ` set (bs_Hotboard st1)) items)" "hotItemID i = hotItemID it"
    by auto
  moreover have "set (flat_of rk_Raw (flatFields ''hotboard'' (length items)) i) \<subseteq> set (published (fst (snd (hotRound env2 st1 s2))))"
    using i(1) by (auto simp: hot_round_state[OF assms(3,4)])
  ultimately show ?thesis by blast
qed

text \<open>when no update came for 72 hours, saving empties the map of the follow feed, and the next round takes itself for the first one: it publishes nothing, and marks every entry as known, the new ones too, so they are never published.\<close>

theorem feed_gap_swallows:
  assumes "\<forall>(k, v) \<in> set (bs_FollowFeed st). v < unix (bili_now env s - hours 72)"
    and "saveState env st stored s = (st1, f)" "fetchFollowFeed env2 s2 = (s3, Inr items)"
  shows "feedRound env2 st1 s2 = (st1\<lparr>bs_FollowFeed := seed_items feedItemID (unix (bili_now env2 s3)) items []\<rparr>, s3, 0) \<and>
    feedItemID ` set items \<subseteq> fst ` set (bs_FollowFeed (fst (feedRound env2 st1 s2)))"
proof -
  have "bs_FollowFeed st1 = []"
    using assms(1,2) by (auto simp: saveState_def Let_def pruneState_def pruneMap_def filter_empty_conv)
  then show ?thesis by (simp add: feedRound_def assms(3) seeding_round_def keys_seed)
qed

section \<open>A service with one answer\<close>

definition const_service :: "json \<Rightarrow> biliEnv" where
  "const_service j = nav_service\<lparr>be_json := (\<lambda>_. Some (JObj [(''code'', JNum ''0''), (''data'', j)]))\<rparr>"

definition ready_bili :: bili where
  "ready_bili = jar_set ''SESSDATA'' ''a'' (fresh_bili\<lparr>warm := True\<rparr>)"

lemma const_service_request:
  "doBili (const_service j) m u f s = (s\<lparr>requests := requests s @ [\<lparr>rq_method = m, rq_url = u, rq_form = f\<rparr>]\<rparr>, Inr (200, ''{}''))"
proof -
  have "\<not> looksHTML ''{}''" by (simp add: looksHTML_def has_prefix_def printing_def)
  then show ?thesis by (simp add: doBili_def Let_def captureSetCookie_def const_service_def nav_service_def)
qed

lemma const_service_envelope:
  "unmarshal dec_envelope zeroEnvelope (be_json (const_service j) b) = Some \<lparr>ev_Code = 0, ev_Message = [], ev_Content = Some j\<rparr>"
  by (simp add: const_service_def unmarshal_def dec_envelope_def dec_entry_def find_field_def on_def dec_raw_def
        zeroEnvelope_def atoi_def) code_simp

lemma const_service_get:
  assumes "d zero j = (v, True)" "jar s ''SESSDATA'' \<noteq> []"
  shows "getJSON (const_service j) (Some d) zero u a s =
    (s\<lparr>requests := requests s @ [\<lparr>rq_method = ''GET'', rq_url = u, rq_form = None\<rparr>]\<rparr>, None, v)"
  using assms by (simp add: getJSON_def const_service_request const_service_envelope)

definition one_ranking :: json where
  "one_ranking = JObj [(''list'', JArr [JObj [(''bvid'', JStr ''b'')]])]"

definition null_ranking :: json where
  "null_ranking = JObj [(''list'', JArr [JNull])]"

definition one_feed :: json where
  "one_feed = JObj [(''items'', JArr [JObj [(''id_str'', JStr ''9'')]])]"

lemma one_list:
  "dec_rankings [] one_ranking = ([\<lparr>rk_Aid = 0, rk_Bvid = ''b'', rk_Raw = JObj [(''bvid'', JStr ''b'')]\<rparr>], True)"
  "dec_rankings [] null_ranking = ([zeroRanking], True)"
  "dec_feeds [] one_feed = ([\<lparr>fd_IDStr = ''9'', fd_Type = [], fd_Mid = 0, fd_Raw = JObj [(''id_str'', JStr ''9'')]\<rparr>], True)"
  by code_simp+

lemma ready_simps [simp]: "warm ready_bili" "jar ready_bili ''SESSDATA'' = ''a''"
  by (simp_all add: ready_bili_def jar_set_def)

lemma one_ranking_fetched:
  "\<exists>s. fetchHotboard (const_service one_ranking) ready_bili =
     (s, Inr [\<lparr>rk_Aid = 0, rk_Bvid = ''b'', rk_Raw = JObj [(''bvid'', JStr ''b'')]\<rparr>])"
  "\<exists>s. fetchHotboard (const_service null_ranking) ready_bili = (s, Inr [zeroRanking])"
  "\<exists>s. fetchFollowFeed (const_service one_feed) ready_bili =
     (s, Inr [\<lparr>fd_IDStr = ''9'', fd_Type = [], fd_Mid = 0, fd_Raw = JObj [(''id_str'', JStr ''9'')]\<rparr>])"
  by (simp_all add: fetchHotboard_def fetchFollowFeed_def ensureWarmup_def const_service_get one_list)

lemma hot_round_publishes_witness:
  "snd (snd (hotRound (const_service one_ranking) newBiliState ready_bili)) = 1"
proof -
  obtain s where f: "fetchHotboard (const_service one_ranking) ready_bili =
     (s, Inr [\<lparr>rk_Aid = 0, rk_Bvid = ''b'', rk_Raw = JObj [(''bvid'', JStr ''b'')]\<rparr>])" using one_ranking_fetched(1) by blast
  show ?thesis using hot_round_publishes[OF f, of newBiliState] by (simp add: newBiliState_def)
qed

lemma hot_null_entry_crashes_witness:
  "crashed (fst (snd (hotRound (const_service null_ranking) newBiliState ready_bili)))"
proof -
  obtain s where f: "fetchHotboard (const_service null_ranking) ready_bili = (s, Inr [zeroRanking])"
    using one_ranking_fetched(2) by blast
  show ?thesis
    by (rule hot_null_entry_crashes[OF f, of zeroRanking]) (simp_all add: zeroRanking_def newBiliState_def)
qed

lemma hot_entry_republished_witness:
  "\<exists>m. m \<in> set (published (fst (snd (hotRound (const_service one_ranking)
      (fst (saveState nav_service (newBiliState\<lparr>bs_Hotboard := [(''b'', - hours 80)]\<rparr>) None fresh_bili)) ready_bili))))"
proof -
  let ?st = "newBiliState\<lparr>bs_Hotboard := [(''b'', - hours 80)]\<rparr>"
  let ?it = "\<lparr>rk_Aid = 0, rk_Bvid = ''b'', rk_Raw = JObj [(''bvid'', JStr ''b'')]\<rparr>"
  obtain s where f: "fetchHotboard (const_service one_ranking) ready_bili = (s, Inr [?it])" using one_ranking_fetched(1) by blast
  obtain st1 f1 where sv: "saveState nav_service ?st None fresh_bili = (st1, f1)" by fastforce
  have "\<forall>v. (hotItemID ?it, v) \<in> set (bs_Hotboard ?st) \<longrightarrow> v < unix (bili_now nav_service fresh_bili - hours 72)"
    by (simp add: bili_now_def nav_service_def fresh_bili_def bili_ix_def unix_def hours_def)
  from hot_entry_republished[OF this sv f] obtain i where
    "set (flat_of rk_Raw (flatFields ''hotboard'' 1) i) \<subseteq> set (published (fst (snd (hotRound (const_service one_ranking) st1 ready_bili))))"
    "i \<in> set (fresh_items hotItemID (fst ` set (bs_Hotboard st1)) [?it])"
    by auto
  moreover from this(2) have "i = ?it" using fresh_items_known by fastforce
  ultimately show ?thesis by (auto simp: sv flat_of_def insertFlatFields_def)
qed

lemma feed_gap_swallows_witness:
  "\<exists>s st. feedRound (const_service one_feed)
      (fst (saveState nav_service (newBiliState\<lparr>bs_FollowFeed := [(''8'', - hours 80)]\<rparr>) None fresh_bili)) ready_bili = (st, s, 0)"
proof -
  let ?st = "newBiliState\<lparr>bs_FollowFeed := [(''8'', - hours 80)]\<rparr>"
  obtain s where f: "fetchFollowFeed (const_service one_feed) ready_bili =
     (s, Inr [\<lparr>fd_IDStr = ''9'', fd_Type = [], fd_Mid = 0, fd_Raw = JObj [(''id_str'', JStr ''9'')]\<rparr>])"
    using one_ranking_fetched(3) by blast
  obtain st1 f1 where sv: "saveState nav_service ?st None fresh_bili = (st1, f1)" by fastforce
  have "\<forall>(k, v) \<in> set (bs_FollowFeed ?st). v < unix (bili_now nav_service fresh_bili - hours 72)"
    by (simp add: bili_now_def nav_service_def fresh_bili_def bili_ix_def unix_def hours_def)
  from feed_gap_swallows[OF this sv f] show ?thesis unfolding sv fst_conv by blast
qed

end
