(* ===== verification/Bili_Invariants.thy ===== *)
theory Bili_Invariants
  imports Bili_Rounds
begin

text \<open>
  What the loops of the bilibili back end keep, whatever the network answers and in whatever order the
  ticks come. A locale states an invariant by what the primitive steps keep, and proves once that every
  operation up to a tick of a loop keeps it; its interpretations are the invariant of the session (a
  session is ready only with a cookie), and the quiet time after the login page failed to start.
\<close>

section \<open>Invariants of the primitive steps\<close>

locale bili_inv =
  fixes env :: biliEnv and I :: "bili \<Rightarrow> bool"
  assumes net: "doBili env m u f s = (s', r) \<Longrightarrow> I s \<Longrightarrow> I s'"
    and jar: "I s \<Longrightarrow> I (jar_set k v s)"
    and frame: "I s \<Longrightarrow> jar t = jar s \<Longrightarrow> au_status (auth t) = au_status (auth s) \<Longrightarrow> reLoginAt t = reLoginAt s
      \<Longrightarrow> loginUIs t = loginUIs s \<Longrightarrow> bili_ix s \<le> bili_ix t \<Longrightarrow> I t"
    and ready: "I s \<Longrightarrow> jar s ''SESSDATA'' \<noteq> [] \<Longrightarrow> I (setStatus AuthStatusReady s)"
    and invalid: "I s \<Longrightarrow> I (setStatus AuthStatusInvalid s)"
    and empty: "I s \<Longrightarrow> I (setStatus AuthStatusEmpty s)"
    and gate: "loginGate env s = (s', e) \<Longrightarrow> I s \<Longrightarrow> I s'"
begin

lemma saveAuth: "I s \<Longrightarrow> I (saveAuth env s)"
  by (erule frame) (simp_all add: bili_ix_def)

lemma biliSetAuthStatus:
  "I s \<Longrightarrow> st = AuthStatusInvalid \<or> st = AuthStatusReady \<and> jar s ''SESSDATA'' \<noteq> [] \<Longrightarrow> I (biliSetAuthStatus env st s)"
  by (auto simp: biliSetAuthStatus_def intro: saveAuth invalid ready)

lemma markSessionInvalid: "I s \<Longrightarrow> I (markSessionInvalid env e s)"
  unfolding markSessionInvalid_def by (rule biliSetAuthStatus, erule frame) (simp_all add: bili_ix_def)

lemma biliPushError: "I s \<Longrightarrow> I (biliPushError e s)"
  by (erule frame) (simp_all add: biliPushError_def Let_def bili_ix_def)

lemma publish: "I s \<Longrightarrow> I (publish f s)"
  by (erule frame) (simp_all add: publish_def bili_ix_def)

lemma panic: "I s \<Longrightarrow> I (panic s)"
  by (erule frame) (simp_all add: panic_def bili_ix_def)

lemma wait: "I s \<Longrightarrow> I (wait s)"
  by (erule frame) (simp_all add: wait_def bili_ix_def)

lemma wbiKeysFromNav: "I s \<Longrightarrow> I (wbiKeysFromNav now j s)"
  by (erule frame) (simp_all add: bili_ix_def)

lemma decodeNavForWBI: "I s \<Longrightarrow> I (decodeNavForWBI env b s)"
  by (erule frame) (simp_all add: bili_ix_def)

lemma getJSON: "getJSON env d z u a s = (s', r) \<Longrightarrow> I s \<Longrightarrow> I s'"
  using net[of "''GET''" u None s s'] getJSON_state[of env d z u a s s' r] by (metis prod.collapse)

lemma postForm: "postForm env d z u f s = (s', r) \<Longrightarrow> I s \<Longrightarrow> I s'"
  using net[of "''POST''" u "Some f" s s'] postForm_state[of env d z u f s s' r] by (metis prod.collapse)

lemma getJSONDataRaw: "getJSONDataRaw env u s = (s', r) \<Longrightarrow> I s \<Longrightarrow> I s'"
  by (auto simp: getJSONDataRaw_def split: prod.splits sum.splits dest: net)

lemma biliTicket: "I s \<Longrightarrow> I (biliTicket env s)"
  by (auto simp: biliTicket_def split: prod.splits sum.splits intro: jar dest: postForm)

lemma warmup: "I s \<Longrightarrow> I (warmup env s)"
  by (auto simp: warmup_def Let_def split: prod.splits sum.splits intro!: biliTicket intro: wbiKeysFromNav dest!: getJSONDataRaw getJSON)

lemma ensureWarmup: "I s \<Longrightarrow> I (ensureWarmup env s)"
  using warmup[of s] by (auto simp: ensureWarmup_def bili_ix_def elim: frame)

lemma refreshWBIKeys: "refreshWBIKeys env s = (s', e) \<Longrightarrow> I s \<Longrightarrow> I s'"
  by (auto simp: refreshWBIKeys_def Let_def split: prod.splits sum.splits intro!: biliTicket intro: wbiKeysFromNav dest!: getJSONDataRaw)

lemma rcmd_request: "rcmd_request env ps s = (s', r) \<Longrightarrow> I s \<Longrightarrow> I s'"
  by (auto simp: rcmd_request_def split: sum.splits prod.splits option.splits if_splits dest: getJSON refreshWBIKeys)

lemma fetchRecommend: "fetchRecommend env l s = (s', r) \<Longrightarrow> I s \<Longrightarrow> I s'"
  by (auto simp: fetchRecommend_def Let_def split: prod.splits option.splits if_splits
           dest: refreshWBIKeys rcmd_request intro: ensureWarmup)

lemma loadAuth: "I s \<Longrightarrow> I (loadAuth s)"
proof (cases "authFile s")
  case (Some f)
  assume i: "I s"
  let ?s1 = "jar_set ''DedeUserID__ckMd5'' (af_CkMd5 f) (jar_set ''DedeUserID'' (af_DedeUserID f)
               (jar_set ''bili_jct'' (af_BiliJCT f) (jar_set ''SESSDATA'' (af_SESSDATA f) s)))"
  have 1: "I ?s1" by (intro jar i)
  have c: "af_SESSDATA f \<noteq> [] \<Longrightarrow> jar ?s1 ''SESSDATA'' \<noteq> []" by simp
  have "I (setStatus AuthStatusInvalid ?s1)" "I (setStatus AuthStatusEmpty ?s1)" by (intro invalid empty 1)+
  moreover have "af_SESSDATA f \<noteq> [] \<Longrightarrow> I (setStatus AuthStatusReady ?s1)" by (intro ready 1 c)
  ultimately have "I (setStatus (au_status (auth (loadAuth s))) ?s1)"
    by (auto simp: loadAuth_def Some Let_def)
  then show ?thesis by (rule frame) (simp_all add: loadAuth_def Some Let_def setStatus_def bili_ix_def)
qed (simp add: loadAuth_def)

lemma probeSession: "probeSession env s = (s', e) \<Longrightarrow> I s \<Longrightarrow> I s'"
proof -
  assume i: "I s" and p: "probeSession env s = (s', e)"
  obtain s1 r where d: "doBili env ''GET'' navURL None s = (s1, r)" by fastforce
  have 1: "I s1" by (rule net[OF d i])
  have c: "jar s ''SESSDATA'' \<noteq> [] \<Longrightarrow> jar s1 ''SESSDATA'' \<noteq> []" by (rule doBili_frame(5)[OF d])
  have 2: "I (clearRateLimit (decodeNavForWBI env b s1))" for b
    by (rule frame[OF decodeNavForWBI[OF 1]]) (simp_all add: bili_ix_def)
  have 3: "jar s ''SESSDATA'' \<noteq> [] \<Longrightarrow> I (saveAuth env (clearAuthErr ((clearRateLimit (decodeNavForWBI env b s1))
      \<lparr>auth := (auth (clearRateLimit (decodeNavForWBI env b s1)))\<lparr>au_user := n, au_status := AuthStatusReady\<rparr>\<rparr>)))" for b n
    by (rule saveAuth, rule frame[OF ready[OF 2]]) (simp_all add: c setStatus_def clearAuthErr_def bili_ix_def)
  have 4: "I (markSessionInvalid env ErrNotLoggedIn (clearRateLimit (decodeNavForWBI env b s1)))" for b
    by (rule markSessionInvalid[OF 2])
  show "I s'"
    using p i 1 3 4 c by (auto simp: probeSession_def d Let_def split: if_splits sum.splits biliErr.splits option.splits
        intro: markSessionInvalid biliSetAuthStatus)
qed

lemma refreshCookies: "refreshCookies env s = (s', e) \<Longrightarrow> I s \<Longrightarrow> I s'"
proof -
  assume i: "I s" and p: "refreshCookies env s = (s', e)"
  obtain s1 r where d: "doBili env ''POST'' refreshURL (Some [(''refresh_token'', au_refreshToken (auth s))]) s = (s1, r)" by fastforce
  have 1: "I s1" by (rule net[OF d i])
  have c: "jar s ''SESSDATA'' \<noteq> [] \<Longrightarrow> jar s1 ''SESSDATA'' \<noteq> []" by (rule doBili_frame(5)[OF d])
  have 2: "jar s ''SESSDATA'' \<noteq> [] \<Longrightarrow> I (saveAuth env (s1\<lparr>auth := (auth s1)\<lparr>au_refreshToken := t, au_status := AuthStatusReady\<rparr>\<rparr>))" for t
    by (rule saveAuth, rule frame[OF ready[OF 1]]) (simp_all add: c setStatus_def bili_ix_def)
  show "I s'"
    using p i 1 2 by (auto simp: refreshCookies_def Let_def d split: if_splits sum.splits option.splits intro: markSessionInvalid)
qed

lemma gated: "gated env s = (s', e) \<Longrightarrow> I s \<Longrightarrow> I s'"
  by (auto simp: gated_def split: prod.splits dest: gate)

lemma ensureSession: "ensureSession env s = (s', e) \<Longrightarrow> I s \<Longrightarrow> I s'"
  by (auto simp: ensureSession_def Let_def split: if_splits prod.splits option.splits biliErr.splits
      dest!: refreshCookies probeSession gated intro: loadAuth markSessionInvalid)

lemma authCheckTick: "I s \<Longrightarrow> I (authCheckTick env s)"
  by (auto simp: authCheckTick_def split: prod.splits option.splits biliErr.splits intro: biliPushError dest: probeSession)

lemma runAuthRound:
  assumes "\<And>st t st' t'. I t \<Longrightarrow> fn st t = (st', t') \<Longrightarrow> I t'"
  shows "I s \<Longrightarrow> runAuthRound env fn st s = (st', s') \<Longrightarrow> I s'"
  by (auto simp: runAuthRound_def split: prod.splits option.splits dest: ensureSession assms intro: biliPushError)

lemma round_items: "round_items key raw extra now is m s = (m', s', n) \<Longrightarrow> I s \<Longrightarrow> I s'"
proof (induction "is" arbitrary: m s m' s' n)
  case (Cons i "is")
  obtain m1 s1 n1 where r: "round_items key raw extra now is (AList.update (key i) now m) s = (m1, s1, n1)" by (rule prod_cases3)
  obtain m2 s2 n2 where r2: "round_items key raw extra now is m s = (m2, s2, n2)" by (rule prod_cases3)
  have p: "round_items key raw extra now is (AList.update (key i) now m) (publish f s) = (m3, s3, n3) \<Longrightarrow> I s3" for f m3 s3 n3
    by (erule Cons.IH) (rule publish[OF Cons.prems(2)])
  show ?case
    using Cons.prems Cons.IH[OF r] Cons.IH[OF r2] r r2 p
    by (auto simp: Let_def map_prod_def intro: panic split: if_splits flatResult.splits prod.splits)
qed simp

lemma seeding_round: "seeding_round key raw kind now is m s = (m', s', n) \<Longrightarrow> I s \<Longrightarrow> I s'"
  by (auto simp: seeding_round_def split: if_splits dest: round_items)

lemma hotRound: "hotRound env st s = (st', s', n) \<Longrightarrow> I s \<Longrightarrow> I s'"
  using ensureWarmup[of s]
  by (auto simp: hotRound_def fetchHotboard_def split: prod.splits option.splits dest!: getJSON round_items intro: biliPushError)

lemma feedRound: "feedRound env st s = (st', s', n) \<Longrightarrow> I s \<Longrightarrow> I s'"
  using ensureWarmup[of s]
  by (auto simp: feedRound_def fetchFollowFeed_def Let_def split: prod.splits option.splits if_splits
      dest!: getJSON seeding_round intro: biliPushError)

lemma favPages: "favPages env fid pn n out s = (s', r) \<Longrightarrow> I s \<Longrightarrow> I s'"
  by (induction n arbitrary: pn out s) (auto split: prod.splits option.splits if_splits dest: getJSON)

lemma favFolders: "favFolders env fs out s = (s', r) \<Longrightarrow> I s \<Longrightarrow> I s'"
  by (induction fs arbitrary: out s) (auto simp: fetchFavMedia_def split: prod.splits sum.splits dest: favPages)

lemma favRound: "favRound env st s = (st', s', n) \<Longrightarrow> I s \<Longrightarrow> I s'"
  using ensureWarmup[of s]
  by (auto simp: favRound_def fetchMyFavorites_def fetchFavFolders_def Let_def split: prod.splits option.splits sum.splits if_splits
      dest!: getJSON seeding_round favFolders intro: biliPushError)

lemma histWalk: "histWalk env n c out s = (s', r) \<Longrightarrow> I s \<Longrightarrow> I s'"
  by (induction n arbitrary: c out s) (auto simp: fetchHistoryPage_def split: prod.splits option.splits sum.splits if_splits dest: getJSON)

lemma historyRound: "historyRound env st s = (st', s', n) \<Longrightarrow> I s \<Longrightarrow> I s'"
  using ensureWarmup[of s]
  by (auto simp: historyRound_def fetchHistory_def Let_def split: prod.splits option.splits sum.splits if_splits
      dest!: seeding_round histWalk intro: biliPushError)

lemma fetchUnread: "fetchUnread env s = (s', r) \<Longrightarrow> I s \<Longrightarrow> I s'"
  by (auto simp: fetchUnread_def split: prod.splits sum.splits if_splits dest: net)

lemma list_request: "list_request env d u k s = (s', r) \<Longrightarrow> I s \<Longrightarrow> I s'"
  by (auto simp: list_request_def split: prod.splits sum.splits if_splits dest: net)

lemma fetchSysNotify: "fetchSysNotify env s = (s', r) \<Longrightarrow> I s \<Longrightarrow> I s'"
  by (auto simp: fetchSysNotify_def Let_def bili_ix_def split: if_splits elim: frame)

lemma fetchers: "(k, get) \<in> set notifyFetchers \<Longrightarrow> get env s = (s', r) \<Longrightarrow> I s \<Longrightarrow> I s'"
  by (auto simp: notifyFetchers_def fetchNotifyList_def fetchLikeList_def split: prod.splits sum.splits
      dest!: list_request fetchSysNotify)

lemma notifySeed: "notifySeed env now fs m s = (m', s') \<Longrightarrow> set fs \<subseteq> set notifyFetchers \<Longrightarrow> I s \<Longrightarrow> I s'"
proof (induction fs arbitrary: m s)
  case (Cons f fs)
  obtain k get where f: "f = (k, get)" by fastforce
  obtain s1 r where g: "get env s = (s1, r)" by fastforce
  have "I s1" using fetchers[of k get s s1 r] g Cons.prems f by auto
  then show ?case using Cons f g by (auto split: sum.splits)
qed simp

lemma notifyHandle: "notifyHandle env now fs m s = (m', s', n) \<Longrightarrow> set fs \<subseteq> set notifyFetchers \<Longrightarrow> I s \<Longrightarrow> I s'"
proof (induction fs arbitrary: m s m' s' n)
  case (Cons f fs)
  obtain k get where f: "f = (k, get)" by fastforce
  obtain s1 r where g: "get env s = (s1, r)" by fastforce
  have i: "I s1" using fetchers[of k get s s1 r] g Cons.prems f by auto
  have sub: "set fs \<subseteq> set notifyFetchers" using Cons.prems by auto
  show ?case
  proof (cases r)
    case (Inl e)
    then show ?thesis using Cons.prems f g Cons.IH[OF _ sub] biliPushError[OF i] i by (auto split: if_splits)
  next
    case (Inr evs)
    obtain m2 s2 n2 where r2: "round_items notifyKey ev_Raw (flatFields ''notify_event'' (length evs)) now evs m s1 = (m2, s2, n2)"
      by (rule prod_cases3)
    obtain m3 s3 n3 where r3: "notifyHandle env now fs m2 s2 = (m3, s3, n3)" by (rule prod_cases3)
    show ?thesis using Cons.prems f g Inr r2 r3 round_items[OF r2 i] Cons.IH[OF r3 sub] by (auto split: if_splits)
  qed
qed simp

lemma notifyRound: "notifyRound env v st s = (v', st', s', n) \<Longrightarrow> I s \<Longrightarrow> I s'"
  by (auto simp: notifyRound_def Let_def split: prod.splits sum.splits if_splits
      dest!: fetchUnread notifySeed notifyHandle intro: biliPushError publish)

lemma gated_rounds:
  "runAuthRound env (plain_round hotRound env) st s = (st', s') \<Longrightarrow> I s \<Longrightarrow> I s'"
  "runAuthRound env (plain_round feedRound env) st s = (st', s') \<Longrightarrow> I s \<Longrightarrow> I s'"
  "runAuthRound env (plain_round favRound env) st s = (st', s') \<Longrightarrow> I s \<Longrightarrow> I s'"
  "runAuthRound env (plain_round historyRound env) st s = (st', s') \<Longrightarrow> I s \<Longrightarrow> I s'"
  by (erule runAuthRound[rotated], assumption, auto simp: plain_round_def split: prod.splits
      dest: hotRound feedRound favRound historyRound)+

lemma gated_notify:
  "runAuthRound env (\<lambda>(v, st) s. case notifyRound env v st s of (v1, st1, s1, n) \<Rightarrow> ((v1, st1), s1)) vst s = (vst', s')
     \<Longrightarrow> I s \<Longrightarrow> I s'"
  by (erule runAuthRound[rotated], assumption, auto split: prod.splits dest: notifyRound)

theorem tick_step: "I (lp_bili w) \<Longrightarrow> I (lp_bili (tick_step env t w))"
  by (cases t) (auto simp: tick_step_def Let_def intro: authCheckTick wait split: prod.splits dest!: gated_rounds gated_notify)

lemma run: "I (lp_bili w) \<Longrightarrow> I (lp_bili (foldl (\<lambda>w t. tick_step env t w) w ts))"
  by (induction ts arbitrary: w) (auto intro: tick_step)

end

section \<open>The session\<close>

definition session_ok :: "bili \<Rightarrow> bool" where
  "session_ok s \<longleftrightarrow> au_status (auth s) \<in> {AuthStatusEmpty, AuthStatusReady, AuthStatusInvalid} \<and>
     (au_status (auth s) = AuthStatusReady \<longrightarrow> jar s ''SESSDATA'' \<noteq> [])"

lemma loginGate_frame:
  "loginGate env s = (s', e) \<Longrightarrow> jar s' = jar s \<and> auth s' = auth s \<and> requests s' = requests s \<and> ticks s' = ticks s \<and> crashed s' = crashed s"
  by (auto simp: loginGate_def Let_def armReLoginCooldown_def split: if_splits sum.splits)

interpretation sess: bili_inv env session_ok for env
proof
  fix s s' m u f r assume "session_ok s" "doBili env m u f s = (s', r)"
  then show "session_ok s'" using doBili_frame[of env m u f s s' r] by (auto simp: session_ok_def)
next
  fix s s' e assume "session_ok s" "loginGate env s = (s', e)"
  then show "session_ok s'" using loginGate_frame[of env s s' e] by (auto simp: session_ok_def)
qed (auto simp: session_ok_def setStatus_def status_defs)

definition run_ticks :: "biliEnv \<Rightarrow> biliTick list \<Rightarrow> biliLoops \<Rightarrow> biliLoops" where
  "run_ticks env ts w = foldl (\<lambda>w t. tick_step env t w) w ts"

text \<open>C22: from the start of the process on, whatever the network answers and in whatever order the loops tick, the status of the session is one of the three, and it is \<open>ready\<close> only while there is a session cookie.\<close>

theorem session_invariant:
  assumes "au_status (auth s) = AuthStatusEmpty"
  shows "session_ok (lp_bili (run_ticks env ts (startLoops env s stored)))"
proof -
  have "session_ok s" using assms by (simp add: session_ok_def status_defs)
  then have "session_ok (lp_bili (startLoops env s stored))" by (simp add: startLoops_def sess.ensureWarmup)
  then show ?thesis unfolding run_ticks_def by (rule sess.run)
qed

lemma session_invariant_witness:
  "session_ok (lp_bili (run_ticks nav_service [HotTick, AuthTick] (startLoops nav_service fresh_bili None)))"
  by (rule session_invariant) (simp add: fresh_bili_def AuthStatusEmpty_def)

section \<open>The quiet time of the login page\<close>

definition quiet :: "biliEnv \<Rightarrow> time \<Rightarrow> time list \<Rightarrow> bili \<Rightarrow> bool" where
  "quiet env t0 us s \<longleftrightarrow> (mono (be_clock env) \<longrightarrow> bili_now env s < t0 + minutes 5 \<longrightarrow>
     reLoginAt s = t0 + minutes 5 \<and> loginUIs s = us)"

lemma quiet_later:
  "quiet env t0 us s \<Longrightarrow> bili_ix s \<le> bili_ix t \<Longrightarrow> reLoginAt t = reLoginAt s \<Longrightarrow> loginUIs t = loginUIs s \<Longrightarrow> quiet env t0 us t"
  using monoD[of "be_clock env" "bili_ix s" "bili_ix t"] by (auto simp: quiet_def bili_now_def)

lemma loginGate_cooling: "bili_now env s < reLoginAt s \<Longrightarrow> fst (loginGate env s) = s"
  using time_sub_greater_iff[of 0 "reLoginAt s" "bili_now env s"]
  by (simp add: loginGate_def Let_def loginCooldownLeft_def max_i64_def min_i64_def)

interpretation cool: bili_inv env "quiet env t0 us" for env t0 us
proof
  fix s s' m u f r assume "quiet env t0 us s" "doBili env m u f s = (s', r)"
  then show "quiet env t0 us s'"
    using doBili_frame[of env m u f s s' r] doBili_requests[of env m u f s s' r]
    by (auto simp: bili_ix_def intro: quiet_later)
next
  fix s s' e assume q: "quiet env t0 us s" and g: "loginGate env s = (s', e)"
  have "bili_now env s' = bili_now env s" using loginGate_frame[OF g] by (simp add: bili_now_def bili_ix_def)
  then show "quiet env t0 us s'"
    using q g loginGate_cooling[of env s] by (auto simp: quiet_def)
qed (auto simp: setStatus_def bili_ix_def elim: quiet_later)

text \<open>C26: after the login page failed to start, no tick of any loop tries to start it again for five minutes, whatever happens in between.\<close>

theorem login_page_cooldown:
  assumes "mono (be_clock env)"
    and "loginCooldownLeft (bili_now env s) s = 0" "be_loginUI env (length (loginUIs s)) = Inl e"
    and "lp_bili w = fst (loginGate env s)"
    and "bili_now env (lp_bili (run_ticks env ts w)) < bili_now env s + minutes 5"
  shows "loginUIs (lp_bili (run_ticks env ts w)) = loginUIs s @ [bili_now env s]"
proof -
  have "quiet env (bili_now env s) (loginUIs s @ [bili_now env s]) (lp_bili w)"
    using assms(2-4) by (simp add: quiet_def loginGate_def Let_def armReLoginCooldown_def)
  from cool.run[OF this, of ts] show ?thesis using assms(1,5) by (simp add: quiet_def run_ticks_def)
qed

definition no_page :: biliEnv where
  "no_page = nav_service\<lparr>be_loginUI := (\<lambda>_. Inl ''listen''), be_clock := int\<rparr>"

lemma login_page_cooldown_witness:
  "loginUIs (lp_bili (run_ticks no_page [IdleTick] ((startLoops no_page fresh_bili None)\<lparr>lp_bili := fst (loginGate no_page fresh_bili)\<rparr>))) = [0]"
proof -
  let ?w = "(startLoops no_page fresh_bili None)\<lparr>lp_bili := fst (loginGate no_page fresh_bili)\<rparr>"
  have now: "bili_now no_page s = int (bili_ix s)" for s by (simp add: bili_now_def no_page_def nav_service_def)
  have c: "loginCooldownLeft (bili_now no_page fresh_bili) fresh_bili = 0"
    by (simp add: loginCooldownLeft_def time_sub_def now fresh_bili_def bili_ix_def max_i64_def min_i64_def)
  have f: "loginUIs fresh_bili = []" "bili_now no_page fresh_bili = 0" by (simp_all add: now fresh_bili_def bili_ix_def)
  have e: "be_loginUI no_page (length (loginUIs fresh_bili)) = Inl ''listen''" by (simp add: no_page_def)
  have "crashed (fst (loginGate no_page fresh_bili)) = False"
    using loginGate_frame[of no_page fresh_bili] by (cases "loginGate no_page fresh_bili") (simp add: fresh_bili_def)
  then have "lp_bili (run_ticks no_page [IdleTick] ?w) = wait (fst (loginGate no_page fresh_bili))"
    by (simp add: run_ticks_def tick_step_def Let_def)
  moreover have "bili_ix (wait (fst (loginGate no_page fresh_bili))) = 1"
    using loginGate_frame[of no_page fresh_bili "fst (loginGate no_page fresh_bili)" "snd (loginGate no_page fresh_bili)"]
    by (simp add: bili_ix_def wait_def) (simp add: fresh_bili_def)
  ultimately have "bili_now no_page (lp_bili (run_ticks no_page [IdleTick] ?w)) < bili_now no_page fresh_bili + minutes 5"
    by (simp add: now minutes_def fresh_bili_def bili_ix_def)
  moreover have "mono (be_clock no_page)" by (simp add: no_page_def mono_def)
  ultimately show ?thesis
    using login_page_cooldown[of no_page fresh_bili "''listen''" ?w "[IdleTick]", OF _ c e _ _] f by simp
qed

section \<open>One file, three states\<close>

text \<open>The loop of the hot board and the notifications leaves the map of the follow feed alone.\<close>

lemma hotRound_feed: "hotRound env st s = (st', s', n) \<Longrightarrow> bs_FollowFeed st' = bs_FollowFeed st"
  by (auto simp: hotRound_def split: prod.splits sum.splits)

lemma notifyRound_feed: "notifyRound env v st s = (v', st', s', n) \<Longrightarrow> bs_FollowFeed st' = bs_FollowFeed st"
  by (auto simp: notifyRound_def Let_def split: prod.splits sum.splits if_splits)

lemma gated_hot_feed: "runAuthRound env (plain_round hotRound env) st s = (st', s') \<Longrightarrow> bs_FollowFeed st' = bs_FollowFeed st"
  by (auto simp: runAuthRound_def plain_round_def split: prod.splits option.splits dest: hotRound_feed)

lemma gated_notify_feed:
  "runAuthRound env (\<lambda>(v, st) s. case notifyRound env v st s of (v1, st1, s1, n) \<Rightarrow> ((v1, st1), s1)) (v, st) s = ((v', st'), s')
     \<Longrightarrow> bs_FollowFeed st' = bs_FollowFeed st"
  by (auto simp: runAuthRound_def split: prod.splits option.splits dest: notifyRound_feed)

lemma tick_hot_feed: "set (bs_FollowFeed (lp_hot (tick_step env t w))) \<subseteq> set (bs_FollowFeed (lp_hot w))"
proof -
  obtain st1 s1 where r: "runAuthRound env (plain_round hotRound env) (lp_hot w) (lp_bili w) = (st1, s1)" by fastforce
  obtain v2 st2 s2 where n: "runAuthRound env (\<lambda>(v, st) s. case notifyRound env v st s of (v1, st1, s1, n) \<Rightarrow> ((v1, st1), s1))
      (lp_vars w, lp_hot w) (lp_bili w) = ((v2, st2), s2)" by (metis prod.collapse)
  note f = gated_hot_feed[OF r] gated_notify_feed[OF n]
  show ?thesis
  proof (cases t)
    case HotTick
    then show ?thesis by (simp add: tick_step_def Let_def r saveState_def pruneState_def set_prune flip: f(1))
  next
    case NotifyTick
    then show ?thesis by (simp add: tick_step_def Let_def n saveState_def pruneState_def set_prune flip: f(2))
  qed (auto simp: tick_step_def Let_def split: prod.splits)
qed

lemma run_hot_feed: "set (bs_FollowFeed (lp_hot (run_ticks env ts w))) \<subseteq> set (bs_FollowFeed (lp_hot w))"
proof (induction ts arbitrary: w)
  case (Cons t ts)
  have "set (bs_FollowFeed (lp_hot (run_ticks env ts (tick_step env t w)))) \<subseteq> set (bs_FollowFeed (lp_hot w))"
    by (rule order.trans[OF Cons tick_hot_feed])
  then show ?case by (simp add: run_ticks_def)
qed (simp add: run_ticks_def)

text \<open>C28: the loops write one file from states of their own: after any ticks, a tick of the hot board leaves in the file, of the follow feed, only entries that were there when the process started. What the feed loop has published since is not in the file, so a restart publishes it again.\<close>

theorem state_file_loses_feed:
  assumes "\<not> crashed (lp_bili (run_ticks env (ts @ [HotTick]) (startLoops env s stored)))" "\<And>i. be_writes env i"
  shows "\<exists>st. lp_file (run_ticks env (ts @ [HotTick]) (startLoops env s stored)) = Some st \<and>
    set (bs_FollowFeed st) \<subseteq> set (bs_FollowFeed (loadState stored))"
proof -
  let ?w = "run_ticks env ts (startLoops env s stored)"
  have run: "run_ticks env (ts @ [HotTick]) (startLoops env s stored) = tick_step env HotTick ?w" by (simp add: run_ticks_def)
  obtain st1 s1 where r: "runAuthRound env (plain_round hotRound env) (lp_hot ?w) (lp_bili ?w) = (st1, s1)" by fastforce
  have nc: "\<not> crashed (lp_bili ?w)" "\<not> crashed s1"
    using assms(1) unfolding run by (auto simp: tick_step_def Let_def r split: if_splits)
  have "lp_file (tick_step env HotTick ?w) = Some (pruneState (bili_now env s1) st1)"
    using nc assms(2) by (simp add: tick_step_def Let_def r saveState_def)
  moreover have "set (bs_FollowFeed (pruneState (bili_now env s1) st1)) \<subseteq> set (bs_FollowFeed (loadState stored))"
  proof -
    have "set (bs_FollowFeed st1) \<subseteq> set (bs_FollowFeed (loadState stored))"
      using gated_hot_feed[OF r] run_hot_feed[of env ts "startLoops env s stored"] by (simp add: startLoops_def)
    then show ?thesis using set_prune[of "bili_now env s1" "bs_FollowFeed st1"] by (simp add: pruneState_def)
  qed
  ultimately show ?thesis unfolding run by blast
qed

lemma state_file_loses_feed_witness:
  "\<exists>st. lp_file (run_ticks no_page ([] @ [HotTick]) (startLoops no_page (fresh_bili\<lparr>backoffUntil := 9, warm := True\<rparr>) None)) = Some st
     \<and> bs_FollowFeed st = []"
proof -
  have "\<not> crashed (lp_bili (run_ticks no_page ([] @ [HotTick]) (startLoops no_page (fresh_bili\<lparr>backoffUntil := 9, warm := True\<rparr>) None)))"
    by (simp add: run_ticks_def tick_step_def Let_def runAuthRound_def ensureSession_def rateLimited_def startLoops_def ensureWarmup_def
          fresh_bili_def bili_now_def bili_ix_def no_page_def nav_service_def biliPushError_def saveState_def)
  then show ?thesis
    using state_file_loses_feed[of no_page "[]" "fresh_bili\<lparr>backoffUntil := 9, warm := True\<rparr>" None]
    by (auto simp: no_page_def nav_service_def loadState_def newBiliState_def)
qed

end
