(* ===== verification/Irccloud.thy ===== *)
theory Irccloud
  imports Unimessage "HOL-Library.AList"
begin

text \<open>
  The IRCCloud bridge, \<open>src/fbprotocols/irccloud/\<close>: the client of \<open>irccloudapi.go\<close> and the stream of
  \<open>irccloud.go\<close>. The network is the environment: \<open>ic_net n\<close> answers the \<open>n\<close>-th request with a status and
  a body, and the body of a stream is everything the server sends until the connection ends.
  \<open>ic_json\<close> parses a JSON text, \<open>ic_now\<close> is the time at the \<open>n\<close>-th request, and \<open>ic_order\<close> the order in
  which the keys of a map are visited. The maps of the state are association lists. Log lines and what
  is decoded only for them, the header that repeats the form token, and the text of a decoding error are
  left out.
\<close>

section \<open>Requests\<close>

record ircReq =
  iq_method :: string
  iq_url :: string
  iq_session :: string
  iq_form :: "(string \<times> string) list"

datatype ircAnswer = IrcNetError error | IrcAnswer nat string

record ircEnv =
  ic_net :: "nat \<Rightarrow> ircReq \<Rightarrow> ircAnswer"
  ic_json :: "string \<Rightarrow> json option"
  ic_now :: "nat \<Rightarrow> time"
  ic_order :: "nat \<Rightarrow> int list \<Rightarrow> int list"

record bufferInfo =
  bi_cid :: int
  bi_name :: string
  bi_bufType :: string
  bi_minEID :: int
  bi_deferred :: bool

datatype ircPub = IrcRaw string | IrcUM UnifiedMessage

text \<open>The state of the stream, with the client's base URL, the session key that \<open>Send\<close> uses, the ring of
  errors, and what was sent and handed to \<open>publish\<close>. \<open>cidMap\<close> is \<open>None\<close> for the nil map it is before the first
  header. \<open>irc_crashed\<close> is set by a panic, \<open>irc_deep\<close> when the nesting bound given to the model is passed.\<close>

record irc =
  lastEID :: int
  streamID :: string
  sessionKey :: string
  cidMap :: "(int \<times> bool) list option"
  serverMap :: "(string \<times> int) list"
  pendingJoins :: "(int \<times> string list) list"
  serversChecked :: bool
  seenEIDs :: "(int \<times> int) list"
  bids :: "(int \<times> bufferInfo) list"
  backlogPages :: "int \<Rightarrow> nat"
  baseURL :: string
  ircSessionKey :: string
  irc_errs :: errRing
  irc_reqs :: "ircReq list"
  irc_pubs :: "ircPub list"
  irc_crashed :: bool
  irc_deep :: bool
  irc_running :: bool
  irc_reconns :: nat

definition irc_start :: irc where
  "irc_start = \<lparr>lastEID = 0, streamID = [], sessionKey = [], cidMap = None, serverMap = [], pendingJoins = [],
     serversChecked = False, seenEIDs = [], bids = [], backlogPages = (\<lambda>_. 0), baseURL = ''https://www.irccloud.com'',
     ircSessionKey = [], irc_errs = noErrs, irc_reqs = [], irc_pubs = [], irc_crashed = False, irc_deep = False,
     irc_running = False, irc_reconns = 0\<rparr>"

definition irc_send :: "ircEnv \<Rightarrow> ircReq \<Rightarrow> irc \<Rightarrow> irc \<times> ircAnswer" where
  "irc_send env rq w = (w\<lparr>irc_reqs := irc_reqs w @ [rq]\<rparr>, ic_net env (length (irc_reqs w)) rq)"

definition irc_pushError :: "error \<Rightarrow> irc \<Rightarrow> irc" where
  "irc_pushError e w = w\<lparr>irc_errs := ringPush e (irc_errs w)\<rparr>"

definition irc_panic :: "irc \<Rightarrow> irc" where
  "irc_panic w = w\<lparr>irc_crashed := True\<rparr>"

section \<open>The client\<close>

record tokenJSON =
  tj_Success :: bool
  tj_Text :: string

definition dec_token :: "string \<Rightarrow> tokenJSON decoder" where
  "dec_token name = dec_struct [(''success'', on tj_Success tj_Success_update dec_bool), (name, on tj_Text tj_Text_update dec_string)]"

text \<open>Both steps of the login post and read a text out of the answer; a status is not looked at.\<close>

definition login_step :: "ircEnv \<Rightarrow> string \<Rightarrow> string \<Rightarrow> (string \<times> string) list \<Rightarrow> irc \<Rightarrow> irc \<times> (error + string)" where
  "login_step env path name form w =
     (case irc_send env \<lparr>iq_method = ''POST'', iq_url = baseURL w @ path, iq_session = [], iq_form = form\<rparr> w of
        (w1, IrcNetError e) \<Rightarrow> (w1, Inl e)
      | (w1, IrcAnswer status body) \<Rightarrow>
          (w1, case unmarshal (dec_token name) \<lparr>tj_Success = False, tj_Text = []\<rparr> (ic_json env body) of
                 None \<Rightarrow> Inl (''decode: body='' @ body)
               | Some r \<Rightarrow> if tj_Success r then Inr (tj_Text r) else Inl (''failed: '' @ body)))"

definition getFormToken :: "ircEnv \<Rightarrow> irc \<Rightarrow> irc \<times> (error + string)" where
  "getFormToken env w = login_step env ''/chat/auth-formtoken'' ''token'' [] w"

definition doLogin :: "ircEnv \<Rightarrow> string \<Rightarrow> string \<Rightarrow> string \<Rightarrow> irc \<Rightarrow> irc \<times> (error + string)" where
  "doLogin env email password token w =
     login_step env ''/chat/login'' ''session'' [(''email'', email), (''password'', password), (''token'', token)] w"

definition authenticate :: "ircEnv \<Rightarrow> string \<Rightarrow> string \<Rightarrow> irc \<Rightarrow> irc \<times> (error + string)" where
  "authenticate env email password w =
     (case getFormToken env w of
        (w1, Inl e) \<Rightarrow> (w1, Inl (''formtoken: '' @ e))
      | (w1, Inr token) \<Rightarrow>
          (case doLogin env email password token w1 of
             (w2, Inl e) \<Rightarrow> (w2, Inl (''login: '' @ e))
           | (w2, Inr key) \<Rightarrow> (w2, Inr key)))"

definition authenticatedPost :: "ircEnv \<Rightarrow> string \<Rightarrow> string \<Rightarrow> (string \<times> string) list \<Rightarrow> irc \<Rightarrow> irc \<times> ircAnswer" where
  "authenticatedPost env path key form w =
     irc_send env \<lparr>iq_method = ''POST'', iq_url = baseURL w @ path, iq_session = key, iq_form = form @ [(''session'', key)]\<rparr> w"

text \<open>The calls that only look at the status: \<open>Join\<close>, \<open>Say\<close>, \<open>Nick\<close>, \<open>Whois\<close>, \<open>Heartbeat\<close>.\<close>

definition status_call :: "ircEnv \<Rightarrow> string \<Rightarrow> string \<Rightarrow> string \<Rightarrow> (string \<times> string) list \<Rightarrow> irc \<Rightarrow> irc \<times> error option" where
  "status_call env what path key form w =
     (case authenticatedPost env path key form w of
        (w1, IrcNetError e) \<Rightarrow> (w1, Some e)
      | (w1, IrcAnswer status body) \<Rightarrow>
          (w1, if status \<noteq> 200 then Some (what @ '' status '' @ show_nat status @ '': '' @ body) else None))"

definition irc_opt_field :: "string \<Rightarrow> string \<Rightarrow> (string \<times> string) list" where
  "irc_opt_field k v = (if v \<noteq> [] then [(k, v)] else [])"

definition irc_Join :: "ircEnv \<Rightarrow> string \<Rightarrow> int \<Rightarrow> string \<Rightarrow> string \<Rightarrow> irc \<Rightarrow> irc \<times> error option" where
  "irc_Join env key cid channel pass w =
     status_call env (''join '' @ channel) ''/chat/join'' key
       ([(''cid'', itoa cid), (''channel'', channel)] @ irc_opt_field ''key'' pass) w"

definition irc_Say :: "ircEnv \<Rightarrow> string \<Rightarrow> int \<Rightarrow> string \<Rightarrow> string \<Rightarrow> irc \<Rightarrow> irc \<times> error option" where
  "irc_Say env key cid dest msg w =
     status_call env ''say'' ''/chat/say'' key [(''cid'', itoa cid), (''to'', dest), (''msg'', msg)] w"

definition irc_Nick :: "ircEnv \<Rightarrow> string \<Rightarrow> int \<Rightarrow> string \<Rightarrow> irc \<Rightarrow> irc \<times> error option" where
  "irc_Nick env key cid nick w = status_call env ''nick'' ''/chat/nick'' key [(''cid'', itoa cid), (''nick'', nick)] w"

definition irc_Whois :: "ircEnv \<Rightarrow> string \<Rightarrow> int \<Rightarrow> string \<Rightarrow> string \<Rightarrow> irc \<Rightarrow> irc \<times> error option" where
  "irc_Whois env key cid nick server w =
     status_call env ''whois'' ''/chat/whois'' key ([(''cid'', itoa cid), (''nick'', nick)] @ irc_opt_field ''server'' server) w"

definition irc_Heartbeat :: "ircEnv \<Rightarrow> string \<Rightarrow> int \<Rightarrow> string \<Rightarrow> irc \<Rightarrow> irc \<times> error option" where
  "irc_Heartbeat env key bid seenJSON w =
     status_call env ''heartbeat'' ''/chat/heartbeat'' key [(''selectedBuffer'', itoa bid), (''seenEids'', seenJSON)] w"

text \<open>The calls that may send the client to another shard.\<close>

datatype ircError = ShardRedirect string string | PlainError error

record shardJSON =
  sj_Success :: bool
  sj_Message :: string
  sj_APIHost :: string
  sj_Cookie :: string

definition zeroShard :: shardJSON where
  "zeroShard = \<lparr>sj_Success = False, sj_Message = [], sj_APIHost = [], sj_Cookie = []\<rparr>"

definition dec_shard :: "shardJSON decoder" where
  "dec_shard = dec_struct
     [(''success'', on sj_Success sj_Success_update dec_bool), (''message'', on sj_Message sj_Message_update dec_string),
      (''api_host'', on sj_APIHost sj_APIHost_update dec_string), (''cookie'', on sj_Cookie sj_Cookie_update dec_string)]"

definition redirect_of :: "ircEnv \<Rightarrow> string \<Rightarrow> ircError option" where
  "redirect_of env body =
     (case unmarshal dec_shard zeroShard (ic_json env body) of
        None \<Rightarrow> None
      | Some sh \<Rightarrow> if sj_Message sh = ''set_shard'' \<and> sj_APIHost sh \<noteq> [] then Some (ShardRedirect (sj_APIHost sh) (sj_Cookie sh)) else None)"

record cidJSON =
  cj_Success :: bool
  cj_CID :: int

definition dec_cid :: "cidJSON decoder" where
  "dec_cid = dec_struct [(''success'', on cj_Success cj_Success_update dec_bool), (''cid'', on cj_CID cj_CID_update dec_int)]"

definition server_call :: "ircEnv \<Rightarrow> string \<Rightarrow> string \<Rightarrow> string \<Rightarrow> (string \<times> string) list \<Rightarrow> irc \<Rightarrow> irc \<times> (ircError + int)" where
  "server_call env what path key form w =
     (case authenticatedPost env path key form w of
        (w1, IrcNetError e) \<Rightarrow> (w1, Inl (PlainError e))
      | (w1, IrcAnswer status body) \<Rightarrow>
          (w1, case redirect_of env body of
                 Some sh \<Rightarrow> Inl sh
               | None \<Rightarrow>
                   (case unmarshal dec_cid \<lparr>cj_Success = False, cj_CID = 0\<rparr> (ic_json env body) of
                      None \<Rightarrow> Inl (PlainError (what @ '' decode: body='' @ body))
                    | Some r \<Rightarrow> if cj_Success r then Inr (cj_CID r) else Inl (PlainError (what @ '' failed: '' @ body)))))"

record ServerParams =
  sp_Hostname :: string
  sp_Port :: int
  sp_SSL :: bool
  sp_Netname :: string
  sp_Nickname :: string
  sp_Realname :: string
  sp_ServerPass :: string
  sp_NSPass :: string
  sp_JoinCommands :: string
  sp_Channels :: string

definition addServer :: "ircEnv \<Rightarrow> string \<Rightarrow> ServerParams \<Rightarrow> irc \<Rightarrow> irc \<times> (ircError + int)" where
  "addServer env key p w =
     server_call env ''add-server'' ''/chat/add-server'' key
       ([(''hostname'', sp_Hostname p), (''port'', itoa (sp_Port p))] @ (if sp_SSL p then [(''ssl'', ''1'')] else [])
        @ irc_opt_field ''netname'' (sp_Netname p) @ [(''nickname'', sp_Nickname p)] @ irc_opt_field ''realname'' (sp_Realname p)
        @ irc_opt_field ''server_pass'' (sp_ServerPass p) @ irc_opt_field ''nspass'' (sp_NSPass p)
        @ irc_opt_field ''joincommands'' (sp_JoinCommands p) @ irc_opt_field ''channels'' (sp_Channels p)) w"

definition addDefaultServer :: "ircEnv \<Rightarrow> string \<Rightarrow> string \<Rightarrow> string \<Rightarrow> irc \<Rightarrow> irc \<times> (ircError + int)" where
  "addDefaultServer env key nick real w =
     server_call env ''add-default-server'' ''/chat/add-default-server'' key [(''nickname'', nick), (''realname'', real)] w"

section \<open>Streams\<close>

text \<open>The lines of a stream as the scanner gives them: it stops at a line of a megabyte.\<close>

definition stream_lines :: "string \<Rightarrow> string list" where
  "stream_lines body =
     filter (\<lambda>l. l \<noteq> []) (map trim_space (takeWhile (\<lambda>l. length l < 1048576) (split_on (CHR 0x0A) body)))"

definition connectStream :: "ircEnv \<Rightarrow> string \<Rightarrow> string \<Rightarrow> string \<Rightarrow> irc \<Rightarrow> irc \<times> (ircError + string list)" where
  "connectStream env key sinceID sid w =
     (let form = (if sid \<noteq> [] then [(''since_id'', sinceID), (''stream_id'', sid)] else []) in
      case irc_send env \<lparr>iq_method = ''GET'', iq_url = baseURL w @ ''/chat/stream'', iq_session = key, iq_form = form\<rparr> w of
        (w1, IrcNetError e) \<Rightarrow> (w1, Inl (PlainError e))
      | (w1, IrcAnswer status body) \<Rightarrow>
          (w1,
           if status = 403 then
             (case redirect_of env body of
                Some sh \<Rightarrow> Inl sh
              | None \<Rightarrow> Inl (PlainError (''stream 403: '' @ body)))
           else if status \<noteq> 200 then Inl (PlainError (''stream '' @ show_nat status @ '': '' @ body))
           else Inr (stream_lines body)))"

definition fetchOOB :: "ircEnv \<Rightarrow> string \<Rightarrow> string \<Rightarrow> irc \<Rightarrow> irc \<times> (error + string list)" where
  "fetchOOB env key u w =
     (let full = (if has_prefix u ''/'' then baseURL w @ u else u) in
      case irc_send env \<lparr>iq_method = ''GET'', iq_url = full, iq_session = key, iq_form = []\<rparr> w of
        (w1, IrcNetError e) \<Rightarrow> (w1, Inl e)
      | (w1, IrcAnswer status body) \<Rightarrow>
          (w1, if status \<noteq> 200 then Inl (''OOB '' @ show_nat status @ '': '' @ body) else Inr (stream_lines body)))"

definition backlog_request :: "string \<Rightarrow> string \<Rightarrow> int \<Rightarrow> int \<Rightarrow> int \<Rightarrow> int \<Rightarrow> ircReq" where
  "backlog_request base key cid bid num beforeID =
     \<lparr>iq_method = ''GET'', iq_url = base @ ''/chat/backlog'', iq_session = key,
      iq_form = [(''cid'', itoa cid), (''bid'', itoa bid)] @ (if 0 < num then [(''num'', itoa num)] else [])
        @ (if 0 < beforeID then [(''beforeid'', itoa beforeID)] else [])\<rparr>"

definition irc_Backlog :: "ircEnv \<Rightarrow> string \<Rightarrow> int \<Rightarrow> int \<Rightarrow> int \<Rightarrow> int \<Rightarrow> irc \<Rightarrow> irc \<times> (error + string list)" where
  "irc_Backlog env key cid bid num beforeID w =
     (case irc_send env (backlog_request (baseURL w) key cid bid num beforeID) w of
        (w1, IrcNetError e) \<Rightarrow> (w1, Inl e)
      | (w1, IrcAnswer status body) \<Rightarrow>
          (w1, if status \<noteq> 200 then Inl (''backlog '' @ show_nat status @ '': '' @ body) else Inr (stream_lines body)))"

section \<open>Settings\<close>

record ServerCfg =
  sc_Hostname :: string
  sc_Port :: int
  sc_SSL :: bool
  sc_Netname :: string
  sc_Nickname :: string
  sc_Realname :: string
  sc_Channels :: "string list"

record AppConfig =
  ac_Email :: string
  ac_Password :: string
  ac_Servers :: "ServerCfg list"
  ac_Channels :: "string list"

definition zeroServerCfg :: ServerCfg where
  "zeroServerCfg = \<lparr>sc_Hostname = [], sc_Port = 0, sc_SSL = False, sc_Netname = [], sc_Nickname = [], sc_Realname = [], sc_Channels = []\<rparr>"

definition dec_serverCfg :: "ServerCfg decoder" where
  "dec_serverCfg = dec_struct
     [(''hostname'', on sc_Hostname sc_Hostname_update dec_string), (''port'', on sc_Port sc_Port_update dec_int),
      (''ssl'', on sc_SSL sc_SSL_update dec_bool), (''netname'', on sc_Netname sc_Netname_update dec_string),
      (''nickname'', on sc_Nickname sc_Nickname_update dec_string), (''realname'', on sc_Realname sc_Realname_update dec_string),
      (''channels'', on sc_Channels sc_Channels_update (dec_list [] dec_string))]"

definition zeroAppConfig :: AppConfig where
  "zeroAppConfig = \<lparr>ac_Email = [], ac_Password = [], ac_Servers = [], ac_Channels = []\<rparr>"

definition dec_appConfig :: "AppConfig decoder" where
  "dec_appConfig = dec_struct
     [(''email'', on ac_Email ac_Email_update dec_string), (''password'', on ac_Password ac_Password_update dec_string),
      (''servers'', on ac_Servers ac_Servers_update (dec_list zeroServerCfg dec_serverCfg)),
      (''channels'', on ac_Channels ac_Channels_update (dec_list [] dec_string))]"

text \<open>\<open>user\<close> and \<open>pass\<close> are the values of the environment variables.\<close>

definition parseColonInfo :: "string \<Rightarrow> AppConfig \<Rightarrow> AppConfig" where
  "parseColonInfo info cfg =
     (if CHR '':'' \<notin> set info then cfg
      else
        (let email = takeWhile (\<lambda>c. c \<noteq> CHR '':'') info; rest = tl (dropWhile (\<lambda>c. c \<noteq> CHR '':'') info);
             cfg1 = cfg\<lparr>ac_Email := email\<rparr>
         in if CHR '','' \<in> set rest
            then cfg1\<lparr>ac_Password := takeWhile (\<lambda>c. c \<noteq> CHR '','') rest,
                      ac_Channels := filter (\<lambda>c. c \<noteq> []) (map trim_space (split_on CHR '','' (tl (dropWhile (\<lambda>c. c \<noteq> CHR '','') rest))))\<rparr>
            else cfg1\<lparr>ac_Password := rest\<rparr>))"

definition parseAppConfig :: "(string \<Rightarrow> json option) \<Rightarrow> string \<Rightarrow> string \<Rightarrow> string \<Rightarrow> AppConfig" where
  "parseAppConfig json user pass info =
     (let cfg = zeroAppConfig\<lparr>ac_Email := user, ac_Password := pass\<rparr> in
      if info = [] then cfg
      else case (if hd info = CHR ''{'' then unmarshal dec_appConfig zeroAppConfig (json info) else None) of
        Some ac \<Rightarrow>
          (let cfg1 = (if ac_Email ac \<noteq> [] then cfg\<lparr>ac_Email := ac_Email ac\<rparr> else cfg);
               cfg2 = (if ac_Password ac \<noteq> [] then cfg1\<lparr>ac_Password := ac_Password ac\<rparr> else cfg1)
           in if ac_Channels ac \<noteq> [] then cfg2\<lparr>ac_Channels := ac_Channels ac\<rparr> else cfg2)
      | None \<Rightarrow> parseColonInfo info cfg)"

end
