(* ===== verification/Irccloud_Stream.thy ===== *)
theory Irccloud_Stream
  imports Irccloud
begin

text \<open>
  The stream of \<open>src/fbprotocols/irccloud/irccloud.go\<close>: what is seen, pages of backlog, joins, the check of
  the servers, \<open>processMessage\<close>, a round of \<open>poll_irccloud\<close>, and \<open>Send\<close>. A message may make the client read
  a list of further messages, which are processed inside it, so the model takes a bound on the nesting.
\<close>

section \<open>What is seen\<close>

definition ircMarkSeen :: "int \<Rightarrow> int \<Rightarrow> irc \<Rightarrow> irc \<times> bool" where
  "ircMarkSeen b e w =
     (if b = 0 \<or> e = 0 then (w, True)
      else if (b, e) \<in> set (seenEIDs w) then (w, False)
      else (w\<lparr>seenEIDs := (b, e) # seenEIDs w\<rparr>, True))"

definition irc_halted :: "irc \<Rightarrow> bool" where
  "irc_halted w \<longleftrightarrow> irc_crashed w \<or> irc_deep w"

section \<open>Servers and joins\<close>

definition cid_connected :: "irc \<Rightarrow> int \<Rightarrow> bool" where
  "cid_connected w cid \<longleftrightarrow> (case cidMap w of None \<Rightarrow> False | Some m \<Rightarrow> map_of m cid = Some True)"

text \<open>Writing to the nil map panics.\<close>

definition set_connected :: "int \<Rightarrow> bool \<Rightarrow> irc \<Rightarrow> irc" where
  "set_connected cid b w =
     (case cidMap w of None \<Rightarrow> irc_panic w | Some m \<Rightarrow> w\<lparr>cidMap := Some (AList.update cid b m)\<rparr>)"

definition connected_status :: "string \<Rightarrow> bool" where
  "connected_status s \<longleftrightarrow> s = ''connected_ready'' \<or> s = ''connected'' \<or> s = ''connected_joining''"

definition irc_joins :: "ircEnv \<Rightarrow> int \<Rightarrow> string list \<Rightarrow> irc \<Rightarrow> irc" where
  "irc_joins env cid chans w = foldl (\<lambda>w ch. fst (irc_Join env (sessionKey w) cid ch [] w)) w chans"

definition pending_for :: "irc \<Rightarrow> int \<Rightarrow> string list" where
  "pending_for w cid = (case map_of (pendingJoins w) cid of None \<Rightarrow> [] | Some chs \<Rightarrow> chs)"

definition ircFlushOne :: "ircEnv \<Rightarrow> irc \<Rightarrow> int \<Rightarrow> irc" where
  "ircFlushOne env w cid =
     (if cid_connected w cid then
        (let w1 = irc_joins env cid (pending_for w cid) w
         in w1\<lparr>pendingJoins := AList.delete cid (pendingJoins w1)\<rparr>)
      else w)"

definition ircFlushPendingJoins :: "ircEnv \<Rightarrow> irc \<Rightarrow> irc" where
  "ircFlushPendingJoins env w =
     foldl (ircFlushOne env) w (ic_order env (length (irc_reqs w)) (map fst (pendingJoins w)))"

definition ircError_text :: "ircError \<Rightarrow> error" where
  "ircError_text e = (case e of ShardRedirect h c \<Rightarrow> ''redirect to shard '' @ h | PlainError t \<Rightarrow> t)"

text \<open>A call that is repeated once on the shard it is sent to. The flag says that it was.\<close>

definition follow_shard :: "(string \<Rightarrow> irc \<Rightarrow> irc \<times> (ircError + int)) \<Rightarrow> irc \<Rightarrow> irc \<times> (ircError + int) \<times> bool" where
  "follow_shard call w =
     (case call (sessionKey w) w of
        (w1, Inl (ShardRedirect host cookie)) \<Rightarrow>
          (case call cookie (w1\<lparr>baseURL := host, sessionKey := cookie\<rparr>) of (w2, r) \<Rightarrow> (w2, r, True))
      | (w1, r) \<Rightarrow> (w1, r, False))"

definition or_default :: "string \<Rightarrow> string \<Rightarrow> string" where
  "or_default s d = (if s = [] then d else s)"

definition server_params :: "ServerCfg \<Rightarrow> ServerParams" where
  "server_params s =
     (let nick = or_default (sc_Nickname s) ''fedlet'' in
      \<lparr>sp_Hostname = sc_Hostname s, sp_Port = (if sc_Port s = 0 then 6697 else sc_Port s),
       sp_SSL = (if sc_Port s = 0 then True else sc_SSL s), sp_Netname = or_default (sc_Netname s) (sc_Hostname s),
       sp_Nickname = nick, sp_Realname = or_default (sc_Realname s) nick,
       sp_ServerPass = [], sp_NSPass = [], sp_JoinCommands = [], sp_Channels = []\<rparr>)"

definition libera :: ServerParams where
  "libera = \<lparr>sp_Hostname = ''irc.libera.chat'', sp_Port = 6697, sp_SSL = True, sp_Netname = ''Libera.Chat'',
     sp_Nickname = ''fedlet'', sp_Realname = ''fedlet'', sp_ServerPass = [], sp_NSPass = [], sp_JoinCommands = [], sp_Channels = []\<rparr>"

definition checkServer :: "ircEnv \<Rightarrow> irc \<Rightarrow> ServerCfg \<Rightarrow> irc" where
  "checkServer env w s =
     (case map_of (serverMap w) (sc_Hostname s) of
        Some cid \<Rightarrow>
          if cid_connected w cid then irc_joins env cid (sc_Channels s) w
          else w\<lparr>pendingJoins := AList.update cid (pending_for w cid @ sc_Channels s) (pendingJoins w)\<rparr>
      | None \<Rightarrow>
          (case follow_shard (\<lambda>key. addServer env key (server_params s)) w of
             (w1, Inl e, _) \<Rightarrow> irc_pushError (ircError_text e) w1
           | (w1, Inr cid, _) \<Rightarrow>
               (let w2 = w1\<lparr>serverMap := AList.update (sc_Hostname s) cid (serverMap w1)\<rparr>
                in if sc_Channels s \<noteq> [] then w2\<lparr>pendingJoins := AList.update cid (sc_Channels s) (pendingJoins w2)\<rparr> else w2)))"

definition keep_joins :: "int \<Rightarrow> string list \<Rightarrow> irc \<Rightarrow> irc" where
  "keep_joins cid chans w = w\<lparr>pendingJoins := AList.update cid chans (pendingJoins w)\<rparr>"

definition addLibera :: "ircEnv \<Rightarrow> string list \<Rightarrow> irc \<Rightarrow> irc" where
  "addLibera env chans w =
     (case follow_shard (\<lambda>key. addServer env key libera) w of
        (w1, Inr cid, _) \<Rightarrow> keep_joins cid chans w1
      | (w1, Inl e, redirected) \<Rightarrow>
          if \<not> redirected \<and> contains_sub (ircError_text e) ''connecting_restricted'' then
            (case follow_shard (\<lambda>key. addDefaultServer env key ''fedlet'' ''fedlet'') w1 of
               (w2, Inr cid, _) \<Rightarrow> keep_joins cid chans w2
             | (w2, Inl e2, _) \<Rightarrow> irc_pushError (ircError_text e2) w2)
          else irc_pushError (ircError_text e) w1)"

definition connected_cid :: "ircEnv \<Rightarrow> irc \<Rightarrow> int option" where
  "connected_cid env w =
     (case cidMap w of
        None \<Rightarrow> None
      | Some m \<Rightarrow> List.find (cid_connected w) (ic_order env (length (irc_reqs w)) (map fst m)))"

definition ircCheckServers :: "ircEnv \<Rightarrow> AppConfig \<Rightarrow> irc \<Rightarrow> irc" where
  "ircCheckServers env cfg w =
     (if serversChecked w then w
      else
        (let w1 = w\<lparr>serversChecked := True\<rparr> in
         if ac_Servers cfg \<noteq> [] then foldl (checkServer env) w1 (ac_Servers cfg)
         else if ac_Channels cfg = [] then w1
         else case connected_cid env w1 of
           Some cid \<Rightarrow> irc_joins env cid (ac_Channels cfg) w1
         | None \<Rightarrow> addLibera env (ac_Channels cfg) w1))"

section \<open>The unified message\<close>

record ircMsgJSON =
  um_j_Type :: string
  um_j_CID :: int
  um_j_BID :: int
  um_j_EID :: int
  um_j_Chan :: string
  um_j_From :: string
  um_j_Nick :: string
  um_j_Msg :: string
  um_j_Self :: bool

definition zeroIrcMsg :: ircMsgJSON where
  "zeroIrcMsg = \<lparr>um_j_Type = [], um_j_CID = 0, um_j_BID = 0, um_j_EID = 0, um_j_Chan = [], um_j_From = [], um_j_Nick = [],
     um_j_Msg = [], um_j_Self = False\<rparr>"

definition dec_ircMsg :: "ircMsgJSON decoder" where
  "dec_ircMsg = dec_struct
     [(''type'', on um_j_Type um_j_Type_update dec_string), (''cid'', on um_j_CID um_j_CID_update dec_int),
      (''bid'', on um_j_BID um_j_BID_update dec_int), (''eid'', on um_j_EID um_j_EID_update dec_uint),
      (''chan'', on um_j_Chan um_j_Chan_update dec_string), (''from'', on um_j_From um_j_From_update dec_string),
      (''nick'', on um_j_Nick um_j_Nick_update dec_string), (''msg'', on um_j_Msg um_j_Msg_update dec_string),
      (''self'', on um_j_Self um_j_Self_update dec_bool)]"

definition ircChatID :: "int \<Rightarrow> string \<Rightarrow> string" where
  "ircChatID cid chan = (if cid \<noteq> 0 \<and> chan \<noteq> [] then itoa cid @ '':'' @ chan else [])"

definition irccloudMsgToUnified :: "(string \<Rightarrow> json option) \<Rightarrow> time \<Rightarrow> string \<Rightarrow> UnifiedMessage option" where
  "irccloudMsgToUnified parse now msg =
     (case unmarshal dec_ircMsg zeroIrcMsg (parse msg) of
        None \<Rightarrow> None
      | Some h \<Rightarrow>
          (let um = zeroUM\<lparr>um_Protocol := ProtoIRCCloud, um_MsgID := itoa (um_j_EID h), um_MsgType := um_j_Type h,
                      um_Timestamp := (if 0 < um_j_EID h then wrap64 (wrap64 (um_j_EID h) * 1000) else now),
                      um_Raw := parse msg, um_ChatID := ircChatID (um_j_CID h) (um_j_Chan h), um_ChatName := um_j_Chan h\<rparr>
           in if um_j_Type h \<in> {''buffer_msg'', ''buffer_me_msg'', ''notice''} then
                (if um_j_Self h then None
                 else Some (um\<lparr>um_Username := um_j_From h, um_UserID := um_j_From h, um_Text := um_j_Msg h, um_MsgFormat := FmtText,
                        um_MsgType := (if um_j_Type h = ''buffer_me_msg'' then ''action'' else um_j_Type h)\<rparr>))
              else if um_j_Type h = ''joined_channel'' then
                (if um_j_Self h then None
                 else Some (um\<lparr>um_Username := um_j_Nick h, um_UserID := um_j_Nick h, um_MsgType := MsgTypeJoin,
                        um_Text := um_j_Nick h @ '' joined'', um_MsgFormat := FmtText\<rparr>))
              else if um_j_Type h \<in> {''parted_channel'', ''kicked_channel'', ''quit''} then
                (if um_j_Self h then None
                 else Some (um\<lparr>um_Username := um_j_Nick h, um_UserID := um_j_Nick h, um_MsgType := MsgTypeLeave,
                        um_Text := um_j_Nick h @ '' left'', um_MsgFormat := FmtText\<rparr>))
              else None))"


section \<open>A message of the stream\<close>

record ircHead =
  ih_Type :: string
  ih_BID :: int
  ih_EID :: int

definition irc_head :: "ircEnv \<Rightarrow> string \<Rightarrow> ircHead" where
  "irc_head env msg =
     unmarshal_lax (dec_struct
       [(''type'', on ih_Type ih_Type_update dec_string), (''bid'', on ih_BID ih_BID_update dec_int),
        (''eid'', on ih_EID ih_EID_update dec_uint)])
       \<lparr>ih_Type = [], ih_BID = 0, ih_EID = 0\<rparr> (ic_json env msg)"

text \<open>One text of a message; a type error leaves it empty.\<close>

definition irc_text_of :: "ircEnv \<Rightarrow> string \<Rightarrow> string \<Rightarrow> string" where
  "irc_text_of env name msg = unmarshal_lax (dec_struct [(name, \<lambda>r j. dec_string r j)]) [] (ic_json env msg)"

record ircServerJSON =
  is_CID :: int
  is_Hostname :: string
  is_Status :: string

definition zeroIrcServer :: ircServerJSON where
  "zeroIrcServer = \<lparr>is_CID = 0, is_Hostname = [], is_Status = []\<rparr>"

definition dec_makeserver :: "ircServerJSON decoder" where
  "dec_makeserver = dec_struct
     [(''cid'', on is_CID is_CID_update dec_int), (''hostname'', on is_Hostname is_Hostname_update dec_string),
      (''status'', on is_Status is_Status_update dec_string)]"

definition dec_status_changed :: "ircServerJSON decoder" where
  "dec_status_changed = dec_struct
     [(''cid'', on is_CID is_CID_update dec_int), (''new_status'', on is_Status is_Status_update dec_string),
      (''fail_info'', checked None dec_raw)]"

record ircShardJSON =
  ish_APIHost :: string
  ish_WebsocketHost :: string
  ish_Cookie :: string

definition dec_set_shard :: "ircShardJSON decoder" where
  "dec_set_shard = dec_struct
     [(''api_host'', on ish_APIHost ish_APIHost_update dec_string),
      (''websocket_host'', on ish_WebsocketHost ish_WebsocketHost_update dec_string),
      (''cookie'', on ish_Cookie ish_Cookie_update dec_string)]"

record ircBufferJSON =
  ib_CID :: int
  ib_BID :: int
  ib_BufferType :: string
  ib_Name :: string
  ib_Deferred :: bool
  ib_Timeout :: bool
  ib_MinEID :: int

definition zeroIrcBuffer :: ircBufferJSON where
  "zeroIrcBuffer = \<lparr>ib_CID = 0, ib_BID = 0, ib_BufferType = [], ib_Name = [], ib_Deferred = False, ib_Timeout = False, ib_MinEID = 0\<rparr>"

definition dec_makebuffer :: "ircBufferJSON decoder" where
  "dec_makebuffer = dec_struct
     [(''cid'', on ib_CID ib_CID_update dec_int), (''bid'', on ib_BID ib_BID_update dec_int),
      (''buffer_type'', on ib_BufferType ib_BufferType_update dec_string), (''name'', on ib_Name ib_Name_update dec_string),
      (''deferred'', on ib_Deferred ib_Deferred_update dec_bool), (''timeout'', on ib_Timeout ib_Timeout_update dec_bool),
      (''min_eid'', on ib_MinEID ib_MinEID_update dec_uint)]"

text \<open>The lines of an answer, processed one after the other until something stops the program.\<close>

definition irc_each :: "(string \<Rightarrow> irc \<Rightarrow> irc) \<Rightarrow> string list \<Rightarrow> irc \<Rightarrow> irc" where
  "irc_each proc lines w = foldl (\<lambda>w l. if irc_halted w then w else proc l w) w lines"

definition earliest_eid :: "ircEnv \<Rightarrow> string list \<Rightarrow> int" where
  "earliest_eid env lines =
     foldl (\<lambda>e l. let x = ih_EID (irc_head env l) in if 0 < x \<and> (e = 0 \<or> x < e) then x else e) 0 lines"

definition maxBacklogPages :: nat where "maxBacklogPages = 5"

text \<open>\<open>pullBacklog\<close>: the loop counts a page up each time, so five turns are all it can make.\<close>

primrec pullPages :: "nat \<Rightarrow> ircEnv \<Rightarrow> (string \<Rightarrow> irc \<Rightarrow> irc) \<Rightarrow> int \<Rightarrow> int \<Rightarrow> int \<Rightarrow> int \<Rightarrow> irc \<Rightarrow> irc" where
  "pullPages 0 env proc cid b minEID before w = w"
| "pullPages (Suc n) env proc cid b minEID before w =
     (if maxBacklogPages \<le> backlogPages w b then w
      else
        (case irc_Backlog env (sessionKey w) cid b 50 before (w\<lparr>backlogPages := (backlogPages w)(b := Suc (backlogPages w b))\<rparr>) of
           (w1, Inl e) \<Rightarrow> w1
         | (w1, Inr lines) \<Rightarrow>
             (let w2 = irc_each proc lines w1; earliest = earliest_eid env lines
              in if irc_halted w2 \<or> lines = [] \<or> earliest = 0 \<or> earliest \<le> minEID then w2
                 else pullPages n env proc cid b minEID (wrap64 earliest) w2)))"

definition pullBacklog :: "ircEnv \<Rightarrow> (string \<Rightarrow> irc \<Rightarrow> irc) \<Rightarrow> int \<Rightarrow> int \<Rightarrow> int \<Rightarrow> irc \<Rightarrow> irc" where
  "pullBacklog env proc cid b minEID w = pullPages maxBacklogPages env proc cid b minEID 0 w"

definition server_status :: "ircEnv \<Rightarrow> AppConfig \<Rightarrow> int \<Rightarrow> string \<Rightarrow> irc \<Rightarrow> irc" where
  "server_status env cfg cid status w =
     (let w1 = set_connected cid (connected_status status) (ircCheckServers env cfg w)
      in if connected_status status \<and> \<not> irc_halted w1 then ircFlushPendingJoins env w1 else w1)"

definition handle_oob :: "ircEnv \<Rightarrow> (string \<Rightarrow> irc \<Rightarrow> irc) \<Rightarrow> string \<Rightarrow> irc \<Rightarrow> irc" where
  "handle_oob env proc url w =
     (if url = [] then w
      else case fetchOOB env (sessionKey w) url w of
        (w1, Inl e) \<Rightarrow> w1\<lparr>streamID := [], lastEID := 0\<rparr>
      | (w1, Inr lines) \<Rightarrow> irc_each proc lines w1)"

definition handle_set_shard :: "ircEnv \<Rightarrow> string \<Rightarrow> irc \<Rightarrow> irc" where
  "handle_set_shard env msg w =
     (let sh = unmarshal_lax dec_set_shard \<lparr>ish_APIHost = [], ish_WebsocketHost = [], ish_Cookie = []\<rparr> (ic_json env msg);
          w1 = (if ish_Cookie sh \<noteq> [] then w\<lparr>sessionKey := ish_Cookie sh\<rparr> else w);
          host = (if ish_APIHost sh = [] \<and> ish_WebsocketHost sh \<noteq> [] then ''https://'' @ ish_WebsocketHost sh else ish_APIHost sh)
      in if host \<noteq> [] then w1\<lparr>baseURL := host\<rparr> else w1)"

definition handle_makebuffer :: "ircEnv \<Rightarrow> (string \<Rightarrow> irc \<Rightarrow> irc) \<Rightarrow> string \<Rightarrow> irc \<Rightarrow> irc" where
  "handle_makebuffer env proc msg w =
     (case unmarshal dec_makebuffer zeroIrcBuffer (ic_json env msg) of
        None \<Rightarrow> w
      | Some mb \<Rightarrow>
          (let late = ib_Deferred mb \<or> ib_Timeout mb;
               w1 = w\<lparr>bids := AList.update (ib_BID mb)
                        \<lparr>bi_cid = ib_CID mb, bi_name = ib_Name mb, bi_bufType = ib_BufferType mb, bi_minEID = ib_MinEID mb, bi_deferred = late\<rparr> (bids w)\<rparr>
           in if late then pullBacklog env proc (ib_CID mb) (ib_BID mb) (ib_MinEID mb) w1 else w1))"

definition irc_dispatch :: "ircEnv \<Rightarrow> AppConfig \<Rightarrow> (string \<Rightarrow> irc \<Rightarrow> irc) \<Rightarrow> string \<Rightarrow> string \<Rightarrow> irc \<Rightarrow> irc" where
  "irc_dispatch env cfg proc type msg w =
     (if type = ''header'' then w\<lparr>streamID := irc_text_of env ''streamid'' msg, cidMap := Some [], serversChecked := False\<rparr>
      else if type = ''makeserver'' then
        (let srv = unmarshal_lax dec_makeserver zeroIrcServer (ic_json env msg)
         in server_status env cfg (is_CID srv) (is_Status srv) (w\<lparr>serverMap := AList.update (is_Hostname srv) (is_CID srv) (serverMap w)\<rparr>))
      else if type = ''status_changed'' then
        (let sc = unmarshal_lax dec_status_changed zeroIrcServer (ic_json env msg)
         in server_status env cfg (is_CID sc) (is_Status sc) w)
      else if type = ''oob_include'' then handle_oob env proc (irc_text_of env ''url'' msg) w
      else if type = ''backlog_complete'' \<or> type = ''idle'' then ircCheckServers env cfg w
      else if type = ''set_shard'' then handle_set_shard env msg w
      else if type = ''makebuffer'' then handle_makebuffer env proc msg w
      else w)"

definition irc_publish :: "ircPub \<Rightarrow> irc \<Rightarrow> irc" where
  "irc_publish v w = w\<lparr>irc_pubs := irc_pubs w @ [v]\<rparr>"

definition irc_forward :: "ircEnv \<Rightarrow> string \<Rightarrow> irc \<Rightarrow> irc" where
  "irc_forward env msg w =
     (let w1 = irc_publish (IrcRaw msg) w in
      case irccloudMsgToUnified (ic_json env) (ic_now env (length (irc_pubs w1))) msg of
        None \<Rightarrow> w1 | Some um \<Rightarrow> irc_publish (IrcUM um) w1)"

definition irc_step :: "ircEnv \<Rightarrow> AppConfig \<Rightarrow> (string \<Rightarrow> irc \<Rightarrow> irc) \<Rightarrow> string \<Rightarrow> irc \<Rightarrow> irc" where
  "irc_step env cfg proc msg w =
     (let h = irc_head env msg;
          w1 = (if lastEID w < ih_EID h then w\<lparr>lastEID := ih_EID h\<rparr> else w)
      in case ircMarkSeen (ih_BID h) (ih_EID h) w1 of
           (w2, False) \<Rightarrow> w2
         | (w2, True) \<Rightarrow>
             (let w3 = irc_dispatch env cfg proc (ih_Type h) msg w2
              in if irc_halted w3 then w3 else irc_forward env msg w3))"

primrec processMessage :: "nat \<Rightarrow> ircEnv \<Rightarrow> AppConfig \<Rightarrow> string \<Rightarrow> irc \<Rightarrow> irc" where
  "processMessage 0 env cfg msg w = w\<lparr>irc_deep := True\<rparr>"
| "processMessage (Suc n) env cfg msg w = irc_step env cfg (processMessage n env cfg) msg w"

section \<open>The loop\<close>

definition ircAuthRound :: "ircEnv \<Rightarrow> AppConfig \<Rightarrow> irc \<Rightarrow> irc \<times> bool" where
  "ircAuthRound env cfg w =
     (if sessionKey w = [] then
        (case authenticate env (ac_Email cfg) (ac_Password cfg) w of
           (w1, Inl e) \<Rightarrow> (irc_pushError e w1, False)
         | (w1, Inr sk) \<Rightarrow> (w1\<lparr>sessionKey := sk, ircSessionKey := sk\<rparr>, True))
      else (w, True))"

definition since_id :: "irc \<Rightarrow> string" where
  "since_id w = (if streamID w \<noteq> [] \<and> 0 < lastEID w then itoa (lastEID w) else [])"

definition ircRound :: "nat \<Rightarrow> ircEnv \<Rightarrow> AppConfig \<Rightarrow> irc \<Rightarrow> irc" where
  "ircRound n env cfg w =
     (case ircAuthRound env cfg w of
        (w1, False) \<Rightarrow> w1
      | (w1, True) \<Rightarrow>
          (case connectStream env (sessionKey w1) (since_id w1) (streamID w1) w1 of
             (w2, Inl (ShardRedirect host cookie)) \<Rightarrow> w2\<lparr>baseURL := host, sessionKey := cookie, ircSessionKey := cookie\<rparr>
           | (w2, Inl (PlainError e)) \<Rightarrow> (irc_pushError e w2)\<lparr>sessionKey := [], ircSessionKey := []\<rparr>
           | (w2, Inr lines) \<Rightarrow>
               (let w3 = irc_each (processMessage n env cfg) lines w2
                in if irc_halted w3 then w3 else w3\<lparr>irc_reconns := Suc (irc_reconns w3)\<rparr>)))"

definition ircRounds :: "nat \<Rightarrow> ircEnv \<Rightarrow> AppConfig \<Rightarrow> nat \<Rightarrow> irc \<Rightarrow> irc" where
  "ircRounds n env cfg k w = ((\<lambda>w. if irc_halted w then w else ircRound n env cfg w) ^^ k) w"

text \<open>\<open>poll_irccloud\<close> does nothing without an email address and a password.\<close>

definition ircPoll :: "nat \<Rightarrow> ircEnv \<Rightarrow> AppConfig \<Rightarrow> nat \<Rightarrow> irc" where
  "ircPoll n env cfg k = (if ac_Email cfg = [] \<or> ac_Password cfg = [] then irc_start else ircRounds n env cfg k (irc_start\<lparr>irc_running := True\<rparr>))"

section \<open>Sending\<close>

text \<open>\<open>up\<close>: whether a client was made. The errors leave out the quotes of \<open>%q\<close> and the error of \<open>Atoi\<close>.\<close>

definition irc_Send :: "ircEnv \<Rightarrow> bool \<Rightarrow> string \<Rightarrow> string \<Rightarrow> string \<Rightarrow> irc \<Rightarrow> irc \<times> error option" where
  "irc_Send env up to msg msgType w =
     (if to = [] \<or> msg = [] then (w, Some ''irccloud: empty to or message'')
      else if \<not> up then (w, Some ''irccloud: not connected'')
      else if ircSessionKey w = [] then (w, Some ''irccloud: no session key'')
      else if CHR '':'' \<notin> set to then (w, Some (''irccloud: invalid target '' @ to @ '' (need cid:channel)''))
      else case atoi (takeWhile (\<lambda>c. c \<noteq> CHR '':'') to) of
        None \<Rightarrow> (w, Some (''irccloud: invalid cid '' @ takeWhile (\<lambda>c. c \<noteq> CHR '':'') to))
      | Some cid \<Rightarrow>
          irc_Say env (ircSessionKey w) cid (tl (dropWhile (\<lambda>c. c \<noteq> CHR '':'') to))
            (if msgType = ''action'' \<and> \<not> has_prefix msg ''/'' then ''/me '' @ msg else msg) w)"

end
