(* ===== verification/Irccloud_Invariants.thy ===== *)
theory Irccloud_Invariants
  imports Irccloud_Stream
begin

text \<open>
  What every message of the IRCCloud stream keeps: the interface \<open>irc_growth\<close> collects what a relation between
  the states before and after must satisfy so that \<open>processMessage\<close> and the rounds respect it, whatever is
  nested in what. Its instances are the relation of messages published once and that of bounded backlog pages.
\<close>

section \<open>Steps that publish nothing, ask for no backlog and nest nothing\<close>

definition asked_pages :: "int \<Rightarrow> irc \<Rightarrow> nat" where
  "asked_pages b w = length (filter (\<lambda>rq. map_of (iq_form rq) ''bid'' = Some (itoa b)) (irc_reqs w))"

definition irc_quiet :: "irc \<Rightarrow> irc \<Rightarrow> bool" where
  "irc_quiet w w' \<longleftrightarrow> irc_pubs w' = irc_pubs w \<and> seenEIDs w' = seenEIDs w \<and> backlogPages w' = backlogPages w
     \<and> irc_deep w' = irc_deep w \<and> (\<forall>b. asked_pages b w' = asked_pages b w)"

lemma quiet_refl [simp, intro]: "irc_quiet w w"
  by (simp add: irc_quiet_def)

lemma quiet_trans [trans]: "irc_quiet u v \<Longrightarrow> irc_quiet v w \<Longrightarrow> irc_quiet u w"
  by (simp add: irc_quiet_def)

lemma quiet_foldl: "(\<And>w x. irc_quiet w (f w x)) \<Longrightarrow> irc_quiet w (foldl f w xs)"
  by (induction xs arbitrary: w) (auto intro: quiet_trans)

text \<open>Changing another field is quiet, and so is a request without a buffer number.\<close>

lemma quiet_frame:
  "irc_quiet w w' \<Longrightarrow> irc_pubs w'' = irc_pubs w' \<Longrightarrow> seenEIDs w'' = seenEIDs w' \<Longrightarrow> backlogPages w'' = backlogPages w'
    \<Longrightarrow> irc_reqs w'' = irc_reqs w' \<Longrightarrow> irc_deep w'' = irc_deep w' \<Longrightarrow> irc_quiet w w''"
  by (simp add: irc_quiet_def asked_pages_def)

lemma quiet_updates [simp]:
  "irc_quiet w (w'\<lparr>lastEID := i\<rparr>) = irc_quiet w w'" "irc_quiet w (w'\<lparr>streamID := t\<rparr>) = irc_quiet w w'"
  "irc_quiet w (w'\<lparr>cidMap := cm\<rparr>) = irc_quiet w w'" "irc_quiet w (w'\<lparr>serverMap := sm\<rparr>) = irc_quiet w w'"
  "irc_quiet w (w'\<lparr>bids := bm\<rparr>) = irc_quiet w w'" "irc_quiet w (w'\<lparr>serversChecked := c\<rparr>) = irc_quiet w w'"
  "irc_quiet w (w'\<lparr>sessionKey := t\<rparr>) = irc_quiet w w'" "irc_quiet w (w'\<lparr>baseURL := t\<rparr>) = irc_quiet w w'"
  "irc_quiet w (w'\<lparr>ircSessionKey := t\<rparr>) = irc_quiet w w'"
  "irc_quiet w (w'\<lparr>irc_reconns := n\<rparr>) = irc_quiet w w'"
  by (simp_all add: irc_quiet_def asked_pages_def)

lemma quiet_send:
  assumes "irc_send env rq w = (w1, a)" "map_of (iq_form rq) ''bid'' = None"
  shows "irc_quiet w w1"
  using assms by (auto simp: irc_send_def irc_quiet_def asked_pages_def)

lemma quiet_post:
  assumes "authenticatedPost env path key form w = (w1, a)" "map_of form ''bid'' = None"
  shows "irc_quiet w w1"
  using assms by (auto simp: authenticatedPost_def map_add_def dest!: quiet_send)

lemma quiet_status_call:
  assumes "status_call env what path key form w = (w1, r)" "map_of form ''bid'' = None"
  shows "irc_quiet w w1"
  using assms by (auto simp: status_call_def split: prod.splits ircAnswer.splits dest!: quiet_post)

lemma quiet_Join: "irc_quiet w (fst (irc_Join env key cid ch pass w))"
  by (cases "irc_Join env key cid ch pass w")
     (auto simp: irc_Join_def irc_opt_field_def split: if_splits dest!: quiet_status_call)

lemma quiet_server_call:
  assumes "server_call env what path key form w = (w1, r)" "map_of form ''bid'' = None"
  shows "irc_quiet w w1"
  using assms by (auto simp: server_call_def split: prod.splits ircAnswer.splits dest!: quiet_post)

lemma quiet_addServer: "addServer env key p w = (w1, r) \<Longrightarrow> irc_quiet w w1"
  by (auto simp: addServer_def irc_opt_field_def split: if_splits dest!: quiet_server_call)

lemma quiet_addDefaultServer: "addDefaultServer env key nick real w = (w1, r) \<Longrightarrow> irc_quiet w w1"
  by (auto simp: addDefaultServer_def dest!: quiet_server_call)

lemma quiet_joins: "irc_quiet w (irc_joins env cid chans w)"
  unfolding irc_joins_def by (rule quiet_foldl) (rule quiet_Join)

lemma quiet_FlushOne: "irc_quiet w (ircFlushOne env w cid)"
  by (auto simp: ircFlushOne_def Let_def intro: quiet_frame [OF quiet_joins])

lemma quiet_Flush: "irc_quiet w (ircFlushPendingJoins env w)"
  unfolding ircFlushPendingJoins_def by (rule quiet_foldl) (rule quiet_FlushOne)

lemma quiet_follow_shard:
  assumes call: "\<And>key w w1 r. call key w = (w1, r) \<Longrightarrow> irc_quiet w w1"
    and run: "follow_shard call w = (w2, r, b)"
  shows "irc_quiet w w2"
proof -
  obtain w1 r1 where 1: "call (sessionKey w) w = (w1, r1)" by fastforce
  have q: "irc_quiet w (w1\<lparr>baseURL := h, sessionKey := c\<rparr>)" for h c
    by (rule quiet_frame [OF call [OF 1]]) simp_all
  show ?thesis
    using run 1 call [OF 1] by (auto simp: follow_shard_def split: prod.splits sum.splits ircError.splits
        dest!: call intro: quiet_trans [OF q])
qed

lemma quiet_pushError: "irc_quiet w w' \<Longrightarrow> irc_quiet w (irc_pushError e w')"
  by (erule quiet_frame) (simp_all add: irc_pushError_def)

lemma quiet_pushError_upd [simp]: "irc_quiet w (irc_pushError e w') = irc_quiet w w'"
  by (simp add: irc_quiet_def asked_pages_def irc_pushError_def)

lemma quiet_keep_joins: "irc_quiet w w' \<Longrightarrow> irc_quiet w (keep_joins cid chans w')"
  by (erule quiet_frame) (simp_all add: keep_joins_def)

lemma quiet_checkServer: "irc_quiet w (checkServer env w s)"
proof (cases "map_of (serverMap w) (sc_Hostname s)")
  case (Some cid)
  then show ?thesis
    by (auto simp: checkServer_def quiet_joins intro: quiet_frame [OF quiet_refl])
next
  case None
  obtain w1 r b where 1: "follow_shard (\<lambda>key. addServer env key (server_params s)) w = (w1, r, b)"
    by (metis prod_cases3)
  have "irc_quiet w w1" by (rule quiet_follow_shard [OF quiet_addServer 1])
  then show ?thesis using None 1
    by (cases r) (auto simp: checkServer_def Let_def intro: quiet_pushError quiet_frame)
qed

lemma quiet_addLibera: "irc_quiet w (addLibera env chans w)"
proof -
  obtain w1 r b where 1: "follow_shard (\<lambda>key. addServer env key libera) w = (w1, r, b)"
    by (metis prod_cases3)
  obtain w2 r2 b2 where 2: "follow_shard (\<lambda>key. addDefaultServer env key ''fedlet'' ''fedlet'') w1 = (w2, r2, b2)"
    by (metis prod_cases3)
  have q1: "irc_quiet w w1" by (rule quiet_follow_shard [OF quiet_addServer 1])
  have "irc_quiet w w2" by (rule quiet_trans [OF q1]) (rule quiet_follow_shard [OF quiet_addDefaultServer 2])
  then show ?thesis using 1 2 q1
    by (auto simp: addLibera_def split: sum.splits intro: quiet_pushError quiet_keep_joins)
qed

lemma quiet_CheckServers: "irc_quiet w (ircCheckServers env cfg w)"
proof -
  have q: "irc_quiet w (w\<lparr>serversChecked := True\<rparr>)" by simp
  show ?thesis
    by (simp add: ircCheckServers_def Let_def q quiet_trans [OF q quiet_joins] quiet_trans [OF q quiet_addLibera]
        quiet_trans [OF q quiet_foldl [OF quiet_checkServer]] split: option.split)
qed

lemma quiet_set_connected: "irc_quiet w w' \<Longrightarrow> irc_quiet w (set_connected cid b w')"
  by (auto simp: set_connected_def irc_panic_def split: option.splits intro: quiet_frame)

lemma quiet_server_status: "irc_quiet w (server_status env cfg cid status w)"
  by (auto simp: server_status_def Let_def intro: quiet_trans [OF _ quiet_Flush] quiet_set_connected quiet_CheckServers)

lemma quiet_set_shard: "irc_quiet w (handle_set_shard env msg w)"
  by (auto simp: handle_set_shard_def Let_def intro: quiet_frame [OF quiet_refl])

lemma quiet_fetchOOB: "fetchOOB env key u w = (w1, r) \<Longrightarrow> irc_quiet w w1"
  by (auto simp: fetchOOB_def Let_def split: prod.splits ircAnswer.splits dest!: quiet_send)

lemma quiet_connectStream: "connectStream env key since sid w = (w1, r) \<Longrightarrow> irc_quiet w w1"
  by (auto simp: connectStream_def Let_def split: prod.splits ircAnswer.splits if_splits dest!: quiet_send)

lemma quiet_login_step:
  "login_step env path name form w = (w1, r) \<Longrightarrow> map_of form ''bid'' = None \<Longrightarrow> irc_quiet w w1"
  by (auto simp: login_step_def split: prod.splits ircAnswer.splits dest!: quiet_send)

lemma quiet_authenticate: "authenticate env email password w = (w1, r) \<Longrightarrow> irc_quiet w w1"
  by (auto simp: authenticate_def getFormToken_def doLogin_def split: prod.splits sum.splits
      dest!: quiet_login_step intro: quiet_trans)


lemma quiet_AuthRound: "ircAuthRound env cfg w = (w1, ok) \<Longrightarrow> irc_quiet w w1"
  by (auto simp: ircAuthRound_def split: if_splits prod.splits sum.splits
      dest!: quiet_authenticate intro: quiet_pushError quiet_frame)

section \<open>The interface\<close>

definition irc_key :: "ircEnv \<Rightarrow> string \<Rightarrow> int \<times> int" where
  "irc_key env msg = (ih_BID (irc_head env msg), ih_EID (irc_head env msg))"

definition count_page :: "int \<Rightarrow> irc \<Rightarrow> irc" where
  "count_page b w = w\<lparr>backlogPages := (backlogPages w)(b := Suc (backlogPages w b))\<rparr>"

locale irc_growth =
  fixes R :: "irc \<Rightarrow> irc \<Rightarrow> bool" and env :: ircEnv
  assumes R_trans: "R u v \<Longrightarrow> R v w \<Longrightarrow> R u w"
    and R_quiet: "irc_quiet w w' \<Longrightarrow> R w w'"
    and R_deep: "R w (w\<lparr>irc_deep := True\<rparr>)"
    and R_page: "backlogPages w b < maxBacklogPages \<Longrightarrow> irc_Backlog env key cid b num before (count_page b w) = (w1, r) \<Longrightarrow> R w w1"
    and R_repeat: "ircMarkSeen b e w = (w1, False) \<Longrightarrow> R w w1"
    and R_message: "ircMarkSeen b e w = (w1, True) \<Longrightarrow> irc_key env msg = (b, e) \<Longrightarrow> R w1 w2 \<Longrightarrow> R w w2 \<and> R w (irc_forward env msg w2)"
begin

lemma refl: "R w w"
  by (rule R_quiet) simp

lemma frame: "irc_quiet u v \<Longrightarrow> R v w \<Longrightarrow> R u w"
  by (blast intro: R_trans R_quiet)

lemma each:
  assumes "\<And>l w. R w (proc l w)"
  shows "R w (irc_each proc lines w)"
proof -
  have "R w (foldl (\<lambda>w l. if irc_halted w then w else proc l w) w lines)"
    by (induction lines arbitrary: w) (auto intro: refl R_trans assms)
  then show ?thesis by (simp add: irc_each_def)
qed

lemma pages:
  assumes "\<And>l w. R w (proc l w)"
  shows "R w (pullPages n env proc cid b minEID before w)"
proof (induction n arbitrary: before w)
  case 0 show ?case by (simp add: refl)
next
  case (Suc n)
  show ?case
  proof (cases "maxBacklogPages \<le> backlogPages w b")
    case True then show ?thesis by (simp add: refl)
  next
    case False
    obtain w1 r where p: "irc_Backlog env (sessionKey w) cid b 50 before (count_page b w) = (w1, r)" by fastforce
    have 1: "R w w1" using False p by (intro R_page) auto
    have 2: "R w (irc_each proc lines w1)" for lines by (rule R_trans [OF 1 each [OF assms]])
    show ?thesis using False p 1 2 R_trans [OF 2 Suc]
      by (cases r) (simp_all add: count_page_def Let_def)
  qed
qed

lemma oob:
  assumes "\<And>l w. R w (proc l w)"
  shows "R w (handle_oob env proc url w)"
proof (cases "fetchOOB env (sessionKey w) url w")
  case (Pair w1 r)
  then have "irc_quiet w w1" by (rule quiet_fetchOOB)
  moreover from this have "R w (irc_each proc lines w1)" for lines by (rule frame) (rule each [OF assms])
  ultimately show ?thesis using Pair
    by (cases r) (auto simp: handle_oob_def refl intro: R_quiet)
qed

lemma makebuffer:
  assumes "\<And>l w. R w (proc l w)"
  shows "R w (handle_makebuffer env proc msg w)"
proof -
  have "R w (w\<lparr>bids := m\<rparr>)" "R w (pullPages k env proc cid b minEID before (w\<lparr>bids := m\<rparr>))" for k cid b minEID before m
    by (simp_all add: R_quiet frame [OF _ pages [OF assms]])
  then show ?thesis by (simp add: handle_makebuffer_def pullBacklog_def Let_def refl split: option.split)
qed

lemma dispatch:
  assumes "\<And>l w. R w (proc l w)"
  shows "R w (irc_dispatch env cfg proc type msg w)"
proof -
  have "R w (server_status env cfg cid st (w\<lparr>serverMap := m\<rparr>))" for cid st m
    by (rule frame [OF _ R_quiet [OF quiet_server_status]]) simp
  then show ?thesis
    by (simp add: irc_dispatch_def Let_def refl oob makebuffer assms R_quiet quiet_server_status quiet_CheckServers quiet_set_shard)
qed

lemma step:
  assumes "\<And>l w. R w (proc l w)"
  shows "R w (irc_step env cfg proc msg w)"
proof -
  define h where "h = irc_head env msg"
  define w1 where "w1 = (if lastEID w < ih_EID h then w\<lparr>lastEID := ih_EID h\<rparr> else w)"
  have q: "irc_quiet w w1" by (simp add: w1_def)
  obtain w2 f where m: "ircMarkSeen (ih_BID h) (ih_EID h) w1 = (w2, f)" by fastforce
  have k: "irc_key env msg = (ih_BID h, ih_EID h)" by (simp add: irc_key_def h_def)
  have "R w1 (irc_step env cfg proc msg w)"
  proof (cases f)
    case True
    then show ?thesis using R_message [OF _ k dispatch [OF assms]] m
      by (simp add: irc_step_def Let_def flip: h_def w1_def)
  next
    case False
    then show ?thesis using R_repeat m by (auto simp add: irc_step_def Let_def simp flip: h_def w1_def)
  qed
  then show ?thesis by (rule frame [OF q])
qed

lemma processMessage: "R w (processMessage n env cfg msg w)"
  by (induction n arbitrary: msg w) (simp_all add: step R_deep)

lemma round: "R w (ircRound n env cfg w)"
proof -
  obtain w1 ok where 1: "ircAuthRound env cfg w = (w1, ok)" by fastforce
  obtain w2 r where 2: "connectStream env (sessionKey w1) (since_id w1) (streamID w1) w1 = (w2, r)" by fastforce
  have q1: "irc_quiet w w1" by (rule quiet_AuthRound [OF 1])
  have q2: "irc_quiet w w2" by (rule quiet_trans [OF q1 quiet_connectStream [OF 2]])
  have 3: "R w (irc_each (processMessage n env cfg) lines w2)" for lines
    by (rule frame [OF q2]) (rule each, rule processMessage)
  have 4: "R w (irc_each (processMessage n env cfg) lines w2\<lparr>irc_reconns := k\<rparr>)" for lines k
    by (rule R_trans [OF 3 [of lines]]) (simp add: R_quiet)
  have "R w w1" "R w (w2\<lparr>baseURL := t, sessionKey := t1, ircSessionKey := t2\<rparr>)"
    "R w (irc_pushError e w2\<lparr>sessionKey := t1, ircSessionKey := t2\<rparr>)" for t t1 t2 e
    using q1 q2 by (simp_all add: R_quiet)
  then show ?thesis using 1 2 3 4 unfolding ircRound_def
    by (cases ok; cases r) (auto simp: Let_def split: ircError.splits)
qed

lemma rounds: "R w (ircRounds n env cfg k w)"
  by (induction k) (auto simp: ircRounds_def refl intro: round R_trans)

end

section \<open>Messages are published once\<close>

fun raw_text :: "ircPub \<Rightarrow> string option" where
  "raw_text (IrcRaw t) = Some t"
| "raw_text (IrcUM um) = None"

text \<open>The keys of what was published that has both a buffer and an event number.\<close>

definition pub_keys :: "ircEnv \<Rightarrow> irc \<Rightarrow> (int \<times> int) list" where
  "pub_keys env w = filter (\<lambda>(b, e). b \<noteq> 0 \<and> e \<noteq> 0) (map (irc_key env) (List.map_filter raw_text (irc_pubs w)))"

definition once :: "ircEnv \<Rightarrow> irc \<Rightarrow> irc \<Rightarrow> bool" where
  "once env w w' \<longleftrightarrow> (\<exists>ks. pub_keys env w' = pub_keys env w @ ks \<and> distinct ks \<and> set ks \<inter> set (seenEIDs w) = {}
     \<and> set ks \<union> set (seenEIDs w) \<subseteq> set (seenEIDs w'))"

lemma pub_keys_forward:
  "pub_keys env (irc_forward env msg w) =
     pub_keys env w @ (case irc_key env msg of (b, e) \<Rightarrow> if b \<noteq> 0 \<and> e \<noteq> 0 then [(b, e)] else [])"
  by (simp add: irc_forward_def irc_publish_def pub_keys_def Let_def List.map_filter_def split: option.split prod.split)

lemma seenEIDs_forward [simp]: "seenEIDs (irc_forward env msg w) = seenEIDs w"
  by (simp add: irc_forward_def irc_publish_def Let_def split: option.split)

interpretation once: irc_growth "once env" env for env
proof
  fix u v w assume "once env u v" "once env v w"
  then obtain ks ls where
    "pub_keys env v = pub_keys env u @ ks" "distinct ks" "set ks \<inter> set (seenEIDs u) = {}"
    "set ks \<union> set (seenEIDs u) \<subseteq> set (seenEIDs v)"
    "pub_keys env w = pub_keys env v @ ls" "distinct ls" "set ls \<inter> set (seenEIDs v) = {}"
    "set ls \<union> set (seenEIDs v) \<subseteq> set (seenEIDs w)"
    unfolding once_def by blast
  then show "once env u w" unfolding once_def by (intro exI [of _ "ks @ ls"]) auto
next
  show "once env w w'" if "irc_quiet w w'" for w w'
    using that by (auto simp: irc_quiet_def once_def pub_keys_def)
next
  show "once env w (w\<lparr>irc_deep := True\<rparr>)" for w by (auto simp: once_def pub_keys_def)
next
  show "once env w w1" if "irc_Backlog env key cid b num before (count_page b w) = (w1, r)" for w b key cid num before w1 r
    using that by (auto simp: irc_Backlog_def irc_send_def count_page_def once_def pub_keys_def split: ircAnswer.splits)
next
  show "once env w w1" if "ircMarkSeen b e w = (w1, False)" for b e w w1
    using that by (auto simp: ircMarkSeen_def once_def split: if_splits)
next
  fix b e w w1 msg w2
  assume m: "ircMarkSeen b e w = (w1, True)" and k: "irc_key env msg = (b, e)" and o: "once env w1 w2"
  obtain ks where ks: "pub_keys env w2 = pub_keys env w1 @ ks" "distinct ks" "set ks \<inter> set (seenEIDs w1) = {}"
    "set ks \<union> set (seenEIDs w1) \<subseteq> set (seenEIDs w2)" using o unfolding once_def by blast
  have p: "pub_keys env w1 = pub_keys env w" "set (seenEIDs w) \<subseteq> set (seenEIDs w1)"
    and n: "b \<noteq> 0 \<Longrightarrow> e \<noteq> 0 \<Longrightarrow> (b, e) \<notin> set (seenEIDs w) \<and> (b, e) \<in> set (seenEIDs w1)"
    using m by (auto simp: ircMarkSeen_def pub_keys_def split: if_splits)
  have "once env w w2" using ks p unfolding once_def by (intro exI [of _ ks]) auto
  moreover have "once env w (irc_forward env msg w2)"
    using ks p n k unfolding once_def
    by (intro exI [of _ "ks @ (if b \<noteq> 0 \<and> e \<noteq> 0 then [(b, e)] else [])"]) (auto simp: pub_keys_forward)
  ultimately show "once env w w2 \<and> once env w (irc_forward env msg w2)" ..
qed

text \<open>C29: whatever the server sends over however many connections, and however the answers are nested, a
  message with a buffer and an event number is handed on at most once.\<close>

theorem irccloud_published_once:
  "distinct (pub_keys env (ircPoll n env cfg k))"
proof -
  have "once env irc_start (ircPoll n env cfg k)"
    using once.R_trans [OF once.R_quiet once.rounds] by (simp add: ircPoll_def once.refl irc_quiet_def asked_pages_def)
  then show ?thesis by (auto simp: once_def pub_keys_def irc_start_def List.map_filter_def)
qed

section \<open>Pages of backlog\<close>

definition bounded :: "irc \<Rightarrow> irc \<Rightarrow> bool" where
  "bounded w w' \<longleftrightarrow> (\<forall>b. backlogPages w b \<le> maxBacklogPages \<longrightarrow>
     backlogPages w' b \<le> maxBacklogPages \<and> asked_pages b w' + backlogPages w b = asked_pages b w + backlogPages w' b)"

lemma asked_pages_forward [simp]: "asked_pages b (irc_forward env msg w) = asked_pages b w"
  "backlogPages (irc_forward env msg w) = backlogPages w"
  by (simp_all add: irc_forward_def irc_publish_def asked_pages_def Let_def split: option.split)

lemma markSeen_quiet_pages:
  "ircMarkSeen b e w = (w1, f) \<Longrightarrow> backlogPages w1 = backlogPages w \<and> asked_pages c w1 = asked_pages c w"
  by (auto simp: ircMarkSeen_def asked_pages_def split: if_splits)

lemma backlog_asked:
  "irc_Backlog env key cid b num before w = (w1, r) \<Longrightarrow>
     backlogPages w1 = backlogPages w \<and> asked_pages c w1 = asked_pages c w + (if c = b then 1 else 0)"
  by (auto simp: irc_Backlog_def irc_send_def backlog_request_def asked_pages_def itoa_inj split: ircAnswer.splits)

interpretation bounded: irc_growth bounded env for env
proof
  show "bounded u w" if "bounded u v" "bounded v w" for u v w
    using that by (fastforce simp: bounded_def)
  show "bounded w w'" if "irc_quiet w w'" for w w'
    using that by (simp add: bounded_def irc_quiet_def)
  show "bounded w (w\<lparr>irc_deep := True\<rparr>)" for w by (simp add: bounded_def asked_pages_def)
  show "bounded w w1" if "backlogPages w b < maxBacklogPages" "irc_Backlog env key cid b num before (count_page b w) = (w1, r)"
    for w b key cid num before w1 r
  proof -
    have "backlogPages w1 = (backlogPages w)(b := Suc (backlogPages w b))"
      "asked_pages c w1 = asked_pages c w + (if c = b then 1 else 0)" for c
      using backlog_asked [OF that(2)] by (simp_all add: count_page_def asked_pages_def)
    then show ?thesis using that(1) by (simp add: bounded_def)
  qed
  show "bounded w w1" if "ircMarkSeen b e w = (w1, False)" for b e w w1
    using markSeen_quiet_pages [OF that] by (simp add: bounded_def)
  show "bounded w w2 \<and> bounded w (irc_forward env msg w2)"
    if "ircMarkSeen b e w = (w1, True)" "irc_key env msg = (b, e)" "bounded w1 w2" for b e w w1 msg w2
    using markSeen_quiet_pages [OF that(1)] that(3) by (simp add: bounded_def)
qed

text \<open>C30: for no buffer are more than five pages of backlog ever requested, over all connections.\<close>

theorem irccloud_backlog_bounded:
  "asked_pages b (ircPoll n env cfg k) \<le> 5"
proof -
  have "bounded irc_start (ircPoll n env cfg k)"
    using bounded.R_trans [OF bounded.R_quiet bounded.rounds] by (simp add: ircPoll_def bounded.refl irc_quiet_def asked_pages_def)
  then show ?thesis by (force simp: bounded_def irc_start_def asked_pages_def maxBacklogPages_def)
qed

end
