(* ===== verification/Irccloud_Replies.thy ===== *)
theory Irccloud_Replies
  imports Irccloud_Invariants
begin

text \<open>
  What the parts of the IRCCloud bridge mean to each other: a reply goes where the message came from, the key
  that \<open>Send\<close> uses against the key of the stream, the server that is added after each header, and the nesting
  of the answers that the service gives.
\<close>

section \<open>Replies\<close>

lemma atoi_range: "atoi s = Some v \<Longrightarrow> min_i64 \<le> v \<and> v \<le> max_i64"
  by (auto simp: atoi_def Let_def split: if_splits option.splits)

text \<open>What every field of a struct keeps, the struct keeps.\<close>

lemma dec_struct_keeps:
  assumes "P r" and fields: "\<And>n d r j. (n, d) \<in> set fs \<Longrightarrow> P r \<Longrightarrow> P (fst (d r j))"
  shows "P (fst (dec_struct fs r x))"
proof -
  have entry: "P (fst (dec_entry fs rk kj))" if r: "P (fst rk)" for rk kj
  proof (cases kj; cases rk)
    fix k j r0 ok assume Pair: "kj = (k, j)" "rk = (r0, ok)"
    show ?thesis
    proof (cases "find_field fs k")
      case None then show ?thesis using r Pair by (simp add: dec_entry_def)
    next
      case (Some d)
      then have "\<exists>n. (n, d) \<in> set fs"
        by (auto simp: find_field_def find_Some_iff split: option.splits dest: map_of_SomeD) (metis nth_mem)
      then show ?thesis using r Pair Some fields by (auto simp: dec_entry_def)
    qed
  qed
  have "P (fst (foldl (dec_entry fs) rk es))" if "P (fst rk)" for rk es
    using that by (induction es arbitrary: rk) (simp_all add: entry)
  then show ?thesis using assms(1) by (cases x) simp_all
qed

lemma dec_int_range: "min_i64 \<le> old \<and> old \<le> max_i64 \<Longrightarrow> min_i64 \<le> fst (dec_int old j) \<and> fst (dec_int old j) \<le> max_i64"
  by (cases j) (auto dest: atoi_range split: option.splits)

lemma ircMsg_cid_range:
  assumes "unmarshal dec_ircMsg zeroIrcMsg x = Some h"
  shows "min_i64 \<le> um_j_CID h \<and> um_j_CID h \<le> max_i64"
proof -
  obtain j where "h = fst (dec_ircMsg zeroIrcMsg j)"
    using assms by (auto simp: unmarshal_def split: option.splits if_splits)
  moreover have "min_i64 \<le> um_j_CID (fst (dec_ircMsg zeroIrcMsg j)) \<and> um_j_CID (fst (dec_ircMsg zeroIrcMsg j)) \<le> max_i64"
    unfolding dec_ircMsg_def
  proof (rule dec_struct_keeps)
    show "min_i64 \<le> um_j_CID zeroIrcMsg \<and> um_j_CID zeroIrcMsg \<le> max_i64"
      by (simp add: zeroIrcMsg_def min_i64_def max_i64_def)
  qed (auto simp: on_def dec_int_range)
  ultimately show ?thesis by simp
qed

lemma itoa_no_colon: "CHR '':'' \<notin> set (itoa i)"
proof -
  have "CHR '':'' \<notin> set (show_nat n)" for n
  proof
    assume "CHR '':'' \<in> set (show_nat n)"
    then obtain d where "d < 10" "CHR '':'' = digit_char d" using show_nat_digits by blast
    then show False using of_char_digit_char [of d] by (auto dest: arg_cong [where f = "of_char :: char \<Rightarrow> nat"])
  qed
  then show ?thesis by (simp add: itoa_def)
qed

lemma takeWhile_colon: "takeWhile (\<lambda>c. c \<noteq> CHR '':'') (itoa i @ CHR '':'' # t) = itoa i"
  "dropWhile (\<lambda>c. c \<noteq> CHR '':'') (itoa i @ CHR '':'' # t) = CHR '':'' # t"
  using itoa_no_colon [of i] by (induction "itoa i" arbitrary: i) (auto simp: takeWhile_append dropWhile_append)

definition say_request :: "irc \<Rightarrow> int \<Rightarrow> string \<Rightarrow> string \<Rightarrow> ircReq" where
  "say_request w cid dest msg =
     \<lparr>iq_method = ''POST'', iq_url = baseURL w @ ''/chat/say'', iq_session = ircSessionKey w,
      iq_form = [(''cid'', itoa cid), (''to'', dest), (''msg'', msg), (''session'', ircSessionKey w)]\<rparr>"

lemma irc_Say_reqs:
  "irc_reqs (fst (irc_Say env key cid dest msg w)) =
     irc_reqs w @ [\<lparr>iq_method = ''POST'', iq_url = baseURL w @ ''/chat/say'', iq_session = key,
       iq_form = [(''cid'', itoa cid), (''to'', dest), (''msg'', msg), (''session'', key)]\<rparr>]"
  by (simp add: irc_Say_def status_call_def authenticatedPost_def irc_send_def split: prod.split ircAnswer.split)

lemma irc_Send_target:
  assumes "min_i64 \<le> cid" "cid \<le> max_i64" "msg \<noteq> []" "ircSessionKey w \<noteq> []"
  shows "irc_reqs (fst (irc_Send env True (itoa cid @ CHR '':'' # chan) msg [] w)) = irc_reqs w @ [say_request w cid chan msg]"
  using assms by (simp add: irc_Send_def takeWhile_colon irc_Say_reqs say_request_def)

text \<open>the \<open>ChatID\<close> of a message from a channel, given to \<open>Send\<close>, is the connection and the channel the
  message came from.\<close>

theorem irccloud_reply_target:
  assumes "irccloudMsgToUnified (ic_json env) now m = Some um" "um_ChatID um \<noteq> []" "msg \<noteq> []" "ircSessionKey w \<noteq> []"
  shows "\<exists>h. unmarshal dec_ircMsg zeroIrcMsg (ic_json env m) = Some h \<and>
    irc_reqs (fst (irc_Send env True (um_ChatID um) msg [] w)) = irc_reqs w @ [say_request w (um_j_CID h) (um_j_Chan h) msg]"
proof -
  obtain h where h: "unmarshal dec_ircMsg zeroIrcMsg (ic_json env m) = Some h"
    using assms(1) by (cases "unmarshal dec_ircMsg zeroIrcMsg (ic_json env m)") (auto simp: irccloudMsgToUnified_def)
  have "um_ChatID um = ircChatID (um_j_CID h) (um_j_Chan h)"
    using assms(1) h by (auto simp: irccloudMsgToUnified_def Let_def split: if_splits)
  then have "um_ChatID um = itoa (um_j_CID h) @ CHR '':'' # um_j_Chan h"
    using assms(2) by (simp add: ircChatID_def split: if_splits)
  then show ?thesis using h irc_Send_target ircMsg_cid_range [OF h] assms(3,4) by auto
qed

section \<open>The two session keys\<close>

lemma markSeen_fresh:
  "b = 0 \<or> e = 0 \<Longrightarrow> ircMarkSeen b e w = (w, True)"
  by (simp add: ircMarkSeen_def)

text \<open>A message that is not numbered, and whose type nests nothing.\<close>

definition unnumbered :: "ircEnv \<Rightarrow> string \<Rightarrow> bool" where
  "unnumbered env msg \<longleftrightarrow> ih_BID (irc_head env msg) = 0 \<or> ih_EID (irc_head env msg) = 0"

definition note_eid :: "ircEnv \<Rightarrow> string \<Rightarrow> irc \<Rightarrow> irc" where
  "note_eid env msg w = (if lastEID w < ih_EID (irc_head env msg) then w\<lparr>lastEID := ih_EID (irc_head env msg)\<rparr> else w)"

lemma processMessage_unnumbered:
  assumes "unnumbered env msg"
  shows "processMessage (Suc n) env cfg msg w =
    (let w3 = irc_dispatch env cfg (processMessage n env cfg) (ih_Type (irc_head env msg)) msg (note_eid env msg w)
     in if irc_halted w3 then w3 else irc_forward env msg w3)"
  using assms by (simp add: irc_step_def note_eid_def unnumbered_def markSeen_fresh Let_def)

lemma forward_fields [simp]:
  "sessionKey (irc_forward env msg w) = sessionKey w" "ircSessionKey (irc_forward env msg w) = ircSessionKey w"
  "irc_reqs (irc_forward env msg w) = irc_reqs w" "baseURL (irc_forward env msg w) = baseURL w"
  "irc_crashed (irc_forward env msg w) = irc_crashed w" "irc_deep (irc_forward env msg w) = irc_deep w"
  "serversChecked (irc_forward env msg w) = serversChecked w" "cidMap (irc_forward env msg w) = cidMap w"
  by (simp_all add: irc_forward_def irc_publish_def Let_def split: option.split)

lemma note_eid_fields [simp]:
  "sessionKey (note_eid env msg w) = sessionKey w" "ircSessionKey (note_eid env msg w) = ircSessionKey w"
  "irc_reqs (note_eid env msg w) = irc_reqs w" "baseURL (note_eid env msg w) = baseURL w"
  "irc_crashed (note_eid env msg w) = irc_crashed w" "irc_deep (note_eid env msg w) = irc_deep w"
  "cidMap (note_eid env msg w) = cidMap w" "serversChecked (note_eid env msg w) = serversChecked w"
  by (simp_all add: note_eid_def)

text \<open>when the service sends a running stream to a shard with a new session key, the stream takes the key
  and \<open>Send\<close> does not: it goes to the new shard with the key of the old one.\<close>

theorem irccloud_shard_strands_send:
  assumes "unnumbered env m" "ih_Type (irc_head env m) = ''set_shard''" "\<not> irc_halted w"
    and "unmarshal dec_set_shard \<lparr>ish_APIHost = [], ish_WebsocketHost = [], ish_Cookie = []\<rparr> (ic_json env m)
           = Some \<lparr>ish_APIHost = host, ish_WebsocketHost = ws, ish_Cookie = key\<rparr>" "key \<noteq> []" "host \<noteq> []"
    and "min_i64 \<le> cid" "cid \<le> max_i64" "msg \<noteq> []" "ircSessionKey w \<noteq> []"
  shows "sessionKey (processMessage (Suc n) env cfg m w) = key \<and>
    irc_reqs (fst (irc_Send env True (itoa cid @ CHR '':'' # chan) msg [] (processMessage (Suc n) env cfg m w))) =
      irc_reqs w @ [\<lparr>iq_method = ''POST'', iq_url = host @ ''/chat/say'', iq_session = ircSessionKey w,
        iq_form = [(''cid'', itoa cid), (''to'', chan), (''msg'', msg), (''session'', ircSessionKey w)]\<rparr>]"
proof -
  define w' where "w' = processMessage (Suc n) env cfg m w"
  have lax: "unmarshal_lax dec_set_shard \<lparr>ish_APIHost = [], ish_WebsocketHost = [], ish_Cookie = []\<rparr> (ic_json env m)
      = \<lparr>ish_APIHost = host, ish_WebsocketHost = ws, ish_Cookie = key\<rparr>"
    using assms(4) by (auto simp: unmarshal_def unmarshal_lax_def split: option.splits if_splits)
  have w': "sessionKey w' = key" "ircSessionKey w' = ircSessionKey w" "irc_reqs w' = irc_reqs w" "baseURL w' = host"
    using assms(1,2,3,5,6) lax
    by (simp_all add: w'_def processMessage_unnumbered irc_dispatch_def handle_set_shard_def irc_halted_def Let_def del: processMessage.simps)
  then show ?thesis
    using irc_Send_target [of cid msg w'] assms(7-10) unfolding w'_def [symmetric] by (simp add: say_request_def)
qed

section \<open>The server that is added\<close>

lemma parseAppConfig_no_servers: "ac_Servers (parseAppConfig json user pass info) = []"
  by (simp add: parseAppConfig_def parseColonInfo_def zeroAppConfig_def Let_def split: option.split)

definition libera_request :: "irc \<Rightarrow> ircReq" where
  "libera_request w =
     \<lparr>iq_method = ''POST'', iq_url = baseURL w @ ''/chat/add-server'', iq_session = sessionKey w,
      iq_form = [(''hostname'', ''irc.libera.chat''), (''port'', itoa 6697), (''ssl'', ''1''), (''netname'', ''Libera.Chat''),
        (''nickname'', ''fedlet''), (''realname'', ''fedlet''), (''session'', sessionKey w)]\<rparr>"

text \<open>Requests are only added.\<close>

lemma send_extends: "irc_send env rq w = (w1, a) \<Longrightarrow> \<exists>rs. irc_reqs w1 = irc_reqs w @ rs"
  by (auto simp: irc_send_def)

definition extends :: "irc \<Rightarrow> irc \<Rightarrow> bool" where
  "extends w w' \<longleftrightarrow> (\<exists>rs. irc_reqs w' = irc_reqs w @ rs)"

lemma extends_trans: "extends u v \<Longrightarrow> extends v w \<Longrightarrow> extends u w"
  by (auto simp: extends_def)

lemma server_call_extends: "server_call env what path key form w = (w1, r) \<Longrightarrow> extends w w1"
  by (auto simp: server_call_def authenticatedPost_def irc_send_def extends_def split: prod.splits ircAnswer.splits)

lemma follow_shard_extends:
  assumes "\<And>key w w1 r. call key w = (w1, r) \<Longrightarrow> extends w w1" "follow_shard call w = (w2, r, b)"
  shows "extends w w2"
  using assms(2) by (fastforce simp: follow_shard_def extends_def split: prod.splits sum.splits ircError.splits
      dest!: assms(1))

lemma Join_extends: "extends w (fst (irc_Join env key cid ch pass w))"
  by (simp add: irc_Join_def status_call_def authenticatedPost_def irc_send_def extends_def split: prod.split ircAnswer.split)

lemma joins_extends: "extends w (irc_joins env cid chans w)"
proof -
  have "extends w (foldl (\<lambda>w ch. fst (irc_Join env (sessionKey w) cid ch [] w)) w chans)"
    by (induction chans arbitrary: w) (auto intro: extends_trans Join_extends simp: extends_def [of w w for w])
  then show ?thesis by (simp add: irc_joins_def)
qed

lemma flush_extends: "extends w (ircFlushPendingJoins env w)"
proof -
  have one: "extends w (ircFlushOne env w cid)" for w cid
    using joins_extends [of w env cid] by (simp add: ircFlushOne_def extends_def Let_def)
  have "extends w (foldl (ircFlushOne env) w cids)" for cids
    by (induction cids arbitrary: w) (auto intro: extends_trans one simp: extends_def [of w w for w])
  then show ?thesis by (simp add: ircFlushPendingJoins_def)
qed

lemma addLibera_request:
  "\<exists>rs. irc_reqs (addLibera env chans w) = irc_reqs w @ libera_request w # rs"
proof -
  obtain w1 r b where 1: "follow_shard (\<lambda>key. addServer env key libera) w = (w1, r, b)" by (metis prod_cases3)
  obtain w2 r2 b2 where 2: "follow_shard (\<lambda>key. addDefaultServer env key ''fedlet'' ''fedlet'') w1 = (w2, r2, b2)" by (metis prod_cases3)
  obtain u x where u: "addServer env (sessionKey w) libera w = (u, x)" by fastforce
  have ru: "irc_reqs u = irc_reqs w @ [libera_request w]"
    using u by (auto simp: addServer_def server_call_def authenticatedPost_def irc_send_def libera_def libera_request_def irc_opt_field_def
        split: prod.splits ircAnswer.splits)
  have ext: "extends v v'" if "addServer env key p v = (v', y)" for key p v v' y
    using that server_call_extends by (auto simp: addServer_def)
  have e1: "extends u w1"
  proof (cases "\<exists>h c. x = Inl (ShardRedirect h c)")
    case True
    then obtain h c where x: "x = Inl (ShardRedirect h c)" by blast
    obtain v y where v: "addServer env c libera (u\<lparr>baseURL := h, sessionKey := c\<rparr>) = (v, y)" by fastforce
    then show ?thesis using 1 u x ext [OF v] by (auto simp: follow_shard_def extends_def)
  next
    case False
    then show ?thesis using 1 u by (auto simp: follow_shard_def extends_def split: sum.splits ircError.splits)
  qed
  have "extends w1 w2" by (rule follow_shard_extends [OF _ 2]) (auto simp: addDefaultServer_def dest: server_call_extends)
  then have "extends u w2" by (rule extends_trans [OF e1])
  then have "extends u (addLibera env chans w)" using 1 2 e1
    by (auto simp: addLibera_def extends_def irc_pushError_def keep_joins_def split: sum.splits)
  then show ?thesis using ru by (auto simp: extends_def)
qed


lemma irccloud_early_makeserver_crashes:
  assumes "unnumbered env srv" "ih_Type (irc_head env srv) = ''makeserver''" "cidMap w = None" "serversChecked w"
  shows "irc_crashed (processMessage (Suc n) env cfg srv w)"
  using assms by (simp add: processMessage_unnumbered irc_dispatch_def server_status_def ircCheckServers_def set_connected_def
      irc_panic_def irc_halted_def Let_def del: processMessage.simps)

section \<open>Nesting\<close>

text \<open>A line whose processing reads no further lines.\<close>

definition plain_line :: "ircEnv \<Rightarrow> string \<Rightarrow> bool" where
  "plain_line env l \<longleftrightarrow> ih_Type (irc_head env l) \<noteq> ''oob_include'' \<and> ih_Type (irc_head env l) \<noteq> ''makebuffer''"

definition no_oob :: "ircEnv \<Rightarrow> string \<Rightarrow> bool" where
  "no_oob env l \<longleftrightarrow> ih_Type (irc_head env l) \<noteq> ''oob_include''"

definition shallow :: "irc \<Rightarrow> irc \<Rightarrow> bool" where
  "shallow w w' \<longleftrightarrow> (irc_deep w' \<longrightarrow> irc_deep w)"

lemma shallow_refl [simp]: "shallow w w"
  by (simp add: shallow_def)

lemma shallow_trans: "shallow u v \<Longrightarrow> shallow v w \<Longrightarrow> shallow u w"
  by (auto simp: shallow_def)

lemma shallow_quiet: "irc_quiet w w' \<Longrightarrow> shallow w w'"
  by (simp add: irc_quiet_def shallow_def)

lemma shallow_each:
  assumes "\<And>l w. l \<in> set lines \<Longrightarrow> shallow w (proc l w)"
  shows "shallow w (irc_each proc lines w)"
proof -
  have "shallow w (foldl (\<lambda>w l. if irc_halted w then w else proc l w) w lines)"
    using assms by (induction lines arbitrary: w) (auto intro: shallow_trans)
  then show ?thesis by (simp add: irc_each_def)
qed

text \<open>What the service answers: no line of an out-of-band answer includes another one, and the lines of a page
  of backlog are plain.\<close>

definition oob_flat :: "ircEnv \<Rightarrow> bool" where
  "oob_flat env \<longleftrightarrow> (\<forall>key u w w1 lines l. fetchOOB env key u w = (w1, Inr lines) \<longrightarrow> l \<in> set lines \<longrightarrow> no_oob env l)"

definition backlog_plain :: "ircEnv \<Rightarrow> bool" where
  "backlog_plain env \<longleftrightarrow> (\<forall>key cid b num before w w1 lines l.
     irc_Backlog env key cid b num before w = (w1, Inr lines) \<longrightarrow> l \<in> set lines \<longrightarrow> plain_line env l)"

lemma deep_Backlog: "irc_Backlog env key cid b num before w = (w1, r) \<Longrightarrow> irc_deep w1 = irc_deep w"
  by (auto simp: irc_Backlog_def irc_send_def split: ircAnswer.splits)

lemma shallow_pages:
  assumes "backlog_plain env" "\<And>l w. plain_line env l \<Longrightarrow> shallow w (proc l w)"
  shows "shallow w (pullPages n env proc cid b minEID before w)"
proof (induction n arbitrary: before w)
  case (Suc n)
  obtain w1 r where p: "irc_Backlog env (sessionKey w) cid b 50 before (count_page b w) = (w1, r)" by fastforce
  have 1: "shallow w w1" using deep_Backlog [OF p] by (simp add: shallow_def count_page_def)
  have 2: "shallow w (irc_each proc lines w1)" if "r = Inr lines" for lines
    using assms p that by (intro shallow_trans [OF 1] shallow_each) (auto simp: backlog_plain_def)
  show ?case using p 1 2 shallow_trans [OF 2 Suc]
    by (cases r) (simp_all add: count_page_def Let_def)
qed simp

lemma shallow_oob:
  assumes "oob_flat env" "\<And>l w. no_oob env l \<Longrightarrow> shallow w (proc l w)"
  shows "shallow w (handle_oob env proc u w)"
proof (cases "fetchOOB env (sessionKey w) u w")
  case (Pair w1 r)
  have 1: "shallow w w1" by (rule shallow_quiet [OF quiet_fetchOOB [OF Pair]])
  have "shallow w (irc_each proc lines w1)" if "r = Inr lines" for lines
    using assms Pair that by (intro shallow_trans [OF 1] shallow_each) (auto simp: oob_flat_def)
  then show ?thesis using Pair 1 by (cases r) (simp_all add: handle_oob_def shallow_def)
qed

lemma shallow_makebuffer:
  assumes "backlog_plain env" "\<And>l w. plain_line env l \<Longrightarrow> shallow w (proc l w)"
  shows "shallow w (handle_makebuffer env proc msg w)"
proof -
  have "shallow w (w\<lparr>bids := m\<rparr>)" "shallow w (pullPages n env proc cid b minEID before (w\<lparr>bids := m\<rparr>))" for m n cid b minEID before
    using shallow_pages [OF assms, where w = "w\<lparr>bids := m\<rparr>"] by (simp_all add: shallow_def)
  then show ?thesis by (simp add: handle_makebuffer_def pullBacklog_def Let_def split: option.split)
qed

lemma shallow_dispatch:
  assumes "\<And>u v. type = ''oob_include'' \<Longrightarrow> shallow v (handle_oob env proc u v)"
    and "\<And>v. type = ''makebuffer'' \<Longrightarrow> shallow v (handle_makebuffer env proc msg v)"
  shows "shallow v (irc_dispatch env cfg proc type msg v)"
proof -
  have "shallow v (server_status env cfg cid st (v\<lparr>serverMap := m\<rparr>))" for cid st m
    by (rule shallow_quiet, rule quiet_trans [OF _ quiet_server_status]) simp
  then show ?thesis using assms
    by (simp add: irc_dispatch_def Let_def shallow_quiet quiet_server_status quiet_CheckServers quiet_set_shard)
qed

lemma irc_step_note:
  "irc_step env cfg proc msg w =
     (case ircMarkSeen (ih_BID (irc_head env msg)) (ih_EID (irc_head env msg)) (note_eid env msg w) of
        (w2, False) \<Rightarrow> w2
      | (w2, True) \<Rightarrow>
          (let w3 = irc_dispatch env cfg proc (ih_Type (irc_head env msg)) msg w2
           in if irc_halted w3 then w3 else irc_forward env msg w3))"
  by (simp add: irc_step_def note_eid_def Let_def)

lemma shallow_step:
  assumes "\<And>v. shallow v (irc_dispatch env cfg proc (ih_Type (irc_head env msg)) msg v)"
  shows "shallow w (irc_step env cfg proc msg w)"
proof -
  obtain w2 f where m: "ircMarkSeen (ih_BID (irc_head env msg)) (ih_EID (irc_head env msg)) (note_eid env msg w) = (w2, f)"
    by fastforce
  then have 2: "irc_deep w2 = irc_deep w" by (auto simp: ircMarkSeen_def split: if_splits)
  show ?thesis using m 2 assms [of w2] unfolding irc_step_note
    by (cases f) (simp_all add: Let_def shallow_def)
qed

lemma shallow_plain: "plain_line env l \<Longrightarrow> shallow w (processMessage (Suc n) env cfg l w)"
  unfolding processMessage.simps by (intro shallow_step shallow_dispatch) (auto simp: plain_line_def)

lemma shallow_no_oob:
  "backlog_plain env \<Longrightarrow> no_oob env l \<Longrightarrow> shallow w (processMessage (Suc (Suc n)) env cfg l w)"
  by (subst processMessage.simps) (intro shallow_step shallow_dispatch shallow_makebuffer shallow_plain, auto simp: no_oob_def)

lemma shallow_any:
  "oob_flat env \<Longrightarrow> backlog_plain env \<Longrightarrow> shallow w (processMessage (Suc (Suc (Suc n))) env cfg l w)"
  by (subst processMessage.simps) (intro shallow_step shallow_dispatch shallow_oob shallow_makebuffer shallow_plain shallow_no_oob)

lemma shallow_round:
  assumes "oob_flat env" "backlog_plain env"
  shows "shallow w (ircRound 3 env cfg w)"
proof -
  obtain w1 ok where 1: "ircAuthRound env cfg w = (w1, ok)" by fastforce
  obtain w2 r where 2: "connectStream env (sessionKey w1) (since_id w1) (streamID w1) w1 = (w2, r)" by fastforce
  have q: "irc_deep w1 = irc_deep w" "irc_deep w2 = irc_deep w"
    using quiet_AuthRound [OF 1] quiet_connectStream [OF 2] by (simp_all add: irc_quiet_def)
  have "shallow w2 (irc_each (processMessage 3 env cfg) lines w2)" for lines
    by (rule shallow_each) (simp only: numeral_3_eq_3, rule shallow_any [OF assms])
  then show ?thesis using 1 2 q unfolding ircRound_def
    by (cases ok; cases r) (auto simp: Let_def shallow_def irc_pushError_def split: ircError.splits)
qed

text \<open>C31: processing ends. With the answers that the service gives, a nesting of three, the stream, an answer
  included by it and the pages of a buffer in that, is never exceeded.\<close>

theorem irccloud_nesting_enough:
  assumes "oob_flat env" "backlog_plain env"
  shows "\<not> irc_deep (ircPoll 3 env cfg k)"
proof -
  have "shallow w (((\<lambda>w. if irc_halted w then w else ircRound 3 env cfg w) ^^ k) w)" for w
    by (induction k) (auto intro: shallow_trans shallow_round [OF assms])
  from this [of "irc_start\<lparr>irc_running := True\<rparr>"] show ?thesis
    by (simp add: ircPoll_def ircRounds_def shallow_def) (simp add: irc_start_def)
qed

section \<open>Examples\<close>

text \<open>A service with a header, a server, a shard and a line of a channel; requests are answered with \<open>no\<close>.\<close>

definition irc_json0 :: "string \<Rightarrow> json option" where
  "irc_json0 t =
     (if t = ''h'' then Some (JObj [(''type'', JStr ''header''), (''streamid'', JStr ''s1'')])
      else if t = ''m'' then Some (JObj [(''type'', JStr ''makeserver''), (''cid'', JNum ''7''), (''status'', JStr ''connected_ready''),
        (''hostname'', JStr ''irc.libera.chat'')])
      else if t = ''s'' then Some (JObj [(''type'', JStr ''set_shard''), (''api_host'', JStr ''B''), (''cookie'', JStr ''new'')])
      else if t = ''b'' then Some (JObj [(''type'', JStr ''buffer_msg''), (''bid'', JNum ''4''), (''eid'', JNum ''9''),
        (''cid'', JNum ''7''), (''chan'', JStr ''#go''), (''from'', JStr ''ann''), (''msg'', JStr ''hi'')])
      else None)"

definition irc_env0 :: ircEnv where
  "irc_env0 = \<lparr>ic_net = (\<lambda>_ _. IrcAnswer 200 ''b''), ic_json = irc_json0, ic_now = (\<lambda>_. 0), ic_order = (\<lambda>_ ks. ks)\<rparr>"

definition irc_up :: irc where
  "irc_up = irc_start\<lparr>ircSessionKey := ''old'', sessionKey := ''old''\<rparr>"

lemmas irc_dec = unmarshal_def unmarshal_lax_def dec_entry_def find_field_def on_def fold_name_def to_lower_def to_lower_char_def

lemma irc_heads:
  "irc_head irc_env0 ''h'' = \<lparr>ih_Type = ''header'', ih_BID = 0, ih_EID = 0\<rparr>"
  "irc_head irc_env0 ''m'' = \<lparr>ih_Type = ''makeserver'', ih_BID = 0, ih_EID = 0\<rparr>"
  "irc_head irc_env0 ''s'' = \<lparr>ih_Type = ''set_shard'', ih_BID = 0, ih_EID = 0\<rparr>"
  "irc_head irc_env0 ''b'' = \<lparr>ih_Type = ''buffer_msg'', ih_BID = 4, ih_EID = 9\<rparr>"
  by (code_simp, code_simp, code_simp, code_simp)

lemma irccloud_reply_target_witness:
  "irc_reqs (fst (irc_Send irc_env0 True ''7:#go'' ''hello'' [] irc_up)) = [say_request irc_up 7 ''#go'' ''hello'']"
proof -
  have um: "irccloudMsgToUnified (ic_json irc_env0) 0 ''b'' \<noteq> None"
    "um_ChatID (the (irccloudMsgToUnified (ic_json irc_env0) 0 ''b'')) = ''7:#go''" by (code_simp, code_simp)
  have h: "map_option (\<lambda>h. (um_j_CID h, um_j_Chan h)) (unmarshal dec_ircMsg zeroIrcMsg (ic_json irc_env0 ''b'')) = Some (7, ''#go'')"
    by code_simp
  show ?thesis
    using irccloud_reply_target [of irc_env0 0 "''b''" "the (irccloudMsgToUnified (ic_json irc_env0) 0 ''b'')" "''hello''" irc_up] um h
    by (auto simp: irc_up_def irc_start_def)
qed

lemma irccloud_shard_strands_send_witness:
  "iq_session (last (irc_reqs (fst (irc_Send irc_env0 True (itoa 7 @ '':#go'') ''hello'' []
     (processMessage 1 irc_env0 zeroAppConfig ''s'' irc_up))))) = ''old''"
proof -
  have "unmarshal dec_set_shard \<lparr>ish_APIHost = [], ish_WebsocketHost = [], ish_Cookie = []\<rparr> (ic_json irc_env0 ''s'')
      = Some \<lparr>ish_APIHost = ''B'', ish_WebsocketHost = [], ish_Cookie = ''new''\<rparr>" by code_simp
  then show ?thesis
    using irccloud_shard_strands_send [of irc_env0 "''s''" irc_up "''B''" "[]" "''new''" 7 "''hello''" 0 zeroAppConfig "''#go''"]
    by (simp add: unnumbered_def irc_heads irc_halted_def irc_up_def irc_start_def min_i64_def max_i64_def)
qed


lemma irccloud_nesting_enough_witness:
  "\<not> irc_deep (ircPoll 3 irc_env0 (zeroAppConfig\<lparr>ac_Email := ''a'', ac_Password := ''p''\<rparr>) 4)"
proof (rule irccloud_nesting_enough)
  have "trim_space ''b'' = ''b''" by code_simp
  then have l: "stream_lines ''b'' = [''b'']" by (simp add: stream_lines_def)
  have n: "ic_net irc_env0 i rq = IrcAnswer 200 ''b''" for i rq by (simp add: irc_env0_def)
  show "oob_flat irc_env0"
    by (auto simp: oob_flat_def fetchOOB_def irc_send_def Let_def no_oob_def irc_heads l n)
  show "backlog_plain irc_env0"
    by (auto simp: backlog_plain_def irc_Backlog_def irc_send_def plain_line_def irc_heads l n)
qed

end
