(* ===== verification/Emailimap.thy ===== *)
theory Emailimap
  imports Unimessage "HOL-Library.AList"
begin

text \<open>
  The mail bridge, \<open>src/fbprotocols/emailimap/emailimap.go\<close>: addresses and servers, the text of a mail, and
  sending. The mail parsers of the library (header and parts of a message, media types, transfer and character
  encodings) are the fields of \<open>mimeLib\<close>. Reading a body stops at the first error and gives what was read.
\<close>

section \<open>Hosts and ports\<close>

definition joinHostPort :: "string \<Rightarrow> string \<Rightarrow> string" where
  "joinHostPort host port =
     (if CHR '':'' \<in> set host then ''['' @ host @ '']:'' @ port else host @ '':'' @ port)"

text \<open>\<open>strings.Replace(s, old, new, 1)\<close> for a non-empty \<open>old\<close>.\<close>

fun replace_first :: "string \<Rightarrow> string \<Rightarrow> string \<Rightarrow> string" where
  "replace_first old new [] = []"
| "replace_first old new (c # s) =
     (if has_prefix (c # s) old then new @ drop (length old) (c # s) else c # replace_first old new s)"

definition deriveSMTPServer :: "string \<Rightarrow> string" where
  "deriveSMTPServer imapServer =
     (case splitHostPort imapServer of
        Inl _ \<Rightarrow> ''smtp.'' @ imapServer @ '':587''
      | Inr (host, port) \<Rightarrow>
          joinHostPort (replace_first ''imap.'' ''smtp.'' host) (if port = ''143'' then ''25'' else ''587''))"

definition deriveFrom :: "string \<Rightarrow> string" where
  "deriveFrom username = (if CHR ''@'' \<in> set username then username else username @ ''@unknown'')"

section \<open>Finding a server\<close>

definition extractDomain :: "string \<Rightarrow> string" where
  "extractDomain email =
     (if CHR ''@'' \<notin> set email then []
      else to_lower (trim_space (tl (dropWhile (\<lambda>c. c \<noteq> CHR ''@'') email))))"

definition isMicrosoftDomain :: "string \<Rightarrow> bool" where
  "isMicrosoftDomain d \<longleftrightarrow> d \<in> {''outlook.com'', ''hotmail.com'', ''live.com'', ''hotmail.co.uk'', ''hotmail.fr'',
     ''hotmail.de'', ''msn.com'', ''passport.com'', ''office365.com''}"

record ispdbIncoming =
  isp_Type :: string
  isp_Hostname :: string
  isp_Port :: int
  isp_Socket :: string

text \<open>\<open>dial\<close>: whether a connection can be opened; \<open>db\<close>: the incoming servers the database lists for a domain,
  \<open>None\<close> when it does not answer with a list.\<close>

definition ispdbLookup :: "(string \<Rightarrow> bool) \<Rightarrow> (string \<Rightarrow> ispdbIncoming list option) \<Rightarrow> string \<Rightarrow> string" where
  "ispdbLookup dial db domain =
     (case db domain of
        None \<Rightarrow> []
      | Some ins \<Rightarrow>
          (case List.find dial (map (\<lambda>i. isp_Hostname i @ '':'' @ itoa (isp_Port i))
                  (filter (\<lambda>i. isp_Type i = ''imap'' \<and> isp_Socket i = ''SSL'' \<and> 0 < isp_Port i) ins)) of
             Some addr \<Rightarrow> addr | None \<Rightarrow> []))"

definition guessServer :: "(string \<Rightarrow> bool) \<Rightarrow> string \<Rightarrow> string" where
  "guessServer dial domain =
     (case List.find dial [''imap.'' @ domain @ '':993'', ''mail.'' @ domain @ '':993''] of
        Some addr \<Rightarrow> addr | None \<Rightarrow> [])"

definition resolveServer :: "(string \<Rightarrow> bool) \<Rightarrow> (string \<Rightarrow> ispdbIncoming list option) \<Rightarrow> string \<Rightarrow> string \<Rightarrow> string" where
  "resolveServer dial db email server =
     (if server \<noteq> [] then (if CHR '':'' \<in> set server then server else server @ '':993'')
      else
        (let domain = extractDomain email in
         if domain = [] \<or> isMicrosoftDomain domain then ''outlook.office365.com:993''
         else if ispdbLookup dial db domain \<noteq> [] then ispdbLookup dial db domain
         else guessServer dial domain))"

section \<open>The text of a mail\<close>

datatype charEncoding = ISO8859_1 | Windows1252 | ShiftJIS | ISO2022JP | EUCJP | GB18030 | Big5 | EUCKR

definition charsetDecoder :: "string \<Rightarrow> charEncoding option" where
  "charsetDecoder name =
     (let n = to_lower name in
      if n = ''iso-8859-1'' \<or> n = ''latin1'' then Some ISO8859_1
      else if n = ''windows-1252'' then Some Windows1252
      else if n = ''shift_jis'' \<or> n = ''shift-jis'' then Some ShiftJIS
      else if n = ''iso-2022-jp'' then Some ISO2022JP
      else if n = ''euc-jp'' then Some EUCJP
      else if n = ''gb2312'' \<or> n = ''gbk'' \<or> n = ''gb18030'' then Some GB18030
      else if n = ''big5'' then Some Big5
      else if n = ''euc-kr'' then Some EUCKR
      else None)"

type_synonym headers = "string \<Rightarrow> string"

record mimeLib =
  ml_read :: "string \<Rightarrow> (headers \<times> string) option"
  ml_media :: "string \<Rightarrow> bool \<times> string \<times> headers"
  ml_parts :: "string \<Rightarrow> string \<Rightarrow> (headers \<times> string) list"
  ml_base64 :: "string \<Rightarrow> string"
  ml_quoted :: "string \<Rightarrow> string"
  ml_charset :: "charEncoding \<Rightarrow> string \<Rightarrow> string option"
  ml_word :: "string \<Rightarrow> string option"

definition decodeCTE :: "mimeLib \<Rightarrow> string \<Rightarrow> string \<Rightarrow> string" where
  "decodeCTE lib body cte =
     (let c = to_lower (trim_space cte) in
      if c = ''base64'' then ml_base64 lib body else if c = ''quoted-printable'' then ml_quoted lib body else body)"

definition mail_truncate :: "string \<Rightarrow> nat \<Rightarrow> string" where
  "mail_truncate s n =
     (let rs = runes s in if length rs \<le> n then s else concat (map (encode_rune \<circ> fst) (take n rs)) @ ''...'')"

definition readTextBodyFull :: "mimeLib \<Rightarrow> string \<Rightarrow> string \<Rightarrow> string" where
  "readTextBodyFull lib body charset =
     trim_space (case charsetDecoder charset of
       None \<Rightarrow> body
     | Some c \<Rightarrow> (case ml_charset lib c body of Some t \<Rightarrow> t | None \<Rightarrow> body))"

definition readTextBody :: "mimeLib \<Rightarrow> string \<Rightarrow> string \<Rightarrow> string" where
  "readTextBody lib body charset = mail_truncate (readTextBodyFull lib body charset) 686"

text \<open>The loop over the parts: the first plain text ends it, the first HTML that is not empty is kept.\<close>

fun mail_parts :: "mimeLib \<Rightarrow> (headers \<times> string) list \<Rightarrow> string \<Rightarrow> string \<Rightarrow> string \<times> string \<times> string" where
  "mail_parts lib [] html charset = (if html \<noteq> [] then ([], html, charset) else ([], [], []))"
| "mail_parts lib ((hdr, body) # ps) html charset =
     (case ml_media lib (hdr ''Content-Type'') of
        (_, mt, par) \<Rightarrow>
          (let b = decodeCTE lib body (hdr ''Content-Transfer-Encoding'') in
           if has_prefix mt ''text/plain'' then (readTextBody lib b (par ''charset''), [], par ''charset'')
           else if has_prefix mt ''text/html'' \<and> html = []
             then mail_parts lib ps (readTextBodyFull lib b (par ''charset'')) (par ''charset'')
           else mail_parts lib ps html charset))"

text \<open>\<open>ml_media\<close> gives whether there was no error, the media type and its parameters.\<close>

definition getBodyPreview :: "mimeLib \<Rightarrow> string option \<Rightarrow> string \<times> string \<times> string" where
  "getBodyPreview lib r =
     (case r of
        None \<Rightarrow> ([], [], [])
      | Some raw \<Rightarrow>
          (case ml_read lib raw of
             None \<Rightarrow> ([], [], [])
           | Some (hdr, mbody) \<Rightarrow>
               (case ml_media lib (hdr ''Content-Type'') of
                  (ok, mt0, par) \<Rightarrow>
                    (let body = decodeCTE lib mbody (hdr ''Content-Transfer-Encoding'');
                         mt = (if ok then mt0 else ''text/plain'') in
                     if has_prefix mt ''text/plain'' then (readTextBody lib body (par ''charset''), [], par ''charset'')
                     else if has_prefix mt ''text/html'' then ([], readTextBodyFull lib body (par ''charset''), par ''charset'')
                     else if has_prefix mt ''multipart/'' then mail_parts lib (ml_parts lib mbody (par ''boundary'')) [] []
                     else ([], [], [])))))"

section \<open>Messages\<close>

record address =
  ad_MailboxName :: string
  ad_HostName :: string

record envelope =
  ve_Subject :: string
  ve_From :: "address option list"
  ve_To :: "address option list"
  ve_Cc :: "address option list"
  ve_Date :: "time option"

record imapMessage =
  mg_Uid :: int
  mg_Envelope :: "envelope option"
  mg_InternalDate :: "time option"
  mg_Body :: "string option"

record messageData =
  md_ID :: string
  md_Subject :: string
  md_From :: string
  md_To :: "string list"
  md_Cc :: "string list"
  md_BodyPreview :: string
  md_BodyHtml :: string
  md_Received :: string
  md_FolderID :: string
  md_FolderName :: string
  md_Charset :: string
  md_URL :: string
  md_AccountID :: string
  md_AccountName :: string

definition addrString :: "address \<Rightarrow> string" where
  "addrString a = ad_MailboxName a @ ''@'' @ ad_HostName a"

definition addrStrings :: "address option list \<Rightarrow> string list" where
  "addrStrings as = map addrString (List.map_filter id as)"

definition decodeWord :: "mimeLib \<Rightarrow> string \<Rightarrow> string" where
  "decodeWord lib s = (case ml_word lib s of Some t \<Rightarrow> t | None \<Rightarrow> s)"

text \<open>A zero date is \<open>None\<close>. \<open>fmt\<close> is \<open>Time.Format\<close> with RFC 3339.\<close>

definition fetched :: "mimeLib \<Rightarrow> (time \<Rightarrow> string) \<Rightarrow> string \<Rightarrow> string \<Rightarrow> imapMessage \<Rightarrow> messageData option" where
  "fetched lib fmt account folder msg =
     (case mg_Envelope msg of
        None \<Rightarrow> None
      | Some e \<Rightarrow>
          (case getBodyPreview lib (mg_Body msg) of
             (preview, html, charset) \<Rightarrow>
               Some \<lparr>md_ID = itoa (mg_Uid msg),
                     md_Subject = (if ve_Subject e \<noteq> [] then decodeWord lib (ve_Subject e) else []),
                     md_From = (case ve_From e of Some a # _ \<Rightarrow> addrString a | _ \<Rightarrow> []),
                     md_To = addrStrings (ve_To e), md_Cc = addrStrings (ve_Cc e),
                     md_BodyPreview = preview, md_BodyHtml = html,
                     md_Received = (case mg_InternalDate msg of Some t \<Rightarrow> fmt t
                                    | None \<Rightarrow> (case ve_Date e of Some t \<Rightarrow> fmt t | None \<Rightarrow> [])),
                     md_FolderID = folder, md_FolderName = folder, md_Charset = charset, md_URL = [],
                     md_AccountID = account, md_AccountName = []\<rparr>))"

definition hex_upper :: "nat \<Rightarrow> char" where
  "hex_upper n = ''0123456789ABCDEF'' ! n"

text \<open>\<open>url.PathEscape\<close>.\<close>

definition path_plain :: "char \<Rightarrow> bool" where
  "path_plain c \<longleftrightarrow> (let n = of_char c :: nat in
     48 \<le> n \<and> n \<le> 57 \<or> 65 \<le> n \<and> n \<le> 90 \<or> 97 \<le> n \<and> n \<le> 122) \<or> c \<in> set ''-_.~$&+=:@''"

definition mailPathEscape :: "string \<Rightarrow> string" where
  "mailPathEscape s = concat (map (\<lambda>c. if path_plain c then [c]
     else [CHR ''%'', hex_upper (of_char c div 16), hex_upper (of_char c mod 16)]) s)"

definition imapMessageURL :: "string \<Rightarrow> string \<Rightarrow> string \<Rightarrow> string \<Rightarrow> int \<Rightarrow> string \<Rightarrow> string" where
  "imapMessageURL u host port mailbox validity uid =
     ''imap://'' @ mailPathEscape u @ ''@'' @ host @ '':'' @ port @ ''/'' @ mailPathEscape mailbox
      @ (if 0 < validity then '';UIDVALIDITY='' @ itoa validity else []) @ ''/;UID='' @ uid"

definition json_texts :: "string list \<Rightarrow> json" where
  "json_texts xs = (if xs = [] then JNull else JArr (map JStr xs))"

definition messageData_json :: "messageData \<Rightarrow> json" where
  "messageData_json m = JObj
     ([(''id'', JStr (md_ID m)), (''subject'', JStr (md_Subject m)), (''from'', JStr (md_From m)), (''toRecipients'', json_texts (md_To m))]
      @ (if md_Cc m \<noteq> [] then [(''ccRecipients'', json_texts (md_Cc m))] else [])
      @ [(''bodyPreview'', JStr (md_BodyPreview m))]
      @ (if md_BodyHtml m \<noteq> [] then [(''bodyHtml'', JStr (md_BodyHtml m))] else [])
      @ [(''receivedDateTime'', JStr (md_Received m)), (''folderId'', JStr (md_FolderID m)), (''folderName'', JStr (md_FolderName m)),
         (''charset'', JStr (md_Charset m))]
      @ (if md_URL m \<noteq> [] then [(''url'', JStr (md_URL m))] else [])
      @ [(''account_id'', JStr (md_AccountID m)), (''account_name'', JStr (md_AccountName m))])"

definition mail_toUnified :: "(string \<Rightarrow> time option) \<Rightarrow> time \<Rightarrow> messageData \<Rightarrow> UnifiedMessage" where
  "mail_toUnified parseTime now m = zeroUM\<lparr>
     um_Text := (if md_URL m \<noteq> [] then md_URL m @ [CHR 0x0A] @ md_BodyPreview m else md_BodyPreview m),
     um_HTML := md_BodyHtml m, um_MsgFormat := FmtText, um_Protocol := ProtoEmailImap, um_ChatID := md_FolderID m,
     um_ChatName := md_FolderName m, um_Username := md_From m, um_UserID := md_From m, um_MsgType := MsgTypeCreate,
     um_MsgID := md_ID m, um_Timestamp := (case parseTime (md_Received m) of Some t \<Rightarrow> t | None \<Rightarrow> now),
     um_AccountID := md_AccountID m, um_AccountName := md_AccountName m, um_Raw := Some (messageData_json m)\<rparr>"

end
