(* ===== verification/Emailimap_Poll.thy ===== *)
theory Emailimap_Poll
  imports Emailimap
begin

text \<open>
  Polling and sending of \<open>src/fbprotocols/emailimap/emailimap.go\<close>. The IMAP client is the environment: its
  \<open>n\<close>-th call is answered by the field of that call at \<open>n\<close>. Calls whose answer is only logged (the capability
  probe, \<open>ID\<close>, \<open>ENABLE\<close>, \<open>LOGOUT\<close>) are left out. A state file that cannot be parsed is one with empty maps.
\<close>

section \<open>Settings\<close>

record imapConfig =
  ig_Auth :: string
  ig_Dir :: string
  ig_Server :: string
  ig_SMTP :: string
  ig_From :: string

definition zeroImapConfig :: imapConfig where
  "zeroImapConfig = \<lparr>ig_Auth = [], ig_Dir = [], ig_Server = [], ig_SMTP = [], ig_From = []\<rparr>"

definition dec_imapConfig :: "imapConfig decoder" where
  "dec_imapConfig = dec_struct
     [(''auth'', on ig_Auth ig_Auth_update dec_string), (''dir'', on ig_Dir ig_Dir_update dec_string),
      (''server'', on ig_Server ig_Server_update dec_string), (''smtp'', on ig_SMTP ig_SMTP_update dec_string),
      (''from'', on ig_From ig_From_update dec_string)]"

record imapAccount =
  ia_User :: string
  ia_Password :: string
  ia_Server :: string
  ia_Dirs :: "string list"
  ia_SMTP :: string
  ia_From :: string

text \<open>\<open>Start\<close> up to the start of \<open>poll\<close>; \<open>None\<close> when it gives up.\<close>

definition imapStart :: "json option \<Rightarrow> imapAccount option" where
  "imapStart info =
     (case unmarshal dec_imapConfig zeroImapConfig info of
        None \<Rightarrow> None
      | Some cfg \<Rightarrow>
          (let user = takeWhile (\<lambda>c. c \<noteq> CHR '':'') (ig_Auth cfg);
               pass = tl (dropWhile (\<lambda>c. c \<noteq> CHR '':'') (ig_Auth cfg));
               server = (if CHR '':'' \<in> set (ig_Server cfg) then ig_Server cfg else ig_Server cfg @ '':993'')
           in if CHR '':'' \<notin> set (ig_Auth cfg) \<or> user = [] \<or> pass = [] then None
              else Some \<lparr>ia_User = user, ia_Password = pass, ia_Server = server,
                         ia_Dirs = map trim_space (split_on CHR '','' (ig_Dir cfg)),
                         ia_SMTP = (if ig_SMTP cfg = [] then deriveSMTPServer server else ig_SMTP cfg),
                         ia_From = (if ig_From cfg = [] then deriveFrom user else ig_From cfg)\<rparr>))"

section \<open>State\<close>

datatype imapCall = CallDial | CallSupport | CallLogin | CallAuth | CallDirect | CallNoop
  | CallSelect string | CallSearch "int option" | CallFetch "int list"

text \<open>A search answers with what it found and perhaps an error; \<open>ie_select\<close> gives the validity number.\<close>

record imapEnv =
  ie_dial :: "nat \<Rightarrow> error option"
  ie_support :: "nat \<Rightarrow> error + bool"
  ie_login :: "nat \<Rightarrow> error option"
  ie_auth :: "nat \<Rightarrow> error option"
  ie_direct :: "nat \<Rightarrow> error option \<times> error option"
  ie_noop :: "nat \<Rightarrow> error option"
  ie_select :: "nat \<Rightarrow> string \<Rightarrow> error + int"
  ie_search :: "nat \<Rightarrow> int option \<Rightarrow> int list \<times> error option"
  ie_fetch :: "nat \<Rightarrow> int list \<Rightarrow> imapMessage list"
  ie_saves :: "nat \<Rightarrow> bool"
  ie_now :: "nat \<Rightarrow> time"
  ie_format :: "time \<Rightarrow> string"
  ie_parse :: "string \<Rightarrow> time option"
  ie_lib :: mimeLib

datatype imapPub = MailRaw messageData | MailUM UnifiedMessage

type_synonym uidMap = "(string \<times> int) list"

record imap =
  im_Folders :: uidMap
  im_UIDValid :: "uidMap option"
  im_file :: "(uidMap \<times> uidMap) option"
  im_calls :: "imapCall list"
  im_pubs :: "imapPub list"
  im_errs :: errRing
  im_crashed :: bool
  im_running :: bool

definition imapState :: "(uidMap \<times> uidMap) option \<Rightarrow> imap" where
  "imapState file = \<lparr>im_Folders = [], im_UIDValid = None, im_file = file, im_calls = [], im_pubs = [], im_errs = noErrs,
     im_crashed = False, im_running = False\<rparr>"

text \<open>Without a file the map of validity numbers stays nil.\<close>

definition imap_loadState :: "imap \<Rightarrow> imap" where
  "imap_loadState w =
     (case im_file w of
        None \<Rightarrow> w\<lparr>im_Folders := [], im_UIDValid := None\<rparr>
      | Some (fs, us) \<Rightarrow> w\<lparr>im_Folders := fs, im_UIDValid := Some us\<rparr>)"

definition imap_saveState :: "imapEnv \<Rightarrow> imap \<Rightarrow> imap" where
  "imap_saveState env w =
     (if ie_saves env (length (im_calls w))
      then w\<lparr>im_file := Some (im_Folders w, case im_UIDValid w of None \<Rightarrow> [] | Some us \<Rightarrow> us)\<rparr> else w)"

definition marker :: "imap \<Rightarrow> string \<Rightarrow> int" where
  "marker w dir = (case map_of (im_Folders w) dir of None \<Rightarrow> 0 | Some u \<Rightarrow> u)"

definition validity :: "imap \<Rightarrow> string \<Rightarrow> int" where
  "validity w dir = (case im_UIDValid w of None \<Rightarrow> 0 | Some us \<Rightarrow> (case map_of us dir of None \<Rightarrow> 0 | Some v \<Rightarrow> v))"

definition icall :: "imapCall \<Rightarrow> (nat \<Rightarrow> 'a) \<Rightarrow> imap \<Rightarrow> imap \<times> 'a" where
  "icall c answer w = (w\<lparr>im_calls := im_calls w @ [c]\<rparr>, answer (length (im_calls w)))"

definition imap_pushError :: "error \<Rightarrow> imap \<Rightarrow> imap" where
  "imap_pushError e w = w\<lparr>im_errs := ringPush e (im_errs w)\<rparr>"

definition imap_publish :: "imapPub \<Rightarrow> imap \<Rightarrow> imap" where
  "imap_publish v w = w\<lparr>im_pubs := im_pubs w @ [v]\<rparr>"

section \<open>Logging in\<close>

definition loginWithFallback :: "imapEnv \<Rightarrow> imap \<Rightarrow> imap \<times> error option" where
  "loginWithFallback env w =
     (case icall CallSupport (ie_support env) w of
        (w1, Inl e) \<Rightarrow> (w1, Some (''capability check error: '' @ e))
      | (w1, Inr True) \<Rightarrow>
          (case icall CallDirect (ie_direct env) w1 of
             (w2, Some e, _) \<Rightarrow> (w2, Some (''direct LOGIN failed: '' @ e))
           | (w2, None, Some e) \<Rightarrow> (w2, Some (''direct LOGIN rejected: '' @ e))
           | (w2, None, None) \<Rightarrow> (w2, None))
      | (w1, Inr False) \<Rightarrow>
          (case icall CallLogin (ie_login env) w1 of
             (w2, None) \<Rightarrow> (w2, None)
           | (w2, Some _) \<Rightarrow>
               (case icall CallAuth (ie_auth env) w2 of
                  (w3, None) \<Rightarrow> (w3, None)
                | (w3, Some e) \<Rightarrow> (w3, Some (''all auth methods failed (LOGIN and AUTHENTICATE PLAIN): '' @ e)))))"

section \<open>A folder\<close>

definition fetchMessages :: "imapEnv \<Rightarrow> string \<Rightarrow> int list \<Rightarrow> string \<Rightarrow> imap \<Rightarrow> imap \<times> messageData list" where
  "fetchMessages env account uids folder w =
     (case icall (CallFetch uids) (\<lambda>n. ie_fetch env n uids) w of
        (w1, msgs) \<Rightarrow> (w1, List.map_filter (fetched (ie_lib env) (ie_format env) account folder) msgs))"

definition located :: "string \<Rightarrow> string \<Rightarrow> string \<Rightarrow> string \<Rightarrow> int \<Rightarrow> messageData \<Rightarrow> messageData" where
  "located account host port dir v m = m\<lparr>md_URL := imapMessageURL account host port dir v (md_ID m)\<rparr>"

text \<open>The first synchronisation publishes a mail as it is and as a unified message.\<close>

definition publish_both :: "imapEnv \<Rightarrow> imap \<Rightarrow> messageData \<Rightarrow> imap" where
  "publish_both env w m =
     (let w1 = imap_publish (MailRaw m) w
      in imap_publish (MailUM (mail_toUnified (ie_parse env) (ie_now env (length (im_pubs w1))) m)) w1)"

definition publish_raw :: "imap \<Rightarrow> messageData \<Rightarrow> imap" where
  "publish_raw w m = imap_publish (MailRaw m) w"

definition advance :: "imapEnv \<Rightarrow> string \<Rightarrow> int list \<Rightarrow> imap \<Rightarrow> imap" where
  "advance env dir uids w =
     imap_saveState env (w\<lparr>im_Folders := AList.update dir (foldl max (marker w dir) uids) (im_Folders w)\<rparr>)"

text \<open>\<open>state.UIDValid[dir] = \<dots>\<close>, a panic while the map is nil.\<close>

definition setValidity :: "string \<Rightarrow> int \<Rightarrow> imap \<Rightarrow> imap" where
  "setValidity dir v w =
     (case im_UIDValid w of
        None \<Rightarrow> w\<lparr>im_crashed := True\<rparr>
      | Some us \<Rightarrow> w\<lparr>im_UIDValid := Some (AList.update dir v us)\<rparr>)"

definition next_uid :: "int \<Rightarrow> int" where
  "next_uid u = (u + 1) mod 2 ^ 32"

definition last_ten :: "int list \<Rightarrow> int list" where
  "last_ten us = drop (length us - 10) us"

text \<open>The numbers to fetch in the first synchronisation; \<open>None\<close> gives the folder up. A search from the marker
  that fails still uses what it returned, unfiltered.\<close>

definition initial_uids :: "imapEnv \<Rightarrow> string \<Rightarrow> imap \<Rightarrow> imap \<times> int list option" where
  "initial_uids env dir w =
     (if marker w dir = 0 then
        (case icall (CallSearch None) (\<lambda>n. ie_search env n None) w of
           (w1, us, None) \<Rightarrow> (w1, Some (last_ten us))
         | (w1, us, Some e) \<Rightarrow> (w1, None))
      else
        (let lo = Some (next_uid (marker w dir)) in
         case icall (CallSearch lo) (\<lambda>n. ie_search env n lo) w of
           (w1, us, None) \<Rightarrow> (w1, Some (filter (\<lambda>u. marker w dir < u) us))
         | (w1, us, Some e) \<Rightarrow> (w1, Some us)))"

definition imapSyncDir :: "imapEnv \<Rightarrow> string \<Rightarrow> string \<Rightarrow> string \<Rightarrow> imap \<Rightarrow> string \<Rightarrow> imap" where
  "imapSyncDir env account host port w dir =
     (if im_crashed w then w
      else case icall (CallSelect dir) (\<lambda>n. ie_select env n dir) w of
        (w1, Inl _) \<Rightarrow> w1
      | (w1, Inr v) \<Rightarrow>
          (let w2 = setValidity dir v w1 in
           if im_crashed w2 then w2
           else case initial_uids env dir w2 of
             (w3, None) \<Rightarrow> w3
           | (w3, Some uids) \<Rightarrow>
               if uids = [] then w3
               else (case fetchMessages env account uids dir w3 of
                 (w4, ms) \<Rightarrow>
                   advance env dir uids
                     (foldl (publish_both env) w4 (map (located account host port dir (validity w4 dir)) ms)))))"

definition imapPollDir :: "imapEnv \<Rightarrow> string \<Rightarrow> string \<Rightarrow> string \<Rightarrow> imap \<Rightarrow> string \<Rightarrow> imap" where
  "imapPollDir env account host port w dir =
     (if im_crashed w then w
      else case icall (CallSelect dir) (\<lambda>n. ie_select env n dir) w of
        (w1, Inl _) \<Rightarrow> w1
      | (w1, Inr v) \<Rightarrow>
          (let w2 = setValidity dir v w1; lo = Some (next_uid (marker w2 dir)) in
           if im_crashed w2 \<or> marker w2 dir = 0 then w2
           else case icall (CallSearch lo) (\<lambda>n. ie_search env n lo) w2 of
             (w3, us, Some _) \<Rightarrow> w3
           | (w3, us, None) \<Rightarrow>
               (let uids = filter (\<lambda>u. marker w2 dir < u) us in
                if uids = [] then w3
                else (case fetchMessages env account uids dir w3 of
                  (w4, ms) \<Rightarrow>
                    advance env dir uids
                      (foldl publish_raw w4 (map (located account host port dir (validity w4 dir)) ms))))))"

section \<open>The loop\<close>

text \<open>A connection that does not answer is replaced; the folders wait for the next round if that fails.\<close>

definition reconnect :: "imapEnv \<Rightarrow> imap \<Rightarrow> imap \<times> bool" where
  "reconnect env w =
     (case icall CallNoop (ie_noop env) w of
        (w1, None) \<Rightarrow> (w1, True)
      | (w1, Some _) \<Rightarrow>
          (case icall CallDial (ie_dial env) w1 of
             (w2, Some e) \<Rightarrow> (imap_pushError e w2, False)
           | (w2, None) \<Rightarrow>
               (case loginWithFallback env w2 of
                  (w3, Some e) \<Rightarrow> (imap_pushError e w3, False)
                | (w3, None) \<Rightarrow> (w3, True))))"

definition host_port :: "string \<Rightarrow> string \<times> string" where
  "host_port server = (case splitHostPort server of Inl _ \<Rightarrow> (server, ''143'') | Inr hp \<Rightarrow> hp)"

definition imapRound :: "imapEnv \<Rightarrow> imapAccount \<Rightarrow> imap \<Rightarrow> imap" where
  "imapRound env ac w =
     (case host_port (ia_Server ac) of
        (host, port) \<Rightarrow>
          (case reconnect env w of
             (w1, False) \<Rightarrow> w1
           | (w1, True) \<Rightarrow> foldl (imapPollDir env (ia_User ac) host port) w1 (ia_Dirs ac)))"

definition imapBegin :: "imapEnv \<Rightarrow> imapAccount \<Rightarrow> imap \<Rightarrow> imap \<times> bool" where
  "imapBegin env ac w =
     (case icall CallDial (ie_dial env) (w\<lparr>im_running := True\<rparr>) of
        (w1, Some e) \<Rightarrow> ((imap_pushError e w1)\<lparr>im_running := False\<rparr>, False)
      | (w1, None) \<Rightarrow>
          (case loginWithFallback env w1 of
             (w2, Some e) \<Rightarrow> ((imap_pushError e w2)\<lparr>im_running := False\<rparr>, False)
           | (w2, None) \<Rightarrow> (imap_loadState w2, True)))"

definition imapPoll :: "imapEnv \<Rightarrow> imapAccount \<Rightarrow> nat \<Rightarrow> imap \<Rightarrow> imap" where
  "imapPoll env ac k w =
     (case imapBegin env ac w of
        (w1, False) \<Rightarrow> w1
      | (w1, True) \<Rightarrow>
          (case host_port (ia_Server ac) of
             (host, port) \<Rightarrow>
               ((\<lambda>w. if im_crashed w then w else imapRound env ac w) ^^ k)
                 (foldl (imapSyncDir env (ia_User ac) host port) w1 (ia_Dirs ac))))"

section \<open>Sending\<close>

definition crlf :: string where
  "crlf = [CHR 0x0D, CHR 0x0A]"

definition recipients :: "string \<Rightarrow> string list" where
  "recipients to = filter (\<lambda>r. CHR ''@'' \<in> set r) (map trim_space (split_on CHR '','' to))"

definition mail_text :: "string \<Rightarrow> string list \<Rightarrow> string \<Rightarrow> string \<Rightarrow> string" where
  "mail_text from rs subject msg =
     ''From: '' @ from @ crlf @ ''To: '' @ join_with '', '' rs @ crlf @ ''Subject: '' @ subject @ crlf
      @ ''MIME-Version: 1.0'' @ crlf @ ''Content-Type: text/plain; charset='' @ [CHR 0x22] @ ''UTF-8'' @ [CHR 0x22] @ crlf
      @ ''Content-Transfer-Encoding: 8bit'' @ crlf @ crlf @ msg"

text \<open>\<open>smtp\<close> is \<open>SendMail\<close>: address, host of the credentials, sender, recipients and text.\<close>

definition imap_Send ::
  "(string \<Rightarrow> string \<Rightarrow> string \<Rightarrow> string list \<Rightarrow> string \<Rightarrow> error option) \<Rightarrow> string \<Rightarrow> string \<Rightarrow> string \<Rightarrow> string \<Rightarrow> string \<Rightarrow> error option" where
  "imap_Send smtp addr from to msg msgType =
     (if to = [] \<or> msg = [] then Some ''emailimap: empty to or message''
      else if addr = [] then Some ''emailimap: SMTP not configured''
      else if from = [] then Some ''emailimap: from address not configured''
      else if recipients to = [] then Some ''emailimap: no valid recipients''
      else case splitHostPort addr of
        Inl e \<Rightarrow> Some (''emailimap: invalid SMTP addr: '' @ e)
      | Inr (host, _) \<Rightarrow>
          (case smtp addr host from (recipients to)
                 (mail_text from (recipients to) (if msgType = [] then ''Message from fedlet'' else msgType) msg) of
             Some e \<Rightarrow> Some (''emailimap: '' @ e)
           | None \<Rightarrow> None))"

end
