(* ===== verification/Emailimap_Props.thy ===== *)
theory Emailimap_Props
  imports Emailimap_Poll
begin

text \<open>
  What polling promises: a mail is published once, and what lies below the marker of its folder never again;
  a folder that was empty at the start is not watched; the first start of all panics.
\<close>

section \<open>Markers and what is published\<close>

fun mail_raw :: "imapPub \<Rightarrow> messageData option" where
  "mail_raw (MailRaw m) = Some m"
| "mail_raw (MailUM um) = None"

definition mail_key :: "messageData \<Rightarrow> string \<times> string" where
  "mail_key m = (md_FolderID m, md_ID m)"

definition mail_keys :: "imap \<Rightarrow> (string \<times> string) list" where
  "mail_keys w = map mail_key (List.map_filter mail_raw (im_pubs w))"

text \<open>What the server promises: numbers are positive, a search that fails gives none, and a fetch answers at most
  once for each number that was asked for.\<close>

definition imap_contract :: "imapEnv \<Rightarrow> bool" where
  "imap_contract env \<longleftrightarrow>
     (\<forall>n lo us r. ie_search env n lo = (us, r) \<longrightarrow> (\<forall>u \<in> set us. 0 < u) \<and> (r \<noteq> None \<longrightarrow> us = [])) \<and>
     (\<forall>n us. distinct (map mg_Uid (ie_fetch env n us)) \<and> mg_Uid ` set (ie_fetch env n us) \<subseteq> set us)"

text \<open>A step keeps the markers or raises them, and publishes numbers between the old and the new marker.\<close>

definition mail_step :: "imap \<Rightarrow> imap \<Rightarrow> bool" where
  "mail_step w w' \<longleftrightarrow> (\<forall>d. marker w d \<le> marker w' d) \<and>
     (\<exists>ks. mail_keys w' = mail_keys w @ map (map_prod id itoa) ks \<and> distinct ks \<and>
        (\<forall>(d, u) \<in> set ks. marker w d < u \<and> u \<le> marker w' d))"

lemma mail_step_refl: "mail_step w w"
  by (auto simp: mail_step_def)

lemma mail_step_trans:
  assumes "mail_step u v" "mail_step v w"
  shows "mail_step u w"
proof -
  obtain ks ls where ks: "mail_keys v = mail_keys u @ map (map_prod id itoa) ks" "distinct ks"
      "\<forall>(d, i) \<in> set ks. marker u d < i \<and> i \<le> marker v d"
    and ls: "mail_keys w = mail_keys v @ map (map_prod id itoa) ls" "distinct ls"
      "\<forall>(d, i) \<in> set ls. marker v d < i \<and> i \<le> marker w d"
    and le: "\<forall>d. marker u d \<le> marker v d" "\<forall>d. marker v d \<le> marker w d"
    using assms unfolding mail_step_def by blast
  have "set ks \<inter> set ls = {}" using ks(3) ls(3) by fastforce
  moreover have "\<forall>(d, i) \<in> set (ks @ ls). marker u d < i \<and> i \<le> marker w d"
    using ks(3) ls(3) le by (auto simp: Ball_def) (meson order.strict_trans1 order.trans)+
  ultimately show ?thesis using ks ls le unfolding mail_step_def
    by (intro conjI exI [of _ "ks @ ls"]) (auto intro: order.trans)
qed

lemma mail_step_same:
  "im_pubs w' = im_pubs w \<Longrightarrow> im_Folders w' = im_Folders w \<Longrightarrow> mail_step w w'"
  by (simp add: mail_step_def mail_keys_def marker_def)

lemma icall_fields:
  "icall c f w = (w1, a) \<Longrightarrow> im_pubs w1 = im_pubs w \<and> im_Folders w1 = im_Folders w \<and> im_UIDValid w1 = im_UIDValid w
     \<and> im_file w1 = im_file w \<and> im_crashed w1 = im_crashed w"
  by (auto simp: icall_def)

lemma setValidity_fields [simp]:
  "im_pubs (setValidity d v w) = im_pubs w" "im_Folders (setValidity d v w) = im_Folders w"
  by (simp_all add: setValidity_def split: option.split)

lemma mail_keys_publish_raw: "mail_keys (foldl publish_raw w ms) = mail_keys w @ map mail_key ms"
  by (induction ms arbitrary: w) (simp_all add: publish_raw_def imap_publish_def mail_keys_def List.map_filter_def)

lemma mail_keys_publish_both: "mail_keys (foldl (publish_both env) w ms) = mail_keys w @ map mail_key ms"
  by (induction ms arbitrary: w) (simp_all add: publish_both_def imap_publish_def mail_keys_def List.map_filter_def Let_def)

lemma publish_folders [simp]:
  "im_Folders (foldl publish_raw w ms) = im_Folders w" "im_Folders (foldl (publish_both env) w ms) = im_Folders w"
  by (induction ms arbitrary: w) (simp_all add: publish_raw_def publish_both_def imap_publish_def Let_def)

lemma foldl_max_bound: "a \<le> foldl max a us \<and> (\<forall>u \<in> set us. u \<le> foldl max (a :: int) us)"
proof (induction us arbitrary: a)
  case (Cons x us)
  from Cons [of "max a x"] show ?case by auto
qed simp

lemma marker_advance: "marker (advance env dir us w) d = (if d = dir then foldl max (marker w dir) us else marker w d)"
  by (simp add: advance_def imap_saveState_def marker_def map_of_eq_None_iff map_update update_conv' split: option.split)

lemma mail_keys_advance [simp]: "mail_keys (advance env dir us w) = mail_keys w"
  by (simp add: advance_def imap_saveState_def mail_keys_def)

lemma fetched_key:
  "fetched lib fmt account folder msg = Some m \<Longrightarrow> mail_key m = (folder, itoa (mg_Uid msg))"
  by (auto simp: fetched_def mail_key_def split: option.splits prod.splits)

lemma fetched_keys:
  assumes "distinct (map mg_Uid msgs)"
  shows "\<exists>us. map mail_key (map (located a h p dir v) (List.map_filter (fetched lib fmt account dir) msgs)) =
      map (map_prod id itoa) (map (Pair dir) us) \<and> distinct us \<and> set us \<subseteq> mg_Uid ` set msgs"
  using assms
proof (induction msgs)
  case (Cons m msgs)
  then have "distinct (map mg_Uid msgs)" by simp
  from Cons.IH [OF this] obtain us where us: "map mail_key (map (located a h p dir v) (List.map_filter (fetched lib fmt account dir) msgs)) =
      map (map_prod id itoa) (map (Pair dir) us)" "distinct us" "set us \<subseteq> mg_Uid ` set msgs" by blast
  show ?case
  proof (cases "fetched lib fmt account dir m")
    case None then show ?thesis using us by (intro exI [of _ us]) (auto simp: List.map_filter_def)
  next
    case (Some d)
    moreover from this have "mail_key (located a h p dir v d) = (dir, itoa (mg_Uid m))"
      using fetched_key by (simp add: located_def mail_key_def)
    moreover have "mg_Uid m \<notin> set us" using us(3) Cons.prems by auto
    ultimately show ?thesis using us by (intro exI [of _ "mg_Uid m # us"]) (auto simp: List.map_filter_def)
  qed
qed (simp add: List.map_filter_def)

text \<open>The common end of both ways to handle a folder.\<close>

lemma mail_step_batch:
  assumes c: "imap_contract env" and f: "fetchMessages env account uids dir w3 = (w4, ms)"
    and new: "\<forall>u \<in> set uids. marker w3 dir < u"
    and keys: "mail_keys w5 = mail_keys w4 @ map mail_key (map (located account host port dir v) ms)" and fo: "im_Folders w5 = im_Folders w4"
  shows "mail_step w3 (advance env dir uids w5)"
proof -
  obtain msgs where i: "icall (CallFetch uids) (\<lambda>n. ie_fetch env n uids) w3 = (w4, msgs)"
    and ms: "ms = List.map_filter (fetched (ie_lib env) (ie_format env) account dir) msgs"
    using f by (auto simp: fetchMessages_def split: prod.splits)
  have g: "distinct (map mg_Uid msgs)" "mg_Uid ` set msgs \<subseteq> set uids"
    using i c by (fastforce simp: icall_def imap_contract_def)+
  have w4: "mail_keys w4 = mail_keys w3" "im_Folders w4 = im_Folders w3" using icall_fields [OF i] by (simp_all add: mail_keys_def)
  obtain us where us: "map mail_key (map (located account host port dir v) ms) = map (map_prod id itoa) (map (Pair dir) us)"
      "distinct us" "set us \<subseteq> mg_Uid ` set msgs"
    using fetched_keys [OF g(1)] unfolding ms by blast
  have m: "marker w5 d = marker w3 d" for d using fo w4 by (simp add: marker_def)
  have b: "marker w3 dir \<le> foldl max (marker w3 dir) uids" "\<forall>u \<in> set uids. u \<le> foldl max (marker w3 dir) uids"
    using foldl_max_bound by blast+
  show ?thesis unfolding mail_step_def
  proof (intro conjI exI)
    show "\<forall>d. marker w3 d \<le> marker (advance env dir uids w5) d" using b(1) by (simp add: marker_advance m)
    show "mail_keys (advance env dir uids w5) = mail_keys w3 @ map (map_prod id itoa) (map (Pair dir) us)"
      using keys us(1) w4 by simp
    show "distinct (map (Pair dir) us)" using us(2) by (simp add: distinct_map inj_on_def)
    show "\<forall>(d, u) \<in> set (map (Pair dir) us). marker w3 d < u \<and> u \<le> marker (advance env dir uids w5) d"
      using us(3) g(2) new b(2) by (auto simp: marker_advance m)
  qed
qed

section \<open>Rounds\<close>

lemma initial_uids_new:
  assumes c: "imap_contract env" and i: "initial_uids env dir w = (w1, r)"
  shows "im_pubs w1 = im_pubs w" "im_Folders w1 = im_Folders w" "\<And>us u. r = Some us \<Longrightarrow> u \<in> set us \<Longrightarrow> marker w dir < u"
proof -
  show "im_pubs w1 = im_pubs w" "im_Folders w1 = im_Folders w"
    using i by (auto simp: initial_uids_def Let_def split: prod.splits option.splits if_splits dest!: icall_fields)
  show "marker w dir < u" if "r = Some us" "u \<in> set us" for us u
  proof -
    have pos: "0 < x" if "ie_search env n lo = (xs, q)" "x \<in> set xs" for n lo xs q x using c that by (fastforce simp: imap_contract_def)
    have err: "xs = []" if "ie_search env n lo = (xs, Some e)" for n lo xs e using c that by (fastforce simp: imap_contract_def)
    show ?thesis using i that
      by (auto simp: initial_uids_def icall_def Let_def last_ten_def split: prod.splits option.splits if_splits
          dest!: in_set_dropD err intro: pos)
  qed
qed

lemma selected:
  assumes "icall (CallSelect dir) f w = (w1, sel)"
  shows "mail_step w w1" "mail_step w (setValidity dir v w1)"
  using icall_fields [OF assms] by (auto intro: mail_step_same)

lemma syncDir_step:
  assumes c: "imap_contract env"
  shows "mail_step w (imapSyncDir env account host port w dir)"
proof (cases "im_crashed w")
  case True then show ?thesis by (simp add: imapSyncDir_def mail_step_refl)
next
  case False
  obtain w1 sel where 1: "icall (CallSelect dir) (\<lambda>n. ie_select env n dir) w = (w1, sel)" by fastforce
  show ?thesis
  proof (cases sel)
    case Inl then show ?thesis using False 1 selected [OF 1] by (simp add: imapSyncDir_def)
  next
    case (Inr v)
    define w2 where "w2 = setValidity dir v w1"
    have s2: "mail_step w w2" using selected [OF 1] by (simp add: w2_def)
    obtain w3 r where 3: "initial_uids env dir w2 = (w3, r)" by fastforce
    note f3 = initial_uids_new [OF c 3]
    have s3: "mail_step w w3" using f3 by (intro mail_step_trans [OF s2] mail_step_same) simp_all
    have m3: "marker w3 dir = marker w2 dir" using f3(2) by (simp add: marker_def)
    have "mail_step w3 (advance env dir us (foldl (publish_both env) w4 (map (located account host port dir (validity w4 dir)) ms)))"
      if "r = Some us" "fetchMessages env account us dir w3 = (w4, ms)" for us w4 ms
      using f3(3) [OF that(1)] m3 by (intro mail_step_batch [OF c that(2)]) (auto simp: mail_keys_publish_both)
    then have all: "mail_step w (case r of None \<Rightarrow> w3 | Some us \<Rightarrow> if us = [] then w3 else (case fetchMessages env account us dir w3 of (w4, ms) \<Rightarrow>
        advance env dir us (foldl (publish_both env) w4 (map (located account host port dir (validity w4 dir)) ms))))"
      using s3 by (auto split: option.split prod.split intro: mail_step_trans)
    have "imapSyncDir env account host port w dir = (if im_crashed w2 then w2 else case r of None \<Rightarrow> w3
        | Some us \<Rightarrow> if us = [] then w3 else (case fetchMessages env account us dir w3 of (w4, ms) \<Rightarrow>
            advance env dir us (foldl (publish_both env) w4 (map (located account host port dir (validity w4 dir)) ms))))"
      using False 1 Inr 3 by (simp add: imapSyncDir_def Let_def w2_def)
    then show ?thesis using all s2 by simp
  qed
qed

lemma pollDir_step:
  assumes c: "imap_contract env"
  shows "mail_step w (imapPollDir env account host port w dir)"
proof (cases "im_crashed w")
  case True then show ?thesis by (simp add: imapPollDir_def mail_step_refl)
next
  case False
  obtain w1 sel where 1: "icall (CallSelect dir) (\<lambda>n. ie_select env n dir) w = (w1, sel)" by fastforce
  show ?thesis
  proof (cases sel)
    case Inl then show ?thesis using False 1 selected [OF 1] by (simp add: imapPollDir_def)
  next
    case (Inr v)
    define w2 where "w2 = setValidity dir v w1"
    define lo where "lo = Some (next_uid (marker w2 dir))"
    have s2: "mail_step w w2" using selected [OF 1] by (simp add: w2_def)
    obtain w3 us e where 3: "icall (CallSearch lo) (\<lambda>n. ie_search env n lo) w2 = (w3, us, e)" by (metis prod_cases3)
    note f3 = icall_fields [OF 3]
    have s3: "mail_step w w3" using f3 by (intro mail_step_trans [OF s2] mail_step_same) simp_all
    have m3: "marker w3 d = marker w2 d" for d using f3 by (simp add: marker_def)
    define uids where "uids = filter (\<lambda>u. marker w2 dir < u) us"
    have "mail_step w3 (advance env dir uids (foldl publish_raw w4 (map (located account host port dir (validity w4 dir)) ms)))"
      if "fetchMessages env account uids dir w3 = (w4, ms)" for w4 ms
      by (intro mail_step_batch [OF c that]) (auto simp: mail_keys_publish_raw m3 uids_def)
    then have all: "mail_step w (case fetchMessages env account uids dir w3 of (w4, ms) \<Rightarrow>
        advance env dir uids (foldl publish_raw w4 (map (located account host port dir (validity w4 dir)) ms)))"
      using s3 by (auto split: prod.split intro: mail_step_trans)
    have "imapPollDir env account host port w dir = (if im_crashed w2 \<or> marker w2 dir = 0 then w2 else case e of Some _ \<Rightarrow> w3
        | None \<Rightarrow> if uids = [] then w3 else (case fetchMessages env account uids dir w3 of (w4, ms) \<Rightarrow>
            advance env dir uids (foldl publish_raw w4 (map (located account host port dir (validity w4 dir)) ms))))"
      using False 1 Inr 3 unfolding lo_def uids_def w2_def by (simp add: imapPollDir_def Let_def)
    then show ?thesis using all s2 s3 by (simp split: option.split)
  qed
qed

lemma mail_step_foldl: "(\<And>w x. mail_step w (f w x)) \<Longrightarrow> mail_step w (foldl f w xs)"
  by (induction xs arbitrary: w) (auto intro: mail_step_refl mail_step_trans)

lemma login_fields:
  "loginWithFallback env w = (w1, r) \<Longrightarrow> im_pubs w1 = im_pubs w \<and> im_Folders w1 = im_Folders w \<and> im_UIDValid w1 = im_UIDValid w
     \<and> im_file w1 = im_file w \<and> im_crashed w1 = im_crashed w"
  by (auto simp: loginWithFallback_def icall_def split: sum.splits bool.splits option.splits prod.splits)

lemma reconnect_fields:
  "reconnect env w = (w1, r) \<Longrightarrow> im_pubs w1 = im_pubs w \<and> im_Folders w1 = im_Folders w"
  by (auto simp: reconnect_def imap_pushError_def split: option.splits prod.splits dest!: icall_fields login_fields)

lemma round_step:
  assumes "imap_contract env" shows "mail_step w (imapRound env ac w)"
proof -
  obtain w1 r where 1: "reconnect env w = (w1, r)" by fastforce
  have "mail_step w w1" using reconnect_fields [OF 1] by (intro mail_step_same) simp_all
  then show ?thesis using 1 unfolding imapRound_def
    by (cases r) (auto split: prod.split intro: mail_step_trans mail_step_foldl pollDir_step [OF assms])
qed

lemma rounds_step:
  assumes "imap_contract env"
  shows "mail_step w (((\<lambda>w. if im_crashed w then w else imapRound env ac w) ^^ k) w)"
  by (induction k) (auto intro: mail_step_refl mail_step_trans round_step [OF assms])

text \<open>C33: whatever the connections do, no mail of a folder is published twice by one process, as long as the
  numbers of the folder stay valid.\<close>

theorem imap_published_once:
  assumes "imap_contract env"
  shows "distinct (mail_keys (imapPoll env ac k (imapState file)))"
proof -
  obtain w1 r where b: "imapBegin env ac (imapState file) = (w1, r)" by fastforce
  have p: "mail_keys w1 = []"
    using b by (auto simp: imapBegin_def imapState_def imap_loadState_def imap_pushError_def mail_keys_def List.map_filter_def
        split: option.splits prod.splits dest!: icall_fields login_fields)
  define w2 where "w2 = (if r then imapPoll env ac k (imapState file) else w1)"
  have "mail_step w1 w2"
    unfolding w2_def imapPoll_def b
    by (auto split: prod.split intro: mail_step_refl
        mail_step_trans [OF mail_step_foldl [OF syncDir_step [OF assms]] rounds_step [OF assms]])
  moreover have "w2 = imapPoll env ac k (imapState file)" by (simp add: w2_def imapPoll_def b)
  ultimately obtain ks where "mail_keys (imapPoll env ac k (imapState file)) = map (map_prod id itoa) ks" "distinct ks"
    using p by (auto simp: mail_step_def)
  then show ?thesis by (auto simp: distinct_map inj_on_def itoa_inj map_prod_def)
qed

section \<open>What is never published\<close>

lemma setValidity_None: "im_UIDValid w = None \<Longrightarrow> im_crashed (setValidity d v w)"
  by (simp add: setValidity_def)

text \<open>C34: without a state file, which only a completed synchronisation writes, the first folder that can be
  selected ends the process: nothing is published and no file is written.\<close>

theorem imap_first_start_crashes:
  assumes "\<And>n. ie_dial env n = None" "\<And>n. ie_support env n = Inr False" "\<And>n. ie_login env n = None"
    and "\<And>n d. d \<in> set (ia_Dirs ac) \<Longrightarrow> \<exists>v. ie_select env n d = Inr v" "ia_Dirs ac \<noteq> []"
  shows "im_crashed (imapPoll env ac k (imapState None)) \<and> im_pubs (imapPoll env ac k (imapState None)) = []
    \<and> im_file (imapPoll env ac k (imapState None)) = None"
proof -
  obtain d ds where d: "ia_Dirs ac = d # ds" using assms(5) by (cases "ia_Dirs ac") auto
  obtain w1 where b: "imapBegin env ac (imapState None) = (w1, True)"
    and w1: "im_UIDValid w1 = None" "\<not> im_crashed w1" "im_pubs w1 = []" "im_file w1 = None"
    using assms(1-3) by (simp add: imapBegin_def loginWithFallback_def icall_def imap_loadState_def imapState_def)
  have stay: "foldl (imapSyncDir env a h p) w es = w" if "im_crashed w" for a h p w es
    using that by (induction es) (simp_all add: imapSyncDir_def)
  have turn: "((\<lambda>w. if im_crashed w then w else imapRound env ac w) ^^ k) w = w" if "im_crashed w" for w
    using that by (induction k) simp_all
  have one: "im_crashed (imapSyncDir env a h p w1 d) \<and> im_pubs (imapSyncDir env a h p w1 d) = [] \<and> im_file (imapSyncDir env a h p w1 d) = None" for a h p
    using w1 assms(4) [of d "length (im_calls w1)"] d by (auto simp: imapSyncDir_def icall_def Let_def setValidity_def)
  show ?thesis
    by (simp add: imapPoll_def b d stay turn one split: prod.split)
qed

lemma pollDir_marker_zero:
  assumes "imap_contract env" "marker w d = 0"
  shows "marker (imapPollDir env account host port w dir) d = 0"
proof (cases "dir = d")
  case True
  have "marker (setValidity d v w1) d = 0" if "icall (CallSelect d) f w = (w1, sel)" for f w1 sel v
    using icall_fields [OF that] assms(2) by (simp add: marker_def)
  then show ?thesis using True assms(2)
    by (auto simp: imapPollDir_def Let_def split: prod.split sum.split dest: icall_fields simp: marker_def)
next
  case False
  have keep: "marker w' d = 0" if "im_Folders w' = im_Folders w" for w' using that assms(2) by (simp add: marker_def)
  have adv: "marker (advance env dir us w') d = 0" if "im_Folders w' = im_Folders w" for us w'
    using False keep [OF that] by (simp add: marker_advance)
  show ?thesis unfolding imapPollDir_def Let_def
    by (auto split: prod.split sum.split option.split simp: fetchMessages_def dest!: icall_fields intro!: keep adv)
qed

text \<open>A folder that was empty when the process started, so that its marker is still zero, is not read by
  any later round, whatever arrives in it.\<close>

theorem imap_empty_folder_unwatched:
  assumes "imap_contract env" "marker w d = 0"
  shows "\<exists>ks. mail_keys (imapRound env ac w) = mail_keys w @ ks \<and> d \<notin> fst ` set ks \<and> marker (imapRound env ac w) d = 0"
proof -
  obtain ks where ks: "mail_keys (imapRound env ac w) = mail_keys w @ map (map_prod id itoa) ks"
      "\<forall>(e, u) \<in> set ks. marker w e < u \<and> u \<le> marker (imapRound env ac w) e"
    using round_step [OF assms(1), of w ac] unfolding mail_step_def by blast
  have "marker (foldl (imapPollDir env a h p) v es) d = 0" if "marker v d = 0" for a h p v es
    using that by (induction es arbitrary: v) (simp_all add: pollDir_marker_zero [OF assms(1)])
  moreover have "marker v d = 0" if "reconnect env w = (v, r)" for v r
    using reconnect_fields [OF that] assms(2) by (simp add: marker_def)
  ultimately have m: "marker (imapRound env ac w) d = 0"
    by (auto simp: imapRound_def split: prod.split bool.split)
  then have "d \<notin> fst ` set (map (map_prod id itoa) ks)" using ks(2) assms(2) by force
  then show ?thesis using ks(1) m by blast
qed

lemma mail_below_marker_lost:
  assumes "imap_contract env" "u \<le> marker w d" "(d, itoa u) \<notin> set (mail_keys w)"
  shows "(d, itoa u) \<notin> set (mail_keys (imapRound env ac w)) \<and> u \<le> marker (imapRound env ac w) d"
  using round_step [OF assms(1), of w ac] assms(2,3) unfolding mail_step_def by (force simp: itoa_inj intro: order.trans)

section \<open>Examples\<close>

definition mime0 :: mimeLib where
  "mime0 = \<lparr>ml_read = (\<lambda>_. None), ml_media = (\<lambda>_. (False, [], \<lambda>_. [])), ml_parts = (\<lambda>_ _. []), ml_base64 = id, ml_quoted = id,
     ml_charset = (\<lambda>_ _. None), ml_word = (\<lambda>_. None)\<rparr>"

definition mail0 :: "int \<Rightarrow> imapMessage" where
  "mail0 u = \<lparr>mg_Uid = u, mg_Envelope = Some \<lparr>ve_Subject = ''hi'', ve_From = [], ve_To = [], ve_Cc = [], ve_Date = None\<rparr>,
     mg_InternalDate = None, mg_Body = None\<rparr>"

definition imap_env0 :: imapEnv where
  "imap_env0 = \<lparr>ie_dial = (\<lambda>_. None), ie_support = (\<lambda>_. Inr False), ie_login = (\<lambda>_. None), ie_auth = (\<lambda>_. None),
     ie_direct = (\<lambda>_. (None, None)), ie_noop = (\<lambda>_. None), ie_select = (\<lambda>_ _. Inr 5), ie_search = (\<lambda>_ _. ([3, 7], None)),
     ie_fetch = (\<lambda>_ us. map mail0 (remdups us)), ie_saves = (\<lambda>_. True), ie_now = (\<lambda>_. 0), ie_format = (\<lambda>_. []),
     ie_parse = (\<lambda>_. None), ie_lib = mime0\<rparr>"

definition imap_ac0 :: imapAccount where
  "imap_ac0 = \<lparr>ia_User = ''u'', ia_Password = ''p'', ia_Server = ''m:993'', ia_Dirs = [''INBOX''], ia_SMTP = ''m:587'', ia_From = ''u@m''\<rparr>"

lemma imap_contract0: "imap_contract imap_env0"
  by (auto simp: imap_contract_def imap_env0_def mail0_def comp_def)

lemma imap_published_once_witness:
  "distinct (mail_keys (imapPoll imap_env0 imap_ac0 3 (imapState (Some ([], [])))))"
  by (rule imap_published_once [OF imap_contract0])

lemma imap_first_start_crashes_witness:
  "im_crashed (imapPoll imap_env0 imap_ac0 3 (imapState None))"
  using imap_first_start_crashes [of imap_env0 imap_ac0 3] by (simp add: imap_env0_def imap_ac0_def)

lemma imap_empty_folder_unwatched_witness:
  "marker (imapRound imap_env0 imap_ac0 (imapState (Some ([], [])))) ''INBOX'' = 0"
proof -
  have "marker (imapState (Some ([], []))) ''INBOX'' = 0" by (simp add: marker_def imapState_def)
  then show ?thesis using imap_empty_folder_unwatched [OF imap_contract0, of "imapState (Some ([], []))" "''INBOX''" imap_ac0] by blast
qed

end
