(* ===== verification/Misskey.thy ===== *)
theory Misskey
  imports Unimessage Dispatch
begin

text \<open>
  The Misskey bridge, \<open>src/fbprotocols/misskey/\<close>: the API client of \<open>client.go\<close>, and sending, deleting and
  polling of \<open>misskey.go\<close>. The network answers the \<open>n\<close>-th request; \<open>mk_json\<close> parses the value at the start of a
  text, \<open>mk_cfg n\<close> is the configuration after \<open>n\<close> requests. Texts of encoding errors and log lines are left out.
\<close>

section \<open>Requests\<close>

datatype mkRequest = MkPost string json | MkUpload string string string bytes
datatype mkAnswer = MkNetError error | MkAnswer nat string

record mkEnv =
  mk_net :: "nat \<Rightarrow> mkRequest \<Rightarrow> mkAnswer"
  mk_json :: "string \<Rightarrow> json option"
  mk_cfg :: "nat \<Rightarrow> string \<times> string \<times> string"
  mk_parseTime :: "string \<Rightarrow> time option"
  mk_saves :: "nat \<Rightarrow> bool"

datatype mkPub = MkRaw "string \<rightharpoonup> json" | MkUM UnifiedMessage

text \<open>\<open>mk_file\<close> is the marker in the state file; a file that cannot be read or parsed holds an empty one.\<close>

record misskey =
  mk_since :: string
  mk_file :: string
  mk_firstRun :: bool
  mk_account :: string
  mk_running :: bool
  mk_errs :: errRing
  mk_reqs :: "mkRequest list"
  mk_pubs :: "mkPub list"

definition mk_start :: "string \<Rightarrow> misskey" where
  "mk_start file = \<lparr>mk_since = [], mk_file = file, mk_firstRun = False, mk_account = [], mk_running = False, mk_errs = noErrs,
     mk_reqs = [], mk_pubs = []\<rparr>"

definition mk_send :: "mkEnv \<Rightarrow> mkRequest \<Rightarrow> misskey \<Rightarrow> misskey \<times> mkAnswer" where
  "mk_send env rq w = (w\<lparr>mk_reqs := mk_reqs w @ [rq]\<rparr>, mk_net env (length (mk_reqs w)) rq)"

definition mk_pushError :: "error \<Rightarrow> misskey \<Rightarrow> misskey" where
  "mk_pushError e w = w\<lparr>mk_errs := ringPush e (mk_errs w)\<rparr>"

definition mk_publish :: "mkPub \<Rightarrow> misskey \<Rightarrow> misskey" where
  "mk_publish v w = w\<lparr>mk_pubs := mk_pubs w @ [v]\<rparr>"

definition currentCfg :: "mkEnv \<Rightarrow> misskey \<Rightarrow> string \<times> string \<times> string" where
  "currentCfg env w =
     (case mk_cfg env (length (mk_reqs w)) of (h, t, line) \<Rightarrow> (h, t, if line = [] then ''home'' else line))"

section \<open>The API\<close>

definition api_url :: "string \<Rightarrow> string \<Rightarrow> string" where
  "api_url host endpoint = trim_right host ''/'' @ ''/api/'' @ endpoint"

text \<open>\<open>apiPost\<close> decodes into a target whose old value is \<open>old\<close>; on an error it keeps what was decoded.\<close>

definition apiPost :: "mkEnv \<Rightarrow> string \<Rightarrow> string \<Rightarrow> json \<Rightarrow> 'a decoder \<Rightarrow> 'a \<Rightarrow> misskey \<Rightarrow> misskey \<times> 'a \<times> error option" where
  "apiPost env host endpoint body d old w =
     (case mk_send env (MkPost (api_url host endpoint) body) w of
        (w1, MkNetError e) \<Rightarrow> (w1, old, Some (''misskey: '' @ endpoint @ '': '' @ e))
      | (w1, MkAnswer status txt) \<Rightarrow>
          if status \<noteq> 200 then
            (w1, old, Some (''misskey: '' @ endpoint @ '': HTTP '' @ show_nat status @ '': '' @ trim_space txt))
          else (case unmarshal d old (mk_json env txt) of
            Some v \<Rightarrow> (w1, v, None)
          | None \<Rightarrow> (w1, unmarshal_lax d old (mk_json env txt), Some (''misskey: decode '' @ endpoint))))"

definition dec_id :: "string decoder" where
  "dec_id = dec_struct [(''id'', \<lambda>r j. dec_string r j)]"

text \<open>The answer of \<open>notes/create\<close>: an identifier at the top or in \<open>createdNote\<close>.\<close>

definition dec_noteCreateResp :: "(string \<times> string) decoder" where
  "dec_noteCreateResp = dec_struct
     [(''id'', on fst (\<lambda>f r. (f (fst r), snd r)) dec_string), (''createdNote'', on snd (\<lambda>f r. (fst r, f (snd r))) dec_id)]"

definition opt_text :: "string \<Rightarrow> string \<Rightarrow> (string \<times> json) list" where
  "opt_text k v = (if v \<noteq> [] then [(k, JStr v)] else [])"

definition opt_texts :: "string \<Rightarrow> string list \<Rightarrow> (string \<times> json) list" where
  "opt_texts k vs = (if vs \<noteq> [] then [(k, JArr (map JStr vs))] else [])"

definition noteCreateReq :: "string \<Rightarrow> string \<Rightarrow> string \<Rightarrow> string \<Rightarrow> string \<Rightarrow> string list \<Rightarrow> string list \<Rightarrow> json" where
  "noteCreateReq token text visibility replyID renoteID visible files =
     JObj ([(''i'', JStr token), (''text'', JStr text)] @ opt_text ''replyId'' replyID @ opt_text ''renoteId'' renoteID
       @ [(''visibility'', JStr visibility)] @ opt_texts ''visibleUserIds'' visible @ opt_texts ''fileIds'' files)"

definition SendNote ::
  "mkEnv \<Rightarrow> string \<Rightarrow> string \<Rightarrow> string \<Rightarrow> string \<Rightarrow> string \<Rightarrow> string \<Rightarrow> string list \<Rightarrow> string list \<Rightarrow> misskey \<Rightarrow> misskey \<times> string \<times> error option" where
  "SendNote env host token text visibility replyID renoteID visible files w =
     (case apiPost env host ''notes/create'' (noteCreateReq token text visibility replyID renoteID visible files) dec_noteCreateResp ([], []) w of
        (w1, (i, created), e) \<Rightarrow> (w1, if i = [] then created else i, e))"

definition DeleteNote :: "mkEnv \<Rightarrow> string \<Rightarrow> string \<Rightarrow> string \<Rightarrow> misskey \<Rightarrow> misskey \<times> error option" where
  "DeleteNote env host token noteID w =
     (if noteID = [] then (w, Some ''misskey: empty noteID'')
      else case mk_send env (MkPost (api_url host ''notes/delete'') (JObj [(''i'', JStr token), (''noteId'', JStr noteID)])) w of
        (w1, MkNetError e) \<Rightarrow> (w1, Some (''misskey: note delete: misskey: notes/delete: '' @ e))
      | (w1, MkAnswer status txt) \<Rightarrow>
          (w1, if status \<noteq> 200
               then Some (''misskey: note delete: misskey: notes/delete: HTTP '' @ show_nat status @ '': '' @ trim_space txt) else None))"

definition misskeyFileName :: "string \<Rightarrow> string" where
  "misskeyFileName name =
     (let b = path_base (trim_space name) in
      if b = [] \<or> b = ''.'' \<or> contains_sub b [CHR 0x5C] \<or> contains_sub b ''/'' \<or> contains_sub b ''..'' \<or> 200 < length b \<or> b = ''blob''
      then ''untitled'' else b)"

definition uploadDriveFile :: "mkEnv \<Rightarrow> string \<Rightarrow> string \<Rightarrow> bytes \<Rightarrow> string \<Rightarrow> misskey \<Rightarrow> misskey \<times> (error + string)" where
  "uploadDriveFile env host token data filename w =
     (case mk_send env (MkUpload (api_url host ''drive/files/create'') token (misskeyFileName filename) data) w of
        (w1, MkNetError e) \<Rightarrow> (w1, Inl (''misskey: upload drive file: '' @ e))
      | (w1, MkAnswer status raw) \<Rightarrow>
          (w1,
           if status \<noteq> 200 then Inl (''misskey: upload drive file HTTP '' @ show_nat status @ '': '' @ trim_space raw)
           else case unmarshal dec_id [] (mk_json env raw) of
             None \<Rightarrow> Inl (''misskey: upload drive file decode: '' @ raw)
           | Some i \<Rightarrow> if i = [] then Inl (''misskey: upload drive file empty id: '' @ raw) else Inr i))"

section \<open>Notes\<close>

record mkUser =
  mu_Username :: string
  mu_Name :: string

record Note =
  no_ID :: string
  no_Text :: string
  no_UserID :: string
  no_ReplyID :: string
  no_RenoteID :: string
  no_Mentions :: "string list"
  no_User :: mkUser
  no_CreatedAt :: string
  no_AccountID :: string
  no_AccountName :: string

definition zeroNote :: Note where
  "zeroNote = \<lparr>no_ID = [], no_Text = [], no_UserID = [], no_ReplyID = [], no_RenoteID = [], no_Mentions = [],
     no_User = \<lparr>mu_Username = [], mu_Name = []\<rparr>, no_CreatedAt = [], no_AccountID = [], no_AccountName = []\<rparr>"

definition dec_mkUser :: "mkUser decoder" where
  "dec_mkUser = dec_struct [(''username'', on mu_Username mu_Username_update dec_string), (''name'', on mu_Name mu_Name_update dec_string)]"

definition dec_note :: "Note decoder" where
  "dec_note = dec_struct
     [(''id'', on no_ID no_ID_update dec_string), (''text'', on no_Text no_Text_update dec_string),
      (''userId'', on no_UserID no_UserID_update dec_string), (''replyId'', on no_ReplyID no_ReplyID_update dec_string),
      (''renoteId'', on no_RenoteID no_RenoteID_update dec_string), (''mentions'', on no_Mentions no_Mentions_update (dec_list [] dec_string)),
      (''user'', on no_User no_User_update dec_mkUser), (''visibility'', checked [] dec_string),
      (''createdAt'', on no_CreatedAt no_CreatedAt_update dec_string), (''cw'', checked [] dec_string),
      (''fileIds'', checked [] (dec_list [] dec_string)), (''account_id'', on no_AccountID no_AccountID_update dec_string),
      (''account_name'', on no_AccountName no_AccountName_update dec_string)]"

definition timelineEndpoint :: "string \<Rightarrow> string" where
  "timelineEndpoint line = (if line = ''home'' \<or> line = [] then ''notes/timeline'' else ''notes/'' @ line @ ''-timeline'')"

definition timelineReq :: "string \<Rightarrow> string \<Rightarrow> json" where
  "timelineReq token since = JObj ([(''i'', JStr token), (''limit'', JNum ''20'')] @ opt_text ''sinceId'' since)"

definition own_note :: "string \<Rightarrow> json \<Rightarrow> (Note \<times> json) option" where
  "own_note account rm =
     map_option (\<lambda>n. (n\<lparr>no_AccountID := account, no_AccountName := []\<rparr>, rm)) (unmarshal dec_note zeroNote (Some rm))"

definition raw_element :: "json decoder" where
  "raw_element = (\<lambda>_ j. (j, True))"

definition FetchTimeline :: "mkEnv \<Rightarrow> string \<Rightarrow> string \<Rightarrow> string \<Rightarrow> string \<Rightarrow> misskey \<Rightarrow> misskey \<times> (error + (Note \<times> json) list)" where
  "FetchTimeline env host token line since w =
     (case apiPost env host (timelineEndpoint line) (timelineReq token since) (dec_list JNull raw_element) [] w of
        (w1, _, Some e) \<Rightarrow> (w1, Inl e)
      | (w1, msgs, None) \<Rightarrow> (w1, Inr (List.map_filter (own_note (mk_account w1)) msgs)))"

definition toRawEvent :: "Note \<Rightarrow> json \<Rightarrow> (string \<rightharpoonup> json) option" where
  "toRawEvent n raw =
     (case raw of
        JObj es \<Rightarrow> Some ((map_of (rev es))(''account_id'' \<mapsto> JStr (no_AccountID n), ''account_name'' \<mapsto> JStr (no_AccountName n)))
      | _ \<Rightarrow> None)"

definition note_toUnified :: "(string \<Rightarrow> time option) \<Rightarrow> Note \<Rightarrow> json \<Rightarrow> UnifiedMessage" where
  "note_toUnified parseTime n raw = zeroUM\<lparr>um_Text := no_Text n, um_MsgFormat := FmtText, um_Protocol := ProtoMisskey,
     um_Username := mu_Username (no_User n), um_UserID := no_UserID n, um_Usernick := mu_Name (no_User n), um_MsgID := no_ID n,
     um_MsgType := MsgTypeCreate, um_AccountID := no_AccountID n, um_AccountName := no_AccountName n,
     um_ReplyTos := (if no_ReplyID n \<noteq> [] then [no_ReplyID n] else []) @ (if no_RenoteID n \<noteq> [] then [no_RenoteID n] else []),
     um_Mentions := no_Mentions n, um_Timestamp := (case parseTime (no_CreatedAt n) of Some t \<Rightarrow> t | None \<Rightarrow> 0), um_Raw := Some raw\<rparr>"

section \<open>Starting and polling\<close>

definition accountHost :: "string \<Rightarrow> string" where
  "accountHost host = trim_prefix (trim_prefix (trim_right host ''/'') ''https://'') ''http://''"

definition dec_iResp :: "string decoder" where
  "dec_iResp = dec_struct [(''id'', checked [] dec_string), (''username'', \<lambda>r j. dec_string r j), (''name'', checked [] dec_string)]"

definition dec_metaResp :: "unit decoder" where
  "dec_metaResp = dec_struct [(''version'', checked [] dec_string), (''name'', checked [] dec_string)]"

text \<open>\<open>Start\<close>: whether polling begins. \<open>cfg\<close> is what the getters give first.\<close>

definition misskeyStart :: "mkEnv \<Rightarrow> string \<times> string \<times> string \<Rightarrow> misskey \<Rightarrow> misskey \<times> bool" where
  "misskeyStart env cfg w =
     (case cfg of (host, token, _) \<Rightarrow>
        if host = [] \<or> token = [] then (w, False)
        else case apiPost env host ''i'' (JObj [(''i'', JStr token)]) dec_iResp [] w of
          (w1, _, Some e) \<Rightarrow> (w1, False)
        | (w1, username, None) \<Rightarrow>
            (fst (apiPost env host ''meta'' (JObj []) dec_metaResp () (w1\<lparr>mk_account := ''@'' @ username @ ''@'' @ accountHost host\<rparr>)), True))"

definition mk_begin :: "misskey \<Rightarrow> misskey" where
  "mk_begin w = w\<lparr>mk_running := True, mk_since := mk_file w, mk_firstRun := (mk_file w = [])\<rparr>"

definition mk_advance :: "mkEnv \<Rightarrow> string \<Rightarrow> misskey \<Rightarrow> misskey" where
  "mk_advance env i w =
     (let w1 = w\<lparr>mk_since := i\<rparr> in if mk_saves env (length (mk_reqs w)) then w1\<lparr>mk_file := i\<rparr> else w1)"

definition mk_note :: "mkEnv \<Rightarrow> misskey \<Rightarrow> Note \<times> json \<Rightarrow> misskey" where
  "mk_note env w = (\<lambda>(n, raw).
     if no_Text n = [] then w
     else case toRawEvent n raw of
       None \<Rightarrow> w
     | Some ev \<Rightarrow> mk_publish (MkUM (note_toUnified (mk_parseTime env) n raw)) (mk_publish (MkRaw ev) w))"

definition mkRound :: "mkEnv \<Rightarrow> misskey \<Rightarrow> misskey" where
  "mkRound env w =
     (case currentCfg env w of (host, token, line) \<Rightarrow>
        (case FetchTimeline env host token line (mk_since w) w of
           (w1, Inl e) \<Rightarrow> mk_pushError e w1
         | (w1, Inr notes) \<Rightarrow>
             if mk_firstRun w1 then
               (if notes \<noteq> [] then mk_advance env (no_ID (fst (hd notes))) w1 else w1)\<lparr>mk_firstRun := False\<rparr>
             else
               (let w2 = foldl (mk_note env) w1 (rev notes)
                in if notes \<noteq> [] then mk_advance env (no_ID (fst (hd notes))) w2 else w2)))"

definition misskeyPoll :: "mkEnv \<Rightarrow> nat \<Rightarrow> misskey \<Rightarrow> misskey" where
  "misskeyPoll env k w = (mkRound env ^^ k) (mk_begin w)"

section \<open>Sending and deleting\<close>

definition validVisibilities :: "string set" where
  "validVisibilities = {''public'', ''home'', ''followers'', ''specified''}"

definition extra_visibility :: "SendExtra option \<Rightarrow> string" where
  "extra_visibility ex = (case ex of None \<Rightarrow> [] | Some e \<Rightarrow> Visibility e)"

definition resolveVisibility :: "string \<Rightarrow> SendExtra option \<Rightarrow> error + string" where
  "resolveVisibility to ex =
     (let v = (if extra_visibility ex \<noteq> [] then extra_visibility ex else if to \<in> validVisibilities then to else ''home'')
      in if v \<in> validVisibilities then Inr v
         else Inl (''misskey: unsupported visibility '' @ go_quote v @ '' (want public/home/followers/specified)''))"

definition misskey_Send ::
  "mkEnv \<Rightarrow> string \<Rightarrow> string \<Rightarrow> string \<Rightarrow> bytes \<Rightarrow> MediaDataInfo option \<Rightarrow> SendExtra option \<Rightarrow> misskey \<Rightarrow> misskey \<times> string \<times> error option" where
  "misskey_Send env to msg msgType filedata fileinfo ex w =
     (if msg = [] then (w, [], Some ''misskey: empty message'')
      else if filedata \<noteq> [] \<and> fileinfo = None then (w, [], Some ''misskey: filedata present but fileinfo is nil'')
      else case resolveVisibility to ex of
        Inl e \<Rightarrow> (w, [], Some e)
      | Inr visibility \<Rightarrow>
          (let mentions = (case ex of None \<Rightarrow> [] | Some e \<Rightarrow> Mentions e);
               related = (case ex of None \<Rightarrow> [] | Some e \<Rightarrow> RelatesTo e);
               target = (if related = [] then [] else hd related);
               replyID = (if msgType = ''renote'' then [] else target);
               renoteID = (if msgType = ''renote'' then target else []);
               visible = (if visibility = ''specified'' then mentions else [])
           in if visibility = ''specified'' \<and> mentions = []
              then (w, [], Some ''misskey: specified visibility requires mentions recipients'')
              else case currentCfg env w of (host, token, _) \<Rightarrow>
                if host = [] \<or> token = [] then (w, [], Some ''misskey: not configured'')
                else if filedata = [] then SendNote env host token msg visibility replyID renoteID visible [] w
                else
                  (let filename = (case fileinfo of None \<Rightarrow> [] | Some i \<Rightarrow> mi_Filename i) in
                   case uploadDriveFile env host token filedata (if filename = [] then ''untitled'' else filename) w of
                     (w1, Inl e) \<Rightarrow> (w1, [], Some (''misskey: upload: '' @ e))
                   | (w1, Inr i) \<Rightarrow> SendNote env host token msg visibility replyID renoteID visible [i] w1)))"

definition misskey_Redact :: "mkEnv \<Rightarrow> string \<Rightarrow> misskey \<Rightarrow> misskey \<times> string \<times> error option" where
  "misskey_Redact env noteID w =
     (if noteID = [] then (w, [], Some ''misskey: empty note id'')
      else case currentCfg env w of (host, token, _) \<Rightarrow>
        if host = [] \<or> token = [] then (w, [], Some ''misskey: not configured'')
        else case DeleteNote env host token noteID w of
          (w1, Some e) \<Rightarrow> (w1, [], Some e)
        | (w1, None) \<Rightarrow> (w1, noteID, None))"

end
