(* ===== verification/Misskey_Props.thy ===== *)
theory Misskey_Props
  imports Misskey
begin

text \<open>
  What the Misskey bridge promises: who can see a note that is sent, and which notes of a timeline are handed on.
\<close>

section \<open>Sending\<close>

lemma mk_send_reqs: "mk_send env rq w = (w1, a) \<Longrightarrow> mk_reqs w1 = mk_reqs w @ [rq] \<and> mk_net env (length (mk_reqs w)) rq = a"
  by (auto simp: mk_send_def)

lemma apiPost_reqs:
  "apiPost env host endpoint body d old w = (w1, v, e) \<Longrightarrow>
     mk_reqs w1 = mk_reqs w @ [MkPost (api_url host endpoint) body] \<and>
     (e = None \<longrightarrow> (\<exists>txt. mk_net env (length (mk_reqs w)) (MkPost (api_url host endpoint) body) = MkAnswer 200 txt
        \<and> unmarshal d old (mk_json env txt) = Some v))"
  by (auto simp: apiPost_def split: prod.splits mkAnswer.splits if_splits option.splits dest!: mk_send_reqs)

lemma SendNote_reqs:
  "SendNote env host token text v replyID renoteID visible files w = (w1, i, e) \<Longrightarrow>
     mk_reqs w1 = mk_reqs w @ [MkPost (api_url host ''notes/create'') (noteCreateReq token text v replyID renoteID visible files)] \<and>
     (e = None \<longrightarrow> (\<exists>txt. mk_net env (length (mk_reqs w))
        (MkPost (api_url host ''notes/create'') (noteCreateReq token text v replyID renoteID visible files)) = MkAnswer 200 txt))"
  by (auto simp: SendNote_def split: prod.splits dest!: apiPost_reqs)

lemma uploadDriveFile_reqs:
  "uploadDriveFile env host token data filename w = (w1, r) \<Longrightarrow>
     mk_reqs w1 = mk_reqs w @ [MkUpload (api_url host ''drive/files/create'') token (misskeyFileName filename) data]"
  by (auto simp: uploadDriveFile_def split: prod.splits mkAnswer.splits dest!: mk_send_reqs)

lemma resolveVisibility_valid:
  "resolveVisibility to ex = Inr v \<Longrightarrow> v \<in> validVisibilities \<and>
     v = (if extra_visibility ex \<noteq> [] then extra_visibility ex else if to \<in> validVisibilities then to else ''home'')"
  by (auto simp: resolveVisibility_def Let_def validVisibilities_def split: if_splits)

text \<open>The visibility and the recipients that a note is created with.\<close>

definition note_seen_by :: "string \<Rightarrow> SendExtra option \<Rightarrow> string \<Rightarrow> string list \<Rightarrow> bool" where
  "note_seen_by to ex v visible \<longleftrightarrow> resolveVisibility to ex = Inr v \<and>
     (if v = ''specified'' then \<exists>e. ex = Some e \<and> visible = Mentions e \<and> visible \<noteq> [] else visible = [])"

lemma note_created:
  assumes "mk_reqs w' = mk_reqs w @ up @ [MkPost u (noteCreateReq token msg v reply renote visible files)]"
    and "\<forall>rq \<in> set up. \<exists>u t n. rq = MkUpload u t n filedata" "note_seen_by to ex v visible" "reply = [] \<or> renote = []"
    and "files = [] \<longleftrightarrow> filedata = []"
    and "e = None \<longrightarrow> (\<exists>txt. mk_net env (length (mk_reqs w @ up)) (MkPost u (noteCreateReq token msg v reply renote visible files)) = MkAnswer 200 txt)"
  shows "\<exists>up posts. mk_reqs w' = mk_reqs w @ up @ posts \<and> (\<forall>rq \<in> set up. \<exists>u t n. rq = MkUpload u t n filedata) \<and>
    (posts = [] \<and> e \<noteq> None \<or>
     (\<exists>u token v reply renote visible files. posts = [MkPost u (noteCreateReq token msg v reply renote visible files)] \<and>
        note_seen_by to ex v visible \<and> (reply = [] \<or> renote = []) \<and> (files = [] \<longleftrightarrow> filedata = []) \<and>
        (e = None \<longrightarrow> (\<exists>txt. mk_net env (length (mk_reqs w @ up)) (hd posts) = MkAnswer 200 txt))))"
  by (rule exI [of _ up], rule exI [of _ "[MkPost u (noteCreateReq token msg v reply renote visible files)]"], intro conjI,
      simp add: assms(1), rule assms(2), rule disjI2, rule exI [of _ u], rule exI [of _ token], rule exI [of _ v], rule exI [of _ reply],
      rule exI [of _ renote], rule exI [of _ visible], rule exI [of _ files]) (use assms in simp)

text \<open>C35: a note is created at most once by a call, with the resolved visibility and, when that is
  \<open>specified\<close>, with recipients; the call succeeds only if the server answered the creation with 200.\<close>

theorem misskey_send_visibility:
  assumes "misskey_Send env to msg msgType filedata fileinfo ex w = (w', i, e)"
  shows "\<exists>up posts. mk_reqs w' = mk_reqs w @ up @ posts \<and> (\<forall>rq \<in> set up. \<exists>u t n. rq = MkUpload u t n filedata) \<and>
    (posts = [] \<and> e \<noteq> None \<or>
     (\<exists>u token v reply renote visible files. posts = [MkPost u (noteCreateReq token msg v reply renote visible files)] \<and>
        note_seen_by to ex v visible \<and> (reply = [] \<or> renote = []) \<and> (files = [] \<longleftrightarrow> filedata = []) \<and>
        (e = None \<longrightarrow> (\<exists>txt. mk_net env (length (mk_reqs w @ up)) (hd posts) = MkAnswer 200 txt))))"
proof (cases "resolveVisibility to ex")
  case (Inl err)
  then have "w' = w \<and> e \<noteq> None" using assms by (auto simp: misskey_Send_def split: if_splits)
  then show ?thesis by (intro exI [of _ "[]"]) simp
next
  case (Inr v)
  define mentions where "mentions = (case ex of None \<Rightarrow> [] | Some e \<Rightarrow> Mentions e)"
  define target where "target = (case ex of None \<Rightarrow> [] | Some e \<Rightarrow> if RelatesTo e = [] then [] else hd (RelatesTo e))"
  define reply where "reply = (if msgType = ''renote'' then [] else target)"
  define renote where "renote = (if msgType = ''renote'' then target else [])"
  define visible where "visible = (if v = ''specified'' then mentions else [])"
  obtain host token line where cfg: "currentCfg env w = (host, token, line)" by (metis prod_cases3)
  have rel: "(if (case ex of None \<Rightarrow> [] | Some e \<Rightarrow> RelatesTo e) = [] then [] else hd (case ex of None \<Rightarrow> [] | Some e \<Rightarrow> RelatesTo e)) = target"
    by (simp add: target_def split: option.split)
  have rr: "reply = [] \<or> renote = []" by (simp add: reply_def renote_def)
  consider (no) "w' = w" "e \<noteq> None"
    | (plain) "filedata = []" "SendNote env host token msg v reply renote visible [] w = (w', i, e)" "v = ''specified'' \<longrightarrow> mentions \<noteq> []"
    | (failed) w1 err n where "filedata \<noteq> []" "uploadDriveFile env host token filedata n w = (w1, Inl err)" "w' = w1" "e \<noteq> None"
    | (uploaded) w1 f n where "filedata \<noteq> []" "uploadDriveFile env host token filedata n w = (w1, Inr f)"
        "SendNote env host token msg v reply renote visible [f] w1 = (w', i, e)" "v = ''specified'' \<longrightarrow> mentions \<noteq> []"
    using assms Inr cfg unfolding misskey_Send_def Let_def rel
    by (auto simp: mentions_def [symmetric] reply_def [symmetric] renote_def [symmetric] visible_def
        split: if_splits prod.splits sum.splits)
  then show ?thesis
  proof cases
    case no then show ?thesis by (intro exI [of _ "[]"]) simp
  next
    case plain
    have "note_seen_by to ex v visible" using Inr plain(3) by (auto simp: note_seen_by_def visible_def mentions_def split: option.splits)
    then show ?thesis using SendNote_reqs [OF plain(2)] plain(1) rr by (intro note_created [where up = "[]"]) auto
  next
    case failed
    then show ?thesis using uploadDriveFile_reqs [OF failed(2)]
      by (intro exI [of _ "drop (length (mk_reqs w)) (mk_reqs w')"] exI [of _ "[]"]) auto
  next
    case uploaded
    have "note_seen_by to ex v visible" using Inr uploaded(4) by (auto simp: note_seen_by_def visible_def mentions_def split: option.splits)
    then show ?thesis using SendNote_reqs [OF uploaded(3)] uploadDriveFile_reqs [OF uploaded(2)] uploaded(1) rr
      by (intro note_created [where up = "drop (length (mk_reqs w)) (mk_reqs w1)"]) auto
  qed
qed

section \<open>File names\<close>

definition legal_name :: "string \<Rightarrow> bool" where
  "legal_name n \<longleftrightarrow> n \<noteq> [] \<and> n \<noteq> ''.'' \<and> \<not> contains_sub n [CHR 0x5C] \<and> \<not> contains_sub n ''/'' \<and> \<not> contains_sub n ''..''
     \<and> length n \<le> 200 \<and> n \<noteq> ''blob''"

lemma untitled_legal: "legal_name ''untitled''"
  by code_simp

lemma misskeyFileName_legal: "legal_name (misskeyFileName name)"
  using untitled_legal by (auto simp: misskeyFileName_def legal_name_def Let_def)

section \<open>Timelines\<close>

text \<open>An element that has a text is an object, so the event of every note that is not skipped can be built.\<close>

lemma note_with_text_is_object:
  assumes "own_note account rm = Some (n, raw)" "no_Text n \<noteq> []"
  shows "\<exists>ev. toRawEvent n raw = Some ev"
proof -
  have "raw = rm" "unmarshal dec_note zeroNote (Some rm) \<noteq> None" using assms(1) by (auto simp: own_note_def)
  moreover have "rm \<noteq> JNull" using assms by (auto simp: own_note_def unmarshal_def dec_note_def zeroNote_def)
  ultimately show ?thesis by (cases rm) (auto simp: unmarshal_def dec_note_def toRawEvent_def split: if_splits)
qed

text \<open>A timeline that is answered newest first: \<open>rk\<close> orders the identifiers, and an answer holds nts beyond the
  marker only.\<close>

definition newest_first :: "(string \<Rightarrow> nat) \<Rightarrow> mkEnv \<Rightarrow> bool" where
  "newest_first rk env \<longleftrightarrow> (\<forall>host token line since w w1 nts. FetchTimeline env host token line since w = (w1, Inr nts) \<longrightarrow>
     (let ids = map (no_ID \<circ> fst) nts in sorted_wrt (\<lambda>a b. rk b < rk a) ids \<and> (\<forall>i \<in> set ids. rk since < rk i)))"

definition mk_ids :: "misskey \<Rightarrow> string list" where
  "mk_ids w = map um_MsgID (List.map_filter (\<lambda>p. case p of MkUM um \<Rightarrow> Some um | MkRaw ev \<Rightarrow> None) (mk_pubs w))"

definition handed_on :: "Note \<times> json \<Rightarrow> bool" where
  "handed_on x \<longleftrightarrow> no_Text (fst x) \<noteq> [] \<and> toRawEvent (fst x) (snd x) \<noteq> None"

lemma mk_ids_note: "mk_ids (mk_note env w x) = mk_ids w @ (if handed_on x then [no_ID (fst x)] else [])"
  by (cases x) (auto simp: mk_note_def handed_on_def mk_ids_def mk_publish_def List.map_filter_def note_toUnified_def split: option.split)

lemma mk_ids_notes: "mk_ids (foldl (mk_note env) w nts) = mk_ids w @ map (no_ID \<circ> fst) (filter handed_on nts)"
  by (induction nts arbitrary: w) (simp_all add: mk_ids_note)

lemma mk_fields [simp]:
  "mk_ids (mk_pushError e w) = mk_ids w" "mk_since (mk_pushError e w) = mk_since w" "mk_firstRun (mk_pushError e w) = mk_firstRun w"
  "mk_ids (mk_advance env i w) = mk_ids w" "mk_since (mk_advance env i w) = i" "mk_firstRun (mk_advance env i w) = mk_firstRun w"
  "mk_ids (w\<lparr>mk_firstRun := b\<rparr>) = mk_ids w"
  by (simp_all add: mk_pushError_def mk_advance_def mk_ids_def Let_def)

lemma FetchTimeline_fields:
  "FetchTimeline env host token line since w = (w1, r) \<Longrightarrow> mk_ids w1 = mk_ids w \<and> mk_since w1 = mk_since w \<and> mk_firstRun w1 = mk_firstRun w"
  by (auto simp: FetchTimeline_def apiPost_def mk_send_def mk_ids_def split: prod.splits option.splits mkAnswer.splits if_splits)

definition timeline_ok :: "(string \<Rightarrow> nat) \<Rightarrow> misskey \<Rightarrow> bool" where
  "timeline_ok rk w \<longleftrightarrow> sorted_wrt (\<lambda>a b. rk a < rk b) (mk_ids w) \<and> (\<forall>i \<in> set (mk_ids w). rk i \<le> rk (mk_since w))"

lemma mkRound_timeline:
  assumes c: "newest_first rk env" and ok: "timeline_ok rk w"
  shows "timeline_ok rk (mkRound env w)"
proof -
  obtain host token line where cfg: "currentCfg env w = (host, token, line)" by (metis prod_cases3)
  obtain w1 r where f: "FetchTimeline env host token line (mk_since w) w = (w1, r)" by fastforce
  note k = FetchTimeline_fields [OF f]
  show ?thesis
  proof (cases r)
    case (Inl e) then show ?thesis using ok cfg f k by (simp add: mkRound_def timeline_ok_def)
  next
    case (Inr nts)
    have s: "sorted_wrt (\<lambda>a b. rk b < rk a) (map (no_ID \<circ> fst) nts)" "\<forall>x \<in> set nts. rk (mk_since w) < rk (no_ID (fst x))"
      using c f Inr unfolding newest_first_def Let_def by fastforce+
    have top: "\<forall>x \<in> set nts. rk (no_ID (fst x)) \<le> rk (no_ID (fst (hd nts)))" if "nts \<noteq> []"
      using s(1) that by (cases nts) auto
    have up: "sorted_wrt (\<lambda>a b. rk a < rk b) (map (no_ID \<circ> fst) (filter handed_on (rev nts)))"
    proof -
      have "sorted_wrt (\<lambda>a b. rk a < rk b) (rev (map (no_ID \<circ> fst) nts))" using s(1) by (simp add: sorted_wrt_rev)
      then have "sorted_wrt (\<lambda>x y. rk (no_ID (fst x)) < rk (no_ID (fst y))) (rev nts)" by (simp add: sorted_wrt_map rev_map)
      then show ?thesis by (simp add: sorted_wrt_map sorted_wrt_filter)
    qed
    show ?thesis
    proof (cases "mk_firstRun w1")
      case True
      then show ?thesis using ok cfg f k Inr s(2) top
        by (cases nts) (auto simp: mkRound_def timeline_ok_def intro: order.trans less_imp_le)
    next
      case False
      then have e: "mkRound env w = (let w2 = foldl (mk_note env) w1 (rev nts) in if nts \<noteq> [] then mk_advance env (no_ID (fst (hd nts))) w2 else w2)"
        using cfg f Inr by (simp add: mkRound_def)
      show ?thesis
      proof (cases "nts = []")
        case True then show ?thesis using e ok k by (simp add: timeline_ok_def)
      next
        case False
        have h: "rk (mk_since w) < rk (no_ID (fst (hd nts)))" using s(2) False by simp
        have old: "\<forall>i \<in> set (mk_ids w). rk i \<le> rk (mk_since w)" using ok by (simp add: timeline_ok_def)
        define L where "L = map (no_ID \<circ> fst) (filter handed_on (rev nts))"
        have L: "\<forall>i \<in> set L. rk (mk_since w) < rk i \<and> rk i \<le> rk (no_ID (fst (hd nts)))"
          using s(2) top [OF False] by (auto simp: L_def)
        have "mk_ids (mkRound env w) = mk_ids w @ L" "mk_since (mkRound env w) = no_ID (fst (hd nts))"
          using e False k by (simp_all add: Let_def mk_ids_notes L_def)
        moreover have "sorted_wrt (\<lambda>a b. rk a < rk b) (mk_ids w @ L)"
          unfolding sorted_wrt_append using ok up old L by (auto simp: timeline_ok_def L_def intro: le_less_trans)
        moreover have "\<forall>i \<in> set (mk_ids w @ L). rk i \<le> rk (no_ID (fst (hd nts)))"
          using old L h by (auto intro: order.trans less_imp_le)
        ultimately show ?thesis by (simp add: timeline_ok_def)
      qed
    qed
  qed
qed

text \<open>As long as the timeline is answered newest first, notes are handed on in their order and each once.\<close>

theorem misskey_published_in_order:
  assumes "newest_first rk env" "mk_ids w = []"
  shows "sorted_wrt (\<lambda>a b. rk a < rk b) (mk_ids (misskeyPoll env k w))"
proof -
  have "timeline_ok rk ((mkRound env ^^ k) (mk_begin w))"
    by (induction k) (use assms mkRound_timeline [OF assms(1)] in \<open>simp_all add: timeline_ok_def mk_begin_def mk_ids_def\<close>)
  then show ?thesis by (simp add: misskeyPoll_def timeline_ok_def)
qed

text \<open>An answer that begins with the oldest note sets the marker to that one, so the others are fetched again.\<close>

lemma misskey_marker_is_first:
  assumes "currentCfg env w = (host, token, line)" "FetchTimeline env host token line (mk_since w) w = (w1, Inr nts)" "nts \<noteq> []"
  shows "mk_since (mkRound env w) = no_ID (fst (hd nts))"
  using assms FetchTimeline_fields [OF assms(2)] by (simp add: mkRound_def Let_def mk_advance_def)

section \<open>Examples\<close>

definition mk_env0 :: mkEnv where
  "mk_env0 = \<lparr>mk_net = (\<lambda>_ _. MkAnswer 200 ''b''), mk_json = (\<lambda>_. Some (JObj [(''id'', JStr ''9'')])),
     mk_cfg = (\<lambda>_. (''h'', ''t'', [])), mk_parseTime = (\<lambda>_. None), mk_saves = (\<lambda>_. True)\<rparr>"

lemma misskey_send_visibility_witness:
  "\<exists>u token reply renote visible files. mk_reqs (fst (misskey_Send mk_env0 ''followers'' ''hi'' [] [] None None (mk_start []))) =
     [MkPost u (noteCreateReq token ''hi'' ''followers'' reply renote visible files)]"
proof -
  obtain w' i e where r: "misskey_Send mk_env0 ''followers'' ''hi'' [] [] None None (mk_start []) = (w', i, e)" by (metis prod_cases3)
  have "snd (snd (misskey_Send mk_env0 ''followers'' ''hi'' [] [] None None (mk_start []))) = None" by code_simp
  then have e: "e = None" using r by simp
  have up: "up = []" if "\<forall>rq \<in> set up. \<exists>u t n. rq = MkUpload u t n []" "mk_reqs w' = up @ posts" for up posts
  proof -
    have "list_all (\<lambda>rq. case rq of MkPost _ _ \<Rightarrow> True | _ \<Rightarrow> False) (mk_reqs (fst (misskey_Send mk_env0 ''followers'' ''hi'' [] [] None None (mk_start []))))"
      by code_simp
    then show ?thesis using r that by (cases up) auto
  qed
  have "note_seen_by ''followers'' None v visible \<Longrightarrow> v = ''followers''" for v visible
    by (auto simp: note_seen_by_def resolveVisibility_def extra_visibility_def validVisibilities_def Let_def)
  then show ?thesis using misskey_send_visibility [OF r] e up r by (fastforce simp: mk_start_def)
qed

end
