(* ===== verification/Toxrest.thy ===== *)
theory Toxrest
  imports Unimessage
begin

text \<open>
  The Tox bridge, \<open>src/fbprotocols/toxoverhttp/toxrest.go\<close>: the event poll and sending with its fallback. The
  network answers the \<open>n\<close>-th request of a kind; \<open>tx_json\<close> parses a text, \<open>tx_time\<close> a time, and \<open>tx_format\<close> writes
  one, which fails outside the years that RFC 3339 has. A base URL that cannot be parsed is an error of the request.
\<close>

section \<open>Events\<close>

record toxEvent =
  te_ID :: int
  te_Type :: string
  te_Data :: string
  te_Timestamp :: time

record toxEnv =
  tx_get :: "nat \<Rightarrow> int \<Rightarrow> error + (string \<times> string)"
  tx_post :: "nat \<Rightarrow> string \<Rightarrow> (string \<times> string) list \<Rightarrow> error + (nat \<times> string)"
  tx_json :: "string \<Rightarrow> json option"
  tx_time :: "string \<Rightarrow> time option"
  tx_format :: "time \<Rightarrow> string option"
  tx_pubfn :: "(nat \<Rightarrow> error option) option"

datatype toxPub = ToxEvent toxEvent | ToxUM UnifiedMessage

record tox =
  tx_after :: int
  tx_errs :: errRing
  tx_gets :: "int list"
  tx_posts :: "(string \<times> (string \<times> string) list) list"
  tx_pubs :: "toxPub list"

definition tox_start :: tox where
  "tox_start = \<lparr>tx_after = 0, tx_errs = noErrs, tx_gets = [], tx_posts = [], tx_pubs = []\<rparr>"

definition zeroTime :: time where
  "zeroTime = -62135596800000000000"

text \<open>A time is unmarshalled from a string; \<open>null\<close> leaves it.\<close>

definition dec_time :: "(string \<Rightarrow> time option) \<Rightarrow> time decoder" where
  "dec_time parseT = (\<lambda>old j. case j of
     JNull \<Rightarrow> (old, True)
   | JStr s \<Rightarrow> (case parseT s of Some t \<Rightarrow> (t, True) | None \<Rightarrow> (old, False))
   | _ \<Rightarrow> (old, False))"

definition zeroToxEvent :: toxEvent where
  "zeroToxEvent = \<lparr>te_ID = 0, te_Type = [], te_Data = [], te_Timestamp = zeroTime\<rparr>"

definition dec_toxEvent :: "(string \<Rightarrow> time option) \<Rightarrow> toxEvent decoder" where
  "dec_toxEvent parseT = dec_struct
     [(''event_id'', on te_ID te_ID_update dec_uint), (''event_type'', on te_Type te_Type_update dec_string),
      (''data'', on te_Data te_Data_update dec_string), (''timestamp'', on te_Timestamp te_Timestamp_update (dec_time parseT))]"

text \<open>\<open>json.Marshal\<close> of an event.\<close>

definition event_json :: "(time \<Rightarrow> string option) \<Rightarrow> toxEvent \<Rightarrow> json option" where
  "event_json fmt ev = map_option (\<lambda>t. JObj [(''event_id'', JNum (itoa (te_ID ev))), (''event_type'', JStr (te_Type ev)),
     (''data'', JStr (te_Data ev)), (''timestamp'', JStr t)]) (fmt (te_Timestamp ev))"

definition tox_toUnified :: "toxEvent \<Rightarrow> json \<Rightarrow> UnifiedMessage" where
  "tox_toUnified ev raw = zeroUM\<lparr>um_Text := te_Data ev, um_MsgFormat := FmtText, um_Protocol := ProtoToxOverHttp,
     um_MsgType := te_Type ev, um_MsgID := itoa (te_ID ev), um_Timestamp := wrap64 (te_Timestamp ev), um_Raw := Some raw\<rparr>"

section \<open>Polling\<close>

definition tox_publish :: "toxEnv \<Rightarrow> toxPub \<Rightarrow> tox \<Rightarrow> tox" where
  "tox_publish env v w = (if tx_pubfn env = None then w else w\<lparr>tx_pubs := tx_pubs w @ [v]\<rparr>)"

definition tox_pushError :: "error \<Rightarrow> tox \<Rightarrow> tox" where
  "tox_pushError e w = w\<lparr>tx_errs := ringPush e (tx_errs w)\<rparr>"

definition parseUint :: "string \<Rightarrow> int option" where
  "parseUint s = (case read_digits 0 s of Some n \<Rightarrow> if s \<noteq> [] \<and> int n \<le> max_u64 then Some (int n) else None | None \<Rightarrow> None)"

text \<open>The header with the next number moves the marker at the start, or back when the server has started again.\<close>

definition note_next :: "string \<Rightarrow> tox \<Rightarrow> tox" where
  "note_next h w =
     (case parseUint h of
        None \<Rightarrow> w
      | Some nid \<Rightarrow> if nid < tx_after w \<or> tx_after w = 0 then w\<lparr>tx_after := nid\<rparr> else w)"

definition tox_event :: "toxEnv \<Rightarrow> tox \<Rightarrow> toxEvent \<Rightarrow> tox" where
  "tox_event env w ev =
     (let w1 = (if tx_after w < te_ID ev then w\<lparr>tx_after := te_ID ev\<rparr> else w) in
      case event_json (tx_format env) ev of
        None \<Rightarrow> w1
      | Some raw \<Rightarrow> tox_publish env (ToxUM (tox_toUnified ev raw)) (tox_publish env (ToxEvent ev) w1))"

text \<open>The error of the decoding is a fixed text here.\<close>

definition toxRound :: "toxEnv \<Rightarrow> tox \<Rightarrow> tox" where
  "toxRound env w =
     (let w1 = w\<lparr>tx_gets := tx_gets w @ [tx_after w]\<rparr> in
      case tx_get env (length (tx_gets w)) (tx_after w) of
        Inl e \<Rightarrow> tox_pushError e w1
      | Inr (h, body) \<Rightarrow>
          (let w2 = note_next h w1 in
           case unmarshal (dec_list zeroToxEvent (dec_toxEvent (tx_time env))) [] (tx_json env body) of
             None \<Rightarrow> tox_pushError ''decode error'' w2
           | Some events \<Rightarrow> foldl (tox_event env) w2 events))"

section \<open>Sending\<close>

definition tox_send :: "toxEnv \<Rightarrow> string \<Rightarrow> (string \<times> string) list \<Rightarrow> tox \<Rightarrow> tox \<times> (error + (nat \<times> string))" where
  "tox_send env url form w =
     (w\<lparr>tx_posts := tx_posts w @ [(url, form)]\<rparr>, tx_post env (length (tx_posts w)) url form)"

definition oldAPI :: "string \<Rightarrow> string \<Rightarrow> string \<Rightarrow> string \<Rightarrow> (string \<times> (string \<times> string) list) option" where
  "oldAPI base to msg msgType =
     (if msgType = ''unktox_friend'' then Some (base @ ''/api/messages'', [(''friend_id'', to), (''message'', msg)])
      else if msgType = ''unktox_conference'' then Some (base @ ''/api/conference_messages'', [(''conference_id'', to), (''message'', msg)])
      else if msgType = ''unktox_group''
        then Some (base @ ''/api/group_messages'', [(''group_number'', to), (''message_type'', []), (''message'', msg)])
      else None)"

definition sendToOldAPI :: "toxEnv \<Rightarrow> string \<Rightarrow> string \<Rightarrow> string \<Rightarrow> string \<Rightarrow> tox \<Rightarrow> tox \<times> (error + (nat \<times> string))" where
  "sendToOldAPI env base to msg msgType w =
     (case oldAPI base to msg msgType of
        None \<Rightarrow> (w, Inl (''no old API fallback for type '' @ msgType))
      | Some (url, form) \<Rightarrow> tox_send env url form w)"

definition dec_error :: "string decoder" where
  "dec_error = dec_struct [(''error'', \<lambda>r j. dec_string r j)]"

text \<open>What an answer says: its status, or an \<open>error\<close> in its body.\<close>

definition tox_result :: "toxEnv \<Rightarrow> string \<Rightarrow> nat \<Rightarrow> string \<Rightarrow> error option" where
  "tox_result env what code body =
     (if code \<noteq> 200 then Some (''toxoverhttp: '' @ what @ ''status '' @ show_nat code @ '': '' @ trim_space body)
      else case unmarshal dec_error [] (tx_json env body) of
        Some e \<Rightarrow> if e \<noteq> [] then Some (''toxoverhttp: '' @ what @ e) else None
      | None \<Rightarrow> None)"

definition toxrest_Send :: "toxEnv \<Rightarrow> string \<Rightarrow> string \<Rightarrow> string \<Rightarrow> string \<Rightarrow> tox \<Rightarrow> tox \<times> error option" where
  "toxrest_Send env base to msg msgType w =
     (if to = [] \<or> msg = [] then (w, Some ''toxoverhttp: empty to or message'')
      else if base = [] then (w, Some ''toxoverhttp: server URL not configured'')
      else case tox_send env (base @ ''/api/messages/send'') [(''type'', msgType), (''id'', to), (''message'', msg)] w of
        (w1, Inl e) \<Rightarrow> (w1, Some (''toxoverhttp: '' @ e))
      | (w1, Inr (status, body)) \<Rightarrow>
          if status = 404 then
            (case sendToOldAPI env base to msg msgType w1 of
               (w2, Inl e) \<Rightarrow> (w2, Some (''toxoverhttp: fallback: '' @ e))
             | (w2, Inr (code, fb)) \<Rightarrow> (w2, tox_result env (if code \<noteq> 200 then ''fallback '' else ''fallback: '') code fb))
          else (w1, tox_result env [] status body))"

section \<open>Properties\<close>

definition tox_ids :: "tox \<Rightarrow> int list" where
  "tox_ids w = List.map_filter (\<lambda>p. case p of ToxEvent ev \<Rightarrow> Some (te_ID ev) | ToxUM um \<Rightarrow> None) (tx_pubs w)"

text \<open>One run of the server: the next number it reports is not below the marker it is asked with, and its events
  are beyond the marker, in order.\<close>

definition server_run :: "toxEnv \<Rightarrow> bool" where
  "server_run env \<longleftrightarrow> (\<forall>n a h body. tx_get env n a = Inr (h, body) \<longrightarrow>
     (case parseUint h of Some nid \<Rightarrow> a \<le> nid | None \<Rightarrow> True) \<and>
     (\<forall>evs. unmarshal (dec_list zeroToxEvent (dec_toxEvent (tx_time env))) [] (tx_json env body) = Some evs \<longrightarrow>
        sorted_wrt (<) (map te_ID evs) \<and> (\<forall>ev \<in> set evs. a < te_ID ev)))"

definition tox_ok :: "tox \<Rightarrow> bool" where
  "tox_ok w \<longleftrightarrow> sorted_wrt (<) (tox_ids w) \<and> (\<forall>i \<in> set (tox_ids w). i \<le> tx_after w)"

lemma tox_events:
  assumes "sorted_wrt (<) (map te_ID evs)" "\<forall>i \<in> set (tox_ids w). \<forall>ev \<in> set evs. i < te_ID ev" "tox_ok w"
  shows "tox_ok (foldl (tox_event env) w evs)"
  using assms
proof (induction evs arbitrary: w)
  case (Cons ev evs)
  have s: "tox_ids (tox_event env w ev) = tox_ids w \<or> tox_ids (tox_event env w ev) = tox_ids w @ [te_ID ev]"
    by (auto simp: tox_event_def tox_publish_def tox_ids_def List.map_filter_def Let_def split: option.split)
  have a: "tx_after (tox_event env w ev) = max (tx_after w) (te_ID ev)"
    by (auto simp: tox_event_def tox_publish_def Let_def split: option.split)
  have "tox_ok (tox_event env w ev)" using s a Cons.prems by (fastforce simp: tox_ok_def sorted_wrt_append)
  moreover have "\<forall>i \<in> set (tox_ids (tox_event env w ev)). \<forall>e \<in> set evs. i < te_ID e" using s Cons.prems by auto
  ultimately show ?case using Cons.IH Cons.prems(1) by simp
qed simp

lemma toxRound_ok:
  assumes c: "server_run env" and ok: "tox_ok w"
  shows "tox_ok (toxRound env w)"
proof (cases "tx_get env (length (tx_gets w)) (tx_after w)")
  case (Inl e) then show ?thesis using ok by (simp add: toxRound_def tox_pushError_def tox_ok_def tox_ids_def)
next
  case (Inr r)
  obtain h body where r: "r = (h, body)" by fastforce
  define w2 where "w2 = note_next h (w\<lparr>tx_gets := tx_gets w @ [tx_after w]\<rparr>)"
  have "case parseUint h of Some nid \<Rightarrow> tx_after w \<le> nid | None \<Rightarrow> True" using c Inr r unfolding server_run_def by blast
  then have w2: "tox_ids w2 = tox_ids w" "tx_after w \<le> tx_after w2"
    by (auto simp: w2_def note_next_def tox_ids_def split: option.splits)
  then have ok2: "tox_ok w2" using ok by (auto simp: tox_ok_def)
  show ?thesis
  proof (cases "unmarshal (dec_list zeroToxEvent (dec_toxEvent (tx_time env))) [] (tx_json env body)")
    case None
    then have "toxRound env w = tox_pushError ''decode error'' w2" using Inr r by (simp add: toxRound_def w2_def)
    then show ?thesis using ok2 by (simp add: tox_pushError_def tox_ok_def tox_ids_def)
  next
    case (Some evs)
    then have e: "sorted_wrt (<) (map te_ID evs)" "\<forall>ev \<in> set evs. tx_after w < te_ID ev"
      using c Inr r unfolding server_run_def by blast+
    have "toxRound env w = foldl (tox_event env) w2 evs" using Inr r Some by (simp add: toxRound_def w2_def)
    moreover have "\<forall>i \<in> set (tox_ids w2). \<forall>ev \<in> set evs. i < te_ID ev"
      using e(2) ok w2(1) by (fastforce simp: tox_ok_def)
    ultimately show ?thesis using tox_events [OF e(1) _ ok2] by simp
  qed
qed

text \<open>Over any number of polls of one run of the server, events are handed on in ascending order and each once.\<close>

theorem tox_published_in_order:
  assumes "server_run env"
  shows "sorted_wrt (<) (tox_ids ((toxRound env ^^ k) tox_start))"
proof -
  have "tox_ok ((toxRound env ^^ k) tox_start)"
    by (induction k) (simp_all add: toxRound_ok [OF assms], simp add: tox_ok_def tox_ids_def tox_start_def List.map_filter_def)
  then show ?thesis by (simp add: tox_ok_def)
qed

text \<open>The first answer sets the marker to the next number, and events are only asked for beyond it.\<close>

lemma tox_first_marker:
  assumes "tx_get env 0 0 = Inr (h, body)" "parseUint h = Some nid"
    and "unmarshal (dec_list zeroToxEvent (dec_toxEvent (tx_time env))) [] (tx_json env body) = Some []"
  shows "tx_after (toxRound env tox_start) = nid"
  using assms by (simp add: toxRound_def tox_start_def note_next_def)

text \<open>A call reports success only if the last request it made was answered with 200 and no \<open>error\<close>, and that is
  the new interface or, after a 404, the old one of the type of the contact.\<close>

theorem toxrest_send_truthful:
  assumes "toxrest_Send env base to msg msgType w = (w', None)"
  shows "\<exists>n url form body. (url, form) = last (tx_posts w') \<and> Suc n = length (tx_posts w') \<and> tx_post env n url form = Inr (200, body)
    \<and> (\<forall>e. unmarshal dec_error [] (tx_json env body) = Some e \<longrightarrow> e = [])
    \<and> ((url, form) = (base @ ''/api/messages/send'', [(''type'', msgType), (''id'', to), (''message'', msg)])
       \<or> oldAPI base to msg msgType = Some (url, form))"
  using assms
  by (fastforce simp: toxrest_Send_def sendToOldAPI_def tox_send_def tox_result_def
      split: if_splits sum.splits prod.splits option.splits)

end
